(* ===== verification/Prelude.thy ===== *)
theory Prelude
  imports Main "HOL-Library.Sublist"
begin

text \<open>
  Shared vocabulary of the development: Python strings and the string methods the gateway
  uses (\<open>strip\<close>, \<open>lower\<close>, \<open>casefold\<close>, \<open>startswith\<close>, \<open>split\<close>, \<open>in\<close>), the Python
  values that travel in JSON payloads, and the generic list lemmas the components share.

  Text. A Python string is a list of characters; the model's characters are the code points
  0 to 255. On that range NFC normalisation is the identity, \<open>str.casefold\<close> is the
  ASCII and Latin-1 lower-casing plus the one expansion of sharp s to \<open>ss\<close>, and
  \<open>str.lower\<close> is the same without the expansion. (The micro sign folds to a code point
  outside the range; no other character of the range folds there, so leaving it unchanged
  keeps every comparison of folded strings as it is.)
\<close>

named_theorems pystr \<open>unfolding rules of the string operations\<close>
named_theorems inv_intro \<open>preservation lemmas of store operations\<close>

section \<open>Strings\<close>

type_synonym pystr = string

text \<open>A point in time, in microseconds since the epoch.\<close>

type_synonym instant = int

definition py_space :: "char \<Rightarrow> bool" where
  "py_space c \<longleftrightarrow>
     (let n = (of_char c :: nat)
      in (9 \<le> n \<and> n \<le> 13) \<or> (28 \<le> n \<and> n \<le> 32) \<or> n = 133 \<or> n = 160)"

definition lstrip :: "pystr \<Rightarrow> pystr" where
  "lstrip s = dropWhile py_space s"

definition rstrip :: "pystr \<Rightarrow> pystr" where
  "rstrip s = rev (dropWhile py_space (rev s))"

definition strip :: "pystr \<Rightarrow> pystr" where
  "strip s = rstrip (lstrip s)"

definition starts_with :: "pystr \<Rightarrow> pystr \<Rightarrow> bool" where
  "starts_with s p \<longleftrightarrow> take (length p) s = p"

text \<open>
  \<open>hmac.compare_digest\<close> on two strings: a \<open>TypeError\<close> when either has a character outside ASCII.
  The exceptions of pure functions are their class names.
\<close>

definition py_ascii :: "pystr \<Rightarrow> bool" where
  "py_ascii s \<longleftrightarrow> (\<forall>c \<in> set s. (of_char c :: nat) < 128)"

definition compare_digest :: "pystr \<Rightarrow> pystr \<Rightarrow> pystr + bool" where
  "compare_digest a b = (if py_ascii a \<and> py_ascii b then Inr (a = b) else Inl ''TypeError'')"

lemma compare_digest_Inr:
  "compare_digest a b = Inr v \<longleftrightarrow> py_ascii a \<and> py_ascii b \<and> v = (a = b)"
  by (auto simp: compare_digest_def)

text \<open>Python's \<open>needle in haystack\<close> on strings.\<close>

fun substring_of :: "pystr \<Rightarrow> pystr \<Rightarrow> bool" where
  "substring_of p [] \<longleftrightarrow> p = []"
| "substring_of p (c # s) \<longleftrightarrow> starts_with (c # s) p \<or> substring_of p s"

text \<open>
  \<open>re.sub\<close> with a pattern given by its match at the head of a string: the replacement and what follows
  the match, which is not empty.
\<close>

fun re_sub :: "(pystr \<Rightarrow> (pystr \<times> pystr) option) \<Rightarrow> pystr \<Rightarrow> pystr" where
  "re_sub m [] = []"
| "re_sub m (c # s) =
     (case m (c # s) of
        Some (new, rest) \<Rightarrow> if length rest \<le> length s then new @ re_sub m rest else c # s
      | None \<Rightarrow> c # re_sub m s)"

text \<open>\<open>s.split(c)\<close> on a one-character separator: always at least one part.\<close>

fun split_on :: "char \<Rightarrow> pystr \<Rightarrow> pystr list" where
  "split_on d [] = [[]]"
| "split_on d (c # s) =
     (if c = d then [] # split_on d s
      else (case split_on d s of [] \<Rightarrow> [[c]] | w # ws \<Rightarrow> (c # w) # ws))"

text \<open>\<open>s.split(c, 1)[0]\<close> and \<open>s.split(c, 1)[1]\<close> (the latter used only under \<open>c in s\<close>).\<close>

definition split1_head :: "char \<Rightarrow> pystr \<Rightarrow> pystr" where
  "split1_head d s = takeWhile (\<lambda>c. c \<noteq> d) s"

definition split1_tail :: "char \<Rightarrow> pystr \<Rightarrow> pystr" where
  "split1_tail d s = tl (dropWhile (\<lambda>c. c \<noteq> d) s)"

definition replace_char :: "char \<Rightarrow> char \<Rightarrow> pystr \<Rightarrow> pystr" where
  "replace_char a b s = map (\<lambda>c. if c = a then b else c) s"

definition lower_char :: "char \<Rightarrow> char" where
  "lower_char c =
     (let n = (of_char c :: nat)
      in if (65 \<le> n \<and> n \<le> 90) \<or> (192 \<le> n \<and> n \<le> 222 \<and> n \<noteq> 215)
         then char_of (n + 32) else c)"

definition lower :: "pystr \<Rightarrow> pystr" where
  "lower s = map lower_char s"

definition casefold_char :: "char \<Rightarrow> pystr" where
  "casefold_char c = (if (of_char c :: nat) = 223 then ''ss'' else [lower_char c])"

definition casefold :: "pystr \<Rightarrow> pystr" where
  "casefold s = concat (map casefold_char s)"

fun join :: "pystr \<Rightarrow> pystr list \<Rightarrow> pystr" where
  "join sep [] = []"
| "join sep [w] = w"
| "join sep (w # v # ws) = w @ sep @ join sep (v # ws)"

text \<open>Single quotes around a value, as the f-strings of the explanations write them.\<close>

definition quoted :: "pystr \<Rightarrow> pystr" where
  "quoted s = [CHR 0x27] @ s @ [CHR 0x27]"

text \<open>\<open>str(n)\<close> for integers.\<close>

fun show_nat :: "nat \<Rightarrow> pystr" where
  "show_nat n = (if n < 10 then [char_of (48 + n)]
                 else show_nat (n div 10) @ [char_of (48 + n mod 10)])"

declare show_nat.simps [simp del]

definition show_int :: "int \<Rightarrow> pystr" where
  "show_int i = (if i < 0 then CHR 0x2D # show_nat (nat (- i)) else show_nat (nat i))"

section \<open>JSON values\<close>

text \<open>
  The values of \<open>dict[str, Any]\<close> payloads. A dictionary is an association list in insertion
  order, read by its first matching key. A float is a dyadic rational (mantissa, exponent).
\<close>

datatype json =
    JNull
  | JBool bool
  | JInt int
  | JFloat int int
  | JStr pystr
  | JArr "json list"
  | JObj "(pystr \<times> json) list"

type_synonym jobj = "(pystr \<times> json) list"

text \<open>\<open>d.get(k)\<close>: absent keys read as \<open>None\<close>, which \<open>JNull\<close> is too.\<close>

definition jget :: "jobj \<Rightarrow> pystr \<Rightarrow> json" where
  "jget d k = (case map_of d k of None \<Rightarrow> JNull | Some v \<Rightarrow> v)"

text \<open>\<open>d[k] = v\<close> and \<open>d.update(e)\<close>: a key keeps its place. Then the truth value of a JSON value.\<close>

definition dict_set :: "jobj \<Rightarrow> pystr \<Rightarrow> json \<Rightarrow> jobj" where
  "dict_set d k v =
     (if k \<in> fst ` set d then map (\<lambda>kv. if fst kv = k then (k, v) else kv) d else d @ [(k, v)])"

definition dict_update :: "jobj \<Rightarrow> jobj \<Rightarrow> jobj" where
  "dict_update d e = fold (\<lambda>kv d. dict_set d (fst kv) (snd kv)) e d"

fun json_truthy :: "json \<Rightarrow> bool" where
  "json_truthy JNull \<longleftrightarrow> False"
| "json_truthy (JBool b) \<longleftrightarrow> b"
| "json_truthy (JInt i) \<longleftrightarrow> i \<noteq> 0"
| "json_truthy (JFloat m e) \<longleftrightarrow> m \<noteq> 0"
| "json_truthy (JStr s) \<longleftrightarrow> s \<noteq> []"
| "json_truthy (JArr vs) \<longleftrightarrow> vs \<noteq> []"
| "json_truthy (JObj kvs) \<longleftrightarrow> kvs \<noteq> []"

definition opt_str :: "pystr option \<Rightarrow> json" where
  "opt_str s = (case s of None \<Rightarrow> JNull | Some t \<Rightarrow> JStr t)"

definition opt_int :: "int option \<Rightarrow> json" where
  "opt_int s = (case s of None \<Rightarrow> JNull | Some t \<Rightarrow> JInt t)"

text \<open>\<open>(x or "")\<close> for an optional string, and its truth value.\<close>

definition or_empty :: "pystr option \<Rightarrow> pystr" where
  "or_empty s = (case s of None \<Rightarrow> [] | Some t \<Rightarrow> t)"

definition truthy :: "pystr option \<Rightarrow> bool" where
  "truthy s \<longleftrightarrow> or_empty s \<noteq> []"

text \<open>
  Numbers among the JSON values: booleans are integers in Python. \<open>num_of\<close> reads a number as a
  dyadic (mantissa, exponent), \<open>num_eq\<close> is \<open>==\<close> on such numbers and \<open>py_trunc\<close> is \<open>int(x)\<close>.
\<close>

fun num_of :: "json \<Rightarrow> (int \<times> int) option" where
  "num_of (JBool b) = Some (if b then 1 else 0, 0)"
| "num_of (JInt i) = Some (i, 0)"
| "num_of (JFloat m e) = Some (m, e)"
| "num_of _ = None"

definition num_eq :: "int \<times> int \<Rightarrow> int \<times> int \<Rightarrow> bool" where
  "num_eq a b \<longleftrightarrow>
     (let k = min (snd a) (snd b)
      in fst a * 2 ^ nat (snd a - k) = fst b * 2 ^ nat (snd b - k))"

definition py_trunc :: "int \<times> int \<Rightarrow> int" where
  "py_trunc a =
     (if 0 \<le> snd a then fst a * 2 ^ nat (snd a)
      else sgn (fst a) * (\<bar>fst a\<bar> div 2 ^ nat (- snd a)))"

text \<open>
  \<open>int(s)\<close> on a string: white space around, an optional sign, decimal digits with single
  underscores between them, at most 4300 digits; \<open>None\<close> where Python raises ValueError.
\<close>

definition digit_val :: "char \<Rightarrow> nat option" where
  "digit_val c = (let n = (of_char c :: nat) in if 48 \<le> n \<and> n \<le> 57 then Some (n - 48) else None)"

fun digits_val :: "pystr \<Rightarrow> int \<Rightarrow> nat \<Rightarrow> bool \<Rightarrow> int option" where
  "digits_val [] acc n after_digit = (if after_digit \<and> n \<le> 4300 then Some acc else None)"
| "digits_val (c # s) acc n after_digit =
     (case digit_val c of
        Some d \<Rightarrow> digits_val s (acc * 10 + int d) (Suc n) True
      | None \<Rightarrow> if c = CHR ''_'' \<and> after_digit then digits_val s acc n False else None)"

definition py_int :: "pystr \<Rightarrow> int option" where
  "py_int s =
     (case strip s of
        [] \<Rightarrow> None
      | c # t \<Rightarrow>
          if c = CHR ''-'' then map_option uminus (digits_val t 0 0 False)
          else if c = CHR ''+'' then digits_val t 0 0 False
          else digits_val (c # t) 0 0 False)"

text \<open>\<open>s.upper()\<close>, up to the two letters whose capital is outside the model's characters.\<close>

definition py_upper :: "pystr \<Rightarrow> pystr" where
  "py_upper s =
     concat (map (\<lambda>c. let n = (of_char c :: nat)
                      in if n = 223 then ''SS''
                         else if (97 \<le> n \<and> n \<le> 122) \<or> (224 \<le> n \<and> n \<le> 254 \<and> n \<noteq> 247)
                         then [char_of (n - 32)] else [c]) s)"

text \<open>\<open>repr(s)\<close> on a string.\<close>

definition hex_digit :: "nat \<Rightarrow> char" where
  "hex_digit n = char_of (if n < 10 then 48 + n else 87 + n)"

definition repr_char :: "char \<Rightarrow> char \<Rightarrow> pystr" where
  "repr_char q c =
     (let n = (of_char c :: nat) in
      if c = q \<or> n = 92 then [CHR 0x5C, c]
      else if n = 10 then [CHR 0x5C, CHR ''n'']
      else if n = 13 then [CHR 0x5C, CHR ''r'']
      else if n = 9 then [CHR 0x5C, CHR ''t'']
      else if n < 32 \<or> (127 \<le> n \<and> n \<le> 160) \<or> n = 173 then
        [CHR 0x5C, CHR ''x'', hex_digit (n div 16), hex_digit (n mod 16)]
      else [c])"

definition py_repr :: "pystr \<Rightarrow> pystr" where
  "py_repr s =
     (let q = (if CHR 0x27 \<in> set s \<and> CHR 0x22 \<notin> set s then CHR 0x22 else CHR 0x27)
      in [q] @ concat (map (repr_char q) s) @ [q])"

text \<open>
  \<open>str(v)\<close> on a JSON value (\<open>repr\<close> inside containers); the shortest decimal of a float is the
  argument \<open>fl\<close>.
\<close>

fun json_repr :: "(int \<Rightarrow> int \<Rightarrow> pystr) \<Rightarrow> json \<Rightarrow> pystr" where
  "json_repr fl JNull = ''None''"
| "json_repr fl (JBool b) = (if b then ''True'' else ''False'')"
| "json_repr fl (JInt i) = show_int i"
| "json_repr fl (JFloat m e) = fl m e"
| "json_repr fl (JStr s) = py_repr s"
| "json_repr fl (JArr vs) = ''['' @ join '', '' (map (json_repr fl) vs) @ '']''"
| "json_repr fl (JObj kvs) =
     ''{'' @ join '', '' (map (\<lambda>kv. py_repr (fst kv) @ '': '' @ json_repr fl (snd kv)) kvs) @ ''}''"

definition json_text :: "(int \<Rightarrow> int \<Rightarrow> pystr) \<Rightarrow> json \<Rightarrow> pystr" where
  "json_text fl v = (case v of JStr s \<Rightarrow> s | _ \<Rightarrow> json_repr fl v)"

text \<open>\<open>len(s.encode("utf-8"))\<close>: one byte below 128, two from there to 255.\<close>

definition utf8_length :: "pystr \<Rightarrow> nat" where
  "utf8_length s = sum_list (map (\<lambda>c. if (of_char c :: nat) < 128 then 1 else 2) s)"

section \<open>Shared lemmas\<close>

lemma or_empty_simps [simp]: "or_empty None = []" "or_empty (Some t) = t"
  by (simp_all add: or_empty_def)

lemma starts_with_Nil [simp]: "starts_with s []"
  by (simp add: starts_with_def)

lemma starts_with_iff_prefix: "starts_with s p \<longleftrightarrow> prefix p s"
  by (metis append_take_drop_id prefix_def starts_with_def append_eq_conv_conj)

lemma substring_of_iff: "substring_of p s \<longleftrightarrow> (\<exists>u v. s = u @ p @ v)"
proof (induction s)
  case Nil
  then show ?case by auto
next
  case (Cons c s)
  show ?case
  proof
    assume "substring_of p (c # s)"
    then consider "starts_with (c # s) p" | "substring_of p s" by auto
    then show "\<exists>u v. c # s = u @ p @ v"
    proof cases
      case 1
      then obtain v where "c # s = p @ v"
        by (auto simp: starts_with_iff_prefix prefix_def)
      then have "c # s = [] @ p @ v" by simp
      then show ?thesis by blast
    next
      case 2
      then obtain u v where "s = u @ p @ v" using Cons.IH by auto
      then have "c # s = (c # u) @ p @ v" by simp
      then show ?thesis by blast
    qed
  next
    assume "\<exists>u v. c # s = u @ p @ v"
    then obtain u v where eq: "c # s = u @ p @ v" by blast
    show "substring_of p (c # s)"
    proof (cases u)
      case Nil
      with eq have "starts_with (c # s) p"
        by (auto simp: starts_with_iff_prefix prefix_def)
      then show ?thesis by simp
    next
      case (Cons d u')
      with eq have "s = u' @ p @ v" by simp
      then show ?thesis using Cons.IH by auto
    qed
  qed
qed

lemma substring_of_singleton [simp]: "substring_of [c] s \<longleftrightarrow> c \<in> set s"
  by (simp add: substring_of_iff) (metis in_set_conv_decomp append_Cons append_Nil)

lemma split_on_nonempty [simp]: "split_on d s \<noteq> []"
  by (induction s) (auto split: list.splits)

lemma split_on_no_sep: "w \<in> set (split_on d s) \<Longrightarrow> d \<notin> set w"
proof (induction s arbitrary: w)
  case Nil
  then show ?case by simp
next
  case (Cons c s)
  then show ?case by (cases "split_on d s") (auto split: if_splits)
qed

lemma split_on_chars: "w \<in> set (split_on d s) \<Longrightarrow> set w \<subseteq> set s"
proof (induction s arbitrary: w)
  case Nil
  then show ?case by simp
next
  case (Cons c s)
  then show ?case by (cases "split_on d s") (fastforce split: if_splits)+
qed

lemma split_on_absent: "d \<notin> set s \<Longrightarrow> split_on d s = [s]"
  by (induction s) auto

lemma split_on_append: "d \<notin> set w \<Longrightarrow> split_on d (w @ d # s) = w # split_on d s"
  by (induction w) auto

lemma split_on_join:
  "ws \<noteq> [] \<Longrightarrow> (\<And>w. w \<in> set ws \<Longrightarrow> d \<notin> set w) \<Longrightarrow> split_on d (join [d] ws) = ws"
proof (induction "[d]" ws rule: join.induct)
  case 1
  then show ?case by simp
next
  case (2 w)
  then show ?case by (simp add: split_on_absent)
next
  case (3 w v ws)
  then show ?case by (simp add: split_on_append)
qed

lemma rev_dropWhile_id: "s \<noteq> [] \<Longrightarrow> \<not> P (last s) \<Longrightarrow> rev (dropWhile P (rev s)) = s"
  by (metis dropWhile_eq_self_iff hd_rev rev_rev_ident)

lemma strip_id:
  assumes "s = [] \<or> (\<not> py_space (hd s) \<and> \<not> py_space (last s))"
  shows "strip s = s"
proof (cases "s = []")
  case True
  then show ?thesis by (simp add: strip_def lstrip_def rstrip_def)
next
  case False
  with assms have "lstrip s = s" by (simp add: lstrip_def dropWhile_eq_self_iff)
  with False assms show ?thesis by (simp add: strip_def rstrip_def rev_dropWhile_id)
qed

lemma set_strip: "set (strip s) \<subseteq> set s"
  by (auto simp: strip_def lstrip_def rstrip_def dest!: set_dropWhileD)

lemma lower_length [simp]: "length (lower s) = length s"
  by (simp add: lower_def)

lemma split1_head_chars: "set (split1_head d s) \<subseteq> set s"
  by (auto simp: split1_head_def dest: set_takeWhileD)

lemma split1_tail_chars: "set (split1_tail d s) \<subseteq> set s"
proof -
  have "set (tl xs) \<subseteq> set xs" for xs :: "'a list" by (cases xs) auto
  then show ?thesis
    unfolding split1_tail_def by (meson set_dropWhileD subset_code(1) subsetD)
qed

lemma split1_rejoin: "d \<in> set s \<Longrightarrow> split1_head d s @ [d] @ split1_tail d s = s"
  unfolding split1_head_def split1_tail_def
  by (metis (mono_tags, lifting) append_Cons append_Nil dropWhile_eq_Nil_conv hd_dropWhile
      list.collapse takeWhile_dropWhile_id)

lemma find_SomeD: "find P xs = Some x \<Longrightarrow> x \<in> set xs \<and> P x"
  by (auto simp: find_Some_iff)

lemma find_ex: "x \<in> set xs \<Longrightarrow> P x \<Longrightarrow> \<exists>y. find P xs = Some y \<and> y \<in> set xs \<and> P y"
  by (cases "find P xs") (auto simp: find_None_iff dest: find_SomeD)

lemma strip_Nil_iff: "strip s = [] \<longleftrightarrow> (\<forall>c \<in> set s. py_space c)"
proof
  assume "strip s = []"
  then have all: "\<forall>c \<in> set (lstrip s). py_space c"
    by (simp add: strip_def rstrip_def dropWhile_eq_Nil_conv)
  have "lstrip s = []"
  proof (rule ccontr)
    assume ne: "lstrip s \<noteq> []"
    then have "\<not> py_space (hd (lstrip s))" unfolding lstrip_def by (rule hd_dropWhile)
    with ne all show False by simp
  qed
  then show "\<forall>c \<in> set s. py_space c" by (simp add: lstrip_def dropWhile_eq_Nil_conv)
next
  assume "\<forall>c \<in> set s. py_space c"
  then have "lstrip s = []" by (simp add: lstrip_def dropWhile_eq_Nil_conv)
  then show "strip s = []" by (simp add: strip_def rstrip_def)
qed

lemma strip_last: "strip s \<noteq> [] \<Longrightarrow> \<not> py_space (last (strip s))"
  unfolding strip_def rstrip_def by (simp add: last_rev hd_dropWhile)

end
