(* ===== verification/Models.thy ===== *)
theory Models
  imports Prelude
begin

text \<open>
  \<open>backend/scopewatch/models.py\<close>: the domain enumerations and the declared rule-set facts,
  and the policy identity derived from them. Every enumeration keeps the source's members in
  order, with a two-letter prefix where Python scopes them by class; \<open>*_value\<close> is the
  enumeration's \<open>.value\<close>.
\<close>

section \<open>Enumerations\<close>

datatype run_status = RS_ACTIVE | RS_WAITING_FOR_APPROVAL | RS_COMPLETED | RS_FAILED

datatype policy_outcome = PO_ALLOW | PO_DENY | PO_HOLD

datatype reason_code =
    RC_ALLOWED_TOOL_AND_RESOURCE
  | RC_TOOL_NOT_ALLOWED
  | RC_OPERATION_NOT_ALLOWED
  | RC_PATH_OUTSIDE_WORKSPACE
  | RC_PATH_NOT_ALLOWED
  | RC_BLOCKED_PATH
  | RC_PATH_TRAVERSAL
  | RC_SYMLINK_ESCAPE
  | RC_NETWORK_DISABLED
  | RC_APPROVAL_REQUIRED
  | RC_MALFORMED_REQUEST
  | RC_UNSUPPORTED_OPERATION
  | RC_SHELL_METACHARACTER
  | RC_COMMAND_NOT_ALLOWED
  | RC_POLICY_ERROR
  | RC_REASONING_UNAVAILABLE
  | RC_REASONING_SCOPE_CONCERN
  | RC_REASONING_AUDIT_FAILED

datatype approval_status = AS_PENDING | AS_APPROVED | AS_DENIED | AS_EXPIRED | AS_CONSUMED

datatype execution_status = XS_EXECUTED | XS_FAILED | XS_NOT_EXECUTED

datatype event_type =
    EV_RUN_CREATED
  | EV_ACTION_REQUESTED
  | EV_POLICY_ALLOWED
  | EV_POLICY_DENIED
  | EV_POLICY_HELD
  | EV_APPROVAL_REQUESTED
  | EV_APPROVAL_GRANTED
  | EV_APPROVAL_DENIED
  | EV_APPROVAL_EXPIRED
  | EV_EXECUTION_STARTED
  | EV_EXECUTION_SUCCEEDED
  | EV_EXECUTION_FAILED
  | EV_RUN_COMPLETED
  | EV_SYSTEM_ERROR
  | EV_REASONING_AUDIT_COMPLETED
  | EV_REASONING_AUDIT_FAILED
  | EV_WORKSPACE_PRUNE_ATTEMPTED
  | EV_WORKSPACE_PRUNED
  | EV_WORKSPACE_PRUNE_FAILED

datatype provenance =
    RP_UNAVAILABLE
  | RP_AGENT_AUTHORED_SUMMARY
  | RP_PROVIDER_EXPOSED_TRACE
  | RP_SYNTHETIC_FIXTURE
  | RP_CALLER_ASSERTED_PROVIDER_TRACE
  | RP_CALLER_ASSERTED_SUMMARY

fun run_status_value :: "run_status \<Rightarrow> pystr" where
  "run_status_value RS_ACTIVE = ''ACTIVE''"
| "run_status_value RS_WAITING_FOR_APPROVAL = ''WAITING_FOR_APPROVAL''"
| "run_status_value RS_COMPLETED = ''COMPLETED''"
| "run_status_value RS_FAILED = ''FAILED''"

fun policy_outcome_value :: "policy_outcome \<Rightarrow> pystr" where
  "policy_outcome_value PO_ALLOW = ''ALLOW''"
| "policy_outcome_value PO_DENY = ''DENY''"
| "policy_outcome_value PO_HOLD = ''HOLD''"

fun reason_code_value :: "reason_code \<Rightarrow> pystr" where
  "reason_code_value RC_ALLOWED_TOOL_AND_RESOURCE = ''ALLOWED_TOOL_AND_RESOURCE''"
| "reason_code_value RC_TOOL_NOT_ALLOWED = ''TOOL_NOT_ALLOWED''"
| "reason_code_value RC_OPERATION_NOT_ALLOWED = ''OPERATION_NOT_ALLOWED''"
| "reason_code_value RC_PATH_OUTSIDE_WORKSPACE = ''PATH_OUTSIDE_WORKSPACE''"
| "reason_code_value RC_PATH_NOT_ALLOWED = ''PATH_NOT_ALLOWED''"
| "reason_code_value RC_BLOCKED_PATH = ''BLOCKED_PATH''"
| "reason_code_value RC_PATH_TRAVERSAL = ''PATH_TRAVERSAL''"
| "reason_code_value RC_SYMLINK_ESCAPE = ''SYMLINK_ESCAPE''"
| "reason_code_value RC_NETWORK_DISABLED = ''NETWORK_DISABLED''"
| "reason_code_value RC_APPROVAL_REQUIRED = ''APPROVAL_REQUIRED''"
| "reason_code_value RC_MALFORMED_REQUEST = ''MALFORMED_REQUEST''"
| "reason_code_value RC_UNSUPPORTED_OPERATION = ''UNSUPPORTED_OPERATION''"
| "reason_code_value RC_SHELL_METACHARACTER = ''SHELL_METACHARACTER''"
| "reason_code_value RC_COMMAND_NOT_ALLOWED = ''COMMAND_NOT_ALLOWED''"
| "reason_code_value RC_POLICY_ERROR = ''POLICY_ERROR''"
| "reason_code_value RC_REASONING_UNAVAILABLE = ''REASONING_UNAVAILABLE''"
| "reason_code_value RC_REASONING_SCOPE_CONCERN = ''REASONING_SCOPE_CONCERN''"
| "reason_code_value RC_REASONING_AUDIT_FAILED = ''REASONING_AUDIT_FAILED''"

fun approval_status_value :: "approval_status \<Rightarrow> pystr" where
  "approval_status_value AS_PENDING = ''PENDING''"
| "approval_status_value AS_APPROVED = ''APPROVED''"
| "approval_status_value AS_DENIED = ''DENIED''"
| "approval_status_value AS_EXPIRED = ''EXPIRED''"
| "approval_status_value AS_CONSUMED = ''CONSUMED''"

fun execution_status_value :: "execution_status \<Rightarrow> pystr" where
  "execution_status_value XS_EXECUTED = ''EXECUTED''"
| "execution_status_value XS_FAILED = ''FAILED''"
| "execution_status_value XS_NOT_EXECUTED = ''NOT_EXECUTED''"

fun provenance_value :: "provenance \<Rightarrow> pystr" where
  "provenance_value RP_UNAVAILABLE = ''UNAVAILABLE''"
| "provenance_value RP_AGENT_AUTHORED_SUMMARY = ''AGENT_AUTHORED_SUMMARY''"
| "provenance_value RP_PROVIDER_EXPOSED_TRACE = ''PROVIDER_EXPOSED_TRACE''"
| "provenance_value RP_SYNTHETIC_FIXTURE = ''SYNTHETIC_FIXTURE''"
| "provenance_value RP_CALLER_ASSERTED_PROVIDER_TRACE = ''CALLER_ASSERTED_PROVIDER_TRACE''"
| "provenance_value RP_CALLER_ASSERTED_SUMMARY = ''CALLER_ASSERTED_SUMMARY''"

section \<open>Declared rule-set facts\<close>

definition SUPPORTED_TOOLS :: "pystr list" where
  "SUPPORTED_TOOLS = [''workspace'']"

definition SUPPORTED_OPERATIONS :: "pystr list" where
  "SUPPORTED_OPERATIONS =
     [''list_directory'', ''read_text'', ''write_text'', ''delete_path'',
      ''network_request'', ''run_command'']"

definition EXECUTABLE_OPERATIONS :: "pystr list" where
  "EXECUTABLE_OPERATIONS = [''list_directory'', ''read_text'', ''write_text'', ''run_command'']"

definition RUN_COMMAND_METACHARACTERS :: "pystr list" where
  "RUN_COMMAND_METACHARACTERS =
     ['';'', ''&'', ''|'', ''>'', ''<'', [CHR 0x60], ''$('', [CHR 0x0A], [CHR 0x0D], [CHR 0x00]]"

definition RUN_COMMAND_ALLOWED_FLAGS :: "(pystr list \<times> pystr list) list" where
  "RUN_COMMAND_ALLOWED_FLAGS =
     [([''pytest''],
       [''--rootdir'', ''--junitxml'', ''--confcutdir'', ''--basetemp'', ''-o'']),
      ([''python'', ''-m'', ''pytest''],
       [''--rootdir'', ''--junitxml'', ''--confcutdir'', ''--basetemp'', ''-o'']),
      ([''python''], [''-c'', ''-m''])]"

definition POLICY_RULES_REVISION :: pystr where
  "POLICY_RULES_REVISION = ''2026-10-28.1''"

definition LEGACY_POLICY_VERSION_LABEL :: pystr where
  "LEGACY_POLICY_VERSION_LABEL = ''unknown (legacy)''"

definition POLICY_FINGERPRINT_LENGTH :: nat where
  "POLICY_FINGERPRINT_LENGTH = 12"

section \<open>Policy identity\<close>

text \<open>
  The fingerprint is a SHA-256 prefix of the canonical JSON of the declared facts. The two
  library functions it composes, \<open>sha256_hex\<close> (\<open>hashlib.sha256(..).hexdigest()\<close>) and
  \<open>dumps\<close> (\<open>json.dumps(.., sort_keys=True, separators=(",", ":"))\<close>), are arguments, so
  that the payload and its truncation are what is modelled here.
\<close>

definition all_reason_codes :: "reason_code list" where
  "all_reason_codes =
     [RC_ALLOWED_TOOL_AND_RESOURCE, RC_TOOL_NOT_ALLOWED, RC_OPERATION_NOT_ALLOWED,
      RC_PATH_OUTSIDE_WORKSPACE, RC_PATH_NOT_ALLOWED, RC_BLOCKED_PATH, RC_PATH_TRAVERSAL,
      RC_SYMLINK_ESCAPE, RC_NETWORK_DISABLED, RC_APPROVAL_REQUIRED, RC_MALFORMED_REQUEST,
      RC_UNSUPPORTED_OPERATION, RC_SHELL_METACHARACTER, RC_COMMAND_NOT_ALLOWED,
      RC_POLICY_ERROR, RC_REASONING_UNAVAILABLE, RC_REASONING_SCOPE_CONCERN,
      RC_REASONING_AUDIT_FAILED]"

fun str_le :: "pystr \<Rightarrow> pystr \<Rightarrow> bool" where
  "str_le [] _ = True"
| "str_le (_ # _) [] = False"
| "str_le (c # s) (d # t) =
     ((of_char c :: nat) < of_char d \<or> (c = d \<and> str_le s t))"

fun str_insert :: "pystr \<Rightarrow> pystr list \<Rightarrow> pystr list" where
  "str_insert s [] = [s]"
| "str_insert s (t # ts) = (if str_le s t then s # t # ts else t # str_insert s ts)"

definition sorted_strs :: "pystr list \<Rightarrow> pystr list" where
  "sorted_strs ss = foldr str_insert ss []"

definition policy_rules_payload :: jobj where
  "policy_rules_payload =
     [(''reason_codes'', JArr (map JStr (sorted_strs (map reason_code_value all_reason_codes)))),
      (''supported_tools'', JArr (map JStr (sorted_strs SUPPORTED_TOOLS))),
      (''supported_operations'', JArr (map JStr (sorted_strs SUPPORTED_OPERATIONS))),
      (''executable_operations'', JArr (map JStr (sorted_strs EXECUTABLE_OPERATIONS))),
      (''run_command_metacharacters'', JArr (map JStr RUN_COMMAND_METACHARACTERS)),
      (''run_command_allowed_flags'',
       JArr (map (\<lambda>(prefix, flags).
                    JObj [(''prefix'', JArr (map JStr prefix)), (''flags'', JArr (map JStr flags))])
                 RUN_COMMAND_ALLOWED_FLAGS))]"

definition policy_rules_fingerprint :: "(pystr \<Rightarrow> pystr) \<Rightarrow> (json \<Rightarrow> pystr) \<Rightarrow> pystr" where
  "policy_rules_fingerprint sha256_hex dumps =
     take POLICY_FINGERPRINT_LENGTH (sha256_hex (dumps (JObj policy_rules_payload)))"

definition get_policy_version :: "(pystr \<Rightarrow> pystr) \<Rightarrow> (json \<Rightarrow> pystr) \<Rightarrow> pystr" where
  "get_policy_version sha256_hex dumps =
     POLICY_RULES_REVISION @ ''+'' @ policy_rules_fingerprint sha256_hex dumps"

definition format_policy_version :: "pystr option \<Rightarrow> pystr" where
  "format_policy_version v =
     (case v of
        Some s \<Rightarrow> if s \<noteq> [] \<and> strip s \<noteq> [] then s else LEGACY_POLICY_VERSION_LABEL
      | None \<Rightarrow> LEGACY_POLICY_VERSION_LABEL)"

section \<open>Lemmas\<close>

lemma all_reason_codes_complete: "set all_reason_codes = UNIV"
proof -
  have "c \<in> set all_reason_codes" for c by (cases c) (simp_all add: all_reason_codes_def)
  then show ?thesis by auto
qed

lemma reason_code_value_inj: "reason_code_value a = reason_code_value b \<longleftrightarrow> a = b"
  by (cases a; cases b) simp_all

lemma set_str_insert [simp]: "set (str_insert s ts) = insert s (set ts)"
  by (induction ts) auto

lemma set_sorted_strs [simp]: "set (sorted_strs ss) = set ss"
  unfolding sorted_strs_def by (induction ss) auto

text \<open>
  Outcomes ordered by restrictiveness. \<open>ALLOW < HOLD < DENY\<close>: escalation is moving up in this
  order, so the rule that model output can only escalate is monotonicity in it.
\<close>

instantiation policy_outcome :: "{linorder}"
begin

fun severity_policy_outcome :: "policy_outcome \<Rightarrow> nat" where
  "severity_policy_outcome PO_ALLOW = 0"
| "severity_policy_outcome PO_HOLD = 1"
| "severity_policy_outcome PO_DENY = 2"

definition less_eq_policy_outcome :: "policy_outcome \<Rightarrow> policy_outcome \<Rightarrow> bool" where
  "less_eq_policy_outcome a b \<longleftrightarrow> severity_policy_outcome a \<le> severity_policy_outcome b"

definition less_policy_outcome :: "policy_outcome \<Rightarrow> policy_outcome \<Rightarrow> bool" where
  "less_policy_outcome a b \<longleftrightarrow> severity_policy_outcome a < severity_policy_outcome b"

instance
proof
  fix a b c :: policy_outcome
  show "a < b \<longleftrightarrow> a \<le> b \<and> \<not> b \<le> a"
    by (auto simp: less_eq_policy_outcome_def less_policy_outcome_def)
  show "a \<le> a" by (simp add: less_eq_policy_outcome_def)
  show "a \<le> b \<Longrightarrow> b \<le> c \<Longrightarrow> a \<le> c" by (simp add: less_eq_policy_outcome_def)
  show "a \<le> b \<Longrightarrow> b \<le> a \<Longrightarrow> a = b"
    by (cases a; cases b) (simp_all add: less_eq_policy_outcome_def)
  show "a \<le> b \<or> b \<le> a" by (auto simp: less_eq_policy_outcome_def)
qed

end

lemma outcome_le_simps [simp]:
  "PO_ALLOW \<le> o1" "o1 \<le> PO_DENY" "PO_HOLD \<le> o1 \<longleftrightarrow> o1 \<noteq> PO_ALLOW"
  "PO_DENY \<le> o1 \<longleftrightarrow> o1 = PO_DENY" "o1 \<le> PO_ALLOW \<longleftrightarrow> o1 = PO_ALLOW"
  by (cases o1; simp add: less_eq_policy_outcome_def)+

end
