(* ===== verification/Schemas.thy ===== *)
theory Schemas
  imports Models
begin

text \<open>
  \<open>backend/scopewatch/schemas.py\<close>: the domain objects as records. Timestamps written by the
  service (\<open>datetime.now(timezone.utc).isoformat()\<close>) are the instants they denote, in
  microseconds. The one timestamp the service parses back, an approval's \<open>expires_at\<close>, is a
  \<open>stamp\<close>: an instant, or a text \<open>datetime.fromisoformat\<close> rejects. \<open>str\<close> fields with a
  closed set of members stay strings where the schema has them as strings.
\<close>


datatype stamp = Stamp instant | BadStamp pystr

record task_scope =
  schema_version :: pystr
  task_description :: pystr
  allowed_paths :: "pystr list"
  blocked_paths :: "pystr list"
  allowed_tools :: "pystr list"
  allowed_operations :: "pystr list"
  allowed_network_destinations :: "pystr list"
  requires_approval :: "pystr list"
  require_reasoning_for :: "pystr list"
  allowed_commands :: "pystr list list"
  commands_requiring_approval :: "pystr list list"
  ts_created_at :: instant

record run =
  run_key :: pystr
  run_name :: pystr
  run_scope :: task_scope
  run_st :: run_status
  run_created_at :: instant
  run_updated_at :: instant
  run_synthetic :: bool
  interception_coverage :: pystr
  reasoning_availability :: pystr
  prompt_version :: "pystr option"
  workspace_path :: "pystr option"

record action =
  act_id :: pystr
  act_run_id :: pystr
  tool :: pystr
  operation :: pystr
  resource :: pystr
  arguments :: jobj
  requested_by :: pystr
  requested_at :: instant
  reasoning_summary :: "pystr option"
  exposed_trace :: "pystr option"
  reasoning_provenance :: provenance
  caller_claimed :: "provenance option"
  turn_id :: "pystr option"
  act_audit_id :: "pystr option"

record decision =
  dec_id :: pystr
  dec_action_id :: pystr
  outcome :: policy_outcome
  reason_code :: reason_code
  explanation :: pystr
  matched_rule :: pystr
  decided_at :: instant
  deterministic :: bool
  dec_audit_id :: "pystr option"
  policy_version :: "pystr option"

record approval =
  app_id :: pystr
  app_run_id :: pystr
  app_action_id :: pystr
  app_decision_id :: pystr
  app_status :: approval_status
  app_requested_at :: instant
  expires_at :: stamp
  resolved_at :: "instant option"
  resolved_by :: "pystr option"
  resolution_reason :: "pystr option"
  token_version :: int
  app_operation :: "pystr option"
  app_resource :: "pystr option"
  app_tool :: "pystr option"
  app_policy_version :: "pystr option"

record receipt =
  rec_id :: pystr
  rec_action_id :: pystr
  rec_status :: execution_status
  started_at :: instant
  completed_at :: instant
  rec_executor :: pystr
  sanitized_result :: "jobj option"
  rec_error_code :: "pystr option"
  rec_resource :: pystr
  rec_operation :: pystr

record event =
  ev_sequence :: nat
  ev_id :: pystr
  ev_run_id :: pystr
  ev_type :: event_type
  ev_timestamp :: instant
  ev_actor :: pystr
  ev_summary :: pystr
  ev_action_id :: "pystr option"
  ev_decision_id :: "pystr option"
  ev_approval_id :: "pystr option"
  ev_receipt_id :: "pystr option"
  ev_turn_id :: "pystr option"
  ev_details :: jobj
  ev_synthetic :: bool

record tier_evidence =
  tier :: pystr
  attempted :: bool
  configured_model :: pystr
  resolved_profile :: "pystr option"
  te_profile :: pystr
  te_model :: pystr
  te_verdict :: pystr
  te_concern_type :: "pystr option"
  te_flagged_excerpts :: "pystr list"
  te_explanation :: pystr
  te_latency_ms :: int
  te_total_tokens :: "int option"
  te_error_code :: "pystr option"
  timeout_s :: int
  max_tokens :: int

record audit =
  aud_id :: pystr
  aud_run_id :: pystr
  aud_turn_id :: pystr
  trace_hash :: pystr
  verdict :: pystr
  concern_type :: "pystr option"
  flagged_excerpts :: "pystr list"
  aud_explanation :: pystr
  aud_model :: pystr
  aud_profile :: pystr
  latency_ms :: int
  aud_error_code :: "pystr option"
  audited_at :: instant
  total_tokens :: "int option"
  tiers :: "tier_evidence list"

text \<open>The public shape of a run: everything but the host-side \<open>workspace_path\<close>.\<close>

record run_response =
  rr_id :: pystr
  rr_name :: pystr
  rr_scope :: task_scope
  rr_status :: run_status
  rr_created_at :: instant
  rr_updated_at :: instant
  rr_synthetic :: bool
  rr_interception_coverage :: pystr
  rr_reasoning_availability :: pystr
  rr_prompt_version :: "pystr option"

definition run_response_from_run :: "run \<Rightarrow> run_response" where
  "run_response_from_run r =
     \<lparr>rr_id = run_key r, rr_name = run_name r, rr_scope = run_scope r, rr_status = run_st r,
      rr_created_at = run_created_at r, rr_updated_at = run_updated_at r,
      rr_synthetic = run_synthetic r, rr_interception_coverage = interception_coverage r,
      rr_reasoning_availability = reasoning_availability r,
      rr_prompt_version = prompt_version r\<rparr>"

record submit_request =
  sr_tool :: pystr
  sr_operation :: pystr
  sr_resource :: pystr
  sr_arguments :: jobj
  sr_requested_by :: "pystr option"
  sr_reasoning_summary :: "pystr option"
  sr_exposed_trace :: "pystr option"
  sr_provenance :: "provenance option"
  sr_turn_id :: "pystr option"

record action_response =
  ar_action :: action
  ar_decision :: "decision option"
  ar_approval :: "approval option"
  ar_receipt :: "receipt option"
  ar_events :: "event list"
  ar_audit :: "audit option"
  ar_audit_id :: "pystr option"

record approval_response =
  res_approval :: approval
  res_receipt :: "receipt option"
  res_events :: "event list"

section \<open>Ingress bounds on argument strings\<close>

definition MAX_WRITE_BYTES :: nat where
  "MAX_WRITE_BYTES = 64 * 1024"

definition MAX_ARGUMENT_STRING_CHARS :: nat where
  "MAX_ARGUMENT_STRING_CHARS = MAX_WRITE_BYTES"

text \<open>
  \<open>bound_argument_strings\<close> walks the argument values with an explicit stack (the head of the
  list is the top of the stack: \<open>pop()\<close> takes the last element pushed), so that the nesting
  depth of a payload never becomes recursion depth. \<open>jsize\<close> is the measure of the loop.
\<close>

fun jsize :: "json \<Rightarrow> nat" where
  "jsize (JArr vs) = Suc (sum_list (map jsize vs))"
| "jsize (JObj kvs) = Suc (sum_list (map (\<lambda>kv. jsize (snd kv)) kvs))"
| "jsize _ = 1"

lemma jsize_pos [simp]: "0 < jsize v"
  by (cases v) auto

function argument_strings_ok :: "json list \<Rightarrow> bool" where
  "argument_strings_ok [] = True"
| "argument_strings_ok (JStr s # stack) =
     (if MAX_ARGUMENT_STRING_CHARS < length s then False else argument_strings_ok stack)"
| "argument_strings_ok (JObj kvs # stack) = argument_strings_ok (rev (map snd kvs) @ stack)"
| "argument_strings_ok (JArr vs # stack) = argument_strings_ok (rev vs @ stack)"
| "argument_strings_ok (JNull # stack) = argument_strings_ok stack"
| "argument_strings_ok (JBool b # stack) = argument_strings_ok stack"
| "argument_strings_ok (JInt i # stack) = argument_strings_ok stack"
| "argument_strings_ok (JFloat m e # stack) = argument_strings_ok stack"
  by pat_completeness auto
termination
  by (relation "measure (\<lambda>stack. sum_list (map jsize stack))")
     (auto simp: sum_list_rev comp_def rev_map [symmetric])

definition bound_argument_strings :: "jobj \<Rightarrow> bool" where
  "bound_argument_strings value \<longleftrightarrow> argument_strings_ok [JObj value]"

text \<open>The declarative reading: no string anywhere in the payload is over the bound.\<close>

fun all_strings :: "(pystr \<Rightarrow> bool) \<Rightarrow> json \<Rightarrow> bool" where
  "all_strings P (JStr s) = P s"
| "all_strings P (JArr vs) = (\<forall>v \<in> set vs. all_strings P v)"
| "all_strings P (JObj kvs) = (\<forall>kv \<in> set kvs. all_strings P (snd kv))"
| "all_strings P _ = True"

lemma argument_strings_ok_iff:
  "argument_strings_ok stack \<longleftrightarrow>
     (\<forall>v \<in> set stack. all_strings (\<lambda>s. length s \<le> MAX_ARGUMENT_STRING_CHARS) v)"
  by (induction stack rule: argument_strings_ok.induct) auto

text \<open>
  The iterative argument walk of the ingress schema accepts a payload exactly when every
  string in it, at any depth, is within the executor's write limit. It is total, whatever the
  nesting depth.
\<close>

lemma bound_argument_strings_exact:
  "bound_argument_strings args \<longleftrightarrow>
     all_strings (\<lambda>s. length s \<le> MAX_ARGUMENT_STRING_CHARS) (JObj args)"
  by (simp add: bound_argument_strings_def argument_strings_ok_iff)

end
