(* ===== verification/ScopePaths.thy ===== *)
theory ScopePaths
  imports Schemas
begin

text \<open>
  \<open>backend/scopewatch/scope_paths.py\<close> and \<open>path_access.py\<close>: path normalisation, the prefix
  matchers (lexical, and by directory identity), the two-name scope check, and the cached
  case-sensitivity probe.

  A path is its list of components. What the code asks the operating system is a record of
  functions, the \<open>fsview\<close>: \<open>os.stat\<close> (an identity, a missing file, another error), the
  policy's \<open>_resolve\<close> (\<open>None\<close> where it raises), \<open>Path.is_symlink\<close> (\<open>None\<close> where it raises)
  and the probe of one directory. The disk of \<open>Store\<close> holds one.
\<close>

type_synonym path = "pystr list"

section \<open>Normalisation\<close>

definition normalize_relative_segments :: "pystr \<Rightarrow> path" where
  "normalize_relative_segments path_str =
     (let raw = replace_char (CHR 0x5C) (CHR 0x2F) (strip path_str)
      in filter (\<lambda>part. part \<noteq> [] \<and> part \<noteq> ''.'') (split_on (CHR 0x2F) raw))"

text \<open>\<open>pathlib\<close>'s reading of a relative path string: empty and \<open>.\<close> components dropped.\<close>

definition pure_path_parts :: "pystr \<Rightarrow> path" where
  "pure_path_parts s = filter (\<lambda>part. part \<noteq> [] \<and> part \<noteq> ''.'') (split_on (CHR 0x2F) s)"

section \<open>Folding\<close>

definition nfc :: "pystr \<Rightarrow> pystr" where
  "nfc s = s"

definition fold_segments :: "path \<Rightarrow> bool \<Rightarrow> path" where
  "fold_segments segments case_insensitive =
     (if \<not> case_insensitive then segments else map (\<lambda>part. casefold (nfc part)) segments)"

definition simple_fold :: "pystr \<Rightarrow> pystr" where
  "simple_fold name =
     concat (map (\<lambda>c. if length (casefold_char c) = 1 then casefold_char c else [c]) (nfc name))"

section \<open>The operating system's answers\<close>

datatype stat_result = StatOk nat | StatMissing | StatError

record fsview =
  os_stat :: "path \<Rightarrow> stat_result"
  os_resolve :: "path \<Rightarrow> path option"
  os_islink :: "path \<Rightarrow> bool option"
  case_probe :: "path \<Rightarrow> bool option"

definition same_file :: "fsview \<Rightarrow> path \<Rightarrow> path \<Rightarrow> bool option" where
  "same_file v left right =
     (case (os_stat v left, os_stat v right) of
        (StatOk i, StatOk j) \<Rightarrow> Some (i = j)
      | _ \<Rightarrow> None)"

definition exists_for_identity :: "fsview \<Rightarrow> path \<Rightarrow> bool option" where
  "exists_for_identity v p =
     (case os_stat v p of StatOk i \<Rightarrow> Some True | StatMissing \<Rightarrow> Some False | StatError \<Rightarrow> None)"

text \<open>The deepest existing parent answers; a missing root, or another error, is unknown.\<close>

function directory_verdict :: "fsview \<Rightarrow> path \<Rightarrow> bool option" where
  "directory_verdict v directory =
     (case os_stat v directory of
        StatMissing \<Rightarrow> if directory = [] then None else directory_verdict v (butlast directory)
      | StatError \<Rightarrow> None
      | StatOk i \<Rightarrow> case_probe v directory)"
  by pat_completeness auto
termination
  by (relation "measure (\<lambda>(v, directory). length directory)") auto

declare directory_verdict.simps [simp del]

section \<open>Matching by directory semantics and identity\<close>

text \<open>
  The loop over \<open>zip(path, prefix_parts)\<close>: \<open>seen_p\<close> and \<open>seen_q\<close> are the components already
  passed (\<open>path[:index]\<close> and \<open>prefix_parts[:index]\<close>).
\<close>

fun within_loop ::
  "fsview \<Rightarrow> path \<Rightarrow> bool \<Rightarrow> path \<Rightarrow> path \<Rightarrow> (pystr \<times> pystr) list \<Rightarrow> bool" where
  "within_loop v root allowed seen_p seen_q [] = True"
| "within_loop v root allowed seen_p seen_q ((name, expected) # rest) =
     (if name = expected
      then within_loop v root allowed (seen_p @ [name]) (seen_q @ [expected]) rest
      else
        let left = root @ seen_p @ [name];
            right = root @ seen_q @ [expected];
            identity = same_file v left right
        in if identity = None \<and> simple_fold name \<noteq> simple_fold expected
              \<and> (case (exists_for_identity v left, exists_for_identity v right) of
                   (Some a, Some b) \<Rightarrow> a \<noteq> b | _ \<Rightarrow> False)
           then False
           else if identity = Some False then False
           else if identity = Some True \<and> \<not> allowed
           then within_loop v root allowed (seen_p @ [name]) (seen_q @ [expected]) rest
           else
             let verdict = directory_verdict v (root @ seen_p)
             in if verdict = Some False \<or> (allowed \<and> verdict \<noteq> Some True) then False
                else if allowed \<and> simple_fold name \<noteq> simple_fold expected then False
                else if \<not> allowed \<and> fold_segments [name] True \<noteq> fold_segments [expected] True
                then False
                else within_loop v root allowed (seen_p @ [name]) (seen_q @ [expected]) rest)"

definition filesystem_path_within ::
  "fsview \<Rightarrow> path \<Rightarrow> pystr \<Rightarrow> path \<Rightarrow> bool \<Rightarrow> bool" where
  "filesystem_path_within v path prefix_str workspace_root allowed =
     (let prefix_parts = normalize_relative_segments prefix_str;
          blocked_root = workspace_root @ prefix_parts
      in if prefix_parts = [] then True
         else if \<not> allowed
                \<and> (\<exists>depth \<in> set [0..<length path + 1].
                     same_file v (workspace_root @ take depth path) blocked_root = Some True)
         then True
         else if length path < length prefix_parts then False
         else within_loop v workspace_root allowed [] [] (zip path prefix_parts))"

definition blocked_path_matcher :: "fsview \<Rightarrow> path \<Rightarrow> path \<Rightarrow> path \<Rightarrow> bool" where
  "blocked_path_matcher v workspace_root path prefix_parts =
     filesystem_path_within v path (join ''/'' prefix_parts) workspace_root False"

section \<open>Lexical matching\<close>

definition segments_within :: "path \<Rightarrow> pystr \<Rightarrow> bool \<Rightarrow> bool" where
  "segments_within path prefix_str case_insensitive =
     (let prefix_segments = normalize_relative_segments prefix_str
      in if prefix_segments = [] then True
         else fold_segments (take (length prefix_segments) path) case_insensitive
                = fold_segments prefix_segments case_insensitive)"

text \<open>\<open>path_access.is_descendant_or_equal\<close> and \<open>matching_path\<close>.\<close>

definition is_descendant_or_equal :: "path \<Rightarrow> path \<Rightarrow> bool \<Rightarrow> bool" where
  "is_descendant_or_equal child parent case_insensitive =
     segments_within child (if parent = [] then ''.'' else join ''/'' parent) case_insensitive"

definition matching_path :: "path \<Rightarrow> pystr list \<Rightarrow> pystr option" where
  "matching_path path prefix_list =
     find (\<lambda>pre. is_descendant_or_equal path (normalize_relative_segments pre) False) prefix_list"

section \<open>The two-name scope check\<close>

datatype scope_code = BLOCKED_PATH | PATH_NOT_ALLOWED

text \<open>
  The closure \<open>within\<close> of \<open>scoped_path_denial\<close>: by directory semantics when a workspace root
  is given, otherwise lexical with the volume's three-state verdict.
\<close>

definition scope_within ::
  "fsview \<Rightarrow> bool option \<Rightarrow> path option \<Rightarrow> bool \<Rightarrow> path \<Rightarrow> pystr \<Rightarrow> bool" where
  "scope_within v case_insensitive workspace_root allowed path prefix_str =
     (case workspace_root of
        Some root \<Rightarrow> filesystem_path_within v path prefix_str root allowed
      | None \<Rightarrow>
          (let blocked_folds = (case_insensitive = None \<or> case_insensitive = Some True);
               allowed_folds = (case_insensitive = Some True)
           in if allowed \<and> allowed_folds
              then (let prefix_parts = normalize_relative_segments prefix_str
                    in map simple_fold (take (length prefix_parts) path)
                         = map simple_fold prefix_parts)
              else segments_within path prefix_str (if \<not> allowed then blocked_folds else False)))"

text \<open>The loops over both names, for any matcher.\<close>

definition scope_denial_by ::
  "(bool \<Rightarrow> path \<Rightarrow> pystr \<Rightarrow> bool) \<Rightarrow> path \<Rightarrow> path \<Rightarrow> pystr list \<Rightarrow> pystr list
     \<Rightarrow> (scope_code \<times> pystr option) option" where
  "scope_denial_by within requested resolved allowed_ps blocked_ps =
     (case find (within False requested) blocked_ps of
        Some blocked \<Rightarrow> Some (BLOCKED_PATH, Some blocked)
      | None \<Rightarrow>
          (case find (within False resolved) blocked_ps of
             Some blocked \<Rightarrow> Some (BLOCKED_PATH, Some blocked)
           | None \<Rightarrow>
               if \<not> list_ex (within True requested) allowed_ps
                  \<or> \<not> list_ex (within True resolved) allowed_ps
               then Some (PATH_NOT_ALLOWED, None) else None))"

definition scoped_path_denial ::
  "fsview \<Rightarrow> path \<Rightarrow> path \<Rightarrow> pystr list \<Rightarrow> pystr list \<Rightarrow> bool option \<Rightarrow> path option
     \<Rightarrow> (scope_code \<times> pystr option) option" where
  "scoped_path_denial v requested resolved allowed_ps blocked_ps case_insensitive workspace_root =
     scope_denial_by (scope_within v case_insensitive workspace_root)
       requested resolved allowed_ps blocked_ps"

definition scoped_path_reason ::
  "fsview \<Rightarrow> path \<Rightarrow> path \<Rightarrow> pystr list \<Rightarrow> pystr list \<Rightarrow> bool option \<Rightarrow> path option
     \<Rightarrow> (reason_code \<times> pystr option) option" where
  "scoped_path_reason v requested resolved allowed_ps blocked_ps case_insensitive workspace_root =
     (case scoped_path_denial v requested resolved allowed_ps blocked_ps case_insensitive
             workspace_root of
        None \<Rightarrow> None
      | Some (code, blocked) \<Rightarrow>
          Some (if code = BLOCKED_PATH then RC_BLOCKED_PATH else RC_PATH_NOT_ALLOWED, blocked))"

section \<open>The cached volume probe\<close>

text \<open>
  \<open>volume_is_case_insensitive\<close> with its module-level cache as explicit state. \<open>dir_stat\<close> is the
  device and inode of the resolved directory (\<open>None\<close> where \<open>os.stat\<close> raises), \<open>dir_flags\<close> the
  Linux inode flags, \<open>created\<close> the name of the probe file (\<open>None\<close> where it cannot be created)
  and \<open>spelling_exists\<close> whether another spelling of that name is found.
\<close>

record volume =
  real_root :: path
  dir_stat :: "(nat \<times> nat) option"
  dir_flags :: "int option"
  created :: "pystr option"
  spelling_exists :: "pystr \<Rightarrow> bool"

type_synonym probe_cache = "(path \<times> nat \<times> nat \<times> int option) \<rightharpoonup> bool"

definition upper :: "pystr \<Rightarrow> pystr" where
  "upper s = map (\<lambda>c. let n = (of_char c :: nat) in if 97 \<le> n \<and> n \<le> 122 then char_of (n - 32) else c) s"

definition probe_case_insensitivity :: "volume \<Rightarrow> bool option" where
  "probe_case_insensitivity vol =
     (case created vol of
        None \<Rightarrow> None
      | Some name \<Rightarrow>
          (let swapped = (if upper name = name then lower name else upper name)
           in if swapped = name then None else Some (spelling_exists vol swapped)))"

definition volume_is_case_insensitive ::
  "volume \<Rightarrow> probe_cache \<Rightarrow> bool option \<times> probe_cache" where
  "volume_is_case_insensitive vol cache =
     (case dir_stat vol of
        None \<Rightarrow> (None, cache)
      | Some (dev, ino) \<Rightarrow>
          if (case dir_flags vol of Some flags \<Rightarrow> bit flags 30 | None \<Rightarrow> False)
          then (Some True, cache)
          else
            let key = (real_root vol, dev, ino, dir_flags vol)
            in (case cache key of
                  Some cached \<Rightarrow> (Some cached, cache)
                | None \<Rightarrow>
                    (case probe_case_insensitivity vol of
                       None \<Rightarrow> (None, cache)
                     | Some answer \<Rightarrow> (Some answer, cache(key \<mapsto> answer)))))"

definition clear_case_probe_cache :: "probe_cache \<Rightarrow> probe_cache" where
  "clear_case_probe_cache cache = Map.empty"

section \<open>Lemmas: normalisation\<close>

lemma normalize_segments_wf:
  "part \<in> set (normalize_relative_segments s) \<Longrightarrow>
     part \<noteq> [] \<and> part \<noteq> ''.'' \<and> CHR 0x2F \<notin> set part \<and> CHR 0x5C \<notin> set part"
proof -
  assume "part \<in> set (normalize_relative_segments s)"
  then have part: "part \<in> set (split_on (CHR 0x2F) (replace_char (CHR 0x5C) (CHR 0x2F) (strip s)))"
    and ne: "part \<noteq> []" "part \<noteq> ''.''"
    by (auto simp: normalize_relative_segments_def)
  have "CHR 0x5C \<notin> set (replace_char (CHR 0x5C) (CHR 0x2F) (strip s))"
    by (auto simp: replace_char_def)
  with split_on_chars[OF part] split_on_no_sep[OF part] ne show ?thesis by auto
qed

lemma replace_char_absent: "a \<notin> set s \<Longrightarrow> replace_char a b s = s"
  unfolding replace_char_def by (induction s) auto

lemma set_join: "set (join sep ws) \<subseteq> set sep \<union> \<Union> (set ` set ws)"
  by (induction sep ws rule: join.induct) auto

lemma join_eq_Nil: "[] \<notin> set ws \<Longrightarrow> join sep ws = [] \<Longrightarrow> ws = []"
  by (induction sep ws rule: join.induct) auto

lemma hd_join: "ws \<noteq> [] \<Longrightarrow> hd ws \<noteq> [] \<Longrightarrow> hd (join sep ws) = hd (hd ws)"
  by (induction sep ws rule: join.induct) auto

lemma last_join: "ws \<noteq> [] \<Longrightarrow> [] \<notin> set ws \<Longrightarrow> last (join sep ws) = last (last ws)"
proof (induction sep ws rule: join.induct)
  case (3 sep w v ws)
  then have "join sep (v # ws) \<noteq> []" using join_eq_Nil[of "v # ws" sep] by auto
  with 3 show ?case by simp
qed auto

text \<open>The segments whose rendering reads back: no separator, not elided, no outer blanks.\<close>

definition clean_segments :: "path \<Rightarrow> bool" where
  "clean_segments segs \<longleftrightarrow>
     (\<forall>part \<in> set segs. part \<noteq> [] \<and> part \<noteq> ''.'' \<and> CHR 0x2F \<notin> set part \<and> CHR 0x5C \<notin> set part)
     \<and> (segs \<noteq> [] \<longrightarrow> \<not> py_space (hd (hd segs)) \<and> \<not> py_space (last (last segs)))"

lemma normalize_join:
  assumes "clean_segments segs"
  shows "normalize_relative_segments (join ''/'' segs) = segs"
proof (cases "segs = []")
  case True
  then show ?thesis
    by (simp add: normalize_relative_segments_def strip_def lstrip_def rstrip_def replace_char_def)
next
  case False
  from assms have parts:
    "\<And>part. part \<in> set segs \<Longrightarrow>
       part \<noteq> [] \<and> part \<noteq> ''.'' \<and> CHR 0x2F \<notin> set part \<and> CHR 0x5C \<notin> set part"
    by (auto simp: clean_segments_def)
  have ne: "hd segs \<noteq> []" "last segs \<noteq> []" using False parts by auto
  have "strip (join ''/'' segs) = join ''/'' segs"
    using assms False ne by (intro strip_id) (auto simp: hd_join last_join clean_segments_def)
  moreover have "CHR 0x5C \<notin> set (join ''/'' segs)"
    using set_join[of "''/''" segs] parts by auto
  moreover have "split_on (CHR 0x2F) (join ''/'' segs) = segs"
    using False parts by (intro split_on_join) auto
  moreover have "filter (\<lambda>part. part \<noteq> [] \<and> part \<noteq> ''.'') segs = segs"
    using parts by (intro filter_True) auto
  ultimately show ?thesis
    by (simp add: normalize_relative_segments_def replace_char_absent)
qed

section \<open>Lemmas: the matchers\<close>

lemma within_loop_literal: "map fst ps = map snd ps \<Longrightarrow> within_loop v root allowed sp sq ps"
  by (induction v root allowed sp sq ps rule: within_loop.induct) auto

lemma within_loop_allowed_folds:
  "within_loop v root True sp sq ps \<Longrightarrow>
     map (\<lambda>p. simple_fold (fst p)) ps = map (\<lambda>p. simple_fold (snd p)) ps"
  by (induction v root True sp sq ps rule: within_loop.induct)
     (auto simp: Let_def split: if_splits)

lemma directory_verdict_source:
  "directory_verdict v d = Some b \<Longrightarrow> \<exists>d'. case_probe v d' = Some b"
  by (induction v d rule: directory_verdict.induct)
     (subst (asm) (2) directory_verdict.simps, auto split: stat_result.splits if_splits)

lemma within_loop_allowed_exact:
  "within_loop v root allowed sp sq ps \<Longrightarrow> allowed \<Longrightarrow> \<forall>d. case_probe v d \<noteq> Some True \<Longrightarrow>
     map fst ps = map snd ps"
proof (induction v root allowed sp sq ps rule: within_loop.induct)
  case (2 v root allowed sp sq name expected rest)
  have "directory_verdict v (root @ sp) \<noteq> Some True"
    using directory_verdict_source[of v "root @ sp" True] 2(6) by blast
  then have eq: "name = expected"
    using 2(4,5) by (auto simp: Let_def split: if_splits)
  then have "within_loop v root allowed (sp @ [name]) (sq @ [expected]) rest"
    using 2(4) by simp
  with eq 2(1,5,6) show ?case by simp
qed simp

lemma map_fst_snd_zip:
  "length q \<le> length p \<Longrightarrow> map (\<lambda>x. f (fst x)) (zip p q) = map f (take (length q) p)
     \<and> map (\<lambda>x. f (snd x)) (zip p q) = map f q"
  by (induction p q rule: list_induct2') auto

lemma zip_prefix_eq:
  assumes "prefix q p"
  shows "map fst (zip p q) = map snd (zip p q)"
proof -
  have "length q \<le> length p" "take (length q) p = q" using assms by (auto simp: prefix_def)
  then show ?thesis using map_fst_snd_zip[of q p "\<lambda>x. x"] by simp
qed

lemma filesystem_within_literal:
  "prefix (normalize_relative_segments q) p \<Longrightarrow> filesystem_path_within v p q root allowed"
  unfolding filesystem_path_within_def Let_def
  by (auto dest: prefix_length_le intro: within_loop_literal zip_prefix_eq)

lemma segments_within_literal:
  "prefix (normalize_relative_segments q) p \<Longrightarrow> segments_within p q ci"
  unfolding segments_within_def Let_def by (auto simp: prefix_def)

lemma filesystem_within_allowed_folds:
  assumes "filesystem_path_within v p q root True"
  shows "map simple_fold (take (length (normalize_relative_segments q)) p)
           = map simple_fold (normalize_relative_segments q)"
proof (cases "normalize_relative_segments q = []")
  case False
  with assms have len: "length (normalize_relative_segments q) \<le> length p"
    and loop: "within_loop v root True [] [] (zip p (normalize_relative_segments q))"
    by (auto simp: filesystem_path_within_def Let_def split: if_splits)
  show ?thesis
    using within_loop_allowed_folds[OF loop] map_fst_snd_zip[OF len, of simple_fold] by simp
qed simp

section \<open>The matcher interface\<close>

text \<open>
  What the two-name check needs of a matcher: a literal prefix always matches, and a match on
  the allowed side only ever equates names that fold to each other one character at a time.
  Both matchers of the module provide it.
\<close>

locale scope_matcher =
  fixes within :: "bool \<Rightarrow> path \<Rightarrow> pystr \<Rightarrow> bool"
  assumes within_literal: "prefix (normalize_relative_segments q) p \<Longrightarrow> within allowed p q"
    and allowed_folds: "within True p q \<Longrightarrow>
      map simple_fold (take (length (normalize_relative_segments q)) p)
        = map simple_fold (normalize_relative_segments q)"
begin

lemma denial_None_iff:
  "scope_denial_by within requested resolved al bl = None \<longleftrightarrow>
     (\<forall>b \<in> set bl. \<not> within False requested b \<and> \<not> within False resolved b)
     \<and> (\<exists>a \<in> set al. within True requested a) \<and> (\<exists>a \<in> set al. within True resolved a)"
  unfolding scope_denial_by_def list_ex_iff
  by (auto simp: find_None_iff dest: find_SomeD split: option.split)

lemma blocked_target_denied:
  assumes "b \<in> set bl" and "within False requested b \<or> within False resolved b"
  shows "\<exists>b' \<in> set bl. scope_denial_by within requested resolved al bl = Some (BLOCKED_PATH, Some b')"
proof -
  have some: "\<exists>b'. find (within False p) bl = Some b' \<and> b' \<in> set bl"
    if "within False p b" for p
    using find_ex[of b bl "within False p"] that assms(1) by blast
  show ?thesis
  proof (cases "find (within False requested) bl")
    case None
    with assms have "within False resolved b" by (auto simp: find_None_iff)
    from some[OF this] None show ?thesis by (auto simp: scope_denial_by_def)
  next
    case (Some b')
    then have "b' \<in> set bl" by (auto dest: find_SomeD)
    with Some show ?thesis by (auto simp: scope_denial_by_def)
  qed
qed

lemma blocked_literal_denied:
  assumes "b \<in> set bl"
    and "prefix (normalize_relative_segments b) requested
       \<or> prefix (normalize_relative_segments b) resolved"
  shows "\<exists>b' \<in> set bl. scope_denial_by within requested resolved al bl = Some (BLOCKED_PATH, Some b')"
  using assms within_literal by (intro blocked_target_denied) auto

lemma accepted_within_allowed:
  assumes "scope_denial_by within requested resolved al bl = None" "p = requested \<or> p = resolved"
  shows "\<exists>a \<in> set al. map simple_fold (take (length (normalize_relative_segments a)) p)
                        = map simple_fold (normalize_relative_segments a)"
  using assms allowed_folds by (auto simp: denial_None_iff)

end

interpretation fs_scope: scope_matcher "\<lambda>allowed p q. filesystem_path_within v p q root allowed"
  for v :: fsview and root :: path
  by unfold_locales (auto intro: filesystem_within_literal filesystem_within_allowed_folds)

lemma segments_within_exact:
  "segments_within p q False \<Longrightarrow>
     take (length (normalize_relative_segments q)) p = normalize_relative_segments q"
  by (auto simp: segments_within_def Let_def fold_segments_def split: if_splits)

interpretation lexical_scope: scope_matcher "scope_within v ci None"
  for v :: fsview and ci :: "bool option"
proof
  fix q :: pystr and p :: path and allowed :: bool
  show "prefix (normalize_relative_segments q) p \<Longrightarrow> scope_within v ci None allowed p q"
    by (auto simp: scope_within_def Let_def prefix_def intro: segments_within_literal)
  show "scope_within v ci None True p q \<Longrightarrow>
      map simple_fold (take (length (normalize_relative_segments q)) p)
        = map simple_fold (normalize_relative_segments q)"
    by (auto simp: scope_within_def Let_def segments_within_exact split: if_splits)
qed

lemma scope_within_root:
  "scope_within v ci (Some root) = (\<lambda>allowed p q. filesystem_path_within v p q root allowed)"
  by (simp add: fun_eq_iff scope_within_def)

lemma scope_matcher_any: "scope_matcher (scope_within v ci wroot)"
proof (cases wroot)
  case None
  then show ?thesis by (simp add: lexical_scope.scope_matcher_axioms)
next
  case (Some root)
  then show ?thesis by (simp add: scope_within_root fs_scope.scope_matcher_axioms)
qed

section \<open>Properties\<close>

lemma scope_accept_sound:
  assumes accepted: "scoped_path_denial v requested resolved al bl ci wroot = None"
    and name: "p = requested \<or> p = resolved"
  shows "(\<forall>b \<in> set bl. \<not> prefix (normalize_relative_segments b) p)
       \<and> (\<exists>a \<in> set al. map simple_fold (take (length (normalize_relative_segments a)) p)
                         = map simple_fold (normalize_relative_segments a))"
proof -
  have m: "scope_matcher (scope_within v ci wroot)" by (rule scope_matcher_any)
  have none: "scope_denial_by (scope_within v ci wroot) requested resolved al bl = None"
    using accepted by (simp add: scoped_path_denial_def)
  have "\<not> prefix (normalize_relative_segments b) p" if "b \<in> set bl" for b
    using scope_matcher.blocked_literal_denied[OF m that, of requested resolved al] name none by auto
  then show ?thesis
    using scope_matcher.accepted_within_allowed[OF m none name] by blast
qed

text \<open>
  The two-name scope check protects blocked paths. When it accepts, neither the requested
  alias nor the resolved target is at or below any blocked path, and both are at or below some
  allowed path up to one-character case folding, whatever the volume answers and with either
  matcher.
\<close>

lemma scope_check_protects:
  assumes "scoped_path_denial v requested resolved al bl ci wroot = None"
    and "p = requested \<or> p = resolved"
  shows "(\<forall>b \<in> set bl. \<not> prefix (normalize_relative_segments b) p)
       \<and> (\<exists>a \<in> set al. map simple_fold (take (length (normalize_relative_segments a)) p)
                         = map simple_fold (normalize_relative_segments a))"
  using assms by (rule scope_accept_sound)

definition quiet_view :: fsview where
  "quiet_view = \<lparr>os_stat = (\<lambda>p. StatMissing), os_resolve = (\<lambda>p. Some p),
                 os_islink = (\<lambda>p. Some False), case_probe = (\<lambda>p. None)\<rparr>"

lemma fold_segments_mono:
  "fold_segments a False = fold_segments b False \<Longrightarrow> fold_segments a True = fold_segments b True"
  by (simp add: fold_segments_def)

text \<open>
  An unknown volume fails closed. In the lexical mode, a target accepted when the case probe
  gave no answer is accepted under every definite answer, so a failed probe never admits a
  target that a working probe would refuse.
\<close>

lemma unknown_volume_fails_closed:
  assumes "scoped_path_denial v requested resolved al bl None None = None"
  shows "scoped_path_denial v requested resolved al bl (Some answer) None = None"
proof -
  have blocked: "scope_within v (Some answer) None False p q \<Longrightarrow> scope_within v None None False p q"
    for p q
    by (cases answer)
       (auto simp: scope_within_def segments_within_def Let_def split: if_splits
             dest: fold_segments_mono)
  have allowed: "scope_within v None None True p q \<Longrightarrow> scope_within v (Some answer) None True p q"
    for p q
    by (cases answer)
       (auto simp: scope_within_def segments_within_def Let_def fold_segments_def split: if_splits)
  from assms show ?thesis
    unfolding scoped_path_denial_def lexical_scope.denial_None_iff using blocked allowed by blast
qed

text \<open>
  A name for a blocked file is refused under any spelling. When the file system says that a
  prefix of the resolved target, or of the requested alias, is the same file as a blocked path
  (a hard link, a case variant, a symlink), the check denies with the blocked path's code.
\<close>

lemma identity_alias_blocked:
  assumes "b \<in> set bl" "p = requested \<or> p = resolved" "depth \<le> length p"
    and "same_file v (root @ take depth p) (root @ normalize_relative_segments b) = Some True"
  shows "\<exists>b' \<in> set bl. scoped_path_denial v requested resolved al bl ci (Some root)
                          = Some (BLOCKED_PATH, Some b')"
proof -
  have "filesystem_path_within v p b root False"
    using assms(3,4) by (auto simp: filesystem_path_within_def Let_def)
  with assms(1,2) show ?thesis
    unfolding scoped_path_denial_def scope_within_root
    by (intro fs_scope.blocked_target_denied) auto
qed

text \<open>
  Allowlists stay exact on case-sensitive or undetermined volumes. If no directory probe
  confirms case-insensitivity, an accepted name has the allowed path as its literal prefix.
\<close>

lemma allowlist_exact_unless_confirmed:
  assumes probe: "\<forall>d. case_probe v d \<noteq> Some True"
    and accepted: "scoped_path_denial v requested resolved al bl ci (Some root) = None"
    and name: "p = requested \<or> p = resolved"
  shows "\<exists>a \<in> set al. prefix (normalize_relative_segments a) p"
proof -
  have "prefix (normalize_relative_segments a) p" if w: "filesystem_path_within v p a root True" for a
  proof (cases "normalize_relative_segments a = []")
    case False
    with w have len: "length (normalize_relative_segments a) \<le> length p"
      and loop: "within_loop v root True [] [] (zip p (normalize_relative_segments a))"
      by (auto simp: filesystem_path_within_def Let_def split: if_splits)
    then show ?thesis
      using within_loop_allowed_exact[OF loop TrueI probe] map_fst_snd_zip[OF len, of "\<lambda>x. x"]
      by (simp add: take_is_prefix) (metis take_is_prefix)
  qed simp
  moreover have "\<exists>a \<in> set al. filesystem_path_within v p a root True"
    using accepted name fs_scope.denial_None_iff[of v root requested resolved al bl]
    unfolding scoped_path_denial_def scope_within_root by auto
  ultimately show ?thesis by blast
qed

text \<open>
  The volume cache holds confirmed answers only, and is consulted only for the very directory
  (path, device, inode, flags) it was filled for: the answer is that of a fresh probe or of the
  cached probe of the same key, an unknown answer leaves the cache unchanged, and no other key
  is touched.
\<close>

lemma volume_cache_confirmed_only:
  assumes "volume_is_case_insensitive vol cache = (ans, cache')"
  shows "(ans = None \<longrightarrow> cache' = cache)
       \<and> (\<forall>k. cache' k \<noteq> cache k \<longrightarrow> cache k = None \<and> cache' k = ans
              \<and> ans = probe_case_insensitivity vol
              \<and> (\<exists>dev ino. dir_stat vol = Some (dev, ino)
                           \<and> k = (real_root vol, dev, ino, dir_flags vol)))"
  using assms
  by (auto simp: volume_is_case_insensitive_def Let_def split: option.splits if_splits prod.splits)

text \<open>
  Normalisation reads back what it renders: joining clean segments with slashes and
  normalising again gives the same segments (the matcher that docker staging binds joins and
  re-normalises every prefix).
\<close>

lemma normalize_roundtrip:
  assumes "clean_segments segs"
  shows "normalize_relative_segments (join ''/'' segs) = segs
       \<and> blocked_path_matcher v root path segs
           = filesystem_path_within v path (join ''/'' segs) root False"
  using normalize_join[OF assms] by (simp add: blocked_path_matcher_def)

end
