(* ===== verification/Shlex.thy ===== *)
theory Shlex
  imports Prelude
begin

text \<open>
  \<open>shlex.split(s, posix=True)\<close> of the standard library, which the policy engine uses to turn a
  submitted command string into an argument vector: the state machine of
  \<open>shlex.read_token\<close> with \<open>whitespace_split\<close> on, no comment characters, posix quoting.
  \<open>ValueError\<close> is a value of the result. The recursion is on the input, so it is total.
\<close>

datatype shlex_error = NoClosingQuotation | NoEscapedCharacter

text \<open>
  The states: \<open>' '\<close> (between tokens), \<open>'a'\<close> (in a token), a quote character, and the escape
  character, which remembers the state to return to (\<open>escapedstate\<close>).
\<close>

datatype shlex_state = Between | InWord | InQuote char | InEscape "char option"

definition shlex_space :: "char \<Rightarrow> bool" where
  "shlex_space c \<longleftrightarrow> c \<in> {CHR 0x20, CHR 0x09, CHR 0x0D, CHR 0x0A}"

definition is_quote :: "char \<Rightarrow> bool" where
  "is_quote c \<longleftrightarrow> c = CHR 0x27 \<or> c = CHR 0x22"

definition escape_char :: char where
  "escape_char = CHR 0x5C"

text \<open>A token is emitted unless it is empty and no quote was seen while reading it.\<close>

definition emit :: "pystr \<Rightarrow> bool \<Rightarrow> pystr list" where
  "emit token q = (if token = [] \<and> \<not> q then [] else [token])"

definition cons_token :: "pystr list \<Rightarrow> shlex_error + pystr list \<Rightarrow> shlex_error + pystr list" where
  "cons_token ts r = (case r of Inl e \<Rightarrow> Inl e | Inr us \<Rightarrow> Inr (ts @ us))"

fun shlex_go ::
  "shlex_state \<Rightarrow> pystr \<Rightarrow> bool \<Rightarrow> pystr \<Rightarrow> shlex_error + pystr list" where
  "shlex_go Between token q [] = Inr (emit token q)"
| "shlex_go InWord token q [] = Inr (emit token q)"
| "shlex_go (InQuote k) token q [] = Inl NoClosingQuotation"
| "shlex_go (InEscape k) token q [] = Inl NoEscapedCharacter"
| "shlex_go Between token q (c # cs) =
     (if shlex_space c then
        (if token \<noteq> [] \<or> q then cons_token [token] (shlex_go Between [] False cs)
         else shlex_go Between token q cs)
      else if c = escape_char then shlex_go (InEscape None) token q cs
      else if is_quote c then shlex_go (InQuote c) token q cs
      else shlex_go InWord [c] q cs)"
| "shlex_go (InQuote k) token q (c # cs) =
     (if c = k then shlex_go InWord token True cs
      else if c = escape_char \<and> k = CHR 0x22 then shlex_go (InEscape (Some k)) token True cs
      else shlex_go (InQuote k) (token @ [c]) True cs)"
| "shlex_go (InEscape k) token q (c # cs) =
     (case k of
        None \<Rightarrow> shlex_go InWord (token @ [c]) q cs
      | Some quote \<Rightarrow>
          shlex_go (InQuote quote)
            ((if c \<noteq> escape_char \<and> c \<noteq> quote then token @ [escape_char] else token) @ [c]) q cs)"
| "shlex_go InWord token q (c # cs) =
     (if shlex_space c then
        (if token \<noteq> [] \<or> q then cons_token [token] (shlex_go Between [] False cs)
         else shlex_go Between token q cs)
      else if is_quote c then shlex_go (InQuote c) token q cs
      else if c = escape_char then shlex_go (InEscape None) token q cs
      else shlex_go InWord (token @ [c]) q cs)"

definition shlex_split :: "pystr \<Rightarrow> shlex_error + pystr list" where
  "shlex_split s = shlex_go Between [] False s"

text \<open>
  The reading of an unclosed quote marks the token as quoted before it looks at the next
  character, which matters only for the error case; an empty input gives no tokens.
\<close>

lemma shlex_examples:
  "shlex_split ''python -m pytest'' = Inr [''python'', ''-m'', ''pytest'']"
  "shlex_split (''echo '' @ [CHR 0x27] @ ''a b'' @ [CHR 0x27, CHR 0x22] @ ''c'' @ [CHR 0x22])
     = Inr [''echo'', ''a bc'']"
  "shlex_split [CHR 0x27, CHR 0x61] = Inl NoClosingQuotation"
  "shlex_split ''  '' = Inr []"
  by code_simp+

section \<open>Lemmas\<close>

text \<open>Parsing invents no characters: what is in a token was in the input.\<close>

lemma shlex_go_chars:
  "shlex_go st token q s = Inr ts \<Longrightarrow>
     (case st of InEscape _ \<Rightarrow> escape_char \<in> A | _ \<Rightarrow> True) \<Longrightarrow>
     set token \<subseteq> A \<Longrightarrow> set s \<subseteq> A \<Longrightarrow> \<forall>t \<in> set ts. set t \<subseteq> A"
proof (induction st token q s arbitrary: ts rule: shlex_go.induct)
  case (7 k token q c cs)
  show ?case
  proof (cases k)
    case None
    with 7(3-) show ?thesis by (intro 7(1)[OF None]) simp_all
  next
    case (Some k')
    with 7(3-) show ?thesis by (intro 7(2)[OF Some]) simp_all
  qed
qed (simp_all add: emit_def cons_token_def split: if_splits sum.splits, (hypsubst, simp)+)

lemma shlex_split_chars: "shlex_split s = Inr ts \<Longrightarrow> t \<in> set ts \<Longrightarrow> set t \<subseteq> set s"
  unfolding shlex_split_def using shlex_go_chars[of Between "[]" False s ts "set s"] by simp

text \<open>A string with no quoting or blank characters is one token, itself.\<close>

lemma shlex_go_word:
  "\<forall>c \<in> set s. \<not> shlex_space c \<and> \<not> is_quote c \<and> c \<noteq> escape_char \<Longrightarrow>
     shlex_go InWord token q s = Inr (emit (token @ s) q)"
  by (induction s arbitrary: token) auto

lemma shlex_go_word_blank:
  "\<forall>c \<in> set s. \<not> shlex_space c \<and> \<not> is_quote c \<and> c \<noteq> escape_char \<Longrightarrow> s \<noteq> [] \<or> token \<noteq> [] \<Longrightarrow>
     shlex_go InWord token q (s @ CHR 0x20 # cs) = cons_token [token @ s] (shlex_go Between [] False cs)"
  by (induction s arbitrary: token) (auto simp: shlex_space_def)

definition plain_word :: "pystr \<Rightarrow> bool" where
  "plain_word w \<longleftrightarrow>
     w \<noteq> [] \<and> (\<forall>c \<in> set w. \<not> shlex_space c \<and> \<not> is_quote c \<and> c \<noteq> escape_char)"

lemma shlex_split_join:
  "\<forall>w \<in> set ws. plain_word w \<Longrightarrow> shlex_split (join '' '' ws) = Inr ws"
proof (induction "'' ''" ws rule: join.induct)
  case 1
  then show ?case by (simp add: shlex_split_def emit_def)
next
  case (2 w)
  then obtain c w' where w: "w = c # w'" by (cases w) (auto simp: plain_word_def)
  with 2 show ?case by (simp add: shlex_split_def plain_word_def shlex_go_word emit_def)
next
  case (3 w v ws)
  then obtain c w' where w: "w = c # w'" by (cases w) (auto simp: plain_word_def)
  from 3 have rest: "shlex_go Between [] False (join '' '' (v # ws)) = Inr (v # ws)"
    by (simp add: shlex_split_def)
  from 3 w have "shlex_go InWord [c] False (w' @ CHR 0x20 # join '' '' (v # ws))
      = cons_token [w] (shlex_go Between [] False (join '' '' (v # ws)))"
    by (subst shlex_go_word_blank) (auto simp: plain_word_def)
  with 3 w rest show ?case
    by (simp add: shlex_split_def plain_word_def cons_token_def)
qed

end
