(* ===== verification/Policy.thy ===== *)
theory Policy
  imports ScopePaths Shlex
begin

text \<open>
  \<open>backend/scopewatch/policy.py\<close>: the deterministic policy engine. The rule order is the
  source's, as a chain of conditions; every early return is a branch. The decision id and the
  time are arguments (\<open>uuid4()\<close>, \<open>datetime.now()\<close>), and so are the configured executor backend
  (\<open>get_executor_backend()\<close>), \<open>sys.executable\<close>, and the file system view. \<open>_resolve\<close> is
  \<open>os_resolve\<close> of the view: \<open>None\<close> where it raises \<open>OSError\<close> or \<open>RuntimeError\<close>.

  \<open>_normalize_relative_path\<close> always returns a path, so the source's \<open>is None\<close> branches are
  unreachable and have no counterpart here.
\<close>

section \<open>Decisions and denials\<close>

type_synonym denial = "reason_code \<times> pystr \<times> pystr"

definition mk_decision ::
  "pystr \<Rightarrow> action \<Rightarrow> instant \<Rightarrow> policy_outcome \<Rightarrow> reason_code \<Rightarrow> pystr \<Rightarrow> pystr \<Rightarrow> decision" where
  "mk_decision decision_id act now oc rc expl rule =
     \<lparr>dec_id = decision_id, dec_action_id = act_id act, outcome = oc, reason_code = rc,
      explanation = expl, matched_rule = rule, decided_at = now, deterministic = True,
      dec_audit_id = None, policy_version = None\<rparr>"

definition relative_to :: "path \<Rightarrow> path \<Rightarrow> path option" where
  "relative_to p root = (if take (length root) p = root then Some (drop (length root) p) else None)"

definition absolute_like :: "pystr \<Rightarrow> bool" where
  "absolute_like s \<longleftrightarrow> starts_with s ''/'' \<or> starts_with s [CHR 0x5C]
     \<or> (1 < length s \<and> s ! 1 = CHR '':'')"

definition NUL :: char where
  "NUL = CHR 0x00"

section \<open>Command allowlists and options\<close>

definition contains_shell_metacharacter :: "pystr \<Rightarrow> bool" where
  "contains_shell_metacharacter s \<longleftrightarrow> list_ex (\<lambda>m. substring_of m s) RUN_COMMAND_METACHARACTERS"

fun match_prefix_len :: "pystr list \<Rightarrow> pystr list list \<Rightarrow> nat" where
  "match_prefix_len argv [] = 0"
| "match_prefix_len argv (pre # rest) =
     (if pre \<noteq> [] \<and> take (length pre) argv = pre then length pre else match_prefix_len argv rest)"

definition argv_matches_prefix :: "pystr list \<Rightarrow> pystr list list \<Rightarrow> bool" where
  "argv_matches_prefix argv pres \<longleftrightarrow> 0 < match_prefix_len argv pres"

definition allowed_flags_for :: "pystr list \<Rightarrow> pystr list" where
  "allowed_flags_for pre =
     (case map_of RUN_COMMAND_ALLOWED_FLAGS pre of Some flags \<Rightarrow> flags | None \<Rightarrow> [])"

definition path_name :: "pystr \<Rightarrow> pystr" where
  "path_name s = (let parts = pure_path_parts s in if parts = [] then [] else last parts)"

definition is_digits :: "pystr \<Rightarrow> bool" where
  "is_digits s \<longleftrightarrow> s \<noteq> [] \<and> list_all (\<lambda>c. CHR ''0'' = c \<or> c \<in> set ''123456789'') s"

text \<open>\<open>^python(\d+(\.\d+)?)?$\<close>; \<open>$\<close> also matches before one final newline.\<close>

definition python_name :: "pystr \<Rightarrow> bool" where
  "python_name name \<longleftrightarrow>
     starts_with name ''python'' \<and>
     (let rest = drop 6 name;
          body = (if rest \<noteq> [] \<and> last rest = CHR 0x0A then butlast rest else rest)
      in body = [] \<or> is_digits body
         \<or> (CHR ''.'' \<in> set body \<and> is_digits (split1_head (CHR ''.'') body)
            \<and> is_digits (split1_tail (CHR ''.'') body)))"

definition is_pytest_prefix :: "pystr \<Rightarrow> pystr list \<Rightarrow> bool" where
  "is_pytest_prefix sys_executable pre =
     (case pre of
        [p] \<Rightarrow> path_name p = ''pytest''
      | [p, m, t] \<Rightarrow> m = ''-m'' \<and> t = ''pytest'' \<and> (python_name (path_name p) \<or> p = sys_executable)
      | _ \<Rightarrow> False)"

definition addopts_override :: "pystr \<Rightarrow> bool" where
  "addopts_override value \<longleftrightarrow>
     (let key = (if value \<noteq> [] then strip (split1_head (CHR ''='') value) else [])
      in lower key = ''addopts'' \<or> starts_with (lower (strip value)) ''addopts'')"

text \<open>\<open>_check_run_command_flags\<close>, the loop over the tokens after the matched prefix.\<close>

function check_flags_from :: "bool \<Rightarrow> pystr list \<Rightarrow> pystr list \<Rightarrow> denial option" where
  "check_flags_from is_pytest allowed_flags [] = None"
| "check_flags_from is_pytest allowed_flags (item # rest) =
     (if starts_with item ''-'' then
        let opt = split1_head (CHR ''='') item
        in if opt \<notin> set allowed_flags then
             Some (RC_COMMAND_NOT_ALLOWED,
                   ''Option '' @ quoted opt @ '' is not in the allowlist for this command.'',
                   ''RULE_RUN_COMMAND_FLAG_NOT_ALLOWED'')
           else if opt = ''-o'' then
             let value = (if CHR ''='' \<in> set item then split1_tail (CHR ''='') item
                          else case rest of [] \<Rightarrow> [] | nxt # _ \<Rightarrow> nxt);
                 rest' = (if CHR ''='' \<in> set item then rest else drop 1 rest)
             in if is_pytest \<and> addopts_override value then
                  Some (RC_COMMAND_NOT_ALLOWED,
                        ''Option '' @ quoted ''-o addopts=...'' @ '' (ini override) is not allowed.'',
                        ''RULE_RUN_COMMAND_FLAG_NOT_ALLOWED'')
                else check_flags_from is_pytest allowed_flags rest'
           else check_flags_from is_pytest allowed_flags rest
      else check_flags_from is_pytest allowed_flags rest)"
  by pat_completeness auto
termination
  by (relation "measure (\<lambda>(p, f, ts). length ts)") auto

definition check_run_command_flags ::
  "pystr \<Rightarrow> pystr list \<Rightarrow> nat \<Rightarrow> pystr list \<Rightarrow> denial option" where
  "check_run_command_flags sys_executable argv matched_len allowed_flags =
     check_flags_from (is_pytest_prefix sys_executable (take matched_len argv)) allowed_flags
       (drop matched_len argv)"

section \<open>Path values of a command\<close>

definition link_denial :: "fsview \<Rightarrow> path \<Rightarrow> path \<Rightarrow> pystr \<Rightarrow> denial option" where
  "link_denial v test_path resolved_workspace describe =
     (case os_resolve v test_path of
        None \<Rightarrow> Some (RC_MALFORMED_REQUEST, describe @ '' could not be resolved.'',
                      ''RULE_RUN_COMMAND_MALFORMED_PATH'')
      | Some target \<Rightarrow>
          if relative_to target resolved_workspace = None
          then Some (RC_SYMLINK_ESCAPE, describe @ '' is a symlink escaping the workspace.'',
                     ''RULE_RUN_COMMAND_SYMLINK_ESCAPE_REJECTED'')
          else None)"

definition check_run_command_path ::
  "fsview \<Rightarrow> pystr \<Rightarrow> pystr \<Rightarrow> task_scope \<Rightarrow> path \<Rightarrow> denial option" where
  "check_run_command_path v value describe scope workspace_root =
     (if NUL \<in> set value then
        Some (RC_MALFORMED_REQUEST, describe @ '' contains null bytes.'',
              ''RULE_RUN_COMMAND_NULL_BYTE_REJECTED'')
      else if absolute_like value then
        Some (RC_PATH_OUTSIDE_WORKSPACE, describe @ '' uses an absolute path outside the workspace.'',
              ''RULE_RUN_COMMAND_ABSOLUTE_PATH_REJECTED'')
      else if ''..'' \<in> set (pure_path_parts value) then
        Some (RC_PATH_TRAVERSAL, describe @ '' uses '' @ quoted ''..'' @ '' traversal.'',
              ''RULE_RUN_COMMAND_PATH_TRAVERSAL_REJECTED'')
      else
        let normalized = normalize_relative_segments value
        in if 4096 < length value then
             Some (RC_MALFORMED_REQUEST, describe @ '' exceeds path length limits.'',
                   ''RULE_RUN_COMMAND_MALFORMED_PATH'')
           else
             (case os_resolve v workspace_root of
                None \<Rightarrow> Some (RC_MALFORMED_REQUEST, describe @ '' could not be resolved.'',
                              ''RULE_RUN_COMMAND_MALFORMED_PATH'')
              | Some resolved_workspace \<Rightarrow>
                  (case os_resolve v (resolved_workspace @ normalized) of
                     None \<Rightarrow> Some (RC_MALFORMED_REQUEST, describe @ '' could not be resolved.'',
                                   ''RULE_RUN_COMMAND_MALFORMED_PATH'')
                   | Some candidate \<Rightarrow>
                       (case relative_to candidate resolved_workspace of
                          None \<Rightarrow> Some (RC_SYMLINK_ESCAPE,
                                        describe @ '' escapes the workspace boundary.'',
                                        ''RULE_RUN_COMMAND_SYMLINK_ESCAPE_REJECTED'')
                        | Some canonical \<Rightarrow>
                            (case os_islink v (resolved_workspace @ normalized) of
                               None \<Rightarrow> Some (RC_MALFORMED_REQUEST,
                                             describe @ '' could not be examined.'',
                                             ''RULE_RUN_COMMAND_MALFORMED_PATH'')
                             | Some is_link \<Rightarrow>
                                 (case (if is_link
                                        then link_denial v (resolved_workspace @ normalized)
                                               resolved_workspace describe
                                        else None) of
                                    Some d \<Rightarrow> Some d
                                  | None \<Rightarrow>
                                      (case scoped_path_reason v normalized canonical [''.'']
                                              (blocked_paths scope) None
                                              (Some resolved_workspace) of
                                         Some (rc, blocked) \<Rightarrow>
                                           Some (RC_BLOCKED_PATH,
                                                 describe @ '' is under blocked path ''
                                                   @ quoted (or_empty blocked) @ ''.'',
                                                 ''RULE_RUN_COMMAND_BLOCKED_PATH_MATCHED'')
                                       | None \<Rightarrow> None)))))))"

definition check_staged_resolved_target ::
  "fsview \<Rightarrow> pystr \<Rightarrow> pystr \<Rightarrow> task_scope \<Rightarrow> path \<Rightarrow> denial option" where
  "check_staged_resolved_target v value describe scope staged_root =
     (let normalized = normalize_relative_segments value
      in case os_resolve v (staged_root @ normalized) of
           None \<Rightarrow> Some (RC_MALFORMED_REQUEST, describe @ '' could not be resolved at dispatch.'',
                         ''RULE_RUN_COMMAND_MALFORMED_PATH'')
         | Some resolved \<Rightarrow>
             (case relative_to resolved staged_root of
                None \<Rightarrow> Some (RC_SYMLINK_ESCAPE,
                              describe @ '' escapes the workspace boundary at dispatch.'',
                              ''RULE_RUN_COMMAND_SYMLINK_ESCAPE_REJECTED'')
              | Some resolved_relative \<Rightarrow>
                  (case scoped_path_reason v normalized resolved_relative [''.'']
                          (blocked_paths scope) None (Some staged_root) of
                     Some (rc, blocked) \<Rightarrow>
                       Some (RC_BLOCKED_PATH,
                             describe @ '' resolves into blocked path ''
                               @ quoted (or_empty blocked) @ '' at dispatch.'',
                             ''RULE_RUN_COMMAND_BLOCKED_PATH_MATCHED'')
                   | None \<Rightarrow> None)))"

text \<open>The values checked for one argument: the token, and what follows its first \<open>=\<close>.\<close>

definition path_candidates :: "pystr \<Rightarrow> pystr list" where
  "path_candidates item =
     item # (if CHR ''='' \<in> set item then [split1_tail (CHR ''='') item] else [])"

text \<open>The first denial of a list of checks, as the source's early returns give.\<close>

fun first_denial :: "('a \<Rightarrow> denial option) \<Rightarrow> 'a list \<Rightarrow> denial option" where
  "first_denial f [] = None"
| "first_denial f (x # xs) = (case f x of Some d \<Rightarrow> Some d | None \<Rightarrow> first_denial f xs)"

definition command_argument :: "pystr \<Rightarrow> pystr" where
  "command_argument candidate = ''Command argument '' @ quoted candidate"

definition cwd_value :: "action \<Rightarrow> pystr" where
  "cwd_value act = (if strip (resource act) = [] then ''.'' else resource act)"

definition json_strings :: "json list \<Rightarrow> pystr list option" where
  "json_strings vs =
     (if list_all (\<lambda>j. case j of JStr s \<Rightarrow> True | _ \<Rightarrow> False) vs
      then Some (map (\<lambda>j. case j of JStr s \<Rightarrow> s | _ \<Rightarrow> []) vs) else None)"

section \<open>Revalidation at dispatch\<close>

text \<open>
  \<open>revalidate_run_command_in_workspace\<close>: the argument vector is re-derived from the stored
  action, then prefix, options and every path value are checked again in the staged copy, each
  value both lexically and by where it resolves.
\<close>

definition dispatch_argv :: "action \<Rightarrow> denial + pystr list" where
  "dispatch_argv act =
     (case (jget (arguments act) ''command'', jget (arguments act) ''argv'') of
        (JStr raw_command, _) \<Rightarrow>
          (case shlex_split raw_command of
             Inl e \<Rightarrow> Inl (RC_MALFORMED_REQUEST, ''Command string could not be parsed at dispatch.'',
                           ''RULE_RUN_COMMAND_MALFORMED'')
           | Inr argv \<Rightarrow>
               if argv = [] then
                 Inl (RC_MALFORMED_REQUEST,
                      ''run_command requires a non-empty command at dispatch.'',
                      ''RULE_RUN_COMMAND_MALFORMED'')
               else Inr argv)
      | (_, argv_arg) \<Rightarrow>
          (case argv_arg of
             JArr vs \<Rightarrow>
               (case (if vs = [] then None else json_strings vs) of
                  Some argv \<Rightarrow> Inr argv
                | None \<Rightarrow> Inl (RC_MALFORMED_REQUEST,
                     ''run_command requires arguments['' @ quoted ''command'' @ ''] or arguments[''
                       @ quoted ''argv'' @ ''] at dispatch.'', ''RULE_RUN_COMMAND_MALFORMED''))
           | _ \<Rightarrow> Inl (RC_MALFORMED_REQUEST,
                     ''run_command requires arguments['' @ quoted ''command'' @ ''] or arguments[''
                       @ quoted ''argv'' @ ''] at dispatch.'', ''RULE_RUN_COMMAND_MALFORMED'')))"

definition staged_value_denial ::
  "fsview \<Rightarrow> task_scope \<Rightarrow> path \<Rightarrow> pystr \<times> pystr \<Rightarrow> denial option" where
  "staged_value_denial v scope staged dv =
     (case check_run_command_path v (snd dv) (fst dv) scope staged of
        Some d \<Rightarrow> Some d
      | None \<Rightarrow> check_staged_resolved_target v (snd dv) (fst dv) scope staged)"

definition revalidate_run_command_in_workspace ::
  "fsview \<Rightarrow> pystr \<Rightarrow> action \<Rightarrow> task_scope \<Rightarrow> path \<Rightarrow> denial option" where
  "revalidate_run_command_in_workspace v sys_executable act scope staged_root =
     (case dispatch_argv act of
        Inl d \<Rightarrow> Some d
      | Inr argv \<Rightarrow>
          if list_ex contains_shell_metacharacter argv then
            Some (RC_SHELL_METACHARACTER,
                  ''Command argument contains a shell metacharacter at dispatch.'',
                  ''RULE_SHELL_METACHARACTER_REJECTED'')
          else
            let matched_len = match_prefix_len argv (allowed_commands scope)
            in if matched_len = 0 then
                 Some (RC_COMMAND_NOT_ALLOWED,
                       ''Command does not match any allowlisted command prefix at dispatch.'',
                       ''RULE_COMMAND_NOT_ALLOWED'')
               else
                 (case os_resolve v staged_root of
                    None \<Rightarrow> Some (RC_MALFORMED_REQUEST,
                                  ''Staged workspace could not be resolved at dispatch.'',
                                  ''RULE_RUN_COMMAND_MALFORMED_PATH'')
                  | Some staged \<Rightarrow>
                      (case check_run_command_flags sys_executable argv matched_len
                              (allowed_flags_for (take matched_len argv)) of
                         Some d \<Rightarrow> Some d
                       | None \<Rightarrow>
                           first_denial (staged_value_denial v scope staged)
                             (map (\<lambda>c. (command_argument c, c))
                                (concat (map path_candidates (drop matched_len argv)))
                              @ [(''Working directory'', cwd_value act)]))))"

section \<open>run_command\<close>

text \<open>R2: the submission as a string (parsed after the metacharacter check) or as a vector.\<close>

datatype submission = RawCommand pystr | ArgvList "pystr list"

definition extract_submission :: "action \<Rightarrow> denial + submission" where
  "extract_submission act =
     (case jget (arguments act) ''command'' of
        JNull \<Rightarrow>
          (case jget (arguments act) ''argv'' of
             JArr vs \<Rightarrow>
               (case (if vs = [] then None else json_strings vs) of
                  Some argv \<Rightarrow> Inr (ArgvList argv)
                | None \<Rightarrow> Inl (RC_MALFORMED_REQUEST,
                     ''run_command arguments['' @ quoted ''argv''
                       @ ''] must be a non-empty list of strings.'', ''RULE_RUN_COMMAND_MALFORMED''))
           | _ \<Rightarrow> Inl (RC_MALFORMED_REQUEST,
                     ''run_command requires arguments['' @ quoted ''command''
                       @ ''] (string) or arguments['' @ quoted ''argv'' @ ''] (list of strings).'',
                     ''RULE_RUN_COMMAND_MALFORMED''))
      | JStr raw_command \<Rightarrow>
          if strip raw_command = [] then
            Inl (RC_MALFORMED_REQUEST, ''run_command requires a non-empty command string.'',
                 ''RULE_RUN_COMMAND_MALFORMED'')
          else Inr (RawCommand raw_command)
      | _ \<Rightarrow> Inl (RC_MALFORMED_REQUEST,
                  ''run_command arguments['' @ quoted ''command'' @ ''] must be a string.'',
                  ''RULE_RUN_COMMAND_MALFORMED''))"

text \<open>R4 and R5: metacharacters before parsing, then \<open>shlex\<close>.\<close>

fun submission_argv :: "submission \<Rightarrow> denial + pystr list" where
  "submission_argv (RawCommand raw_command) =
     (if contains_shell_metacharacter raw_command then
        Inl (RC_SHELL_METACHARACTER, ''Command string contains a shell metacharacter.'',
             ''RULE_SHELL_METACHARACTER_REJECTED'')
      else (case shlex_split raw_command of
              Inl e \<Rightarrow> Inl (RC_MALFORMED_REQUEST, ''Command string could not be parsed.'',
                            ''RULE_RUN_COMMAND_MALFORMED'')
            | Inr argv \<Rightarrow>
                if argv = [] then
                  Inl (RC_MALFORMED_REQUEST, ''run_command requires a non-empty command string.'',
                       ''RULE_RUN_COMMAND_MALFORMED'')
                else Inr argv))"
| "submission_argv (ArgvList argv) =
     (if list_ex contains_shell_metacharacter argv then
        Inl (RC_SHELL_METACHARACTER, ''Command argument contains a shell metacharacter.'',
             ''RULE_SHELL_METACHARACTER_REJECTED'')
      else Inr argv)"

definition run_command_paths_denial ::
  "fsview \<Rightarrow> action \<Rightarrow> task_scope \<Rightarrow> path \<Rightarrow> pystr list \<Rightarrow> denial option" where
  "run_command_paths_denial v act scope workspace_root args =
     first_denial (\<lambda>dv. check_run_command_path v (snd dv) (fst dv) scope workspace_root)
       (map (\<lambda>c. (command_argument c, c)) (concat (map path_candidates args))
        @ [(''Working directory'', cwd_value act)])"

definition run_command_argv_denial ::
  "fsview \<Rightarrow> pystr \<Rightarrow> action \<Rightarrow> task_scope \<Rightarrow> path \<Rightarrow> pystr list \<Rightarrow> denial option" where
  "run_command_argv_denial v sys_executable act scope workspace_root argv =
     (let matched_len = match_prefix_len argv (allowed_commands scope)
      in if matched_len = 0 then
           Some (RC_COMMAND_NOT_ALLOWED,
                 ''Command '' @ quoted (hd argv) @ '' does not match any allowlisted command prefix.'',
                 ''RULE_COMMAND_NOT_ALLOWED'')
         else
           (case check_run_command_flags sys_executable argv matched_len
                   (allowed_flags_for (take matched_len argv)) of
              Some d \<Rightarrow> Some d
            | None \<Rightarrow> run_command_paths_denial v act scope workspace_root (drop matched_len argv)))"

text \<open>R9: an approval-gated command is held, any other permitted command allowed.\<close>

definition command_outcome ::
  "(policy_outcome \<Rightarrow> reason_code \<Rightarrow> pystr \<Rightarrow> pystr \<Rightarrow> decision) \<Rightarrow> task_scope \<Rightarrow> pystr list
     \<Rightarrow> decision" where
  "command_outcome mk scope argv =
     (if ''run_command'' \<in> set (requires_approval scope)
         \<or> argv_matches_prefix argv (commands_requiring_approval scope) then
        mk PO_HOLD RC_APPROVAL_REQUIRED ''Command requires explicit reviewer approval.''
          ''RULE_APPROVAL_REQUIRED''
      else
        mk PO_ALLOW RC_ALLOWED_TOOL_AND_RESOURCE
          (''Command '' @ quoted (hd argv)
            @ '' matches an allowlisted prefix and passed path checks.'')
          ''RULE_RUN_COMMAND_ALLOWED'')"

definition evaluate_run_command ::
  "pystr \<Rightarrow> fsview \<Rightarrow> pystr \<Rightarrow> action \<Rightarrow> task_scope \<Rightarrow> path \<Rightarrow> pystr \<Rightarrow> instant \<Rightarrow> decision" where
  "evaluate_run_command backend v sys_executable act scope workspace_root decision_id now =
     (let mk = mk_decision decision_id act now;
          deny = (\<lambda>d. mk PO_DENY (fst d) (fst (snd d)) (snd (snd d)))
      in if backend \<noteq> ''docker'' then
           mk PO_DENY RC_UNSUPPORTED_OPERATION
             (''Operation '' @ quoted ''run_command'' @ '' requires SCOPEWATCH_EXECUTOR=docker; ''
               @ ''the local executor cannot run commands.'')
             ''RULE_RUN_COMMAND_REQUIRES_DOCKER''
         else
           (case extract_submission act of
              Inl d \<Rightarrow> deny d
            | Inr sub \<Rightarrow>
                if ''run_command'' \<notin> set (allowed_operations scope)
                   \<and> ''run_command'' \<notin> set (requires_approval scope) then
                  mk PO_DENY RC_OPERATION_NOT_ALLOWED
                    (''Operation '' @ quoted ''run_command'' @ '' is not permitted by the task scope.'')
                    ''RULE_OPERATION_NOT_ALLOWED''
                else
                  (case submission_argv sub of
                     Inl d \<Rightarrow> deny d
                   | Inr argv \<Rightarrow>
                       (case run_command_argv_denial v sys_executable act scope workspace_root argv of
                          Some d \<Rightarrow> deny d
                        | None \<Rightarrow>
                            command_outcome mk scope argv))))"

section \<open>The rule order\<close>

text \<open>Steps 6 to 12: the resource path. \<open>None\<close> is "in scope".\<close>

definition resource_denial :: "fsview \<Rightarrow> pystr \<Rightarrow> task_scope \<Rightarrow> path \<Rightarrow> denial option" where
  "resource_denial v resource_raw scope workspace_root =
     (if NUL \<in> set resource_raw then
        Some (RC_MALFORMED_REQUEST, ''Resource path contains null bytes.'',
              ''RULE_NULL_BYTE_REJECTED'')
      else if absolute_like resource_raw then
        Some (RC_PATH_OUTSIDE_WORKSPACE, ''Absolute paths are prohibited.'',
              ''RULE_ABSOLUTE_PATH_REJECTED'')
      else if ''..'' \<in> set (pure_path_parts resource_raw) then
        Some (RC_PATH_TRAVERSAL, ''Directory traversal using '' @ quoted ''..'' @ '' is prohibited.'',
              ''RULE_PATH_TRAVERSAL_REJECTED'')
      else
        let normalized_rel = normalize_relative_segments resource_raw
        in if 4096 < length resource_raw then
             Some (RC_MALFORMED_REQUEST, ''Resource path exceeds length limits.'',
                   ''RULE_MALFORMED_PATH'')
           else
             (case os_resolve v workspace_root of
                None \<Rightarrow> Some (RC_MALFORMED_REQUEST, ''Resource path could not be resolved.'',
                              ''RULE_MALFORMED_PATH'')
              | Some resolved_workspace \<Rightarrow>
                  (case os_resolve v (resolved_workspace @ normalized_rel) of
                     None \<Rightarrow> Some (RC_MALFORMED_REQUEST, ''Resource path could not be resolved.'',
                                   ''RULE_MALFORMED_PATH'')
                   | Some candidate_path \<Rightarrow>
                       (case relative_to candidate_path resolved_workspace of
                          None \<Rightarrow>
                            Some (RC_SYMLINK_ESCAPE,
                                  ''Resolved path escapes the synthetic workspace boundary.'',
                                  ''RULE_SYMLINK_ESCAPE_REJECTED'')
                        | Some canonical_rel \<Rightarrow>
                            (case scoped_path_reason v normalized_rel canonical_rel
                                    (allowed_paths scope) (blocked_paths scope)
                                    (case_probe v resolved_workspace) (Some resolved_workspace) of
                               Some (rc, Some blocked) \<Rightarrow>
                                 Some (rc, ''Resource '' @ quoted resource_raw
                                             @ '' resolves under blocked path '' @ quoted blocked @ ''.'',
                                       ''RULE_BLOCKED_PATH_MATCHED'')
                             | Some (rc, None) \<Rightarrow>
                                 Some (rc, ''Resource '' @ quoted resource_raw
                                             @ '' is not within any allowed path.'',
                                       ''RULE_PATH_NOT_ALLOWED'')
                             | None \<Rightarrow> None)))))"

text \<open>Steps 13 to 15: the scope's operation lists.\<close>

definition operation_outcome ::
  "(policy_outcome \<Rightarrow> reason_code \<Rightarrow> pystr \<Rightarrow> pystr \<Rightarrow> decision) \<Rightarrow> task_scope \<Rightarrow> pystr \<Rightarrow> pystr
     \<Rightarrow> decision" where
  "operation_outcome mk scope oper res =
     (if oper \<notin> set (allowed_operations scope) \<and> oper \<notin> set (requires_approval scope) then
        mk PO_DENY RC_OPERATION_NOT_ALLOWED
          (''Operation '' @ quoted oper @ '' is not permitted by the task scope.'')
          ''RULE_OPERATION_NOT_ALLOWED''
      else if oper \<in> set (requires_approval scope) then
        mk PO_HOLD RC_APPROVAL_REQUIRED
          (''Operation '' @ quoted oper @ '' requires explicit reviewer approval.'')
          ''RULE_APPROVAL_REQUIRED''
      else
        mk PO_ALLOW RC_ALLOWED_TOOL_AND_RESOURCE
          (''Operation '' @ quoted oper @ '' on '' @ quoted res @ '' is permitted.'')
          ''RULE_ALLOWED_TOOL_AND_RESOURCE'')"

text \<open>Steps 1 to 5 and the composition.\<close>

definition evaluate_policy_rules ::
  "pystr \<Rightarrow> fsview \<Rightarrow> pystr \<Rightarrow> action \<Rightarrow> run \<Rightarrow> path \<Rightarrow> pystr \<Rightarrow> instant \<Rightarrow> decision" where
  "evaluate_policy_rules backend v sys_executable act r workspace_root decision_id now =
     (let mk = mk_decision decision_id act now;
          scope = run_scope r;
          deny = (\<lambda>rc expl rule. mk PO_DENY rc expl rule);
          oper = operation act
      in if tool act = [] \<or> oper = [] then
           deny RC_MALFORMED_REQUEST ''Action request missing tool or operation.''
             ''RULE_MALFORMED_REQUEST''
         else if run_st r \<noteq> RS_ACTIVE \<and> run_st r \<noteq> RS_WAITING_FOR_APPROVAL then
           deny RC_OPERATION_NOT_ALLOWED
             (''Run '' @ quoted (run_key r) @ '' is in state '' @ run_status_value (run_st r)
               @ '', not ACTIVE or WAITING_FOR_APPROVAL.'')
             ''RULE_RUN_NOT_ACTIVE''
         else if tool act \<notin> set (allowed_tools scope) \<or> tool act \<notin> set SUPPORTED_TOOLS then
           deny RC_TOOL_NOT_ALLOWED
             (''Tool '' @ quoted (tool act) @ '' is not allowlisted in the task scope.'')
             ''RULE_TOOL_NOT_ALLOWED''
         else if oper \<notin> set SUPPORTED_OPERATIONS then
           deny RC_UNSUPPORTED_OPERATION
             (''Operation '' @ quoted oper @ '' is not supported.'')
             ''RULE_UNSUPPORTED_OPERATION''
         else if oper = ''network_request'' then
           deny RC_NETWORK_DISABLED ''Network access is disabled in the synthetic baseline.''
             ''RULE_NETWORK_DISABLED''
         else if oper = ''run_command'' then
           evaluate_run_command backend v sys_executable act scope workspace_root decision_id now
         else
           (case resource_denial v (resource act) scope workspace_root of
              Some (rc, expl, rule) \<Rightarrow> deny rc expl rule
            | None \<Rightarrow> operation_outcome mk scope oper (resource act)))"

text \<open>The stamp: the single entry point adds the policy identity to whatever the rules decided.\<close>

definition evaluate_policy ::
  "pystr \<Rightarrow> pystr \<Rightarrow> fsview \<Rightarrow> pystr \<Rightarrow> action \<Rightarrow> run \<Rightarrow> path \<Rightarrow> pystr \<Rightarrow> instant \<Rightarrow> decision" where
  "evaluate_policy version backend v sys_executable act r workspace_root decision_id now =
     (evaluate_policy_rules backend v sys_executable act r workspace_root decision_id now)
       \<lparr>policy_version := Some version\<rparr>"

lemma relative_to_append [simp]: "relative_to (root @ c) root = Some c"
  by (simp add: relative_to_def)

end
