(* ===== verification/PolicyProps.thy ===== *)
theory PolicyProps
  imports Policy
begin

text \<open>
  What the policy engine guarantees. The specification is declarative: which values are in
  bounds, which submissions are permitted, and the outcome as a function of those two facts and
  of the approval lists. The engine's rule chain refines it.
\<close>

section \<open>Specification\<close>

definition in_bounds ::
  "fsview \<Rightarrow> path \<Rightarrow> pystr list \<Rightarrow> pystr list \<Rightarrow> pystr \<Rightarrow> bool" where
  "in_bounds v workspace_root al bl value \<longleftrightarrow>
     NUL \<notin> set value \<and> \<not> absolute_like value \<and> ''..'' \<notin> set (pure_path_parts value)
     \<and> length value \<le> 4096
     \<and> (\<exists>rw canonical. os_resolve v workspace_root = Some rw
          \<and> os_resolve v (rw @ normalize_relative_segments value) = Some (rw @ canonical)
          \<and> scoped_path_denial v (normalize_relative_segments value) canonical al bl None (Some rw)
              = None)"

text \<open>
  A name is below an allowed path component by component: the component is the same, or it differs in case
  only, in a directory whose volume is confirmed not to tell the cases apart, and the two are not known
  to be different files.
\<close>

definition named_below :: "fsview \<Rightarrow> path \<Rightarrow> pystr \<Rightarrow> path \<Rightarrow> bool" where
  "named_below v rw a p \<longleftrightarrow>
     (let q = normalize_relative_segments a
      in length q \<le> length p
         \<and> (\<forall>i < length q. p ! i = q ! i
              \<or> (simple_fold (p ! i) = simple_fold (q ! i) \<and> directory_verdict v (rw @ take i p) = Some True
                  \<and> same_file v (rw @ take i p @ [p ! i]) (rw @ take i q @ [q ! i]) \<noteq> Some False)))"

text \<open>A name clears a blocked path: it is not below it, and nothing on its way is the blocked file itself.\<close>

definition clears_blocked :: "fsview \<Rightarrow> path \<Rightarrow> pystr \<Rightarrow> path \<Rightarrow> bool" where
  "clears_blocked v rw b p \<longleftrightarrow>
     \<not> prefix (normalize_relative_segments b) p
     \<and> (\<forall>depth \<le> length p. same_file v (rw @ take depth p) (rw @ normalize_relative_segments b) \<noteq> Some True)"

text \<open>Both names of an in-bounds value, the one it asks for and the one it resolves to, are in scope.\<close>

definition target_in_scope ::
  "fsview \<Rightarrow> path \<Rightarrow> pystr list \<Rightarrow> pystr list \<Rightarrow> pystr \<Rightarrow> bool" where
  "target_in_scope v workspace_root al bl value \<longleftrightarrow>
     (\<exists>rw canonical. os_resolve v workspace_root = Some rw
        \<and> os_resolve v (rw @ normalize_relative_segments value) = Some (rw @ canonical)
        \<and> (\<forall>p \<in> {normalize_relative_segments value, canonical}.
             (\<exists>a \<in> set al. named_below v rw a p) \<and> (\<forall>b \<in> set bl. clears_blocked v rw b p)))"

definition run_command_permitted ::
  "pystr \<Rightarrow> fsview \<Rightarrow> pystr \<Rightarrow> action \<Rightarrow> task_scope \<Rightarrow> path \<Rightarrow> pystr list \<Rightarrow> bool" where
  "run_command_permitted backend v sys_executable act scope workspace_root argv \<longleftrightarrow>
     backend = ''docker''
     \<and> (''run_command'' \<in> set (allowed_operations scope)
        \<or> ''run_command'' \<in> set (requires_approval scope))
     \<and> (\<exists>sub. extract_submission act = Inr sub \<and> submission_argv sub = Inr argv)
     \<and> run_command_argv_denial v sys_executable act scope workspace_root argv = None"

definition action_permitted ::
  "pystr \<Rightarrow> fsview \<Rightarrow> pystr \<Rightarrow> action \<Rightarrow> run \<Rightarrow> path \<Rightarrow> bool" where
  "action_permitted backend v sys_executable act r workspace_root \<longleftrightarrow>
     (run_st r = RS_ACTIVE \<or> run_st r = RS_WAITING_FOR_APPROVAL)
     \<and> tool act \<noteq> [] \<and> tool act \<in> set (allowed_tools (run_scope r)) \<and> tool act \<in> set SUPPORTED_TOOLS
     \<and> operation act \<in> set SUPPORTED_OPERATIONS \<and> operation act \<noteq> ''network_request''
     \<and> (if operation act = ''run_command''
        then \<exists>argv. run_command_permitted backend v sys_executable act (run_scope r) workspace_root argv
        else in_bounds v workspace_root (allowed_paths (run_scope r)) (blocked_paths (run_scope r))
               (resource act)
             \<and> (operation act \<in> set (allowed_operations (run_scope r))
                \<or> operation act \<in> set (requires_approval (run_scope r))))"

definition approval_needed ::
  "action \<Rightarrow> run \<Rightarrow> bool" where
  "approval_needed act r \<longleftrightarrow>
     operation act \<in> set (requires_approval (run_scope r))
     \<or> (operation act = ''run_command''
        \<and> (\<exists>sub argv. extract_submission act = Inr sub \<and> submission_argv sub = Inr argv
              \<and> argv_matches_prefix argv (commands_requiring_approval (run_scope r))))"

definition policy_spec ::
  "pystr \<Rightarrow> fsview \<Rightarrow> pystr \<Rightarrow> action \<Rightarrow> run \<Rightarrow> path \<Rightarrow> policy_outcome" where
  "policy_spec backend v sys_executable act r workspace_root =
     (if \<not> action_permitted backend v sys_executable act r workspace_root then PO_DENY
      else if approval_needed act r then PO_HOLD else PO_ALLOW)"

section \<open>Lemmas\<close>

lemma mk_decision_simps [simp]:
  "outcome (mk_decision i a n oc rc e m) = oc"
  "reason_code (mk_decision i a n oc rc e m) = rc"
  "dec_id (mk_decision i a n oc rc e m) = i"
  "dec_action_id (mk_decision i a n oc rc e m) = act_id a"
  "deterministic (mk_decision i a n oc rc e m)"
  by (simp_all add: mk_decision_def)

lemma relative_to_Some: "relative_to p root = Some c \<longleftrightarrow> p = root @ c"
  by (auto simp: relative_to_def) (metis append_take_drop_id)

lemma scoped_reason_None:
  "scoped_path_reason v rq rs al bl ci wr = None \<longleftrightarrow> scoped_path_denial v rq rs al bl ci wr = None"
  by (auto simp: scoped_path_reason_def split: option.splits)

lemma scoped_denial_rooted:
  "scoped_path_denial v rq rs al bl ci (Some rw) = scoped_path_denial v rq rs al bl ci' (Some rw)"
  by (simp add: scoped_path_denial_def scope_within_root)

lemma reason_rooted [simp]:
  "scoped_path_reason v rq rs al bl (case_probe v w) (Some rw)
     = scoped_path_reason v rq rs al bl None (Some rw)"
  by (simp add: scoped_path_reason_def scoped_denial_rooted[of v rq rs al bl "case_probe v w" rw None])

lemma resource_denial_None_iff:
  "resource_denial v value scope root = None \<longleftrightarrow>
     in_bounds v root (allowed_paths scope) (blocked_paths scope) value"
  unfolding resource_denial_def in_bounds_def Let_def scoped_reason_None [symmetric]
  by (auto simp: relative_to_Some split: option.splits)

lemma allowed_loop_names:
  assumes "within_loop v root True (take i p) (take i q) (zip (drop i p) (drop i q))"
    and "length q \<le> length p" "i \<le> j" "j < length q"
  shows "p ! j = q ! j
    \<or> (simple_fold (p ! j) = simple_fold (q ! j) \<and> directory_verdict v (root @ take j p) = Some True
       \<and> same_file v (root @ take j p @ [p ! j]) (root @ take j q @ [q ! j]) \<noteq> Some False)"
  using assms
proof (induction "length q - i" arbitrary: i)
  case (Suc n)
  then have i: "i < length q" "i < length p" by auto
  have zip: "zip (drop i p) (drop i q) = (p ! i, q ! i) # zip (drop (Suc i) p) (drop (Suc i) q)"
    using i by (simp add: Cons_nth_drop_Suc[symmetric])
  note loop = Suc.prems(1)[unfolded zip within_loop.simps Let_def]
  have rest: "within_loop v root True (take (Suc i) p) (take (Suc i) q) (zip (drop (Suc i) p) (drop (Suc i) q))"
    using loop i by (auto simp: take_Suc_conv_app_nth split: if_splits)
  show ?case
  proof (cases "j = i")
    case True
    then show ?thesis using loop by (auto split: if_splits)
  next
    case False
    with Suc.hyps(1)[OF _ rest] Suc.hyps(2) Suc.prems show ?thesis by simp
  qed
qed simp

lemma within_named_below: "filesystem_path_within v p a rw True \<Longrightarrow> named_below v rw a p"
  using allowed_loop_names[of v rw 0 p "normalize_relative_segments a"]
  by (auto simp: filesystem_path_within_def named_below_def Let_def split: if_splits)

lemma not_within_clears: "\<not> filesystem_path_within v p b rw False \<Longrightarrow> clears_blocked v rw b p"
  using filesystem_within_literal[of b p v rw False]
  by (auto simp: clears_blocked_def filesystem_path_within_def Let_def split: if_splits)

lemma scope_clear:
  assumes "scoped_path_denial v requested canonical al bl ci (Some rw) = None"
  shows "\<forall>p \<in> {requested, canonical}.
      (\<exists>a \<in> set al. named_below v rw a p) \<and> (\<forall>b \<in> set bl. clears_blocked v rw b p)"
proof
  fix p assume p: "p \<in> {requested, canonical}"
  from assms have "\<forall>p \<in> {requested, canonical}.
      (\<exists>a \<in> set al. filesystem_path_within v p a rw True) \<and> (\<forall>b \<in> set bl. \<not> filesystem_path_within v p b rw False)"
    by (auto simp: scoped_path_denial_def scope_within_root fs_scope.denial_None_iff)
  with p show "(\<exists>a \<in> set al. named_below v rw a p) \<and> (\<forall>b \<in> set bl. clears_blocked v rw b p)"
    using within_named_below not_within_clears by blast
qed

lemma in_bounds_target:
  assumes "in_bounds v root al bl value"
  shows "target_in_scope v root al bl value"
proof -
  from assms obtain rw c where r: "os_resolve v root = Some rw"
      "os_resolve v (rw @ normalize_relative_segments value) = Some (rw @ c)"
    and d: "scoped_path_denial v (normalize_relative_segments value) c al bl None (Some rw) = None"
    unfolding in_bounds_def by blast
  from r scope_clear[OF d] show ?thesis unfolding target_in_scope_def by blast
qed

lemma outcome_run_command:
  "outcome (evaluate_run_command backend v sys act scope root i now) =
     (if \<not> (\<exists>argv. run_command_permitted backend v sys act scope root argv) then PO_DENY
      else if ''run_command'' \<in> set (requires_approval scope)
           \<or> (\<exists>sub argv. extract_submission act = Inr sub \<and> submission_argv sub = Inr argv
                 \<and> argv_matches_prefix argv (commands_requiring_approval scope))
      then PO_HOLD else PO_ALLOW)"
  by (simp add: evaluate_run_command_def command_outcome_def run_command_permitted_def Let_def
      split: sum.split option.split)

lemma first_denial_None: "first_denial f xs = None \<longleftrightarrow> (\<forall>x \<in> set xs. f x = None)"
  by (induction xs) (auto split: option.splits)

lemma check_path_None:
  "check_run_command_path v value d scope root = None \<Longrightarrow>
     in_bounds v root [''.''] (blocked_paths scope) value"
  unfolding check_run_command_path_def in_bounds_def Let_def scoped_reason_None [symmetric]
  by (auto simp: relative_to_Some split: option.splits if_splits)

lemma match_prefix_len_pos:
  "0 < match_prefix_len argv pres \<Longrightarrow>
     \<exists>p \<in> set pres. p \<noteq> [] \<and> prefix p argv \<and> match_prefix_len argv pres = length p"
  by (induction argv pres rule: match_prefix_len.induct)
     (auto split: if_splits, metis take_is_prefix)

lemma path_candidates_self: "item \<in> set (path_candidates item)"
  by (simp add: path_candidates_def)

lemma permitted_command_parts:
  assumes "run_command_permitted backend v sys act scope root argv"
  shows "\<exists>p \<in> set (allowed_commands scope). p \<noteq> [] \<and> prefix p argv
           \<and> check_run_command_flags sys argv (length p) (allowed_flags_for p) = None
           \<and> (\<forall>item \<in> set (drop (length p) argv). \<forall>c \<in> set (path_candidates item).
                target_in_scope v root [''.''] (blocked_paths scope) c)
           \<and> target_in_scope v root [''.''] (blocked_paths scope) (cwd_value act)"
proof -
  let ?n = "match_prefix_len argv (allowed_commands scope)"
  have none: "run_command_argv_denial v sys act scope root argv = None"
    using assms by (simp add: run_command_permitted_def)
  then have pos: "0 < ?n"
    and flags: "check_run_command_flags sys argv ?n (allowed_flags_for (take ?n argv)) = None"
    and paths: "run_command_paths_denial v act scope root (drop ?n argv) = None"
    by (auto simp: run_command_argv_denial_def Let_def split: if_splits option.splits)
  obtain p where p: "p \<in> set (allowed_commands scope)" "p \<noteq> []" "prefix p argv" "?n = length p"
    using match_prefix_len_pos[OF pos] by blast
  have "take (length p) argv = p" using p(3) by (auto simp: prefix_def)
  moreover have "\<forall>item \<in> set (drop (length p) argv). \<forall>c \<in> set (path_candidates item).
      target_in_scope v root [''.''] (blocked_paths scope) c"
    and "target_in_scope v root [''.''] (blocked_paths scope) (cwd_value act)"
    using paths p(4)
    by (auto simp: run_command_paths_denial_def first_denial_None
        intro!: in_bounds_target check_path_None)
  ultimately show ?thesis using p flags by (intro bexI[of _ p]) auto
qed

lemma evaluate_policy_outcome:
  "outcome (evaluate_policy version backend v sys act r root i now)
     = policy_spec backend v sys act r root"
proof -
  have "outcome (evaluate_policy_rules backend v sys act r root i now)
          = policy_spec backend v sys act r root"
    unfolding evaluate_policy_rules_def policy_spec_def action_permitted_def approval_needed_def
    by (simp add: Let_def outcome_run_command operation_outcome_def resource_denial_None_iff [symmetric]
        SUPPORTED_OPERATIONS_def split: option.split) auto
  then show ?thesis by (simp add: evaluate_policy_def)
qed

lemma policy_stamps:
  "policy_version (evaluate_policy version backend v sys act r root i now) = Some version
   \<and> dec_action_id (evaluate_policy version backend v sys act r root i now) = act_id act"
proof -
  have "dec_action_id (evaluate_policy_rules backend v sys act r root i now) = act_id act"
    by (simp add: evaluate_policy_rules_def evaluate_run_command_def operation_outcome_def
        command_outcome_def Let_def
        split: option.split sum.split)
  then show ?thesis by (simp add: evaluate_policy_def)
qed

section \<open>Properties\<close>

text \<open>
  C1: the policy engine refines its specification: the fifteen-step rule chain, run_command
  branch included, denies exactly the actions that are not permitted, holds exactly the permitted
  ones that need approval, and allows the rest; and every decision carries the policy identity
  and is bound to the action it was made for.
\<close>

theorem policy_refines_spec:
  "outcome (evaluate_policy version backend v sys act r root i now)
     = policy_spec backend v sys act r root
   \<and> policy_version (evaluate_policy version backend v sys act r root i now) = Some version
   \<and> dec_action_id (evaluate_policy version backend v sys act r root i now) = act_id act"
  using evaluate_policy_outcome policy_stamps by blast

lemma spec_not_deny:
  "policy_spec backend v sys act r root \<noteq> PO_DENY \<Longrightarrow>
     action_permitted backend v sys act r root"
  by (auto simp: policy_spec_def split: if_splits)

text \<open>A concrete run, view and request, for the witnesses.\<close>

definition demo_scope :: task_scope where
  "demo_scope =
     \<lparr>schema_version = ''1'', task_description = ''demo'', allowed_paths = [''invoices'', ''outputs''],
      blocked_paths = [''invoices/private''], allowed_tools = [''workspace''],
      allowed_operations = [''read_text'', ''write_text'', ''run_command''],
      allowed_network_destinations = [], requires_approval = [''write_text''],
      require_reasoning_for = [], allowed_commands = [[''pytest'']],
      commands_requiring_approval = [], ts_created_at = 0\<rparr>"

definition demo_run :: run where
  "demo_run =
     \<lparr>run_key = ''r1'', run_name = ''demo'', run_scope = demo_scope, run_st = RS_ACTIVE,
      run_created_at = 0, run_updated_at = 0, run_synthetic = True, interception_coverage = [],
      reasoning_availability = [], prompt_version = None, workspace_path = Some ''/ws''\<rparr>"

definition demo_action :: "pystr \<Rightarrow> pystr \<Rightarrow> jobj \<Rightarrow> action" where
  "demo_action oper res args =
     \<lparr>act_id = ''a1'', act_run_id = ''r1'', tool = ''workspace'', operation = oper, resource = res,
      arguments = args, requested_by = ''agent'', requested_at = 0, reasoning_summary = None,
      exposed_trace = None, reasoning_provenance = RP_UNAVAILABLE, caller_claimed = None,
      turn_id = None, act_audit_id = None\<rparr>"

text \<open>
  C38: a file operation the policy does not deny belongs to a live run and an allowlisted tool,
  is not a network request, and both names of its target, the requested one and the one it has after
  symlink resolution inside the resolved workspace, are below an allowed path (up to case only where the
  volume is confirmed to ignore it) and below no blocked path, and reach no blocked file under another
  name.
\<close>

theorem granted_file_target_in_scope:
  assumes "outcome (evaluate_policy version backend v sys act r root i now) \<noteq> PO_DENY"
    and "operation act \<noteq> ''run_command''"
  shows "(run_st r = RS_ACTIVE \<or> run_st r = RS_WAITING_FOR_APPROVAL)
       \<and> tool act \<in> set (allowed_tools (run_scope r)) \<and> operation act \<noteq> ''network_request''
       \<and> target_in_scope v root (allowed_paths (run_scope r)) (blocked_paths (run_scope r))
           (resource act)"
  using spec_not_deny[of backend v sys act r root] assms
  by (auto simp: evaluate_policy_outcome action_permitted_def intro: in_bounds_target)

theorem granted_file_target_in_scope_witness:
  "target_in_scope (quiet_view\<lparr>os_stat := (\<lambda>p. StatError)\<rparr>) [''ws''] [''invoices'', ''outputs'']
     [''invoices/private''] ''invoices/approved/a.txt''"
proof -
  let ?v = "quiet_view\<lparr>os_stat := (\<lambda>p. StatError)\<rparr>"
  let ?a = "demo_action ''read_text'' ''invoices/approved/a.txt'' []"
  have "outcome (evaluate_policy ''v'' ''local'' ?v ''py'' ?a demo_run [''ws''] ''d'' 0) = PO_ALLOW"
    by code_simp
  then show ?thesis
    using granted_file_target_in_scope[of "''v''" "''local''" ?v "''py''" ?a demo_run "[''ws'']" "''d''" 0]
    by (simp add: demo_action_def demo_run_def demo_scope_def)
qed

text \<open>
  C39: a command the policy does not deny runs only under the Docker backend, starts with a
  non-empty allowlisted prefix, passes the option allowlist of that very prefix, and every path
  candidate of every later token, and the working directory, resolves inside the workspace and
  outside every blocked path.
\<close>

theorem granted_command_within_scope:
  assumes "outcome (evaluate_policy version backend v sys act r root i now) \<noteq> PO_DENY"
    and "operation act = ''run_command''"
  shows "backend = ''docker'' \<and>
    (\<exists>sub argv p. extract_submission act = Inr sub \<and> submission_argv sub = Inr argv
      \<and> p \<in> set (allowed_commands (run_scope r)) \<and> p \<noteq> [] \<and> prefix p argv
      \<and> check_run_command_flags sys argv (length p) (allowed_flags_for p) = None
      \<and> (\<forall>item \<in> set (drop (length p) argv). \<forall>c \<in> set (path_candidates item).
           target_in_scope v root [''.''] (blocked_paths (run_scope r)) c)
      \<and> target_in_scope v root [''.''] (blocked_paths (run_scope r)) (cwd_value act))"
proof -
  obtain argv where ok: "run_command_permitted backend v sys act (run_scope r) root argv"
    using spec_not_deny[of backend v sys act r root] assms
    by (auto simp: evaluate_policy_outcome action_permitted_def)
  then show ?thesis
    using permitted_command_parts[OF ok] by (auto simp: run_command_permitted_def)
qed

theorem granted_command_within_scope_witness:
  "\<exists>sub argv. extract_submission (demo_action ''run_command'' ''.''
      [(''command'', JStr ''pytest tests --junitxml=out.xml'')]) = Inr sub
    \<and> submission_argv sub = Inr argv \<and> prefix [''pytest''] argv"
proof -
  let ?v = "quiet_view\<lparr>os_stat := (\<lambda>p. StatError)\<rparr>"
  let ?a = "demo_action ''run_command'' ''.'' [(''command'', JStr ''pytest tests --junitxml=out.xml'')]"
  have "outcome (evaluate_policy ''v'' ''docker'' ?v ''py'' ?a demo_run [''ws''] ''d'' 0) = PO_ALLOW"
    by code_simp
  then show ?thesis
    using granted_command_within_scope[of "''v''" "''docker''" ?v "''py''" ?a demo_run "[''ws'']" "''d''" 0]
    by (auto simp: demo_action_def demo_run_def demo_scope_def)
qed

lemma check_flags_from_dash:
  "check_flags_from pt flags ts = None \<Longrightarrow> ''-o'' \<notin> set flags \<Longrightarrow>
     \<forall>t \<in> set ts. starts_with t ''-'' \<longrightarrow> split1_head (CHR ''='') t \<in> set flags"
proof (induction pt flags ts rule: check_flags_from.induct)
  case (2 pt flags item rest)
  show ?case
  proof (cases "starts_with item ''-''")
    case True
    with 2(4,5) have mem: "split1_head (CHR ''='') item \<in> set flags"
      by (auto simp: Let_def split: if_splits)
    with 2(5) have no: "split1_head (CHR ''='') item \<noteq> ''-o''" by auto
    from True mem no 2(4) have "check_flags_from pt flags rest = None"
      by (simp add: Let_def)
    with 2(2)[OF True refl] mem no 2(5) show ?thesis by auto
  next
    case False
    with 2(3)[OF False] 2(4,5) show ?thesis by auto
  qed
qed simp

text \<open>
  Options are default-deny. For a command prefix the rule set declares no \<open>-o\<close> for, every
  token after the prefix that starts with a dash names a declared option; for a prefix the rule
  set does not know at all, an accepted command has no option token.
\<close>

lemma options_default_deny:
  assumes "check_run_command_flags sys argv n (allowed_flags_for pre) = None"
    and "''-o'' \<notin> set (allowed_flags_for pre)"
  shows "(\<forall>t \<in> set (drop n argv). starts_with t ''-'' \<longrightarrow>
            split1_head (CHR ''='') t \<in> set (allowed_flags_for pre))
       \<and> (pre \<notin> fst ` set RUN_COMMAND_ALLOWED_FLAGS \<longrightarrow>
            (\<forall>t \<in> set (drop n argv). \<not> starts_with t ''-''))"
proof -
  have dash: "\<forall>t \<in> set (drop n argv). starts_with t ''-'' \<longrightarrow>
            split1_head (CHR ''='') t \<in> set (allowed_flags_for pre)"
    using assms check_flags_from_dash by (simp add: check_run_command_flags_def)
  moreover have "allowed_flags_for pre = []" if "pre \<notin> fst ` set RUN_COMMAND_ALLOWED_FLAGS"
  proof -
    have "map_of RUN_COMMAND_ALLOWED_FLAGS pre = None"
      using that by (simp only: map_of_eq_None_iff not_False_eq_True)
    then show ?thesis by (simp add: allowed_flags_for_def)
  qed
  ultimately show ?thesis by auto
qed

section \<open>Metacharacters, quoting and dispatch\<close>

definition single_metacharacters :: "char list" where
  "single_metacharacters =
     [CHR '';'', CHR ''&'', CHR ''|'', CHR ''>'', CHR ''<'', CHR 0x60, CHR 0x0A, CHR 0x0D, CHR 0x00]"

lemma no_meta_chars:
  "\<not> contains_shell_metacharacter s \<Longrightarrow> c \<in> set single_metacharacters \<Longrightarrow> c \<notin> set s"
  by (auto simp: contains_shell_metacharacter_def RUN_COMMAND_METACHARACTERS_def
      single_metacharacters_def)

lemma submission_meta_free:
  assumes "submission_argv sub = Inr argv" and "t \<in> set argv" and "c \<in> set single_metacharacters"
  shows "c \<notin> set t"
proof (cases sub)
  case (RawCommand raw)
  with assms(1) have "\<not> contains_shell_metacharacter raw" "shlex_split raw = Inr argv"
    by (auto split: if_splits sum.splits)
  then show ?thesis using assms(2,3) shlex_split_chars no_meta_chars by blast
next
  case (ArgvList av)
  with assms(1,2) have "\<not> contains_shell_metacharacter t"
    by (auto simp: list_ex_iff split: if_splits)
  then show ?thesis using assms(3) no_meta_chars by blast
qed

text \<open>
  No accepted submission, string or vector, yields an argument containing a one-character
  shell metacharacter: parsing a string that was checked before parsing cannot introduce one.
\<close>

lemma parsed_arguments_metacharacter_free:
  assumes "submission_argv sub = Inr argv" and "t \<in> set argv" and "c \<in> set single_metacharacters"
  shows "c \<notin> set t"
  using assms by (rule submission_meta_free)

definition split_dollar_command :: pystr where
  "split_dollar_command = ''pytest $'' @ [CHR 0x27] @ ''(x'' @ [CHR 0x27]"

text \<open>
  The one two-character metacharacter is different: quoting hides it from the check on the
  raw string and parsing rebuilds it, so the policy allows a command one of whose arguments
  contains a dollar sign followed by a parenthesis, and the same action is refused when it is
  revalidated at dispatch.
\<close>

lemma quoting_smuggles_dollar_paren:
  "outcome (evaluate_policy ''v'' ''docker'' (quiet_view\<lparr>os_stat := (\<lambda>p. StatError)\<rparr>) ''py''
      (demo_action ''run_command'' ''.'' [(''command'', JStr split_dollar_command)])
      demo_run [''ws''] ''d'' 0) = PO_ALLOW
   \<and> submission_argv (RawCommand split_dollar_command) = Inr [''pytest'', ''$(x'']
   \<and> map_option fst (revalidate_run_command_in_workspace (quiet_view\<lparr>os_stat := (\<lambda>p. StatError)\<rparr>)
        ''py'' (demo_action ''run_command'' ''.'' [(''command'', JStr split_dollar_command)])
        demo_scope [''ws'']) = Some RC_SHELL_METACHARACTER"
proof -
  have "outcome (evaluate_policy ''v'' ''docker'' (quiet_view\<lparr>os_stat := (\<lambda>p. StatError)\<rparr>) ''py''
      (demo_action ''run_command'' ''.'' [(''command'', JStr split_dollar_command)])
      demo_run [''ws''] ''d'' 0) = PO_ALLOW" by code_simp
  moreover have "submission_argv (RawCommand split_dollar_command) = Inr [''pytest'', ''$(x'']"
    by code_simp
  moreover have "map_option fst (revalidate_run_command_in_workspace
        (quiet_view\<lparr>os_stat := (\<lambda>p. StatError)\<rparr>) ''py''
        (demo_action ''run_command'' ''.'' [(''command'', JStr split_dollar_command)])
        demo_scope [''ws'']) = Some RC_SHELL_METACHARACTER" by code_simp
  ultimately show ?thesis by blast
qed

lemma extract_dispatch:
  "extract_submission act = Inr sub \<Longrightarrow> submission_argv sub = Inr argv \<Longrightarrow> dispatch_argv act = Inr argv"
  by (auto simp: extract_submission_def dispatch_argv_def split: json.splits if_splits option.splits
      sum.splits)

lemma staged_after_path_check:
  assumes "check_run_command_path v value d scope staged = None" "os_resolve v staged = Some staged"
  shows "check_staged_resolved_target v value d' scope staged = None"
  using assms
  by (auto simp: check_run_command_path_def check_staged_resolved_target_def Let_def
      split: option.splits if_splits)

text \<open>
  Dispatch agrees with the policy. A permitted command revalidated in an unchanged, fully
  resolved workspace is refused at most for a shell metacharacter that parsing rebuilt; every
  other dispatch check (prefix, options, each path lexically and by where it resolves, the
  working directory) accepts what the policy accepted.
\<close>

lemma dispatch_agrees_with_policy:
  assumes granted: "outcome (evaluate_policy version backend v sys act r root i now) \<noteq> PO_DENY"
    and oper: "operation act = ''run_command''"
    and resolved: "os_resolve v root = Some root"
  shows "case revalidate_run_command_in_workspace v sys act (run_scope r) root of
           None \<Rightarrow> True
         | Some d \<Rightarrow> fst d = RC_SHELL_METACHARACTER
             \<and> (\<exists>argv t. dispatch_argv act = Inr argv \<and> t \<in> set argv \<and> substring_of ''$('' t)"
proof -
  obtain argv sub where sub: "extract_submission act = Inr sub" "submission_argv sub = Inr argv"
    and none: "run_command_argv_denial v sys act (run_scope r) root argv = None"
    using spec_not_deny[of backend v sys act r root] granted oper
    by (auto simp: evaluate_policy_outcome action_permitted_def run_command_permitted_def)
  have argv: "dispatch_argv act = Inr argv" using extract_dispatch sub by blast
  let ?n = "match_prefix_len argv (allowed_commands (run_scope r))"
  from none have n: "?n \<noteq> 0"
    and flags: "check_run_command_flags sys argv ?n (allowed_flags_for (take ?n argv)) = None"
    and paths: "run_command_paths_denial v act (run_scope r) root (drop ?n argv) = None"
    by (auto simp: run_command_argv_denial_def Let_def split: if_splits option.splits)
  have step: "staged_value_denial v (run_scope r) root dv = None"
    if "check_run_command_path v (snd dv) (fst dv) (run_scope r) root = None" for dv
    using that staged_after_path_check[OF that resolved] by (simp add: staged_value_denial_def)
  have "first_denial (staged_value_denial v (run_scope r) root)
          (map (\<lambda>c. (command_argument c, c)) (concat (map path_candidates (drop ?n argv)))
           @ [(''Working directory'', cwd_value act)]) = None"
    using paths step unfolding first_denial_None run_command_paths_denial_def by blast
  then have rest: "\<not> list_ex contains_shell_metacharacter argv \<Longrightarrow>
      revalidate_run_command_in_workspace v sys act (run_scope r) root = None"
    using argv n flags resolved by (simp add: revalidate_run_command_in_workspace_def Let_def)
  show ?thesis
  proof (cases "list_ex contains_shell_metacharacter argv")
    case True
    then obtain t where t: "t \<in> set argv" "contains_shell_metacharacter t"
      by (auto simp: list_ex_iff)
    have free: "c \<notin> set t" if "c \<in> set single_metacharacters" for c
      using submission_meta_free sub(2) t(1) that by blast
    have "substring_of ''$('' t"
      using t(2) free
      by (auto simp: contains_shell_metacharacter_def RUN_COMMAND_METACHARACTERS_def
          single_metacharacters_def)
    with True t argv show ?thesis
      by (auto simp: revalidate_run_command_in_workspace_def)
  qed (simp add: rest)
qed

end
