(* ===== verification/DispatchGate.thy ===== *)
theory DispatchGate
  imports Schemas
begin

text \<open>
  \<open>backend/scopewatch/dispatch_gate.py\<close>: the one pre-dispatch authorisation every executor
  backend calls. Its arguments are duck-typed (the sidecar's JSON dictionaries or the gateway's
  models), so an argument is an optional field map into JSON values; \<open>action_obj\<close>,
  \<open>decision_obj\<close> and \<open>approval_obj\<close> render the gateway's records as such maps (an enumeration
  member reads as its \<open>.value\<close>).
\<close>

section \<open>The gate\<close>

type_synonym obj = "(pystr \<rightharpoonup> json) option"

datatype verdict_kind = VK_PROCEED | VK_DENY | VK_REFUSE

datatype verdict_code =
  VC_NO_DECISION | VC_OUTCOME_REFUSED | VC_APPROVAL_REQUIRED | VC_NETWORK_FORBIDDEN
| VC_POLICY_DENY | VC_OK

fun verdict_code_value :: "verdict_code \<Rightarrow> pystr" where
  "verdict_code_value VC_NO_DECISION = ''NO_DECISION''"
| "verdict_code_value VC_OUTCOME_REFUSED = ''OUTCOME_REFUSED''"
| "verdict_code_value VC_APPROVAL_REQUIRED = ''APPROVAL_REQUIRED''"
| "verdict_code_value VC_NETWORK_FORBIDDEN = ''NETWORK_FORBIDDEN''"
| "verdict_code_value VC_POLICY_DENY = ''POLICY_DENY''"
| "verdict_code_value VC_OK = ''OK''"

record dispatch_verdict =
  dv_kind :: verdict_kind
  dv_code :: verdict_code
  dv_reason :: pystr
  dv_outcome :: "pystr option"

definition proceed :: "dispatch_verdict \<Rightarrow> bool" where
  "proceed dv \<longleftrightarrow> dv_kind dv = VK_PROCEED"

definition field_of :: "obj \<Rightarrow> pystr \<Rightarrow> json option" where
  "field_of ob name = (case ob of None \<Rightarrow> None | Some m \<Rightarrow> m name)"

definition text_of :: "json option \<Rightarrow> pystr option" where
  "text_of v = (case v of Some (JStr s) \<Rightarrow> Some s | _ \<Rightarrow> None)"

definition authorize_dispatch :: "obj \<Rightarrow> obj \<Rightarrow> obj \<Rightarrow> dispatch_verdict" where
  "authorize_dispatch act dec app =
     (if dec = None then
        \<lparr>dv_kind = VK_REFUSE, dv_code = VC_NO_DECISION,
         dv_reason = ''Direct execution without policy evidence is prohibited.'',
         dv_outcome = None\<rparr>
      else
        let outc = text_of (field_of dec ''outcome'')
        in if outc = Some ''DENY'' then
             \<lparr>dv_kind = VK_DENY, dv_code = VC_POLICY_DENY,
              dv_reason = ''Policy outcome was DENY; execution blocked.'', dv_outcome = outc\<rparr>
           else if outc \<noteq> Some ''ALLOW'' \<and> outc \<noteq> Some ''HOLD'' then
             \<lparr>dv_kind = VK_REFUSE, dv_code = VC_OUTCOME_REFUSED,
              dv_reason = ''Policy outcome does not authorize execution.'', dv_outcome = outc\<rparr>
           else
             let action_id = text_of (field_of act ''id'');
                 approval_st = text_of (field_of app ''status'');
                 approval_action_id = text_of (field_of app ''action_request_id'')
             in if outc = Some ''HOLD''
                   \<and> (\<not> truthy action_id \<or> approval_st \<noteq> Some ''APPROVED''
                      \<or> approval_action_id \<noteq> action_id) then
                  \<lparr>dv_kind = VK_REFUSE, dv_code = VC_APPROVAL_REQUIRED,
                   dv_reason = ''Held action requires valid approved status to execute.'',
                   dv_outcome = outc\<rparr>
                else if text_of (field_of act ''operation'') = Some ''network_request'' then
                  \<lparr>dv_kind = VK_REFUSE, dv_code = VC_NETWORK_FORBIDDEN,
                   dv_reason = ''Network requests are forbidden in synthetic executor.'',
                   dv_outcome = outc\<rparr>
                else
                  \<lparr>dv_kind = VK_PROCEED, dv_code = VC_OK,
                   dv_reason = ''Authorized for backend-specific dispatch.'',
                   dv_outcome = outc\<rparr>)"

definition action_obj :: "action \<Rightarrow> obj" where
  "action_obj a =
     Some [''id'' \<mapsto> JStr (act_id a), ''run_id'' \<mapsto> JStr (act_run_id a),
           ''tool'' \<mapsto> JStr (tool a), ''operation'' \<mapsto> JStr (operation a),
           ''resource'' \<mapsto> JStr (resource a)]"

definition decision_obj :: "decision option \<Rightarrow> obj" where
  "decision_obj d = map_option (\<lambda>d.
     [''id'' \<mapsto> JStr (dec_id d), ''action_request_id'' \<mapsto> JStr (dec_action_id d),
      ''outcome'' \<mapsto> JStr (policy_outcome_value (outcome d))]) d"

definition approval_obj :: "approval option \<Rightarrow> obj" where
  "approval_obj p = map_option (\<lambda>p.
     [''id'' \<mapsto> JStr (app_id p), ''action_request_id'' \<mapsto> JStr (app_action_id p),
      ''status'' \<mapsto> JStr (approval_status_value (app_status p))]) p"

section \<open>The interface executor backends rely on\<close>

text \<open>
  What a backend may assume of a gate. It proceeds only on a policy decision that allows, or
  that holds and is matched by an approved approval for this very action, and never for a
  network operation; a denial is never anything but a denial.
\<close>

definition holds_approved :: "obj \<Rightarrow> obj \<Rightarrow> bool" where
  "holds_approved act app \<longleftrightarrow>
     (\<exists>i. i \<noteq> [] \<and> text_of (field_of act ''id'') = Some i
          \<and> text_of (field_of app ''status'') = Some ''APPROVED''
          \<and> text_of (field_of app ''action_request_id'') = Some i)"

locale dispatch_gate =
  fixes gate :: "obj \<Rightarrow> obj \<Rightarrow> obj \<Rightarrow> dispatch_verdict"
  assumes proceed_outcome: "proceed (gate act dec app) \<Longrightarrow>
      text_of (field_of dec ''outcome'') = Some ''ALLOW''
      \<or> text_of (field_of dec ''outcome'') = Some ''HOLD'' \<and> holds_approved act app"
    and proceed_not_network: "proceed (gate act dec app) \<Longrightarrow>
      text_of (field_of act ''operation'') \<noteq> Some ''network_request''"
    and deny_kind: "text_of (field_of dec ''outcome'') = Some ''DENY'' \<Longrightarrow>
      dv_kind (gate act dec app) = VK_DENY"
    and deny_only: "dv_kind (gate act dec app) = VK_DENY \<Longrightarrow>
      text_of (field_of dec ''outcome'') = Some ''DENY''"
begin

lemma deny_never_proceeds:
  "text_of (field_of dec ''outcome'') = Some ''DENY'' \<Longrightarrow> \<not> proceed (gate act dec app)"
  using proceed_outcome by fastforce

lemma no_decision_never_proceeds: "\<not> proceed (gate act None app)"
  using proceed_outcome[of act None app] by (auto simp: field_of_def text_of_def)

lemma held_needs_approval:
  "text_of (field_of dec ''outcome'') = Some ''HOLD'' \<Longrightarrow> proceed (gate act dec app) \<Longrightarrow>
     holds_approved act app"
  using proceed_outcome by fastforce

end

lemma truthy_iff: "truthy s \<longleftrightarrow> (\<exists>t. s = Some t \<and> t \<noteq> [])"
  by (cases s) (auto simp: truthy_def)

interpretation gate: dispatch_gate authorize_dispatch
proof
  fix act dec app :: obj
  show "proceed (authorize_dispatch act dec app) \<Longrightarrow>
      text_of (field_of dec ''outcome'') = Some ''ALLOW''
      \<or> text_of (field_of dec ''outcome'') = Some ''HOLD'' \<and> holds_approved act app"
    by (auto simp: authorize_dispatch_def proceed_def Let_def holds_approved_def truthy_iff
        split: if_splits)
  show "proceed (authorize_dispatch act dec app) \<Longrightarrow>
      text_of (field_of act ''operation'') \<noteq> Some ''network_request''"
    by (auto simp: authorize_dispatch_def proceed_def Let_def split: if_splits)
  show "text_of (field_of dec ''outcome'') = Some ''DENY'' \<Longrightarrow>
      dv_kind (authorize_dispatch act dec app) = VK_DENY"
    by (cases dec) (auto simp: authorize_dispatch_def field_of_def text_of_def)
  show "dv_kind (authorize_dispatch act dec app) = VK_DENY \<Longrightarrow>
      text_of (field_of dec ''outcome'') = Some ''DENY''"
    by (auto simp: authorize_dispatch_def Let_def split: if_splits)
qed

section \<open>Properties\<close>

lemma text_of_simps [simp]:
  "text_of (Some (JStr s)) = Some s" "text_of None = None"
  by (simp_all add: text_of_def)

lemma field_action [simp]:
  "field_of (action_obj a) ''id'' = Some (JStr (act_id a))"
  "field_of (action_obj a) ''operation'' = Some (JStr (operation a))"
  by (simp_all add: field_of_def action_obj_def)

lemma field_decision [simp]:
  "field_of (decision_obj (Some d)) ''outcome'' = Some (JStr (policy_outcome_value (outcome d)))"
  "decision_obj None = None"
  by (simp_all add: field_of_def decision_obj_def)

lemma field_approval [simp]:
  "field_of (approval_obj (Some p)) ''status'' = Some (JStr (approval_status_value (app_status p)))"
  "field_of (approval_obj (Some p)) ''action_request_id'' = Some (JStr (app_action_id p))"
  "approval_obj None = None"
  by (simp_all add: field_of_def approval_obj_def)

lemma outcome_value_iff [simp]:
  "policy_outcome_value oc = ''ALLOW'' \<longleftrightarrow> oc = PO_ALLOW"
  "policy_outcome_value oc = ''DENY'' \<longleftrightarrow> oc = PO_DENY"
  "policy_outcome_value oc = ''HOLD'' \<longleftrightarrow> oc = PO_HOLD"
  by (cases oc; simp)+

lemma approved_value_iff [simp]: "approval_status_value st = ''APPROVED'' \<longleftrightarrow> st = AS_APPROVED"
  by (cases st) simp_all

lemma field_of_None [simp]: "field_of None n = None"
  by (simp add: field_of_def)

text \<open>
  The gate proceeds on the gateway's own objects exactly when the decision allows, or holds
  with an approval that is APPROVED and bound to this non-empty action id, and the operation is
  not a network request; in particular a consumed, pending, denied, expired, missing or
  mismatched approval never authorises a held action.
\<close>

lemma gate_proceeds_iff:
  "proceed (authorize_dispatch (action_obj a) (decision_obj d) (approval_obj p)) \<longleftrightarrow>
     (\<exists>dc. d = Some dc
        \<and> (outcome dc = PO_ALLOW
           \<or> outcome dc = PO_HOLD \<and> act_id a \<noteq> []
             \<and> (\<exists>ap. p = Some ap \<and> app_status ap = AS_APPROVED \<and> app_action_id ap = act_id a))
        \<and> operation a \<noteq> ''network_request'')"
proof (cases d)
  case None
  then show ?thesis using gate.no_decision_never_proceeds by simp
next
  case (Some dc)
  then have "decision_obj d \<noteq> None" by (simp add: decision_obj_def)
  with Some show ?thesis
    by (cases p; cases "outcome dc")
       (auto simp: authorize_dispatch_def proceed_def Let_def truthy_def)
qed

text \<open>
  A policy denial is final at the gate, whatever the action and whatever approval is
  presented, on the wire objects too: the verdict is the denial verdict and never proceeds.
\<close>

lemma gate_deny_final:
  assumes "text_of (field_of dec ''outcome'') = Some ''DENY''"
  shows "dv_kind (authorize_dispatch act dec app) = VK_DENY
       \<and> \<not> proceed (authorize_dispatch act dec app)"
  using gate.deny_kind[OF assms] gate.deny_never_proceeds[OF assms] by blast

end
