(* ===== verification/Provenance.thy ===== *)
theory Provenance
  imports Schemas
begin

text \<open>
  \<open>backend/scopewatch/provenance.py\<close>: which reasoning-provenance label a submission is stored
  with. The environment lookup \<open>os.environ.get(SCOPEWATCH_CAPTURE_TOKEN)\<close> is an argument.
  A credential outside ASCII makes the comparison raise.
\<close>

section \<open>Labels\<close>

definition UNVERIFIED_CLAIM_LABELS :: "provenance \<rightharpoonup> provenance" where
  "UNVERIFIED_CLAIM_LABELS =
     [RP_PROVIDER_EXPOSED_TRACE \<mapsto> RP_CALLER_ASSERTED_PROVIDER_TRACE,
      RP_AGENT_AUTHORED_SUMMARY \<mapsto> RP_CALLER_ASSERTED_SUMMARY]"

text \<open>Header names are compared without case.\<close>

definition CAPTURE_TOKEN_HEADER :: pystr where "CAPTURE_TOKEN_HEADER = ''x-scopewatch-capture-token''"

definition configured_capture_token :: "pystr option \<Rightarrow> pystr option" where
  "configured_capture_token env_value =
     (let tok = strip (or_empty env_value) in if tok = [] then None else Some tok)"

definition capture_credential_verified :: "pystr option \<Rightarrow> pystr option \<Rightarrow> pystr + bool" where
  "capture_credential_verified configured provided =
     (let expected = strip (or_empty configured);
          offered = strip (or_empty provided)
      in if expected = [] \<or> offered = [] then Inr False else compare_digest expected offered)"

definition provenance_for_submission :: "provenance \<Rightarrow> bool \<Rightarrow> provenance" where
  "provenance_for_submission claimed capture_verified =
     (if capture_verified then claimed
      else (case UNVERIFIED_CLAIM_LABELS claimed of Some l \<Rightarrow> l | None \<Rightarrow> claimed))"

definition has_caller_claim :: "provenance \<Rightarrow> bool" where
  "has_caller_claim p \<longleftrightarrow> p \<noteq> RP_UNAVAILABLE"

section \<open>Properties\<close>

definition verified_label :: "provenance \<Rightarrow> bool" where
  "verified_label p \<longleftrightarrow> p = RP_PROVIDER_EXPOSED_TRACE \<or> p = RP_AGENT_AUTHORED_SUMMARY"

text \<open>
  A verified provenance label is only ever stored for a submission that presented the
  configured non-blank capture credential (so with no credential configured no submission
  acquires one), and then it is the label the caller claimed.
\<close>

lemma verified_label_needs_credential:
  assumes "capture_credential_verified configured provided = Inr verified"
    and "verified_label (provenance_for_submission claimed verified)"
  shows "strip (or_empty configured) \<noteq> [] \<and> strip (or_empty configured) = strip (or_empty provided)
       \<and> provenance_for_submission claimed True = claimed \<and> verified_label claimed"
  using assms
  by (cases claimed)
     (auto simp: provenance_for_submission_def capture_credential_verified_def Let_def
           UNVERIFIED_CLAIM_LABELS_def verified_label_def compare_digest_Inr split: if_splits)

end
