(* ===== verification/BudgetStore.thy ===== *)
theory BudgetStore
  imports Prelude "HOL-Library.AList"
begin

text \<open>
  \<open>backend/scopewatch/budget_store.py\<close>: the per-profile, per-UTC-day token ledger. Clock readings
  are integral microseconds since the epoch and a UTC day is its number (the code compares
  \<open>strftime("%Y-%m-%d")\<close> texts, which identify the day). The environment is a partial map. The
  JSON store file is its decoded content, \<open>None\<close> when missing or unreadable.
\<close>

type_synonym environ = "pystr \<Rightarrow> pystr option"

definition us_per_day :: int where "us_per_day = 86400000000"

section \<open>Budgets\<close>

definition DEFAULT_RESERVE_PER_AUDIT :: int where "DEFAULT_RESERVE_PER_AUDIT = 8000"
definition RESERVE_ENV :: pystr where "RESERVE_ENV = ''SCOPEWATCH_TOKEN_RESERVE_PER_AUDIT''"
definition DEFAULT_BUDGET_ENV :: pystr where
  "DEFAULT_BUDGET_ENV = ''SCOPEWATCH_TOKEN_BUDGET_DEFAULT''"

definition env_name_char :: "char \<Rightarrow> bool" where
  "env_name_char c \<longleftrightarrow>
     (let n = (of_char c :: nat) in (65 \<le> n \<and> n \<le> 90) \<or> (48 \<le> n \<and> n \<le> 57))"

text \<open>\<open>re.sub("[^A-Z0-9]+", "_", s)\<close>: one underscore per maximal run.\<close>

fun collapse_runs :: "bool \<Rightarrow> pystr \<Rightarrow> pystr" where
  "collapse_runs in_run [] = []"
| "collapse_runs in_run (c # s) =
     (if env_name_char c then c # collapse_runs False s
      else if in_run then collapse_runs True s
      else CHR ''_'' # collapse_runs True s)"

definition sanitize_profile :: "pystr \<Rightarrow> pystr" where
  "sanitize_profile profile =
     (let u = (\<lambda>c. c = CHR ''_'')
      in rev (dropWhile u (rev (dropWhile u (collapse_runs False (py_upper profile))))))"

definition token_budget_env_name :: "pystr \<Rightarrow> pystr" where
  "token_budget_env_name profile = ''SCOPEWATCH_DAILY_TOKEN_BUDGET_'' @ sanitize_profile profile"

definition is_mock_profile :: "pystr \<Rightarrow> pystr \<Rightarrow> bool" where
  "is_mock_profile name base_url \<longleftrightarrow>
     lower (strip name) = ''mock'' \<or> starts_with base_url ''mock://''"

definition blank :: "pystr option \<Rightarrow> bool" where
  "blank v \<longleftrightarrow> strip (or_empty v) = []"

definition daily_token_budget_for :: "environ \<Rightarrow> pystr \<Rightarrow> int option" where
  "daily_token_budget_for env profile =
     (if is_mock_profile profile [] then None
      else
        let named = env (token_budget_env_name profile);
            raw = (if blank named then env DEFAULT_BUDGET_ENV else named)
        in if blank raw then None
           else (case py_int (strip (or_empty raw)) of
                   None \<Rightarrow> Some 0
                 | Some v \<Rightarrow> if v < 0 then Some 0 else Some v))"

definition reserve_per_audit :: "environ \<Rightarrow> int" where
  "reserve_per_audit env =
     (case env RESERVE_ENV of
        None \<Rightarrow> DEFAULT_RESERVE_PER_AUDIT
      | Some raw \<Rightarrow> (case py_int raw of None \<Rightarrow> DEFAULT_RESERVE_PER_AUDIT | Some v \<Rightarrow> max 0 v))"

definition total_tokens_from_usage :: "json \<Rightarrow> int" where
  "total_tokens_from_usage usage =
     (case usage of
        JObj d \<Rightarrow>
          (let fallback =
             (case (num_of (case map_of d ''prompt_tokens'' of None \<Rightarrow> JInt 0 | Some v \<Rightarrow> v),
                    num_of (case map_of d ''completion_tokens'' of None \<Rightarrow> JInt 0 | Some v \<Rightarrow> v)) of
                (Some p, Some c) \<Rightarrow> let combined = py_trunc p + py_trunc c
                                     in if 0 \<le> combined then combined else 0
              | _ \<Rightarrow> 0)
           in case num_of (jget d ''total_tokens'') of
                Some t \<Rightarrow> if 0 \<le> fst t then py_trunc t else fallback
              | None \<Rightarrow> fallback)
      | _ \<Rightarrow> 0)"

definition us_until_utc_midnight :: "instant \<Rightarrow> int" where
  "us_until_utc_midnight now = max 1000000 ((now div us_per_day + 1) * us_per_day - now)"

definition format_rollover :: "int \<Rightarrow> pystr" where
  "format_rollover reset_us =
     (let hours = reset_us div 3600000000;
          minutes = (reset_us mod 3600000000) div 60000000
      in if 0 < hours then ''in ~'' @ show_int hours @ ''h '' @ show_int minutes @ ''m''
         else ''in ~'' @ show_int (max 1 minutes) @ ''m'')"

section \<open>The ledger\<close>

record token_decision =
  td_allowed :: bool
  td_used :: int
  td_budget :: "int option"
  td_reset_us :: int

record ledger =
  lg_day :: int
  lg_used :: "(pystr \<times> int) list"
  lg_has_store :: bool
  lg_file :: "(int \<times> (pystr \<times> int) list) option"

definition utc_day :: "instant \<Rightarrow> int" where
  "utc_day now = now div us_per_day"

definition used_of :: "pystr \<Rightarrow> ledger \<Rightarrow> int" where
  "used_of profile l = (case map_of (lg_used l) profile of None \<Rightarrow> 0 | Some n \<Rightarrow> n)"

definition save_store :: "ledger \<Rightarrow> ledger" where
  "save_store l = (if lg_has_store l then l\<lparr>lg_file := Some (lg_day l, lg_used l)\<rparr> else l)"

definition load_store :: "ledger \<Rightarrow> ledger" where
  "load_store l =
     (if \<not> lg_has_store l then l
      else (case lg_file l of
              Some (day, u) \<Rightarrow>
                if day = lg_day l then l\<lparr>lg_used := map (\<lambda>(k, v). (k, max 0 v)) u\<rparr> else l
            | None \<Rightarrow> l))"

definition new_ledger ::
  "bool \<Rightarrow> (int \<times> (pystr \<times> int) list) option \<Rightarrow> instant \<Rightarrow> ledger" where
  "new_ledger has_store content now =
     load_store \<lparr>lg_day = utc_day now, lg_used = [], lg_has_store = has_store, lg_file = content\<rparr>"

definition rollover :: "instant \<Rightarrow> ledger \<Rightarrow> ledger" where
  "rollover now l =
     (if utc_day now \<noteq> lg_day l then save_store (l\<lparr>lg_day := utc_day now, lg_used := []\<rparr>) else l)"

definition used_today :: "pystr \<Rightarrow> instant \<Rightarrow> ledger \<Rightarrow> int \<times> ledger" where
  "used_today profile now l =
     (if is_mock_profile profile [] then (0, l)
      else let l' = rollover now l in (used_of profile l', l'))"

text \<open>The \<open>budget\<close> argument of \<open>check\<close> is \<open>None\<close> for the \<open>_UNSET\<close> default.\<close>

definition check_budget ::
  "environ \<Rightarrow> pystr \<Rightarrow> int \<Rightarrow> int option option \<Rightarrow> instant \<Rightarrow> instant \<Rightarrow> ledger
     \<Rightarrow> token_decision \<times> ledger" where
  "check_budget env profile estimate budget now later l =
     (if is_mock_profile profile [] then
        (\<lparr>td_allowed = True, td_used = 0, td_budget = None, td_reset_us = 0\<rparr>, l)
      else
        let eff_budget = (case budget of None \<Rightarrow> daily_token_budget_for env profile | Some b \<Rightarrow> b);
            l' = rollover now l;
            used = used_of profile l'
        in case eff_budget of
             None \<Rightarrow>
               (\<lparr>td_allowed = True, td_used = used, td_budget = None, td_reset_us = 0\<rparr>, l')
           | Some b \<Rightarrow>
               (\<lparr>td_allowed = (used + max 0 estimate \<le> b), td_used = used, td_budget = Some b,
                 td_reset_us = us_until_utc_midnight later\<rparr>, l'))"

definition add_tokens :: "pystr \<Rightarrow> int \<Rightarrow> instant \<Rightarrow> ledger \<Rightarrow> int \<times> ledger" where
  "add_tokens profile n now l =
     (if is_mock_profile profile [] then (0, l)
      else
        let l' = rollover now l;
            updated = max 0 (used_of profile l' + n)
        in (updated, save_store (l'\<lparr>lg_used := AList.update profile updated (lg_used l')\<rparr>)))"

definition reset_ledger :: "instant \<Rightarrow> ledger \<Rightarrow> ledger" where
  "reset_ledger now l = save_store (l\<lparr>lg_used := [], lg_day := utc_day now\<rparr>)"

definition record_completion :: "pystr \<Rightarrow> json \<Rightarrow> instant \<Rightarrow> ledger \<Rightarrow> int \<times> ledger" where
  "record_completion profile usage now l =
     (if is_mock_profile profile [] then (0, l)
      else add_tokens profile (total_tokens_from_usage usage) now l)"

section \<open>Lemmas\<close>

lemma save_store_simps [simp]:
  "lg_day (save_store l) = lg_day l" "lg_used (save_store l) = lg_used l"
  "used_of p (save_store l) = used_of p l"
  by (simp_all add: save_store_def used_of_def)

lemma rollover_day [simp]: "lg_day (rollover now l) = utc_day now"
  by (simp add: rollover_def)

lemma rollover_same: "utc_day now = lg_day l \<Longrightarrow> rollover now l = l"
  by (simp add: rollover_def)

lemma used_add_other [simp]:
  "q \<noteq> p \<Longrightarrow> used_of q (snd (add_tokens p n now l)) =
     (if is_mock_profile p [] then used_of q l else used_of q (rollover now l))"
  by (simp add: add_tokens_def Let_def used_of_def save_store_def update_conv')

lemma used_add_same:
  "\<not> is_mock_profile p [] \<Longrightarrow>
     used_of p (snd (add_tokens p n now l)) = max 0 (used_of p (rollover now l) + n)"
  by (simp add: add_tokens_def Let_def used_of_def save_store_def update_conv')

lemma day_add: "\<not> is_mock_profile p [] \<Longrightarrow> lg_day (snd (add_tokens p n now l)) = utc_day now"
  by (simp add: add_tokens_def Let_def)

text \<open>Every counter is non-negative, from construction on.\<close>

definition ledger_ok :: "ledger \<Rightarrow> bool" where
  "ledger_ok l \<longleftrightarrow> (\<forall>p. 0 \<le> used_of p l)"

lemma ledger_ok_new: "ledger_ok (new_ledger st content now)"
proof -
  have "map_of (map (\<lambda>(k, v). (k, max 0 v)) u) p = map_option (max 0) (map_of u p)"
    for u :: "(pystr \<times> int) list" and p
    by (induction u) auto
  then show ?thesis
    by (auto simp: ledger_ok_def new_ledger_def load_store_def used_of_def split: option.splits)
qed

lemma ledger_ok_rollover: "ledger_ok l \<Longrightarrow> ledger_ok (rollover now l)"
  by (simp add: ledger_ok_def rollover_def) (simp add: used_of_def)

lemma ledger_ok_add: "ledger_ok l \<Longrightarrow> ledger_ok (snd (add_tokens p n now l))"
  unfolding ledger_ok_def
proof
  fix q assume ok: "\<forall>p. 0 \<le> used_of p l"
  then have roll: "0 \<le> used_of q (rollover now l)"
    using ledger_ok_rollover[of l now] by (simp add: ledger_ok_def)
  show "0 \<le> used_of q (snd (add_tokens p n now l))"
  proof (cases "q = p")
    case True
    then show ?thesis
      by (cases "is_mock_profile p []") (simp_all add: used_add_same, simp add: add_tokens_def ok)
  qed (use ok roll in simp)
qed

lemma check_allowed_fits:
  assumes "\<not> is_mock_profile p []"
    and "check_budget env p est (Some (Some b)) now later l = (d, l')" and "td_allowed d"
  shows "used_of p l' + max 0 est \<le> b \<and> l' = rollover now l"
  using assms by (auto simp: check_budget_def Let_def)

lemma check_decides:
  assumes "\<not> is_mock_profile p []"
    and "check_budget env p est budget now later l = (d, l')" and "td_budget d = Some b"
  shows "td_allowed d = (used_of p l' + max 0 est \<le> b) \<and> l' = rollover now l"
  using assms by (auto simp: check_budget_def Let_def split: option.splits)

lemma settle_same_day:
  assumes live: "\<not> is_mock_profile p []" and ok: "ledger_ok l" and "0 \<le> est" "0 \<le> actual"
    and day: "lg_day l = utc_day t1" "utc_day t2 = utc_day t1" "utc_day t3 = utc_day t1"
  shows "used_of p (snd (add_tokens p (- est) t3 (snd (add_tokens p actual t2
           (snd (add_tokens p est t1 l)))))) = used_of p l + actual"
proof -
  let ?l1 = "snd (add_tokens p est t1 l)"
  let ?l2 = "snd (add_tokens p actual t2 ?l1)"
  have r0: "rollover t1 l = l" using day by (simp add: rollover_same)
  have r1: "rollover t2 ?l1 = ?l1" using day live by (simp add: rollover_same day_add)
  have r2: "rollover t3 ?l2 = ?l2" using day live by (simp add: rollover_same day_add)
  have pos: "0 \<le> used_of p l" using ok by (simp add: ledger_ok_def)
  show ?thesis using assms pos by (simp add: used_add_same r0 r1 r2)
qed

section \<open>Properties\<close>

text \<open>
  The check-then-reserve protocol of an auditor call. When the ledger's check allows an
  estimate under a budget, reserving the estimate keeps the profile's usage within the budget;
  recording the actual spend and releasing the estimate later the same UTC day leaves exactly
  the earlier usage plus the actual spend, and no other profile's counter moves.
\<close>

lemma reserve_then_settle:
  assumes live: "\<not> is_mock_profile p []" and ok: "ledger_ok l" and est: "0 \<le> est" "0 \<le> actual"
    and chk: "check_budget env p est budget t0 later l = (d, l0)"
    and allowed: "td_allowed d" "td_budget d = Some b"
    and same_day: "utc_day t1 = utc_day t0" "utc_day t2 = utc_day t0" "utc_day t3 = utc_day t0"
  defines "reserved \<equiv> snd (add_tokens p est t1 l0)"
  defines "settled \<equiv> snd (add_tokens p (- est) t3 (snd (add_tokens p actual t2 reserved)))"
  shows "used_of p reserved \<le> b \<and> used_of p settled = used_of p l0 + actual
       \<and> (\<forall>q. q \<noteq> p \<longrightarrow> used_of q settled = used_of q l0)"
proof -
  from check_decides[OF live chk allowed(2)] allowed(1) est
  have fits: "used_of p l0 + est \<le> b" and l0: "l0 = rollover t0 l" by auto
  have ok0: "ledger_ok l0" using ok l0 by (simp add: ledger_ok_rollover)
  then have pos: "0 \<le> used_of p l0" by (simp add: ledger_ok_def)
  have day0: "lg_day l0 = utc_day t1" using l0 same_day by simp
  have r: "rollover t1 l0 = l0" using day0 by (simp add: rollover_same)
  have "used_of p reserved = used_of p l0 + est"
    using live est pos by (simp add: reserved_def used_add_same r)
  moreover have "used_of p settled = used_of p l0 + actual"
    unfolding settled_def reserved_def
    using settle_same_day[OF live ok0 est day0] same_day by simp
  moreover have "q \<noteq> p \<longrightarrow> used_of q settled = used_of q l0" for q
    using live same_day day0
    by (simp add: settled_def reserved_def rollover_same day_add)
  ultimately show ?thesis using fits by simp
qed

text \<open>
  A settlement that crosses UTC midnight loses spend. With 5000 tokens spent on the new day,
  releasing a reservation of 8000 made before midnight leaves the new day's counter at zero.
\<close>

lemma settle_across_midnight_loses_spend:
  "let l0 = new_ledger False None (us_per_day - 2);
       l1 = snd (add_tokens ''live'' 8000 (us_per_day - 1) l0);
       l2 = snd (add_tokens ''live'' 5000 (us_per_day + 1) l1);
       l3 = snd (add_tokens ''live'' (- 8000) (us_per_day + 2) l2)
   in used_of ''live'' l2 = 5000 \<and> used_of ''live'' l3 = 0"
  by code_simp

text \<open>
  A token budget that is set but is not a non-negative integer fails closed: the profile's
  daily budget reads as zero, so every check with a positive estimate is refused, whatever was
  used before.
\<close>

lemma malformed_budget_denies:
  assumes live: "\<not> is_mock_profile p []"
    and raw: "env (token_budget_env_name p) = Some raw" "strip raw \<noteq> []"
    and bad: "\<forall>v. py_int (strip raw) = Some v \<longrightarrow> v < 0"
    and "ledger_ok l" and "0 < est"
  shows "daily_token_budget_for env p = Some 0
       \<and> \<not> td_allowed (fst (check_budget env p est None now later l))"
proof -
  have zero: "daily_token_budget_for env p = Some 0"
    using live raw bad
    by (cases "py_int (strip raw)") (auto simp: daily_token_budget_for_def blank_def Let_def)
  have "0 \<le> used_of p (rollover now l)"
    using ledger_ok_rollover[OF \<open>ledger_ok l\<close>] by (simp add: ledger_ok_def)
  with zero live \<open>0 < est\<close> show ?thesis by (simp add: check_budget_def Let_def)
qed

end
