(* ===== verification/DemoGuards.thy ===== *)
theory DemoGuards
  imports BudgetStore
begin

text \<open>
  \<open>backend/scopewatch/demo_guards.py\<close>: the demo-mode rate limit, caps and daily budgets.
  \<open>DemoGuardPolicy\<close>'s attributes are a \<open>guard_state\<close>; its methods take the clock readings they
  make (microseconds) and return the decision and the new state. The exceptions a method can raise,
  an \<open>IndexError\<close> on an empty window and a \<open>TypeError\<close> of the token comparison, are \<open>Inl\<close>.
\<close>

section \<open>Configuration\<close>

record guard_config =
  gc_enabled :: bool
  gc_token :: pystr
  gc_max_concurrent :: int
  gc_max_turns :: int
  gc_rate_limit :: int
  gc_max_runs_day :: int
  gc_max_actions_day :: int
  gc_valid :: bool
  gc_error :: pystr

definition default_config :: guard_config where
  "default_config =
     \<lparr>gc_enabled = False, gc_token = [], gc_max_concurrent = 5, gc_max_turns = 40,
      gc_rate_limit = 6, gc_max_runs_day = 200, gc_max_actions_day = 5000, gc_valid = True,
      gc_error = []\<rparr>"

definition ENV_DEFAULTS :: "(pystr \<times> int) list" where
  "ENV_DEFAULTS =
     [(''DEMO_MAX_CONCURRENT_RUNS'', 5), (''DEMO_MAX_TURNS_PER_RUN'', 40),
      (''DEMO_RATE_LIMIT_RUNS_PER_MIN_PER_IP'', 6), (''DEMO_MAX_RUNS_PER_DAY'', 200),
      (''DEMO_MAX_ACTIONS_PER_DAY'', 5000)]"

definition ENV_ALIASES :: "pystr \<Rightarrow> pystr option" where
  "ENV_ALIASES =
     [''DEMO_RATE_LIMIT_RUNS_PER_MIN_PER_IP'' \<mapsto> ''DEMO_RATE_LIMIT_PER_MIN'',
      ''DEMO_MAX_RUNS_PER_DAY'' \<mapsto> ''DEMO_DAILY_RUN_BUDGET'',
      ''DEMO_MAX_ACTIONS_PER_DAY'' \<mapsto> ''DEMO_DAILY_ACTION_BUDGET'']"

text \<open>One turn of the parsing loop: the error text, or the value.\<close>

definition guard_value :: "environ \<Rightarrow> pystr \<Rightarrow> int \<Rightarrow> pystr + int" where
  "guard_value env canonical dflt =
     (let raw = (if blank (env canonical)
                 then (case ENV_ALIASES canonical of None \<Rightarrow> None | Some al \<Rightarrow> env al)
                 else env canonical)
      in if blank raw then Inr dflt
         else (case py_int (strip (or_empty raw)) of
                 None \<Rightarrow> Inl (''Demo guard misconfigured: '' @ canonical @ ''=''
                            @ py_repr (strip (or_empty raw)) @ '' is not an integer. ''
                            @ ''New runs and actions are refused until the operator fixes it.'')
               | Some v \<Rightarrow>
                   if v < 0 then
                     Inl (''Demo guard misconfigured: '' @ canonical @ ''='' @ show_int v
                          @ '' must be >= 0. New runs and actions are refused until the operator fixes it.'')
                   else Inr v))"

fun guard_values :: "environ \<Rightarrow> (pystr \<times> int) list \<Rightarrow> pystr + (pystr \<times> int) list" where
  "guard_values env [] = Inr []"
| "guard_values env ((canonical, dflt) # rest) =
     (case guard_value env canonical dflt of
        Inl e \<Rightarrow> Inl e
      | Inr v \<Rightarrow> (case guard_values env rest of Inl e \<Rightarrow> Inl e | Inr vs \<Rightarrow> Inr ((canonical, v) # vs)))"

definition config_from_env :: "environ \<Rightarrow> guard_config" where
  "config_from_env env =
     (let token = or_empty (env ''DEMO_TOKEN'')
      in if strip token = [] then default_config
         else (case guard_values env ENV_DEFAULTS of
                 Inl e \<Rightarrow> default_config\<lparr>gc_enabled := True, gc_token := token, gc_valid := False,
                                       gc_error := e\<rparr>
               | Inr vs \<Rightarrow>
                   let val = (\<lambda>k. the (map_of vs k))
                   in \<lparr>gc_enabled = True, gc_token = token,
                       gc_max_concurrent = val ''DEMO_MAX_CONCURRENT_RUNS'',
                       gc_max_turns = val ''DEMO_MAX_TURNS_PER_RUN'',
                       gc_rate_limit = val ''DEMO_RATE_LIMIT_RUNS_PER_MIN_PER_IP'',
                       gc_max_runs_day = val ''DEMO_MAX_RUNS_PER_DAY'',
                       gc_max_actions_day = val ''DEMO_MAX_ACTIONS_PER_DAY'',
                       gc_valid = True, gc_error = []\<rparr>))"

section \<open>Decisions and pure helpers\<close>

record guard_decision =
  gd_allowed :: bool
  gd_status :: int
  gd_code :: pystr
  gd_message :: pystr
  gd_retry_s :: int

definition guard_allow :: guard_decision where
  "guard_allow = \<lparr>gd_allowed = True, gd_status = 200, gd_code = [], gd_message = [], gd_retry_s = 0\<rparr>"

definition guard_deny :: "int \<Rightarrow> pystr \<Rightarrow> pystr \<Rightarrow> int \<Rightarrow> guard_decision" where
  "guard_deny st code msg retry =
     \<lparr>gd_allowed = False, gd_status = st, gd_code = code, gd_message = msg, gd_retry_s = retry\<rparr>"

definition MUTATING_METHODS :: "pystr list" where
  "MUTATING_METHODS = [''POST'', ''PUT'', ''PATCH'', ''DELETE'']"

definition BUSY_RUN_STATUSES :: "pystr list" where
  "BUSY_RUN_STATUSES = [''ACTIVE'', ''WAITING_FOR_APPROVAL'']"

definition is_mutating_api_call :: "pystr \<Rightarrow> pystr \<Rightarrow> bool" where
  "is_mutating_api_call http_method path \<longleftrightarrow>
     (if \<not> (starts_with path ''/api/'' \<or> path = ''/demo/reset'') then False
      else py_upper http_method \<in> set MUTATING_METHODS)"

definition token_matches :: "pystr option \<Rightarrow> pystr \<Rightarrow> pystr + bool" where
  "token_matches provided expected =
     (if expected = [] \<or> \<not> truthy provided then Inr False
      else compare_digest (strip (or_empty provided)) expected)"

definition client_ip_from :: "environ \<Rightarrow> pystr \<Rightarrow> pystr" where
  "client_ip_from headers peer =
     (let forwarded = or_empty (headers ''x-forwarded-for'');
          first = strip (hd (split_on (CHR '','') forwarded))
      in if forwarded \<noteq> [] \<and> first \<noteq> [] then first
         else if peer = [] then ''unknown'' else peer)"

section \<open>The policy object\<close>

record guard_state =
  gs_windows :: "(pystr \<times> instant list) list"
  gs_day :: int
  gs_runs_today :: int
  gs_actions_today :: int
  gs_turns :: "(pystr \<times> int) list"

definition new_guards :: "instant \<Rightarrow> guard_state" where
  "new_guards now =
     \<lparr>gs_windows = [], gs_day = utc_day now, gs_runs_today = 0, gs_actions_today = 0, gs_turns = []\<rparr>"

definition window_of :: "pystr \<Rightarrow> guard_state \<Rightarrow> instant list" where
  "window_of ip g = (case map_of (gs_windows g) ip of None \<Rightarrow> [] | Some w \<Rightarrow> w)"

definition count_in :: "pystr \<Rightarrow> (pystr \<times> int) list \<Rightarrow> int" where
  "count_in k al = (case map_of al k of None \<Rightarrow> 0 | Some n \<Rightarrow> n)"

definition turns_of :: "pystr \<Rightarrow> guard_state \<Rightarrow> int" where
  "turns_of k g = count_in k (gs_turns g)"

definition guard_rollover :: "instant \<Rightarrow> guard_state \<Rightarrow> guard_state" where
  "guard_rollover now g =
     (if utc_day now \<noteq> gs_day g
      then g\<lparr>gs_day := utc_day now, gs_runs_today := 0, gs_actions_today := 0\<rparr> else g)"

definition check_token :: "guard_config \<Rightarrow> pystr option \<Rightarrow> pystr + guard_decision" where
  "check_token cfg provided =
     (if \<not> gc_enabled cfg then Inr guard_allow
      else if gc_token cfg = [] then
        Inr (guard_deny 503 ''demo_guard_misconfigured''
          (''Demo access is not configured on this host (DEMO_TOKEN unset). ''
           @ ''Please contact the demo operator.'') 0)
      else
        (case token_matches provided (gc_token cfg) of
           Inl x \<Rightarrow> Inl x
         | Inr True \<Rightarrow> Inr guard_allow
         | Inr False \<Rightarrow>
             Inr (guard_deny 401 ''demo_token_required''
          (''Demo access token required. Send it as the X-Demo-Token header ''
           @ ''(see the submission'' @ [CHR 0x27] @ ''s testing instructions). ''
           @ ''Health and dashboard reads stay public.'') 0)))"

definition check_config_valid :: "guard_config \<Rightarrow> guard_decision" where
  "check_config_valid cfg =
     (if gc_enabled cfg \<and> \<not> gc_valid cfg then
        guard_deny 503 ''demo_guard_misconfigured''
          (if gc_error cfg = [] then ''Demo guards are misconfigured.'' else gc_error cfg) 0
      else guard_allow)"

definition prune :: "instant \<Rightarrow> instant list \<Rightarrow> instant list" where
  "prune now w = dropWhile (\<lambda>t. t \<le> now - 60000000) w"

text \<open>The daily run budget, and the reservation when both checks pass.\<close>

definition reserve_run ::
  "guard_config \<Rightarrow> pystr option \<Rightarrow> instant \<Rightarrow> guard_state \<Rightarrow> guard_decision \<times> guard_state" where
  "reserve_run cfg ip now g =
     (if gc_max_runs_day cfg \<le> gs_runs_today g then
        (guard_deny 429 ''budget_exhausted''
           (''Daily demo budget exhausted: no new agent runs until the UTC day rolls over. ''
            @ ''Scripted (mock) scenarios do not consume model budget.'') 0, g)
      else
        (guard_allow,
         g\<lparr>gs_windows := (case ip of None \<Rightarrow> gs_windows g
                          | Some a \<Rightarrow> AList.update a (window_of a g @ [now]) (gs_windows g)),
           gs_runs_today := gs_runs_today g + 1\<rparr>))"

definition try_begin_run ::
  "guard_config \<Rightarrow> pystr option \<Rightarrow> instant \<Rightarrow> instant \<Rightarrow> guard_state
     \<Rightarrow> (pystr + guard_decision) \<times> guard_state" where
  "try_begin_run cfg ip now day_now g =
     (if \<not> gc_enabled cfg then (Inr guard_allow, g)
      else if \<not> gd_allowed (check_config_valid cfg) then (Inr (check_config_valid cfg), g)
      else
        let g1 = guard_rollover day_now g
        in case ip of
             None \<Rightarrow> map_prod Inr id (reserve_run cfg None now g1)
           | Some a \<Rightarrow>
               let w = prune now (window_of a g1);
                   g2 = g1\<lparr>gs_windows := AList.update a w (gs_windows g1)\<rparr>
               in if gc_rate_limit cfg \<le> int (length w) then
                    (case w of
                       [] \<Rightarrow> (Inl ''IndexError'', g2)
                     | oldest # _ \<Rightarrow>
                         (Inr (guard_deny 429 ''rate_limited''
                            (''Too many run creations from this address (''
                             @ show_int (gc_rate_limit cfg) @ ''/min). Please wait and retry.'')
                            (max 1 ((oldest + 60000000 - now) div 1000000))), g2))
                  else map_prod Inr id (reserve_run cfg (Some a) now g2))"

definition release_run :: "guard_state \<Rightarrow> guard_state" where
  "release_run g = g\<lparr>gs_runs_today := max 0 (gs_runs_today g - 1)\<rparr>"

definition check_concurrent :: "guard_config \<Rightarrow> int \<Rightarrow> guard_decision" where
  "check_concurrent cfg busy =
     (if \<not> gc_enabled cfg then guard_allow
      else if \<not> gd_allowed (check_config_valid cfg) then check_config_valid cfg
      else if gc_max_concurrent cfg \<le> busy then
        guard_deny 429 ''concurrent_cap''
          (''Demo is at capacity ('' @ show_int busy @ '' active runs, cap ''
           @ show_int (gc_max_concurrent cfg)
           @ ''). Complete or fail an old run, or wait for another judge to finish.'') 0
      else guard_allow)"

definition try_action ::
  "guard_config \<Rightarrow> pystr \<Rightarrow> instant \<Rightarrow> guard_state \<Rightarrow> guard_decision \<times> guard_state" where
  "try_action cfg k now g =
     (if \<not> gc_enabled cfg then (guard_allow, g)
      else if \<not> gd_allowed (check_config_valid cfg) then (check_config_valid cfg, g)
      else
        let g1 = guard_rollover now g
        in if gc_max_actions_day cfg \<le> gs_actions_today g1 then
             (guard_deny 429 ''budget_exhausted''
                (''Daily demo budget exhausted: no further agent actions ''
                 @ ''until the UTC day rolls over.'') 0, g1)
           else if gc_max_turns cfg \<le> turns_of k g1 then
             (guard_deny 429 ''turn_cap''
                (''Run turn cap reached ('' @ show_int (turns_of k g1) @ ''/''
                 @ show_int (gc_max_turns cfg)
                 @ '' turns). Start a new run for further exploration.'') 0, g1)
           else
             (guard_allow,
              g1\<lparr>gs_turns := AList.update k (turns_of k g1 + 1) (gs_turns g1),
                 gs_actions_today := gs_actions_today g1 + 1\<rparr>))"

definition release_action :: "pystr \<Rightarrow> guard_state \<Rightarrow> guard_state" where
  "release_action k g =
     (let g1 = g\<lparr>gs_actions_today := max 0 (gs_actions_today g - 1)\<rparr>;
          used = turns_of k g1
      in if used \<le> 1 then g1\<lparr>gs_turns := AList.delete k (gs_turns g1)\<rparr>
         else g1\<lparr>gs_turns := AList.update k (used - 1) (gs_turns g1)\<rparr>)"

definition guard_snapshot :: "(int \<Rightarrow> pystr) \<Rightarrow> guard_state \<Rightarrow> jobj" where
  "guard_snapshot day_text g =
     [(''day'', JStr (day_text (gs_day g))), (''runs_today'', JInt (gs_runs_today g)),
      (''actions_today'', JInt (gs_actions_today g)),
      (''tracked_runs'', JInt (int (length (gs_turns g))))]"

section \<open>Reachable guard states\<close>

text \<open>
  Any interleaving of the policy object's operations; each method body is one atomic step (it
  runs under the object's lock). Clock readings are arbitrary.
\<close>

inductive guard_step :: "guard_config \<Rightarrow> guard_state \<Rightarrow> guard_state \<Rightarrow> bool" for cfg where
  begin_run: "try_begin_run cfg ip now day_now g = (r, g') \<Longrightarrow> guard_step cfg g g'"
| release_run: "guard_step cfg g (release_run g)"
| act: "try_action cfg k now g = (d, g') \<Longrightarrow> guard_step cfg g g'"
| release_act: "guard_step cfg g (release_action k g)"

inductive guard_reach :: "guard_config \<Rightarrow> instant \<Rightarrow> guard_state \<Rightarrow> bool" for cfg t0 where
  init: "guard_reach cfg t0 (new_guards t0)"
| step: "guard_reach cfg t0 g \<Longrightarrow> guard_step cfg g g' \<Longrightarrow> guard_reach cfg t0 g'"

inductive_cases guard_stepE: "guard_step cfg g g'"

definition caps_ok :: "guard_config \<Rightarrow> guard_state \<Rightarrow> bool" where
  "caps_ok cfg g \<longleftrightarrow>
     0 \<le> gs_runs_today g \<and> gs_runs_today g \<le> gc_max_runs_day cfg
     \<and> 0 \<le> gs_actions_today g \<and> gs_actions_today g \<le> gc_max_actions_day cfg
     \<and> (\<forall>k. 0 \<le> turns_of k g \<and> turns_of k g \<le> gc_max_turns cfg)"

definition limits_ok :: "guard_config \<Rightarrow> bool" where
  "limits_ok cfg \<longleftrightarrow> 0 \<le> gc_max_runs_day cfg \<and> 0 \<le> gc_max_actions_day cfg \<and> 0 \<le> gc_max_turns cfg"

lemma count_in_simps [simp]:
  "count_in j (AList.update k n al) = (if j = k then n else count_in j al)"
  "count_in j (AList.delete k al) = (if j = k then 0 else count_in j al)"
  "count_in j [] = 0"
  by (simp_all add: count_in_def update_conv' delete_conv')

lemma caps_rollover: "limits_ok cfg \<Longrightarrow> caps_ok cfg g \<Longrightarrow> caps_ok cfg (guard_rollover now g)"
  by (simp add: guard_rollover_def caps_ok_def limits_ok_def turns_of_def)

lemma caps_windows: "caps_ok cfg g \<Longrightarrow> caps_ok cfg (g\<lparr>gs_windows := w\<rparr>)"
  by (simp add: caps_ok_def turns_of_def)

lemma caps_reserve: "caps_ok cfg g \<Longrightarrow> caps_ok cfg (snd (reserve_run cfg ip now g))"
  by (auto simp: reserve_run_def caps_ok_def turns_of_def)

lemma caps_begin:
  assumes "limits_ok cfg" "caps_ok cfg g"
  shows "caps_ok cfg (snd (try_begin_run cfg ip now day_now g))"
  using assms caps_rollover[OF assms]
  by (auto simp: try_begin_run_def Let_def intro!: caps_reserve caps_windows
      split: option.splits list.splits)

lemma caps_act: "limits_ok cfg \<Longrightarrow> caps_ok cfg g \<Longrightarrow> caps_ok cfg (snd (try_action cfg k now g))"
  using caps_rollover[of cfg g now]
  by (auto simp: try_action_def Let_def caps_ok_def turns_of_def)

lemma caps_release_run: "caps_ok cfg g \<Longrightarrow> caps_ok cfg (release_run g)"
  by (auto simp: caps_ok_def release_run_def turns_of_def)

lemma caps_release_action:
  assumes "caps_ok cfg g"
  shows "caps_ok cfg (release_action k g)"
proof -
  have t: "0 \<le> count_in j (gs_turns g)" "count_in j (gs_turns g) \<le> gc_max_turns cfg" for j
    using assms by (simp_all add: caps_ok_def turns_of_def)
  have "0 \<le> gc_max_turns cfg" "count_in k (gs_turns g) - 1 \<le> gc_max_turns cfg"
    using t[of k] by linarith+
  with assms t show ?thesis
    by (simp add: caps_ok_def release_action_def Let_def turns_of_def)
qed

lemma caps_step: "guard_step cfg g g' \<Longrightarrow> limits_ok cfg \<Longrightarrow> caps_ok cfg g \<Longrightarrow> caps_ok cfg g'"
proof (induction rule: guard_step.induct)
  case (begin_run ip now day_now g r g')
  then show ?case using caps_begin[of cfg g ip now day_now] by simp
next
  case (act k now g d g')
  then show ?case using caps_act[of cfg g k now] by simp
qed (simp_all add: caps_release_run caps_release_action)

lemma caps_init: "limits_ok cfg \<Longrightarrow> caps_ok cfg (new_guards t0)"
  by (simp add: caps_ok_def limits_ok_def new_guards_def turns_of_def)

lemma caps_reach: "guard_reach cfg t0 g \<Longrightarrow> limits_ok cfg \<Longrightarrow> caps_ok cfg g"
  by (induction rule: guard_reach.induct) (auto intro: caps_init caps_step)

text \<open>A configuration the environment parser accepts has non-negative limits.\<close>

lemma guard_value_nonneg: "guard_value env k d = Inr v \<Longrightarrow> 0 \<le> d \<Longrightarrow> 0 \<le> v"
  by (auto simp: guard_value_def Let_def split: if_splits option.splits)

lemma guard_values_nonneg:
  "guard_values env xs = Inr vs \<Longrightarrow> \<forall>(k, d) \<in> set xs. 0 \<le> d \<Longrightarrow>
     map fst vs = map fst xs \<and> (\<forall>(k, v) \<in> set vs. 0 \<le> v)"
proof (induction env xs arbitrary: vs rule: guard_values.induct)
  case (2 env canonical dflt rest)
  then show ?case
    using guard_value_nonneg[of env canonical dflt] by (fastforce split: sum.splits)
qed simp

lemma config_limits: "limits_ok (config_from_env env) \<and> 0 \<le> gc_rate_limit (config_from_env env)"
proof (cases "guard_values env ENV_DEFAULTS")
  case (Inl e)
  then show ?thesis by (simp add: config_from_env_def Let_def default_config_def limits_ok_def)
next
  case (Inr vs)
  have "\<forall>(k, d) \<in> set ENV_DEFAULTS. 0 \<le> d" by (simp add: ENV_DEFAULTS_def)
  from guard_values_nonneg[OF Inr this]
  have keys: "map fst vs = map fst ENV_DEFAULTS" and nn: "\<And>k v. (k, v) \<in> set vs \<Longrightarrow> 0 \<le> v" by auto
  have "k \<in> fst ` set ENV_DEFAULTS \<Longrightarrow> 0 \<le> the (map_of vs k)" for k
  proof -
    assume "k \<in> fst ` set ENV_DEFAULTS"
    then have "k \<in> set (map fst vs)" using keys by simp
    then obtain v where "map_of vs k = Some v" by (metis map_of_eq_None_iff not_None_eq set_map)
    then show ?thesis using nn map_of_SomeD by fastforce
  qed
  then show ?thesis
    using Inr by (simp add: config_from_env_def Let_def default_config_def limits_ok_def ENV_DEFAULTS_def)
qed

section \<open>The sliding window\<close>

text \<open>
  A schedule of run creations, each with its address and clock readings, and the grants it
  produces (address and time).
\<close>

fun granted ::
  "guard_config \<Rightarrow> (pystr option \<times> instant \<times> instant) list \<Rightarrow> guard_state
     \<Rightarrow> (pystr option \<times> instant) list" where
  "granted cfg [] g = []"
| "granted cfg ((ip, now, day_now) # rest) g =
     (case try_begin_run cfg ip now day_now g of
        (Inr d, g') \<Rightarrow> (if gd_allowed d then (ip, now) # granted cfg rest g'
                       else granted cfg rest g')
      | (Inl e, g') \<Rightarrow> granted cfg rest g')"

definition times_of :: "pystr \<Rightarrow> (pystr option \<times> instant) list \<Rightarrow> instant list" where
  "times_of a gr = map snd (filter (\<lambda>x. fst x = Some a) gr)"

definition in_minute :: "instant \<Rightarrow> instant list \<Rightarrow> nat" where
  "in_minute t ts = length (filter (\<lambda>u. t < u \<and> u \<le> t + 60000000) ts)"

text \<open>The window is the recent end of the granted times \<open>ts\<close>; nothing older matters.\<close>

definition window_inv :: "guard_config \<Rightarrow> instant \<Rightarrow> instant list \<Rightarrow> instant list \<Rightarrow> bool" where
  "window_inv cfg t_last ts w \<longleftrightarrow>
     (\<exists>old. ts = old @ w \<and> (\<forall>u \<in> set old. u \<le> t_last - 60000000))
     \<and> sorted ts \<and> (\<forall>u \<in> set ts. u \<le> t_last)
     \<and> (\<forall>t. int (in_minute t ts) \<le> gc_rate_limit cfg)"

lemma prune_suffix:
  "sorted w \<Longrightarrow> \<exists>old. w = old @ prune now w \<and> (\<forall>u \<in> set old. u \<le> now - 60000000)"
  unfolding prune_def
  by (metis (mono_tags, lifting) takeWhile_dropWhile_id set_takeWhileD)

lemma window_inv_prune:
  assumes "window_inv cfg t_last ts w" and "t_last \<le> now"
  shows "window_inv cfg now ts (prune now w)"
proof -
  from assms(1) obtain old where old: "ts = old @ w" "\<forall>u \<in> set old. u \<le> t_last - 60000000"
    and srt: "sorted ts" and le: "\<forall>u \<in> set ts. u \<le> t_last"
    and rate: "\<forall>t. int (in_minute t ts) \<le> gc_rate_limit cfg"
    by (auto simp: window_inv_def)
  from srt old(1) have "sorted w" by (simp add: sorted_append)
  then obtain old2 where old2: "w = old2 @ prune now w" "\<forall>u \<in> set old2. u \<le> now - 60000000"
    using prune_suffix by blast
  have "ts = (old @ old2) @ prune now w" using old(1) old2(1) by simp
  moreover have "\<forall>u \<in> set (old @ old2). u \<le> now - 60000000"
    using old(2) old2(2) assms(2) by fastforce
  ultimately show ?thesis
    unfolding window_inv_def using srt le rate assms(2) by fastforce
qed

lemma window_inv_grant:
  assumes inv: "window_inv cfg now ts w" and room: "int (length w) < gc_rate_limit cfg"
  shows "window_inv cfg now (ts @ [now]) (w @ [now])"
proof -
  from inv obtain old where old: "ts = old @ w" "\<forall>u \<in> set old. u \<le> now - 60000000"
    and srt: "sorted ts" and le: "\<forall>u \<in> set ts. u \<le> now"
    and rate: "\<forall>t. int (in_minute t ts) \<le> gc_rate_limit cfg"
    by (auto simp: window_inv_def)
  have "int (in_minute t (ts @ [now])) \<le> gc_rate_limit cfg" for t
  proof (cases "t < now \<and> now \<le> t + 60000000")
    case True
    then have "filter (\<lambda>u. t < u \<and> u \<le> t + 60000000) old = []"
      using old(2) by (fastforce simp: filter_empty_conv)
    then have "in_minute t (ts @ [now]) \<le> Suc (length w)"
      using True old(1) by (simp add: in_minute_def)
    with room show ?thesis by linarith
  next
    case False
    then have "in_minute t (ts @ [now]) = in_minute t ts" by (auto simp: in_minute_def)
    with rate show ?thesis by simp
  qed
  moreover have "ts @ [now] = old @ (w @ [now])" using old(1) by simp
  moreover have "sorted (ts @ [now])" using srt le by (simp add: sorted_append)
  moreover have "\<forall>u \<in> set (ts @ [now]). u \<le> now" using le by simp
  ultimately show ?thesis unfolding window_inv_def using old(2) by blast
qed

lemma window_of_simps [simp]:
  "window_of a (guard_rollover now g) = window_of a g"
  "window_of a (g\<lparr>gs_windows := AList.update b w (gs_windows g), gs_runs_today := n\<rparr>) =
     (if a = b then w else window_of a g)"
  "window_of a (g\<lparr>gs_windows := AList.update b w (gs_windows g)\<rparr>) =
     (if a = b then w else window_of a g)"
  "window_of a (g\<lparr>gs_windows := gs_windows g, gs_runs_today := n\<rparr>) = window_of a g"
  "window_of a (g\<lparr>gs_runs_today := n\<rparr>) = window_of a g"
  by (simp_all add: window_of_def guard_rollover_def update_conv')

text \<open>What one creation does to an address's window.\<close>

lemma begin_window_other:
  assumes "gc_enabled cfg" "ip \<noteq> Some a" "try_begin_run cfg ip now day_now g = (r, g')"
  shows "window_of a g' = window_of a g"
  using assms
  by (cases ip) (auto simp: try_begin_run_def Let_def reserve_run_def split: if_splits list.splits)

lemma begin_window_same:
  assumes "gc_enabled cfg" "try_begin_run cfg (Some a) now day_now g = (r, g')"
  shows "(\<exists>d. r = Inr d \<and> gd_allowed d \<and> int (length (prune now (window_of a g))) < gc_rate_limit cfg
            \<and> window_of a g' = prune now (window_of a g) @ [now])
       \<or> (r = Inl ''IndexError'' \<or> (\<exists>d. r = Inr d \<and> \<not> gd_allowed d))
            \<and> (window_of a g' = prune now (window_of a g) \<or> window_of a g' = window_of a g)"
  using assms
  by (auto simp: try_begin_run_def Let_def reserve_run_def guard_deny_def guard_allow_def
      split: if_splits list.splits)

lemma window_inv_later: "window_inv cfg t_last ts w \<Longrightarrow> t_last \<le> now \<Longrightarrow> window_inv cfg now ts w"
  unfolding window_inv_def by fastforce

lemma times_of_append [simp]: "times_of a (xs @ ys) = times_of a xs @ times_of a ys"
  and times_of_Cons [simp]:
    "times_of a ((ip, u) # ys) = (if ip = Some a then u # times_of a ys else times_of a ys)"
  and times_of_Nil [simp]: "times_of a [] = []"
  by (simp_all add: times_of_def)

lemma granted_window_inv:
  assumes "gc_enabled cfg"
  shows "window_inv cfg t_last ts (window_of a g) \<Longrightarrow>
         sorted (t_last # map (\<lambda>c. fst (snd c)) calls) \<Longrightarrow>
         int (in_minute t (ts @ times_of a (granted cfg calls g))) \<le> gc_rate_limit cfg"
proof (induction calls arbitrary: t_last ts g)
  case Nil
  then show ?case by (simp add: window_inv_def)
next
  case (Cons c calls)
  obtain ip now day_now where c: "c = (ip, now, day_now)" by (cases c)
  obtain r g' where call: "try_begin_run cfg ip now day_now g = (r, g')" by fastforce
  from Cons.prems(2) c have later: "t_last \<le> now" and rest: "sorted (now # map (\<lambda>c. fst (snd c)) calls)"
    by auto
  note keep = window_inv_later[OF Cons.prems(1) later]
  note pruned = window_inv_prune[OF Cons.prems(1) later]
  show ?case
  proof (cases "ip = Some a")
    case False
    from begin_window_other[OF assms False call] keep
    have "window_inv cfg now ts (window_of a g')" by simp
    from Cons.IH[OF this rest] show ?thesis
      by (cases r) (simp_all add: c call False)
  next
    case True
    note call = call[unfolded True]
    from begin_window_same[OF assms call] show ?thesis
    proof (elim disjE conjE exE)
      fix d assume d: "r = Inr d" "gd_allowed d"
        and room: "int (length (prune now (window_of a g))) < gc_rate_limit cfg"
        and w: "window_of a g' = prune now (window_of a g) @ [now]"
      from window_inv_grant[OF pruned room] w
      have "window_inv cfg now (ts @ [now]) (window_of a g')" by simp
      from Cons.IH[OF this rest] show ?thesis by (simp add: c call d True)
    qed (use Cons.IH[OF _ rest] keep pruned in \<open>auto simp: c call True\<close>)
  qed
qed

section \<open>Properties\<close>

text \<open>
  The per-address rate limit. Whatever creations other addresses and callers make in
  between, whatever day they fall on, a fresh policy object with a non-decreasing clock grants
  one address at most the configured number of run creations in any sixty seconds.
\<close>

lemma run_rate_limited:
  assumes "gc_enabled cfg" and "0 \<le> gc_rate_limit cfg"
    and "sorted (t0 # map (\<lambda>c. fst (snd c)) calls)"
  shows "int (in_minute t (times_of a (granted cfg calls (new_guards t0)))) \<le> gc_rate_limit cfg"
  using granted_window_inv[OF assms(1) _ assms(3), of "[]" a "new_guards t0" t] assms(2)
  by (simp add: window_inv_def in_minute_def window_of_def new_guards_def)

definition demo_guards :: guard_config where
  "demo_guards = default_config\<lparr>gc_enabled := True, gc_token := ''tok'', gc_rate_limit := 1\<rparr>"

text \<open>
  The caps hold in every reachable state. Under any configuration the environment parser
  produces, and any interleaving of reservations, refunds and day changes, the runs and actions
  counted for the day stay between zero and the daily budgets, and the turns counted for every
  run between zero and the per-run cap.
\<close>

lemma guard_caps_invariant:
  assumes "guard_reach (config_from_env env) t0 g"
  shows "caps_ok (config_from_env env) g"
  using caps_reach[OF assms] config_limits by blast

lemma guard_values_bad:
  "guard_value env k d = Inl e \<Longrightarrow> (k, d) \<in> set xs \<Longrightarrow> \<exists>e'. guard_values env xs = Inl e'"
  by (induction env xs rule: guard_values.induct) (auto split: sum.splits)

lemma invalid_config:
  assumes "strip (or_empty (env ''DEMO_TOKEN'')) \<noteq> []"
    and "(k, d) \<in> set ENV_DEFAULTS" and "env k = Some raw" and "strip raw \<noteq> []"
    and "\<forall>v. py_int (strip raw) = Some v \<longrightarrow> v < 0"
  shows "gc_enabled (config_from_env env) \<and> \<not> gc_valid (config_from_env env)"
proof -
  have "\<exists>e. guard_value env k d = Inl e"
    using assms(3-5) by (cases "py_int (strip raw)") (auto simp: guard_value_def blank_def Let_def)
  then obtain e where "guard_values env ENV_DEFAULTS = Inl e"
    using guard_values_bad[OF _ assms(2)] by blast
  with assms(1) show ?thesis by (simp add: config_from_env_def Let_def)
qed

text \<open>
  Malformed demo settings fail closed. In demo mode, a limit that is set but is not a
  non-negative integer makes every run creation, action submission and capacity check a 503
  refusal that changes no state.
\<close>

lemma malformed_guards_refuse:
  assumes "strip (or_empty (env ''DEMO_TOKEN'')) \<noteq> []"
    and "(k, d) \<in> set ENV_DEFAULTS" and "env k = Some raw" and "strip raw \<noteq> []"
    and "\<forall>v. py_int (strip raw) = Some v \<longrightarrow> v < 0"
  defines "cfg \<equiv> config_from_env env"
  shows "(\<exists>b. try_begin_run cfg ip now day_now g = (Inr b, g) \<and> \<not> gd_allowed b \<and> gd_status b = 503)
       \<and> (\<exists>b. try_action cfg rid now g = (b, g) \<and> \<not> gd_allowed b \<and> gd_status b = 503)
       \<and> \<not> gd_allowed (check_concurrent cfg busy) \<and> gd_status (check_concurrent cfg busy) = 503"
  using invalid_config[OF assms(1-5)]
  by (simp add: cfg_def try_begin_run_def try_action_def check_concurrent_def
      check_config_valid_def guard_deny_def)

text \<open>
  A rate limit of zero is accepted by the configuration parser, and then the first creation
  from an address does not get a refusal: indexing the empty window raises \<open>IndexError\<close>.
\<close>

lemma zero_rate_limit_raises:
  "let cfg = config_from_env [''DEMO_TOKEN'' \<mapsto> ''tok'', ''DEMO_RATE_LIMIT_PER_MIN'' \<mapsto> ''0'']
   in gc_valid cfg \<and> gc_rate_limit cfg = 0
      \<and> fst (try_begin_run cfg (Some ''203.0.113.7'') 5 5 (new_guards 0)) = Inl ''IndexError''"
  by code_simp

text \<open>
  The token gate compares a stripped header with the unstripped setting. A token configured
  with a trailing blank still enables demo mode, and then no request passes the gate, not even
  one that sends the configured value.
\<close>

lemma padded_demo_token_locks_out:
  assumes "env ''DEMO_TOKEN'' = Some (tok @ [CHR '' ''])" and "strip tok \<noteq> []"
  shows "check_token (config_from_env env) provided \<noteq> Inr guard_allow"
proof -
  have ne: "strip (tok @ [CHR '' '']) \<noteq> []" using assms(2) by (auto simp: strip_Nil_iff)
  have cfg: "gc_token (config_from_env env) = tok @ [CHR '' '']" "gc_enabled (config_from_env env)"
    using assms(1) ne by (auto simp: config_from_env_def Let_def split: sum.splits)
  have "py_space (CHR '' '')" by code_simp
  then have "strip (or_empty provided) \<noteq> tok @ [CHR '' '']"
    using strip_last[of "or_empty provided"] by auto
  then have "token_matches provided (tok @ [CHR '' '']) \<noteq> Inr True"
    by (auto simp: token_matches_def compare_digest_Inr)
  with cfg show ?thesis
    by (auto simp: check_token_def guard_deny_def guard_allow_def split: sum.splits bool.splits)
qed

end
