(* ===== verification/TieredAudit.thy ===== *)
theory TieredAudit
  imports BudgetStore Schemas
begin

text \<open>
  \<open>backend/scopewatch/tiered_audit.py\<close> and the result type of \<open>reasoning_audit.py\<close>: a fast
  screen and a strong review over one audit interface. The provider loader (\<open>get_profile\<close>), the
  construction of the provider client and auditor, and the audit itself (\<open>run_single\<close>) are
  arguments; \<open>None\<close> is an exception they raise. \<open>run_single\<close> may change the token ledger (the
  provider hook records spend there). Durations are in microseconds; \<open>clk tier n\<close> is the n-th
  clock reading of a tier's ledger calls and \<open>lat tier\<close> its measured duration.
\<close>

section \<open>Audit results\<close>

datatype audit_verdict = RV_NO_CONCERN | RV_CONCERN | RV_FAILED

fun audit_verdict_value :: "audit_verdict \<Rightarrow> pystr" where
  "audit_verdict_value RV_NO_CONCERN = ''NO_CONCERN''"
| "audit_verdict_value RV_CONCERN = ''CONCERN''"
| "audit_verdict_value RV_FAILED = ''FAILED''"

datatype concern =
  AC_SCOPE_DRIFT | AC_INJECTION_FOLLOWING | AC_EXFILTRATION_INTENT | AC_POLICY_EVASION

fun concern_value :: "concern \<Rightarrow> pystr" where
  "concern_value AC_SCOPE_DRIFT = ''SCOPE_DRIFT''"
| "concern_value AC_INJECTION_FOLLOWING = ''INJECTION_FOLLOWING''"
| "concern_value AC_EXFILTRATION_INTENT = ''EXFILTRATION_INTENT''"
| "concern_value AC_POLICY_EVASION = ''POLICY_EVASION''"

record audit_result =
  ar_verdict :: audit_verdict
  ar_concern :: "concern option"
  ar_excerpts :: "pystr list"
  ar_explanation :: pystr
  ar_model :: pystr
  ar_profile :: pystr
  ar_latency :: int
  ar_total_tokens :: "int option"
  ar_error_code :: "pystr option"
  ar_tiers :: "tier_evidence list"

definition failed_audit :: "pystr \<Rightarrow> pystr \<Rightarrow> pystr \<Rightarrow> audit_result" where
  "failed_audit profile model code =
     \<lparr>ar_verdict = RV_FAILED, ar_concern = None, ar_excerpts = [],
      ar_explanation = ''Tier audit failed closed.'', ar_model = model, ar_profile = profile,
      ar_latency = 0, ar_total_tokens = None, ar_error_code = Some code, ar_tiers = []\<rparr>"

section \<open>Configuration\<close>

record tier_config =
  tc_tier :: pystr
  tc_profile :: pystr
  tc_timeout :: int
  tc_max_tokens :: int

definition routing_mode :: "environ \<Rightarrow> pystr" where
  "routing_mode env =
     lower (strip (case env ''SCOPEWATCH_AUDITOR_ROUTING'' of None \<Rightarrow> ''single'' | Some v \<Rightarrow> v))"

text \<open>
  Field validation: \<open>as_float\<close> (in microseconds) and \<open>as_int\<close> are pydantic's conversions of the
  two numeric settings; the bounds are the model's.
\<close>

definition tier_config_of ::
  "environ \<Rightarrow> (pystr \<Rightarrow> int option) \<Rightarrow> (pystr \<Rightarrow> int option) \<Rightarrow> pystr \<times> pystr \<Rightarrow> tier_config option" where
  "tier_config_of env as_float as_int tp =
     (let key = (\<lambda>suffix. ''SCOPEWATCH_AUDITOR_'' @ snd tp @ suffix);
          text = (\<lambda>suffix dflt. case env (key suffix) of None \<Rightarrow> dflt | Some v \<Rightarrow> v)
      in case (env (key ''_PROFILE''), as_float (text ''_TIMEOUT_S'' ''30''),
               as_int (text ''_MAX_TOKENS'' ''256'')) of
           (Some p, Some t, Some m) \<Rightarrow>
             if strip p \<noteq> [] \<and> 0 < t \<and> t \<le> 120000000 \<and> 1 \<le> m \<and> m \<le> 16384
             then Some \<lparr>tc_tier = fst tp, tc_profile = strip p, tc_timeout = t, tc_max_tokens = m\<rparr>
             else None
         | _ \<Rightarrow> None)"

definition tier_configs ::
  "environ \<Rightarrow> (pystr \<Rightarrow> int option) \<Rightarrow> (pystr \<Rightarrow> int option) \<Rightarrow> tier_config list option" where
  "tier_configs env as_float as_int =
     (case (tier_config_of env as_float as_int (''fast_screen'', ''FAST''),
            tier_config_of env as_float as_int (''strong_review'', ''STRONG'')) of
        (Some fast, Some strong) \<Rightarrow> Some [fast, strong]
      | _ \<Rightarrow> None)"

section \<open>One tier\<close>

record profile =
  pf_name :: pystr
  pf_model :: pystr
  pf_key_env :: "pystr option"
  pf_reasoning :: "jobj option"
  pf_base_url :: pystr
  pf_timeout :: int
  pf_max_retries :: int
  pf_auditor_body :: jobj
  pf_extra_body :: jobj

definition drop_token_options :: "jobj \<Rightarrow> jobj" where
  "drop_token_options d =
     filter (\<lambda>kv. fst kv \<notin> {''max_completion_tokens'', ''max_tokens'', ''n'', ''best_of''}) d"

definition tier_profile :: "tier_config \<Rightarrow> profile \<Rightarrow> profile" where
  "tier_profile cfg p =
     p\<lparr>pf_timeout := min (pf_timeout p) (tc_timeout cfg), pf_max_retries := 0,
       pf_auditor_body := drop_token_options (pf_auditor_body p)
         @ [(''max_tokens'', JInt (tc_max_tokens cfg)), (''n'', JInt 1)],
       pf_extra_body := drop_token_options (pf_extra_body p)\<rparr>"

record tier_env =
  te_env :: environ
  te_get_profile :: "pystr \<Rightarrow> profile option"
  te_client :: "profile \<Rightarrow> bool"
  te_run_single :: "profile \<Rightarrow> ledger \<Rightarrow> audit_result option \<times> ledger"
  te_clk :: "pystr \<Rightarrow> nat \<Rightarrow> instant"
  te_lat :: "pystr \<Rightarrow> int"

text \<open>The audit call under a reservation of \<open>reserved\<close> tokens (0: none), which is released.\<close>

definition reserved_call ::
  "tier_env \<Rightarrow> tier_config \<Rightarrow> profile \<Rightarrow> int \<Rightarrow> ledger \<Rightarrow> (audit_result \<times> bool) \<times> ledger" where
  "reserved_call te cfg p reserved l =
     (let failed = failed_audit (tc_profile cfg) (pf_model p) ''AUDIT_ERROR'';
          ran = (if te_client te p
                 then (case te_run_single te p l of
                         (Some r, l') \<Rightarrow> ((r, True), l')
                       | (None, l') \<Rightarrow> ((failed, True), l'))
                 else ((failed, False), l))
      in (fst ran,
          if reserved \<noteq> 0
          then snd (add_tokens (pf_name p) (- reserved) (te_clk te (tc_tier cfg) 3) (snd ran))
          else snd ran))"

definition call_tier ::
  "tier_env \<Rightarrow> tier_config \<Rightarrow> profile \<Rightarrow> ledger \<Rightarrow> (audit_result \<times> bool) \<times> ledger" where
  "call_tier te cfg p l =
     (if is_mock_profile (pf_name p) (pf_base_url p) then reserved_call te cfg p 0 l
      else
        let estimate = max (reserve_per_audit (te_env te)) (tc_max_tokens cfg);
            clk = te_clk te (tc_tier cfg);
            (d, l1) = check_budget (te_env te) (pf_name p) estimate None (clk 0) (clk 1) l
        in if \<not> td_allowed d then
             ((failed_audit (tc_profile cfg) (pf_model p) ''TOKEN_BUDGET_EXCEEDED'', False), l1)
           else reserved_call te cfg p estimate (snd (add_tokens (pf_name p) estimate (clk 2) l1)))"

definition tier_evidence_of ::
  "tier_config \<Rightarrow> audit_result \<Rightarrow> bool \<Rightarrow> pystr \<Rightarrow> pystr option \<Rightarrow> int \<Rightarrow> tier_evidence" where
  "tier_evidence_of cfg r was_attempted model resolved tmo =
     \<lparr>tier = tc_tier cfg, attempted = was_attempted, configured_model = model,
      resolved_profile = resolved, te_profile = ar_profile r, te_model = ar_model r,
      te_verdict = audit_verdict_value (ar_verdict r),
      te_concern_type = map_option concern_value (ar_concern r),
      te_flagged_excerpts = ar_excerpts r, te_explanation = ar_explanation r,
      te_latency_ms = ar_latency r, te_total_tokens = ar_total_tokens r,
      te_error_code = ar_error_code r, timeout_s = tmo, max_tokens = tc_max_tokens cfg\<rparr>"

definition run_tier ::
  "tier_env \<Rightarrow> tier_config \<Rightarrow> ledger \<Rightarrow> (audit_result \<times> tier_evidence) \<times> ledger" where
  "run_tier te cfg l =
     (let found = map_option (tier_profile cfg) (te_get_profile te (tc_profile cfg));
          ((r, was_attempted), l') =
            (case found of
               None \<Rightarrow> ((failed_audit (tc_profile cfg) ''unknown'' ''AUDIT_ERROR'', False), l)
             | Some p \<Rightarrow> call_tier te cfg p l);
          r' = r\<lparr>ar_profile := tc_profile cfg,
                 ar_total_tokens := (if was_attempted then ar_total_tokens r else Some 0),
                 ar_latency := te_lat te (tc_tier cfg)\<rparr>
      in ((r', tier_evidence_of cfg r' was_attempted
                 (case found of None \<Rightarrow> ''unknown'' | Some p \<Rightarrow> pf_model p)
                 (map_option pf_name found)
                 (case found of None \<Rightarrow> tc_timeout cfg | Some p \<Rightarrow> pf_timeout p)), l'))"

section \<open>The two tiers\<close>

fun run_tiers ::
  "tier_env \<Rightarrow> tier_config list \<Rightarrow> ledger \<Rightarrow> (audit_result \<times> tier_evidence) list \<times> ledger" where
  "run_tiers te [] l = ([], l)"
| "run_tiers te (cfg # cfgs) l =
     (let (r, l1) = run_tier te cfg l
      in if ar_verdict (fst r) = RV_NO_CONCERN then ([r], l1)
         else map_prod (Cons r) id (run_tiers te cfgs l1))"

definition select_result :: "audit_result list \<Rightarrow> audit_result" where
  "select_result rs =
     (case find (\<lambda>r. ar_verdict r = RV_FAILED) rs of
        Some r \<Rightarrow> r
      | None \<Rightarrow> (case find (\<lambda>r. ar_verdict r = RV_CONCERN) rs of Some r \<Rightarrow> r | None \<Rightarrow> hd rs))"

definition sum_tokens :: "audit_result list \<Rightarrow> int option" where
  "sum_tokens rs =
     (if list_all (\<lambda>r. ar_total_tokens r \<noteq> None) rs
      then Some (sum_list (map (\<lambda>r. the (ar_total_tokens r)) rs)) else None)"

definition run_tiered_audit ::
  "tier_env \<Rightarrow> (pystr \<Rightarrow> int option) \<Rightarrow> (pystr \<Rightarrow> int option) \<Rightarrow> int \<Rightarrow> ledger
     \<Rightarrow> audit_result \<times> ledger" where
  "run_tiered_audit te as_float as_int total_latency l =
     (case (if routing_mode (te_env te) \<noteq> ''two-tier'' then None
            else tier_configs (te_env te) as_float as_int) of
        None \<Rightarrow> (failed_audit ''unresolved-tier-config'' ''unknown'' ''INVALID_TIER_CONFIG'', l)
      | Some configs \<Rightarrow>
          (let (outs, l') = run_tiers te configs l
           in ((select_result (map fst outs))
                 \<lparr>ar_tiers := map snd outs, ar_latency := total_latency,
                  ar_total_tokens := sum_tokens (map fst outs)\<rparr>, l')))"

section \<open>Verdicts by severity\<close>

instantiation audit_verdict :: "{linorder}"
begin

fun rank_audit_verdict :: "audit_verdict \<Rightarrow> nat" where
  "rank_audit_verdict RV_NO_CONCERN = 0"
| "rank_audit_verdict RV_CONCERN = 1"
| "rank_audit_verdict RV_FAILED = 2"

definition less_eq_audit_verdict :: "audit_verdict \<Rightarrow> audit_verdict \<Rightarrow> bool" where
  "less_eq_audit_verdict a b \<longleftrightarrow> rank_audit_verdict a \<le> rank_audit_verdict b"

definition less_audit_verdict :: "audit_verdict \<Rightarrow> audit_verdict \<Rightarrow> bool" where
  "less_audit_verdict a b \<longleftrightarrow> rank_audit_verdict a < rank_audit_verdict b"

instance
proof
  fix a b c :: audit_verdict
  show "a < b \<longleftrightarrow> a \<le> b \<and> \<not> b \<le> a"
    by (auto simp: less_eq_audit_verdict_def less_audit_verdict_def)
  show "a \<le> a" by (simp add: less_eq_audit_verdict_def)
  show "a \<le> b \<Longrightarrow> b \<le> c \<Longrightarrow> a \<le> c" by (simp add: less_eq_audit_verdict_def)
  show "a \<le> b \<Longrightarrow> b \<le> a \<Longrightarrow> a = b"
    by (cases a; cases b) (simp_all add: less_eq_audit_verdict_def)
  show "a \<le> b \<or> b \<le> a" by (auto simp: less_eq_audit_verdict_def)
qed

end

lemma verdict_max [simp]:
  "max RV_NO_CONCERN v = v" "max v RV_NO_CONCERN = v" "max RV_FAILED v = RV_FAILED"
  "max v RV_FAILED = RV_FAILED" "max v v = (v :: audit_verdict)"
  by (cases v; simp add: max_def less_eq_audit_verdict_def)+

definition worst :: "audit_verdict list \<Rightarrow> audit_verdict" where
  "worst vs = foldr max vs RV_NO_CONCERN"

lemma worst_Cons: "worst (v # vs) = max v (worst vs)"
  by (simp add: worst_def)

lemma worst_upper: "v \<in> set vs \<Longrightarrow> v \<le> worst vs"
  by (induction vs) (auto simp: worst_Cons max.coboundedI2)

lemma worst_member: "worst vs = RV_NO_CONCERN \<or> worst vs \<in> set vs"
  by (induction vs) (auto simp: worst_Cons max_def, simp add: worst_def)

lemma select_worst:
  assumes "rs \<noteq> []"
  shows "ar_verdict (select_result rs) = worst (map ar_verdict rs)"
proof -
  have failed: "worst vs = RV_FAILED" if "RV_FAILED \<in> set vs" for vs
    using worst_upper[OF that] by (cases "worst vs") (auto simp: less_eq_audit_verdict_def)
  have concern: "worst vs = RV_CONCERN" if "RV_FAILED \<notin> set vs" "RV_CONCERN \<in> set vs" for vs
    using worst_upper[OF that(2)] worst_member[of vs] that(1)
    by (cases "worst vs") (auto simp: less_eq_audit_verdict_def)
  have clean: "worst vs = RV_NO_CONCERN" if "set vs \<subseteq> {RV_NO_CONCERN}" for vs
    using worst_member[of vs] that by auto
  show ?thesis
  proof (cases "find (\<lambda>r. ar_verdict r = RV_FAILED) rs")
    case (Some r)
    with find_SomeD[OF Some] failed[of "map ar_verdict rs"] show ?thesis
      by (force simp: select_result_def)
  next
    case None
    then have nf: "RV_FAILED \<notin> set (map ar_verdict rs)" by (auto simp: find_None_iff)
    show ?thesis
    proof (cases "find (\<lambda>r. ar_verdict r = RV_CONCERN) rs")
      case (Some r)
      with find_SomeD[OF Some] concern[OF nf] None show ?thesis
        by (force simp: select_result_def)
    next
      case None2: None
      then have "\<forall>r \<in> set rs. ar_verdict r = RV_NO_CONCERN"
        using None audit_verdict.exhaust by (auto simp: find_None_iff)
      then have "worst (map ar_verdict rs) = RV_NO_CONCERN" "ar_verdict (hd rs) = RV_NO_CONCERN"
        using clean[of "map ar_verdict rs"] assms by auto
      with None None2 show ?thesis by (simp add: select_result_def)
    qed
  qed
qed

lemma run_tiers_nonempty: "cfgs \<noteq> [] \<Longrightarrow> fst (run_tiers te cfgs l) \<noteq> []"
  by (cases cfgs) (auto simp: Let_def split: prod.splits)

lemma tiers_clean_iff:
  "worst (map (\<lambda>o1. ar_verdict (fst o1)) (fst (run_tiers te (cfg # cfgs) l))) = RV_NO_CONCERN
     \<longleftrightarrow> ar_verdict (fst (fst (run_tier te cfg l))) = RV_NO_CONCERN"
proof (cases "ar_verdict (fst (fst (run_tier te cfg l))) = RV_NO_CONCERN")
  case True
  then show ?thesis by (simp add: Let_def split_beta worst_Cons) (simp add: worst_def)
next
  case False
  have "ar_verdict (fst (fst (run_tier te cfg l)))
      \<le> worst (map (\<lambda>o1. ar_verdict (fst o1)) (fst (run_tiers te (cfg # cfgs) l)))"
    by (rule worst_upper) (auto simp: Let_def split_beta)
  with False show ?thesis
    by (cases "ar_verdict (fst (fst (run_tier te cfg l)))") (auto simp: less_eq_audit_verdict_def)
qed

lemma tier_configs_two:
  "tier_configs env as_float as_int = Some cfgs \<Longrightarrow> \<exists>fast strong. cfgs = [fast, strong]"
  by (auto simp: tier_configs_def split: option.splits)

section \<open>Properties\<close>

text \<open>
  The routed audit can only escalate. Its verdict is the most severe verdict of the tiers
  that ran, so a failure or a concern of any tier survives whatever the other tier says; it is a
  clean verdict exactly when the two-tier configuration is valid and the fast screen itself is
  clean; and the recorded evidence is one entry per tier that ran.
\<close>

lemma tiered_verdict_is_worst:
  "let (r, l') = run_tiered_audit te as_float as_int lat l;
       outs = (case tier_configs (te_env te) as_float as_int of
                 None \<Rightarrow> [] | Some cfgs \<Rightarrow> fst (run_tiers te cfgs l))
   in if routing_mode (te_env te) = ''two-tier'' \<and> tier_configs (te_env te) as_float as_int \<noteq> None
      then ar_verdict r = worst (map (\<lambda>o1. ar_verdict (fst o1)) outs)
           \<and> ar_tiers r = map snd outs
           \<and> (ar_verdict r = RV_NO_CONCERN) =
               (ar_verdict (fst (fst (run_tier te
                  (hd (the (tier_configs (te_env te) as_float as_int))) l))) = RV_NO_CONCERN)
      else ar_verdict r = RV_FAILED \<and> l' = l"
proof (cases "routing_mode (te_env te) = ''two-tier''
              \<and> tier_configs (te_env te) as_float as_int \<noteq> None")
  case False
  then show ?thesis
    by (auto simp: run_tiered_audit_def failed_audit_def)
next
  case True
  then obtain cfgs where cfgs: "tier_configs (te_env te) as_float as_int = Some cfgs" by auto
  from tier_configs_two[OF this] obtain fast strong where two: "cfgs = [fast, strong]" by blast
  have ne: "map fst (fst (run_tiers te cfgs l)) \<noteq> []"
    using run_tiers_nonempty[of cfgs te l] two by simp
  have sel: "ar_verdict (select_result (map fst (fst (run_tiers te cfgs l))))
      = worst (map (\<lambda>o1. ar_verdict (fst o1)) (fst (run_tiers te cfgs l)))"
    using select_worst[OF ne] by (simp add: comp_def)
  have clean: "(worst (map (\<lambda>o1. ar_verdict (fst o1)) (fst (run_tiers te cfgs l))) = RV_NO_CONCERN)
      = (ar_verdict (fst (fst (run_tier te fast l))) = RV_NO_CONCERN)"
    unfolding two by (rule tiers_clean_iff)
  show ?thesis
    using True cfgs sel clean by (simp add: run_tiered_audit_def split_beta Let_def two del: run_tiers.simps)
qed

text \<open>
  A tier leaves no reservation behind. Within one UTC day, with a provider hook that records
  the tokens an attempted call spends, the ledger after a live tier differs from the ledger
  before it by exactly that spend, whether the call succeeded, raised, was refused for budget or
  its client could not be built.
\<close>

lemma tier_reservation_released:
  assumes live: "\<not> is_mock_profile (pf_name p) []" "\<not> is_mock_profile (pf_name p) (pf_base_url p)"
    and hook: "\<And>m. snd (te_run_single te p m) = snd (add_tokens (pf_name p) spend t m)" "0 \<le> spend"
    and day: "lg_day l = d" "utc_day t = d" "\<And>n. utc_day (te_clk te (tc_tier cfg) n) = d"
    and ok: "ledger_ok l" and lim: "1 \<le> tc_max_tokens cfg"
  shows "used_of q (snd (call_tier te cfg p l)) =
     used_of q l + (if snd (fst (call_tier te cfg p l)) \<and> q = pf_name p then spend else 0)"
proof -
  let ?est = "max (reserve_per_audit (te_env te)) (tc_max_tokens cfg)"
  let ?n = "pf_name p" and ?clk = "te_clk te (tc_tier cfg)"
  obtain dc l1 where chk: "check_budget (te_env te) ?n ?est None (?clk 0) (?clk 1) l = (dc, l1)"
    by fastforce
  have roll: "rollover u l = l" if "utc_day u = d" for u using that day(1) by (simp add: rollover_same)
  have l1: "l1 = l"
    using chk live(1) roll[OF day(3)] by (auto simp: check_budget_def Let_def split: option.splits)
  have est: "0 \<le> ?est" "?est \<noteq> 0" using lim by auto
  let ?r1 = "snd (add_tokens ?n ?est (?clk 2) l)"
  have d1: "lg_day ?r1 = d" using live(1) day by (simp add: day_add)
  have no_call: "used_of q (snd (add_tokens ?n (- ?est) (?clk 3) ?r1)) = used_of q l"
    using ok est live(1) d1 day roll[OF day(3)]
    by (cases "q = ?n") (simp_all add: used_add_same rollover_same day_add ledger_ok_def)
  have called: "used_of q (snd (add_tokens ?n (- ?est) (?clk 3) (snd (te_run_single te p ?r1))))
      = used_of q l + (if q = ?n then spend else 0)"
  proof (cases "q = ?n")
    case True
    then show ?thesis
      using settle_same_day[OF live(1) ok est(1) hook(2), of "?clk 2" t "?clk 3"] day
      by (simp add: hook(1))
  next
    case False
    then show ?thesis
      using live(1) d1 day roll[OF day(3)]
      by (simp add: hook(1) rollover_same day_add)
  qed
  have call: "call_tier te cfg p l =
      (if \<not> td_allowed dc
       then ((failed_audit (tc_profile cfg) (pf_model p) ''TOKEN_BUDGET_EXCEEDED'', False), l)
       else reserved_call te cfg p ?est ?r1)"
    using live(2) by (simp add: call_tier_def Let_def chk l1 del: One_nat_def)
  show ?thesis
  proof (cases "td_allowed dc \<and> te_client te p")
    case True
    obtain r l2 where run: "te_run_single te p ?r1 = (r, l2)" by fastforce
    have res: "reserved_call te cfg p ?est ?r1 =
        ((case r of Some x \<Rightarrow> x | None \<Rightarrow> failed_audit (tc_profile cfg) (pf_model p) ''AUDIT_ERROR'',
          True), snd (add_tokens ?n (- ?est) (?clk 3) l2))"
      using True est by (simp add: reserved_call_def Let_def run split: option.split)
    show ?thesis using called True by (simp add: call res run)
  next
    case False
    then show ?thesis using no_call est by (auto simp: call reserved_call_def Let_def)
  qed
qed

definition demo_profile :: profile where
  "demo_profile =
     \<lparr>pf_name = ''live'', pf_model = ''m'', pf_key_env = None, pf_reasoning = None, pf_base_url = ''https://api'', pf_timeout = 1,
      pf_max_retries = 2, pf_auditor_body = [(''max_tokens'', JInt 9)], pf_extra_body = []\<rparr>"

definition demo_tier :: tier_config where
  "demo_tier =
     \<lparr>tc_tier = ''fast_screen'', tc_profile = ''live'', tc_timeout = 1, tc_max_tokens = 256\<rparr>"

definition demo_tiers :: tier_env where
  "demo_tiers =
     \<lparr>te_env = Map.empty, te_get_profile = (\<lambda>n. Some demo_profile), te_client = (\<lambda>p. True),
      te_run_single = (\<lambda>p m. (None, snd (add_tokens (pf_name p) 70 5 m))),
      te_clk = (\<lambda>t n. 1), te_lat = (\<lambda>t. 0)\<rparr>"

end
