(* ===== verification/Store.thy ===== *)
theory Store
  imports ScopePaths DemoGuards
begin

text \<open>
  The state the gateway keeps and the effects its code has on it.

  \<open>store\<close> is the SQLite database (\<open>backend/scopewatch/db.py\<close>, \<open>SCHEMA_SQL\<close>): one list of rows
  per table in insertion (rowid) order. \<open>world\<close> adds what a request handler draws on besides
  the database: the \<open>uuid.uuid4\<close> and \<open>datetime.now\<close> sources with the number of draws made so
  far, the log of events handed to the SSE broadcaster, the token ledger, the demo-guard state,
  the count of creations in flight and the workspace file system. A database operation is a \<open>'a tx\<close>:
  it takes the world and returns a result or a Python exception, and the world after it.
\<close>

section \<open>Exceptions\<close>

text \<open>
  \<open>Api_error code message status\<close> is \<open>ScopewatchAPIError\<close>, \<open>Security_error\<close> its subclass
  \<open>ExecutionSecurityError\<close>, \<open>Guard_refusal status code message retry\<close> is \<open>DemoGuardRefusal\<close>;
  \<open>Py_error cls text\<close> is any other exception by its class name and \<open>str(exc)\<close>.
\<close>

datatype exc =
    Api_error pystr pystr nat
  | Security_error pystr pystr nat
  | Guard_refusal nat pystr pystr int
  | Repo_conflict pystr
  | Repo_not_found pystr
  | Py_error pystr pystr

fun exc_class :: "exc \<Rightarrow> pystr" where
  "exc_class (Api_error _ _ _) = ''ScopewatchAPIError''"
| "exc_class (Security_error _ _ _) = ''ExecutionSecurityError''"
| "exc_class (Guard_refusal _ _ _ _) = ''DemoGuardRefusal''"
| "exc_class (Repo_conflict _) = ''RepositoryConflictError''"
| "exc_class (Repo_not_found _) = ''RepositoryNotFoundError''"
| "exc_class (Py_error c _) = c"

abbreviation Integrity_error :: exc where
  "Integrity_error \<equiv> Py_error ''IntegrityError'' ''constraint failed''"

section \<open>Database and world\<close>

record store =
  runs_t :: "run list"
  actions_t :: "action list"
  audits_t :: "audit list"
  decisions_t :: "decision list"
  approvals_t :: "approval list"
  receipts_t :: "receipt list"
  events_t :: "event list"

definition empty_store :: store where
  "empty_store = \<lparr>runs_t = [], actions_t = [], audits_t = [], decisions_t = [],
                  approvals_t = [], receipts_t = [], events_t = []\<rparr>"

text \<open>
  The workspace file system: the answers of \<open>stat\<close>, \<open>resolve\<close> and the case probe (\<open>dk_view\<close>),
  the class of the exception a failing \<open>resolve\<close> raises, and what opening a path (symbolic links
  followed) finds there: a directory with its \<open>scandir\<close> order, or a file with its decoded text
  and size in bytes.
\<close>

datatype node = Dir_node "pystr list" | File_node pystr nat

record disk =
  dk_view :: fsview
  dk_resolve_exc :: pystr
  dk_node :: "path \<Rightarrow> node option"

record world =
  db :: store
  uuid_src :: "nat \<Rightarrow> pystr"
  uuid_count :: nat
  clock_src :: "nat \<Rightarrow> instant"
  clock_count :: nat
  published :: "(pystr \<times> event) list"
  w_ledger :: ledger
  w_guards :: guard_state
  w_pending :: int
  w_disk :: disk

type_synonym 'a tx = "world \<Rightarrow> (exc + 'a) \<times> world"

definition tx_return :: "'a \<Rightarrow> 'a tx" where
  "tx_return x w = (Inr x, w)"

definition tx_raise :: "exc \<Rightarrow> 'a tx" where
  "tx_raise e w = (Inl e, w)"

definition tx_bind :: "'a tx \<Rightarrow> ('a \<Rightarrow> 'b tx) \<Rightarrow> 'b tx" where
  "tx_bind m f w = (case m w of (Inl e, w') \<Rightarrow> (Inl e, w') | (Inr x, w') \<Rightarrow> f x w')"

definition tx_when :: "bool \<Rightarrow> unit tx \<Rightarrow> unit tx" where
  "tx_when c m = (if c then m else tx_return ())"

text \<open>\<open>try: m except Exception as exc: h(exc)\<close>.\<close>

definition tx_catch :: "'a tx \<Rightarrow> (exc \<Rightarrow> 'a tx) \<Rightarrow> 'a tx" where
  "tx_catch m h w = (case m w of (Inl e, w') \<Rightarrow> h e w' | (Inr x, w') \<Rightarrow> (Inr x, w'))"

definition query :: "(store \<Rightarrow> 'a) \<Rightarrow> 'a tx" where
  "query f w = (Inr (f (db w)), w)"

definition update_db :: "(store \<Rightarrow> store) \<Rightarrow> unit tx" where
  "update_db f w = (Inr (), w\<lparr>db := f (db w)\<rparr>)"

definition uuid4 :: "pystr tx" where
  "uuid4 w = (Inr (uuid_src w (uuid_count w)), w\<lparr>uuid_count := Suc (uuid_count w)\<rparr>)"

definition utc_now :: "instant tx" where
  "utc_now w = (Inr (clock_src w (clock_count w)), w\<lparr>clock_count := Suc (clock_count w)\<rparr>)"

definition publish :: "pystr \<Rightarrow> event \<Rightarrow> unit tx" where
  "publish run_id ev w = (Inr (), w\<lparr>published := published w @ [(run_id, ev)]\<rparr>)"

fun publish_all :: "pystr \<Rightarrow> event list \<Rightarrow> unit tx" where
  "publish_all run_id [] = tx_return ()"
| "publish_all run_id (ev # evs) =
     tx_bind (publish run_id ev) (\<lambda>_. publish_all run_id evs)"

definition ledger_op :: "(ledger \<Rightarrow> 'a \<times> ledger) \<Rightarrow> 'a tx" where
  "ledger_op f w = (let (x, l) = f (w_ledger w) in (Inr x, w\<lparr>w_ledger := l\<rparr>))"

definition guard_op :: "(guard_state \<Rightarrow> (exc + 'a) \<times> guard_state) \<Rightarrow> 'a tx" where
  "guard_op f w = (let (x, g) = f (w_guards w) in (x, w\<lparr>w_guards := g\<rparr>))"

definition pending_op :: "(int \<Rightarrow> int) \<Rightarrow> int tx" where
  "pending_op f w = (Inr (w_pending w), w\<lparr>w_pending := f (w_pending w)\<rparr>)"

definition disk_op :: "(disk \<Rightarrow> (exc + 'a) \<times> disk) \<Rightarrow> 'a tx" where
  "disk_op f w = (let (x, d) = f (w_disk w) in (x, w\<lparr>w_disk := d\<rparr>))"

text \<open>
  \<open>db_transaction\<close>: BEGIN IMMEDIATE, then COMMIT when the block returns and ROLLBACK when it
  raises. Only the database rolls back; drawn identifiers and clock readings stay drawn.
\<close>

definition db_transaction :: "'a tx \<Rightarrow> 'a tx" where
  "db_transaction m w =
     (case m w of
        (Inr x, w') \<Rightarrow> (Inr x, w')
      | (Inl e, w') \<Rightarrow> (Inl e, w'\<lparr>db := db w\<rparr>))"

section \<open>Relations kept by transactions\<close>

text \<open>
  \<open>keeps R m\<close>: whatever \<open>m\<close> does, raise included, the database before and after it are
  related by \<open>R\<close>. A reflexive and transitive \<open>R\<close> is a contract of the store: it composes along
  \<open>tx_bind\<close>, so that a handler keeps it when the repository operations it calls do.
\<close>

definition keeps :: "(store \<Rightarrow> store \<Rightarrow> bool) \<Rightarrow> 'a tx \<Rightarrow> bool" where
  "keeps R m \<longleftrightarrow> (\<forall>w. R (db w) (db (snd (m w))))"

lemma keepsD: "keeps R m \<Longrightarrow> m w = (x, w') \<Longrightarrow> R (db w) (db w')"
  unfolding keeps_def by (metis snd_conv)

locale store_relation =
  fixes R :: "store \<Rightarrow> store \<Rightarrow> bool"
  assumes refl: "R s s"
    and trans: "R s t \<Longrightarrow> R t u \<Longrightarrow> R s u"
begin

lemma keeps_return: "keeps R (tx_return x)"
  by (simp add: keeps_def tx_return_def refl)

lemma keeps_raise: "keeps R (tx_raise e)"
  by (simp add: keeps_def tx_raise_def refl)

lemma keeps_query: "keeps R (query f)"
  by (simp add: keeps_def query_def refl)

lemma keeps_uuid4: "keeps R uuid4"
  by (simp add: keeps_def uuid4_def refl)

lemma keeps_utc_now: "keeps R utc_now"
  by (simp add: keeps_def utc_now_def refl)

lemma keeps_publish: "keeps R (publish run_id ev)"
  by (simp add: keeps_def publish_def refl)

lemma keeps_other_state:
  "keeps R (ledger_op f)" "keeps R (guard_op g)" "keeps R (pending_op h)" "keeps R (disk_op k)"
  by (simp_all add: keeps_def ledger_op_def guard_op_def pending_op_def disk_op_def refl
      split: prod.splits)

lemma keeps_bind:
  assumes "keeps R m" and "\<And>x. keeps R (f x)"
  shows "keeps R (tx_bind m f)"
  unfolding keeps_def
proof
  fix w
  show "R (db w) (db (snd (tx_bind m f w)))"
  proof (cases "m w")
    case (Pair r w')
    with keepsD[OF assms(1) Pair] show ?thesis
    proof (cases r)
      case (Inr x)
      have "R (db w') (db (snd (f x w')))" using assms(2) by (simp add: keeps_def)
      with keepsD[OF assms(1) Pair] Pair Inr show ?thesis by (auto simp: tx_bind_def intro: trans)
    qed (simp add: tx_bind_def Pair)
  qed
qed

lemma keeps_catch:
  assumes "keeps R m" and "\<And>e. keeps R (h e)"
  shows "keeps R (tx_catch m h)"
  unfolding keeps_def
proof
  fix w
  show "R (db w) (db (snd (tx_catch m h w)))"
  proof (cases "m w")
    case (Pair r w')
    show ?thesis
    proof (cases r)
      case (Inl e)
      have "R (db w') (db (snd (h e w')))" using assms(2) by (simp add: keeps_def)
      with keepsD[OF assms(1) Pair] Pair Inl show ?thesis by (auto simp: tx_catch_def intro: trans)
    qed (simp add: tx_catch_def Pair keepsD[OF assms(1) Pair])
  qed
qed

lemma keeps_when: "keeps R m \<Longrightarrow> keeps R (tx_when c m)"
  by (simp add: tx_when_def keeps_return)

lemma keeps_if: "(c \<Longrightarrow> keeps R m) \<Longrightarrow> (\<not> c \<Longrightarrow> keeps R n) \<Longrightarrow> keeps R (if c then m else n)"
  by simp

lemma keeps_option:
  "keeps R m \<Longrightarrow> (\<And>x. keeps R (f x)) \<Longrightarrow>
     keeps R (case v of None \<Rightarrow> m | Some x \<Rightarrow> f x)"
  by (cases v) simp_all

lemma keeps_transaction:
  assumes "keeps R m"
  shows "keeps R (db_transaction m)"
  unfolding keeps_def
proof
  fix w
  show "R (db w) (db (snd (db_transaction m w)))"
    by (cases "m w"; cases "fst (m w)")
       (auto simp: db_transaction_def refl dest: keepsD[OF assms])
qed

lemma keeps_publish_all: "keeps R (publish_all run_id evs)"
  by (induction evs) (auto intro: keeps_return keeps_bind keeps_publish)

lemmas keeps_rules =
  keeps_return keeps_raise keeps_query keeps_uuid4 keeps_utc_now keeps_publish
  keeps_publish_all keeps_other_state keeps_bind keeps_catch keeps_when keeps_if keeps_option keeps_transaction

end

text \<open>A transaction that raises leaves the database as it was.\<close>

lemma db_transaction_atomic:
  "db_transaction m w = (Inl e, w') \<Longrightarrow> db w' = db w"
  by (auto simp: db_transaction_def split: prod.splits sum.splits)

lemma tx_bind_Inr:
  "tx_bind m f w = (Inr y, w'') \<longleftrightarrow> (\<exists>x w'. m w = (Inr x, w') \<and> f x w' = (Inr y, w''))"
  by (auto simp: tx_bind_def split: prod.splits sum.splits)

lemma db_transaction_Inr [simp]:
  "db_transaction m w = (Inr x, w') \<longleftrightarrow> m w = (Inr x, w')"
  by (auto simp: db_transaction_def split: prod.splits sum.splits)

lemma tx_simps [simp]:
  "tx_return x w = (Inr x, w)" "tx_raise e w = (Inl e, w)" "query f w = (Inr (f (db w)), w)"
  "update_db g w = (Inr (), w\<lparr>db := g (db w)\<rparr>)"
  by (simp_all add: tx_return_def tx_raise_def query_def update_db_def)

end
