(* ===== verification/Repository.thy ===== *)
theory Repository
  imports Store
begin

text \<open>
  \<open>backend/scopewatch/repository.py\<close>: the SQL operations over the store. Every INSERT carries
  the constraints of \<open>SCHEMA_SQL\<close> (\<open>db.py\<close>): primary keys, foreign keys (\<open>PRAGMA foreign_keys\<close>
  is on), \<open>UNIQUE(run_id, sequence)\<close> on events and the partial unique index that admits one
  PENDING approval per action; a violation is SQLite's IntegrityError. JSON columns hold the
  value they encode. \<open>ORDER BY\<close> is a stable sort of the rows in rowid order (ISO timestamps in
  one time zone sort as the instants they denote).
\<close>

definition insert_row :: "(store \<Rightarrow> bool) \<Rightarrow> (store \<Rightarrow> store) \<Rightarrow> unit tx" where
  "insert_row ok f =
     tx_bind (query ok) (\<lambda>b. if b then update_db f else tx_raise Integrity_error)"

section \<open>Runs\<close>

definition find_run :: "pystr \<Rightarrow> store \<Rightarrow> run option" where
  "find_run k s = find (\<lambda>r. run_key r = k) (runs_t s)"

definition create_run :: "run \<Rightarrow> run tx" where
  "create_run r =
     tx_bind (insert_row (\<lambda>s. run_key r \<notin> run_key ` set (runs_t s))
                         (\<lambda>s. s\<lparr>runs_t := runs_t s @ [r]\<rparr>))
       (\<lambda>_. tx_return r)"

definition get_run :: "pystr \<Rightarrow> run option tx" where
  "get_run k = query (find_run k)"

definition list_runs :: "run list tx" where
  "list_runs = query (\<lambda>s. sort_key (\<lambda>r. - run_created_at r) (runs_t s))"

definition map_run :: "pystr \<Rightarrow> (run \<Rightarrow> run) \<Rightarrow> store \<Rightarrow> store" where
  "map_run k f s = s\<lparr>runs_t := map (\<lambda>r. if run_key r = k then f r else r) (runs_t s)\<rparr>"

definition update_run_workspace_path :: "pystr \<Rightarrow> pystr \<Rightarrow> instant \<Rightarrow> unit tx" where
  "update_run_workspace_path k p t =
     update_db (map_run k (\<lambda>r. r\<lparr>workspace_path := Some p, run_updated_at := t\<rparr>))"

definition update_run_prompt_version :: "pystr \<Rightarrow> pystr \<Rightarrow> instant \<Rightarrow> unit tx" where
  "update_run_prompt_version k p t =
     update_db (map_run k (\<lambda>r. r\<lparr>prompt_version := Some p, run_updated_at := t\<rparr>))"

definition update_run_status :: "pystr \<Rightarrow> run_status \<Rightarrow> instant \<Rightarrow> unit tx" where
  "update_run_status k st t =
     update_db (map_run k (\<lambda>r. r\<lparr>run_st := st, run_updated_at := t\<rparr>))"

section \<open>Actions\<close>

definition run_exists :: "pystr \<Rightarrow> store \<Rightarrow> bool" where
  "run_exists k s \<longleftrightarrow> k \<in> run_key ` set (runs_t s)"

definition action_exists :: "pystr \<Rightarrow> store \<Rightarrow> bool" where
  "action_exists k s \<longleftrightarrow> k \<in> act_id ` set (actions_t s)"

definition decision_exists :: "pystr \<Rightarrow> store \<Rightarrow> bool" where
  "decision_exists k s \<longleftrightarrow> k \<in> dec_id ` set (decisions_t s)"

definition create_action_request :: "action \<Rightarrow> action tx" where
  "create_action_request a =
     tx_bind (insert_row (\<lambda>s. \<not> action_exists (act_id a) s \<and> run_exists (act_run_id a) s)
                         (\<lambda>s. s\<lparr>actions_t := actions_t s @ [a]\<rparr>))
       (\<lambda>_. tx_return a)"

definition get_action_request :: "pystr \<Rightarrow> action option tx" where
  "get_action_request k = query (\<lambda>s. find (\<lambda>a. act_id a = k) (actions_t s))"

definition list_actions_for_run :: "pystr \<Rightarrow> action list tx" where
  "list_actions_for_run k =
     query (\<lambda>s. sort_key requested_at (filter (\<lambda>a. act_run_id a = k) (actions_t s)))"

section \<open>Reasoning audits\<close>

definition create_reasoning_audit :: "audit \<Rightarrow> audit tx" where
  "create_reasoning_audit a =
     tx_bind (insert_row (\<lambda>s. aud_id a \<notin> aud_id ` set (audits_t s) \<and> run_exists (aud_run_id a) s)
                         (\<lambda>s. s\<lparr>audits_t := audits_t s @ [a]\<rparr>))
       (\<lambda>_. tx_return a)"

definition get_reasoning_audit :: "pystr \<Rightarrow> audit option tx" where
  "get_reasoning_audit k = query (\<lambda>s. find (\<lambda>a. aud_id a = k) (audits_t s))"

text \<open>
  Python's \<open>==\<close> on decoded JSON: booleans, integers and floats compare as numbers, and
  dictionaries compare as sets of items.
\<close>

definition scalar_eq :: "json \<Rightarrow> json \<Rightarrow> bool" where
  "scalar_eq v u \<longleftrightarrow>
     (case (num_of v, num_of u) of
        (Some a, Some b) \<Rightarrow> num_eq a b
      | (None, None) \<Rightarrow> v = u
      | _ \<Rightarrow> False)"

fun py_eq :: "json \<Rightarrow> json \<Rightarrow> bool"
  and py_eq_list :: "json list \<Rightarrow> json list \<Rightarrow> bool"
  and py_eq_items :: "jobj \<Rightarrow> jobj \<Rightarrow> bool" where
  "py_eq (JArr vs) u = (case u of JArr us \<Rightarrow> py_eq_list vs us | _ \<Rightarrow> False)"
| "py_eq (JObj d) u = (case u of JObj d' \<Rightarrow> length d = length d' \<and> py_eq_items d d' | _ \<Rightarrow> False)"
| "py_eq JNull u = scalar_eq JNull u"
| "py_eq (JStr s) u = scalar_eq (JStr s) u"
| "py_eq (JBool b) u = scalar_eq (JBool b) u"
| "py_eq (JInt i) u = scalar_eq (JInt i) u"
| "py_eq (JFloat m e) u = scalar_eq (JFloat m e) u"
| "py_eq_list [] us = (us = [])"
| "py_eq_list (v # vs) us = (case us of [] \<Rightarrow> False | u # us' \<Rightarrow> py_eq v u \<and> py_eq_list vs us')"
| "py_eq_items [] d' = True"
| "py_eq_items ((k, v) # d) d' =
     (case map_of d' k of None \<Rightarrow> False | Some u \<Rightarrow> py_eq v u \<and> py_eq_items d d')"

definition audits_by_turn :: "pystr \<Rightarrow> pystr \<Rightarrow> pystr \<Rightarrow> store \<Rightarrow> audit list" where
  "audits_by_turn k turn h s =
     sort_key (\<lambda>a. - audited_at a)
       (filter (\<lambda>a. aud_run_id a = k \<and> aud_turn_id a = turn \<and> trace_hash a = h) (audits_t s))"

definition get_reasoning_audit_by_turn ::
  "pystr \<Rightarrow> pystr \<Rightarrow> pystr \<Rightarrow> pystr option \<Rightarrow> pystr option \<Rightarrow> pystr option \<Rightarrow> jobj option
   \<Rightarrow> audit option tx" where
  "get_reasoning_audit_by_turn k turn h tl_arg op res args =
     query (\<lambda>s.
       case (tl_arg, op, res) of
         (Some t, Some p, Some r) \<Rightarrow>
           map_option fst
             (find (\<lambda>(ra, ar). tool ar = t \<and> operation ar = p \<and> resource ar = r
                      \<and> py_eq (JObj (arguments ar)) (JObj (case args of None \<Rightarrow> [] | Some d \<Rightarrow> d)))
               (concat (map (\<lambda>ra. map (Pair ra)
                               (filter (\<lambda>ar. act_audit_id ar = Some (aud_id ra)) (actions_t s)))
                            (audits_by_turn k turn h s))))
       | _ \<Rightarrow> (case audits_by_turn k turn h s of [] \<Rightarrow> None | a # _ \<Rightarrow> Some a))"

section \<open>Decisions\<close>

definition create_policy_decision :: "decision \<Rightarrow> decision tx" where
  "create_policy_decision d =
     tx_bind (insert_row (\<lambda>s. \<not> decision_exists (dec_id d) s \<and> action_exists (dec_action_id d) s)
                         (\<lambda>s. s\<lparr>decisions_t := decisions_t s @ [d]\<rparr>))
       (\<lambda>_. tx_return d)"

definition find_decision :: "pystr \<Rightarrow> store \<Rightarrow> decision option" where
  "find_decision k s = find (\<lambda>d. dec_id d = k) (decisions_t s)"

definition get_policy_decision :: "pystr \<Rightarrow> decision option tx" where
  "get_policy_decision k = query (find_decision k)"

definition get_policy_version_for_decision :: "pystr \<Rightarrow> pystr option tx" where
  "get_policy_version_for_decision k =
     query (\<lambda>s. case find_decision k s of None \<Rightarrow> None | Some d \<Rightarrow> policy_version d)"

definition get_policy_decision_by_action :: "pystr \<Rightarrow> decision option tx" where
  "get_policy_decision_by_action k = query (\<lambda>s. find (\<lambda>d. dec_action_id d = k) (decisions_t s))"

section \<open>Approvals\<close>

text \<open>
  A row holds the columns of \<open>approval_requests\<close>; the four joined columns of
  \<open>_APPROVAL_SELECT\<close> are filled on every read from the action and decision rows.
\<close>

definition approval_row :: "approval \<Rightarrow> approval" where
  "approval_row p =
     p\<lparr>app_operation := None, app_resource := None, app_tool := None, app_policy_version := None\<rparr>"

definition approval_from_row :: "store \<Rightarrow> approval \<Rightarrow> approval" where
  "approval_from_row s p =
     (let a = find (\<lambda>a. act_id a = app_action_id p) (actions_t s);
          d = find_decision (app_decision_id p) s
      in p\<lparr>app_operation := map_option operation a,
           app_resource := map_option resource a,
           app_tool := map_option tool a,
           app_policy_version := (case d of None \<Rightarrow> None | Some dc \<Rightarrow> policy_version dc)\<rparr>)"

definition pending_for :: "pystr \<Rightarrow> store \<Rightarrow> approval list" where
  "pending_for k s = filter (\<lambda>p. app_action_id p = k \<and> app_status p = AS_PENDING) (approvals_t s)"

definition approval_insert_ok :: "approval \<Rightarrow> store \<Rightarrow> bool" where
  "approval_insert_ok p s \<longleftrightarrow>
     app_id p \<notin> app_id ` set (approvals_t s)
     \<and> run_exists (app_run_id p) s \<and> action_exists (app_action_id p) s
     \<and> decision_exists (app_decision_id p) s
     \<and> (app_status p = AS_PENDING \<longrightarrow> pending_for (app_action_id p) s = [])"

definition create_approval_request :: "approval \<Rightarrow> approval tx" where
  "create_approval_request p =
     tx_bind (query (pending_for (app_action_id p))) (\<lambda>active.
       if active \<noteq> [] then
         tx_raise (Repo_conflict (''An active approval already exists for action '' @ app_action_id p))
       else
         tx_bind (insert_row (approval_insert_ok p)
                             (\<lambda>s. s\<lparr>approvals_t := approvals_t s @ [approval_row p]\<rparr>))
           (\<lambda>_. tx_return p))"

definition find_approval :: "pystr \<Rightarrow> store \<Rightarrow> approval option" where
  "find_approval k s = find (\<lambda>p. app_id p = k) (approvals_t s)"

definition get_approval_request :: "pystr \<Rightarrow> approval option tx" where
  "get_approval_request k = query (\<lambda>s. map_option (approval_from_row s) (find_approval k s))"

definition newest_first :: "approval list \<Rightarrow> approval list" where
  "newest_first ps = sort_key (\<lambda>p. - app_requested_at p) ps"

definition get_approval_by_action :: "pystr \<Rightarrow> approval option tx" where
  "get_approval_by_action k =
     query (\<lambda>s. case newest_first (filter (\<lambda>p. app_action_id p = k) (approvals_t s)) of
                  [] \<Rightarrow> None
                | p # _ \<Rightarrow> Some (approval_from_row s p))"

definition list_approvals ::
  "approval_status option \<Rightarrow> pystr option \<Rightarrow> approval_status option \<Rightarrow> approval list tx" where
  "list_approvals st k status_filter =
     (let eff_status = (case status_filter of Some f \<Rightarrow> Some f | None \<Rightarrow> st)
      in query (\<lambda>s.
           map (approval_from_row s)
             (newest_first
               (filter (\<lambda>p. (case eff_status of None \<Rightarrow> True | Some f \<Rightarrow> app_status p = f)
                          \<and> (case k of None \<Rightarrow> True | Some rid \<Rightarrow> app_run_id p = rid))
                  (approvals_t s)))))"

definition map_approval :: "pystr \<Rightarrow> (approval \<Rightarrow> bool) \<Rightarrow> (approval \<Rightarrow> approval) \<Rightarrow> store \<Rightarrow> store" where
  "map_approval k guard f s =
     s\<lparr>approvals_t := map (\<lambda>p. if app_id p = k \<and> guard p then f p else p) (approvals_t s)\<rparr>"

definition resolved :: "approval_status \<Rightarrow> pystr \<Rightarrow> instant \<Rightarrow> pystr option \<Rightarrow> approval \<Rightarrow> approval" where
  "resolved st who t reason p =
     p\<lparr>app_status := st, resolved_at := Some t, resolved_by := Some who,
       resolution_reason := reason\<rparr>"

definition resolve_approval_row ::
  "pystr \<Rightarrow> approval_status \<Rightarrow> pystr \<Rightarrow> instant \<Rightarrow> pystr option \<Rightarrow> approval option tx" where
  "resolve_approval_row k st who t reason =
     tx_bind (query (find_approval k)) (\<lambda>row. case row of
         None \<Rightarrow> tx_raise (Repo_not_found (''Approval request '' @ quoted k @ '' not found.''))
       | Some p \<Rightarrow>
           if app_status p \<noteq> AS_PENDING then
             tx_raise (Repo_conflict (''Approval '' @ quoted k @ '' is already resolved as ''
                                      @ approval_status_value (app_status p) @ ''.''))
           else
             tx_bind (update_db (map_approval k (\<lambda>p. app_status p = AS_PENDING)
                                  (resolved st who t reason)))
               (\<lambda>_. get_approval_request k))"

definition consume_approval :: "pystr \<Rightarrow> unit tx" where
  "consume_approval k =
     update_db (map_approval k (\<lambda>p. app_status p = AS_APPROVED)
                 (\<lambda>p. p\<lparr>app_status := AS_CONSUMED\<rparr>))"

section \<open>Execution receipts\<close>

definition create_execution_receipt :: "receipt \<Rightarrow> receipt tx" where
  "create_execution_receipt r =
     tx_bind (insert_row (\<lambda>s. rec_id r \<notin> rec_id ` set (receipts_t s)
                            \<and> action_exists (rec_action_id r) s)
                         (\<lambda>s. s\<lparr>receipts_t := receipts_t s @ [r]\<rparr>))
       (\<lambda>_. tx_return r)"

definition get_execution_receipt_by_action :: "pystr \<Rightarrow> receipt option tx" where
  "get_execution_receipt_by_action k =
     query (\<lambda>s. find (\<lambda>r. rec_action_id r = k) (receipts_t s))"

section \<open>Evidence events\<close>

definition run_events :: "pystr \<Rightarrow> store \<Rightarrow> event list" where
  "run_events k s = filter (\<lambda>e. ev_run_id e = k) (events_t s)"

definition next_sequence :: "pystr \<Rightarrow> store \<Rightarrow> nat" where
  "next_sequence k s = Suc (foldr max (map ev_sequence (run_events k s)) 0)"

text \<open>The references an event carries besides its run (the optional keyword arguments).\<close>

record event_refs =
  ref_action :: "pystr option"
  ref_decision :: "pystr option"
  ref_approval :: "pystr option"
  ref_receipt :: "pystr option"

definition no_refs :: event_refs where
  "no_refs = \<lparr>ref_action = None, ref_decision = None, ref_approval = None, ref_receipt = None\<rparr>"

text \<open>\<open>turn_id or details.get("turn_id")\<close>, and the details after the default is filled in.\<close>

definition eff_turn_id :: "pystr option \<Rightarrow> jobj \<Rightarrow> json" where
  "eff_turn_id turn details =
     (if truthy turn then opt_str turn else jget details ''turn_id'')"

definition turn_details :: "pystr option \<Rightarrow> jobj \<Rightarrow> jobj" where
  "turn_details turn details =
     (if truthy turn \<and> map_of details ''turn_id'' = None
      then details @ [(''turn_id'', opt_str turn)] else details)"

fun json_opt_str :: "json \<Rightarrow> (exc + pystr option)" where
  "json_opt_str JNull = Inr None"
| "json_opt_str (JStr s) = Inr (Some s)"
| "json_opt_str _ = Inl (Py_error ''ValidationError'' ''turn_id'')"

definition event_insert_ok :: "event \<Rightarrow> store \<Rightarrow> bool" where
  "event_insert_ok e s \<longleftrightarrow>
     ev_id e \<notin> ev_id ` set (events_t s) \<and> run_exists (ev_run_id e) s
     \<and> ev_sequence e \<notin> ev_sequence ` set (run_events (ev_run_id e) s)"

definition append_event ::
  "pystr \<Rightarrow> event_type \<Rightarrow> pystr \<Rightarrow> pystr \<Rightarrow> instant \<Rightarrow> jobj \<Rightarrow> event_refs \<Rightarrow> pystr option
   \<Rightarrow> event tx" where
  "append_event k ty actor summary t details refs turn =
     tx_bind (query (next_sequence k)) (\<lambda>next_seq.
     tx_bind uuid4 (\<lambda>event_id.
       let row = \<lparr>ev_sequence = next_seq, ev_id = event_id, ev_run_id = k, ev_type = ty,
                  ev_timestamp = t, ev_actor = actor, ev_summary = summary,
                  ev_action_id = ref_action refs, ev_decision_id = ref_decision refs,
                  ev_approval_id = ref_approval refs, ev_receipt_id = ref_receipt refs,
                  ev_turn_id = None, ev_details = turn_details turn details,
                  ev_synthetic = True\<rparr>
       in tx_bind (insert_row (event_insert_ok row) (\<lambda>s. s\<lparr>events_t := events_t s @ [row]\<rparr>))
            (\<lambda>_. case json_opt_str (eff_turn_id turn details) of
                    Inl e \<Rightarrow> tx_raise e
                  | Inr eff \<Rightarrow> tx_return (row\<lparr>ev_turn_id := eff\<rparr>))))"

text \<open>
  \<open>evidence_events\<close> has no turn column: a read takes \<open>turn_id\<close> from the details (a value that
  is not a string cannot have been committed, since \<open>append_event\<close> raises on it).
\<close>

definition event_from_row :: "event \<Rightarrow> event" where
  "event_from_row e =
     e\<lparr>ev_turn_id := (case jget (ev_details e) ''turn_id'' of JStr s \<Rightarrow> Some s | _ \<Rightarrow> None)\<rparr>"

definition limit_rows :: "int option \<Rightarrow> 'a list \<Rightarrow> 'a list" where
  "limit_rows n xs = (case n of None \<Rightarrow> xs | Some k \<Rightarrow> if k < 0 then xs else take (nat k) xs)"

definition events_of ::
  "pystr \<Rightarrow> int option \<Rightarrow> int option \<Rightarrow> store \<Rightarrow> event list" where
  "events_of k after lim s =
     map event_from_row
       (limit_rows lim
         (sort_key ev_sequence
           (filter (\<lambda>e. case after of None \<Rightarrow> True | Some a \<Rightarrow> a < int (ev_sequence e))
             (run_events k s))))"

definition get_events :: "pystr \<Rightarrow> int option \<Rightarrow> int option \<Rightarrow> event list tx" where
  "get_events k after lim = query (events_of k after lim)"

end
