(* ===== verification/RepositoryProps.thy ===== *)
theory RepositoryProps
  imports Repository
begin

text \<open>
  What the repository promises. \<open>repository_contract\<close> is the interface: a relation between
  database states that the primitive row operations of the repository keep is kept by every
  repository call, and (in the theories above) by every handler built from them. Three
  parameters say which operations the relation is proved for: the event types it allows to be
  appended, whether the rows of a submission (action, decision, approval) may be created, and
  the statuses a run may be set to. The
  contract is interpreted on relations of the model, here on three: the store's well-formedness
  is preserved, the evidence tables only grow, and approvals only move forward through their
  life cycle.
\<close>

section \<open>The contract\<close>

locale repository_contract = store_relation R for R :: "store \<Rightarrow> store \<Rightarrow> bool" +
  fixes EV :: "event_type set" and SUB :: bool and ST :: "run_status set"
  assumes run_insert: "\<not> run_exists (run_key r) s \<Longrightarrow> R s (s\<lparr>runs_t := runs_t s @ [r]\<rparr>)"
    and run_update: "(\<And>r. run_key (f r) = run_key r) \<Longrightarrow> (\<And>r. run_st (f r) = run_st r) \<Longrightarrow>
      R s (map_run k f s)"
    and run_status: "rst \<in> ST \<Longrightarrow> R s (map_run k (\<lambda>r. r\<lparr>run_st := rst, run_updated_at := t\<rparr>) s)"
    and action_insert: "SUB \<Longrightarrow> \<not> action_exists (act_id a) s \<Longrightarrow> run_exists (act_run_id a) s \<Longrightarrow>
      R s (s\<lparr>actions_t := actions_t s @ [a]\<rparr>)"
    and audit_insert: "aud_id u \<notin> aud_id ` set (audits_t s) \<Longrightarrow> run_exists (aud_run_id u) s \<Longrightarrow>
      R s (s\<lparr>audits_t := audits_t s @ [u]\<rparr>)"
    and decision_insert: "SUB \<Longrightarrow> \<not> decision_exists (dec_id d) s \<Longrightarrow> action_exists (dec_action_id d) s \<Longrightarrow>
      R s (s\<lparr>decisions_t := decisions_t s @ [d]\<rparr>)"
    and approval_insert: "SUB \<Longrightarrow> approval_insert_ok p s \<Longrightarrow> pending_for (app_action_id p) s = [] \<Longrightarrow>
      R s (s\<lparr>approvals_t := approvals_t s @ [approval_row p]\<rparr>)"
    and approval_resolve:
      "R s (map_approval k (\<lambda>p. app_status p = AS_PENDING) (resolved st who t reason) s)"
    and approval_consume:
      "R s (map_approval k (\<lambda>p. app_status p = AS_APPROVED) (\<lambda>p. p\<lparr>app_status := AS_CONSUMED\<rparr>) s)"
    and receipt_insert: "rec_id x \<notin> rec_id ` set (receipts_t s) \<Longrightarrow> action_exists (rec_action_id x) s
      \<Longrightarrow> R s (s\<lparr>receipts_t := receipts_t s @ [x]\<rparr>)"
    and event_insert: "ev_type e \<in> EV \<Longrightarrow> ev_sequence e = next_sequence (ev_run_id e) s \<Longrightarrow> event_insert_ok e s \<Longrightarrow>
      R s (s\<lparr>events_t := events_t s @ [e]\<rparr>)"
begin

lemma keeps_insert: "(\<And>s. ok s \<Longrightarrow> R s (f s)) \<Longrightarrow> keeps R (insert_row ok f)"
  by (simp add: insert_row_def keeps_def tx_bind_def refl)

lemma keeps_update: "(\<And>s. R s (f s)) \<Longrightarrow> keeps R (update_db f)"
  by (simp add: keeps_def)

lemma keeps_create_run: "keeps R (create_run r)"
  unfolding create_run_def
  by (intro keeps_rules keeps_insert run_insert) (simp add: run_exists_def)

lemma keeps_run_updates:
  "keeps R (update_run_prompt_version k v t)" "keeps R (update_run_workspace_path k v t)"
  unfolding update_run_prompt_version_def update_run_workspace_path_def
  by (intro keeps_update run_update; simp)+

lemma keeps_run_status: "st \<in> ST \<Longrightarrow> keeps R (update_run_status k st t)"
  unfolding update_run_status_def by (intro keeps_update run_status)

lemma keeps_create_action: "SUB \<Longrightarrow> keeps R (create_action_request a)"
  unfolding create_action_request_def by (intro keeps_rules keeps_insert action_insert) auto

lemma keeps_create_audit: "keeps R (create_reasoning_audit u)"
  unfolding create_reasoning_audit_def by (intro keeps_rules keeps_insert audit_insert) auto

lemma keeps_create_decision: "SUB \<Longrightarrow> keeps R (create_policy_decision d)"
  unfolding create_policy_decision_def by (intro keeps_rules keeps_insert decision_insert) auto

lemma keeps_create_receipt: "keeps R (create_execution_receipt x)"
  unfolding create_execution_receipt_def by (intro keeps_rules keeps_insert receipt_insert) auto

lemma keeps_create_approval: "SUB \<Longrightarrow> keeps R (create_approval_request p)"
  by (auto simp: keeps_def create_approval_request_def insert_row_def tx_bind_def refl
      intro: approval_insert)

lemma keeps_resolve_approval: "keeps R (resolve_approval_row k st who t reason)"
  unfolding resolve_approval_row_def get_approval_request_def
  by (intro keeps_rules keeps_update approval_resolve)

lemma keeps_consume_approval: "keeps R (consume_approval k)"
  unfolding consume_approval_def by (intro keeps_update approval_consume)

lemma keeps_append_event: "ty \<in> EV \<Longrightarrow> keeps R (append_event k ty actor summary t details refs turn)"
  by (auto simp: keeps_def append_event_def insert_row_def tx_bind_def refl uuid4_def Let_def
      intro: event_insert split: sum.splits)

lemma keeps_reads:
  "keeps R (get_run k)" "keeps R list_runs" "keeps R (get_action_request k)"
  "keeps R (list_actions_for_run k)" "keeps R (get_reasoning_audit k)"
  "keeps R (get_reasoning_audit_by_turn k turn h tl_arg op res args)"
  "keeps R (get_policy_decision k)" "keeps R (get_policy_version_for_decision k)"
  "keeps R (get_policy_decision_by_action k)" "keeps R (get_approval_request k)"
  "keeps R (get_approval_by_action k)" "keeps R (list_approvals st k' sf)"
  "keeps R (get_execution_receipt_by_action k)" "keeps R (get_events k after lim)"
  by (simp_all add: get_run_def list_runs_def get_action_request_def list_actions_for_run_def
      get_reasoning_audit_def get_reasoning_audit_by_turn_def get_policy_decision_def
      get_policy_version_for_decision_def get_policy_decision_by_action_def
      get_approval_request_def get_approval_by_action_def list_approvals_def
      get_execution_receipt_by_action_def get_events_def keeps_query Let_def)

lemmas keeps_repository =
  keeps_create_run keeps_run_updates keeps_run_status keeps_create_action keeps_create_audit
  keeps_create_decision keeps_create_receipt keeps_create_approval keeps_resolve_approval
  keeps_consume_approval keeps_append_event keeps_reads

end

section \<open>Append-only evidence\<close>

definition append_only :: "store \<Rightarrow> store \<Rightarrow> bool" where
  "append_only s t \<longleftrightarrow>
     prefix (events_t s) (events_t t) \<and> prefix (decisions_t s) (decisions_t t)
     \<and> prefix (actions_t s) (actions_t t) \<and> prefix (audits_t s) (audits_t t)
     \<and> prefix (receipts_t s) (receipts_t t)"

interpretation append: repository_contract append_only UNIV True UNIV
  by unfold_locales (auto simp: append_only_def map_run_def map_approval_def
      intro: prefix_order.trans)

section \<open>Approval life cycle\<close>

definition status_step :: "approval_status \<Rightarrow> approval_status \<Rightarrow> bool" where
  "status_step a b \<longleftrightarrow> a = b \<or> a = AS_PENDING \<or> (a = AS_APPROVED \<and> b = AS_CONSUMED)"

definition approval_step :: "approval \<Rightarrow> approval \<Rightarrow> bool" where
  "approval_step p q \<longleftrightarrow>
     app_id q = app_id p \<and> app_run_id q = app_run_id p \<and> app_action_id q = app_action_id p
     \<and> app_decision_id q = app_decision_id p \<and> expires_at q = expires_at p
     \<and> status_step (app_status p) (app_status q)
     \<and> (app_status p \<noteq> AS_PENDING \<longrightarrow>
          resolved_at q = resolved_at p \<and> resolved_by q = resolved_by p
          \<and> resolution_reason q = resolution_reason p)"

definition approvals_forward :: "store \<Rightarrow> store \<Rightarrow> bool" where
  "approvals_forward s t \<longleftrightarrow>
     (\<exists>old new. approvals_t t = old @ new \<and> list_all2 approval_step (approvals_t s) old)"

lemma approval_step_refl: "approval_step p p"
  by (simp add: approval_step_def status_step_def)

lemma status_step_trans: "status_step a b \<Longrightarrow> status_step b c \<Longrightarrow> status_step a c"
  by (auto simp: status_step_def)

lemma approval_step_trans: "approval_step p q \<Longrightarrow> approval_step q r \<Longrightarrow> approval_step p r"
  unfolding approval_step_def status_step_def
  by (cases "app_status p"; cases "app_status q"; cases "app_status r"; simp)

lemma approvals_forwardI:
  "list_all2 approval_step (approvals_t s) (approvals_t t) \<Longrightarrow> approvals_forward s t"
  unfolding approvals_forward_def by (intro exI[of _ "approvals_t t"] exI[of _ "[]"]) simp

lemma approvals_forward_same:
  "approvals_t t = approvals_t s @ new \<Longrightarrow> approvals_forward s t"
  unfolding approvals_forward_def
  by (intro exI[of _ "approvals_t s"] exI[of _ new])
     (simp add: list_all2_refl approval_step_refl)

lemma list_all2_map_right: "(\<And>x. P x (f x)) \<Longrightarrow> list_all2 P xs (map f xs)"
  by (induction xs) simp_all

interpretation forward: repository_contract approvals_forward UNIV True UNIV
proof
  fix s t u assume "approvals_forward s t" "approvals_forward t u"
  then obtain o1 n1 o2 n2 where
    1: "approvals_t t = o1 @ n1" "list_all2 approval_step (approvals_t s) o1" and
    2: "approvals_t u = o2 @ n2" "list_all2 approval_step (approvals_t t) o2"
    unfolding approvals_forward_def by blast
  from 2(2)[unfolded 1(1)] obtain p q where
    pq: "o2 = p @ q" "list_all2 approval_step o1 p"
    by (auto simp: list_all2_append1)
  have "list_all2 approval_step (approvals_t s) p"
    using list_all2_trans[of approval_step approval_step approval_step, OF approval_step_trans
        1(2) pq(2)] .
  with 2(1) pq(1) show "approvals_forward s u" unfolding approvals_forward_def by auto
next
  fix s k st who t reason
  show "approvals_forward s
          (map_approval k (\<lambda>p. app_status p = AS_PENDING) (resolved st who t reason) s)"
    by (intro approvals_forwardI)
       (auto simp: map_approval_def approval_step_def status_step_def resolved_def
        intro!: list_all2_map_right)
next
  fix s k
  show "approvals_forward s (map_approval k (\<lambda>p. app_status p = AS_APPROVED)
          (\<lambda>p. p\<lparr>app_status := AS_CONSUMED\<rparr>) s)"
    by (intro approvals_forwardI)
       (auto simp: map_approval_def approval_step_def status_step_def intro!: list_all2_map_right)
qed (auto simp: map_run_def intro: approvals_forward_same)

section \<open>Well-formedness\<close>

definition keys_ok :: "store \<Rightarrow> bool" where
  "keys_ok s \<longleftrightarrow>
     distinct (map run_key (runs_t s)) \<and> distinct (map act_id (actions_t s))
     \<and> distinct (map aud_id (audits_t s)) \<and> distinct (map dec_id (decisions_t s))
     \<and> distinct (map app_id (approvals_t s)) \<and> distinct (map rec_id (receipts_t s))
     \<and> distinct (map ev_id (events_t s))"

definition refs_ok :: "store \<Rightarrow> bool" where
  "refs_ok s \<longleftrightarrow>
     (\<forall>a \<in> set (actions_t s). run_exists (act_run_id a) s)
     \<and> (\<forall>u \<in> set (audits_t s). run_exists (aud_run_id u) s)
     \<and> (\<forall>d \<in> set (decisions_t s). action_exists (dec_action_id d) s)
     \<and> (\<forall>p \<in> set (approvals_t s). run_exists (app_run_id p) s
          \<and> action_exists (app_action_id p) s \<and> decision_exists (app_decision_id p) s)
     \<and> (\<forall>x \<in> set (receipts_t s). action_exists (rec_action_id x) s)
     \<and> (\<forall>e \<in> set (events_t s). run_exists (ev_run_id e) s)"

definition one_pending :: "store \<Rightarrow> bool" where
  "one_pending s \<longleftrightarrow> (\<forall>k. length (pending_for k s) \<le> 1)"

definition gap_free :: "store \<Rightarrow> bool" where
  "gap_free s \<longleftrightarrow>
     (\<forall>k. map ev_sequence (run_events k s) = map Suc [0..<length (run_events k s)])"

definition wf_store :: "store \<Rightarrow> bool" where
  "wf_store s \<longleftrightarrow> keys_ok s \<and> refs_ok s \<and> one_pending s \<and> gap_free s"

definition wf_kept :: "store \<Rightarrow> store \<Rightarrow> bool" where
  "wf_kept s t \<longleftrightarrow> (wf_store s \<longrightarrow> wf_store t)"

lemma wf_empty: "wf_store empty_store"
  by (simp add: wf_store_def empty_store_def keys_ok_def refs_ok_def one_pending_def gap_free_def
      pending_for_def run_events_def)

lemmas wf_defs = wf_store_def keys_ok_def refs_ok_def one_pending_def gap_free_def

lemma foldr_max_upt: "foldr max (map Suc [0..<n]) 0 = n"
proof (induction n)
  case (Suc n)
  have "foldr max xs a = max a (foldr max xs 0)" for xs and a :: nat
    by (induction xs) auto
  from this[of "map Suc [0..<n]" "Suc n"] Suc show ?case by simp
qed simp

lemma gap_free_next:
  assumes "gap_free s"
  shows "next_sequence k s = Suc (length (run_events k s))"
proof -
  from assms have "map ev_sequence (run_events k s) = map Suc [0..<length (run_events k s)]"
    by (simp add: gap_free_def)
  then show ?thesis by (metis next_sequence_def foldr_max_upt)
qed

lemma length_filter_mono:
  "(\<And>x. Q x \<Longrightarrow> P x) \<Longrightarrow> length (filter Q xs) \<le> length (filter P xs)"
  by (induction xs) (auto simp: le_SucI)

lemma one_pending_map:
  assumes "one_pending s"
    and "\<And>p. app_action_id (f p) = app_action_id p"
    and "\<And>p. g p \<Longrightarrow> app_status (f p) = AS_PENDING \<Longrightarrow> app_status p = AS_PENDING"
  shows "one_pending (map_approval k g f s)"
proof -
  have "length (pending_for j (map_approval k g f s)) \<le> length (pending_for j s)" for j
    unfolding pending_for_def map_approval_def
    using assms(2,3) by (auto simp: filter_map comp_def intro!: length_filter_mono split: if_splits)
  with assms(1) show ?thesis unfolding one_pending_def using le_trans by blast
qed

lemma map_keys_same: "(\<And>x. key (f x) = key x) \<Longrightarrow> map key (map f xs) = map key xs"
  by simp

lemma wf_map_run:
  assumes "wf_store s" and "\<And>r. run_key (f r) = run_key r"
  shows "wf_store (map_run k f s)"
proof -
  have keys: "map run_key (runs_t (map_run k f s)) = map run_key (runs_t s)"
    using assms(2) by (simp add: map_run_def)
  have ex: "run_exists j (map_run k f s) = run_exists j s" for j
    unfolding run_exists_def set_map[symmetric] keys ..
  from assms(1) show ?thesis
    using keys
    by (simp add: wf_defs ex) (simp add: map_run_def action_exists_def decision_exists_def
        pending_for_def run_events_def)
qed

lemma wf_map_approval:
  assumes "wf_store s" and "one_pending (map_approval k g f s)"
    and "\<And>p. app_id (f p) = app_id p \<and> app_run_id (f p) = app_run_id p
           \<and> app_action_id (f p) = app_action_id p \<and> app_decision_id (f p) = app_decision_id p"
  shows "wf_store (map_approval k g f s)"
proof -
  have keys: "map app_id (approvals_t (map_approval k g f s)) = map app_id (approvals_t s)"
    using assms(3) by (simp add: map_approval_def)
  have ex: "run_exists j (map_approval k g f s) = run_exists j s"
    "action_exists j (map_approval k g f s) = action_exists j s"
    "decision_exists j (map_approval k g f s) = decision_exists j s"
    "run_events j (map_approval k g f s) = run_events j s" for j
    by (simp_all add: run_exists_def action_exists_def decision_exists_def map_approval_def
        run_events_def)
  have refs: "refs_ok (map_approval k g f s)"
    using assms(1,3) unfolding wf_store_def refs_ok_def ex by (auto simp: map_approval_def)
  from assms(1,2) refs keys show ?thesis
    by (simp add: wf_store_def keys_ok_def gap_free_def ex) (simp add: map_approval_def)
qed

lemma run_events_append:
  "run_events k (s\<lparr>events_t := events_t s @ [e]\<rparr>) =
     run_events k s @ (if ev_run_id e = k then [e] else [])"
  by (simp add: run_events_def)

interpretation wf: repository_contract wf_kept UNIV True UNIV
proof
  fix e s assume seq: "ev_sequence e = next_sequence (ev_run_id e) s" and ok: "event_insert_ok e s"
  show "wf_kept s (s\<lparr>events_t := events_t s @ [e]\<rparr>)"
    unfolding wf_kept_def
  proof
    assume wf: "wf_store s"
    then have gap: "gap_free s" by (simp add: wf_store_def)
    have "gap_free (s\<lparr>events_t := events_t s @ [e]\<rparr>)"
      using gap seq gap_free_next[OF gap] by (simp add: gap_free_def run_events_append)
    with wf ok show "wf_store (s\<lparr>events_t := events_t s @ [e]\<rparr>)"
      by (auto simp: wf_store_def keys_ok_def refs_ok_def one_pending_def event_insert_ok_def
          run_exists_def action_exists_def decision_exists_def pending_for_def)
  qed
next
  fix p s assume ok: "approval_insert_ok p s" and none: "pending_for (app_action_id p) s = []"
  show "wf_kept s (s\<lparr>approvals_t := approvals_t s @ [approval_row p]\<rparr>)"
    unfolding wf_kept_def
  proof
    assume wf: "wf_store s"
    have "one_pending (s\<lparr>approvals_t := approvals_t s @ [approval_row p]\<rparr>)"
      using wf none by (auto simp: wf_store_def one_pending_def pending_for_def approval_row_def)
    with wf ok show "wf_store (s\<lparr>approvals_t := approvals_t s @ [approval_row p]\<rparr>)"
      by (auto simp: wf_store_def keys_ok_def refs_ok_def gap_free_def approval_insert_ok_def
          run_exists_def action_exists_def decision_exists_def run_events_def approval_row_def)
  qed
next
  fix s k st who t reason
  show "wf_kept s (map_approval k (\<lambda>p. app_status p = AS_PENDING) (resolved st who t reason) s)"
    unfolding wf_kept_def
    by (intro impI wf_map_approval one_pending_map)
       (auto simp: wf_store_def resolved_def)
next
  fix s k
  show "wf_kept s (map_approval k (\<lambda>p. app_status p = AS_APPROVED)
          (\<lambda>p. p\<lparr>app_status := AS_CONSUMED\<rparr>) s)"
    unfolding wf_kept_def
    by (intro impI wf_map_approval one_pending_map) (auto simp: wf_store_def)
next
  fix f :: "run \<Rightarrow> run" and k s assume "\<And>r. run_key (f r) = run_key r"
  then show "wf_kept s (map_run k f s)" by (simp add: wf_kept_def wf_map_run)
next
  fix k st t s
  show "wf_kept s (map_run k (\<lambda>r. r\<lparr>run_st := st, run_updated_at := t\<rparr>) s)"
    by (simp add: wf_kept_def wf_map_run)
qed (auto simp: wf_kept_def wf_store_def keys_ok_def refs_ok_def one_pending_def gap_free_def
    run_exists_def action_exists_def decision_exists_def pending_for_def run_events_def)

end
