(* ===== verification/Executor.thy ===== *)
theory Executor
  imports RepositoryProps DispatchGate PolicyProps
begin

text \<open>
  \<open>backend/scopewatch/executor.py\<close>, the local backend: the shared dispatch gate, the
  stored-run and stored-approval checks, the scoped target, and the file operations on the
  world's disk. What the operating system does on \<open>mkdir(parents=True, exist_ok=True)\<close> and on
  opening a file for writing are arguments (\<open>os_env\<close>), as are the error it may raise when a path is
  asked for (\<open>exists\<close>, \<open>is_dir\<close>, \<open>stat\<close>) or its file or directory is opened and read, and the decimal form
  of a float.
\<close>

definition MAX_READ_BYTES :: nat where "MAX_READ_BYTES = 64 * 1024"
definition MAX_DIR_ENTRIES :: nat where "MAX_DIR_ENTRIES = 1000"

record os_env =
  os_mkdirs :: "path \<Rightarrow> disk \<Rightarrow> (exc + unit) \<times> disk"
  os_write_text :: "path \<Rightarrow> pystr \<Rightarrow> disk \<Rightarrow> (exc + unit) \<times> disk"
  os_probe :: "path \<Rightarrow> disk \<Rightarrow> exc option"
  os_open :: "path \<Rightarrow> disk \<Rightarrow> exc option"
  float_repr :: "int \<Rightarrow> int \<Rightarrow> pystr"

definition security_error :: "pystr \<Rightarrow> pystr \<Rightarrow> exc" where
  "security_error message code = Security_error message code 409"

definition get_executor_backend :: "environ \<Rightarrow> pystr" where
  "get_executor_backend env =
     (let b = lower (strip (case env ''SCOPEWATCH_EXECUTOR'' of None \<Rightarrow> ''local'' | Some v \<Rightarrow> v))
      in if b = [] then ''local'' else b)"

section \<open>Path resolution\<close>

definition read_disk :: "(disk \<Rightarrow> 'a) \<Rightarrow> 'a tx" where
  "read_disk f = disk_op (\<lambda>d. (Inr (f d), d))"

definition os_check :: "(path \<Rightarrow> disk \<Rightarrow> exc option) \<Rightarrow> path \<Rightarrow> unit tx" where
  "os_check f p = disk_op (\<lambda>d. (case f p d of None \<Rightarrow> Inr () | Some e \<Rightarrow> Inl e, d))"

definition resolve_path :: "path \<Rightarrow> path tx" where
  "resolve_path p =
     disk_op (\<lambda>d. case os_resolve (dk_view d) p of
                    None \<Rightarrow> (Inl (Py_error (dk_resolve_exc d) []), d)
                  | Some q \<Rightarrow> (Inr q, d))"

definition resolve_workspace_target :: "path \<Rightarrow> path \<Rightarrow> path tx" where
  "resolve_workspace_target workspace_root target_path =
     tx_bind (resolve_path workspace_root) (\<lambda>resolved_root.
     tx_bind (resolve_path target_path) (\<lambda>resolved_target.
       case relative_to resolved_target resolved_root of
         None \<Rightarrow> tx_raise (Py_error ''ValueError'' [])
       | Some _ \<Rightarrow> tx_return resolved_target))"

definition verify_workspace_containment :: "path \<Rightarrow> path \<Rightarrow> path tx" where
  "verify_workspace_containment workspace_root target_path =
     tx_catch (resolve_workspace_target workspace_root target_path)
       (\<lambda>e. if exc_class e = ''ValueError''
            then tx_raise (security_error ''Path escapes workspace boundary.'' ''WORKSPACE_ESCAPE'')
            else tx_raise e)"

text \<open>The checks of \<open>_verify_scoped_target\<close> on the resolved target.\<close>

definition scoped_target_check ::
  "fsview \<Rightarrow> path \<Rightarrow> path \<Rightarrow> path \<Rightarrow> task_scope option \<Rightarrow> bool \<Rightarrow> exc + path" where
  "scoped_target_check v root requested target scope require_allowed =
     (case relative_to target root of
        None \<Rightarrow> Inl (Py_error ''ValueError'' [])
      | Some canonical \<Rightarrow>
          (case scope of
             None \<Rightarrow>
               if canonical \<noteq> requested
               then Inl (security_error ''Symlink target requires task scope evidence.''
                           ''SYMLINK_SCOPE_REQUIRED'')
               else Inr target
           | Some sc \<Rightarrow>
               let allowed = (if require_allowed then allowed_paths sc else [''.''])
               in if scoped_path_reason v requested canonical allowed (blocked_paths sc)
                       (case_probe v root) (Some root) \<noteq> None
                  then Inl (security_error ''Resolved path violates the task scope.''
                              ''SCOPE_VIOLATION'')
                  else Inr target))"

definition tx_of_sum :: "exc + 'a \<Rightarrow> 'a tx" where
  "tx_of_sum r = (case r of Inl e \<Rightarrow> tx_raise e | Inr x \<Rightarrow> tx_return x)"

definition verify_scoped_target ::
  "path \<Rightarrow> pystr \<Rightarrow> task_scope option \<Rightarrow> bool \<Rightarrow> path tx" where
  "verify_scoped_target workspace_root res scope require_allowed =
     tx_bind (resolve_path workspace_root) (\<lambda>root.
       let requested = normalize_relative_segments res
       in tx_bind (verify_workspace_containment root (root @ requested)) (\<lambda>target.
          tx_bind (read_disk dk_view) (\<lambda>v.
            tx_of_sum (scoped_target_check v root requested target scope require_allowed))))"

section \<open>Stored authorisation\<close>

definition verify_stored_run_not_terminal :: "action \<Rightarrow> unit tx" where
  "verify_stored_run_not_terminal a =
     tx_bind (get_run (act_run_id a)) (\<lambda>r. case r of
         None \<Rightarrow> tx_raise (security_error ''Stored run is unknown; execution refused.'' ''RUN_UNKNOWN'')
       | Some rn \<Rightarrow>
           if run_st rn = RS_COMPLETED \<or> run_st rn = RS_FAILED
           then tx_raise (security_error ''Stored run is in a terminal state; execution refused.''
                            ''RUN_TERMINAL'')
           else tx_return ())"

definition verify_stored_approval_single_use :: "action \<Rightarrow> approval option \<Rightarrow> unit tx" where
  "verify_stored_approval_single_use a presented =
     tx_bind (verify_stored_run_not_terminal a) (\<lambda>_.
     tx_bind (get_approval_by_action (act_id a)) (\<lambda>st. case st of
         None \<Rightarrow> tx_raise (security_error
                   ''No matching stored approval for this action; execution refused.''
                   ''APPROVAL_MISMATCH'')
       | Some sp \<Rightarrow>
           if presented = None then
             tx_raise (security_error
                   ''Stored approval authorization could not be verified; failing closed.''
                   ''STORE_ERROR'')
           else if app_id sp \<noteq> app_id (the presented) then
             tx_raise (security_error
                   ''No matching stored approval for this action; execution refused.''
                   ''APPROVAL_MISMATCH'')
           else if app_status sp \<noteq> AS_APPROVED then
             tx_raise (security_error ''Stored approval is not APPROVED; replay refused.''
                   ''APPROVAL_NOT_APPROVED'')
           else
             tx_bind (get_execution_receipt_by_action (act_id a)) (\<lambda>r.
               if r \<noteq> None then
                 tx_raise (security_error ''Action was already executed; replay refused.''
                    ''ALREADY_EXECUTED'')
               else tx_return ())))"

section \<open>The operations\<close>

definition executor_name :: pystr where
  "executor_name = ''synthetic-workspace-executor''"

definition mk_receipt ::
  "action \<Rightarrow> pystr \<Rightarrow> instant \<Rightarrow> execution_status \<Rightarrow> jobj \<Rightarrow> pystr option \<Rightarrow> receipt tx" where
  "mk_receipt a receipt_id began st result code =
     tx_bind utc_now (\<lambda>finished.
       tx_return \<lparr>rec_id = receipt_id, rec_action_id = act_id a, rec_status = st,
                  started_at = began, completed_at = finished, rec_executor = executor_name,
                  sanitized_result = Some result, rec_error_code = code,
                  rec_resource = resource a, rec_operation = operation a\<rparr>)"

definition is_dir_node :: "node option \<Rightarrow> bool" where
  "is_dir_node n = (case n of Some (Dir_node _) \<Rightarrow> True | _ \<Rightarrow> False)"

definition exec_list_directory :: "os_env \<Rightarrow> action \<Rightarrow> path \<Rightarrow> pystr \<Rightarrow> instant \<Rightarrow> receipt tx" where
  "exec_list_directory xe a target rid began =
     tx_bind (os_check (os_probe xe) target) (\<lambda>_.
     tx_bind (read_disk dk_node) (\<lambda>node_at. case node_at target of
         None \<Rightarrow> tx_raise (Py_error ''FileNotFoundError'' (''Directory not found: '' @ resource a))
       | Some (File_node _ _) \<Rightarrow>
           tx_raise (Py_error ''NotADirectoryError'' (''Resource is not a directory: '' @ resource a))
       | Some (Dir_node names) \<Rightarrow>
           tx_bind (os_check (os_open xe) target) (\<lambda>_.
           let raw = take MAX_DIR_ENTRIES names;
               items = map (\<lambda>n. JObj [(''name'', JStr n),
                                       (''type'', JStr (if is_dir_node (node_at (target @ [n]))
                                                        then ''directory'' else ''file''))])
                           (sorted_strs raw)
           in mk_receipt a rid began XS_EXECUTED
                [(''operation'', JStr ''list_directory''), (''resource'', JStr (resource a)),
                 (''item_count'', JInt (int (length items))), (''items'', JArr items),
                 (''truncated'', JBool (MAX_DIR_ENTRIES < length names))] None)))"

definition exec_read_text :: "os_env \<Rightarrow> action \<Rightarrow> path \<Rightarrow> pystr \<Rightarrow> instant \<Rightarrow> receipt tx" where
  "exec_read_text xe a target rid began =
     tx_bind (os_check (os_probe xe) target) (\<lambda>_.
     tx_bind (read_disk dk_node) (\<lambda>node_at. case node_at target of
         None \<Rightarrow> tx_raise (Py_error ''FileNotFoundError'' (''File not found: '' @ resource a))
       | Some (Dir_node _) \<Rightarrow>
           tx_raise (Py_error ''IsADirectoryError''
             (''Resource is a directory, not a text file: '' @ resource a))
       | Some (File_node content nbytes) \<Rightarrow>
           if MAX_READ_BYTES < nbytes then
             mk_receipt a rid began XS_FAILED
               [(''error'', JStr (''File size '' @ show_nat nbytes @ '' exceeds ''
                                   @ show_nat MAX_READ_BYTES @ '' limit.''))]
               (Some ''OVERSIZED_FILE'')
           else
             tx_bind (os_check (os_open xe) target) (\<lambda>_.
             mk_receipt a rid began XS_EXECUTED
               [(''operation'', JStr ''read_text''), (''resource'', JStr (resource a)),
                (''byte_count'', JInt (int nbytes)), (''content'', JStr content),
                (''preview'', JStr (take 500 content)), (''truncated'', JBool False)] None)))"

definition content_argument :: "os_env \<Rightarrow> action \<Rightarrow> pystr" where
  "content_argument xe a =
     (case map_of (arguments a) ''content'' of
        None \<Rightarrow> []
      | Some v \<Rightarrow> json_text (float_repr xe) v)"

definition exec_write_text :: "os_env \<Rightarrow> action \<Rightarrow> path \<Rightarrow> path \<Rightarrow> pystr \<Rightarrow> instant \<Rightarrow> receipt tx" where
  "exec_write_text xe a workspace target rid began =
     (let content = content_argument xe a;
          nbytes = utf8_length content
      in if MAX_WRITE_BYTES < nbytes then
           mk_receipt a rid began XS_FAILED
             [(''error'', JStr (''Payload '' @ show_nat nbytes @ '' bytes exceeds ''
                                 @ show_nat MAX_WRITE_BYTES @ '' limit.''))]
             (Some ''OVERSIZED_PAYLOAD'')
         else
           tx_bind (verify_workspace_containment workspace (butlast target)) (\<lambda>_.
           tx_bind (disk_op (os_mkdirs xe (butlast target))) (\<lambda>_.
           tx_bind (disk_op (os_write_text xe target content)) (\<lambda>_.
             mk_receipt a rid began XS_EXECUTED
               [(''operation'', JStr ''write_text''), (''resource'', JStr (resource a)),
                (''bytes_written'', JInt (int nbytes))] None))))"

definition exec_delete_path :: "action \<Rightarrow> pystr \<Rightarrow> instant \<Rightarrow> receipt tx" where
  "exec_delete_path a rid began =
     mk_receipt a rid began XS_EXECUTED
       [(''operation'', JStr ''delete_path''), (''resource'', JStr (resource a)),
        (''simulated'', JBool True),
        (''note'', JStr ''Deletion simulated safely in baseline demo; target not unlinked.'')] None"

definition exec_operation ::
  "os_env \<Rightarrow> action \<Rightarrow> path \<Rightarrow> task_scope option \<Rightarrow> pystr \<Rightarrow> instant \<Rightarrow> receipt tx" where
  "exec_operation xe a workspace scope rid began =
     tx_bind (verify_scoped_target workspace (resource a) scope True) (\<lambda>target.
       if operation a = ''list_directory'' then exec_list_directory xe a target rid began
       else if operation a = ''read_text'' then exec_read_text xe a target rid began
       else if operation a = ''write_text'' then exec_write_text xe a workspace target rid began
       else if operation a = ''delete_path'' then exec_delete_path a rid began
       else tx_raise (security_error (''Unsupported operation: '' @ operation a)
                        ''UNSUPPORTED_OPERATION''))"

text \<open>\<open>str(exc)\<close> for the three file errors, the class name for everything else.\<close>

fun sanitized_message :: "exc \<Rightarrow> pystr" where
  "sanitized_message (Py_error c msg) =
     (if c \<in> {''FileNotFoundError'', ''NotADirectoryError'', ''IsADirectoryError''} then msg else c)"
| "sanitized_message e = exc_class e"

definition verify_stored ::
  "action \<Rightarrow> decision option \<Rightarrow> approval option \<Rightarrow> bool \<Rightarrow> unit tx" where
  "verify_stored a dec app with_store =
     (if \<not> with_store then tx_return ()
      else case dec of
        Some d \<Rightarrow>
          if outcome d = PO_HOLD
          then verify_stored_approval_single_use a app
          else verify_stored_run_not_terminal a
      | None \<Rightarrow> verify_stored_run_not_terminal a)"

definition execute_local ::
  "os_env \<Rightarrow> action \<Rightarrow> path \<Rightarrow> decision option \<Rightarrow> approval option \<Rightarrow> bool \<Rightarrow> task_scope option
     \<Rightarrow> receipt tx" where
  "execute_local xe a workspace_root dec app with_store scope =
     tx_bind uuid4 (\<lambda>rid.
     tx_bind utc_now (\<lambda>began.
       let dv = authorize_dispatch (action_obj a) (decision_obj dec) (approval_obj app)
       in if dv_kind dv = VK_DENY then
            mk_receipt a rid began XS_NOT_EXECUTED
              [(''reason'', JStr ''Policy outcome was DENY; execution blocked.'')]
              (map_option (\<lambda>d. reason_code_value (reason_code d)) dec)
          else if \<not> proceed dv then
            tx_raise (security_error (dv_reason dv) (verdict_code_value (dv_code dv)))
          else
            tx_bind (verify_stored a dec app with_store) (\<lambda>_.
              if operation a = ''run_command'' then
                tx_raise (security_error
                  ''run_command requires the Docker executor (SCOPEWATCH_EXECUTOR=docker).''
                  ''UNSUPPORTED_OPERATION'')
              else
                tx_bind (resolve_path workspace_root) (\<lambda>resolved_workspace.
                  tx_catch (exec_operation xe a resolved_workspace scope rid began)
                    (\<lambda>e. mk_receipt a rid began XS_FAILED
                           [(''error'', JStr (sanitized_message e))] (Some ''EXECUTION_FAILED''))))))"

text \<open>
  \<open>execute_action\<close>: the backend is chosen by the environment; the docker and remote backends
  are arguments.
\<close>

type_synonym executor =
  "action \<Rightarrow> path \<Rightarrow> decision option \<Rightarrow> approval option \<Rightarrow> bool \<Rightarrow> task_scope option
     \<Rightarrow> pystr option \<Rightarrow> receipt tx"

definition execute_action ::
  "environ \<Rightarrow> os_env \<Rightarrow> executor \<Rightarrow> executor \<Rightarrow> executor" where
  "execute_action env xe docker remote a workspace_root dec app with_store scope run_workspace =
     (let backend = get_executor_backend env
      in if backend = ''docker'' then docker a workspace_root dec app with_store scope run_workspace
         else if backend = ''remote'' then remote a workspace_root dec app with_store scope run_workspace
         else execute_local xe a workspace_root dec app with_store scope)"

section \<open>Frame: the database is only read, the disk only written by a write\<close>

interpretation same: store_relation "(=)"
  by unfold_locales auto

lemma same_reads: "keeps (=) (query f)" "keeps (=) (get_run k)" "keeps (=) (get_approval_by_action k)"
  "keeps (=) (get_execution_receipt_by_action k)" "keeps (=) (read_disk g)"
  "keeps (=) (os_check h q)" "keeps (=) (resolve_path p)"
  by (simp_all add: get_run_def get_approval_by_action_def get_execution_receipt_by_action_def
      read_disk_def os_check_def resolve_path_def same.keeps_query same.keeps_other_state)

lemma same_receipt: "keeps (=) (mk_receipt a rid began st result code)"
  unfolding mk_receipt_def by (intro same.keeps_rules)

lemma same_of_sum: "keeps (=) (tx_of_sum r)"
  by (cases r) (simp_all add: tx_of_sum_def same.keeps_rules)

lemma same_targets:
  "keeps (=) (resolve_workspace_target ws p)" "keeps (=) (verify_workspace_containment ws p)"
  "keeps (=) (verify_scoped_target ws res scope req)"
  unfolding resolve_workspace_target_def verify_workspace_containment_def verify_scoped_target_def
    Let_def
  by (intro same.keeps_rules same_reads same_of_sum)+

lemma same_stored: "keeps (=) (verify_stored a dec app ws)"
  unfolding verify_stored_def verify_stored_approval_single_use_def
    verify_stored_run_not_terminal_def
  by (intro same.keeps_rules same_reads)

lemma same_operation: "keeps (=) (exec_operation xe a ws scope rid began)"
proof -
  have node: "keeps (=) (case n of None \<Rightarrow> m1 | Some (Dir_node ns) \<Rightarrow> m2 ns | Some (File_node c k) \<Rightarrow> m3 c k)"
    if "keeps (=) m1" "\<And>ns. keeps (=) (m2 ns)" "\<And>c k. keeps (=) (m3 c k)"
    for n m2 m3 and m1 :: "receipt tx"
    using that by (cases n) (auto split: node.split)
  show ?thesis
    unfolding exec_operation_def exec_list_directory_def exec_read_text_def exec_write_text_def
      exec_delete_path_def Let_def
    by (intro same.keeps_rules same_reads same_targets same_receipt node)
qed

lemma execute_local_db: "keeps (=) (execute_local xe a ws dec app st scope)"
  unfolding execute_local_def Let_def
  by (intro same.keeps_rules same_reads same_receipt same_stored same_operation)

definition disk_same :: "'a tx \<Rightarrow> bool" where
  "disk_same m \<longleftrightarrow> (\<forall>w. w_disk (snd (m w)) = w_disk w)"

lemma disk_sameD: "disk_same m \<Longrightarrow> m w = (r, w') \<Longrightarrow> w_disk w' = w_disk w"
  unfolding disk_same_def by (metis snd_conv)

lemma disk_same_basic:
  "disk_same (tx_return x)" "disk_same (tx_raise e)" "disk_same (query f)" "disk_same uuid4"
  "disk_same utc_now" "disk_same (read_disk g)" "disk_same (resolve_path p)" "disk_same (os_check h p)"
  by (auto simp: disk_same_def uuid4_def utc_now_def read_disk_def os_check_def resolve_path_def disk_op_def
      split: option.splits)

lemma disk_same_bind: "disk_same m \<Longrightarrow> (\<And>x. disk_same (f x)) \<Longrightarrow> disk_same (tx_bind m f)"
  unfolding disk_same_def tx_bind_def by (auto split: prod.splits sum.splits) (metis snd_conv)+

lemma disk_same_catch: "disk_same m \<Longrightarrow> (\<And>e. disk_same (h e)) \<Longrightarrow> disk_same (tx_catch m h)"
  unfolding disk_same_def tx_catch_def by (auto split: prod.splits sum.splits) (metis snd_conv)+

lemma disk_same_option:
  "disk_same m \<Longrightarrow> (\<And>x. disk_same (f x)) \<Longrightarrow> disk_same (case v of None \<Rightarrow> m | Some x \<Rightarrow> f x)"
  by (cases v) simp_all

lemma disk_same_if:
  "(c \<Longrightarrow> disk_same m) \<Longrightarrow> (\<not> c \<Longrightarrow> disk_same n) \<Longrightarrow> disk_same (if c then m else n)"
  by simp

lemma disk_same_of_sum: "disk_same (tx_of_sum r)"
  by (cases r) (simp_all add: tx_of_sum_def disk_same_basic)

lemmas disk_rules = disk_same_of_sum disk_same_basic disk_same_bind disk_same_catch disk_same_option disk_same_if

lemma disk_same_receipt: "disk_same (mk_receipt a rid began st result code)"
  unfolding mk_receipt_def by (intro disk_rules)

lemma disk_same_targets:
  "disk_same (verify_workspace_containment ws p)" "disk_same (verify_scoped_target ws res scope req)"
  unfolding resolve_workspace_target_def verify_workspace_containment_def verify_scoped_target_def
    Let_def
  by (intro disk_rules)+

lemma disk_same_stored: "disk_same (verify_stored a dec app st)"
  unfolding verify_stored_def verify_stored_approval_single_use_def get_run_def
    verify_stored_run_not_terminal_def get_approval_by_action_def
    get_execution_receipt_by_action_def
  by (intro disk_rules)

lemma disk_same_ops:
  "disk_same (exec_list_directory xe a target rid began)"
  "disk_same (exec_read_text xe a target rid began)"
  "disk_same (exec_delete_path a rid began)"
proof -
  have node: "disk_same (case n of None \<Rightarrow> m1 | Some (Dir_node ns) \<Rightarrow> m2 ns | Some (File_node c k) \<Rightarrow> m3 c k)"
    if "disk_same m1" "\<And>ns. disk_same (m2 ns)" "\<And>c k. disk_same (m3 c k)"
    for n m2 m3 and m1 :: "receipt tx"
    using that by (cases n) (auto split: node.split)
  show "disk_same (exec_list_directory xe a target rid began)"
    "disk_same (exec_read_text xe a target rid began)" "disk_same (exec_delete_path a rid began)"
    unfolding exec_list_directory_def exec_read_text_def exec_delete_path_def Let_def
    by (intro disk_rules disk_same_receipt node)+
qed

section \<open>What a scoped target is\<close>

definition write_target_ok ::
  "fsview \<Rightarrow> path \<Rightarrow> task_scope \<Rightarrow> pystr \<Rightarrow> path \<Rightarrow> bool" where
  "write_target_ok v ws sc res target \<longleftrightarrow>
     (\<exists>root canonical. os_resolve v ws = Some root \<and> target = root @ canonical
        \<and> os_resolve v (root @ normalize_relative_segments res) = Some target
        \<and> (\<forall>p \<in> {normalize_relative_segments res, canonical}.
             (\<exists>al \<in> set (allowed_paths sc). named_below v root al p)
             \<and> (\<forall>b \<in> set (blocked_paths sc). clears_blocked v root b p)))"

lemma resolve_path_Inr:
  "resolve_path p w = (Inr q, w') \<longleftrightarrow> os_resolve (dk_view (w_disk w)) p = Some q \<and> w' = w"
  by (auto simp: resolve_path_def disk_op_def split: option.splits)

lemma resolve_path_run:
  "resolve_path p w =
     (case os_resolve (dk_view (w_disk w)) p of
        None \<Rightarrow> (Inl (Py_error (dk_resolve_exc (w_disk w)) []), w) | Some q \<Rightarrow> (Inr q, w))"
  by (simp add: resolve_path_def disk_op_def split: option.split)

lemma read_disk_run [simp]: "read_disk f w = (Inr (f (w_disk w)), w)"
  by (simp add: read_disk_def disk_op_def)

lemma verify_containment_Inr:
  "verify_workspace_containment ws p w = (Inr t, w') \<Longrightarrow>
     os_resolve (dk_view (w_disk w)) p = Some t \<and> w' = w"
  by (auto simp: verify_workspace_containment_def tx_catch_def resolve_workspace_target_def
      tx_bind_Inr resolve_path_Inr split: prod.splits sum.splits option.splits if_splits)

lemma tx_of_sum_Inr [simp]: "tx_of_sum r w = (Inr x, w') \<longleftrightarrow> r = Inr x \<and> w' = w"
  by (cases r) (auto simp: tx_of_sum_def)

lemma scoped_target_check_Inr:
  assumes "scoped_target_check v root requested target (Some sc) True = Inr t"
  shows "t = target \<and> (\<exists>canonical. target = root @ canonical
       \<and> scoped_path_denial v requested canonical (allowed_paths sc) (blocked_paths sc)
           (case_probe v root) (Some root) = None)"
  using assms
  by (cases "relative_to target root")
     (auto simp: scoped_target_check_def relative_to_Some scoped_reason_None
       simp del: not_None_eq reason_rooted split: if_splits)

lemma verify_scoped_target_Inr:
  assumes "verify_scoped_target ws res (Some sc) True w = (Inr t, w')"
  shows "write_target_ok (dk_view (w_disk w)) ws sc res t \<and> w' = w"
proof -
  let ?v = "dk_view (w_disk w)" and ?req = "normalize_relative_segments res"
  from assms obtain root t0 w1 where root: "os_resolve ?v ws = Some root"
    and con: "verify_workspace_containment root (root @ ?req) w = (Inr t0, w1)"
    and chk: "scoped_target_check (dk_view (w_disk w1)) root ?req t0 (Some sc) True = Inr t"
    and same: "w' = w1"
    by (auto simp: verify_scoped_target_def Let_def tx_bind_Inr resolve_path_Inr)
  from verify_containment_Inr[OF con] have t0: "os_resolve ?v (root @ ?req) = Some t0" "w1 = w"
    by auto
  with scoped_target_check_Inr[OF chk] obtain canonical where t: "t = t0" "t0 = root @ canonical"
    and den: "scoped_path_denial ?v ?req canonical (allowed_paths sc) (blocked_paths sc)
         (case_probe ?v root) (Some root) = None"
    by auto
  from root t t0 same scope_clear[OF den] show ?thesis unfolding write_target_ok_def by blast
qed

text \<open>The disk a write may leave: unchanged, after the parent's creation, or after the write.\<close>

definition write_disks :: "os_env \<Rightarrow> path \<Rightarrow> pystr \<Rightarrow> disk \<Rightarrow> disk set" where
  "write_disks xe target content d =
     {d, snd (os_mkdirs xe (butlast target) d),
      snd (os_write_text xe target content (snd (os_mkdirs xe (butlast target) d)))}"

lemma disk_op_run: "disk_op f w = (fst (f (w_disk w)), w\<lparr>w_disk := snd (f (w_disk w))\<rparr>)"
  by (simp add: disk_op_def split_beta)

lemma exec_write_disk:
  assumes "exec_write_text xe a ws target rid began w = (res, w')"
  shows "w_disk w' = w_disk w
       \<or> utf8_length (content_argument xe a) \<le> MAX_WRITE_BYTES
         \<and> w_disk w' \<in> write_disks xe target (content_argument xe a) (w_disk w)"
proof (cases "MAX_WRITE_BYTES < utf8_length (content_argument xe a)")
  case True
  with assms show ?thesis
    by (auto simp: exec_write_text_def Let_def dest: disk_sameD[OF disk_same_receipt])
next
  case False
  then show ?thesis
    using assms
    by (auto simp: exec_write_text_def Let_def tx_bind_def disk_op_run write_disks_def
        split: prod.splits sum.splits if_splits
        dest!: disk_sameD[OF disk_same_receipt] disk_sameD[OF disk_same_targets(1)])
qed

lemma exec_operation_disk:
  assumes "exec_operation xe a ws (Some sc) rid began w = (res, w')"
  shows "w_disk w' = w_disk w
       \<or> operation a = ''write_text'' \<and> utf8_length (content_argument xe a) \<le> MAX_WRITE_BYTES
         \<and> (\<exists>target. write_target_ok (dk_view (w_disk w)) ws sc (resource a) target
              \<and> w_disk w' \<in> write_disks xe target (content_argument xe a) (w_disk w))"
proof -
  obtain r w1 where tgt: "verify_scoped_target ws (resource a) (Some sc) True w = (r, w1)"
    by fastforce
  from disk_sameD[OF disk_same_targets(2) tgt] have d1: "w_disk w1 = w_disk w" .
  show ?thesis
  proof (cases r)
    case (Inl e)
    with assms tgt d1 show ?thesis by (simp add: exec_operation_def tx_bind_def)
  next
    case (Inr target)
    with tgt verify_scoped_target_Inr have ok:
      "write_target_ok (dk_view (w_disk w)) ws sc (resource a) target" "w1 = w" by blast+
    show ?thesis
    proof (cases "operation a = ''write_text''")
      case True
      with assms tgt Inr ok have "exec_write_text xe a ws target rid began w = (res, w')"
        by (simp add: exec_operation_def tx_bind_def)
      from exec_write_disk[OF this] True ok show ?thesis by blast
    next
      case False
      have "w_disk w' = w_disk w"
        using assms tgt Inr ok(2) False
        by (auto simp: exec_operation_def tx_bind_def split: if_splits
            dest: disk_sameD[OF disk_same_ops(1)] disk_sameD[OF disk_same_ops(2)]
              disk_sameD[OF disk_same_ops(3)])
      then show ?thesis by simp
    qed
  qed
qed

section \<open>Dispatch\<close>

text \<open>
  What the run and approval records must say for the local backend to go past its checks.
\<close>

definition dispatch_authorised ::
  "store \<Rightarrow> action \<Rightarrow> decision \<Rightarrow> approval option \<Rightarrow> bool" where
  "dispatch_authorised s a d app \<longleftrightarrow>
     (\<exists>rn. find_run (act_run_id a) s = Some rn \<and> run_st rn \<noteq> RS_COMPLETED \<and> run_st rn \<noteq> RS_FAILED)
     \<and> (outcome d = PO_ALLOW
        \<or> outcome d = PO_HOLD
          \<and> (\<exists>p sp. app = Some p \<and> app_status p = AS_APPROVED \<and> app_action_id p = act_id a
               \<and> sp \<in> set (approvals_t s) \<and> app_id sp = app_id p \<and> app_action_id sp = act_id a
               \<and> app_status sp = AS_APPROVED)
          \<and> (\<forall>x \<in> set (receipts_t s). rec_action_id x \<noteq> act_id a))"

lemma newest_first_set [simp]: "set (newest_first ps) = set ps"
  by (simp add: newest_first_def)

lemma approval_from_row_keys [simp]:
  "app_id (approval_from_row s p) = app_id p" "app_status (approval_from_row s p) = app_status p"
  "app_action_id (approval_from_row s p) = app_action_id p"
  "app_run_id (approval_from_row s p) = app_run_id p"
  "app_decision_id (approval_from_row s p) = app_decision_id p"
  "expires_at (approval_from_row s p) = expires_at p"
  by (simp_all add: approval_from_row_def Let_def)

lemma newest_approval_member:
  assumes "(case newest_first (filter (\<lambda>p. app_action_id p = k) ps) of
              [] \<Rightarrow> None | p # _ \<Rightarrow> Some (approval_from_row s p)) = Some sp"
  shows "\<exists>p \<in> set ps. app_action_id p = k \<and> sp = approval_from_row s p"
proof (cases "newest_first (filter (\<lambda>p. app_action_id p = k) ps)")
  case (Cons p rest)
  have "p \<in> set (filter (\<lambda>p. app_action_id p = k) ps)"
    by (metis Cons list.set_intros(1) newest_first_set)
  then show ?thesis using assms Cons by auto
qed (use assms in simp)

lemma run_not_terminal_Inr:
  "verify_stored_run_not_terminal a w = (Inr u, w') \<Longrightarrow>
     w' = w \<and> (\<exists>rn. find_run (act_run_id a) (db w) = Some rn
                 \<and> run_st rn \<noteq> RS_COMPLETED \<and> run_st rn \<noteq> RS_FAILED)"
  by (auto simp: verify_stored_run_not_terminal_def get_run_def tx_bind_Inr
      split: option.splits if_splits)

lemma approval_single_use_Inr:
  assumes "verify_stored_approval_single_use a app w = (Inr u, w')"
  shows "w' = w \<and> (\<exists>rn. find_run (act_run_id a) (db w) = Some rn
                 \<and> run_st rn \<noteq> RS_COMPLETED \<and> run_st rn \<noteq> RS_FAILED)
       \<and> (\<exists>p sp. app = Some p \<and> sp \<in> set (approvals_t (db w)) \<and> app_id sp = app_id p
            \<and> app_action_id sp = act_id a \<and> app_status sp = AS_APPROVED)
       \<and> (\<forall>x \<in> set (receipts_t (db w)). rec_action_id x \<noteq> act_id a)"
proof -
  from assms obtain w1 sp where run: "verify_stored_run_not_terminal a w = (Inr (), w1)"
    and app: "get_approval_by_action (act_id a) w1 = (Inr (Some sp), w1)"
    and chk: "app \<noteq> None" "app_id sp = app_id (the app)" "app_status sp = AS_APPROVED"
    and rec: "get_execution_receipt_by_action (act_id a) w1 = (Inr None, w')"
    by (auto simp: verify_stored_approval_single_use_def tx_bind_Inr get_approval_by_action_def
        get_execution_receipt_by_action_def split: option.splits if_splits)
  from run_not_terminal_Inr[OF run] have w1: "w1 = w" by simp
  from app w1 obtain p where p: "p \<in> set (approvals_t (db w))" "app_action_id p = act_id a"
    "sp = approval_from_row (db w) p"
    unfolding get_approval_by_action_def using newest_approval_member by fastforce
  have "w' = w" using rec w1 by (simp add: get_execution_receipt_by_action_def)
  moreover have "\<forall>x \<in> set (receipts_t (db w)). rec_action_id x \<noteq> act_id a"
    using rec w1 by (simp add: get_execution_receipt_by_action_def find_None_iff)
  moreover have "\<exists>p' sp. app = Some p' \<and> sp \<in> set (approvals_t (db w)) \<and> app_id sp = app_id p'
      \<and> app_action_id sp = act_id a \<and> app_status sp = AS_APPROVED"
    using chk p by auto
  ultimately show ?thesis using run_not_terminal_Inr[OF run] by blast
qed

text \<open>Past the gate and the stored checks, or a result that touched nothing.\<close>

lemma gate_proceeds_cases:
  assumes "proceed (authorize_dispatch (action_obj a) (decision_obj (Some d)) (approval_obj app))"
  shows "outcome d = PO_ALLOW
       \<or> outcome d = PO_HOLD \<and> (\<exists>p. app = Some p \<and> app_status p = AS_APPROVED
                                     \<and> app_action_id p = act_id a)"
  using gate.proceed_outcome[OF assms] by (cases app) (auto simp: holds_approved_def)

lemma execute_local_cases:
  assumes "execute_local xe a ws (Some d) app True scope w = (res, w')"
  shows "(w_disk w' = w_disk w
            \<and> (case res of Inl e \<Rightarrow> True | Inr r \<Rightarrow> rec_status r = XS_NOT_EXECUTED))
       \<or> (dispatch_authorised (db w) a d app \<and> operation a \<noteq> ''run_command''
          \<and> operation a \<noteq> ''network_request''
          \<and> (\<exists>rid began w1 root. w_disk w1 = w_disk w \<and> os_resolve (dk_view (w_disk w)) ws = Some root
               \<and> tx_catch (exec_operation xe a root scope rid began)
                    (\<lambda>e. mk_receipt a rid began XS_FAILED
                           [(''error'', JStr (sanitized_message e))] (Some ''EXECUTION_FAILED'')) w1
                  = (res, w')))"
proof -
  let ?dv = "authorize_dispatch (action_obj a) (decision_obj (Some d)) (approval_obj app)"
  define rid where "rid = uuid_src w (uuid_count w)"
  define began where "began = clock_src w (clock_count w)"
  define w1 where "w1 = w\<lparr>uuid_count := Suc (uuid_count w), clock_count := Suc (clock_count w)\<rparr>"
  have w1: "w_disk w1 = w_disk w" "db w1 = db w" by (simp_all add: w1_def)
  have run: "(res, w') =
     (if dv_kind ?dv = VK_DENY then
        mk_receipt a rid began XS_NOT_EXECUTED
          [(''reason'', JStr ''Policy outcome was DENY; execution blocked.'')]
          (Some (reason_code_value (reason_code d)))
      else if \<not> proceed ?dv then tx_raise (security_error (dv_reason ?dv) (verdict_code_value (dv_code ?dv)))
      else tx_bind (verify_stored a (Some d) app True) (\<lambda>_.
        if operation a = ''run_command'' then
          tx_raise (security_error
            ''run_command requires the Docker executor (SCOPEWATCH_EXECUTOR=docker).''
            ''UNSUPPORTED_OPERATION'')
        else
          tx_bind (resolve_path ws) (\<lambda>root.
            tx_catch (exec_operation xe a root scope rid began)
              (\<lambda>e. mk_receipt a rid began XS_FAILED
                     [(''error'', JStr (sanitized_message e))] (Some ''EXECUTION_FAILED''))))) w1"
    using assms
    by (simp add: execute_local_def tx_bind_def uuid4_def utc_now_def Let_def rid_def began_def
        w1_def cong: if_cong)
  consider (deny) "dv_kind ?dv = VK_DENY" | (refuse) "dv_kind ?dv \<noteq> VK_DENY" "\<not> proceed ?dv"
    | (go) "proceed ?dv" "dv_kind ?dv \<noteq> VK_DENY"
    by (auto simp: proceed_def)
  then show ?thesis
  proof cases
    case deny
    then show ?thesis
      using run w1 by (auto simp: mk_receipt_def tx_bind_def utc_now_def)
  next
    case refuse
    then show ?thesis using run w1 by auto
  next
    case go
    have net: "operation a \<noteq> ''network_request''" using gate.proceed_not_network[OF go(1)] by simp
    obtain vr w2 where vs: "verify_stored a (Some d) app True w1 = (vr, w2)" by fastforce
    have w2: "w_disk w2 = w_disk w" using disk_sameD[OF disk_same_stored vs] w1 by simp
    show ?thesis
    proof (cases vr)
      case (Inl e)
      then show ?thesis using run go vs w2 by (auto simp: tx_bind_def)
    next
      case (Inr u)
      have auth: "dispatch_authorised (db w) a d app"
        using vs Inr gate_proceeds_cases[OF go(1)] w1
        by (cases "outcome d")
           (auto simp: verify_stored_def dispatch_authorised_def
             dest!: approval_single_use_Inr run_not_terminal_Inr)
      show ?thesis
        using run go vs Inr w2 auth net
        by (cases "operation a = ''run_command''"; cases "os_resolve (dk_view (w_disk w)) ws")
           (auto simp: tx_bind_def resolve_path_run)
    qed
  qed
qed

lemma catch_receipt_disk:
  assumes "tx_catch (exec_operation xe a root (Some sc) rid began)
     (\<lambda>e. mk_receipt a rid began XS_FAILED [(''error'', JStr (sanitized_message e))] code) w = (res, w')"
  shows "\<exists>r0 w0. exec_operation xe a root (Some sc) rid began w = (r0, w0) \<and> w_disk w' = w_disk w0"
  using assms
  by (cases "exec_operation xe a root (Some sc) rid began w"; cases "fst (exec_operation xe a root (Some sc) rid began w)")
     (auto simp: tx_catch_def dest: disk_sameD[OF disk_same_receipt])

section \<open>The interface of an executor backend\<close>

text \<open>
  What the service layer relies on when it hands an action to a backend with its store: the
  backend only reads the database, what it returns is a receipt for this action, a denied
  decision never runs, and an action runs only when the stored run and approval authorise it.
\<close>

locale executor_backend =
  fixes backend :: executor
  assumes db_frame: "keeps (=) (backend a ws dec app st scope key)"
    and receipt_for: "backend a ws dec app st scope key w = (Inr r, w') \<Longrightarrow> rec_action_id r = act_id a"
    and deny_not_run: "backend a ws (Some d) app st scope key w = (Inr r, w') \<Longrightarrow>
      outcome d = PO_DENY \<Longrightarrow> rec_status r = XS_NOT_EXECUTED"
    and run_authorised: "backend a ws (Some d) app True scope key w = (Inr r, w') \<Longrightarrow>
      rec_status r \<noteq> XS_NOT_EXECUTED \<Longrightarrow> dispatch_authorised (db w) a d app"
begin

lemma held_run_has_stored_approval:
  assumes "backend a ws (Some d) app True scope key w = (Inr r, w')"
    and "rec_status r \<noteq> XS_NOT_EXECUTED" and "outcome d = PO_HOLD"
  shows "\<exists>p sp. app = Some p \<and> sp \<in> set (approvals_t (db w)) \<and> app_id sp = app_id p
       \<and> app_action_id sp = act_id a \<and> app_status sp = AS_APPROVED"
  using run_authorised[OF assms(1,2)] assms(3) by (auto simp: dispatch_authorised_def)

lemma terminal_run_never_runs:
  assumes "backend a ws (Some d) app True scope key w = (Inr r, w')"
    and "find_run (act_run_id a) (db w) = Some rn" and "run_st rn = RS_COMPLETED \<or> run_st rn = RS_FAILED"
  shows "rec_status r = XS_NOT_EXECUTED"
  using run_authorised[OF assms(1)] assms(2,3) by (auto simp: dispatch_authorised_def)

lemma executed_action_never_reruns_held:
  assumes "backend a ws (Some d) app True scope key w = (Inr r, w')"
    and "x \<in> set (receipts_t (db w))" "rec_action_id x = act_id a" "outcome d = PO_HOLD"
  shows "rec_status r = XS_NOT_EXECUTED"
  using run_authorised[OF assms(1)] assms(2-4) by (auto simp: dispatch_authorised_def)

end

lemma mk_receipt_Inr:
  "mk_receipt a rid began st result code w = (Inr r, w') \<Longrightarrow>
     rec_action_id r = act_id a \<and> rec_status r = st \<and> rec_error_code r = code"
  by (auto simp: mk_receipt_def tx_bind_Inr)

definition for_action :: "action \<Rightarrow> receipt tx \<Rightarrow> bool" where
  "for_action a m \<longleftrightarrow> (\<forall>w r w'. m w = (Inr r, w') \<longrightarrow> rec_action_id r = act_id a)"

lemma for_action_rules:
  "for_action a (mk_receipt a rid began st result code)" "for_action a (tx_raise e)"
  "(\<And>x. for_action a (f x)) \<Longrightarrow> for_action a (tx_bind m f)"
  "for_action a n \<Longrightarrow> (\<And>e. for_action a (h e)) \<Longrightarrow> for_action a (tx_catch n h)"
  "(c \<Longrightarrow> for_action a n) \<Longrightarrow> (\<not> c \<Longrightarrow> for_action a k) \<Longrightarrow> for_action a (if c then n else k)"
  by (auto simp: for_action_def tx_bind_Inr tx_catch_def mk_receipt_Inr
      split: prod.splits sum.splits)

lemma execute_local_for_action: "for_action a (execute_local xe a ws dec app st scope)"
proof -
  have node: "for_action a (case n of None \<Rightarrow> m1 | Some (Dir_node ns) \<Rightarrow> m2 ns | Some (File_node c k) \<Rightarrow> m3 c k)"
    if "for_action a m1" "\<And>ns. for_action a (m2 ns)" "\<And>c k. for_action a (m3 c k)" for n m1 m2 m3
    using that by (cases n) (auto split: node.split)
  show ?thesis
    unfolding execute_local_def exec_operation_def exec_list_directory_def exec_read_text_def
      exec_write_text_def exec_delete_path_def Let_def
    by (intro for_action_rules node)
qed

lemma execute_local_deny:
  assumes "execute_local xe a ws (Some d) app st scope w = (res, w')" and "outcome d = PO_DENY"
  shows "w_disk w' = w_disk w \<and> (\<exists>r. res = Inr r \<and> rec_status r = XS_NOT_EXECUTED)"
proof -
  have "dv_kind (authorize_dispatch (action_obj a) (decision_obj (Some d)) (approval_obj app)) = VK_DENY"
    using gate.deny_kind assms(2) by simp
  with assms(1) show ?thesis
    by (auto simp: execute_local_def tx_bind_def uuid4_def utc_now_def mk_receipt_def)
qed

interpretation local_backend: executor_backend "\<lambda>a ws dec app st scope key. execute_local xe a ws dec app st scope"
  for xe
proof
  fix a ws d app st scope key w r w'
  show "keeps (=) (execute_local xe a ws dec app st scope)" for dec by (rule execute_local_db)
  show "execute_local xe a ws dec app st scope w = (Inr r, w') \<Longrightarrow> rec_action_id r = act_id a" for dec
    using execute_local_for_action unfolding for_action_def by blast
  show "execute_local xe a ws (Some d) app st scope w = (Inr r, w') \<Longrightarrow> outcome d = PO_DENY \<Longrightarrow>
      rec_status r = XS_NOT_EXECUTED"
    using execute_local_deny by blast
  show "execute_local xe a ws (Some d) app True scope w = (Inr r, w') \<Longrightarrow>
      rec_status r \<noteq> XS_NOT_EXECUTED \<Longrightarrow> dispatch_authorised (db w) a d app"
    using execute_local_cases by fastforce
qed

section \<open>Properties\<close>

text \<open>
  C18: the local backend runs nothing unauthorised. When it is handed the store, an action that
  got as far as an executed or failed receipt had an allowed decision, or a held one whose
  presented approval is approved, is bound to this action, and matches a stored approval that is
  still APPROVED with no receipt for the action yet; its stored run existed and was not terminal;
  and it was neither a network request nor a command.
\<close>

theorem local_execution_authorised:
  assumes "execute_local xe a ws (Some d) app True scope w = (Inr r, w')"
    and "rec_status r \<noteq> XS_NOT_EXECUTED"
  shows "dispatch_authorised (db w) a d app \<and> outcome d \<noteq> PO_DENY
       \<and> operation a \<noteq> ''network_request'' \<and> operation a \<noteq> ''run_command''"
  using execute_local_cases[OF assms(1)] assms(2) by (auto simp: dispatch_authorised_def)

definition demo_os :: os_env where
  "demo_os =
     \<lparr>os_mkdirs = (\<lambda>p d. (Inr (), d)),
      os_write_text = (\<lambda>p s d. (Inr (), d\<lparr>dk_node := (dk_node d)(p \<mapsto> File_node s (utf8_length s))\<rparr>)),
      os_probe = (\<lambda>p d. None), os_open = (\<lambda>p d. None), float_repr = (\<lambda>m e. ''0.0'')\<rparr>"

definition demo_disk :: disk where
  "demo_disk =
     \<lparr>dk_view = quiet_view, dk_resolve_exc = ''OSError'',
      dk_node = [[''ws'', ''invoices'', ''approved'', ''a.txt''] \<mapsto> File_node ''total: 12'' 9]\<rparr>"

definition demo_store :: store where
  "demo_store = empty_store\<lparr>runs_t := [demo_run]\<rparr>"

definition demo_world :: "store \<Rightarrow> world" where
  "demo_world s =
     \<lparr>db = s, uuid_src = (\<lambda>n. ''id'' @ show_nat n), uuid_count = 0, clock_src = int,
      clock_count = 0, published = [], w_ledger = new_ledger False None 0,
      w_guards = new_guards 0, w_pending = 0, w_disk = demo_disk\<rparr>"

definition demo_decision :: "policy_outcome \<Rightarrow> action \<Rightarrow> decision" where
  "demo_decision oc a =
     \<lparr>dec_id = ''d1'', dec_action_id = act_id a, outcome = oc,
      reason_code = RC_ALLOWED_TOOL_AND_RESOURCE, explanation = [], matched_rule = [],
      decided_at = 0, deterministic = True, dec_audit_id = None, policy_version = Some ''v''\<rparr>"

definition demo_read :: "(exc + receipt) \<times> world" where
  "demo_read =
     (let a = demo_action ''read_text'' ''invoices/approved/a.txt'' []
      in execute_local demo_os a [''ws''] (Some (demo_decision PO_ALLOW a)) None True
           (Some demo_scope) (demo_world demo_store))"

theorem local_execution_authorised_witness:
  "case fst demo_read of Inl e \<Rightarrow> False
   | Inr r \<Rightarrow> rec_status r = XS_EXECUTED
       \<and> dispatch_authorised demo_store (demo_action ''read_text'' ''invoices/approved/a.txt'' [])
           (demo_decision PO_ALLOW (demo_action ''read_text'' ''invoices/approved/a.txt'' [])) None"
proof -
  have ex: "case fst demo_read of Inl e \<Rightarrow> False | Inr r \<Rightarrow> rec_status r = XS_EXECUTED"
    by code_simp
  then obtain r where r: "fst demo_read = Inr r" "rec_status r = XS_EXECUTED"
    by (auto split: sum.splits)
  then have "demo_read = (Inr r, snd demo_read)" by (metis prod.collapse)
  from local_execution_authorised[OF this[unfolded demo_read_def Let_def]] r show ?thesis
    by (simp add: demo_world_def)
qed

lemma local_effects:
  assumes run: "execute_local xe a ws (Some d) app True (Some sc) w = (res, w')"
  shows "db w' = db w
       \<and> (w_disk w' = w_disk w
          \<or> operation a = ''write_text'' \<and> dispatch_authorised (db w) a d app
            \<and> utf8_length (content_argument xe a) \<le> MAX_WRITE_BYTES
            \<and> (\<exists>root target. os_resolve (dk_view (w_disk w)) ws = Some root
                 \<and> write_target_ok (dk_view (w_disk w)) root sc (resource a) target
                 \<and> w_disk w' \<in> write_disks xe target (content_argument xe a) (w_disk w)))"
proof -
  have "db w' = db w" using keepsD[OF execute_local_db run] by simp
  moreover from execute_local_cases[OF run]
  have "w_disk w' = w_disk w
     \<or> operation a = ''write_text'' \<and> dispatch_authorised (db w) a d app
       \<and> utf8_length (content_argument xe a) \<le> MAX_WRITE_BYTES
       \<and> (\<exists>root target. os_resolve (dk_view (w_disk w)) ws = Some root
            \<and> write_target_ok (dk_view (w_disk w)) root sc (resource a) target
            \<and> w_disk w' \<in> write_disks xe target (content_argument xe a) (w_disk w))"
  proof (elim disjE conjE exE)
    fix rid began w1 root
    assume auth: "dispatch_authorised (db w) a d app" and d1: "w_disk w1 = w_disk w"
      and root: "os_resolve (dk_view (w_disk w)) ws = Some root"
      and call: "tx_catch (exec_operation xe a root (Some sc) rid began)
          (\<lambda>e. mk_receipt a rid began XS_FAILED [(''error'', JStr (sanitized_message e))]
                 (Some ''EXECUTION_FAILED'')) w1 = (res, w')"
    from catch_receipt_disk[OF call] obtain r0 w0 where
      "exec_operation xe a root (Some sc) rid began w1 = (r0, w0)" "w_disk w' = w_disk w0" by blast
    with exec_operation_disk[of xe a root sc rid began w1 r0 w0] auth d1 root show ?thesis by auto
  qed simp
  ultimately show ?thesis by blast
qed

text \<open>
  C17: effects of the local backend stay in scope. Whatever it returns or raises, the database is
  unchanged; and the disk is unchanged unless the action is an authorised \<open>write_text\<close> within
  the size limit, in which case the only file-system calls were the creation of the target's
  parent and the write of the target, at a resolved path that neither the requested nor the
  canonical name puts in a blocked prefix (or at a blocked file) and that both put under an allowed one,
  up to case only where the volume is confirmed to ignore it.
\<close>

theorem local_effects_confined:
  assumes "execute_local xe a ws (Some d) app True (Some sc) w = (res, w')"
  shows "db w' = db w
       \<and> (w_disk w' = w_disk w
          \<or> operation a = ''write_text'' \<and> dispatch_authorised (db w) a d app
            \<and> utf8_length (content_argument xe a) \<le> MAX_WRITE_BYTES
            \<and> (\<exists>root target. os_resolve (dk_view (w_disk w)) ws = Some root
                 \<and> write_target_ok (dk_view (w_disk w)) root sc (resource a) target
                 \<and> w_disk w' \<in> write_disks xe target (content_argument xe a) (w_disk w)))"
  using assms by (rule local_effects)

definition demo_approval :: "approval_status \<Rightarrow> approval" where
  "demo_approval st =
     \<lparr>app_id = ''p1'', app_run_id = ''r1'', app_action_id = ''a1'', app_decision_id = ''d1'',
      app_status = st, app_requested_at = 0, expires_at = Stamp 300000000, resolved_at = None,
      resolved_by = None, resolution_reason = None, token_version = 1, app_operation = None,
      app_resource = None, app_tool = None, app_policy_version = None\<rparr>"

definition demo_write_action :: action where
  "demo_write_action = demo_action ''write_text'' ''outputs/a.txt'' [(''content'', JStr ''hi'')]"

definition held_store :: "approval_status \<Rightarrow> store" where
  "held_store st =
     demo_store\<lparr>actions_t := [demo_write_action],
                decisions_t := [demo_decision PO_HOLD demo_write_action],
                approvals_t := [demo_approval st]\<rparr>"

definition demo_write :: "(exc + receipt) \<times> world" where
  "demo_write =
     execute_local demo_os demo_write_action [''ws''] (Some (demo_decision PO_HOLD demo_write_action))
       (Some (demo_approval AS_APPROVED)) True (Some demo_scope) (demo_world (held_store AS_APPROVED))"

theorem local_effects_confined_witness:
  "dispatch_authorised (held_store AS_APPROVED) demo_write_action
     (demo_decision PO_HOLD demo_write_action) (Some (demo_approval AS_APPROVED))
   \<and> (\<exists>target. write_target_ok quiet_view [''ws''] demo_scope ''outputs/a.txt'' target)"
proof -
  have old: "dk_node demo_disk [''ws'', ''outputs'', ''a.txt''] = None" by (simp add: demo_disk_def)
  have new: "dk_node (w_disk (snd demo_write)) [''ws'', ''outputs'', ''a.txt''] \<noteq> None" by code_simp
  have w: "w_disk (demo_world (held_store AS_APPROVED)) = demo_disk" by (simp add: demo_world_def)
  have diff: "w_disk (snd demo_write) \<noteq> demo_disk" using old new by metis
  have vals: "resource demo_write_action = ''outputs/a.txt''" "dk_view demo_disk = quiet_view"
    "os_resolve quiet_view [''ws''] = Some [''ws'']"
    by (simp_all add: demo_write_action_def demo_action_def demo_disk_def quiet_view_def)
  have "execute_local demo_os demo_write_action [''ws'']
      (Some (demo_decision PO_HOLD demo_write_action)) (Some (demo_approval AS_APPROVED)) True
      (Some demo_scope) (demo_world (held_store AS_APPROVED)) = (fst demo_write, snd demo_write)"
    by (simp add: demo_write_def)
  from local_effects_confined[OF this] diff vals
  show ?thesis unfolding w by (auto simp: demo_world_def)
qed

end
