(* ===== verification/Service.thy ===== *)
theory Service
  imports Executor TieredAudit Provenance
begin

text \<open>
  \<open>backend/scopewatch/service.py\<close>, the parts the request handlers share: the service object
  with its collaborators (\<open>gateway\<close>), the reasoning requirement, the evidence projections, and
  the request builder. Collaborators modelled elsewhere or outside the repository are fields: the
  run-workspace manager (its effect is on the disk only), the reasoning auditor (its effect is on
  the token ledger only; \<open>_run_reasoning_audit\<close> never raises), the executor, SHA-256,
  \<open>json.dumps\<close> and \<open>isoformat\<close>.
\<close>

record gateway =
  gw_env :: environ
  gw_sha256 :: "pystr \<Rightarrow> pystr"
  gw_dumps :: "json \<Rightarrow> pystr"
  gw_iso :: "instant \<Rightarrow> pystr"
  gw_python :: pystr
  gw_capture_token :: "pystr option"
  gw_guards :: guard_config
  gw_expiry_us :: int
  gw_resolve_workspace :: "pystr \<Rightarrow> pystr option \<Rightarrow> disk \<Rightarrow> (exc + path) \<times> disk"
  gw_initialize_workspace :: "pystr \<Rightarrow> disk \<Rightarrow> (exc + path) \<times> disk"
  gw_workspace_key :: "pystr \<Rightarrow> pystr"
  gw_audit :: "run \<Rightarrow> action \<Rightarrow> pystr \<Rightarrow> pystr \<Rightarrow> action list \<Rightarrow> ledger \<Rightarrow> audit_result \<times> ledger"
  gw_execute :: executor

definition current_policy_version :: "gateway \<Rightarrow> pystr" where
  "current_policy_version g = get_policy_version (gw_sha256 g) (gw_dumps g)"

definition DEMO_REVIEWER_ID :: pystr where
  "DEMO_REVIEWER_ID = ''demo-reviewer (synthetic)''"

definition path_text :: "path \<Rightarrow> pystr" where
  "path_text p = ''/'' @ join ''/'' p"

definition tx_try :: "'a tx \<Rightarrow> (exc + 'a) tx" where
  "tx_try m w = (case m w of (r, w') \<Rightarrow> (Inr r, w'))"

definition refuse_token_budget :: "pystr \<Rightarrow> int \<Rightarrow> int \<Rightarrow> instant \<Rightarrow> exc" where
  "refuse_token_budget profile used budget now =
     Guard_refusal 429 ''token_budget_exhausted''
       (''Daily token budget exhausted for profile '' @ quoted profile @ '' ('' @ show_int used
        @ ''/'' @ show_int budget @ '' tokens used). No new agent runs until UTC ''
        @ ''midnight (the UTC day rolls over '' @ format_rollover (us_until_utc_midnight now)
        @ ''). Scripted (mock) scenarios are unaffected.'') 0"

section \<open>Reasoning requirement\<close>

definition REASONING_AUDIT_OFF_VALUES :: "pystr list" where
  "REASONING_AUDIT_OFF_VALUES = [''off'', ''false'', ''0'']"

definition reasoning_audit_enabled_from_env :: "pystr option \<Rightarrow> bool" where
  "reasoning_audit_enabled_from_env raw =
     (case raw of None \<Rightarrow> True
      | Some s \<Rightarrow> if lower (strip s) \<in> set REASONING_AUDIT_OFF_VALUES then False else True)"

definition reasoning_evidence :: "action \<Rightarrow> pystr" where
  "reasoning_evidence a =
     (let t = strip (or_empty (exposed_trace a))
      in if t \<noteq> [] then t else strip (or_empty (reasoning_summary a)))"

definition reasoning_missing :: "action \<Rightarrow> run \<Rightarrow> bool \<Rightarrow> pystr option" where
  "reasoning_missing a r audit_enabled =
     (if operation a \<in> set (require_reasoning_for (run_scope r)) then
        (if \<not> audit_enabled then Some ''audit_disabled''
         else if reasoning_evidence a = [] then Some ''missing_text'' else None)
      else None)"

definition required_reasoning_decision ::
  "action \<Rightarrow> run \<Rightarrow> decision \<Rightarrow> bool \<Rightarrow> (decision \<times> pystr option) tx" where
  "required_reasoning_decision a r d audit_enabled =
     (let missing = reasoning_missing a r audit_enabled
      in if outcome d \<noteq> PO_ALLOW \<or> missing = None then tx_return (d, missing)
         else
           tx_bind uuid4 (\<lambda>i.
           tx_bind utc_now (\<lambda>now.
             tx_return
               (\<lparr>dec_id = i, dec_action_id = act_id a, outcome = PO_HOLD,
                 reason_code = RC_REASONING_UNAVAILABLE,
                 explanation = ''This scope requires reasoning review for this operation; ''
                   @ (if missing = Some ''audit_disabled'' then ''the auditor is disabled.''
                      else ''no nonempty reasoning trace or summary was supplied.''),
                 matched_rule = ''RULE_REQUIRED_REASONING_UNAVAILABLE'', decided_at = now,
                 deterministic = True, dec_audit_id = None, policy_version = policy_version d\<rparr>,
                missing))))"

section \<open>Evidence projections\<close>

definition execution_event_result :: "(pystr \<Rightarrow> pystr) \<Rightarrow> receipt \<Rightarrow> json" where
  "execution_event_result sha rc =
     (case sanitized_result rc of
        None \<Rightarrow> JNull
      | Some result \<Rightarrow>
          if rec_operation rc = ''read_text'' then
            (let rest = AList.delete ''content'' result
             in case map_of result ''content'' of
                  Some (JStr content) \<Rightarrow>
                    JObj (AList.update ''content_sha256'' (JStr (sha content)) rest)
                | _ \<Rightarrow> JObj rest)
          else JObj result)"

definition approval_policy_evidence ::
  "pystr \<Rightarrow> decision option \<Rightarrow> pystr option \<Rightarrow> jobj" where
  "approval_policy_evidence current dec reason =
     (let evaluated = (case dec of None \<Rightarrow> None | Some d \<Rightarrow> policy_version d)
      in [(''reason'', opt_str reason), (''policy_version'', opt_str evaluated)]
         @ (case dec of None \<Rightarrow> [] | Some d \<Rightarrow> [(''policy_decision_id'', JStr (dec_id d))])
         @ (if evaluated \<noteq> None \<and> evaluated \<noteq> Some current
            then [(''policy_version_current'', JStr current), (''policy_version_changed'', JBool True)]
            else []))"

definition tier_json :: "tier_evidence \<Rightarrow> json" where
  "tier_json t =
     JObj [(''tier'', JStr (tier t)), (''attempted'', JBool (attempted t)),
           (''configured_model'', JStr (configured_model t)),
           (''resolved_profile'', opt_str (resolved_profile t)),
           (''profile'', JStr (te_profile t)), (''model'', JStr (te_model t)),
           (''verdict'', JStr (te_verdict t)), (''concern_type'', opt_str (te_concern_type t)),
           (''flagged_excerpts'', JArr (map JStr (te_flagged_excerpts t))),
           (''explanation'', JStr (te_explanation t)), (''latency_ms'', JInt (te_latency_ms t)),
           (''total_tokens'', opt_int (te_total_tokens t)),
           (''error_code'', opt_str (te_error_code t)), (''timeout_s'', JInt (timeout_s t)),
           (''max_tokens'', JInt (max_tokens t))]"

section \<open>Runs in flight\<close>

definition started_actions :: "event list \<Rightarrow> pystr list" where
  "started_actions evs =
     map (\<lambda>e. or_empty (ev_action_id e))
       (filter (\<lambda>e. ev_type e = EV_EXECUTION_STARTED \<and> truthy (ev_action_id e)) evs)"

definition finished_actions :: "event list \<Rightarrow> pystr list" where
  "finished_actions evs =
     map (\<lambda>e. or_empty (ev_action_id e))
       (filter (\<lambda>e. (ev_type e = EV_EXECUTION_SUCCEEDED \<or> ev_type e = EV_EXECUTION_FAILED)
                    \<and> truthy (ev_action_id e)) evs)"

text \<open>
  With a run id, the set difference over that run's events; without one, the SQL query over all
  events (an action id is not null rather than truthy there).
\<close>

definition in_flight_action_ids :: "pystr option \<Rightarrow> pystr set tx" where
  "in_flight_action_ids rid =
     (if truthy rid then
        tx_bind (get_events (or_empty rid) None None) (\<lambda>evs.
          tx_return (set (started_actions evs) - set (finished_actions evs)))
      else
        query (\<lambda>s.
          set (List.map_filter (\<lambda>e. if ev_type e = EV_EXECUTION_STARTED then ev_action_id e else None)
                 (events_t s))
          - set (List.map_filter
                   (\<lambda>e. if ev_type e = EV_EXECUTION_SUCCEEDED \<or> ev_type e = EV_EXECUTION_FAILED
                         then ev_action_id e else None)
                   (events_t s))))"

definition has_in_flight_executions :: "pystr option \<Rightarrow> bool tx" where
  "has_in_flight_executions rid =
     tx_bind (list_approvals None rid (Some AS_APPROVED)) (\<lambda>ps.
       if ps \<noteq> [] then tx_return True
       else tx_bind (in_flight_action_ids rid) (\<lambda>ids. tx_return (ids \<noteq> {})))"

section \<open>Workspaces\<close>

definition workspace_error :: "pystr \<Rightarrow> exc \<Rightarrow> exc" where
  "workspace_error run_message e =
     (case e of
        Py_error cls code \<Rightarrow>
          if cls = ''RunWorkspaceRootError'' then
            Api_error code
              (''The per-run workspace root is unavailable. Set ''
               @ ''SCOPEWATCH_RUN_WORKSPACES_DIR to a writable mounted path.'') 503
          else if cls = ''RunWorkspaceError'' then Api_error code run_message 503
          else e
      | _ \<Rightarrow> e)"

definition resolve_run_workspace :: "gateway \<Rightarrow> run \<Rightarrow> path tx" where
  "resolve_run_workspace g r =
     tx_bind (tx_catch (disk_op (gw_resolve_workspace g (run_key r) (workspace_path r)))
                (\<lambda>e. tx_raise (workspace_error
                       (''This run'' @ [CHR 0x27] @ ''s isolated workspace is unavailable; refusing to execute.'') e)))
       (\<lambda>workspace.
          if \<not> truthy (workspace_path r) then
            tx_bind utc_now (\<lambda>now.
            tx_bind (db_transaction
                       (update_run_workspace_path (run_key r) (path_text workspace) now))
              (\<lambda>_. tx_return workspace))
          else tx_return workspace)"

section \<open>The request builder\<close>

definition claimed_provenance_of :: "submit_request \<Rightarrow> provenance" where
  "claimed_provenance_of q =
     (case sr_provenance q of
        Some p \<Rightarrow> p
      | None \<Rightarrow> if truthy (sr_exposed_trace q) then RP_PROVIDER_EXPOSED_TRACE
                else if truthy (sr_reasoning_summary q) then RP_AGENT_AUTHORED_SUMMARY
                else RP_UNAVAILABLE)"

definition build_action_request ::
  "pystr \<Rightarrow> submit_request \<Rightarrow> pystr \<Rightarrow> pystr option \<Rightarrow> instant \<Rightarrow> bool \<Rightarrow> action" where
  "build_action_request rid q action_id turn at capture_verified =
     (let claimed = claimed_provenance_of q
      in \<lparr>act_id = action_id, act_run_id = rid, tool = sr_tool q, operation = sr_operation q,
          resource = sr_resource q, arguments = sr_arguments q,
          requested_by = (if truthy (sr_requested_by q) then or_empty (sr_requested_by q)
                          else ''synthetic-agent''),
          requested_at = at, reasoning_summary = sr_reasoning_summary q,
          exposed_trace = sr_exposed_trace q,
          reasoning_provenance = provenance_for_submission claimed capture_verified,
          caller_claimed = (if capture_verified \<or> claimed = RP_UNAVAILABLE then None
                            else Some claimed),
          turn_id = turn, act_audit_id = None\<rparr>)"

definition run_not_found :: "pystr \<Rightarrow> exc" where
  "run_not_found rid = Api_error ''RUN_NOT_FOUND'' (''Run '' @ quoted rid @ '' not found.'') 404"

definition require_run :: "pystr \<Rightarrow> run tx" where
  "require_run rid =
     tx_bind (get_run rid) (\<lambda>r. case r of None \<Rightarrow> tx_raise (run_not_found rid) | Some x \<Rightarrow> tx_return x)"

text \<open>The policy engine on the live workspace, with the draws its decision makes.\<close>

definition run_policy :: "gateway \<Rightarrow> action \<Rightarrow> run \<Rightarrow> path \<Rightarrow> decision tx" where
  "run_policy g a r workspace =
     tx_bind uuid4 (\<lambda>i.
     tx_bind utc_now (\<lambda>now.
     tx_bind (read_disk dk_view) (\<lambda>v.
       tx_return (evaluate_policy (current_policy_version g) (get_executor_backend (gw_env g)) v
                    (gw_python g) a r workspace i now))))"

definition reasoning_audit_enabled :: "gateway \<Rightarrow> bool" where
  "reasoning_audit_enabled g =
     reasoning_audit_enabled_from_env (gw_env g ''SCOPEWATCH_REASONING_AUDIT'')"

section \<open>Preview\<close>

definition preview_action :: "gateway \<Rightarrow> pystr \<Rightarrow> submit_request \<Rightarrow> decision tx" where
  "preview_action g rid q =
     tx_bind (require_run rid) (\<lambda>r.
     tx_bind (tx_catch (disk_op (gw_resolve_workspace g (run_key r) (workspace_path r)))
                (\<lambda>e. case e of
                       Py_error cls msg \<Rightarrow>
                         if cls = ''RunWorkspaceError'' \<or> cls = ''RunWorkspaceRootError''
                         then tx_raise (Api_error ''WORKSPACE_UNAVAILABLE''
                                (''Run workspace is unavailable: '' @ msg) 503)
                         else tx_raise e
                     | _ \<Rightarrow> tx_raise e)) (\<lambda>workspace.
     tx_bind utc_now (\<lambda>now.
     tx_bind uuid4 (\<lambda>action_id.
       let turn = (if truthy (sr_turn_id q) then or_empty (sr_turn_id q) else ''preview-'' @ action_id);
           a = build_action_request rid q action_id (Some turn) now False
       in tx_bind (run_policy g a r workspace) (\<lambda>d.
          tx_bind (required_reasoning_decision a r d (reasoning_audit_enabled g)) (\<lambda>dm.
            tx_return (fst dm)))))))"

end
