(* ===== verification/SubmitAction.thy ===== *)
theory SubmitAction
  imports Service
begin

text \<open>
  \<open>ScopewatchService.submit_action\<close> (\<open>service.py\<close>): admission, policy, reasoning audit and its
  escalate-only merge, the phase-1 transaction that commits the decision and its evidence before
  anything runs, the dispatch, and the phase-2 transaction that records the outcome.
\<close>

section \<open>The reasoning text and its audit\<close>

definition NL :: pystr where "NL = [CHR 0x0A]"

definition audit_trace_text :: "action \<Rightarrow> pystr" where
  "audit_trace_text a =
     (let trace = strip (or_empty (exposed_trace a));
          summary = strip (or_empty (reasoning_summary a))
      in if trace \<noteq> [] \<and> summary \<noteq> [] \<and> trace \<noteq> summary then
           ''TRACE EVIDENCE ('' @ provenance_value (reasoning_provenance a) @ ''):'' @ NL @ trace @ NL @ NL
           @ ''INDEPENDENT SUMMARY EVIDENCE (agent/caller text, not a provider trace):'' @ NL @ summary
         else if trace \<noteq> [] then trace else summary)"

definition auditor_profile_name :: "environ \<Rightarrow> pystr" where
  "auditor_profile_name env =
     (let p = (case env ''SCOPEWATCH_AUDITOR_PROFILE'' of None \<Rightarrow> ''mock'' | Some v \<Rightarrow> v)
      in if p = [] then ''mock'' else p)"

definition audit_record_of ::
  "pystr \<Rightarrow> pystr \<Rightarrow> pystr \<Rightarrow> pystr \<Rightarrow> instant \<Rightarrow> audit_result \<Rightarrow> audit" where
  "audit_record_of i rid turn h now r =
     \<lparr>aud_id = i, aud_run_id = rid, aud_turn_id = turn, trace_hash = h,
      verdict = audit_verdict_value (ar_verdict r),
      concern_type = map_option concern_value (ar_concern r), flagged_excerpts = ar_excerpts r,
      aud_explanation = ar_explanation r, aud_model = ar_model r, aud_profile = ar_profile r,
      latency_ms = ar_latency r, aud_error_code = ar_error_code r, audited_at = now,
      total_tokens = ar_total_tokens r, tiers = ar_tiers r\<rparr>"

text \<open>
  A fresh audit: in single routing with a live profile the estimate is checked and reserved
  before the call and released after it.
\<close>

definition reserve_estimate :: "gateway \<Rightarrow> pystr \<Rightarrow> int tx" where
  "reserve_estimate g profile =
     (if routing_mode (gw_env g) = ''single'' \<and> \<not> is_mock_profile profile [] then
        let estimate = reserve_per_audit (gw_env g)
        in tx_bind utc_now (\<lambda>t0.
           tx_bind utc_now (\<lambda>t1.
           tx_bind (ledger_op (check_budget (gw_env g) profile estimate None t0 t1)) (\<lambda>d.
             if \<not> td_allowed d then
               tx_bind utc_now (\<lambda>t2.
                 tx_raise (refuse_token_budget profile (td_used d)
                   (case td_budget d of None \<Rightarrow> 0 | Some b \<Rightarrow> b) t2))
             else
               tx_bind utc_now (\<lambda>t2.
               tx_bind (ledger_op (add_tokens profile estimate t2)) (\<lambda>_. tx_return estimate)))))
      else tx_return 0)"

definition fresh_audit ::
  "gateway \<Rightarrow> run \<Rightarrow> action \<Rightarrow> pystr \<Rightarrow> pystr \<Rightarrow> pystr \<Rightarrow> (audit \<times> int) tx" where
  "fresh_audit g r a turn text h =
     tx_bind (list_actions_for_run (run_key r)) (\<lambda>recent.
     tx_bind (reserve_estimate g (auditor_profile_name (gw_env g))) (\<lambda>estimate.
     tx_bind (ledger_op (gw_audit g r a turn text recent)) (\<lambda>result.
     tx_bind (if estimate \<noteq> 0
              then tx_bind utc_now (\<lambda>t.
                     tx_bind (ledger_op (add_tokens (auditor_profile_name (gw_env g)) (- estimate) t))
                       (\<lambda>_. tx_return ()))
              else tx_return ()) (\<lambda>_.
     tx_bind uuid4 (\<lambda>i.
     tx_bind utc_now (\<lambda>now.
       tx_return (audit_record_of i (run_key r) turn h now result,
                  case ar_total_tokens result of None \<Rightarrow> 0 | Some n \<Rightarrow> n)))))))"

definition obtain_audit ::
  "gateway \<Rightarrow> run \<Rightarrow> action \<Rightarrow> pystr \<Rightarrow> pystr \<Rightarrow> (audit \<times> int) tx" where
  "obtain_audit g r a turn text =
     (let h = gw_sha256 g text
      in tx_bind (get_reasoning_audit_by_turn (run_key r) turn h (Some (tool a)) (Some (operation a))
                    (Some (resource a)) (Some (arguments a))) (\<lambda>cached.
           case cached of
             Some rec \<Rightarrow> tx_return (rec, 0)
           | None \<Rightarrow> fresh_audit g r a turn text h))"

definition audit_event_of :: "pystr \<Rightarrow> audit \<Rightarrow> event_type \<times> pystr" where
  "audit_event_of turn rec =
     (if verdict rec = ''NO_CONCERN'' \<or> verdict rec = ''CONCERN'' then
        (EV_REASONING_AUDIT_COMPLETED,
         ''Reasoning audit completed for turn '' @ quoted turn @ '': '' @ verdict rec @ ''.'')
      else
        (EV_REASONING_AUDIT_FAILED,
         ''Reasoning audit failed for turn '' @ quoted turn @ '': '' @ aud_explanation rec))"

definition audit_event_details :: "audit \<Rightarrow> int \<Rightarrow> jobj" where
  "audit_event_details rec fresh_tokens =
     [(''audit_id'', JStr (aud_id rec)), (''turn_id'', JStr (aud_turn_id rec)),
      (''trace_hash'', JStr (trace_hash rec)), (''verdict'', JStr (verdict rec)),
      (''concern_type'', opt_str (concern_type rec)),
      (''flagged_excerpts'', JArr (map JStr (flagged_excerpts rec))),
      (''explanation'', JStr (aud_explanation rec)), (''model'', JStr (aud_model rec)),
      (''profile'', JStr (aud_profile rec)), (''latency_ms'', JInt (latency_ms rec)),
      (''error_code'', opt_str (aud_error_code rec)), (''total_tokens'', opt_int (total_tokens rec)),
      (''tiers'', JArr (map tier_json (tiers rec))), (''tokens_used'', JInt (max 0 fresh_tokens))]"

text \<open>The escalate-only merge: only an ALLOW is ever replaced, and only by a HOLD.\<close>

definition escalated :: "action \<Rightarrow> audit \<Rightarrow> reason_code \<Rightarrow> pystr \<Rightarrow> pystr \<Rightarrow> pystr option \<Rightarrow> decision tx" where
  "escalated a rec code expl rule version =
     tx_bind uuid4 (\<lambda>i.
     tx_bind utc_now (\<lambda>now.
       tx_return \<lparr>dec_id = i, dec_action_id = act_id a, outcome = PO_HOLD, reason_code = code,
                  explanation = expl, matched_rule = rule, decided_at = now, deterministic = False,
                  dec_audit_id = Some (aud_id rec), policy_version = version\<rparr>))"

definition concern_text :: "pystr option \<Rightarrow> pystr" where
  "concern_text c = (case c of None \<Rightarrow> ''None'' | Some t \<Rightarrow> t)"

definition merge_audit :: "action \<Rightarrow> audit \<Rightarrow> pystr option \<Rightarrow> decision \<Rightarrow> decision tx" where
  "merge_audit a rec version d =
     (if outcome d = PO_ALLOW then
        if verdict rec = ''NO_CONCERN'' then tx_return d
        else if verdict rec = ''CONCERN'' then
          escalated a rec RC_REASONING_SCOPE_CONCERN
            (''Reasoning audit identified scope concern ['' @ concern_text (concern_type rec) @ '']: ''
             @ aud_explanation rec) ''RULE_REASONING_SCOPE_CONCERN'' version
        else if verdict rec = ''FAILED'' then
          escalated a rec RC_REASONING_AUDIT_FAILED
            (''Reasoning audit failed closed: '' @ aud_explanation rec)
            ''RULE_REASONING_AUDIT_FAILED'' version
        else
          escalated a rec RC_REASONING_AUDIT_FAILED
            ''Reasoning audit returned an unrecognised verdict; failing closed.''
            ''RULE_REASONING_AUDIT_FAILED'' version
      else tx_return d)"

section \<open>Phase 1\<close>

text \<open>What the handler carries from its reads and the audit into the transaction.\<close>

record submission_state =
  ss_run :: run
  ss_action :: action
  ss_decision :: decision
  ss_audit :: "(audit \<times> int) option"
  ss_turn :: pystr
  ss_now :: instant
  ss_verified :: bool
  ss_enabled :: bool
  ss_trace :: pystr
  ss_required :: bool
  ss_missing :: "pystr option"
  ss_workspace :: path

definition provenance_event_fields :: "submission_state \<Rightarrow> jobj" where
  "provenance_event_fields ss =
     (''reasoning_provenance_verified'', JBool (ss_verified ss))
     # (case caller_claimed (ss_action ss) of
          None \<Rightarrow> [] | Some p \<Rightarrow> [(''caller_claimed_provenance'', JStr (provenance_value p))])"

definition action_refs :: "action \<Rightarrow> event_refs" where
  "action_refs a = no_refs\<lparr>ref_action := Some (act_id a)\<rparr>"

definition append_requested :: "submission_state \<Rightarrow> event tx" where
  "append_requested ss =
     (let a = ss_action ss
      in append_event (act_run_id a) EV_ACTION_REQUESTED (requested_by a)
           (''Requested '' @ operation a @ '' on '' @ quoted (resource a) @ ''.'') (ss_now ss)
           ([(''tool'', JStr (tool a)), (''operation'', JStr (operation a)),
             (''resource'', JStr (resource a)), (''turn_id'', opt_str (turn_id a)),
             (''reasoning_summary'', opt_str (reasoning_summary a)),
             (''exposed_reasoning_trace'', opt_str (exposed_trace a)),
             (''reasoning_provenance'', JStr (provenance_value (reasoning_provenance a)))]
            @ provenance_event_fields ss)
           (action_refs a) (turn_id a))"

definition append_audited :: "submission_state \<Rightarrow> event list tx" where
  "append_audited ss =
     (case ss_audit ss of
        None \<Rightarrow> tx_return []
      | Some (rec, fresh) \<Rightarrow>
          (let (ty, summary) = audit_event_of (ss_turn ss) rec
           in tx_bind (append_event (act_run_id (ss_action ss)) ty ''reasoning-auditor'' summary
                         (audited_at rec) (audit_event_details rec fresh)
                         (action_refs (ss_action ss)) (Some (aud_turn_id rec)))
                (\<lambda>ev. tx_return [ev])))"

definition availability :: "pystr \<Rightarrow> jobj" where
  "availability s = [(''reasoning_audit'', JStr s), (''reasoning_availability'', JStr s)]"

definition decision_basis :: "decision \<Rightarrow> jobj" where
  "decision_basis d =
     [(''reason_code'', JStr (reason_code_value (reason_code d))),
      (''matched_rule'', JStr (matched_rule d)), (''policy_version'', opt_str (policy_version d))]"

definition decision_refs :: "submission_state \<Rightarrow> event_refs" where
  "decision_refs ss =
     no_refs\<lparr>ref_action := Some (act_id (ss_action ss)),
             ref_decision := Some (dec_id (ss_decision ss))\<rparr>"

definition allow_details :: "submission_state \<Rightarrow> jobj" where
  "allow_details ss =
     decision_basis (ss_decision ss)
     @ (if ss_audit ss = None
        then availability (if \<not> ss_enabled ss then ''disabled'' else ''unavailable'') else [])"

definition dispatching :: "submission_state \<Rightarrow> instant \<Rightarrow> event tx" where
  "dispatching ss began =
     (let a = ss_action ss
      in append_event (act_run_id a) EV_EXECUTION_STARTED executor_name
           (''Dispatching '' @ operation a @ '' to synthetic executor.'') began
           [(''resource'', JStr (resource a))] (action_refs a) (turn_id a))"

definition phase1_allow :: "submission_state \<Rightarrow> (event list \<times> instant) tx" where
  "phase1_allow ss =
     (let a = ss_action ss; d = ss_decision ss
      in tx_bind (append_event (act_run_id a) EV_POLICY_ALLOWED
                    (if deterministic d then ''deterministic-policy'' else ''policy-engine'')
                    (''Allowed '' @ operation a @ '' on '' @ quoted (resource a) @ '': '' @ explanation d)
                    (decided_at d) (allow_details ss) (decision_refs ss) (turn_id a)) (\<lambda>ev_pol.
         tx_bind utc_now (\<lambda>began.
         tx_bind (dispatching ss began) (\<lambda>ev_start.
           tx_return ([ev_pol, ev_start], began)))))"

definition held_details :: "submission_state \<Rightarrow> jobj" where
  "held_details ss =
     (let a = ss_action ss; d = ss_decision ss
      in decision_basis d
         @ [(''tool'', JStr (tool a)), (''operation'', JStr (operation a)),
            (''resource'', JStr (resource a)), (''turn_id'', opt_str (turn_id a)),
            (''reasoning_summary'', opt_str (reasoning_summary a)),
            (''exposed_reasoning_trace'', opt_str (exposed_trace a)),
            (''reasoning_provenance'', JStr (provenance_value (reasoning_provenance a)))]
         @ provenance_event_fields ss
         @ (case ss_audit ss of
              Some (rec, _) \<Rightarrow>
                [(''reasoning_audit'',
                  JObj [(''id'', JStr (aud_id rec)), (''turn_id'', JStr (aud_turn_id rec)),
                        (''verdict'', JStr (verdict rec)), (''concern_type'', opt_str (concern_type rec)),
                        (''flagged_excerpts'', JArr (map JStr (flagged_excerpts rec))),
                        (''explanation'', JStr (aud_explanation rec)),
                        (''model'', JStr (aud_model rec)), (''profile'', JStr (aud_profile rec))])]
            | None \<Rightarrow>
                (if ss_required ss
                 then [(''reasoning_required'', JBool True),
                       (''reasoning_requirement'', opt_str (ss_missing ss))] else [])
                @ availability (if \<not> ss_enabled ss then ''disabled'' else ''unavailable'')))"

definition pending_approval :: "submission_state \<Rightarrow> pystr \<Rightarrow> instant \<Rightarrow> approval" where
  "pending_approval ss i expires =
     \<lparr>app_id = i, app_run_id = act_run_id (ss_action ss), app_action_id = act_id (ss_action ss),
      app_decision_id = dec_id (ss_decision ss), app_status = AS_PENDING,
      app_requested_at = ss_now ss, expires_at = Stamp expires, resolved_at = None,
      resolved_by = None, resolution_reason = None, token_version = 1, app_operation = None,
      app_resource = None, app_tool = None, app_policy_version = policy_version (ss_decision ss)\<rparr>"

definition phase1_hold :: "gateway \<Rightarrow> submission_state \<Rightarrow> (event list \<times> approval) tx" where
  "phase1_hold g ss =
     (let a = ss_action ss; d = ss_decision ss
      in tx_bind (append_event (act_run_id a) EV_POLICY_HELD
                    (if deterministic d then ''deterministic-policy'' else ''reasoning-escalation'')
                    (''Held '' @ operation a @ '' on '' @ quoted (resource a) @ '' for approval: ''
                     @ explanation d)
                    (decided_at d) (held_details ss) (decision_refs ss) (turn_id a)) (\<lambda>ev_pol.
         tx_bind utc_now (\<lambda>now.
         tx_bind uuid4 (\<lambda>i.
           let p = pending_approval ss i (now + gw_expiry_us g)
           in tx_bind (create_approval_request p) (\<lambda>_.
              tx_bind (append_event (act_run_id a) EV_APPROVAL_REQUESTED ''system''
                         (''Approval requested for '' @ operation a @ '' on '' @ quoted (resource a) @ ''.'')
                         (ss_now ss)
                         [(''expires_at'', JStr (gw_iso g (now + gw_expiry_us g))),
                          (''reason'', JStr (explanation d)),
                          (''policy_version'', opt_str (policy_version d)),
                          (''policy_decision_id'', JStr (dec_id d))]
                         ((decision_refs ss)\<lparr>ref_approval := Some (app_id p)\<rparr>) (turn_id a)) (\<lambda>ev_app.
              tx_bind (update_run_status (act_run_id a) RS_WAITING_FOR_APPROVAL (ss_now ss)) (\<lambda>_.
                tx_return ([ev_pol, ev_app], p))))))))"

definition deny_details :: "submission_state \<Rightarrow> jobj" where
  "deny_details ss =
     decision_basis (ss_decision ss)
     @ (if \<not> ss_enabled ss then availability ''disabled''
        else if ss_trace ss = [] then availability ''unavailable'' else [])"

definition not_executed ::
  "action \<Rightarrow> pystr \<Rightarrow> instant \<Rightarrow> pystr \<Rightarrow> pystr \<Rightarrow> receipt" where
  "not_executed a i at why code =
     \<lparr>rec_id = i, rec_action_id = act_id a, rec_status = XS_NOT_EXECUTED, started_at = at,
      completed_at = at, rec_executor = executor_name,
      sanitized_result = Some [(''reason'', JStr why)], rec_error_code = Some code,
      rec_resource = resource a, rec_operation = operation a\<rparr>"

definition phase1_deny :: "submission_state \<Rightarrow> (event list \<times> receipt) tx" where
  "phase1_deny ss =
     (let a = ss_action ss; d = ss_decision ss
      in tx_bind (append_event (act_run_id a) EV_POLICY_DENIED ''deterministic-policy''
                    (''Denied '' @ operation a @ '' on '' @ quoted (resource a) @ '': '' @ explanation d)
                    (decided_at d) (deny_details ss) (decision_refs ss) (turn_id a)) (\<lambda>ev_pol.
         tx_bind uuid4 (\<lambda>i.
         tx_bind (create_execution_receipt
                    (not_executed a i (decided_at d)
                       ''Policy outcome was DENY; execution blocked.''
                       (reason_code_value (reason_code d)))) (\<lambda>rc.
           tx_return ([ev_pol], rc)))))"

text \<open>What phase 1 decided: dispatch (with the start time), an approval to wait for, a denial.\<close>

datatype intent = Dispatch instant | Await approval | Refused receipt

definition require_open_run :: "pystr \<Rightarrow> run tx" where
  "require_open_run rid =
     tx_bind (get_run rid) (\<lambda>r. case r of
         None \<Rightarrow> tx_raise (Api_error ''RUN_NOT_ACTIVE''
                  ''Cannot submit action: run is in terminal status MISSING.'' 400)
       | Some rn \<Rightarrow>
           if run_st rn = RS_COMPLETED \<or> run_st rn = RS_FAILED then
             tx_raise (Api_error ''RUN_NOT_ACTIVE''
               (''Cannot submit action: run is in terminal status '' @ run_status_value (run_st rn) @ ''.'') 400)
           else tx_return rn)"

definition store_audit :: "submission_state \<Rightarrow> unit tx" where
  "store_audit ss =
     (case ss_audit ss of
        None \<Rightarrow> tx_return ()
      | Some (rec, _) \<Rightarrow>
          tx_bind (get_reasoning_audit (aud_id rec)) (\<lambda>old.
            if old = None then tx_bind (create_reasoning_audit rec) (\<lambda>_. tx_return ())
            else tx_return ()))"

definition submit_phase1 :: "gateway \<Rightarrow> submission_state \<Rightarrow> (run \<times> event list \<times> intent) tx" where
  "submit_phase1 g ss =
     tx_bind (require_open_run (act_run_id (ss_action ss))) (\<lambda>fresh.
     tx_bind (store_audit ss) (\<lambda>_.
     tx_bind (create_action_request (ss_action ss)) (\<lambda>_.
     tx_bind (append_requested ss) (\<lambda>ev_req.
     tx_bind (append_audited ss) (\<lambda>ev_audit.
     tx_bind (create_policy_decision (ss_decision ss)) (\<lambda>_.
       case outcome (ss_decision ss) of
         PO_ALLOW \<Rightarrow>
           tx_bind (phase1_allow ss) (\<lambda>(evs, began).
             tx_return (fresh, [ev_req] @ ev_audit @ evs, Dispatch began))
       | PO_HOLD \<Rightarrow>
           tx_bind (phase1_hold g ss) (\<lambda>(evs, p).
             tx_return (fresh, [ev_req] @ ev_audit @ evs, Await p))
       | PO_DENY \<Rightarrow>
           tx_bind (phase1_deny ss) (\<lambda>(evs, rc).
             tx_return (fresh, [ev_req] @ ev_audit @ evs, Refused rc))))))))"

section \<open>Phase 2\<close>

text \<open>
  The wording differs between a direct dispatch (\<open>label\<close> empty) and an approved one
  (\<open>approved \<close> with its blank).
\<close>

definition receipt_details :: "gateway \<Rightarrow> receipt \<Rightarrow> jobj" where
  "receipt_details g rc =
     [(''status'', JStr (execution_status_value (rec_status rc))),
      (''result'', execution_event_result (gw_sha256 g) rc),
      (''error_code'', opt_str (rec_error_code rc))]"

definition receipt_refs :: "action \<Rightarrow> receipt \<Rightarrow> event_refs" where
  "receipt_refs a rc = no_refs\<lparr>ref_action := Some (act_id a), ref_receipt := Some (rec_id rc)\<rparr>"

definition failure_text :: "pystr \<Rightarrow> action \<Rightarrow> receipt \<Rightarrow> pystr" where
  "failure_text label a rc =
     ''Failed execution of '' @ label @ operation a @ '': '' @ concern_text (rec_error_code rc)"

definition record_failure ::
  "gateway \<Rightarrow> pystr \<Rightarrow> action \<Rightarrow> receipt \<Rightarrow> pystr option \<Rightarrow> event tx" where
  "record_failure g label a rc turn =
     tx_bind (create_execution_receipt rc) (\<lambda>_.
       append_event (act_run_id a) EV_EXECUTION_FAILED executor_name (failure_text label a rc)
         (completed_at rc) (receipt_details g rc) (receipt_refs a rc) turn)"

definition record_outcome ::
  "gateway \<Rightarrow> pystr \<Rightarrow> action \<Rightarrow> receipt \<Rightarrow> pystr option \<Rightarrow> event tx" where
  "record_outcome g label a rc turn =
     (let success = (rec_status rc = XS_EXECUTED)
      in tx_bind (create_execution_receipt rc) (\<lambda>_.
           append_event (act_run_id a)
             (if success then EV_EXECUTION_SUCCEEDED else EV_EXECUTION_FAILED) executor_name
             (if success
              then ''Successfully executed '' @ label @ operation a @ '' on '' @ quoted (resource a) @ ''.''
              else failure_text label a rc)
             (completed_at rc) (receipt_details g rc) (receipt_refs a rc) turn))"

text \<open>
  The FAILED receipt of a dispatch that raised, and what the handler raises after recording it:
  a security error keeps its message, code and status, anything else is sanitised.
\<close>

definition failed_receipt :: "action \<Rightarrow> pystr \<Rightarrow> instant \<Rightarrow> instant \<Rightarrow> exc \<Rightarrow> receipt" where
  "failed_receipt a i began failed_at e =
     \<lparr>rec_id = i, rec_action_id = act_id a, rec_status = XS_FAILED, started_at = began,
      completed_at = failed_at, rec_executor = executor_name,
      sanitized_result = Some [(''error'', JStr (case e of Security_error msg _ _ \<Rightarrow> msg
                                                  | _ \<Rightarrow> exc_class e))],
      rec_error_code = Some (case e of Security_error _ code _ \<Rightarrow> code | _ \<Rightarrow> ''EXECUTION_ERROR''),
      rec_resource = resource a, rec_operation = operation a\<rparr>"

definition dispatch_error :: "exc \<Rightarrow> exc" where
  "dispatch_error e =
     (case e of
        Security_error _ _ _ \<Rightarrow> e
      | _ \<Rightarrow> Api_error ''INTERNAL_EXECUTION_ERROR'' ''Execution failed due to an internal error.'' 500)"

definition submit_dispatch ::
  "gateway \<Rightarrow> submission_state \<Rightarrow> run \<Rightarrow> instant \<Rightarrow> event list \<Rightarrow> (event list \<times> receipt) tx" where
  "submit_dispatch g ss fresh began evs =
     (let a = ss_action ss
      in tx_bind (tx_try (gw_execute g a (ss_workspace ss) (Some (ss_decision ss)) None True
                            (Some (run_scope fresh)) (Some (gw_workspace_key g (run_key fresh))))) (\<lambda>res.
         case res of
           Inl e \<Rightarrow>
             tx_bind utc_now (\<lambda>failed_at.
             tx_bind uuid4 (\<lambda>i.
             tx_bind (db_transaction
                        (record_failure g [] a (failed_receipt a i began failed_at e) (turn_id a))) (\<lambda>ev.
             tx_bind (publish_all (act_run_id a) (evs @ [ev])) (\<lambda>_.
               tx_raise (dispatch_error e)))))
         | Inr rc \<Rightarrow>
             tx_bind (db_transaction (record_outcome g [] a rc (turn_id a))) (\<lambda>ev.
               tx_return (evs @ [ev], rc))))"

section \<open>The handler\<close>

definition require_submittable_run :: "pystr \<Rightarrow> run tx" where
  "require_submittable_run rid =
     tx_bind (require_run rid) (\<lambda>r.
       if run_st r \<noteq> RS_ACTIVE \<and> run_st r \<noteq> RS_WAITING_FOR_APPROVAL then
         tx_raise (Api_error ''RUN_NOT_ACTIVE''
           (''Cannot submit action: run is in status '' @ run_status_value (run_st r) @ ''.'') 400)
       else tx_return r)"

definition guard_refusal :: "guard_decision \<Rightarrow> exc" where
  "guard_refusal d = Guard_refusal (nat (gd_status d)) (gd_code d) (gd_message d) (gd_retry_s d)"

definition admit_action :: "gateway \<Rightarrow> pystr \<Rightarrow> unit tx" where
  "admit_action g rid =
     (if \<not> gc_enabled (gw_guards g) then tx_return ()
      else tx_bind utc_now (\<lambda>now.
             guard_op (\<lambda>gs. let (d, gs') = try_action (gw_guards g) rid now gs
                            in (if gd_allowed d then Inr () else Inl (guard_refusal d), gs'))))"

text \<open>Everything before phase 1: admission, the request, the policy, the audit, the merge.\<close>

definition audited_decision ::
  "gateway \<Rightarrow> run \<Rightarrow> action \<Rightarrow> pystr \<Rightarrow> decision \<Rightarrow> bool
     \<Rightarrow> (action \<times> decision \<times> (audit \<times> int) option) tx" where
  "audited_decision g r a turn d enabled =
     (if outcome d \<noteq> PO_DENY \<and> enabled \<and> audit_trace_text a \<noteq> [] then
        tx_bind (obtain_audit g r a turn (audit_trace_text a)) (\<lambda>(rec, fresh).
          let a' = a\<lparr>act_audit_id := Some (aud_id rec)\<rparr>;
              d' = d\<lparr>dec_audit_id := Some (aud_id rec)\<rparr>
          in tx_bind (merge_audit a' rec (policy_version d) d') (\<lambda>final.
               tx_return (a', final, Some (rec, fresh))))
      else tx_return (a, d, None))"

definition final_decision ::
  "gateway \<Rightarrow> run \<Rightarrow> action \<Rightarrow> pystr \<Rightarrow> decision \<Rightarrow> bool
     \<Rightarrow> (action \<times> decision \<times> (audit \<times> int) option \<times> pystr option) tx" where
  "final_decision g r a turn d0 enabled =
     tx_bind (required_reasoning_decision a r d0 enabled) (\<lambda>(d1, _).
     tx_bind (required_reasoning_decision a r d1 enabled) (\<lambda>(d2, missing).
     tx_bind (audited_decision g r a turn d2 enabled) (\<lambda>(a', d, au).
       tx_return (a', d, au, missing))))"

text \<open>The exception of the credential comparison propagates.\<close>

definition credential_check :: "pystr + bool \<Rightarrow> bool tx" where
  "credential_check r =
     (case r of
        Inl cls \<Rightarrow> tx_raise (Py_error cls ''comparing strings with non-ASCII characters is not supported'')
      | Inr b \<Rightarrow> tx_return b)"

definition prepare_submission ::
  "gateway \<Rightarrow> pystr \<Rightarrow> submit_request \<Rightarrow> pystr option \<Rightarrow> submission_state tx" where
  "prepare_submission g rid q credential =
     tx_bind (require_submittable_run rid) (\<lambda>r.
     tx_bind (admit_action g rid) (\<lambda>_.
     tx_bind uuid4 (\<lambda>action_id.
     tx_bind utc_now (\<lambda>now.
       let turn = (if truthy (sr_turn_id q) then or_empty (sr_turn_id q) else ''turn-'' @ action_id);
           enabled = reasoning_audit_enabled g
       in
     tx_bind (credential_check (capture_credential_verified (gw_capture_token g) credential)) (\<lambda>verified.
       let a = build_action_request rid q action_id (Some turn) now verified
       in tx_bind (resolve_run_workspace g r) (\<lambda>workspace.
          tx_bind (run_policy g a r workspace) (\<lambda>d0.
          tx_bind (final_decision g r a turn d0 enabled) (\<lambda>(a', d, au, missing).
            tx_return
              \<lparr>ss_run = r, ss_action = a', ss_decision = d, ss_audit = au, ss_turn = turn,
               ss_now = now, ss_verified = verified, ss_enabled = enabled,
               ss_trace = audit_trace_text a,
               ss_required = (operation a \<in> set (require_reasoning_for (run_scope r))),
               ss_missing = missing, ss_workspace = workspace\<rparr>))))))))"

definition submission_response ::
  "submission_state \<Rightarrow> event list \<Rightarrow> approval option \<Rightarrow> receipt option \<Rightarrow> action_response" where
  "submission_response ss evs app rc =
     \<lparr>ar_action = ss_action ss, ar_decision = Some (ss_decision ss), ar_approval = app,
      ar_receipt = rc, ar_events = evs, ar_audit = map_option fst (ss_audit ss),
      ar_audit_id = map_option (\<lambda>x. aud_id (fst x)) (ss_audit ss)\<rparr>"

definition submit_action ::
  "gateway \<Rightarrow> pystr \<Rightarrow> submit_request \<Rightarrow> pystr option \<Rightarrow> action_response tx" where
  "submit_action g rid q credential =
     tx_bind (prepare_submission g rid q credential) (\<lambda>ss.
     tx_bind (db_transaction (submit_phase1 g ss)) (\<lambda>(fresh, evs, intent).
     tx_bind (case intent of
                Dispatch began \<Rightarrow>
                  tx_bind (submit_dispatch g ss fresh began evs) (\<lambda>(evs', rc).
                    tx_return (evs', None, Some rc))
              | Await p \<Rightarrow> tx_return (evs, Some p, None)
              | Refused rc \<Rightarrow> tx_return (evs, None, Some rc)) (\<lambda>(evs', app, rc).
     tx_bind (publish_all rid evs') (\<lambda>_.
       tx_return (submission_response ss evs' app rc)))))"

end
