(* ===== verification/ResolveApproval.thy ===== *)
theory ResolveApproval
  imports SubmitAction
begin

text \<open>
  The approval operations of \<open>service.py\<close>: \<open>resolve_approval\<close> in its phases, the expiry of an
  agent's review wait, the TTL reconciliation, and the reads \<open>list_approvals\<close> and \<open>get_action\<close>.
\<close>

definition stamp_text :: "gateway \<Rightarrow> stamp \<Rightarrow> pystr" where
  "stamp_text g s = (case s of Stamp t \<Rightarrow> gw_iso g t | BadStamp t \<Rightarrow> t)"

text \<open>\<open>datetime.fromisoformat\<close>.\<close>

fun from_isoformat :: "stamp \<Rightarrow> exc + instant" where
  "from_isoformat (Stamp t) = Inr t"
| "from_isoformat (BadStamp s) =
     Inl (Py_error ''ValueError'' (''Invalid isoformat string: '' @ quoted s))"

definition pending_of_run :: "pystr \<Rightarrow> approval list tx" where
  "pending_of_run rid = list_approvals None (Some rid) (Some AS_PENDING)"

definition open_status :: "run_status \<Rightarrow> bool" where
  "open_status st \<longleftrightarrow> st = RS_ACTIVE \<or> st = RS_WAITING_FOR_APPROVAL"

section \<open>resolve\_approval\<close>

definition require_resolvable_run :: "pystr \<Rightarrow> unit tx" where
  "require_resolvable_run rid =
     tx_bind (get_run rid) (\<lambda>r. case r of
         None \<Rightarrow> tx_raise (Api_error ''RUN_NOT_ACTIVE''
                  ''Cannot resolve approval: run is in status MISSING.'' 409)
       | Some rn \<Rightarrow>
           if open_status (run_st rn) then tx_return ()
           else tx_raise (Api_error ''RUN_NOT_ACTIVE''
                  (''Cannot resolve approval: run is in status '' @ run_status_value (run_st rn) @ ''.'') 409))"

definition load_approval :: "pystr \<Rightarrow> approval tx" where
  "load_approval k =
     tx_bind (get_approval_request k) (\<lambda>p. case p of
         None \<Rightarrow> tx_raise (Api_error ''APPROVAL_NOT_FOUND''
                  (''Approval request '' @ quoted k @ '' not found.'') 404)
       | Some ap \<Rightarrow>
           if app_status ap \<noteq> AS_PENDING then
             tx_bind (get_run (app_run_id ap)) (\<lambda>closed.
               if app_status ap = AS_EXPIRED
                  \<and> (case closed of None \<Rightarrow> False
                       | Some rn \<Rightarrow> run_st rn = RS_COMPLETED \<or> run_st rn = RS_FAILED)
               then tx_raise (Api_error ''RUN_NOT_ACTIVE''
                      (''Cannot resolve approval: run is in status ''
                       @ run_status_value (run_st (the closed)) @ ''.'') 409)
               else tx_raise (Api_error ''APPROVAL_ALREADY_RESOLVED''
                      (''Approval request '' @ quoted k @ '' is already ''
                       @ approval_status_value (app_status ap) @ ''.'') 409))
           else tx_return ap)"

record resolution =
  rs_approval :: approval
  rs_action :: action
  rs_decision :: decision
  rs_run :: run
  rs_now :: instant

definition load_resolution :: "pystr \<Rightarrow> bool \<Rightarrow> resolution tx" where
  "load_resolution k approve =
     tx_bind (load_approval k) (\<lambda>ap.
     tx_bind (get_action_request (app_action_id ap)) (\<lambda>a.
     tx_bind (get_policy_decision_by_action (app_action_id ap)) (\<lambda>d.
     tx_bind (get_run (app_run_id ap)) (\<lambda>r.
       case (a, d, r) of
         (Some act, Some dec, Some rn) \<Rightarrow>
           if approve \<and> outcome dec = PO_DENY then
             tx_raise (Api_error ''DENIED_ACTION_CANNOT_BE_APPROVED''
               ''Approval cannot override a deterministic DENY outcome.'' 400)
           else
             tx_bind (require_resolvable_run (app_run_id ap)) (\<lambda>_.
             tx_bind utc_now (\<lambda>now.
               tx_return \<lparr>rs_approval = ap, rs_action = act, rs_decision = dec, rs_run = rn,
                          rs_now = now\<rparr>))
       | _ \<Rightarrow> tx_raise (Api_error ''ENTITY_NOT_FOUND''
                 ''Associated action or policy decision not found.'' 500)))))"

definition approval_refs :: "pystr \<Rightarrow> pystr \<Rightarrow> event_refs" where
  "approval_refs action_id approval_id =
     no_refs\<lparr>ref_action := Some action_id, ref_approval := Some approval_id\<rparr>"

text \<open>The expired branch: the approval and its event in one transaction, then the refusal.\<close>

definition expire_on_resolve :: "gateway \<Rightarrow> resolution \<Rightarrow> event tx" where
  "expire_on_resolve g rs =
     (let ap = rs_approval rs
      in tx_bind (require_resolvable_run (app_run_id ap)) (\<lambda>_.
         tx_bind (resolve_approval_row (app_id ap) AS_EXPIRED ''system'' (rs_now rs)
                    (Some ''Approval request expired.'')) (\<lambda>_.
         tx_bind (append_event (app_run_id ap) EV_APPROVAL_EXPIRED ''system''
                    (''Approval request '' @ quoted (app_id ap) @ '' expired.'') (rs_now rs)
                    [(''expired_at'', JStr (stamp_text g (expires_at ap))),
                     (''policy_version'', opt_str (policy_version (rs_decision rs)))]
                    (approval_refs (app_action_id ap) (app_id ap)) None) (\<lambda>ev.
         tx_bind (pending_of_run (app_run_id ap)) (\<lambda>remaining.
         tx_bind (tx_when (remaining = [] \<and> run_st (rs_run rs) = RS_WAITING_FOR_APPROVAL)
                    (update_run_status (app_run_id ap) RS_ACTIVE (rs_now rs)))
           (\<lambda>_. tx_return ev))))))"

definition refuse_expired :: "gateway \<Rightarrow> resolution \<Rightarrow> unit tx" where
  "refuse_expired g rs =
     tx_bind (tx_of_sum (from_isoformat (expires_at (rs_approval rs)))) (\<lambda>expiry.
       if expiry < rs_now rs then
         tx_bind (db_transaction (expire_on_resolve g rs)) (\<lambda>ev.
         tx_bind (publish (app_run_id (rs_approval rs)) ev) (\<lambda>_.
           tx_raise (Api_error ''APPROVAL_EXPIRED''
             (''Approval request '' @ quoted (app_id (rs_approval rs)) @ '' has expired.'') 409)))
       else tx_return ())"

definition grant_phase1 ::
  "gateway \<Rightarrow> resolution \<Rightarrow> pystr \<Rightarrow> pystr option \<Rightarrow> (approval option \<times> event list \<times> instant) tx" where
  "grant_phase1 g rs who reason =
     (let ap = rs_approval rs; a = rs_action rs
      in tx_bind (require_resolvable_run (app_run_id ap)) (\<lambda>_.
         tx_bind (resolve_approval_row (app_id ap) AS_APPROVED who (rs_now rs) reason) (\<lambda>updated.
         tx_bind (append_event (app_run_id ap) EV_APPROVAL_GRANTED who
                    (''Approved action '' @ operation a @ '' on '' @ quoted (resource a) @ ''.'') (rs_now rs)
                    (approval_policy_evidence (current_policy_version g) (Some (rs_decision rs)) reason)
                    (approval_refs (act_id a) (app_id ap)) None) (\<lambda>ev_app.
         tx_bind utc_now (\<lambda>began.
         tx_bind (append_event (app_run_id ap) EV_EXECUTION_STARTED executor_name
                    (''Executing approved '' @ operation a @ '' on '' @ quoted (resource a) @ ''.'') began
                    [(''resource'', JStr (resource a))] (action_refs a) None) (\<lambda>ev_start.
           tx_return (updated, [ev_app, ev_start], began)))))))"

definition deny_phase1 ::
  "gateway \<Rightarrow> resolution \<Rightarrow> pystr \<Rightarrow> pystr option \<Rightarrow> (approval option \<times> event list \<times> receipt) tx" where
  "deny_phase1 g rs who reason =
     (let ap = rs_approval rs; a = rs_action rs
      in tx_bind (require_resolvable_run (app_run_id ap)) (\<lambda>_.
         tx_bind (resolve_approval_row (app_id ap) AS_DENIED who (rs_now rs) reason) (\<lambda>updated.
         tx_bind (append_event (app_run_id ap) EV_APPROVAL_DENIED who
                    (''Denied approval for action '' @ operation a @ '' on '' @ quoted (resource a) @ ''.'')
                    (rs_now rs)
                    (approval_policy_evidence (current_policy_version g) (Some (rs_decision rs)) reason)
                    (approval_refs (act_id a) (app_id ap)) None) (\<lambda>ev_app.
         tx_bind uuid4 (\<lambda>i.
         tx_bind (create_execution_receipt
                    (not_executed a i (rs_now rs) ''Human reviewer denied the approval request.''
                       ''APPROVAL_DENIED'')) (\<lambda>rc.
         tx_bind (pending_of_run (app_run_id ap)) (\<lambda>pending.
         tx_bind (tx_when (pending = []) (update_run_status (app_run_id ap) RS_ACTIVE (rs_now rs)))
           (\<lambda>_. tx_return (updated, [ev_app], rc)))))))))"

text \<open>After the outcome is recorded: the approval is spent, and an open run with nothing pending
  returns to ACTIVE (a run that went terminal meanwhile stays terminal).\<close>

definition settle_run :: "pystr \<Rightarrow> instant \<Rightarrow> unit tx" where
  "settle_run rid t =
     tx_bind (pending_of_run rid) (\<lambda>pending.
     tx_bind (get_run rid) (\<lambda>current.
       tx_when (pending = [] \<and> (case current of None \<Rightarrow> False | Some rn \<Rightarrow> open_status (run_st rn)))
         (update_run_status rid RS_ACTIVE t)))"

definition approved_failure ::
  "gateway \<Rightarrow> resolution \<Rightarrow> receipt \<Rightarrow> event tx" where
  "approved_failure g rs rc =
     (let ap = rs_approval rs; a = rs_action rs
      in tx_bind (record_failure g ''approved '' a rc None) (\<lambda>ev.
         tx_bind (consume_approval (app_id ap)) (\<lambda>_.
         tx_bind (settle_run (app_run_id ap) (completed_at rc)) (\<lambda>_. tx_return ev))))"

definition approved_outcome ::
  "gateway \<Rightarrow> resolution \<Rightarrow> receipt \<Rightarrow> event tx" where
  "approved_outcome g rs rc =
     (let ap = rs_approval rs; a = rs_action rs
      in tx_bind (record_outcome g ''approved '' a rc None) (\<lambda>ev.
         tx_bind (consume_approval (app_id ap)) (\<lambda>_.
         tx_bind (settle_run (app_run_id ap) (rs_now rs)) (\<lambda>_. tx_return ev))))"

definition approved_dispatch ::
  "gateway \<Rightarrow> resolution \<Rightarrow> path \<Rightarrow> approval \<Rightarrow> event list \<Rightarrow> instant
     \<Rightarrow> (approval \<times> event list \<times> receipt) tx" where
  "approved_dispatch g rs workspace updated evs began =
     (let a = rs_action rs; rid = app_run_id (rs_approval rs)
      in tx_bind (tx_try (gw_execute g a workspace (Some (rs_decision rs)) (Some updated) True
                            (Some (run_scope (rs_run rs)))
                            (Some (gw_workspace_key g (run_key (rs_run rs)))))) (\<lambda>res.
         case res of
           Inl e \<Rightarrow>
             tx_bind utc_now (\<lambda>failed_at.
             tx_bind uuid4 (\<lambda>i.
             tx_bind (db_transaction
                        (approved_failure g rs (failed_receipt a i began failed_at e))) (\<lambda>ev.
             tx_bind (publish_all rid (evs @ [ev])) (\<lambda>_. tx_raise (dispatch_error e)))))
         | Inr rc \<Rightarrow>
             tx_bind (db_transaction (approved_outcome g rs rc)) (\<lambda>ev.
               tx_return (updated\<lparr>app_status := AS_CONSUMED\<rparr>, evs @ [ev], rc))))"

definition grant_approval ::
  "gateway \<Rightarrow> resolution \<Rightarrow> pystr \<Rightarrow> pystr option
     \<Rightarrow> (approval option \<times> event list \<times> receipt option) tx" where
  "grant_approval g rs who reason =
     tx_bind (resolve_run_workspace g (rs_run rs)) (\<lambda>workspace.
     tx_bind (db_transaction (grant_phase1 g rs who reason)) (\<lambda>(updated, evs, began).
       case updated of
         None \<Rightarrow> tx_return (None, evs, None)
       | Some up \<Rightarrow>
           tx_bind (approved_dispatch g rs workspace up evs began) (\<lambda>(up', evs', rc).
             tx_return (Some up', evs', Some rc))))"

definition deny_approval ::
  "gateway \<Rightarrow> resolution \<Rightarrow> pystr \<Rightarrow> pystr option
     \<Rightarrow> (approval option \<times> event list \<times> receipt option) tx" where
  "deny_approval g rs who reason =
     tx_bind (db_transaction (deny_phase1 g rs who reason)) (\<lambda>(updated, evs, rc).
       tx_return (updated, evs, Some rc))"

definition conflict_error :: "exc \<Rightarrow> exc" where
  "conflict_error e =
     (case e of
        Repo_conflict msg \<Rightarrow> Api_error ''APPROVAL_CONFLICT'' msg 409
      | Repo_not_found msg \<Rightarrow> Api_error ''APPROVAL_CONFLICT'' msg 409
      | _ \<Rightarrow> e)"

definition resolve_approval ::
  "gateway \<Rightarrow> pystr \<Rightarrow> bool \<Rightarrow> pystr \<Rightarrow> pystr option \<Rightarrow> approval_response tx" where
  "resolve_approval g k approve who reason =
     tx_catch
       (tx_bind (load_resolution k approve) (\<lambda>rs.
        tx_bind (refuse_expired g rs) (\<lambda>_.
        tx_bind (if approve then grant_approval g rs who reason
                 else deny_approval g rs who reason) (\<lambda>(updated, evs, rc).
        tx_bind (publish_all (app_run_id (rs_approval rs)) evs) (\<lambda>_.
          case updated of
            None \<Rightarrow> tx_raise (Py_error ''ValidationError'' ''approval_request'')
          | Some up \<Rightarrow>
              tx_return \<lparr>res_approval = up, res_receipt = rc, res_events = evs\<rparr>)))))
       (\<lambda>e. tx_raise (conflict_error e))"

section \<open>Expiry\<close>

definition expire_wait_tx :: "gateway \<Rightarrow> pystr \<Rightarrow> (approval \<times> event option) tx" where
  "expire_wait_tx g k =
     tx_bind (get_approval_request k) (\<lambda>p. case p of
         None \<Rightarrow> tx_raise (Api_error ''APPROVAL_NOT_FOUND'' ''Approval request not found.'' 404)
       | Some ap \<Rightarrow>
           if app_status ap \<noteq> AS_PENDING then tx_return (ap, None)
           else
             tx_bind utc_now (\<lambda>now.
             let reason = ''Agent approval wait timed out.''
             in tx_bind (resolve_approval_row k AS_EXPIRED ''system'' now (Some reason)) (\<lambda>updated.
                case updated of None \<Rightarrow> tx_raise (Py_error ''AttributeError'' []) | Some up \<Rightarrow>
                tx_bind (append_event (app_run_id up) EV_APPROVAL_EXPIRED ''system''
                           (''Approval request '' @ quoted k @ '' expired after the agent review wait.'')
                           now
                           [(''expired_at'', JStr (gw_iso g now)), (''reason'', JStr reason),
                            (''policy_version'', opt_str (app_policy_version up))]
                           ((approval_refs (app_action_id up) (app_id up))
                              \<lparr>ref_decision := Some (app_decision_id up)\<rparr>) None) (\<lambda>ev.
                tx_bind (pending_of_run (app_run_id up)) (\<lambda>pending.
                tx_bind (get_run (app_run_id up)) (\<lambda>r.
                tx_bind (tx_when (pending = [] \<and> (case r of None \<Rightarrow> False
                                    | Some rn \<Rightarrow> run_st rn = RS_WAITING_FOR_APPROVAL))
                           (update_run_status (app_run_id up) RS_ACTIVE now))
                  (\<lambda>_. tx_return (up, Some ev))))))))"

definition expire_approval_wait :: "gateway \<Rightarrow> pystr \<Rightarrow> approval tx" where
  "expire_approval_wait g k =
     tx_bind (db_transaction (expire_wait_tx g k)) (\<lambda>(ap, ev).
     tx_bind (case ev of None \<Rightarrow> tx_return () | Some e \<Rightarrow> publish (app_run_id ap) e)
       (\<lambda>_. tx_return ap))"

text \<open>
  One turn of the reconciliation loop. Its body is inside \<open>try ... except Exception\<close>: whatever a
  failing turn wrote before it raised stays in the surrounding transaction.
\<close>

definition reconcile_one ::
  "gateway \<Rightarrow> instant \<Rightarrow> approval \<Rightarrow> (approval \<times> event) option tx" where
  "reconcile_one g now ap =
     tx_catch
       (tx_bind (tx_of_sum (from_isoformat (expires_at ap))) (\<lambda>expiry.
          if expiry < now then
            let reason = ''Approval request expired by TTL.''
            in tx_bind (resolve_approval_row (app_id ap) AS_EXPIRED ''system'' now (Some reason)) (\<lambda>_.
               tx_bind (get_policy_version_for_decision (app_decision_id ap)) (\<lambda>version.
               tx_bind (append_event (app_run_id ap) EV_APPROVAL_EXPIRED ''system''
                          (''Approval request '' @ quoted (app_id ap) @ '' expired by TTL.'') now
                          [(''expired_at'', JStr (stamp_text g (expires_at ap))),
                           (''policy_version'', opt_str version)]
                          (approval_refs (app_action_id ap) (app_id ap)) None) (\<lambda>ev.
                 tx_return (Some (resolved AS_EXPIRED ''system'' now (Some reason) ap, ev)))))
          else tx_return None))
       (\<lambda>e. tx_return None)"

fun reconcile_all ::
  "gateway \<Rightarrow> instant \<Rightarrow> approval list \<Rightarrow> (approval \<times> event) list tx" where
  "reconcile_all g now [] = tx_return []"
| "reconcile_all g now (ap # aps) =
     tx_bind (reconcile_one g now ap) (\<lambda>x.
     tx_bind (reconcile_all g now aps) (\<lambda>xs.
       tx_return (case x of None \<Rightarrow> xs | Some y \<Rightarrow> y # xs)))"

fun reactivate_runs :: "instant \<Rightarrow> pystr list \<Rightarrow> unit tx" where
  "reactivate_runs now [] = tx_return ()"
| "reactivate_runs now (rid # rids) =
     tx_bind (pending_of_run rid) (\<lambda>rem.
     tx_bind (get_run rid) (\<lambda>r.
     tx_bind (tx_when (rem = [] \<and> (case r of None \<Rightarrow> False
                         | Some rn \<Rightarrow> run_st rn = RS_WAITING_FOR_APPROVAL))
                (update_run_status rid RS_ACTIVE now))
       (\<lambda>_. reactivate_runs now rids)))"

fun publish_pairs :: "(pystr \<times> event) list \<Rightarrow> unit tx" where
  "publish_pairs [] = tx_return ()"
| "publish_pairs ((rid, ev) # rest) = tx_bind (publish rid ev) (\<lambda>_. publish_pairs rest)"

definition reconcile_tx :: "gateway \<Rightarrow> instant \<Rightarrow> approval list \<Rightarrow> (approval \<times> event) list tx" where
  "reconcile_tx g now pending =
     tx_bind (reconcile_all g now pending) (\<lambda>done.
     tx_bind (reactivate_runs now (remdups (map (\<lambda>x. app_run_id (fst x)) done)))
       (\<lambda>_. tx_return done))"

definition reconcile_expired_approvals ::
  "gateway \<Rightarrow> pystr option \<Rightarrow> approval list tx" where
  "reconcile_expired_approvals g rid =
     tx_bind utc_now (\<lambda>now.
     tx_bind (list_approvals None rid (Some AS_PENDING)) (\<lambda>pending.
     tx_bind (db_transaction (reconcile_tx g now pending)) (\<lambda>done.
     tx_bind (publish_pairs (map (\<lambda>x. (app_run_id (fst x), snd x)) done)) (\<lambda>_.
       tx_return (map fst done)))))"

definition list_approvals_service ::
  "gateway \<Rightarrow> approval_status option \<Rightarrow> pystr option \<Rightarrow> approval list tx" where
  "list_approvals_service g status_filter rid =
     tx_bind (if status_filter = None \<or> status_filter = Some AS_PENDING
              then tx_bind (reconcile_expired_approvals g rid) (\<lambda>_. tx_return ())
              else tx_return ()) (\<lambda>_.
       list_approvals None rid status_filter)"

section \<open>Reads\<close>

definition get_action :: "pystr \<Rightarrow> pystr \<Rightarrow> action_response tx" where
  "get_action rid action_id =
     tx_bind (get_action_request action_id) (\<lambda>a. case a of
         None \<Rightarrow> tx_raise (Api_error ''ACTION_NOT_FOUND''
                  (''Action '' @ quoted action_id @ '' not found for run '' @ quoted rid @ ''.'') 404)
       | Some act \<Rightarrow>
           if act_run_id act \<noteq> rid then
             tx_raise (Api_error ''ACTION_NOT_FOUND''
               (''Action '' @ quoted action_id @ '' not found for run '' @ quoted rid @ ''.'') 404)
           else
             tx_bind (get_policy_decision_by_action action_id) (\<lambda>d.
             tx_bind (get_approval_by_action action_id) (\<lambda>p.
             tx_bind (get_execution_receipt_by_action action_id) (\<lambda>rc.
             tx_bind (if truthy (act_audit_id act) then get_reasoning_audit (or_empty (act_audit_id act))
                      else tx_return None) (\<lambda>au.
               tx_return \<lparr>ar_action = act, ar_decision = d, ar_approval = p, ar_receipt = rc,
                          ar_events = [], ar_audit = au, ar_audit_id = act_audit_id act\<rparr>)))))"

definition get_events_service ::
  "pystr \<Rightarrow> int option \<Rightarrow> int option \<Rightarrow> event list tx" where
  "get_events_service rid after lim = tx_bind (require_run rid) (\<lambda>_. get_events rid after lim)"

end
