(* ===== verification/RunLifecycle.thy ===== *)
theory RunLifecycle
  imports Service
begin

text \<open>
  The run operations of \<open>service.py\<close>: creation (token budget, demo guards with the capacity
  reservation, workspace, the first transaction), reads, the prompt-version update, and closing a
  run as completed or failed.
\<close>

section \<open>Creation\<close>

definition agent_profile_name :: "environ \<Rightarrow> pystr" where
  "agent_profile_name env =
     (let p = (case env ''SCOPEWATCH_AGENT_PROFILE'' of None \<Rightarrow> ''mock'' | Some v \<Rightarrow> v)
      in if p = [] then ''mock'' else p)"

definition check_agent_token_budget :: "gateway \<Rightarrow> unit tx" where
  "check_agent_token_budget g =
     (let profile = agent_profile_name (gw_env g)
      in if is_mock_profile profile [] then tx_return ()
         else (case daily_token_budget_for (gw_env g) profile of
                 None \<Rightarrow> tx_return ()
               | Some budget \<Rightarrow>
                   tx_bind utc_now (\<lambda>now.
                   tx_bind (ledger_op (used_today profile now)) (\<lambda>used.
                     if budget \<le> used then
                       tx_bind utc_now (\<lambda>t. tx_raise (refuse_token_budget profile used budget t))
                     else tx_return ()))))"

definition token_budget_snapshot :: "gateway \<Rightarrow> json tx" where
  "token_budget_snapshot g =
     (let profile = agent_profile_name (gw_env g);
          mock = is_mock_profile profile [];
          budget = (if mock then None else daily_token_budget_for (gw_env g) profile)
      in tx_bind (if mock then tx_return 0
                  else tx_bind utc_now (\<lambda>now. ledger_op (used_today profile now))) (\<lambda>used.
           tx_return (JObj [(''agent_profile'', JStr profile), (''used_today'', JInt used),
                            (''budget'', opt_int budget)])))"

definition raise_if_denied :: "guard_decision \<Rightarrow> exc + unit" where
  "raise_if_denied d =
     (if gd_allowed d then Inr ()
      else Inl (Guard_refusal (nat (gd_status d)) (gd_code d) (gd_message d) (gd_retry_s d)))"

definition begin_run_guard :: "gateway \<Rightarrow> pystr option \<Rightarrow> unit tx" where
  "begin_run_guard g ip =
     tx_bind utc_now (\<lambda>now.
     tx_bind utc_now (\<lambda>day_now.
       guard_op (\<lambda>gs. let (r, gs') = try_begin_run (gw_guards g) ip now day_now gs
                      in (case r of Inl cls \<Rightarrow> Inl (Py_error cls ''deque index out of range'')
                                  | Inr d \<Rightarrow> raise_if_denied d, gs'))))"

definition count_busy_runs :: "int tx" where
  "count_busy_runs =
     tx_bind list_runs (\<lambda>rs.
       tx_return (int (length (filter (\<lambda>r. run_status_value (run_st r) \<in> set BUSY_RUN_STATUSES) rs))))"

definition reserve_capacity :: "gateway \<Rightarrow> unit tx" where
  "reserve_capacity g =
     tx_bind count_busy_runs (\<lambda>busy.
     tx_bind (pending_op id) (\<lambda>pending.
       case raise_if_denied (check_concurrent (gw_guards g) (busy + pending)) of
         Inl e \<Rightarrow> tx_raise e
       | Inr _ \<Rightarrow> tx_bind (pending_op (\<lambda>n. n + 1)) (\<lambda>_. tx_return ())))"

definition coverage_text :: pystr where
  "coverage_text =
     ''This local baseline mediates only actions submitted through its synthetic demo gateway. ''
     @ ''It does not intercept arbitrary host or agent operations.''"

definition availability_text :: pystr where
  "availability_text =
     ''Provider traces unavailable in local baseline. Agent-authored summaries or ''
     @ ''synthetic fixtures are labeled explicitly.''"

definition new_run ::
  "pystr \<Rightarrow> pystr \<Rightarrow> task_scope \<Rightarrow> instant \<Rightarrow> pystr option \<Rightarrow> path \<Rightarrow> run" where
  "new_run rid name scope now prompt workspace =
     \<lparr>run_key = rid, run_name = name, run_scope = scope, run_st = RS_ACTIVE, run_created_at = now,
      run_updated_at = now, run_synthetic = True, interception_coverage = coverage_text,
      reasoning_availability = availability_text, prompt_version = prompt,
      workspace_path = Some (path_text workspace)\<rparr>"

definition run_created_details ::
  "gateway \<Rightarrow> task_scope \<Rightarrow> json \<Rightarrow> pystr option \<Rightarrow> pystr \<Rightarrow> jobj" where
  "run_created_details g sc budget prompt rid =
     (let strs = (\<lambda>ss. JArr (map JStr ss))
      in [(''task_description'', JStr (task_description sc)),
          (''allowed_paths'', strs (allowed_paths sc)), (''blocked_paths'', strs (blocked_paths sc)),
          (''allowed_tools'', strs (allowed_tools sc)),
          (''allowed_operations'', strs (allowed_operations sc)),
          (''requires_approval'', strs (requires_approval sc)), (''token_budget'', budget),
          (''prompt_version'', opt_str prompt),
          (''run_workspace'', JStr (gw_workspace_key g rid)), (''workspace_isolated'', JBool True)])"

definition initialize_workspace :: "gateway \<Rightarrow> pystr \<Rightarrow> path tx" where
  "initialize_workspace g rid =
     tx_catch (disk_op (gw_initialize_workspace g rid))
       (\<lambda>e. tx_raise (workspace_error ''Could not initialize an isolated workspace for this run.'' e))"

definition create_run_tx :: "gateway \<Rightarrow> run \<Rightarrow> pystr option \<Rightarrow> event tx" where
  "create_run_tx g r prompt =
     tx_bind (create_run r) (\<lambda>_.
     tx_bind (token_budget_snapshot g) (\<lambda>budget.
       append_event (run_key r) EV_RUN_CREATED ''system''
         (''Run '' @ quoted (run_name r) @ '' initialized with task scope.'') (run_created_at r)
         (run_created_details g (run_scope r) budget prompt (run_key r)) no_refs None))"

definition materialize_run ::
  "gateway \<Rightarrow> pystr \<Rightarrow> task_scope \<Rightarrow> pystr option \<Rightarrow> (run \<times> event list) tx" where
  "materialize_run g name scope prompt =
     tx_bind uuid4 (\<lambda>rid.
     tx_bind utc_now (\<lambda>now.
     tx_bind (initialize_workspace g rid) (\<lambda>workspace.
       let r = new_run rid name scope now prompt workspace
       in tx_bind (db_transaction (create_run_tx g r prompt)) (\<lambda>ev.
            tx_return (r, [ev])))))"

text \<open>
  \<open>finally\<close> and \<open>except BaseException\<close> around the guarded part: a capacity reservation is always
  returned, a daily-run reservation only when the creation failed.
\<close>

definition create_run_service ::
  "gateway \<Rightarrow> pystr \<Rightarrow> task_scope \<Rightarrow> pystr option \<Rightarrow> pystr option \<Rightarrow> (run \<times> event list) tx" where
  "create_run_service g name scope ip prompt =
     tx_bind (check_agent_token_budget g) (\<lambda>_.
       if gc_enabled (gw_guards g) then
         tx_bind (begin_run_guard g ip) (\<lambda>_.
         tx_catch
           (tx_bind (reserve_capacity g) (\<lambda>_.
            tx_bind (tx_try (materialize_run g name scope prompt)) (\<lambda>res.
            tx_bind (pending_op (\<lambda>n. max 0 (n - 1))) (\<lambda>_. tx_of_sum res))))
           (\<lambda>e. tx_bind (guard_op (\<lambda>gs. (Inr (), release_run gs))) (\<lambda>_. tx_raise e)))
       else materialize_run g name scope prompt)"

section \<open>Reads and small updates\<close>

definition get_run_service :: "pystr \<Rightarrow> run tx" where
  "get_run_service rid = require_run rid"

definition get_run_workspace :: "gateway \<Rightarrow> pystr \<Rightarrow> path tx" where
  "get_run_workspace g rid = tx_bind (require_run rid) (resolve_run_workspace g)"

definition set_run_prompt_version :: "pystr \<Rightarrow> pystr \<Rightarrow> run tx" where
  "set_run_prompt_version rid v =
     tx_bind (require_run rid) (\<lambda>r.
     tx_bind utc_now (\<lambda>now.
     tx_bind (db_transaction (update_run_prompt_version rid v now)) (\<lambda>_.
     tx_bind (get_run rid) (\<lambda>updated.
       tx_return (case updated of None \<Rightarrow> r | Some u \<Rightarrow> u)))))"

section \<open>Closing a run\<close>

definition in_flight_error :: exc where
  "in_flight_error =
     Api_error ''APPROVED_ACTION_IN_FLIGHT'' ''An action is still executing; retry once it finishes.'' 409"

definition check_deadline :: "int option \<Rightarrow> instant \<Rightarrow> unit tx" where
  "check_deadline budget began =
     (case budget of
        None \<Rightarrow> tx_return ()
      | Some b \<Rightarrow>
          tx_bind utc_now (\<lambda>t.
            if b \<le> t - began then
              tx_raise (Api_error ''COMPLETION_DEADLINE_EXCEEDED''
                ''Completion deadline exceeded while waiting for the run lock.'' 409)
            else tx_return ()))"

definition close_run_tx ::
  "pystr \<Rightarrow> run_status \<Rightarrow> event_type \<Rightarrow> (pystr \<Rightarrow> pystr) \<Rightarrow> jobj \<Rightarrow> int option \<Rightarrow> instant \<Rightarrow> instant
     \<Rightarrow> (run \<times> event) tx" where
  "close_run_tx rid new_status ty summary details budget began now =
     tx_bind (check_deadline budget began) (\<lambda>_.
     tx_bind (require_run rid) (\<lambda>r.
     tx_bind (has_in_flight_executions (Some rid)) (\<lambda>busy.
       if busy then tx_raise in_flight_error
       else
         tx_bind (get_events rid None None) (\<lambda>evs.
           if set (started_actions evs) - set (finished_actions evs) \<noteq> {} then tx_raise in_flight_error
           else
             tx_bind (update_run_status rid new_status now) (\<lambda>_.
             tx_bind (append_event rid ty DEMO_REVIEWER_ID (summary (run_name r)) now details no_refs None)
               (\<lambda>ev. tx_return (r, ev)))))))"

definition close_run ::
  "pystr \<Rightarrow> run_status \<Rightarrow> event_type \<Rightarrow> (pystr \<Rightarrow> pystr) \<Rightarrow> jobj \<Rightarrow> int option
     \<Rightarrow> (run \<times> event) tx" where
  "close_run rid new_status ty summary details budget =
     tx_bind utc_now (\<lambda>began.
     tx_bind (require_run rid) (\<lambda>_.
     tx_bind utc_now (\<lambda>now.
     tx_bind (db_transaction (close_run_tx rid new_status ty summary details budget began now))
       (\<lambda>(r, ev).
     tx_bind (publish rid ev) (\<lambda>_.
       tx_return (r\<lparr>run_st := new_status, run_updated_at := now\<rparr>, ev))))))"

definition complete_run :: "pystr \<Rightarrow> int option \<Rightarrow> (run \<times> event) tx" where
  "complete_run rid budget =
     close_run rid RS_COMPLETED EV_RUN_COMPLETED
       (\<lambda>name. ''Run '' @ quoted name @ '' was marked COMPLETED.'') [] budget"

definition fail_run :: "pystr \<Rightarrow> pystr \<Rightarrow> (run \<times> event) tx" where
  "fail_run rid reason =
     close_run rid RS_FAILED EV_SYSTEM_ERROR
       (\<lambda>name. ''Run '' @ quoted name @ '' was marked FAILED: '' @ reason)
       [(''reason'', JStr reason)] None"

end
