(* ===== verification/ServiceContract.thy ===== *)
theory ServiceContract
  imports ResolveApproval RunLifecycle
begin

text \<open>
  The repository contract carried up to the service: a relation that satisfies
  \<open>repository_contract\<close> is kept by every transaction and every handler of the service, given that
  the executor only reads the database (\<open>executor_backend\<close>). What the contract gives for the
  store's well-formedness, the append-only evidence and the approval life cycle is stated for
  arbitrary sequences of the service's requests (the demo administration is in \<open>HttpApp\<close>).
\<close>

section \<open>Handlers keep the contract\<close>

lemma keeps_case_prod: "(\<And>a b. keeps R (f a b)) \<Longrightarrow> keeps R (case p of (a, b) \<Rightarrow> f a b)"
  by (cases p) simp

lemma keeps_case_sum:
  "(\<And>e. keeps R (f e)) \<Longrightarrow> (\<And>x. keeps R (h x)) \<Longrightarrow> keeps R (case s of Inl e \<Rightarrow> f e | Inr x \<Rightarrow> h x)"
  by (cases s) simp_all

lemma keeps_case_bool:
  "keeps R m \<Longrightarrow> keeps R n \<Longrightarrow> keeps R (case b of True \<Rightarrow> m | False \<Rightarrow> n)"
  by (cases b) simp_all

text \<open>Every event type but the one that announces a dispatch.\<close>

definition quiet_events :: "event_type set" where
  "quiet_events = - {EV_EXECUTION_STARTED}"

lemma quiet_event: "quiet_events \<subseteq> EV \<Longrightarrow> ty \<noteq> EV_EXECUTION_STARTED \<Longrightarrow> ty \<in> EV"
  by (auto simp: quiet_events_def)

text \<open>The administrative ones: no dispatch announced, none recorded.\<close>

definition desk_events :: "event_type set" where
  "desk_events = - {EV_EXECUTION_STARTED, EV_EXECUTION_SUCCEEDED, EV_EXECUTION_FAILED}"

lemma desk_event:
  "desk_events \<subseteq> EV \<Longrightarrow> ty \<notin> {EV_EXECUTION_STARTED, EV_EXECUTION_SUCCEEDED, EV_EXECUTION_FAILED}
     \<Longrightarrow> ty \<in> EV"
  by (auto simp: desk_events_def)

lemma quiet_desk: "quiet_events \<subseteq> EV \<Longrightarrow> desk_events \<subseteq> EV"
  by (auto simp: quiet_events_def desk_events_def)

text \<open>Every event type but the two that record an outcome.\<close>

definition open_events :: "event_type set" where
  "open_events = - {EV_EXECUTION_SUCCEEDED, EV_EXECUTION_FAILED}"

lemma open_event:
  "open_events \<subseteq> EV \<Longrightarrow> ty \<notin> {EV_EXECUTION_SUCCEEDED, EV_EXECUTION_FAILED} \<Longrightarrow> ty \<in> EV"
  by (auto simp: open_events_def)

definition open_statuses :: "run_status set" where
  "open_statuses = {RS_ACTIVE, RS_WAITING_FOR_APPROVAL}"

lemma open_status_in: "open_statuses \<subseteq> ST \<Longrightarrow> RS_ACTIVE \<in> ST" "open_statuses \<subseteq> ST \<Longrightarrow> RS_WAITING_FOR_APPROVAL \<in> ST"
  by (auto simp: open_statuses_def)

context repository_contract
begin

lemma keeps_try: "keeps R m \<Longrightarrow> keeps R (tx_try m)"
  unfolding keeps_def tx_try_def by (auto split: prod.splits) (metis snd_conv)

lemma keeps_of_sum: "keeps R (tx_of_sum r)"
  by (cases r) (simp_all add: tx_of_sum_def keeps_return keeps_raise)

lemma keeps_disk_reads: "keeps R (read_disk f)"
  by (simp add: read_disk_def keeps_other_state)

lemma keeps_same: "keeps (=) m \<Longrightarrow> keeps R m"
  by (auto simp: keeps_def) (metis refl)

lemma keeps_pure: "keeps R (Pair x)"
  by (simp add: keeps_def refl)

lemmas keeps_all =
  open_status_in keeps_pure keeps_rules keeps_repository keeps_try keeps_of_sum keeps_disk_reads keeps_case_prod
  keeps_case_sum

lemma keeps_require_run: "keeps R (require_run rid)"
  unfolding require_run_def by (intro keeps_all)

lemma keeps_resolve_workspace: "keeps R (resolve_run_workspace g r)"
  unfolding resolve_run_workspace_def by (intro keeps_all)

lemma keeps_run_policy: "keeps R (run_policy g a r ws)"
  unfolding run_policy_def by (intro keeps_all)

lemma keeps_required: "keeps R (required_reasoning_decision a r d en)"
  unfolding required_reasoning_decision_def Let_def by (intro keeps_all)

lemma keeps_preview: "keeps R (preview_action g rid q)"
proof -
  have e: "keeps R (case e of Py_error c m \<Rightarrow> n1 c m | _ \<Rightarrow> tx_raise e)"
    if "\<And>c m. keeps R (n1 c m)" for e n1 using that by (cases e) (simp_all add: keeps_raise)
  show ?thesis
    unfolding preview_action_def Let_def
    by (intro keeps_all e keeps_require_run keeps_run_policy keeps_required)
qed

lemma keeps_audit: "keeps R (audited_decision g r a turn d en)"
  unfolding audited_decision_def obtain_audit_def fresh_audit_def reserve_estimate_def
    merge_audit_def escalated_def Let_def
  by (intro keeps_all)

lemma keeps_final_decision: "keeps R (final_decision g r a turn d en)"
  unfolding final_decision_def by (intro keeps_all keeps_required keeps_audit)

lemma keeps_prepare: "keeps R (prepare_submission g rid q cred)"
  unfolding prepare_submission_def credential_check_def require_submittable_run_def admit_action_def Let_def
  by (intro keeps_all keeps_require_run keeps_resolve_workspace keeps_run_policy
      keeps_final_decision)

lemma keeps_append_audited: "open_events \<subseteq> EV \<Longrightarrow> keeps R (append_audited ss)"
  by (auto simp: append_audited_def audit_event_of_def split: option.split
      intro!: keeps_all open_event)

lemma keeps_phase1:
  assumes "open_events \<subseteq> EV" SUB "open_statuses \<subseteq> ST"
  shows "keeps R (submit_phase1 g ss)"
proof -
  have oc: "keeps R (case oc of PO_ALLOW \<Rightarrow> m1 | PO_DENY \<Rightarrow> m2 | PO_HOLD \<Rightarrow> m3)"
    if "keeps R m1" "keeps R m2" "keeps R m3" for oc and m1 m2 m3 :: "'z tx"
    using that by (cases oc) simp_all
  show ?thesis
    unfolding submit_phase1_def require_open_run_def store_audit_def append_requested_def
      phase1_allow_def dispatching_def phase1_hold_def phase1_deny_def Let_def
    by (intro keeps_all oc keeps_append_audited[OF assms(1)]) (simp_all add: assms open_event[OF assms(1)])
qed

lemma keeps_record:
  assumes "quiet_events \<subseteq> EV"
  shows "keeps R (record_failure g label a rc turn)" "keeps R (record_outcome g label a rc turn)"
  unfolding record_failure_def record_outcome_def Let_def
  by (intro keeps_all quiet_event[OF assms]; simp)+

lemma keeps_submit_dispatch:
  assumes "quiet_events \<subseteq> EV" and "executor_backend (gw_execute g)"
  shows "keeps R (submit_dispatch g ss fresh began evs)"
  unfolding submit_dispatch_def Let_def
  by (intro keeps_all keeps_record keeps_same assms executor_backend.db_frame[OF assms(2)])

lemma keeps_submit:
  assumes "EV = UNIV" SUB "open_statuses \<subseteq> ST" and "executor_backend (gw_execute g)"
  shows "keeps R (submit_action g rid q cred)"
proof -
  have i: "keeps R (case i of Dispatch b \<Rightarrow> m1 b | Await p \<Rightarrow> m2 p | Refused rc \<Rightarrow> m3 rc)"
    if "\<And>b. keeps R (m1 b)" "\<And>p. keeps R (m2 p)" "\<And>rc. keeps R (m3 rc)"
    for i and m1 :: "instant \<Rightarrow> 'z tx" and m2 m3
    using that by (cases i) simp_all
  show ?thesis
    unfolding submit_action_def
    by (intro keeps_all i keeps_prepare keeps_phase1 keeps_submit_dispatch assms)
       (simp_all add: assms)
qed

lemma keeps_load_resolution: "keeps R (load_resolution k approve)"
  unfolding load_resolution_def load_approval_def require_resolvable_run_def
  by (intro keeps_all)

lemma keeps_expire_on_resolve: "desk_events \<subseteq> EV \<Longrightarrow> open_statuses \<subseteq> ST \<Longrightarrow> keeps R (expire_on_resolve g rs)"
  unfolding expire_on_resolve_def require_resolvable_run_def pending_of_run_def Let_def
  by (intro keeps_all) (simp_all add: desk_event)

lemma keeps_refuse_expired: "desk_events \<subseteq> EV \<Longrightarrow> open_statuses \<subseteq> ST \<Longrightarrow> keeps R (refuse_expired g rs)"
  unfolding refuse_expired_def by (intro keeps_all keeps_expire_on_resolve)

lemma keeps_grant_phase1: "open_events \<subseteq> EV \<Longrightarrow> keeps R (grant_phase1 g rs who reason)"
  unfolding grant_phase1_def require_resolvable_run_def Let_def
  by (intro keeps_all) (simp_all add: open_event)

lemma keeps_deny_phase1: "desk_events \<subseteq> EV \<Longrightarrow> open_statuses \<subseteq> ST \<Longrightarrow> keeps R (deny_phase1 g rs who reason)"
  unfolding deny_phase1_def require_resolvable_run_def pending_of_run_def Let_def
  by (intro keeps_all) (simp_all add: desk_event)

lemma keeps_settle: "open_statuses \<subseteq> ST \<Longrightarrow> keeps R (settle_run rid t)"
  unfolding settle_run_def pending_of_run_def by (intro keeps_all)

lemma keeps_approved_record:
  "quiet_events \<subseteq> EV \<Longrightarrow> open_statuses \<subseteq> ST \<Longrightarrow> keeps R (approved_failure g rs rc)"
  "quiet_events \<subseteq> EV \<Longrightarrow> open_statuses \<subseteq> ST \<Longrightarrow> keeps R (approved_outcome g rs rc)"
  unfolding approved_failure_def approved_outcome_def Let_def
  by (intro keeps_all keeps_record keeps_settle; simp)+

lemma keeps_approved_dispatch:
  assumes "quiet_events \<subseteq> EV" "open_statuses \<subseteq> ST" and "executor_backend (gw_execute g)"
  shows "keeps R (approved_dispatch g rs ws up evs began)"
  unfolding approved_dispatch_def Let_def
  by (intro keeps_all keeps_approved_record keeps_same assms
      executor_backend.db_frame[OF assms(3)])

lemma keeps_resolve:
  assumes "EV = UNIV" "open_statuses \<subseteq> ST" and "executor_backend (gw_execute g)"
  shows "keeps R (resolve_approval g k approve who reason)"
  unfolding resolve_approval_def grant_approval_def deny_approval_def
  by (intro keeps_all keeps_load_resolution keeps_refuse_expired keeps_resolve_workspace
      keeps_grant_phase1 keeps_deny_phase1 keeps_approved_dispatch assms)
     (simp_all add: assms)

lemma keeps_expire_wait_tx: "desk_events \<subseteq> EV \<Longrightarrow> open_statuses \<subseteq> ST \<Longrightarrow> keeps R (expire_wait_tx g k)"
  unfolding expire_wait_tx_def pending_of_run_def Let_def by (intro keeps_all) (simp_all add: desk_event)

lemma keeps_expire_wait: "desk_events \<subseteq> EV \<Longrightarrow> open_statuses \<subseteq> ST \<Longrightarrow> keeps R (expire_approval_wait g k)"
  unfolding expire_approval_wait_def by (intro keeps_all keeps_expire_wait_tx)

lemma keeps_reconcile_all: "desk_events \<subseteq> EV \<Longrightarrow> keeps R (reconcile_all g now aps)"
proof (induction aps)
  case (Cons ap aps)
  have "keeps R (reconcile_one g now ap)"
    unfolding reconcile_one_def Let_def by (intro keeps_all) (simp add: desk_event Cons.prems)
  with Cons show ?case by (auto intro!: keeps_all)
qed (simp add: keeps_return)

lemma keeps_reactivate: "open_statuses \<subseteq> ST \<Longrightarrow> keeps R (reactivate_runs now rids)"
  by (induction rids) (auto simp: pending_of_run_def intro!: keeps_all)

lemma keeps_publish_pairs: "keeps R (publish_pairs ps)"
  by (induction ps rule: publish_pairs.induct) (auto intro!: keeps_all)

lemma keeps_reconcile_tx: "desk_events \<subseteq> EV \<Longrightarrow> open_statuses \<subseteq> ST \<Longrightarrow> keeps R (reconcile_tx g now aps)"
  unfolding reconcile_tx_def by (intro keeps_all keeps_reconcile_all keeps_reactivate)

lemma keeps_reconcile: "desk_events \<subseteq> EV \<Longrightarrow> open_statuses \<subseteq> ST \<Longrightarrow> keeps R (reconcile_expired_approvals g rid)"
  unfolding reconcile_expired_approvals_def
  by (intro keeps_all keeps_reconcile_tx keeps_publish_pairs)

lemma keeps_create_run_tx: "desk_events \<subseteq> EV \<Longrightarrow> keeps R (create_run_tx g r prompt)"
  unfolding create_run_tx_def token_budget_snapshot_def Let_def
  by (intro keeps_all) (simp_all add: desk_event)

lemma keeps_materialize: "desk_events \<subseteq> EV \<Longrightarrow> keeps R (materialize_run g name sc prompt)"
  unfolding materialize_run_def initialize_workspace_def Let_def
  by (intro keeps_all keeps_create_run_tx)

lemma keeps_begin_run: "keeps R (check_agent_token_budget g)" "keeps R (begin_run_guard g ip)"
    "keeps R (reserve_capacity g)"
  unfolding check_agent_token_budget_def begin_run_guard_def reserve_capacity_def
    count_busy_runs_def
  by (simp_all only: Let_def) (intro keeps_all)+

lemma keeps_create_run_service: "desk_events \<subseteq> EV \<Longrightarrow> keeps R (create_run_service g name sc ip prompt)"
  unfolding create_run_service_def
  by (intro keeps_all keeps_begin_run keeps_materialize)

lemma keeps_set_prompt: "keeps R (set_run_prompt_version rid v)"
  unfolding set_run_prompt_version_def by (intro keeps_all keeps_require_run)

lemma keeps_in_flight: "keeps R (has_in_flight_executions rid)"
  unfolding has_in_flight_executions_def in_flight_action_ids_def by (intro keeps_all)

lemma keeps_close_tx: "ty \<in> EV \<Longrightarrow> st \<in> ST \<Longrightarrow> keeps R (close_run_tx rid st ty sm dt b bg now)"
  unfolding close_run_tx_def check_deadline_def
  by (intro keeps_all keeps_require_run keeps_in_flight) simp_all

lemma keeps_close: "ty \<in> EV \<Longrightarrow> st \<in> ST \<Longrightarrow> keeps R (close_run rid st ty sm dt b)"
  unfolding close_run_def by (intro keeps_all keeps_require_run keeps_close_tx)

end

section \<open>Sequences of requests\<close>

text \<open>
  The public methods of the service that reach the database, as the routes call them: each is
  one request, and a request that raises leaves the world its handler leaves. The demo administration
  (\<open>app.py\<close>) is not a method of the service and comes with the routes.
\<close>

datatype service_request =
    Req_create_run pystr task_scope "pystr option" "pystr option"
  | Req_prompt_version pystr pystr
  | Req_preview pystr submit_request
  | Req_submit pystr submit_request "pystr option"
  | Req_resolve pystr bool pystr "pystr option"
  | Req_expire_wait pystr
  | Req_list_approvals "approval_status option" "pystr option"
  | Req_get_action pystr pystr
  | Req_events pystr "int option" "int option"
  | Req_workspace pystr
  | Req_complete pystr "int option"
  | Req_fail pystr pystr

fun serve :: "gateway \<Rightarrow> service_request \<Rightarrow> world \<Rightarrow> world" where
  "serve g (Req_create_run name sc ip prompt) w = snd (create_run_service g name sc ip prompt w)"
| "serve g (Req_prompt_version rid v) w = snd (set_run_prompt_version rid v w)"
| "serve g (Req_preview rid q) w = snd (preview_action g rid q w)"
| "serve g (Req_submit rid q cred) w = snd (submit_action g rid q cred w)"
| "serve g (Req_resolve k approve who reason) w = snd (resolve_approval g k approve who reason w)"
| "serve g (Req_expire_wait k) w = snd (expire_approval_wait g k w)"
| "serve g (Req_list_approvals st rid) w = snd (list_approvals_service g st rid w)"
| "serve g (Req_get_action rid a) w = snd (get_action rid a w)"
| "serve g (Req_events rid after lim) w = snd (get_events_service rid after lim w)"
| "serve g (Req_workspace rid) w = snd (get_run_workspace g rid w)"
| "serve g (Req_complete rid budget) w = snd (complete_run rid budget w)"
| "serve g (Req_fail rid reason) w = snd (fail_run rid reason w)"

definition serve_all :: "gateway \<Rightarrow> service_request list \<Rightarrow> world \<Rightarrow> world" where
  "serve_all g reqs w = fold (serve g) reqs w"

context repository_contract
begin

lemma keeps_list_approvals_service:
  "desk_events \<subseteq> EV \<Longrightarrow> open_statuses \<subseteq> ST \<Longrightarrow> keeps R (list_approvals_service g st rid)"
  unfolding list_approvals_service_def by (intro keeps_all keeps_reconcile)

lemma keeps_service_reads:
  "keeps R (get_action rid a)" "keeps R (get_events_service rid after lim)"
  "keeps R (get_run_workspace g rid)"
  unfolding get_action_def get_events_service_def get_run_workspace_def
  by (intro keeps_all keeps_require_run keeps_resolve_workspace)+

lemma serve_keeps:
  assumes "EV = UNIV" SUB "ST = UNIV" and "executor_backend (gw_execute g)"
  shows "R (db w) (db (serve g q w))"
proof -
  have fin: "keeps R (complete_run rid b)" "keeps R (fail_run rid x)" for rid b x
    unfolding complete_run_def fail_run_def by (rule keeps_close; simp add: assms)+
  have k: "keeps R m \<Longrightarrow> R (db w) (db (snd (m w)))" for m :: "'z tx" by (simp add: keeps_def)
  have q: "desk_events \<subseteq> EV" "open_statuses \<subseteq> ST" using assms(1,3) by simp_all
  show ?thesis
    by (cases q; simp only: serve.simps; rule k;
        intro keeps_create_run_service keeps_set_prompt keeps_preview keeps_submit keeps_resolve
          keeps_expire_wait keeps_list_approvals_service keeps_service_reads fin assms q)
qed

lemma serve_all_keeps:
  assumes "EV = UNIV" SUB "ST = UNIV" and "executor_backend (gw_execute g)"
  shows "R (db w) (db (serve_all g reqs w))"
  unfolding serve_all_def
proof (induction reqs arbitrary: w)
  case (Cons q reqs)
  show ?case
    using trans[OF serve_keeps[OF assms, of w q] Cons[of "serve g q w"]] by simp
qed (simp add: refl)

end

text \<open>
  C23: the database stays well formed under any sequence of service requests. Whatever the service is
  asked to do, in whatever order, with requests that fail at any point, a well-formed store stays
  well formed: primary keys are unique, every foreign key has its row, no action has two PENDING
  approvals, and every run's event sequence is 1, 2, 3, ... without a gap.
\<close>

theorem requests_keep_store_wf:
  assumes "executor_backend (gw_execute g)" and "wf_store (db w)"
  shows "wf_store (db (serve_all g reqs w))"
  using wf.serve_all_keeps[OF _ _ _ assms(1), of w reqs] assms(2) by (simp add: wf_kept_def)

text \<open>The service's own requests never reset the demo, so they only extend the evidence.\<close>

lemma service_requests_only_append:
  assumes "executor_backend (gw_execute g)"
  shows "append_only (db w) (db (serve_all g reqs w))
       \<and> approvals_forward (db w) (db (serve_all g reqs w))"
  using append.serve_all_keeps[OF _ _ _ assms, of w reqs]
    forward.serve_all_keeps[OF _ _ _ assms, of w reqs] by simp

section \<open>A gateway over the local backend\<close>

definition default_guards :: guard_config where
  "default_guards = config_from_env (\<lambda>_. None)"

definition demo_gateway :: gateway where
  "demo_gateway =
     \<lparr>gw_env = (\<lambda>_. None), gw_sha256 = id, gw_dumps = (\<lambda>_. ''policy''), gw_iso = (\<lambda>_. ''t''),
      gw_python = ''python'', gw_capture_token = None, gw_guards = default_guards,
      gw_expiry_us = 300000000, gw_resolve_workspace = (\<lambda>_ _ d. (Inr [''ws''], d)),
      gw_initialize_workspace = (\<lambda>_ d. (Inr [''ws''], d)), gw_workspace_key = id,
      gw_audit = (\<lambda>r a turn text recent l.
        (\<lparr>ar_verdict = RV_NO_CONCERN, ar_concern = None, ar_excerpts = [], ar_explanation = [],
          ar_model = ''mock'', ar_profile = ''mock'', ar_latency = 0,
          ar_total_tokens = None, ar_error_code = None, ar_tiers = []\<rparr>, l)),
      gw_execute = (\<lambda>a ws dec app st scope key. execute_local demo_os a ws dec app st scope)\<rparr>"

lemma demo_gateway_backend: "executor_backend (gw_execute demo_gateway)"
  using local_backend.executor_backend_axioms by (simp add: demo_gateway_def)

definition demo_submit :: "pystr \<Rightarrow> pystr \<Rightarrow> jobj \<Rightarrow> submit_request" where
  "demo_submit oper res args =
     \<lparr>sr_tool = ''workspace'', sr_operation = oper, sr_resource = res, sr_arguments = args,
      sr_requested_by = None, sr_reasoning_summary = Some ''per the task'', sr_exposed_trace = None,
      sr_provenance = None, sr_turn_id = None\<rparr>"

text \<open>A write that is held, whose review then times out; then the run is failed.\<close>

definition demo_requests :: "service_request list" where
  "demo_requests =
     [Req_submit ''r1'' (demo_submit ''write_text'' ''outputs/a.txt'' [(''content'', JStr ''hi'')]) None,
      Req_expire_wait ''id6'', Req_fail ''r1'' ''stopped'']"

definition demo_final :: store where
  "demo_final = db (serve_all demo_gateway demo_requests (demo_world demo_store))"

definition digest_of ::
  "store \<Rightarrow> event_type list \<times> approval_status list \<times> run_status list" where
  "digest_of s = (map ev_type (events_t s), map app_status (approvals_t s), map run_st (runs_t s))"

lemma demo_final_digest:
  "digest_of demo_final =
     ([EV_ACTION_REQUESTED, EV_REASONING_AUDIT_COMPLETED, EV_POLICY_HELD, EV_APPROVAL_REQUESTED,
       EV_APPROVAL_EXPIRED, EV_SYSTEM_ERROR], [AS_EXPIRED], [RS_FAILED])"
  by code_simp

lemmas demo_final_contents = demo_final_digest[unfolded digest_of_def]

lemma demo_store_wf: "wf_store demo_store"
  by (simp add: demo_store_def empty_store_def wf_defs pending_for_def run_events_def
      run_exists_def)

theorem requests_keep_store_wf_witness:
  "wf_store demo_final \<and> map run_st (runs_t demo_final) = [RS_FAILED]"
  using requests_keep_store_wf[OF demo_gateway_backend, of "demo_world demo_store" demo_requests]
    demo_store_wf demo_final_contents
  by (simp add: demo_final_def demo_world_def)

end
