(* ===== verification/Escalation.thy ===== *)
theory Escalation
  imports ServiceContract
begin

text \<open>
  The reasoning layer over the policy (\<open>_required_reasoning_decision\<close>, \<open>_run_reasoning_audit\<close>'s
  merge in \<open>submit_action\<close>): it can only make a decision stricter.
\<close>

section \<open>Strictness\<close>

definition strictness :: "policy_outcome \<Rightarrow> nat" where
  "strictness oc = (case oc of PO_ALLOW \<Rightarrow> 0 | PO_HOLD \<Rightarrow> 1 | PO_DENY \<Rightarrow> 2)"

lemma strictness_simps [simp]:
  "strictness PO_ALLOW = 0" "strictness PO_HOLD = 1" "strictness PO_DENY = 2"
  by (simp_all add: strictness_def)

text \<open>What one stage may do to a decision of the policy.\<close>

definition escalates :: "decision \<Rightarrow> decision \<Rightarrow> bool" where
  "escalates d e \<longleftrightarrow>
     strictness (outcome d) \<le> strictness (outcome e)
     \<and> dec_action_id e = dec_action_id d \<and> policy_version e = policy_version d
     \<and> (outcome d \<noteq> PO_ALLOW \<or> outcome e = PO_ALLOW \<longrightarrow>
          e = d\<lparr>dec_audit_id := dec_audit_id e\<rparr>)
     \<and> (outcome d = PO_DENY \<longrightarrow> e = d)"

lemma escalates_refl: "escalates d d"
  by (simp add: escalates_def)

lemma escalates_deny: "escalates d e \<Longrightarrow> outcome d = PO_DENY \<Longrightarrow> e = d"
  by (simp add: escalates_def)

lemma outcome_audit_id [simp]: "outcome (d\<lparr>dec_audit_id := u\<rparr>) = outcome d"
  by simp

lemma escalates_trans:
  assumes "escalates d e" and "escalates e f"
  shows "escalates d f"
proof -
  from assms have "strictness (outcome d) \<le> strictness (outcome f)"
    "dec_action_id f = dec_action_id d" "policy_version f = policy_version d"
    by (auto simp: escalates_def)
  moreover have "f = d" if "outcome d = PO_DENY"
    using assms that by (auto simp: escalates_def)
  moreover have "f = d\<lparr>dec_audit_id := dec_audit_id f\<rparr>"
    if h: "outcome d \<noteq> PO_ALLOW \<or> outcome f = PO_ALLOW"
  proof -
    from h assms have "outcome d \<noteq> PO_ALLOW \<or> outcome e = PO_ALLOW"
      by (cases "outcome e"; cases "outcome f") (auto simp: escalates_def)
    with assms(1) have e: "e = d\<lparr>dec_audit_id := dec_audit_id e\<rparr>"
      unfolding escalates_def by blast
    have "outcome e = outcome d" by (subst e) simp
    with h assms(2) have f: "f = e\<lparr>dec_audit_id := dec_audit_id f\<rparr>"
      unfolding escalates_def by metis
    show ?thesis by (subst f, subst e) simp
  qed
  ultimately show ?thesis unfolding escalates_def by blast
qed

lemma required_reasoning_escalates:
  assumes "required_reasoning_decision a r d en w = (Inr (e, missing), w')"
    and "dec_action_id d = act_id a"
  shows "escalates d e \<and> missing = reasoning_missing a r en
       \<and> (outcome e = PO_ALLOW \<longrightarrow> e = d \<and> missing = None)"
  using assms
  by (auto simp: required_reasoning_decision_def Let_def tx_bind_Inr uuid4_def utc_now_def
      escalates_def split: if_splits)

lemma merge_audit_escalates:
  assumes "merge_audit a rec v d w = (Inr e, w')"
    and "dec_action_id d = act_id a" and "v = policy_version d"
  shows "escalates d e \<and> (outcome e = PO_ALLOW \<longrightarrow> e = d \<and> verdict rec = ''NO_CONCERN'')"
  using assms
  by (auto simp: merge_audit_def escalated_def tx_bind_Inr uuid4_def utc_now_def escalates_def
      split: if_splits)

lemma audited_escalates:
  assumes "audited_decision g r a turn d en w = (Inr (a', e, au), w')"
    and "dec_action_id d = act_id a"
  shows "escalates d e \<and> a' = a\<lparr>act_audit_id := act_audit_id a'\<rparr>
       \<and> (outcome e = PO_ALLOW \<and> en \<and> audit_trace_text a \<noteq> [] \<longrightarrow>
            (\<exists>rec fresh. au = Some (rec, fresh) \<and> verdict rec = ''NO_CONCERN''
               \<and> dec_audit_id e = Some (aud_id rec)))"
proof (cases "outcome d \<noteq> PO_DENY \<and> en \<and> audit_trace_text a \<noteq> []")
  case True
  let ?d = "\<lambda>rec. d\<lparr>dec_audit_id := Some (aud_id rec)\<rparr>"
  from assms(1) True obtain rec fresh w1 where
    merge: "merge_audit (a\<lparr>act_audit_id := Some (aud_id rec)\<rparr>) rec (policy_version d) (?d rec) w1
              = (Inr e, w')"
    and a': "a' = a\<lparr>act_audit_id := Some (aud_id rec)\<rparr>" and au: "au = Some (rec, fresh)"
    by (auto simp: audited_decision_def tx_bind_Inr Let_def)
  from merge_audit_escalates[OF merge] assms(2) have
    "escalates (?d rec) e" "outcome e = PO_ALLOW \<longrightarrow> e = ?d rec \<and> verdict rec = ''NO_CONCERN''"
    by auto
  moreover have "escalates d (?d rec)" using True by (auto simp: escalates_def)
  ultimately show ?thesis using a' au by (auto dest: escalates_trans)
next
  case False
  with assms(1) show ?thesis by (auto simp: audited_decision_def escalates_refl)
qed

lemma final_decision_escalates:
  assumes "final_decision g r a turn d0 en w = (Inr (a', d, au, missing), w')"
    and "dec_action_id d0 = act_id a"
  shows "escalates d0 d \<and> a' = a\<lparr>act_audit_id := act_audit_id a'\<rparr>
       \<and> missing = reasoning_missing a r en
       \<and> (outcome d = PO_ALLOW \<longrightarrow> missing = None
           \<and> (en \<and> audit_trace_text a \<noteq> [] \<longrightarrow>
                (\<exists>rec fresh. au = Some (rec, fresh) \<and> verdict rec = ''NO_CONCERN''
                   \<and> dec_audit_id d = Some (aud_id rec))))"
proof -
  from assms(1) obtain d1 m1 d2 w1 w2 where
    1: "required_reasoning_decision a r d0 en w = (Inr (d1, m1), w1)" and
    2: "required_reasoning_decision a r d1 en w1 = (Inr (d2, missing), w2)" and
    3: "audited_decision g r a turn d2 en w2 = (Inr (a', d, au), w')"
    by (auto simp: final_decision_def tx_bind_Inr)
  from required_reasoning_escalates[OF 1 assms(2)] have e1: "escalates d0 d1" by simp
  with assms(2) have i1: "dec_action_id d1 = act_id a" by (simp add: escalates_def)
  from required_reasoning_escalates[OF 2 i1] have e2: "escalates d1 d2"
    and m: "missing = reasoning_missing a r en"
    and ok: "outcome d2 = PO_ALLOW \<longrightarrow> missing = None" by auto
  with i1 have i2: "dec_action_id d2 = act_id a" by (simp add: escalates_def)
  from audited_escalates[OF 3 i2] have e3: "escalates d2 d" and
    rest: "a' = a\<lparr>act_audit_id := act_audit_id a'\<rparr>"
      "outcome d = PO_ALLOW \<and> en \<and> audit_trace_text a \<noteq> [] \<longrightarrow>
         (\<exists>rec fresh. au = Some (rec, fresh) \<and> verdict rec = ''NO_CONCERN''
            \<and> dec_audit_id d = Some (aud_id rec))" by auto
  have "outcome d2 = PO_ALLOW" if "outcome d = PO_ALLOW"
    using e3 that by (cases "outcome d2") (auto simp: escalates_def)
  with ok rest m escalates_trans[OF escalates_trans[OF e1 e2] e3] show ?thesis by blast
qed

section \<open>Properties\<close>

text \<open>
  C19: the reasoning layer only escalates. From the policy's decision to the one that is recorded,
  the outcome never becomes less strict, a DENY is returned untouched, a HOLD keeps its reason
  code and rule, and the policy version stays the one that was evaluated. An ALLOW survives only
  when the scope's reasoning requirement is met and, whenever the audit is enabled and there is
  text to audit, an audit with verdict NO_CONCERN that the decision refers to.
\<close>

theorem reasoning_only_escalates:
  assumes "final_decision g r a turn d0 en w = (Inr (a', d, au, missing), w')"
    and "dec_action_id d0 = act_id a"
  shows "strictness (outcome d0) \<le> strictness (outcome d)
       \<and> (outcome d0 = PO_DENY \<longrightarrow> d = d0)
       \<and> (outcome d0 = PO_HOLD \<longrightarrow> outcome d = PO_HOLD \<and> reason_code d = reason_code d0
            \<and> matched_rule d = matched_rule d0)
       \<and> policy_version d = policy_version d0 \<and> dec_action_id d = act_id a'
       \<and> (outcome d = PO_ALLOW \<longrightarrow>
            (operation a \<in> set (require_reasoning_for (run_scope r)) \<longrightarrow>
               en \<and> reasoning_evidence a \<noteq> [])
            \<and> (en \<and> audit_trace_text a \<noteq> [] \<longrightarrow>
                 (\<exists>rec fresh. au = Some (rec, fresh) \<and> verdict rec = ''NO_CONCERN''
                    \<and> dec_audit_id d = Some (aud_id rec))))"
proof -
  from final_decision_escalates[OF assms] have esc: "escalates d0 d"
    and a': "a' = a\<lparr>act_audit_id := act_audit_id a'\<rparr>"
    and m: "missing = reasoning_missing a r en"
    and allow: "outcome d = PO_ALLOW \<longrightarrow> missing = None
           \<and> (en \<and> audit_trace_text a \<noteq> [] \<longrightarrow>
                (\<exists>rec fresh. au = Some (rec, fresh) \<and> verdict rec = ''NO_CONCERN''
                   \<and> dec_audit_id d = Some (aud_id rec)))" by auto
  have hold: "d = d0\<lparr>dec_audit_id := dec_audit_id d\<rparr>" if "outcome d0 = PO_HOLD"
    using esc that by (simp add: escalates_def)
  have "outcome d = PO_HOLD" "reason_code d = reason_code d0" "matched_rule d = matched_rule d0"
    if "outcome d0 = PO_HOLD" using that by (subst hold; simp)+
  moreover have "act_id a' = act_id a" by (subst a') simp
  moreover have "reasoning_missing a r en = None \<Longrightarrow>
      operation a \<in> set (require_reasoning_for (run_scope r)) \<Longrightarrow> en \<and> reasoning_evidence a \<noteq> []"
    by (auto simp: reasoning_missing_def split: if_splits)
  ultimately show ?thesis
    using esc assms(2) m allow by (auto simp: escalates_def)
qed

definition concerned_gateway :: gateway where
  "concerned_gateway = demo_gateway
     \<lparr>gw_audit := (\<lambda>r a turn text recent l.
        (failed_audit ''mock'' ''mock'' ''AUDIT_TIMEOUT'', l))\<rparr>"

definition demo_traced :: action where
  "demo_traced = (demo_action ''read_text'' ''invoices/approved/a.txt'' [])
     \<lparr>exposed_trace := Some ''read the approved invoice''\<rparr>"

definition demo_escalation ::
  "(exc + action \<times> decision \<times> (audit \<times> int) option \<times> pystr option) \<times> world" where
  "demo_escalation =
     final_decision concerned_gateway demo_run demo_traced ''t1''
       (demo_decision PO_ALLOW demo_traced) True (demo_world demo_store)"

theorem reasoning_only_escalates_witness:
  "case fst demo_escalation of Inl e \<Rightarrow> False
   | Inr (a', d, au, missing) \<Rightarrow>
       outcome d = PO_HOLD \<and> strictness PO_ALLOW \<le> strictness (outcome d)
       \<and> policy_version d = Some ''v''"
proof -
  have ex: "case fst demo_escalation of Inl e \<Rightarrow> False | Inr (a', d, x) \<Rightarrow> outcome d = PO_HOLD"
    by code_simp
  then obtain a' d au missing where r: "fst demo_escalation = Inr (a', d, au, missing)"
    and hold: "outcome d = PO_HOLD" by (auto split: sum.splits)
  have run: "final_decision concerned_gateway demo_run demo_traced ''t1''
      (demo_decision PO_ALLOW demo_traced) True (demo_world demo_store)
        = (Inr (a', d, au, missing), snd demo_escalation)"
    using r unfolding demo_escalation_def by (metis prod.collapse)
  have "dec_action_id (demo_decision PO_ALLOW demo_traced) = act_id demo_traced"
    by (simp add: demo_decision_def)
  from reasoning_only_escalates[OF run this] r hold show ?thesis by (simp add: demo_decision_def)
qed

end
