(* ===== verification/Journal.thy ===== *)
theory Journal
  imports Escalation
begin

text \<open>
  What the evidence says about dispatches: the store invariant behind "every action is handed to
  the executor at most once, and only after the evidence that permits it is committed". An
  \<open>EXECUTION_STARTED\<close> event is appended in two places only, phase 1 of a submission and phase 1
  of an approval; every other transaction keeps the invariant by the repository contract.
\<close>

section \<open>The invariant\<close>

definition starts :: "pystr \<Rightarrow> store \<Rightarrow> event list" where
  "starts a s =
     filter (\<lambda>e. ev_type e = EV_EXECUTION_STARTED \<and> ev_action_id e = Some a) (events_t s)"

definition approvals_for :: "pystr \<Rightarrow> store \<Rightarrow> approval list" where
  "approvals_for a s = filter (\<lambda>p. app_action_id p = a) (approvals_t s)"

definition permits :: "event \<Rightarrow> event \<Rightarrow> bool" where
  "permits x e \<longleftrightarrow>
     ev_type x \<in> {EV_POLICY_ALLOWED, EV_APPROVAL_GRANTED} \<and> ev_action_id x = ev_action_id e"

text \<open>Every dispatch is preceded by the event that permits it.\<close>

definition justified :: "event list \<Rightarrow> bool" where
  "justified es \<longleftrightarrow>
     (\<forall>ys e zs. es = ys @ e # zs \<and> ev_type e = EV_EXECUTION_STARTED \<longrightarrow> (\<exists>x \<in> set ys. permits x e))"

text \<open>The decision, or the approval of a held one, that stands behind a started action.\<close>

definition warranted :: "pystr \<Rightarrow> store \<Rightarrow> bool" where
  "warranted a s \<longleftrightarrow>
     (\<exists>d \<in> set (decisions_t s). dec_action_id d = a \<and> outcome d = PO_ALLOW)
     \<or> (\<exists>p \<in> set (approvals_t s). app_action_id p = a \<and> app_status p \<in> {AS_APPROVED, AS_CONSUMED})"

definition starts_ok :: "store \<Rightarrow> bool" where
  "starts_ok s \<longleftrightarrow>
     (\<forall>a. length (starts a s) \<le> 1) \<and> justified (events_t s)
     \<and> (\<forall>e \<in> set (events_t s). ev_type e = EV_EXECUTION_STARTED \<longrightarrow>
          (\<exists>a \<in> set (actions_t s). ev_action_id e = Some (act_id a) \<and> ev_run_id e = act_run_id a
             \<and> warranted (act_id a) s))"

definition approvals_ok :: "store \<Rightarrow> bool" where
  "approvals_ok s \<longleftrightarrow>
     (\<forall>a. length (approvals_for a s) \<le> 1)
     \<and> (\<forall>p \<in> set (approvals_t s).
          (app_status p = AS_PENDING \<longrightarrow> starts (app_action_id p) s = [])
          \<and> (\<exists>a \<in> set (actions_t s). act_id a = app_action_id p \<and> act_run_id a = app_run_id p)
          \<and> (\<forall>d \<in> set (decisions_t s). dec_action_id d = app_action_id p \<longrightarrow> outcome d = PO_HOLD))"

definition sound_store :: "store \<Rightarrow> bool" where
  "sound_store s \<longleftrightarrow>
     wf_store s \<and> starts_ok s \<and> approvals_ok s
     \<and> distinct (map dec_action_id (decisions_t s)) \<and> (\<forall>a \<in> set (actions_t s). act_id a \<noteq> [])"

definition sound_kept :: "store \<Rightarrow> store \<Rightarrow> bool" where
  "sound_kept s t \<longleftrightarrow> (sound_store s \<longrightarrow> sound_store t)"

lemma sound_empty: "sound_store empty_store"
  using wf_empty
  by (simp add: sound_store_def starts_ok_def approvals_ok_def justified_def starts_def
      approvals_for_def empty_store_def)

section \<open>The invariant depends on four tables\<close>

lemma starts_cong: "events_t t = events_t s \<Longrightarrow> starts a t = starts a s"
  by (simp add: starts_def)

text \<open>An approval table related row by row to the old one, no resolved row reopened.\<close>

definition row_forward :: "approval \<Rightarrow> approval \<Rightarrow> bool" where
  "row_forward p q \<longleftrightarrow>
     app_action_id q = app_action_id p \<and> app_run_id q = app_run_id p
     \<and> (app_status q = AS_PENDING \<longrightarrow> app_status p = AS_PENDING)
     \<and> (app_status p \<in> {AS_APPROVED, AS_CONSUMED} \<longrightarrow> app_status q \<in> {AS_APPROVED, AS_CONSUMED})"

lemma row_forward_refl: "row_forward p p"
  by (simp add: row_forward_def)

lemma rows_forward_length:
  "list_all2 row_forward ps qs \<Longrightarrow>
     length (filter (\<lambda>p. app_action_id p = a) qs) = length (filter (\<lambda>p. app_action_id p = a) ps)"
  by (induction rule: list_all2_induct) (auto simp: row_forward_def)

lemma rows_forward_in:
  "list_all2 row_forward ps qs \<Longrightarrow> q \<in> set qs \<Longrightarrow> \<exists>p \<in> set ps. row_forward p q"
  "list_all2 row_forward ps qs \<Longrightarrow> p \<in> set ps \<Longrightarrow> \<exists>q \<in> set qs. row_forward p q"
  by (induction rule: list_all2_induct) auto

lemma quiet_append:
  "\<forall>e \<in> set es. ev_type e \<noteq> EV_EXECUTION_STARTED \<Longrightarrow> events_t t = events_t s @ es \<Longrightarrow>
     starts a t = starts a s"
  by (auto simp: starts_def filter_empty_conv)

lemma justified_append:
  assumes "justified xs" and "\<forall>e \<in> set es. ev_type e \<noteq> EV_EXECUTION_STARTED"
  shows "justified (xs @ es)"
  unfolding justified_def
proof (intro allI impI, elim conjE)
  fix ys e zs assume split: "xs @ es = ys @ e # zs" and st: "ev_type e = EV_EXECUTION_STARTED"
  from split consider us where "xs = ys @ us" "us @ es = e # zs"
    | us where "xs @ us = ys" "es = us @ e # zs"
    by (auto simp: append_eq_append_conv2)
  then show "\<exists>x \<in> set ys. permits x e"
  proof cases
    case 1
    with st assms(2) obtain us' where "us = e # us'" by (cases us) auto
    with 1 st assms(1) show ?thesis unfolding justified_def by blast
  qed (use st assms(2) in auto)
qed

lemma justified_start:
  assumes "justified xs" and "x \<in> set xs" and "permits x e"
  shows "justified (xs @ [e])"
  unfolding justified_def
proof (intro allI impI, elim conjE)
  fix ys f zs assume split: "xs @ [e] = ys @ f # zs" and st: "ev_type f = EV_EXECUTION_STARTED"
  show "\<exists>x \<in> set ys. permits x f"
  proof (cases zs rule: rev_cases)
    case Nil
    with split assms(2,3) show ?thesis by auto
  next
    case (snoc zs' z)
    with split have "xs = ys @ f # zs'" by (metis append.assoc append_Cons butlast_snoc)
    with assms(1) st show ?thesis unfolding justified_def by blast
  qed
qed

lemma warranted_mono:
  assumes "warranted a s" and "set (decisions_t s) \<subseteq> set (decisions_t t)"
    and "list_all2 row_forward (approvals_t s) qs" and "set qs \<subseteq> set (approvals_t t)"
  shows "warranted a t"
  using assms(1) unfolding warranted_def
proof (elim disjE bexE)
  fix p assume "p \<in> set (approvals_t s)"
    and h: "app_action_id p = a \<and> app_status p \<in> {AS_APPROVED, AS_CONSUMED}"
  with rows_forward_in(2)[OF assms(3)] obtain q where "q \<in> set qs" "row_forward p q" by blast
  with h assms(4) show "(\<exists>d \<in> set (decisions_t t). dec_action_id d = a \<and> outcome d = PO_ALLOW)
      \<or> (\<exists>p \<in> set (approvals_t t). app_action_id p = a \<and> app_status p \<in> {AS_APPROVED, AS_CONSUMED})"
    unfolding row_forward_def by (metis subsetD)
qed (use assms(2) in blast)

text \<open>The frame of every transaction that neither submits nor starts.\<close>

lemma sound_frame:
  assumes sound: "sound_store s" and wf: "wf_store t"
    and acts: "actions_t t = actions_t s" and decs: "decisions_t t = decisions_t s"
    and apps: "list_all2 row_forward (approvals_t s) (approvals_t t)"
    and evs: "events_t t = events_t s @ es" "\<forall>e \<in> set es. ev_type e \<noteq> EV_EXECUTION_STARTED"
  shows "sound_store t"
proof -
  have st: "starts a t = starts a s" for a using quiet_append[OF evs(2,1)] .
  have wt: "warranted a s \<Longrightarrow> warranted a t" for a
    using warranted_mono[OF _ _ apps, of a t] decs by simp
  have ao: "approvals_ok s" "starts_ok s" using sound by (simp_all add: sound_store_def)
  have "approvals_ok t"
    unfolding approvals_ok_def approvals_for_def rows_forward_length[OF apps] st acts decs
  proof (intro conjI ballI)
    show "\<forall>a. length (filter (\<lambda>p. app_action_id p = a) (approvals_t s)) \<le> 1"
      using ao(1) by (simp add: approvals_ok_def approvals_for_def)
    fix q assume "q \<in> set (approvals_t t)"
    then obtain p where p: "p \<in> set (approvals_t s)" "row_forward p q"
      using rows_forward_in(1)[OF apps] by blast
    then have same: "app_action_id q = app_action_id p" "app_run_id q = app_run_id p"
      "app_status q = AS_PENDING \<Longrightarrow> app_status p = AS_PENDING"
      by (auto simp: row_forward_def)
    show "app_status q = AS_PENDING \<longrightarrow> starts (app_action_id q) s = []"
      "\<exists>a \<in> set (actions_t s). act_id a = app_action_id q \<and> act_run_id a = app_run_id q"
      using ao(1) p(1) same by (auto simp: approvals_ok_def)
    fix d assume "d \<in> set (decisions_t s)"
    then show "dec_action_id d = app_action_id q \<longrightarrow> outcome d = PO_HOLD"
      using ao(1) p(1) same by (auto simp: approvals_ok_def)
  qed
  moreover have "starts_ok t"
    using ao(2) justified_append[OF _ evs(2)] wt evs st unfolding starts_ok_def acts
    by (auto; blast)
  ultimately show ?thesis using sound wf acts decs by (simp add: sound_store_def)
qed

lemma rows_same: "list_all2 row_forward ps ps"
  by (simp add: list_all2_refl row_forward_refl)

lemma rows_map: "(\<And>p. row_forward p (f p)) \<Longrightarrow> list_all2 row_forward ps (map f ps)"
  by (rule list_all2_map_right)

interpretation sound: repository_contract sound_kept quiet_events False UNIV
proof
  fix r :: run and s assume "\<not> run_exists (run_key r) s"
  then show "sound_kept s (s\<lparr>runs_t := runs_t s @ [r]\<rparr>)"
    using wf.run_insert[of r s] sound_frame[of s _ "[]"] rows_same
    by (auto simp: sound_kept_def wf_kept_def sound_store_def[of s])
next
  fix f :: "run \<Rightarrow> run" and k s assume "\<And>r. run_key (f r) = run_key r" "\<And>r. run_st (f r) = run_st r"
  then show "sound_kept s (map_run k f s)"
    using wf.run_update[of f s k] sound_frame[of s "map_run k f s" "[]"] rows_same
    by (auto simp: sound_kept_def wf_kept_def sound_store_def[of s] map_run_def)
next
  fix s k st t
  show "sound_kept s (map_run k (\<lambda>r. r\<lparr>run_st := st, run_updated_at := t\<rparr>) s)"
    using wf.run_status sound_frame[of s _ "[]"] rows_same
    by (auto simp: sound_kept_def wf_kept_def sound_store_def[of s] map_run_def)
next
  fix u :: audit and s assume "aud_id u \<notin> aud_id ` set (audits_t s)" "run_exists (aud_run_id u) s"
  then show "sound_kept s (s\<lparr>audits_t := audits_t s @ [u]\<rparr>)"
    using wf.audit_insert[of u s] sound_frame[of s _ "[]"] rows_same
    by (auto simp: sound_kept_def wf_kept_def sound_store_def[of s])
next
  fix x :: receipt and s assume "rec_id x \<notin> rec_id ` set (receipts_t s)" "action_exists (rec_action_id x) s"
  then show "sound_kept s (s\<lparr>receipts_t := receipts_t s @ [x]\<rparr>)"
    using wf.receipt_insert[of x s] sound_frame[of s _ "[]"] rows_same
    by (auto simp: sound_kept_def wf_kept_def sound_store_def[of s])
next
  fix e :: event and s assume "ev_type e \<in> quiet_events" "ev_sequence e = next_sequence (ev_run_id e) s"
    "event_insert_ok e s"
  then show "sound_kept s (s\<lparr>events_t := events_t s @ [e]\<rparr>)"
    using wf.event_insert[of e s] sound_frame[of s _ "[e]"] rows_same
    by (auto simp: sound_kept_def wf_kept_def sound_store_def[of s] quiet_events_def)
next
  fix s k st who t reason
  have "list_all2 row_forward (approvals_t s) (approvals_t
          (map_approval k (\<lambda>p. app_status p = AS_PENDING) (resolved st who t reason) s))"
    by (auto simp: map_approval_def row_forward_def resolved_def intro!: rows_map)
  then show "sound_kept s (map_approval k (\<lambda>p. app_status p = AS_PENDING) (resolved st who t reason) s)"
    using wf.approval_resolve[of s k st who t reason] sound_frame[of s _ "[]"]
    by (auto simp: sound_kept_def wf_kept_def sound_store_def[of s] map_approval_def)
next
  fix s k
  have "list_all2 row_forward (approvals_t s) (approvals_t
          (map_approval k (\<lambda>p. app_status p = AS_APPROVED) (\<lambda>p. p\<lparr>app_status := AS_CONSUMED\<rparr>) s))"
    by (auto simp: map_approval_def row_forward_def intro!: rows_map)
  then show "sound_kept s (map_approval k (\<lambda>p. app_status p = AS_APPROVED)
               (\<lambda>p. p\<lparr>app_status := AS_CONSUMED\<rparr>) s)"
    using wf.approval_consume[of s k] sound_frame[of s _ "[]"]
    by (auto simp: sound_kept_def wf_kept_def sound_store_def[of s] map_approval_def)
qed (auto simp: sound_kept_def)

section \<open>What phase 1 of a submission commits\<close>

definition quiet_list :: "event list \<Rightarrow> bool" where
  "quiet_list es \<longleftrightarrow> (\<forall>e \<in> set es. ev_type e \<noteq> EV_EXECUTION_STARTED)"

lemma quiet_list_simps [simp]:
  "quiet_list []" "quiet_list (e # es) \<longleftrightarrow> ev_type e \<noteq> EV_EXECUTION_STARTED \<and> quiet_list es"
  "quiet_list (es @ fs) \<longleftrightarrow> quiet_list es \<and> quiet_list fs"
  by (auto simp: quiet_list_def)

lemma insert_row_Inr:
  "insert_row ok f w = (Inr u, w') \<longleftrightarrow> ok (db w) \<and> w' = w\<lparr>db := f (db w)\<rparr>"
  by (auto simp: insert_row_def tx_bind_Inr)

text \<open>
  \<open>effect k s t acts decs apps evs\<close>: the rows of a submission a transaction adds, with changes
  to the row of run \<open>k\<close> only.
\<close>

definition effect ::
  "pystr \<Rightarrow> store \<Rightarrow> store \<Rightarrow> action list \<Rightarrow> decision list \<Rightarrow> approval list \<Rightarrow> event list \<Rightarrow> bool" where
  "effect k s t acts decs apps evs \<longleftrightarrow>
     (\<exists>f. (\<forall>r. run_key (f r) = run_key r)
        \<and> runs_t t = map (\<lambda>r. if run_key r = k then f r else r) (runs_t s))
     \<and> actions_t t = actions_t s @ acts \<and> decisions_t t = decisions_t s @ decs
     \<and> approvals_t t = approvals_t s @ apps \<and> events_t t = events_t s @ evs"

lemma effectI:
  assumes "runs_t t = runs_t s" "actions_t t = actions_t s @ acts"
    "decisions_t t = decisions_t s @ decs" "approvals_t t = approvals_t s @ apps"
    "events_t t = events_t s @ evs"
  shows "effect k s t acts decs apps evs"
  unfolding effect_def using assms by (auto intro!: exI[of _ "\<lambda>r. r"])

lemma effect_status: "effect k s (map_run k (\<lambda>r. r\<lparr>run_st := st, run_updated_at := t\<rparr>) s) [] [] [] []"
  unfolding effect_def map_run_def
  by (auto intro: exI[of _ "\<lambda>r. r\<lparr>run_st := st, run_updated_at := t\<rparr>"])

lemma effect_trans:
  assumes "effect k s t as ds ps es" and "effect k t u as' ds' ps' es'"
  shows "effect k s u (as @ as') (ds @ ds') (ps @ ps') (es @ es')"
proof -
  from assms obtain f g where
    "\<forall>r. run_key (f r) = run_key r" "\<forall>r. run_key (g r) = run_key r"
    "runs_t t = map (\<lambda>r. if run_key r = k then f r else r) (runs_t s)"
    "runs_t u = map (\<lambda>r. if run_key r = k then g r else r) (runs_t t)"
    unfolding effect_def by blast
  then have "\<exists>h. (\<forall>r. run_key (h r) = run_key r)
      \<and> runs_t u = map (\<lambda>r. if run_key r = k then h r else r) (runs_t s)"
    by (intro exI[of _ "g \<circ> f"]) auto
  with assms show ?thesis unfolding effect_def by simp
qed

lemma append_event_Inr:
  "append_event k ty actor summary t details refs turn w = (Inr ev, w') \<Longrightarrow>
     \<exists>e. effect j (db w) (db w') [] [] [] [e] \<and> ev_run_id e = k \<and> ev_type e = ty
       \<and> ev_action_id e = ref_action refs"
  by (auto simp: append_event_def tx_bind_Inr Let_def insert_row_Inr uuid4_def
      intro!: effectI split: sum.splits)

lemma draws_Inr:
  "uuid4 w = (Inr i, w') \<Longrightarrow> effect j (db w) (db w') [] [] [] []"
  "utc_now w = (Inr t, w') \<Longrightarrow> effect j (db w) (db w') [] [] [] []"
  by (auto simp: uuid4_def utc_now_def intro!: effectI)

lemma creates_Inr:
  "create_action_request a w = (Inr x, w') \<Longrightarrow>
     \<not> action_exists (act_id a) (db w) \<and> effect j (db w) (db w') [a] [] [] []"
  "create_policy_decision d w = (Inr y, w') \<Longrightarrow> effect j (db w) (db w') [] [d] [] []"
  "create_approval_request p w = (Inr z, w') \<Longrightarrow> effect j (db w) (db w') [] [] [approval_row p] []"
  "create_execution_receipt rc w = (Inr v, w') \<Longrightarrow> v = rc \<and> effect j (db w) (db w') [] [] [] []"
  by (auto simp: create_action_request_def create_policy_decision_def create_approval_request_def
      create_execution_receipt_def tx_bind_Inr insert_row_Inr intro!: effectI split: if_splits)

lemma store_audit_Inr: "store_audit ss w = (Inr u, w') \<Longrightarrow> effect j (db w) (db w') [] [] [] []"
  by (auto simp: store_audit_def tx_bind_Inr get_reasoning_audit_def create_reasoning_audit_def
      insert_row_Inr intro!: effectI split: option.splits prod.splits if_splits)

lemma append_requested_Inr:
  "append_requested ss w = (Inr ev, w') \<Longrightarrow>
     \<exists>e. effect j (db w) (db w') [] [] [] [e] \<and> ev_type e = EV_ACTION_REQUESTED"
  unfolding append_requested_def Let_def by (drule append_event_Inr) blast

lemma append_audited_Inr:
  assumes "append_audited ss w = (Inr evs, w')"
  shows "\<exists>es. effect j (db w) (db w') [] [] [] es \<and> quiet_list es"
proof (cases "ss_audit ss")
  case None
  with assms show ?thesis by (intro exI[of _ "[]"]) (auto simp: append_audited_def intro!: effectI)
next
  case (Some x)
  have "\<exists>es. effect j (db w) (db w') [] [] [] es \<and> quiet_list es"
    if "append_event k ty c s t d r tu w = (Inr ev, w')" "ty \<noteq> EV_EXECUTION_STARTED"
    for k ty c s t d r tu ev
    using append_event_Inr[OF that(1)] that(2) by (metis quiet_list_simps(1,2))
  with assms Some show ?thesis
    by (auto simp: append_audited_def audit_event_of_def tx_bind_Inr
        split: if_splits prod.splits)
qed

definition started_by :: "action \<Rightarrow> event_type \<Rightarrow> event \<Rightarrow> event \<Rightarrow> bool" where
  "started_by a ty x e \<longleftrightarrow>
     ev_type x = ty \<and> ev_action_id x = Some (act_id a) \<and> ev_type e = EV_EXECUTION_STARTED
     \<and> ev_action_id e = Some (act_id a) \<and> ev_run_id e = act_run_id a"

lemma phase1_allow_Inr:
  assumes "phase1_allow ss w = (Inr (evs, began), w')"
  shows "\<exists>x e. effect j (db w) (db w') [] [] [] [x, e]
     \<and> started_by (ss_action ss) EV_POLICY_ALLOWED x e"
proof -
  let ?a = "ss_action ss"
  from assms obtain ev1 ev2 w1 w2 where
    1: "\<exists>ac su dt. append_event (act_run_id ?a) EV_POLICY_ALLOWED ac su (decided_at (ss_decision ss))
          dt (decision_refs ss) (turn_id ?a) w = (Inr ev1, w1)"
    and 2: "utc_now w1 = (Inr began, w2)"
    and 3: "\<exists>su dt. append_event (act_run_id ?a) EV_EXECUTION_STARTED executor_name su began
          dt (action_refs ?a) (turn_id ?a) w2 = (Inr ev2, w')"
    unfolding phase1_allow_def dispatching_def Let_def by (simp add: tx_bind_Inr) blast
  from 1 obtain x where x: "effect j (db w) (db w1) [] [] [] [x]" "ev_type x = EV_POLICY_ALLOWED"
    "ev_action_id x = Some (act_id ?a)"
    by (force simp: decision_refs_def dest!: append_event_Inr[where j = j])
  from 3 obtain e where e: "effect j (db w2) (db w') [] [] [] [e]"
    "ev_type e = EV_EXECUTION_STARTED" "ev_action_id e = Some (act_id ?a)" "ev_run_id e = act_run_id ?a"
    by (force simp: action_refs_def dest!: append_event_Inr[where j = j])
  from effect_trans[OF effect_trans[OF x(1) draws_Inr(2)[OF 2]] e(1)] x e show ?thesis
    unfolding started_by_def by auto
qed

lemma phase1_hold_Inr:
  assumes "phase1_hold g ss w = (Inr (evs, p), w')"
  shows "\<exists>es. effect (act_run_id (ss_action ss)) (db w) (db w') [] [] [approval_row p] es
     \<and> quiet_list es \<and> app_status p = AS_PENDING \<and> app_action_id p = act_id (ss_action ss)
     \<and> app_run_id p = act_run_id (ss_action ss)"
proof -
  let ?a = "ss_action ss"
  let ?k = "act_run_id ?a"
  from assms obtain ev1 ev2 now i z w1 w2 w3 w4 w5 where
    1: "\<exists>ac su dt. append_event ?k EV_POLICY_HELD ac su (decided_at (ss_decision ss))
          dt (decision_refs ss) (turn_id ?a) w = (Inr ev1, w1)"
    and 2: "utc_now w1 = (Inr now, w2)" "uuid4 w2 = (Inr i, w3)"
    and p: "p = pending_approval ss i (now + gw_expiry_us g)"
    and 3: "create_approval_request p w3 = (Inr z, w4)"
    and 4: "\<exists>su dt rf. append_event ?k EV_APPROVAL_REQUESTED ''system'' su (ss_now ss)
          dt rf (turn_id ?a) w4 = (Inr ev2, w5)"
    and 5: "update_run_status ?k RS_WAITING_FOR_APPROVAL (ss_now ss) w5 = (Inr (), w')"
    unfolding phase1_hold_def Let_def by (simp add: tx_bind_Inr) blast
  from 1 obtain e1 where e1: "effect ?k (db w) (db w1) [] [] [] [e1]" "ev_type e1 = EV_POLICY_HELD"
    by (force dest!: append_event_Inr[where j = ?k])
  from 4 obtain e2 where e2: "effect ?k (db w4) (db w5) [] [] [] [e2]"
    "ev_type e2 = EV_APPROVAL_REQUESTED"
    by (force dest!: append_event_Inr[where j = ?k])
  from 5 have st: "effect ?k (db w5) (db w') [] [] [] []"
    by (auto simp: update_run_status_def effect_status)
  from effect_trans[OF effect_trans[OF effect_trans[OF effect_trans[OF effect_trans[OF e1(1)
      draws_Inr(2)[OF 2(1)]] draws_Inr(1)[OF 2(2)]] creates_Inr(3)[OF 3]] e2(1)] st]
  have "effect ?k (db w) (db w') [] [] [approval_row p] [e1, e2]" by simp
  then show ?thesis using e1 e2 by (intro exI[of _ "[e1, e2]"]) (simp add: p pending_approval_def)
qed

lemma phase1_deny_Inr:
  assumes "phase1_deny ss w = (Inr (evs, rc), w')"
  shows "\<exists>es. effect j (db w) (db w') [] [] [] es \<and> quiet_list es"
proof -
  let ?a = "ss_action ss"
  from assms obtain ev1 i w1 w2 r where
    1: "\<exists>ac su dt. append_event (act_run_id ?a) EV_POLICY_DENIED ac su (decided_at (ss_decision ss))
          dt (decision_refs ss) (turn_id ?a) w = (Inr ev1, w1)"
    and 2: "uuid4 w1 = (Inr i, w2)"
    and 3: "create_execution_receipt r w2 = (Inr rc, w')"
    unfolding phase1_deny_def Let_def by (simp add: tx_bind_Inr) blast
  from 1 obtain e where e: "effect j (db w) (db w1) [] [] [] [e]" "ev_type e = EV_POLICY_DENIED"
    by (force dest!: append_event_Inr[where j = j])
  from effect_trans[OF effect_trans[OF e(1) draws_Inr(1)[OF 2]]] creates_Inr(4)[OF 3, of j]
  have "effect j (db w) (db w') [] [] [] [e]" by fastforce
  with e(2) show ?thesis by (intro exI[of _ "[e]"]) simp
qed

definition closed_run :: "pystr \<Rightarrow> store \<Rightarrow> bool" where
  "closed_run k s \<longleftrightarrow>
     (case find_run k s of None \<Rightarrow> False | Some r \<Rightarrow> run_st r = RS_COMPLETED \<or> run_st r = RS_FAILED)"

lemma require_open_run_Inr:
  "require_open_run k w = (Inr r, w') \<Longrightarrow>
     w' = w \<and> find_run k (db w) = Some r \<and> \<not> closed_run k (db w)"
  by (auto simp: require_open_run_def get_run_def tx_bind_Inr closed_run_def
      split: option.splits if_splits)

lemma require_resolvable_run_Inr:
  "require_resolvable_run k w = (Inr u, w') \<Longrightarrow> w' = w \<and> \<not> closed_run k (db w)"
  by (auto simp: require_resolvable_run_def get_run_def tx_bind_Inr closed_run_def open_status_def
      split: option.splits if_splits)

definition phase1_shape ::
  "submission_state \<Rightarrow> intent \<Rightarrow> approval list \<Rightarrow> event list \<Rightarrow> bool" where
  "phase1_shape ss i apps evs \<longleftrightarrow>
     (case i of
        Dispatch began \<Rightarrow>
          outcome (ss_decision ss) = PO_ALLOW \<and> apps = []
          \<and> (\<exists>es x e. evs = es @ [x, e] \<and> quiet_list es
               \<and> started_by (ss_action ss) EV_POLICY_ALLOWED x e)
      | Await p \<Rightarrow>
          outcome (ss_decision ss) = PO_HOLD \<and> apps = [approval_row p] \<and> quiet_list evs
          \<and> app_status p = AS_PENDING \<and> app_action_id p = act_id (ss_action ss)
          \<and> app_run_id p = act_run_id (ss_action ss)
      | Refused rc \<Rightarrow> outcome (ss_decision ss) = PO_DENY \<and> apps = [] \<and> quiet_list evs)"

lemma submit_phase1_Inr:
  assumes "submit_phase1 g ss w = (Inr (fresh, evs, i), w')"
  shows "find_run (act_run_id (ss_action ss)) (db w) = Some fresh
     \<and> \<not> closed_run (act_run_id (ss_action ss)) (db w)
     \<and> \<not> action_exists (act_id (ss_action ss)) (db w)
     \<and> (\<exists>apps es. effect (act_run_id (ss_action ss)) (db w) (db w')
            [ss_action ss] [ss_decision ss] apps es \<and> phase1_shape ss i apps es)"
proof -
  let ?a = "ss_action ss" and ?d = "ss_decision ss"
  let ?k = "act_run_id ?a"
  from assms obtain fr u a' ev1 ev2 d' w1 w2 w3 w4 w5 w6 where
    0: "require_open_run ?k w = (Inr fr, w1)"
    and 1: "store_audit ss w1 = (Inr u, w2)" and 2: "create_action_request ?a w2 = (Inr a', w3)"
    and 3: "append_requested ss w3 = (Inr ev1, w4)" and 4: "append_audited ss w4 = (Inr ev2, w5)"
    and 5: "create_policy_decision ?d w5 = (Inr d', w6)"
    and tail: "(case outcome ?d of
         PO_ALLOW \<Rightarrow> tx_bind (phase1_allow ss) (\<lambda>(evs, began).
             tx_return (fr, [ev1] @ ev2 @ evs, Dispatch began))
       | PO_HOLD \<Rightarrow> tx_bind (phase1_hold g ss) (\<lambda>(evs, p).
             tx_return (fr, [ev1] @ ev2 @ evs, Await p))
       | PO_DENY \<Rightarrow> tx_bind (phase1_deny ss) (\<lambda>(evs, rc).
             tx_return (fr, [ev1] @ ev2 @ evs, Refused rc))) w6 = (Inr (fresh, evs, i), w')"
    unfolding submit_phase1_def by (simp only: tx_bind_Inr) blast
  from tail have fr: "fr = fresh"
    by (cases "outcome ?d") (auto simp: tx_bind_Inr)
  from require_open_run_Inr[OF 0] have w1: "w1 = w" by simp
  from append_requested_Inr[OF 3, of ?k] obtain e1 where
    e1: "effect ?k (db w3) (db w4) [] [] [] [e1]" "ev_type e1 = EV_ACTION_REQUESTED" by blast
  from append_audited_Inr[OF 4, of ?k] obtain es where
    es: "effect ?k (db w4) (db w5) [] [] [] es" "quiet_list es" by blast
  from creates_Inr(1)[OF 2] have new: "\<not> action_exists (act_id ?a) (db w2)"
    and act: "effect ?k (db w2) (db w3) [?a] [] [] []" by blast+
  have same: "action_exists (act_id ?a) (db w2) = action_exists (act_id ?a) (db w)"
    using store_audit_Inr[OF 1, of ?k] w1 by (simp add: effect_def action_exists_def)
  from effect_trans[OF effect_trans[OF effect_trans[OF effect_trans[OF store_audit_Inr[OF 1, of ?k]
      act] e1(1)] es(1)] creates_Inr(2)[OF 5]]
  have upto: "effect ?k (db w) (db w6) [?a] [?d] [] (e1 # es)" using w1 by simp
  have "\<exists>apps es'. effect ?k (db w6) (db w') [] [] apps es' \<and> phase1_shape ss i apps (e1 # es @ es')"
  proof (cases "outcome ?d")
    case PO_ALLOW
    with tail obtain evs' began where "phase1_allow ss w6 = (Inr (evs', began), w')"
      "i = Dispatch began" by (auto simp: tx_bind_Inr)
    with phase1_allow_Inr[of ss w6 evs' began w' ?k] PO_ALLOW e1(2) es(2) show ?thesis
      by (auto simp: phase1_shape_def)
  next
    case PO_HOLD
    with tail obtain evs' p where "phase1_hold g ss w6 = (Inr (evs', p), w')" "i = Await p"
      by (auto simp: tx_bind_Inr)
    with phase1_hold_Inr[of g ss w6 evs' p w'] PO_HOLD e1(2) es(2) show ?thesis
      by (auto simp: phase1_shape_def)
  next
    case PO_DENY
    with tail obtain evs' rc where "phase1_deny ss w6 = (Inr (evs', rc), w')" "i = Refused rc"
      by (auto simp: tx_bind_Inr)
    with phase1_deny_Inr[of ss w6 evs' rc w' ?k] PO_DENY e1(2) es(2) show ?thesis
      by (auto simp: phase1_shape_def)
  qed
  then obtain apps es' where fin: "effect ?k (db w6) (db w') [] [] apps es'"
    "phase1_shape ss i apps (e1 # es @ es')" by blast
  with effect_trans[OF upto fin(1)] require_open_run_Inr[OF 0] new same fr show ?thesis by auto
qed

section \<open>A submission keeps the invariant\<close>

lemma starts_effect:
  "effect k s t as ds ps es \<Longrightarrow>
     starts x t = starts x s @ filter (\<lambda>e. ev_type e = EV_EXECUTION_STARTED \<and> ev_action_id e = Some x) es"
  by (simp add: effect_def starts_def)

lemma quiet_filter: "quiet_list es \<Longrightarrow> filter (\<lambda>e. ev_type e = EV_EXECUTION_STARTED \<and> P e) es = []"
  by (auto simp: quiet_list_def filter_empty_conv)

lemma started_action:
  assumes "sound_store s" and "e \<in> set (events_t s)" and "ev_type e = EV_EXECUTION_STARTED"
  shows "\<exists>a \<in> set (actions_t s). ev_action_id e = Some (act_id a) \<and> ev_run_id e = act_run_id a
     \<and> warranted (act_id a) s"
  using assms unfolding sound_store_def starts_ok_def by blast

lemma fresh_action:
  assumes "sound_store s" and "\<not> action_exists x s"
  shows "starts x s = []" "approvals_for x s = []"
    "\<forall>p \<in> set (approvals_t s). app_action_id p \<noteq> x" "\<forall>d \<in> set (decisions_t s). dec_action_id d \<noteq> x"
proof -
  have "ev_action_id e \<noteq> Some x" if "e \<in> set (events_t s)" "ev_type e = EV_EXECUTION_STARTED" for e
    using started_action[OF assms(1) that] assms(2) by (auto simp: action_exists_def)
  then show "starts x s = []" by (auto simp: starts_def filter_empty_conv)
  show p: "\<forall>p \<in> set (approvals_t s). app_action_id p \<noteq> x"
    "\<forall>d \<in> set (decisions_t s). dec_action_id d \<noteq> x"
    using assms by (auto simp: sound_store_def wf_store_def refs_ok_def)
  then show "approvals_for x s = []" by (auto simp: approvals_for_def filter_empty_conv)
qed

lemma warranted_grow:
  "warranted a s \<Longrightarrow> set (decisions_t s) \<subseteq> set (decisions_t t) \<Longrightarrow>
     set (approvals_t s) \<subseteq> set (approvals_t t) \<Longrightarrow> warranted a t"
  unfolding warranted_def by blast

lemma submit_warranted: "effect k s t [a] [d] ps es \<Longrightarrow> warranted x s \<Longrightarrow> warranted x t"
  by (auto simp: effect_def intro: warranted_grow)

lemma submit_starts_ok:
  assumes sound: "sound_store s" and eff: "effect k s t [a] [d] ps es"
    and new: "\<not> action_exists (act_id a) s" and dec: "dec_action_id d = act_id a"
    and shape: "quiet_list es \<or> outcome d = PO_ALLOW
     \<and> (\<exists>es0 x e. es = es0 @ [x, e] \<and> quiet_list es0 \<and> started_by a EV_POLICY_ALLOWED x e)"
  shows "starts_ok t"
proof -
  have old: "starts_ok s" using sound by (simp add: sound_store_def)
  have rows: "events_t t = events_t s @ es" "actions_t t = actions_t s @ [a]"
    "decisions_t t = decisions_t s @ [d]" using eff by (simp_all add: effect_def)
  have keep: "\<exists>b \<in> set (actions_t t). ev_action_id e = Some (act_id b) \<and> ev_run_id e = act_run_id b
      \<and> warranted (act_id b) t"
    if "e \<in> set (events_t s)" "ev_type e = EV_EXECUTION_STARTED" for e
    using old that submit_warranted[OF eff] rows(2) unfolding starts_ok_def by simp blast
  from shape show ?thesis
  proof (elim disjE conjE exE)
    assume q: "quiet_list es"
    then show ?thesis
      using old keep rows(1) starts_effect[OF eff] quiet_filter[OF q] justified_append[of "events_t s" es]
      unfolding starts_ok_def by (auto simp: quiet_list_def)
  next
    fix es0 x e
    assume al: "outcome d = PO_ALLOW" and es: "es = es0 @ [x, e]" and q: "quiet_list es0"
      and sb: "started_by a EV_POLICY_ALLOWED x e"
    have "quiet_list (es0 @ [x])" using q sb by (simp add: started_by_def)
    then have "justified ((events_t s @ es0 @ [x]) @ [e])"
      using old sb by (intro justified_start[of _ x] justified_append)
        (auto simp: starts_ok_def quiet_list_def permits_def started_by_def)
    moreover have "length (starts y t) \<le> 1" for y
      using old starts_effect[OF eff, of y] quiet_filter[OF \<open>quiet_list (es0 @ [x])\<close>]
        fresh_action(1)[OF sound new] sb es
      by (cases "y = act_id a") (auto simp: starts_ok_def started_by_def)
    moreover have "warranted (act_id a) t"
      using al dec rows(3) by (auto simp: warranted_def)
    ultimately show ?thesis
      using keep rows(1,2) es sb q
      unfolding starts_ok_def started_by_def by (auto simp: quiet_list_def)
  qed
qed

lemma submit_approvals_ok:
  assumes sound: "sound_store s" and eff: "effect k s t [a] [d] ps es"
    and new: "\<not> action_exists (act_id a) s" and dec: "dec_action_id d = act_id a"
    and shape: "ps = [] \<or> outcome d = PO_HOLD \<and> quiet_list es
     \<and> (\<exists>p. ps = [p] \<and> app_action_id p = act_id a \<and> app_run_id p = act_run_id a)"
    and evs: "quiet_list es \<or> (\<exists>es0 x e. es = es0 @ [x, e] \<and> quiet_list es0 \<and> started_by a ty x e)"
      "ty \<noteq> EV_EXECUTION_STARTED"
  shows "approvals_ok t"
proof -
  have old: "approvals_ok s" using sound by (simp add: sound_store_def)
  have rows: "approvals_t t = approvals_t s @ ps" "actions_t t = actions_t s @ [a]"
    "decisions_t t = decisions_t s @ [d]" using eff by (simp_all add: effect_def)
  note fresh = fresh_action[OF sound new]
  have other: "starts y t = starts y s" if "y \<noteq> act_id a" for y
    using starts_effect[OF eff, of y] evs that quiet_filter
    by (auto simp: started_by_def)
  have one: "length (approvals_for y t) \<le> 1" for y
    using old shape(1) fresh(2) rows(1)
    by (cases "y = act_id a") (auto simp: approvals_ok_def approvals_for_def)
  have "(app_status p = AS_PENDING \<longrightarrow> starts (app_action_id p) t = [])
      \<and> (\<exists>b \<in> set (actions_t t). act_id b = app_action_id p \<and> act_run_id b = app_run_id p)
      \<and> (\<forall>c \<in> set (decisions_t t). dec_action_id c = app_action_id p \<longrightarrow> outcome c = PO_HOLD)"
    if "p \<in> set (approvals_t s)" for p
    using old that fresh(3) other rows dec by (auto simp: approvals_ok_def)
  moreover have "starts (act_id a) t = []" if "quiet_list es"
    using starts_effect[OF eff, of "act_id a"] fresh(1) quiet_filter[OF that] by simp
  ultimately show ?thesis
    using one shape(1) rows fresh(4) unfolding approvals_ok_def by auto
qed

lemma sound_submit:
  assumes "sound_store s" and "wf_store t" and eff: "effect k s t [ss_action ss] [ss_decision ss] ps es"
    and "\<not> action_exists (act_id (ss_action ss)) s"
    and "dec_action_id (ss_decision ss) = act_id (ss_action ss)" and "act_id (ss_action ss) \<noteq> []"
    and shape: "phase1_shape ss i ps es"
  shows "sound_store t"
proof -
  let ?a = "ss_action ss" and ?d = "ss_decision ss"
  from shape have 1: "quiet_list es \<or> outcome ?d = PO_ALLOW
      \<and> (\<exists>es0 x e. es = es0 @ [x, e] \<and> quiet_list es0 \<and> started_by ?a EV_POLICY_ALLOWED x e)"
    by (cases i) (auto simp: phase1_shape_def)
  from shape have 2: "ps = [] \<or> outcome ?d = PO_HOLD \<and> quiet_list es
      \<and> (\<exists>p. ps = [p] \<and> app_action_id p = act_id ?a \<and> app_run_id p = act_run_id ?a)"
    by (cases i) (auto simp: phase1_shape_def approval_row_def)
  have "starts_ok t" by (rule submit_starts_ok[OF assms(1) eff assms(4,5) 1])
  moreover have "approvals_ok t"
    using 1 by (intro submit_approvals_ok[OF assms(1) eff assms(4,5) 2, of EV_POLICY_ALLOWED]) auto
  ultimately show ?thesis
    using assms(1,2,5,6) eff fresh_action(4)[OF assms(1,4)]
    by (auto simp: sound_store_def effect_def)
qed

section \<open>A grant keeps the invariant\<close>

text \<open>What the loaded rows and the stored ones have in common, from the load to the grant.\<close>

definition well_loaded :: "resolution \<Rightarrow> store \<Rightarrow> bool" where
  "well_loaded rs s \<longleftrightarrow>
     (\<exists>p. find_approval (app_id (rs_approval rs)) s = Some p
        \<and> app_action_id p = act_id (rs_action rs) \<and> app_run_id p = app_run_id (rs_approval rs)
        \<and> app_action_id p = app_action_id (rs_approval rs))"

lemma grant_phase1_Inr:
  assumes "grant_phase1 g rs who reason w = (Inr (up, evs, began), w')"
  shows "\<exists>p x e. find_approval (app_id (rs_approval rs)) (db w) = Some p \<and> app_status p = AS_PENDING
     \<and> \<not> closed_run (app_run_id (rs_approval rs)) (db w)
     \<and> effect j (map_approval (app_id (rs_approval rs)) (\<lambda>p. app_status p = AS_PENDING)
           (resolved AS_APPROVED who (rs_now rs) reason) (db w)) (db w') [] [] [] [x, e]
     \<and> ev_type x = EV_APPROVAL_GRANTED \<and> ev_action_id x = Some (act_id (rs_action rs))
     \<and> ev_type e = EV_EXECUTION_STARTED \<and> ev_action_id e = Some (act_id (rs_action rs))
     \<and> ev_run_id e = app_run_id (rs_approval rs)"
proof -
  let ?k = "app_run_id (rs_approval rs)" and ?a = "rs_action rs"
  from assms obtain u ev1 ev2 w1 w2 w3 w4 where
    0: "require_resolvable_run ?k w = (Inr u, w1)"
    and 1: "resolve_approval_row (app_id (rs_approval rs)) AS_APPROVED who (rs_now rs) reason w1
              = (Inr up, w2)"
    and 2: "\<exists>su dt. append_event ?k EV_APPROVAL_GRANTED who su (rs_now rs) dt
              (approval_refs (act_id ?a) (app_id (rs_approval rs))) None w2 = (Inr ev1, w3)"
    and 3: "utc_now w3 = (Inr began, w4)"
    and 4: "\<exists>su dt. append_event ?k EV_EXECUTION_STARTED executor_name su began dt
              (action_refs ?a) None w4 = (Inr ev2, w')"
    unfolding grant_phase1_def Let_def by (simp add: tx_bind_Inr) blast
  from require_resolvable_run_Inr[OF 0] have w1: "w1 = w" "\<not> closed_run ?k (db w)" by auto
  from 1 w1 obtain p where p: "find_approval (app_id (rs_approval rs)) (db w) = Some p"
    "app_status p = AS_PENDING" and db2: "db w2 = map_approval (app_id (rs_approval rs))
       (\<lambda>p. app_status p = AS_PENDING) (resolved AS_APPROVED who (rs_now rs) reason) (db w)"
    by (auto simp: resolve_approval_row_def tx_bind_Inr get_approval_request_def
        split: option.splits if_splits)
  from 2 obtain x where x: "effect j (db w2) (db w3) [] [] [] [x]" "ev_type x = EV_APPROVAL_GRANTED"
    "ev_action_id x = Some (act_id ?a)"
    by (force simp: approval_refs_def dest!: append_event_Inr[where j = j])
  from 4 obtain e where e: "effect j (db w4) (db w') [] [] [] [e]"
    "ev_type e = EV_EXECUTION_STARTED" "ev_action_id e = Some (act_id ?a)" "ev_run_id e = ?k"
    by (force simp: action_refs_def dest!: append_event_Inr[where j = j])
  from effect_trans[OF effect_trans[OF x(1) draws_Inr(2)[OF 3]] e(1)]
  have "effect j (db w2) (db w') [] [] [] [x, e]" by simp
  with p w1(2) x e show ?thesis unfolding db2 by blast
qed

text \<open>The row a grant resolves, before and after.\<close>

definition granted_store :: "resolution \<Rightarrow> pystr \<Rightarrow> pystr option \<Rightarrow> store \<Rightarrow> store" where
  "granted_store rs who reason s =
     map_approval (app_id (rs_approval rs)) (\<lambda>p. app_status p = AS_PENDING)
       (resolved AS_APPROVED who (rs_now rs) reason) s"

lemma granted_rows: "list_all2 row_forward (approvals_t s) (approvals_t (granted_store rs who reason s))"
  by (auto simp: granted_store_def map_approval_def row_forward_def resolved_def intro!: rows_map)

lemma granted_frame:
  "actions_t (granted_store rs who reason s) = actions_t s"
  "decisions_t (granted_store rs who reason s) = decisions_t s"
  "events_t (granted_store rs who reason s) = events_t s"
  "runs_t (granted_store rs who reason s) = runs_t s"
  by (simp_all add: granted_store_def map_approval_def)

lemma find_approval_in: "find_approval k s = Some p \<Longrightarrow> p \<in> set (approvals_t s) \<and> app_id p = k"
  by (auto simp: find_approval_def find_Some_iff)

lemma same_approval:
  assumes "approvals_ok s" and "p \<in> set (approvals_t s)" "q \<in> set (approvals_t s)"
    and "app_action_id p = app_action_id q"
  shows "p = q"
proof -
  let ?f = "approvals_for (app_action_id p) s"
  have in2: "p \<in> set ?f" "q \<in> set ?f" using assms(2-4) by (auto simp: approvals_for_def)
  have "length ?f \<le> 1" using assms(1) by (simp add: approvals_ok_def)
  with in2 show ?thesis by (cases ?f) auto
qed

lemma sound_grant:
  assumes sound: "sound_store s" and wf: "wf_store t" and loaded: "well_loaded rs s"
    and row: "find_approval (app_id (rs_approval rs)) s = Some p" "app_status p = AS_PENDING"
    and eff: "effect j (granted_store rs who reason s) t [] [] [] [x, e]"
    and evs: "ev_type x = EV_APPROVAL_GRANTED" "ev_action_id x = Some (act_id (rs_action rs))"
      "ev_type e = EV_EXECUTION_STARTED" "ev_action_id e = Some (act_id (rs_action rs))"
      "ev_run_id e = app_run_id (rs_approval rs)"
  shows "sound_store t"
proof -
  let ?a = "act_id (rs_action rs)"
  have oks: "starts_ok s" "approvals_ok s" using sound by (simp_all add: sound_store_def)
  have p: "p \<in> set (approvals_t s)" "app_id p = app_id (rs_approval rs)"
    "app_action_id p = ?a" "app_run_id p = app_run_id (rs_approval rs)"
    using find_approval_in[OF row(1)] loaded row(1) by (auto simp: well_loaded_def)
  have tabs: "actions_t t = actions_t s" "decisions_t t = decisions_t s"
    "events_t t = events_t s @ [x, e]" "approvals_t t = approvals_t (granted_store rs who reason s)"
    using eff by (simp_all add: effect_def granted_frame)
  have fwd: "list_all2 row_forward (approvals_t s) (approvals_t t)"
    using granted_rows tabs(4) by simp
  have none: "starts ?a s = []" using oks(2) p row(2) by (auto simp: approvals_ok_def)
  have st: "starts y t = starts y s @ (if y = ?a then [e] else [])" for y
    using tabs(3) evs by (auto simp: starts_def)
  have new: "resolved AS_APPROVED who (rs_now rs) reason p \<in> set (approvals_t t)"
    using p(1,2) row(2) unfolding tabs(4) granted_store_def map_approval_def by force
  then have war: "warranted ?a t" using p(3) unfolding warranted_def by (force simp: resolved_def)
  have keep: "warranted y s \<Longrightarrow> warranted y t" for y
    using warranted_mono[OF _ _ fwd, of y t] tabs(2) by simp
  have just: "justified ((events_t s @ [x]) @ [e])"
    using oks(1) evs by (intro justified_start[of _ x] justified_append)
      (auto simp: starts_ok_def permits_def)
  obtain b where b: "b \<in> set (actions_t s)" "act_id b = ?a" "act_run_id b = ev_run_id e"
    using oks(2) p evs(5) unfolding approvals_ok_def by force
  have "\<exists>a \<in> set (actions_t t). ev_action_id f = Some (act_id a) \<and> ev_run_id f = act_run_id a
      \<and> warranted (act_id a) t" if "f \<in> set (events_t t)" "ev_type f = EV_EXECUTION_STARTED" for f
  proof (cases "f = e")
    case True
    with b war evs tabs(1) show ?thesis by metis
  next
    case False
    with that tabs(3) evs(1) have "f \<in> set (events_t s)" by auto
    from started_action[OF sound this that(2)] keep tabs(1) show ?thesis by metis
  qed
  moreover have "length (starts y t) \<le> 1" for y
    using oks(1) none st[of y] by (auto simp: starts_ok_def)
  ultimately have "starts_ok t" using just tabs(3) by (simp add: starts_ok_def)
  moreover have "approvals_ok t"
  proof -
    have "(app_status q = AS_PENDING \<longrightarrow> starts (app_action_id q) t = [])
        \<and> (\<exists>a \<in> set (actions_t t). act_id a = app_action_id q \<and> act_run_id a = app_run_id q)
        \<and> (\<forall>d \<in> set (decisions_t t). dec_action_id d = app_action_id q \<longrightarrow> outcome d = PO_HOLD)"
      if q: "q \<in> set (approvals_t t)" for q
    proof -
      obtain r where r: "r \<in> set (approvals_t s)" "row_forward r q"
        using rows_forward_in(1)[OF fwd q] by blast
      have "app_status q \<noteq> AS_PENDING" if "app_action_id q = ?a"
      proof
        assume pend: "app_status q = AS_PENDING"
        from q[unfolded tabs(4) granted_store_def map_approval_def] obtain r' where
          r': "r' \<in> set (approvals_t s)"
            "q = (if app_id r' = app_id (rs_approval rs) \<and> app_status r' = AS_PENDING
                  then resolved AS_APPROVED who (rs_now rs) reason r' else r')" by auto
        with that have "app_action_id r' = ?a" by (auto simp: resolved_def split: if_splits)
        with same_approval[OF oks(2) r'(1) p(1)] p(3) have "r' = p" by simp
        with r'(2) p(2) row(2) pend show False by (simp add: resolved_def)
      qed
      with r oks(2) st[of "app_action_id q"] tabs(1,2) show ?thesis
        by (auto simp: approvals_ok_def row_forward_def)
    qed
    moreover have "length (approvals_for y t) \<le> 1" for y
      using oks(2) rows_forward_length[OF fwd, of y] by (simp add: approvals_ok_def approvals_for_def)
    ultimately show ?thesis unfolding approvals_ok_def by blast
  qed
  ultimately show ?thesis using sound wf tabs(1,2) by (simp add: sound_store_def)
qed

end
