(* ===== verification/Interleaving.thy ===== *)
theory Interleaving
  imports Journal "HOL-Library.Multiset"
begin

text \<open>
  Concurrent requests. The handlers of \<open>service.py\<close> run in threads over one database; what they
  do is a sequence of database transactions and executor calls, and another request may come
  between any two of them. \<open>step\<close> is the interleaving semantics: a configuration holds the
  world, the requests between two of their transactions (\<open>task\<close>), and the log of actions handed
  to the executor. What a handler read before its transaction is not assumed fresh, and a request
  may stop for good between two of its transactions (\<open>lost\<close>: the process died).
\<close>

section \<open>Tasks and steps\<close>

datatype task =
    T_submit submission_state
  | T_dispatch submission_state run instant
  | T_record submission_state instant "exc + receipt"
  | T_grant resolution pystr "pystr option" path
  | T_run_approved resolution path approval instant
  | T_record_approved resolution instant "exc + receipt"

text \<open>The transactions of the other requests; what they are given is arbitrary, stale included.\<close>

datatype background =
    B_create run "pystr option"
  | B_prompt pystr pystr instant
  | B_workspace pystr pystr instant
  | B_deny resolution pystr "pystr option"
  | B_expire resolution
  | B_expire_wait pystr
  | B_reconcile instant "approval list"
  | B_complete pystr "int option" instant instant
  | B_fail pystr pystr instant instant

fun run_background :: "gateway \<Rightarrow> background \<Rightarrow> world \<Rightarrow> world" where
  "run_background g (B_create r prompt) w = snd (db_transaction (create_run_tx g r prompt) w)"
| "run_background g (B_prompt k v t) w = snd (db_transaction (update_run_prompt_version k v t) w)"
| "run_background g (B_workspace k p t) w = snd (db_transaction (update_run_workspace_path k p t) w)"
| "run_background g (B_deny rs who reason) w = snd (db_transaction (deny_phase1 g rs who reason) w)"
| "run_background g (B_expire rs) w = snd (db_transaction (expire_on_resolve g rs) w)"
| "run_background g (B_expire_wait k) w = snd (db_transaction (expire_wait_tx g k) w)"
| "run_background g (B_reconcile now pending) w = snd (db_transaction (reconcile_tx g now pending) w)"
| "run_background g (B_complete k budget began now) w =
     snd (db_transaction (close_run_tx k RS_COMPLETED EV_RUN_COMPLETED
       (\<lambda>name. ''Run '' @ quoted name @ '' was marked COMPLETED.'') [] budget began now) w)"
| "run_background g (B_fail k reason began now) w =
     snd (db_transaction (close_run_tx k RS_FAILED EV_SYSTEM_ERROR
       (\<lambda>name. ''Run '' @ quoted name @ '' was marked FAILED: '' @ reason)
       [(''reason'', JStr reason)] None began now) w)"

text \<open>Phase 2 of a submission and of an approval, after the executor's answer.\<close>

definition record_submission ::
  "gateway \<Rightarrow> submission_state \<Rightarrow> instant \<Rightarrow> exc + receipt \<Rightarrow> event tx" where
  "record_submission g ss began res =
     (let a = ss_action ss
      in case res of
           Inl e \<Rightarrow>
             tx_bind utc_now (\<lambda>failed_at.
             tx_bind uuid4 (\<lambda>i.
               db_transaction
                 (record_failure g [] a (failed_receipt a i began failed_at e) (turn_id a))))
         | Inr rc \<Rightarrow> db_transaction (record_outcome g [] a rc (turn_id a)))"

definition record_approved ::
  "gateway \<Rightarrow> resolution \<Rightarrow> instant \<Rightarrow> exc + receipt \<Rightarrow> event tx" where
  "record_approved g rs began res =
     (case res of
        Inl e \<Rightarrow>
          tx_bind utc_now (\<lambda>failed_at.
          tx_bind uuid4 (\<lambda>i.
            db_transaction
              (approved_failure g rs (failed_receipt (rs_action rs) i began failed_at e))))
      | Inr rc \<Rightarrow> db_transaction (approved_outcome g rs rc))"

definition call_submitted ::
  "gateway \<Rightarrow> submission_state \<Rightarrow> run \<Rightarrow> receipt tx" where
  "call_submitted g ss fresh =
     gw_execute g (ss_action ss) (ss_workspace ss) (Some (ss_decision ss)) None True
       (Some (run_scope fresh)) (Some (gw_workspace_key g (run_key fresh)))"

definition call_approved :: "gateway \<Rightarrow> resolution \<Rightarrow> path \<Rightarrow> approval \<Rightarrow> receipt tx" where
  "call_approved g rs ws up =
     gw_execute g (rs_action rs) ws (Some (rs_decision rs)) (Some up) True
       (Some (run_scope (rs_run rs))) (Some (gw_workspace_key g (run_key (rs_run rs))))"

definition after_submit ::
  "submission_state \<Rightarrow> exc + run \<times> event list \<times> intent \<Rightarrow> task multiset" where
  "after_submit ss r =
     (case r of Inr (fresh, evs, Dispatch began) \<Rightarrow> {#T_dispatch ss fresh began#} | _ \<Rightarrow> {#})"

definition after_grant ::
  "resolution \<Rightarrow> path \<Rightarrow> exc + approval option \<times> event list \<times> instant \<Rightarrow> task multiset" where
  "after_grant rs ws r =
     (case r of Inr (Some up, evs, began) \<Rightarrow> {#T_run_approved rs ws up began#} | _ \<Rightarrow> {#})"

definition well_prepared :: "submission_state \<Rightarrow> bool" where
  "well_prepared ss \<longleftrightarrow>
     dec_action_id (ss_decision ss) = act_id (ss_action ss) \<and> act_id (ss_action ss) \<noteq> []"

datatype config = Config world "task multiset" "pystr list"

inductive step :: "gateway \<Rightarrow> config \<Rightarrow> config \<Rightarrow> bool" for g where
  elsewhere: "db w' = db w \<Longrightarrow> step g (Config w ts h) (Config w' ts h)"
| lost: "step g (Config w (add_mset t ts) h) (Config w ts h)"
| background: "step g (Config w ts h) (Config (run_background g b w) ts h)"
| prepared: "well_prepared ss \<Longrightarrow> step g (Config w ts h) (Config w (add_mset (T_submit ss) ts) h)"
| phase1: "db_transaction (submit_phase1 g ss) w = (r, w') \<Longrightarrow>
    step g (Config w (add_mset (T_submit ss) ts) h) (Config w' (after_submit ss r + ts) h)"
| dispatched: "call_submitted g ss fresh w = (res, w') \<Longrightarrow>
    step g (Config w (add_mset (T_dispatch ss fresh began) ts) h)
      (Config w' (add_mset (T_record ss began res) ts) (h @ [act_id (ss_action ss)]))"
| recorded: "record_submission g ss began res w = (r, w') \<Longrightarrow>
    step g (Config w (add_mset (T_record ss began res) ts) h) (Config w' ts h)"
| loaded: "well_loaded rs (db w) \<Longrightarrow>
    step g (Config w ts h) (Config w (add_mset (T_grant rs who reason ws) ts) h)"
| granted: "db_transaction (grant_phase1 g rs who reason) w = (r, w') \<Longrightarrow>
    step g (Config w (add_mset (T_grant rs who reason ws) ts) h)
      (Config w' (after_grant rs ws r + ts) h)"
| run_approved: "call_approved g rs ws up w = (res, w') \<Longrightarrow>
    step g (Config w (add_mset (T_run_approved rs ws up began) ts) h)
      (Config w' (add_mset (T_record_approved rs began res) ts) (h @ [act_id (rs_action rs)]))"
| recorded_approved: "record_approved g rs began res w = (r, w') \<Longrightarrow>
    step g (Config w (add_mset (T_record_approved rs began res) ts) h) (Config w' ts h)"

definition reachable :: "gateway \<Rightarrow> config \<Rightarrow> bool" where
  "reachable g c \<longleftrightarrow> (\<exists>w. db w = empty_store \<and> (step g)\<^sup>*\<^sup>* (Config w {#} []) c)"

section \<open>Executions in flight\<close>

definition open_run :: "pystr \<Rightarrow> store \<Rightarrow> bool" where
  "open_run k s \<longleftrightarrow>
     (\<exists>r. find_run k s = Some r \<and> run_st r \<noteq> RS_COMPLETED \<and> run_st r \<noteq> RS_FAILED)"

definition in_flight :: "pystr \<Rightarrow> pystr \<Rightarrow> store \<Rightarrow> bool" where
  "in_flight a k s \<longleftrightarrow>
     (\<exists>e \<in> set (events_t s). ev_type e = EV_EXECUTION_STARTED \<and> ev_action_id e = Some a \<and> ev_run_id e = k)
     \<and> (\<forall>e \<in> set (events_t s). ev_action_id e = Some a \<longrightarrow>
          ev_type e \<noteq> EV_EXECUTION_SUCCEEDED \<and> ev_type e \<noteq> EV_EXECUTION_FAILED)
     \<and> open_run k s"

text \<open>An outcome is only recorded for an action that was started.\<close>

definition outcome_event :: "event \<Rightarrow> bool" where
  "outcome_event e \<longleftrightarrow> ev_type e = EV_EXECUTION_SUCCEEDED \<or> ev_type e = EV_EXECUTION_FAILED"

definition outcomes_ok :: "store \<Rightarrow> bool" where
  "outcomes_ok s \<longleftrightarrow>
     (\<forall>e \<in> set (events_t s). \<forall>a. ev_action_id e = Some a \<and> outcome_event e \<longrightarrow> starts a s \<noteq> [])"

definition flight_kept :: "store \<Rightarrow> store \<Rightarrow> bool" where
  "flight_kept s t \<longleftrightarrow>
     (\<forall>k. open_run k s \<longrightarrow> open_run k t) \<and> (\<forall>a k. in_flight a k s \<longrightarrow> in_flight a k t)
     \<and> (\<forall>a. starts a s \<noteq> [] \<longrightarrow> starts a t \<noteq> [])
     \<and> (\<forall>e \<in> set (events_t t). outcome_event e \<longrightarrow> e \<in> set (events_t s))"

lemma find_append: "find P (xs @ ys) = (case find P xs of None \<Rightarrow> find P ys | Some x \<Rightarrow> Some x)"
  by (induction xs) auto

lemma find_run_append: "find_run k (s\<lparr>runs_t := runs_t s @ [r]\<rparr>) =
    (case find_run k s of None \<Rightarrow> if run_key r = k then Some r else None | Some x \<Rightarrow> Some x)"
  by (auto simp: find_run_def find_append split: option.splits)

lemma find_map_same:
  "(\<And>x. P (f x) = P x) \<Longrightarrow> find P (map f xs) = map_option f (find P xs)"
  by (induction xs) auto

lemma find_run_map:
  assumes "\<And>r. run_key (f r) = run_key r"
  shows "find_run j (map_run k f s) =
     map_option (\<lambda>r. if run_key r = k then f r else r) (find_run j s)"
  unfolding find_run_def map_run_def using assms by (auto intro!: find_map_same)

lemma open_run_map:
  assumes "open_run j s" and "\<And>r. run_key (f r) = run_key r"
    and "\<And>r. run_st r \<notin> {RS_COMPLETED, RS_FAILED} \<Longrightarrow> run_st (f r) \<notin> {RS_COMPLETED, RS_FAILED}"
  shows "open_run j (map_run k f s)"
  using assms(1,3) by (auto simp: open_run_def find_run_map[OF assms(2)] split: if_splits)

lemma in_flight_frame:
  assumes "in_flight a k s" and "open_run k s \<Longrightarrow> open_run k t" and "events_t t = events_t s @ es"
    and "\<forall>e \<in> set es. ev_action_id e = Some a \<longrightarrow>
           ev_type e \<noteq> EV_EXECUTION_SUCCEEDED \<and> ev_type e \<noteq> EV_EXECUTION_FAILED"
  shows "in_flight a k t"
  using assms by (auto simp: in_flight_def)

lemma flight_frame:
  assumes runs: "\<And>k. open_run k s \<Longrightarrow> open_run k t" and evs: "events_t t = events_t s @ es"
    and types: "\<forall>e \<in> set es. ev_type e \<noteq> EV_EXECUTION_SUCCEEDED \<and> ev_type e \<noteq> EV_EXECUTION_FAILED"
  shows "flight_kept s t"
proof -
  have "in_flight a k t" if "in_flight a k s" for a k
    using in_flight_frame[OF that runs evs] types by blast
  moreover have st: "starts a s \<noteq> [] \<Longrightarrow> starts a t \<noteq> []" for a
    using evs by (simp add: starts_def)
  moreover have "\<forall>e \<in> set (events_t t). outcome_event e \<longrightarrow> e \<in> set (events_t s)"
    using types evs unfolding outcome_event_def by auto
  ultimately show ?thesis using runs unfolding flight_kept_def by blast
qed

lemma flight_outcomes: "flight_kept s t \<Longrightarrow> outcomes_ok s \<Longrightarrow> outcomes_ok t"
  unfolding flight_kept_def outcomes_ok_def by blast

interpretation flight: repository_contract flight_kept open_events True open_statuses
proof
  show "flight_kept s s" for s by (simp add: flight_kept_def)
  show "flight_kept s t \<Longrightarrow> flight_kept t u \<Longrightarrow> flight_kept s u" for s t u
    unfolding flight_kept_def by blast
next
  fix r :: run and s assume "\<not> run_exists (run_key r) s"
  show "flight_kept s (s\<lparr>runs_t := runs_t s @ [r]\<rparr>)"
    by (rule flight_frame[where es = "[]"]) (auto simp: open_run_def find_run_append)
next
  fix f :: "run \<Rightarrow> run" and k s assume "\<And>r. run_key (f r) = run_key r" "\<And>r. run_st (f r) = run_st r"
  then show "flight_kept s (map_run k f s)"
    by (intro flight_frame[where es = "[]"] open_run_map) (auto simp: map_run_def)
next
  fix rst k t s assume "rst \<in> open_statuses"
  then show "flight_kept s (map_run k (\<lambda>r. r\<lparr>run_st := rst, run_updated_at := t\<rparr>) s)"
    by (intro flight_frame[where es = "[]"] open_run_map) (auto simp: map_run_def open_statuses_def)
next
  fix e :: event and s assume "ev_type e \<in> open_events"
  then show "flight_kept s (s\<lparr>events_t := events_t s @ [e]\<rparr>)"
    by (intro flight_frame[where es = "[e]"]) (auto simp: open_events_def open_run_def find_run_def)
qed (rule flight_frame[where es = "[]"]; simp add: open_run_def find_run_def map_approval_def)+

section \<open>Recording an outcome ends one flight only\<close>

definition flight_but :: "pystr \<Rightarrow> store \<Rightarrow> store \<Rightarrow> bool" where
  "flight_but a s t \<longleftrightarrow>
     (\<forall>b k. b \<noteq> a \<longrightarrow> in_flight b k s \<longrightarrow> in_flight b k t)
     \<and> (outcomes_ok s \<and> starts a s \<noteq> [] \<longrightarrow> outcomes_ok t \<and> starts a t \<noteq> [])"

interpretation but: store_relation "flight_but a" for a
  by unfold_locales (auto simp: flight_but_def)

lemma but_kept: "keeps flight_kept m \<Longrightarrow> keeps (flight_but a) m"
  unfolding keeps_def flight_but_def using flight_outcomes by (meson flight_kept_def)

lemma but_append:
  assumes "ref_action refs = Some a"
  shows "keeps (flight_but a) (append_event k ty actor summary t details refs turn)"
  unfolding keeps_def
proof
  fix w
  obtain r w' where run: "append_event k ty actor summary t details refs turn w = (r, w')"
    by fastforce
  have "db w' = db w \<or> (\<exists>e. events_t (db w') = events_t (db w) @ [e]
      \<and> runs_t (db w') = runs_t (db w) \<and> ev_action_id e = Some a)"
    using run assms by (auto simp: append_event_def tx_bind_def Let_def insert_row_def uuid4_def
        split: sum.splits if_splits)
  then show "flight_but a (db w) (db (snd (append_event k ty actor summary t details refs turn w)))"
  proof (elim disjE exE conjE)
    fix e assume db: "events_t (db w') = events_t (db w) @ [e]" "runs_t (db w') = runs_t (db w)"
      "ev_action_id e = Some a"
    then have "open_run k (db w) \<Longrightarrow> open_run k (db w')" for k
      by (simp add: open_run_def find_run_def)
    note fl = in_flight_frame[OF _ this db(1)]
    have st: "starts b (db w) \<noteq> [] \<Longrightarrow> starts b (db w') \<noteq> []" for b
      using db(1) by (simp add: starts_def)
    have "outcomes_ok (db w')" if "outcomes_ok (db w)" "starts a (db w) \<noteq> []"
      using that db(1,3) st unfolding outcomes_ok_def by auto
    with st fl db(3) show ?thesis unfolding run snd_conv flight_but_def by simp
  qed (simp add: run but.refl)
qed

lemma but_record:
  "keeps (flight_but (act_id a)) (record_failure g label a rc turn)"
  "keeps (flight_but (act_id a)) (record_outcome g label a rc turn)"
  unfolding record_failure_def record_outcome_def Let_def
  by (intro but.keeps_rules but_kept[OF flight.keeps_create_receipt] but_append;
      simp add: receipt_refs_def)+

lemma but_record_submission:
  "keeps (flight_but (act_id (ss_action ss))) (record_submission g ss began res)"
  by (cases res) (auto simp: record_submission_def Let_def intro!: but.keeps_rules but_record)

lemma but_record_approved:
  "keeps (flight_but (act_id (rs_action rs))) (record_approved g rs began res)"
  by (cases res) (auto simp: record_approved_def approved_failure_def approved_outcome_def Let_def
      intro!: but.keeps_rules but_record but_kept[OF flight.keeps_consume_approval]
        but_kept[OF flight.keeps_settle])

section \<open>A close waits for the flights of its run\<close>

lemma started_in:
  "a \<in> set (started_actions es) \<longleftrightarrow>
     a \<noteq> [] \<and> (\<exists>e \<in> set es. ev_type e = EV_EXECUTION_STARTED \<and> ev_action_id e = Some a)"
  unfolding started_actions_def truthy_def or_empty_def
  by (auto split: option.splits) (force split: option.splits)+

lemma finished_in:
  "a \<in> set (finished_actions es) \<longleftrightarrow>
     a \<noteq> [] \<and> (\<exists>e \<in> set es. ev_action_id e = Some a
        \<and> (ev_type e = EV_EXECUTION_SUCCEEDED \<or> ev_type e = EV_EXECUTION_FAILED))"
  unfolding finished_actions_def truthy_def or_empty_def
  by (auto split: option.splits) (force split: option.splits)+

lemma event_from_row_simps [simp]:
  "ev_type (event_from_row e) = ev_type e" "ev_action_id (event_from_row e) = ev_action_id e"
  by (simp_all add: event_from_row_def)

lemma events_of_all: "set (events_of k None None s) = event_from_row ` set (run_events k s)"
  by (simp add: events_of_def limit_rows_def)

lemma close_run_tx_Inr:
  assumes "close_run_tx k st ty sm dt b began now w = (Inr (r, ev), w')"
  shows "(\<forall>a. a \<noteq> [] \<longrightarrow> \<not> in_flight a k (db w))
     \<and> (\<exists>e. effect k (db w) (db w') [] [] [] [e] \<and> ev_type e = ty)"
proof -
  from assms obtain busy w1 evs w2 w3 where
    0: "check_deadline b began w = (Inr (), w1)" and 1: "require_run k w1 = (Inr r, w2)"
    and 2: "has_in_flight_executions (Some k) w2 = (Inr busy, w3)"
    and evs: "evs = events_of k None None (db w3)"
    and guard: "set (started_actions evs) - set (finished_actions evs) = {}"
    and rest: "tx_bind (update_run_status k st now) (\<lambda>_.
             tx_bind (append_event k ty DEMO_REVIEWER_ID (sm (run_name r)) now dt no_refs None)
               (\<lambda>ev. tx_return (r, ev))) w3 = (Inr (r, ev), w')"
    unfolding close_run_tx_def
    by (auto simp: tx_bind_Inr get_events_def split: if_splits)
  have "keeps (=) (check_deadline b began)" "keeps (=) (require_run k)"
    "keeps (=) (has_in_flight_executions (Some k))"
    unfolding check_deadline_def require_run_def has_in_flight_executions_def
      in_flight_action_ids_def get_run_def list_approvals_def get_events_def Let_def
    by (intro same.keeps_rules)+
  from keepsD[OF this(1) 0] keepsD[OF this(2) 1] keepsD[OF this(3) 2]
  have same: "db w3 = db w" by simp
  from rest obtain w4 where st: "update_run_status k st now w3 = (Inr (), w4)"
    and ap: "append_event k ty DEMO_REVIEWER_ID (sm (run_name r)) now dt no_refs None w4 = (Inr ev, w')"
    by (auto simp: tx_bind_Inr)
  from st have "effect k (db w3) (db w4) [] [] [] []"
    by (auto simp: update_run_status_def effect_status)
  with append_event_Inr[OF ap, of k] same obtain e where
    "effect k (db w) (db w') [] [] [] [e]" "ev_type e = ty" by (force dest: effect_trans)
  moreover have "\<not> in_flight a k (db w)" if "a \<noteq> []" for a
  proof
    assume fl: "in_flight a k (db w)"
    then obtain e where "e \<in> set (run_events k (db w))" "ev_type e = EV_EXECUTION_STARTED"
      "ev_action_id e = Some a" by (auto simp: in_flight_def run_events_def)
    with that have "a \<in> set (started_actions evs)"
      unfolding started_in evs same events_of_all by auto
    with guard have "a \<in> set (finished_actions evs)" by blast
    with fl show False
      unfolding finished_in evs same events_of_all by (auto simp: in_flight_def run_events_def)
  qed
  ultimately show ?thesis by blast
qed

section \<open>The invariant of a configuration\<close>

fun flight_of :: "task \<Rightarrow> (pystr \<times> pystr) option" where
  "flight_of (T_dispatch ss _ _) = Some (act_id (ss_action ss), act_run_id (ss_action ss))"
| "flight_of (T_record ss _ _) = Some (act_id (ss_action ss), act_run_id (ss_action ss))"
| "flight_of (T_run_approved rs _ _ _) = Some (act_id (rs_action rs), app_run_id (rs_approval rs))"
| "flight_of (T_record_approved rs _ _) = Some (act_id (rs_action rs), app_run_id (rs_approval rs))"
| "flight_of _ = None"

fun awaiting :: "task \<Rightarrow> bool" where
  "awaiting (T_dispatch _ _ _) = True"
| "awaiting (T_run_approved _ _ _ _) = True"
| "awaiting _ = False"

definition task_ok :: "task \<Rightarrow> store \<Rightarrow> bool" where
  "task_ok t s \<longleftrightarrow>
     (case t of T_submit ss \<Rightarrow> well_prepared ss | T_grant rs _ _ _ \<Rightarrow> well_loaded rs s | _ \<Rightarrow> True)
     \<and> (case flight_of t of None \<Rightarrow> True | Some (a, k) \<Rightarrow> a \<noteq> [] \<and> in_flight a k s)"

definition on_action :: "pystr \<Rightarrow> task \<Rightarrow> bool" where
  "on_action a t \<longleftrightarrow> map_option fst (flight_of t) = Some a"

definition busy :: "pystr \<Rightarrow> task multiset \<Rightarrow> nat" where
  "busy a ts = size (filter_mset (on_action a) ts)"

definition waiting :: "pystr \<Rightarrow> task multiset \<Rightarrow> nat" where
  "waiting a ts = size (filter_mset (\<lambda>t. on_action a t \<and> awaiting t) ts)"

definition config_ok :: "config \<Rightarrow> bool" where
  "config_ok c \<longleftrightarrow> (case c of Config w ts h \<Rightarrow>
     sound_store (db w) \<and> outcomes_ok (db w) \<and> (\<forall>t \<in># ts. task_ok t (db w))
     \<and> (\<forall>a. busy a ts \<le> 1) \<and> (\<forall>a. count_list h a + waiting a ts \<le> length (starts a (db w))))"

lemma task_counts [simp]:
  "busy a (add_mset t ts) = (if on_action a t then 1 else 0) + busy a ts"
  "waiting a (add_mset t ts) = (if on_action a t \<and> awaiting t then 1 else 0) + waiting a ts"
  "busy a {#} = 0" "waiting a {#} = 0"
  by (simp_all add: busy_def waiting_def)

lemma waiting_le_busy: "waiting a ts \<le> busy a ts"
  by (induction ts) auto

lemma busy_none: "busy a ts = 0 \<Longrightarrow> t \<in># ts \<Longrightarrow> \<not> on_action a t"
  by (auto simp: busy_def)

lemma count_list_snoc [simp]: "count_list (h @ [b]) a = count_list h a + (if b = a then 1 else 0)"
  by (induction h) auto

lemma find_forward:
  assumes "list_all2 approval_step ps qs"
  shows "(find (\<lambda>p. app_id p = k) ps = None \<longrightarrow> find (\<lambda>p. app_id p = k) qs = None)
       \<and> (\<forall>p. find (\<lambda>p. app_id p = k) ps = Some p \<longrightarrow>
            (\<exists>q. find (\<lambda>p. app_id p = k) qs = Some q \<and> approval_step p q))"
  using assms by (induction rule: list_all2_induct) (auto simp: approval_step_def)

lemma loaded_forward: "well_loaded rs s \<Longrightarrow> approvals_forward s t \<Longrightarrow> well_loaded rs t"
  unfolding well_loaded_def approvals_forward_def find_approval_def
  by (auto simp: find_append approval_step_def dest!: find_forward[of _ _ "app_id (rs_approval rs)"])

lemma append_starts: "append_only s t \<Longrightarrow> length (starts a s) \<le> length (starts a t)"
  by (auto simp: append_only_def starts_def prefix_def)

text \<open>The tasks that are not the one that steps.\<close>

definition others_ok :: "task multiset \<Rightarrow> store \<Rightarrow> store \<Rightarrow> bool" where
  "others_ok ts s t \<longleftrightarrow>
     (\<forall>x a k. x \<in># ts \<longrightarrow> flight_of x = Some (a, k) \<longrightarrow> a \<noteq> [] \<longrightarrow> in_flight a k s \<longrightarrow> in_flight a k t)"

lemma tasks_kept:
  assumes "\<forall>x \<in># ts. task_ok x s" and "others_ok ts s t" and "approvals_forward s t"
  shows "\<forall>x \<in># ts. task_ok x t"
proof
  fix x assume x: "x \<in># ts"
  with assms(1) have "task_ok x s" by blast
  with x assms(2,3) show "task_ok x t"
    by (cases x) (auto simp: task_ok_def others_ok_def intro: loaded_forward)
qed

lemma config_step:
  assumes "config_ok (Config w ts h)"
    and "sound_kept (db w) (db w')" "append_only (db w) (db w')" "approvals_forward (db w) (db w')"
    and "outcomes_ok (db w) \<Longrightarrow> outcomes_ok (db w')" and "others_ok ts (db w) (db w')"
  shows "config_ok (Config w' ts h)"
  using assms tasks_kept[of ts "db w" "db w'"] append_starts[OF assms(3)]
  unfolding config_ok_def sound_kept_def by (auto intro: order_trans)

lemma flight_others: "flight_kept s t \<Longrightarrow> others_ok ts s t"
  by (simp add: flight_kept_def others_ok_def)

section \<open>Every step keeps it\<close>

fun closing :: "background \<Rightarrow> bool" where
  "closing (B_complete _ _ _ _) = True"
| "closing (B_fail _ _ _ _) = True"
| "closing _ = False"

context repository_contract
begin

lemma keeps_background:
  assumes "desk_events \<subseteq> EV" "open_statuses \<subseteq> ST" "closing b \<Longrightarrow> {RS_COMPLETED, RS_FAILED} \<subseteq> ST"
  shows "R (db w) (db (run_background g b w))"
proof -
  have k: "keeps R m \<Longrightarrow> R (db w) (db (snd (m w)))" for m :: "'z tx" by (simp add: keeps_def)
  have ty: "EV_RUN_COMPLETED \<in> EV" "EV_SYSTEM_ERROR \<in> EV" using assms(1) by (auto simp: desk_events_def)
  show ?thesis
    using assms(3)
    by (cases b; simp only: run_background.simps; intro k keeps_transaction)
       (auto intro!: keeps_create_run_tx keeps_run_updates keeps_deny_phase1 keeps_expire_on_resolve
         keeps_expire_wait_tx keeps_reconcile_tx keeps_close_tx assms(1,2) ty)
qed

end

lemma closing_flights:
  assumes "closing b"
  shows "others_ok ts (db w) (db (run_background g b w))
     \<and> (outcomes_ok (db w) \<longrightarrow> outcomes_ok (db (run_background g b w)))"
proof -
  have tx: "others_ok ts (db w) (db (snd (db_transaction m w)))
      \<and> (outcomes_ok (db w) \<longrightarrow> outcomes_ok (db (snd (db_transaction m w))))"
    if m: "m = close_run_tx k st ty sm dt bud began now" and ty: "ty \<in> desk_events" for m k st ty sm dt bud began now
  proof -
    obtain r w' where run: "db_transaction m w = (r, w')" by fastforce
    show ?thesis
    proof (cases r)
      case (Inl e)
      from db_transaction_atomic[OF run[unfolded Inl]] run show ?thesis by (simp add: others_ok_def)
    next
      case (Inr x)
      obtain rn ev where x: "x = (rn, ev)" by fastforce
      from run Inr x m have "close_run_tx k st ty sm dt bud began now w = (Inr (rn, ev), w')" by simp
      from close_run_tx_Inr[OF this] obtain e where
        none: "\<forall>a. a \<noteq> [] \<longrightarrow> \<not> in_flight a k (db w)"
        and eff: "effect k (db w) (db w') [] [] [] [e]" and ety: "ev_type e = ty" by blast
      from eff obtain f where f: "\<forall>r. run_key (f r) = run_key r"
        "runs_t (db w') = map (\<lambda>r. if run_key r = k then f r else r) (runs_t (db w))"
        "events_t (db w') = events_t (db w) @ [e]" unfolding effect_def by blast
      have fin: "ev_type e \<noteq> EV_EXECUTION_SUCCEEDED \<and> ev_type e \<noteq> EV_EXECUTION_FAILED"
        using ety ty by (auto simp: desk_events_def)
      have other: "open_run j (db w')" if "open_run j (db w)" "j \<noteq> k" for j
      proof -
        have "find_run j (db w') = map_option (\<lambda>r. if run_key r = k then f r else r) (find_run j (db w))"
          unfolding find_run_def f(2) using f(1) by (intro find_map_same) auto
        with that show ?thesis
          by (auto simp: open_run_def find_run_def find_Some_iff)
      qed
      have "in_flight a j (db w')" if "in_flight a j (db w)" "a \<noteq> []" for a j
        using in_flight_frame[OF that(1) _ f(3)] other[of j] that none fin by auto
      moreover have "outcomes_ok (db w')" if "outcomes_ok (db w)"
        using that f(3) fin unfolding outcomes_ok_def outcome_event_def by (auto simp: starts_def)
      ultimately show ?thesis using run by (simp add: others_ok_def)
    qed
  qed
  have d: "EV_RUN_COMPLETED \<in> desk_events" "EV_SYSTEM_ERROR \<in> desk_events"
    by (auto simp: desk_events_def)
  from assms show ?thesis using tx[OF refl d(1)] tx[OF refl d(2)] by (cases b) simp_all
qed

lemma background_keeps:
  assumes "config_ok (Config w ts h)"
  shows "config_ok (Config (run_background g b w) ts h)"
proof (rule config_step[OF assms])
  let ?w = "run_background g b w"
  show "sound_kept (db w) (db ?w)"
    by (rule sound.keeps_background) (auto simp: desk_events_def quiet_events_def)
  show "append_only (db w) (db ?w)" by (rule append.keeps_background) auto
  show "approvals_forward (db w) (db ?w)" by (rule forward.keeps_background) auto
  have fl: "flight_kept (db w) (db ?w)" if "\<not> closing b"
    by (rule flight.keeps_background) (use that in \<open>auto simp: desk_events_def open_events_def\<close>)
  show "others_ok ts (db w) (db ?w)"
    using closing_flights fl flight_others by blast
  show "outcomes_ok (db w) \<Longrightarrow> outcomes_ok (db ?w)"
    using closing_flights fl flight_outcomes by blast
qed

lemma new_flight:
  assumes "outcomes_ok s" and "starts a s = []" and "open_run k s" and fl: "flight_kept s t"
    and e: "e \<in> set (events_t t)" "ev_type e = EV_EXECUTION_STARTED" "ev_action_id e = Some a"
      "ev_run_id e = k"
  shows "in_flight a k t"
proof -
  have "\<not> outcome_event f" if "f \<in> set (events_t t)" "ev_action_id f = Some a" for f
    using that assms(1,2) fl unfolding flight_kept_def outcomes_ok_def by blast
  moreover have "open_run k t" using assms(3,4) by (simp add: flight_kept_def)
  ultimately show ?thesis using e unfolding in_flight_def outcome_event_def by blast
qed

lemma run_exists_find: "run_exists k s \<Longrightarrow> \<exists>r. find_run k s = Some r"
  unfolding run_exists_def find_run_def
  by (cases "find (\<lambda>r. run_key r = k) (runs_t s)") (auto simp: find_None_iff)

lemma closed_open: "find_run k s = Some r \<Longrightarrow> \<not> closed_run k s \<Longrightarrow> open_run k s"
  by (simp add: closed_run_def open_run_def)

lemma waiting_zero: "busy a ts = 0 \<Longrightarrow> waiting a ts = 0"
  using waiting_le_busy[of a ts] by simp

lemma busy_started:
  assumes "config_ok (Config w ts h)" and "starts a (db w) = []"
  shows "busy a ts = 0"
proof (rule ccontr)
  assume "busy a ts \<noteq> 0"
  then obtain x where "x \<in># ts" "on_action a x"
    unfolding busy_def by (metis multiset_nonemptyE mem_Collect_eq set_mset_filter size_empty)
  then obtain k where "in_flight a k (db w)"
    using assms(1) by (force simp: config_ok_def task_ok_def on_action_def)
  with assms(2) show False by (auto simp: in_flight_def starts_def filter_empty_conv)
qed

text \<open>A phase-1 transaction that announces a dispatch: one task and one start more.\<close>

lemma config_started:
  assumes ok: "config_ok (Config w ts h)"
    and "sound_store (db w')" "append_only (db w) (db w')" "approvals_forward (db w) (db w')"
    and fl: "flight_kept (db w) (db w')"
    and t: "flight_of t = Some (a, k)" "a \<noteq> []" "task_ok t (db w')"
    and st: "starts a (db w) = []" "starts a (db w') \<noteq> []"
  shows "config_ok (Config w' (add_mset t ts) h)"
proof -
  have zero: "busy a ts = 0" by (rule busy_started[OF ok st(1)])
  have ok': "config_ok (Config w' ts h)"
    using config_step[OF ok _ assms(3,4) flight_outcomes[OF fl] flight_others[OF fl]] assms(2)
    by (simp add: sound_kept_def)
  have "count_list h a + waiting a ts \<le> length (starts a (db w))"
    using ok by (simp add: config_ok_def)
  with st(1) have none: "count_list h a = 0" by simp
  have on: "on_action b t \<longleftrightarrow> b = a" for b using t(1) by (auto simp: on_action_def)
  have "1 \<le> length (starts a (db w'))" using st(2) by (cases "starts a (db w')") auto
  then have "count_list h b + waiting b (add_mset t ts) \<le> length (starts b (db w'))" for b
    using ok' none zero waiting_zero[OF zero] on by (cases "b = a") (simp_all add: config_ok_def)
  moreover have "busy b (add_mset t ts) \<le> 1" for b
    using ok zero on by (cases "b = a") (simp_all add: config_ok_def)
  ultimately show ?thesis using t(3) ok' by (simp add: config_ok_def)
qed

lemma config_drop:
  assumes "config_ok (Config w (add_mset t ts) h)"
  shows "config_ok (Config w ts h)" "task_ok t (db w)"
proof -
  have "busy a ts \<le> busy a (add_mset t ts)" "waiting a ts \<le> waiting a (add_mset t ts)" for a
    by simp_all
  with assms show "config_ok (Config w ts h)" "task_ok t (db w)"
    unfolding config_ok_def by (simp_all del: task_counts) (meson le_trans add_left_mono)
qed

lemma submit_keeps:
  assumes ok: "config_ok (Config w (add_mset (T_submit ss) ts) h)"
    and run: "db_transaction (submit_phase1 g ss) w = (r, w')"
  shows "config_ok (Config w' (after_submit ss r + ts) h)"
proof -
  let ?a = "ss_action ss"
  note ok' = config_drop(1)[OF ok]
  have prep: "well_prepared ss" and sound: "sound_store (db w)"
    using config_drop(2)[OF ok] ok by (simp_all add: config_ok_def task_ok_def)
  have wf: "wf_kept (db w) (db w')" and app: "append_only (db w) (db w')"
    and fwd: "approvals_forward (db w) (db w')" and fl: "flight_kept (db w) (db w')"
    using keepsD[OF wf.keeps_transaction[OF wf.keeps_phase1] run]
      keepsD[OF append.keeps_transaction[OF append.keeps_phase1] run]
      keepsD[OF forward.keeps_transaction[OF forward.keeps_phase1] run]
      keepsD[OF flight.keeps_transaction[OF flight.keeps_phase1] run] by auto
  show ?thesis
  proof (cases r)
    case (Inl e)
    with db_transaction_atomic[OF run[unfolded Inl]]
    show ?thesis using config_step[OF ok'] by (simp add: after_submit_def sound_kept_def append_only_def others_ok_def forward.refl)
  next
    case (Inr x)
    obtain fresh evs i where x: "x = (fresh, evs, i)" by (cases x) auto
    with run Inr have "submit_phase1 g ss w = (Inr (fresh, evs, i), w')" by simp
    from submit_phase1_Inr[OF this] obtain apps es where
      fresh: "find_run (act_run_id ?a) (db w) = Some fresh" "\<not> closed_run (act_run_id ?a) (db w)"
        "\<not> action_exists (act_id ?a) (db w)"
      and eff: "effect (act_run_id ?a) (db w) (db w') [?a] [ss_decision ss] apps es"
      and shape: "phase1_shape ss i apps es" by blast
    have sound': "sound_store (db w')"
      using sound_submit[OF sound _ eff fresh(3) _ _ shape] prep wf sound
      by (auto simp: well_prepared_def wf_kept_def sound_store_def)
    show ?thesis
    proof (cases i)
      case (Dispatch began)
      with shape obtain es0 p e where es: "es = es0 @ [p, e]" "quiet_list es0"
        "started_by ?a EV_POLICY_ALLOWED p e" by (auto simp: phase1_shape_def)
      have none: "starts (act_id ?a) (db w) = []" by (rule fresh_action(1)[OF sound fresh(3)])
      have "starts (act_id ?a) (db w') \<noteq> []"
        using starts_effect[OF eff, of "act_id ?a"] es by (auto simp: started_by_def)
      moreover have "in_flight (act_id ?a) (act_run_id ?a) (db w')"
        using new_flight[OF _ none closed_open[OF fresh(1,2)] fl, of e] ok' eff es
        by (simp add: config_ok_def effect_def started_by_def)
      ultimately show ?thesis
        using config_started[OF ok' sound' app fwd fl, of "T_dispatch ss fresh began"] none prep
        by (simp add: after_submit_def Inr x Dispatch task_ok_def well_prepared_def)
    qed (use config_step[OF ok' _ app fwd flight_outcomes[OF fl] flight_others[OF fl]] sound'
          in \<open>simp_all add: after_submit_def Inr x sound_kept_def\<close>)
  qed
qed

lemma grant_keeps:
  assumes ok: "config_ok (Config w (add_mset (T_grant rs who reason ws) ts) h)"
    and run: "db_transaction (grant_phase1 g rs who reason) w = (r, w')"
  shows "config_ok (Config w' (after_grant rs ws r + ts) h)"
proof -
  let ?a = "act_id (rs_action rs)" and ?k = "app_run_id (rs_approval rs)"
  note ok' = config_drop(1)[OF ok]
  have loaded: "well_loaded rs (db w)" and sound: "sound_store (db w)" and out: "outcomes_ok (db w)"
    using config_drop(2)[OF ok] ok by (simp_all add: config_ok_def task_ok_def)
  have wf: "wf_kept (db w) (db w')" and app: "append_only (db w) (db w')"
    and fwd: "approvals_forward (db w) (db w')" and fl: "flight_kept (db w) (db w')"
    using keepsD[OF wf.keeps_transaction[OF wf.keeps_grant_phase1] run]
      keepsD[OF append.keeps_transaction[OF append.keeps_grant_phase1] run]
      keepsD[OF forward.keeps_transaction[OF forward.keeps_grant_phase1] run]
      keepsD[OF flight.keeps_transaction[OF flight.keeps_grant_phase1] run] by auto
  show ?thesis
  proof (cases r)
    case (Inl e)
    with db_transaction_atomic[OF run[unfolded Inl]]
    show ?thesis using config_step[OF ok']
      by (simp add: after_grant_def sound_kept_def append_only_def others_ok_def forward.refl)
  next
    case (Inr x)
    obtain up evs began where x: "x = (up, evs, began)" by (cases x) auto
    with run Inr have "grant_phase1 g rs who reason w = (Inr (up, evs, began), w')" by simp
    from grant_phase1_Inr[OF this, of ?k] obtain p v e where
      row: "find_approval (app_id (rs_approval rs)) (db w) = Some p" "app_status p = AS_PENDING"
        "\<not> closed_run ?k (db w)"
      and eff: "effect ?k (granted_store rs who reason (db w)) (db w') [] [] [] [v, e]"
      and evs: "ev_type v = EV_APPROVAL_GRANTED" "ev_action_id v = Some ?a"
        "ev_type e = EV_EXECUTION_STARTED" "ev_action_id e = Some ?a" "ev_run_id e = ?k"
      unfolding granted_store_def by blast
    have sound': "sound_store (db w')"
      using sound_grant[OF sound _ loaded row(1,2) eff evs] wf sound
      by (simp add: wf_kept_def sound_store_def)
    have events: "events_t (db w') = events_t (db w) @ [v, e]"
      using eff by (simp add: effect_def granted_frame)
    from find_approval_in[OF row(1)] have p: "p \<in> set (approvals_t (db w))" by simp
    from loaded row(1) have pa: "app_action_id p = ?a" "app_run_id p = ?k"
      by (simp_all add: well_loaded_def)
    have none: "starts ?a (db w) = []"
      using sound p pa(1) row(2) by (auto simp: sound_store_def approvals_ok_def)
    have some: "starts ?a (db w') \<noteq> []" using events evs by (simp add: starts_def)
    have "run_exists (app_run_id p) (db w)"
      using p sound unfolding sound_store_def wf_store_def refs_ok_def by blast
    then obtain rn where "find_run ?k (db w) = Some rn"
      unfolding pa(2) by (meson run_exists_find)
    then have op: "open_run ?k (db w)" using row(3) by (rule closed_open)
    have "\<exists>b \<in> set (actions_t (db w)). act_id b = app_action_id p"
      using p sound unfolding sound_store_def approvals_ok_def by blast
    then obtain b where b: "b \<in> set (actions_t (db w))" "act_id b = ?a" unfolding pa(1) ..
    have ne: "?a \<noteq> []"
      using sound b unfolding sound_store_def by metis
    have fly: "in_flight ?a ?k (db w')"
      using new_flight[OF out none op fl, of e] events evs by simp
    show ?thesis
    proof (cases up)
      case None
      then show ?thesis
        using config_step[OF ok' _ app fwd flight_outcomes[OF fl] flight_others[OF fl]] sound'
        by (simp add: after_grant_def Inr x sound_kept_def)
    next
      case (Some u)
      then show ?thesis
        using config_started[OF ok' sound' app fwd fl, of "T_run_approved rs ws u began"] none some ne fly
        by (simp add: after_grant_def Inr x task_ok_def)
    qed
  qed
qed

text \<open>A call to the executor: the awaiting task becomes one that records.\<close>

lemma call_keeps:
  assumes ok: "config_ok (Config w (add_mset t ts) h)" and db: "db w' = db w"
    and t: "flight_of t = Some (a, k)" "awaiting t" and u: "flight_of u = Some (a, k)" "\<not> awaiting u"
  shows "config_ok (Config w' (add_mset u ts) (h @ [a]))"
proof -
  have on: "on_action b t \<longleftrightarrow> b = a" "on_action b u \<longleftrightarrow> b = a" for b
    using t(1) u(1) by (auto simp: on_action_def)
  have "task_ok u (db w)"
    using config_drop(2)[OF ok] t(1) u(1) by (cases u; cases t) (auto simp: task_ok_def)
  moreover have "count_list (h @ [a]) b + waiting b (add_mset u ts) \<le> length (starts b (db w))" for b
    using ok on t(2) u(2) by (cases "b = a") (auto simp: config_ok_def split: if_splits elim!: allE[of _ b])
  moreover have "busy b (add_mset u ts) \<le> 1" for b
    using ok on by (auto simp: config_ok_def)
  ultimately show ?thesis using ok db by (simp add: config_ok_def del: task_counts)
qed

text \<open>An outcome is recorded: the task is gone, no other flight is touched.\<close>

lemma record_keeps:
  assumes ok: "config_ok (Config w (add_mset t ts) h)" and t: "flight_of t = Some (a, k)"
    and rel: "sound_kept (db w) (db w')" "append_only (db w) (db w')" "approvals_forward (db w) (db w')"
      "flight_but a (db w) (db w')"
  shows "config_ok (Config w' ts h)"
proof -
  have on: "on_action a t" using t by (simp add: on_action_def)
  have "busy a (add_mset t ts) \<le> 1" using ok by (simp add: config_ok_def del: task_counts)
  with on have zero: "busy a ts = 0" by simp
  have "task_ok t (db w)" by (rule config_drop(2)[OF ok])
  with t have "in_flight a k (db w)" by (simp add: task_ok_def)
  then have st: "starts a (db w) \<noteq> []"
    by (auto simp: in_flight_def starts_def filter_empty_conv)
  show ?thesis
  proof (rule config_step[OF config_drop(1)[OF ok] rel(1,2,3)])
    show "outcomes_ok (db w) \<Longrightarrow> outcomes_ok (db w')" using rel(4) st by (simp add: flight_but_def)
    show "others_ok ts (db w) (db w')"
      unfolding others_ok_def
    proof (intro allI impI)
      fix x b j assume x: "x \<in># ts" "flight_of x = Some (b, j)" "in_flight b j (db w)"
      with busy_none[OF zero x(1)] have "b \<noteq> a" by (auto simp: on_action_def)
      with x(3) rel(4) show "in_flight b j (db w')" by (simp add: flight_but_def)
    qed
  qed
qed

context repository_contract
begin

lemma keeps_record_submission:
  "quiet_events \<subseteq> EV \<Longrightarrow> keeps R (record_submission g ss began res)"
  by (cases res) (auto simp: record_submission_def Let_def intro!: keeps_all keeps_record)

lemma keeps_record_approved:
  "quiet_events \<subseteq> EV \<Longrightarrow> open_statuses \<subseteq> ST \<Longrightarrow> keeps R (record_approved g rs began res)"
  by (cases res) (auto simp: record_approved_def intro!: keeps_all keeps_approved_record)

end

lemma step_keeps:
  assumes st: "step g c c'" and exec: "executor_backend (gw_execute g)" and ok: "config_ok c"
  shows "config_ok c'"
  using st ok
proof (cases rule: step.cases)
  case (elsewhere w' w ts h)
  with ok show ?thesis by (simp add: config_ok_def)
next
  case (lost w t ts h)
  with ok config_drop(1) show ?thesis by blast
next
  case (background w ts h b)
  with ok background_keeps show ?thesis by simp
next
  case (prepared ss w ts h)
  with ok show ?thesis by (simp add: config_ok_def task_ok_def on_action_def)
next
  case (phase1 ss w r w' ts h)
  with ok submit_keeps show ?thesis by blast
next
  case (dispatched ss fresh w res w' began ts h)
  have "db w' = db w"
    using keepsD[OF executor_backend.db_frame[OF exec] dispatched(3)[unfolded call_submitted_def]] ..
  with ok dispatched show ?thesis by (auto intro: call_keeps)
next
  case (recorded ss began res w r w' ts h)
  show ?thesis
    unfolding recorded(2)
    by (rule record_keeps[OF ok[unfolded recorded(1)]])
       (use keepsD[OF sound.keeps_record_submission recorded(3)]
          keepsD[OF append.keeps_record_submission recorded(3)]
          keepsD[OF forward.keeps_record_submission recorded(3)]
          keepsD[OF but_record_submission recorded(3)] in simp_all)
next
  case (loaded rs w ts h who reason ws)
  with ok show ?thesis by (simp add: config_ok_def task_ok_def on_action_def)
next
  case (granted rs who reason w r w' ws ts h)
  with ok grant_keeps show ?thesis by blast
next
  case (run_approved rs ws up w res w' began ts h)
  have "db w' = db w"
    using keepsD[OF executor_backend.db_frame[OF exec] run_approved(3)[unfolded call_approved_def]] ..
  with ok run_approved show ?thesis by (auto intro: call_keeps)
next
  case (recorded_approved rs began res w r w' ts h)
  show ?thesis
    unfolding recorded_approved(2)
    by (rule record_keeps[OF ok[unfolded recorded_approved(1)]])
       (use keepsD[OF sound.keeps_record_approved recorded_approved(3)]
          keepsD[OF append.keeps_record_approved recorded_approved(3)]
          keepsD[OF forward.keeps_record_approved recorded_approved(3)]
          keepsD[OF but_record_approved recorded_approved(3)] in simp_all)
qed

lemma config_empty: "db w = empty_store \<Longrightarrow> config_ok (Config w {#} [])"
  using sound_empty by (simp add: config_ok_def outcomes_ok_def empty_store_def)

lemma reachable_ok:
  assumes "executor_backend (gw_execute g)" and "reachable g c"
  shows "config_ok c"
proof -
  from assms(2) obtain w where w: "db w = empty_store" "(step g)\<^sup>*\<^sup>* (Config w {#} []) c"
    unfolding reachable_def by blast
  from w(2) show ?thesis
    by (induction rule: rtranclp_induct) (auto intro: config_empty[OF w(1)] step_keeps[OF _ assms(1)])
qed

section \<open>Properties\<close>

lemma distinct_counts: "(\<And>a. count_list h a \<le> 1) \<Longrightarrow> distinct h"
proof (induction h)
  case (Cons x h)
  from Cons.prems[of x] have "x \<notin> set h" by (simp add: count_list_0_iff)
  moreover have "count_list h a \<le> 1" for a using Cons.prems[of a] by (simp split: if_splits)
  ultimately show ?case using Cons.IH by simp
qed simp

lemma start_split:
  assumes "justified es" and "e \<in> set es" and "ev_type e = EV_EXECUTION_STARTED"
  shows "\<exists>ys zs. es = ys @ e # zs \<and> (\<exists>x \<in> set ys. permits x e)"
  using assms unfolding justified_def by (metis split_list)

lemma warranted_decisions:
  assumes "sound_store s" and "warranted a s" and "d \<in> set (decisions_t s)" and "dec_action_id d = a"
  shows "outcome d \<noteq> PO_DENY"
  using assms eq_key_imp_eq_value[of "map (\<lambda>d. (dec_action_id d, d)) (decisions_t s)"]
  unfolding sound_store_def warranted_def approvals_ok_def
  by (auto simp: comp_def) (metis (no_types, lifting) image_eqI policy_outcome.distinct)+

text \<open>
  C20: whatever requests interleave, from an empty database on, every action that was handed to
  the executor was handed to it at most once, and the evidence that permits it is in the database:
  its EXECUTION_STARTED event is there, preceded by the POLICY_ALLOWED or APPROVAL_GRANTED event of
  the same action, an ALLOW decision or an approved approval stands behind it, and no decision of
  the action is a DENY.
\<close>

theorem handed_once_with_evidence:
  assumes "executor_backend (gw_execute g)" and "reachable g (Config w ts h)"
  shows "distinct h \<and> (\<forall>a \<in> set h. warranted a (db w)
     \<and> (\<exists>ys e zs. events_t (db w) = ys @ e # zs \<and> ev_type e = EV_EXECUTION_STARTED
          \<and> ev_action_id e = Some a \<and> (\<exists>x \<in> set ys. permits x e))
     \<and> (\<forall>d \<in> set (decisions_t (db w)). dec_action_id d = a \<longrightarrow> outcome d \<noteq> PO_DENY))"
proof -
  from reachable_ok[OF assms] have sound: "sound_store (db w)" and starts: "starts_ok (db w)"
    and counts: "count_list h a + waiting a ts \<le> length (starts a (db w))" for a
    by (simp_all add: config_ok_def sound_store_def)
  have once: "count_list h a \<le> 1" for a
    using counts[of a] starts by (auto simp: starts_ok_def intro: le_trans[OF add_leD1])
  have st: "\<exists>e \<in> set (events_t (db w)). ev_type e = EV_EXECUTION_STARTED \<and> ev_action_id e = Some a"
    if "a \<in> set h" for a
  proof -
    have "0 < count_list h a" using that by (simp add: count_list_0_iff neq0_conv[symmetric])
    with counts[of a] have "starts a (db w) \<noteq> []" by auto
    then show ?thesis by (auto simp: starts_def filter_empty_conv)
  qed
  have w: "warranted a (db w)" if "a \<in> set h" for a
    using st[OF that] starts unfolding starts_ok_def by (metis option.inject)
  have "\<exists>ys e zs. events_t (db w) = ys @ e # zs \<and> ev_type e = EV_EXECUTION_STARTED
          \<and> ev_action_id e = Some a \<and> (\<exists>x \<in> set ys. permits x e)" if "a \<in> set h" for a
    using st[OF that] starts start_split unfolding starts_ok_def by metis
  moreover have "distinct h" using once by (rule distinct_counts)
  ultimately show ?thesis using w warranted_decisions[OF sound] by blast
qed

text \<open>
  C21: no run is closed under an execution. As long as a request holds an action it has started
  (before the executor call, during it, or with the outcome not yet recorded), the run of the
  action is neither COMPLETED nor FAILED, no outcome of it is recorded, and no other request
  holds the same action.
\<close>

theorem flights_keep_runs_open:
  assumes "executor_backend (gw_execute g)" and "reachable g (Config w (add_mset t ts) h)"
    and "flight_of t = Some (a, k)"
  shows "open_run k (db w) \<and> in_flight a k (db w) \<and> (\<forall>u \<in># ts. \<not> on_action a u)"
proof -
  from reachable_ok[OF assms(1,2)] have ok: "config_ok (Config w (add_mset t ts) h)" .
  have "busy a (add_mset t ts) \<le> 1" using ok by (simp add: config_ok_def del: task_counts)
  with assms(3) have "busy a ts = 0" by (simp add: on_action_def)
  moreover have "in_flight a k (db w)"
    using config_drop(2)[OF ok] assms(3) by (simp add: task_ok_def)
  ultimately show ?thesis using busy_none by (auto simp: in_flight_def)
qed

text \<open>A run is created; a read of it passes phase 1, and is handed to the executor.\<close>

definition demo_submission :: submission_state where
  "demo_submission =
     \<lparr>ss_run = demo_run, ss_action = demo_traced, ss_decision = demo_decision PO_ALLOW demo_traced,
      ss_audit = None, ss_turn = ''t1'', ss_now = 0, ss_verified = False, ss_enabled = True,
      ss_trace = audit_trace_text demo_traced, ss_required = False, ss_missing = None,
      ss_workspace = [''ws'']\<rparr>"

definition demo_created :: world where
  "demo_created = run_background demo_gateway (B_create demo_run None) (demo_world empty_store)"

lemma demo_phase1:
  "case db_transaction (submit_phase1 demo_gateway demo_submission) demo_created of
     (Inr (fresh, evs, Dispatch began), w) \<Rightarrow>
       map ev_type (events_t (db w)) =
         [EV_RUN_CREATED, EV_ACTION_REQUESTED, EV_POLICY_ALLOWED, EV_EXECUTION_STARTED]
   | _ \<Rightarrow> False"
  by code_simp

lemma demo_dispatch_reachable:
  "\<exists>w fresh began. reachable demo_gateway (Config w {#T_dispatch demo_submission fresh began#} [])"
proof -
  obtain r w where tx: "db_transaction (submit_phase1 demo_gateway demo_submission) demo_created = (r, w)"
    by fastforce
  with demo_phase1 obtain fresh evs began where r: "r = Inr (fresh, evs, Dispatch began)"
    by (auto split: sum.splits prod.splits intent.splits)
  have "well_prepared demo_submission"
    by (simp add: well_prepared_def demo_submission_def demo_traced_def demo_action_def demo_decision_def)
  note steps = step.background[of demo_gateway "demo_world empty_store" "{#}" "[]" "B_create demo_run None",
      folded demo_created_def] step.prepared[OF this, of demo_gateway demo_created "{#}" "[]"]
    step.phase1[OF tx, of "{#}" "[]"]
  have "(step demo_gateway)\<^sup>*\<^sup>* (Config (demo_world empty_store) {#} []) (Config w (after_submit demo_submission r) [])"
    using steps by (auto intro: converse_rtranclp_into_rtranclp r_into_rtranclp)
  moreover have "db (demo_world empty_store) = empty_store" by (simp add: demo_world_def)
  ultimately have "reachable demo_gateway (Config w (after_submit demo_submission r) [])"
    unfolding reachable_def by blast
  then show ?thesis by (auto simp: after_submit_def r)
qed

theorem handed_once_with_evidence_witness:
  "\<exists>w ts. reachable demo_gateway (Config w ts [''a1'']) \<and> warranted ''a1'' (db w)"
proof -
  from demo_dispatch_reachable obtain w fresh began where
    at: "reachable demo_gateway (Config w {#T_dispatch demo_submission fresh began#} [])" by blast
  obtain res w' where call: "call_submitted demo_gateway demo_submission fresh w = (res, w')"
    by fastforce
  have "act_id (ss_action demo_submission) = ''a1''"
    by (simp add: demo_submission_def demo_traced_def demo_action_def)
  with step.dispatched[OF call, of began "{#}" "[]"] at
  have next': "reachable demo_gateway (Config w' {#T_record demo_submission began res#} [''a1''])"
    unfolding reachable_def by (auto intro: rtranclp.rtrancl_into_rtrancl)
  from handed_once_with_evidence[OF demo_gateway_backend this] next' show ?thesis by auto
qed

theorem flights_keep_runs_open_witness:
  "\<exists>w ts. reachable demo_gateway (Config w ts []) \<and> open_run ''r1'' (db w) \<and> in_flight ''a1'' ''r1'' (db w)"
proof -
  from demo_dispatch_reachable obtain w fresh began where
    at: "reachable demo_gateway (Config w (add_mset (T_dispatch demo_submission fresh began) {#}) [])" by auto
  have "flight_of (T_dispatch demo_submission fresh began) = Some (''a1'', ''r1'')"
    by (simp add: demo_submission_def demo_traced_def demo_action_def)
  from flights_keep_runs_open[OF demo_gateway_backend at this] at show ?thesis by blast
qed

end
