(* ===== verification/Concurrency.thy ===== *)
theory Concurrency
  imports Interleaving
begin

text \<open>
  The request handlers as paths of the interleaving semantics: what \<open>serve\<close> does to the world in
  one go is a sequence of \<open>step\<close>s, so the theorems on reachable configurations are about the
  handlers of \<open>service.py\<close> and not about a protocol beside them.
\<close>

section \<open>Paths\<close>

definition path_of :: "gateway \<Rightarrow> 'a tx \<Rightarrow> bool" where
  "path_of g m \<longleftrightarrow>
     (\<forall>w ts h. \<exists>h'. (step g)\<^sup>*\<^sup>* (Config w ts h) (Config (snd (m w)) ts h'))"

lemma path_ofI:
  "(\<And>w ts h. \<exists>h'. (step g)\<^sup>*\<^sup>* (Config w ts h) (Config (snd (m w)) ts h')) \<Longrightarrow> path_of g m"
  by (simp add: path_of_def)

lemma path_ofD:
  "path_of g m \<Longrightarrow> m w = (r, w') \<Longrightarrow> \<exists>h'. (step g)\<^sup>*\<^sup>* (Config w ts h) (Config w' ts h')"
  unfolding path_of_def by (metis snd_conv)

lemma path_same: "keeps (=) m \<Longrightarrow> path_of g m"
  by (rule path_ofI) (auto simp: keeps_def intro!: exI r_into_rtranclp step.elsewhere)

lemma path_bind:
  assumes "path_of g m" and "\<And>x. path_of g (f x)"
  shows "path_of g (tx_bind m f)"
proof (rule path_ofI)
  fix w ts h
  obtain r w1 where m: "m w = (r, w1)" by fastforce
  from path_ofD[OF assms(1) m] obtain h1 where
    1: "(step g)\<^sup>*\<^sup>* (Config w ts h) (Config w1 ts h1)" by blast
  show "\<exists>h'. (step g)\<^sup>*\<^sup>* (Config w ts h) (Config (snd (tx_bind m f w)) ts h')"
  proof (cases r)
    case (Inl e)
    with 1 m show ?thesis by (auto simp: tx_bind_def)
  next
    case (Inr x)
    obtain h2 where "(step g)\<^sup>*\<^sup>* (Config w1 ts h1) (Config (snd (f x w1)) ts h2)"
      using assms(2) unfolding path_of_def by blast
    with 1 m Inr show ?thesis by (auto simp: tx_bind_def intro: rtranclp_trans)
  qed
qed

lemma path_catch:
  assumes "path_of g m" and "\<And>e. path_of g (f e)"
  shows "path_of g (tx_catch m f)"
proof (rule path_ofI)
  fix w ts h
  obtain r w1 where m: "m w = (r, w1)" by fastforce
  from path_ofD[OF assms(1) m] obtain h1 where
    1: "(step g)\<^sup>*\<^sup>* (Config w ts h) (Config w1 ts h1)" by blast
  show "\<exists>h'. (step g)\<^sup>*\<^sup>* (Config w ts h) (Config (snd (tx_catch m f w)) ts h')"
  proof (cases r)
    case (Inr x)
    with 1 m show ?thesis by (auto simp: tx_catch_def)
  next
    case (Inl e)
    obtain h2 where "(step g)\<^sup>*\<^sup>* (Config w1 ts h1) (Config (snd (f e w1)) ts h2)"
      using assms(2) unfolding path_of_def by blast
    with 1 m Inl show ?thesis by (auto simp: tx_catch_def intro: rtranclp_trans)
  qed
qed

lemma path_try: "path_of g m \<Longrightarrow> path_of g (tx_try m)"
  by (simp add: path_of_def tx_try_def case_prod_beta)

lemma path_background:
  assumes "\<And>w. snd (m w) = run_background g b w"
  shows "path_of g m"
  by (rule path_ofI) (auto simp: assms intro!: exI r_into_rtranclp step.background)

lemma path_transactions:
  "path_of g (db_transaction (create_run_tx g r prompt))"
  "path_of g (db_transaction (update_run_prompt_version k v t))"
  "path_of g (db_transaction (update_run_workspace_path k p t))"
  "path_of g (db_transaction (deny_phase1 g rs who reason))"
  "path_of g (db_transaction (expire_on_resolve g rs))"
  "path_of g (db_transaction (expire_wait_tx g k))"
  "path_of g (db_transaction (reconcile_tx g now pending))"
  by (rule path_background, rule run_background.simps[symmetric])+

lemma path_cases:
  "path_of g m \<Longrightarrow> path_of g n \<Longrightarrow> path_of g (if c then m else n)"
  "path_of g m \<Longrightarrow> (\<And>x. path_of g (f x)) \<Longrightarrow> path_of g (case y of None \<Rightarrow> m | Some x \<Rightarrow> f x)"
  "(\<And>x y. path_of g (f2 x y)) \<Longrightarrow> path_of g (case z of (x, y) \<Rightarrow> f2 x y)"
  by (simp_all split: option.split prod.split)

lemmas path_rules = path_bind path_catch path_try path_transactions path_cases

lemma same_lookups:
  "keeps (=) (get_run k)" "keeps (=) list_runs" "keeps (=) (get_action_request k)"
  "keeps (=) (list_actions_for_run k)" "keeps (=) (get_reasoning_audit k)"
  "keeps (=) (get_reasoning_audit_by_turn k turn h tl_arg op res args)"
  "keeps (=) (get_policy_decision_by_action k)" "keeps (=) (get_approval_request k)"
  "keeps (=) (get_approval_by_action k)" "keeps (=) (list_approvals st k' sf)"
  "keeps (=) (get_execution_receipt_by_action k)" "keeps (=) (get_events k after lim)"
  "keeps (=) (read_disk f)" "keeps (=) (tx_of_sum r)" "keeps (=) (Pair z)"
  by (simp_all add: get_run_def list_runs_def get_action_request_def list_actions_for_run_def
      get_reasoning_audit_def get_reasoning_audit_by_turn_def get_policy_decision_by_action_def
      get_approval_request_def get_approval_by_action_def list_approvals_def
      get_execution_receipt_by_action_def get_events_def read_disk_def same.keeps_rules same_of_sum)
    (simp add: keeps_def)

lemmas path_leaves =
  same_lookups[THEN path_same] same.keeps_return[THEN path_same] same.keeps_raise[THEN path_same]
  same.keeps_query[THEN path_same] same.keeps_uuid4[THEN path_same]
  same.keeps_utc_now[THEN path_same] same.keeps_publish[THEN path_same]
  same.keeps_publish_all[THEN path_same] same.keeps_other_state[THEN path_same]

lemma path_require_run: "path_of g (require_run rid)"
  unfolding require_run_def by (intro path_rules path_leaves)

lemma path_resolve_workspace: "path_of g (resolve_run_workspace g r)"
  unfolding resolve_run_workspace_def by (intro path_rules path_leaves)

lemma path_run_policy: "path_of g (run_policy g a r ws)"
  unfolding run_policy_def by (intro path_rules path_leaves)

lemma path_required: "path_of g (required_reasoning_decision a r d en)"
  unfolding required_reasoning_decision_def Let_def by (intro path_rules path_leaves)

lemma path_final: "path_of g (final_decision g r a turn d en)"
  unfolding final_decision_def audited_decision_def obtain_audit_def fresh_audit_def
    reserve_estimate_def merge_audit_def escalated_def Let_def
  by (intro path_rules path_leaves path_required)

lemma path_credential: "path_of g (credential_check r)"
  unfolding credential_check_def by (cases r) (simp_all add: path_leaves)

lemma path_prepare: "path_of g (prepare_submission g rid q cred)"
  unfolding prepare_submission_def require_submittable_run_def admit_action_def Let_def
  by (intro path_rules path_leaves path_require_run path_resolve_workspace path_run_policy path_final
      path_credential)

lemma path_load: "path_of g (load_resolution k approve)"
  unfolding load_resolution_def load_approval_def require_resolvable_run_def
  by (intro path_rules path_leaves)

lemma path_refuse: "path_of g (refuse_expired g rs)"
  unfolding refuse_expired_def by (intro path_rules path_leaves)

lemma path_deny: "path_of g (deny_approval g rs who reason)"
  unfolding deny_approval_def by (intro path_rules path_leaves)

section \<open>The submission\<close>

lemma tx_bind_assoc: "tx_bind (tx_bind m f) k = tx_bind m (\<lambda>x. tx_bind (f x) k)"
  by (rule ext) (auto simp: tx_bind_def split: prod.splits sum.splits)

lemma tx_bind_run: "m w = (Inr x, w1) \<Longrightarrow> tx_bind m f w = f x w1"
  by (simp add: tx_bind_def)

text \<open>What follows an operation without touching the database.\<close>

lemma db_tail: "(\<And>x. keeps (=) (f x)) \<Longrightarrow> db (snd (tx_bind m f w)) = db (snd (m w))"
  by (auto simp: tx_bind_def keeps_def split: prod.splits sum.splits)

lemma db_publish_all [simp]: "db (snd (publish_all rid evs w)) = db w"
  using same.keeps_publish_all by (metis keeps_def)

lemma path_tail:
  assumes "(step g)\<^sup>*\<^sup>* c (Config w ts h)" and "db w' = db w"
  shows "(step g)\<^sup>*\<^sup>* c (Config w' ts h)"
  using assms by (auto intro: rtranclp.rtrancl_into_rtrancl step.elsewhere)

lemma submit_dispatch_records:
  assumes "call_submitted g ss fresh w = (res, w1)"
  shows "db (snd (submit_dispatch g ss fresh began evs w)) = db (snd (record_submission g ss began res w1))"
proof -
  have call: "tx_try (gw_execute g (ss_action ss) (ss_workspace ss) (Some (ss_decision ss)) None True
      (Some (run_scope fresh)) (Some (gw_workspace_key g (run_key fresh)))) w = (Inr res, w1)"
    using assms by (simp add: call_submitted_def tx_try_def)
  show ?thesis
  proof (cases res)
    case (Inl e)
    let ?tail = "\<lambda>ev. tx_bind (publish_all (act_run_id (ss_action ss)) (evs @ [ev]))
                    (\<lambda>_. tx_raise (dispatch_error e))"
    show ?thesis
      using db_tail[of ?tail "record_submission g ss began res" w1]
      by (simp add: submit_dispatch_def record_submission_def Let_def tx_bind_assoc Inl
          tx_bind_def[of "tx_try _"] call same.keeps_rules)
  next
    case (Inr rc)
    show ?thesis
      using db_tail[of "\<lambda>ev. tx_return (evs @ [ev], rc)" "record_submission g ss began res" w1]
      by (simp add: submit_dispatch_def record_submission_def Let_def tx_bind_assoc Inr
          tx_bind_def[of "tx_try _"] call same.keeps_rules)
  qed
qed

lemma path_dispatch:
  "\<exists>h'. (step g)\<^sup>*\<^sup>* (Config w (add_mset (T_dispatch ss fresh began) ts) h)
          (Config (snd (submit_dispatch g ss fresh began evs w)) ts h')"
proof -
  obtain res w1 where call: "call_submitted g ss fresh w = (res, w1)" by fastforce
  obtain r w2 where rec: "record_submission g ss began res w1 = (r, w2)" by fastforce
  note step.dispatched[OF call, of began ts h] step.recorded[OF rec, of ts "h @ [act_id (ss_action ss)]"]
  then have "(step g)\<^sup>*\<^sup>* (Config w (add_mset (T_dispatch ss fresh began) ts) h)
      (Config w2 ts (h @ [act_id (ss_action ss)]))" by (meson converse_rtranclp_into_rtranclp r_into_rtranclp)
  from path_tail[OF this] submit_dispatch_records[OF call, of began evs] rec show ?thesis by auto
qed

definition after_preparation ::
  "gateway \<Rightarrow> pystr \<Rightarrow> submission_state \<Rightarrow> action_response tx" where
  "after_preparation g rid ss =
     tx_bind (db_transaction (submit_phase1 g ss)) (\<lambda>(fresh, evs, intent).
     tx_bind (case intent of
                Dispatch began \<Rightarrow>
                  tx_bind (submit_dispatch g ss fresh began evs) (\<lambda>(evs', rc).
                    tx_return (evs', None, Some rc))
              | Await p \<Rightarrow> tx_return (evs, Some p, None)
              | Refused rc \<Rightarrow> tx_return (evs, None, Some rc)) (\<lambda>(evs', app, rc).
     tx_bind (publish_all rid evs') (\<lambda>_.
       tx_return (submission_response ss evs' app rc))))"

lemma path_after_preparation:
  assumes "well_prepared ss"
  shows "path_of g (after_preparation g rid ss)"
proof (rule path_ofI)
  fix w ts h
  obtain r w1 where tx: "db_transaction (submit_phase1 g ss) w = (r, w1)" by fastforce
  have start: "(step g)\<^sup>*\<^sup>* (Config w ts h) (Config w1 (after_submit ss r + ts) h)"
    using step.prepared[OF assms, of g w ts h] step.phase1[OF tx, of ts h]
    by (meson converse_rtranclp_into_rtranclp r_into_rtranclp)
  let ?tail = "\<lambda>(evs', app, rc). tx_bind (publish_all rid evs')
                 (\<lambda>_. tx_return (submission_response ss evs' app rc))"
  have tail: "keeps (=) (?tail x)" for x by (cases x) (simp add: same.keeps_rules)
  show "\<exists>h'. (step g)\<^sup>*\<^sup>* (Config w ts h) (Config (snd (after_preparation g rid ss w)) ts h')"
  proof (cases r)
    case (Inl e)
    with start tx show ?thesis by (auto simp: after_preparation_def tx_bind_def after_submit_def)
  next
    case (Inr x)
    obtain fresh evs i where x: "x = (fresh, evs, i)" by (cases x) auto
    show ?thesis
    proof (cases i)
      case (Dispatch began)
      obtain h' where more: "(step g)\<^sup>*\<^sup>* (Config w1 (add_mset (T_dispatch ss fresh began) ts) h)
          (Config (snd (submit_dispatch g ss fresh began evs w1)) ts h')"
        using path_dispatch by blast
      have "db (snd (after_preparation g rid ss w)) = db (snd (submit_dispatch g ss fresh began evs w1))"
        using db_tail[of "\<lambda>(evs', rc). tx_bind (tx_return (evs', None, Some rc)) ?tail"
            "submit_dispatch g ss fresh began evs" w1] tail
        unfolding after_preparation_def tx_bind_run[where m = "db_transaction (submit_phase1 g ss)", OF tx[unfolded Inr x Dispatch]]
        by (simp add: tx_bind_assoc same.keeps_rules prod.case_distrib[of "\<lambda>m. tx_bind m _"]
            split: prod.splits)
      moreover have "(step g)\<^sup>*\<^sup>* (Config w ts h) (Config w1 (add_mset (T_dispatch ss fresh began) ts) h)"
        using start by (simp add: after_submit_def Inr x Dispatch)
      ultimately show ?thesis using path_tail[OF rtranclp_trans] more by blast
    next
      case (Await p)
      have "db (snd (after_preparation g rid ss w)) = db w1"
        unfolding after_preparation_def tx_bind_run[where m = "db_transaction (submit_phase1 g ss)", OF tx[unfolded Inr x Await]]
        by (simp add: db_tail same.keeps_rules tx_return_def[of "(_, _)"] tx_bind_def[of "tx_return _"])
      with path_tail[OF start] show ?thesis by (auto simp: after_submit_def Inr x Await)
    next
      case (Refused rc)
      have "db (snd (after_preparation g rid ss w)) = db w1"
        unfolding after_preparation_def tx_bind_run[where m = "db_transaction (submit_phase1 g ss)", OF tx[unfolded Inr x Refused]]
        by (simp add: db_tail same.keeps_rules tx_return_def[of "(_, _)"] tx_bind_def[of "tx_return _"])
      with path_tail[OF start] show ?thesis by (auto simp: after_submit_def Inr x Refused)
    qed
  qed
qed

lemma uuid_frame:
  "require_submittable_run rid w = (Inr r, w1) \<Longrightarrow> uuid_src w1 = uuid_src w"
  "admit_action g rid w = (Inr u, w1) \<Longrightarrow> uuid_src w1 = uuid_src w"
  by (auto simp: require_submittable_run_def require_run_def get_run_def query_def tx_bind_Inr
      tx_return_def tx_raise_def admit_action_def utc_now_def guard_op_def
      split: option.splits if_splits prod.splits)

lemma prepare_well:
  assumes "prepare_submission g rid q cred w = (Inr ss, w')" and "\<And>n. uuid_src w n \<noteq> []"
  shows "well_prepared ss"
proof -
  from assms(1) obtain r u aid now ver ws d0 a' d au missing w1 w2 w3 w4 w5 w6 where
    1: "require_submittable_run rid w = (Inr r, w1)" and 2: "admit_action g rid w1 = (Inr u, w2)"
    and 3: "uuid4 w2 = (Inr aid, w3)"
    and 5: "run_policy g (build_action_request rid q aid
        (Some (if truthy (sr_turn_id q) then or_empty (sr_turn_id q) else ''turn-'' @ aid)) now ver) r ws w4 = (Inr d0, w5)"
    and 6: "final_decision g r (build_action_request rid q aid
        (Some (if truthy (sr_turn_id q) then or_empty (sr_turn_id q) else ''turn-'' @ aid)) now ver)
        (if truthy (sr_turn_id q) then or_empty (sr_turn_id q) else ''turn-'' @ aid) d0
        (reasoning_audit_enabled g) w5 = (Inr (a', d, au, missing), w6)"
    and ss: "ss_action ss = a'" "ss_decision ss = d"
    unfolding prepare_submission_def Let_def
    by (auto simp: tx_bind_Inr tx_return_def)
  let ?a = "build_action_request rid q aid
        (Some (if truthy (sr_turn_id q) then or_empty (sr_turn_id q) else ''turn-'' @ aid)) now ver"
  have "aid \<noteq> []" using 3 assms(2) uuid_frame(1)[OF 1] uuid_frame(2)[OF 2] by (auto simp: uuid4_def)
  then have a: "act_id ?a \<noteq> []" by (simp add: build_action_request_def Let_def)
  have d0: "dec_action_id d0 = act_id ?a"
    using 5 policy_stamps by (auto simp: run_policy_def tx_bind_Inr tx_return_def)
  from final_decision_escalates[OF 6 d0] have "escalates d0 d"
    and a': "a' = ?a\<lparr>act_audit_id := act_audit_id a'\<rparr>" by auto
  moreover have "act_id a' = act_id ?a" by (subst a') simp
  ultimately show ?thesis using d0 a ss by (simp add: well_prepared_def escalates_def)
qed

lemma path_submit:
  assumes "\<And>n. uuid_src w n \<noteq> []"
  shows "\<exists>h'. (step g)\<^sup>*\<^sup>* (Config w ts h) (Config (snd (submit_action g rid q cred w)) ts h')"
proof -
  obtain r w1 where prep: "prepare_submission g rid q cred w = (r, w1)" by fastforce
  from path_ofD[OF path_prepare prep] obtain h1 where
    1: "(step g)\<^sup>*\<^sup>* (Config w ts h) (Config w1 ts h1)" by blast
  have sub: "submit_action g rid q cred
      = tx_bind (prepare_submission g rid q cred) (after_preparation g rid)"
    by (simp add: submit_action_def after_preparation_def[abs_def])
  show ?thesis
  proof (cases r)
    case (Inl e)
    with 1 prep sub show ?thesis by (auto simp: tx_bind_def)
  next
    case (Inr ss)
    have "well_prepared ss" using prepare_well[OF prep[unfolded Inr] assms] .
    from path_after_preparation[OF this, of g rid] obtain h2 where
      "(step g)\<^sup>*\<^sup>* (Config w1 ts h1) (Config (snd (after_preparation g rid ss w1)) ts h2)"
      unfolding path_of_def by blast
    with 1 show ?thesis
      unfolding sub using prep Inr by (auto simp: tx_bind_def intro: rtranclp_trans)
  qed
qed

section \<open>The resolution\<close>

lemma approved_dispatch_records:
  assumes "call_approved g rs ws up w = (res, w1)"
  shows "db (snd (approved_dispatch g rs ws up evs began w)) = db (snd (record_approved g rs began res w1))"
proof -
  have call: "tx_try (gw_execute g (rs_action rs) ws (Some (rs_decision rs)) (Some up) True
      (Some (run_scope (rs_run rs))) (Some (gw_workspace_key g (run_key (rs_run rs))))) w = (Inr res, w1)"
    using assms by (simp add: call_approved_def tx_try_def)
  show ?thesis
  proof (cases res)
    case (Inl e)
    let ?tail = "\<lambda>ev. tx_bind (publish_all (app_run_id (rs_approval rs)) (evs @ [ev]))
                    (\<lambda>_. tx_raise (dispatch_error e))"
    show ?thesis
      using db_tail[of ?tail "record_approved g rs began res" w1]
      by (simp add: approved_dispatch_def record_approved_def Let_def tx_bind_assoc Inl
          tx_bind_def[of "tx_try _"] call same.keeps_rules)
  next
    case (Inr rc)
    show ?thesis
      using db_tail[of "\<lambda>ev. tx_return (up\<lparr>app_status := AS_CONSUMED\<rparr>, evs @ [ev], rc)"
          "record_approved g rs began res" w1]
      by (simp add: approved_dispatch_def record_approved_def Let_def tx_bind_assoc Inr
          tx_bind_def[of "tx_try _"] call same.keeps_rules)
  qed
qed

lemma path_approved_dispatch:
  "\<exists>h'. (step g)\<^sup>*\<^sup>* (Config w (add_mset (T_run_approved rs ws up began) ts) h)
          (Config (snd (approved_dispatch g rs ws up evs began w)) ts h')"
proof -
  obtain res w1 where call: "call_approved g rs ws up w = (res, w1)" by fastforce
  obtain r w2 where rec: "record_approved g rs began res w1 = (r, w2)" by fastforce
  note step.run_approved[OF call, of began ts h]
    step.recorded_approved[OF rec, of ts "h @ [act_id (rs_action rs)]"]
  then have "(step g)\<^sup>*\<^sup>* (Config w (add_mset (T_run_approved rs ws up began) ts) h)
      (Config w2 ts (h @ [act_id (rs_action rs)]))"
    by (meson converse_rtranclp_into_rtranclp r_into_rtranclp)
  from path_tail[OF this] approved_dispatch_records[OF call, of evs began] rec show ?thesis by auto
qed

lemma load_well:
  assumes "load_resolution k approve w = (Inr rs, w')"
  shows "well_loaded rs (db w')"
proof -
  have same: "keeps (=) (load_approval k)" "keeps (=) (require_resolvable_run i)" for k i
    unfolding load_approval_def require_resolvable_run_def by (intro same.keeps_rules same_lookups)+
  from assms obtain ap oa od orn w1 w2 w3 w4 where
    1: "load_approval k w = (Inr ap, w1)"
    and 2: "get_action_request (app_action_id ap) w1 = (Inr oa, w2)"
    and 3: "get_policy_decision_by_action (app_action_id ap) w2 = (Inr od, w3)"
    and 4: "get_run (app_run_id ap) w3 = (Inr orn, w4)"
    and rest: "(case (oa, od, orn) of
       (Some act, Some dec, Some rn) \<Rightarrow>
           if approve \<and> outcome dec = PO_DENY then
             tx_raise (Api_error ''DENIED_ACTION_CANNOT_BE_APPROVED''
               ''Approval cannot override a deterministic DENY outcome.'' 400)
           else
             tx_bind (require_resolvable_run (app_run_id ap)) (\<lambda>_.
             tx_bind utc_now (\<lambda>now.
               tx_return \<lparr>rs_approval = ap, rs_action = act, rs_decision = dec, rs_run = rn,
                          rs_now = now\<rparr>))
       | _ \<Rightarrow> tx_raise (Api_error ''ENTITY_NOT_FOUND''
                 ''Associated action or policy decision not found.'' 500)) w4 = (Inr rs, w')"
    unfolding load_resolution_def by (simp only: tx_bind_Inr) blast
  from rest obtain a u now w5 where oa: "oa = Some a"
    and rs: "rs_approval rs = ap" "rs_action rs = a"
    and 5: "require_resolvable_run (app_run_id ap) w4 = (Inr u, w5)"
    and 6: "utc_now w5 = (Inr now, w')"
    by (auto simp: tx_bind_Inr tx_return_def tx_raise_def split: option.splits if_splits)
  note 2 = 2[unfolded oa]
  have db: "db w' = db w1" "db w1 = db w"
    using keepsD[OF same_lookups(3) 2] keepsD[OF same_lookups(7) 3] keepsD[OF same_lookups(1) 4]
      keepsD[OF same(2) 5] keepsD[OF same.keeps_utc_now 6] keepsD[OF same(1) 1] by simp_all
  from 1 obtain p where p: "find_approval k (db w) = Some p" "ap = approval_from_row (db w) p"
    by (auto simp: load_approval_def get_approval_request_def tx_bind_Inr query_def tx_raise_def
        tx_return_def split: option.splits if_splits)
  from p(1) have "app_id p = k" by (auto simp: find_approval_def find_Some_iff)
  moreover from 2 have "act_id a = app_action_id ap"
    by (auto simp: get_action_request_def query_def find_Some_iff)
  ultimately show ?thesis
    using p db rs by (simp add: well_loaded_def approval_from_row_def Let_def)
qed

definition after_load :: "gateway \<Rightarrow> resolution \<Rightarrow> pystr \<Rightarrow> pystr option \<Rightarrow> path
    \<Rightarrow> (approval option \<times> event list \<times> receipt option) tx" where
  "after_load g rs who reason workspace =
     tx_bind (db_transaction (grant_phase1 g rs who reason)) (\<lambda>(updated, evs, began).
       case updated of
         None \<Rightarrow> tx_return (None, evs, None)
       | Some up \<Rightarrow>
           tx_bind (approved_dispatch g rs workspace up evs began) (\<lambda>(up', evs', rc).
             tx_return (Some up', evs', Some rc)))"

lemma path_after_load:
  assumes "well_loaded rs (db w)"
  shows "\<exists>h'. (step g)\<^sup>*\<^sup>* (Config w ts h) (Config (snd (after_load g rs who reason ws w)) ts h')"
proof -
  obtain r w1 where tx: "db_transaction (grant_phase1 g rs who reason) w = (r, w1)" by fastforce
  note run = tx_bind_run[where m = "db_transaction (grant_phase1 g rs who reason)"]
  have start: "(step g)\<^sup>*\<^sup>* (Config w ts h) (Config w1 (after_grant rs ws r + ts) h)"
    using step.loaded[OF assms, of g ts h who reason ws] step.granted[OF tx, of ws ts h]
    by (meson converse_rtranclp_into_rtranclp r_into_rtranclp)
  show ?thesis
  proof (cases r)
    case (Inl e)
    with start tx show ?thesis by (auto simp: after_load_def tx_bind_def after_grant_def)
  next
    case (Inr x)
    obtain up evs began where x: "x = (up, evs, began)" by (cases x) auto
    show ?thesis
    proof (cases up)
      case None
      have "db (snd (after_load g rs who reason ws w)) = db w1"
        unfolding after_load_def run[OF tx[unfolded Inr x None]] by (simp add: tx_return_def)
      with path_tail[OF start] show ?thesis by (auto simp: after_grant_def Inr x None)
    next
      case (Some u)
      obtain h' where more: "(step g)\<^sup>*\<^sup>* (Config w1 (add_mset (T_run_approved rs ws u began) ts) h)
          (Config (snd (approved_dispatch g rs ws u evs began w1)) ts h')"
        using path_approved_dispatch by blast
      have "db (snd (after_load g rs who reason ws w)) = db (snd (approved_dispatch g rs ws u evs began w1))"
        unfolding after_load_def run[OF tx[unfolded Inr x Some]]
        by (simp add: db_tail same.keeps_rules split: prod.splits)
      moreover have "(step g)\<^sup>*\<^sup>* (Config w ts h)
          (Config w1 (add_mset (T_run_approved rs ws u began) ts) h)"
        using start by (simp add: after_grant_def Inr x Some)
      ultimately show ?thesis using path_tail[OF rtranclp_trans] more by blast
    qed
  qed
qed

lemma path_grant:
  assumes "well_loaded rs (db w)"
  shows "\<exists>h'. (step g)\<^sup>*\<^sup>* (Config w ts h) (Config (snd (grant_approval g rs who reason w)) ts h')"
proof -
  obtain r w1 where ws: "resolve_run_workspace g (rs_run rs) w = (r, w1)" by fastforce
  from path_ofD[OF path_resolve_workspace ws] obtain h1 where
    1: "(step g)\<^sup>*\<^sup>* (Config w ts h) (Config w1 ts h1)" by blast
  have "well_loaded rs (db w1)"
    using loaded_forward[OF assms] keepsD[OF forward.keeps_resolve_workspace ws] .
  note after = path_after_load[OF this]
  show ?thesis
  proof (cases r)
    case (Inl e)
    with 1 ws show ?thesis by (auto simp: grant_approval_def tx_bind_def)
  next
    case (Inr b)
    have "grant_approval g rs who reason w = after_load g rs who reason b w1"
      unfolding grant_approval_def after_load_def
        tx_bind_run[where m = "resolve_run_workspace g (rs_run rs)", OF ws[unfolded Inr]] ..
    with after[of g ts h1 who reason b] 1 show ?thesis by (metis rtranclp_trans)
  qed
qed

lemma path_resolve: "path_of g (resolve_approval g k approve who reason)"
proof -
  let ?rest = "\<lambda>rs. tx_bind (refuse_expired g rs) (\<lambda>_.
        tx_bind (if approve then grant_approval g rs who reason
                 else deny_approval g rs who reason) (\<lambda>(updated, evs, rc).
        tx_bind (publish_all (app_run_id (rs_approval rs)) evs) (\<lambda>_.
          case updated of
            None \<Rightarrow> tx_raise (Py_error ''ValidationError'' ''approval_request'')
          | Some up \<Rightarrow>
              tx_return \<lparr>res_approval = up, res_receipt = rc, res_events = evs\<rparr>)))"
  have rest: "\<exists>h'. (step g)\<^sup>*\<^sup>* (Config w ts h) (Config (snd (?rest rs w)) ts h')"
    if loaded: "well_loaded rs (db w)" for rs w ts h
  proof -
    obtain r w1 where ref: "refuse_expired g rs w = (r, w1)" by fastforce
    from path_ofD[OF path_refuse ref] obtain h1 where
      1: "(step g)\<^sup>*\<^sup>* (Config w ts h) (Config w1 ts h1)" by blast
    have loaded1: "well_loaded rs (db w1)"
      using loaded_forward[OF loaded] keepsD[OF forward.keeps_refuse_expired ref] by simp
    obtain q w2 where act: "(if approve then grant_approval g rs who reason
        else deny_approval g rs who reason) w1 = (q, w2)" by fastforce
    have "\<exists>h'. (step g)\<^sup>*\<^sup>* (Config w1 ts h1) (Config w2 ts h')"
      using path_grant[OF loaded1, of g ts h1 who reason] path_ofD[OF path_deny] act
      by (cases approve) auto
    then obtain h2 where 2: "(step g)\<^sup>*\<^sup>* (Config w1 ts h1) (Config w2 ts h2)" by blast
    show ?thesis
    proof (cases r)
      case (Inl e)
      with 1 ref show ?thesis by (auto simp: tx_bind_def)
    next
      case (Inr u)
      have "db (snd (?rest rs w)) = db w2"
        unfolding tx_bind_run[where m = "refuse_expired g rs", OF ref[unfolded Inr]]
        using db_tail[of "\<lambda>(updated, evs, rc). tx_bind (publish_all (app_run_id (rs_approval rs)) evs)
            (\<lambda>_. case updated of None \<Rightarrow> tx_raise (Py_error ''ValidationError'' ''approval_request'')
             | Some up \<Rightarrow> tx_return \<lparr>res_approval = up, res_receipt = rc, res_events = evs\<rparr>)"
            "if approve then grant_approval g rs who reason else deny_approval g rs who reason" w1] act
        by (simp add: same.keeps_rules split: prod.splits)
      with path_tail[OF rtranclp_trans[OF 1 2]] show ?thesis by blast
    qed
  qed
  have "path_of g (tx_bind (load_resolution k approve) ?rest)"
  proof (rule path_ofI)
    fix w ts h
    obtain r w1 where load: "load_resolution k approve w = (r, w1)" by fastforce
    from path_ofD[OF path_load load] obtain h1 where
      1: "(step g)\<^sup>*\<^sup>* (Config w ts h) (Config w1 ts h1)" by blast
    show "\<exists>h'. (step g)\<^sup>*\<^sup>* (Config w ts h)
        (Config (snd (tx_bind (load_resolution k approve) ?rest w)) ts h')"
    proof (cases r)
      case (Inl e)
      with 1 load show ?thesis by (auto simp: tx_bind_def)
    next
      case (Inr rs)
      from rest[OF load_well[OF load[unfolded Inr]], of ts h1] 1 show ?thesis
        unfolding tx_bind_run[where m = "load_resolution k approve", OF load[unfolded Inr]]
        by (blast intro: rtranclp_trans)
    qed
  qed
  then show ?thesis unfolding resolve_approval_def by (intro path_catch path_leaves)
qed

section \<open>The other requests\<close>

lemma path_materialize: "path_of g (materialize_run g name sc prompt)"
  unfolding materialize_run_def initialize_workspace_def Let_def
  by (intro path_rules path_leaves)

lemma path_create: "path_of g (create_run_service g name sc ip prompt)"
  unfolding create_run_service_def check_agent_token_budget_def begin_run_guard_def
    reserve_capacity_def count_busy_runs_def Let_def
  by (intro path_rules path_leaves path_materialize)
     (auto split: sum.split intro!: path_rules path_leaves)

lemma path_close:
  "path_of g (complete_run rid budget)" "path_of g (fail_run rid reason)"
proof -
  have tx: "path_of g (db_transaction (close_run_tx rid RS_COMPLETED EV_RUN_COMPLETED
       (\<lambda>name. ''Run '' @ quoted name @ '' was marked COMPLETED.'') [] budget began now))"
    "path_of g (db_transaction (close_run_tx rid RS_FAILED EV_SYSTEM_ERROR
       (\<lambda>name. ''Run '' @ quoted name @ '' was marked FAILED: '' @ reason)
       [(''reason'', JStr reason)] None began now))" for began now
    by (rule path_background, rule run_background.simps[symmetric])+
  show "path_of g (complete_run rid budget)" "path_of g (fail_run rid reason)"
    unfolding complete_run_def fail_run_def close_run_def
    by (intro path_rules path_leaves path_require_run tx)+
qed

lemma path_publish_pairs: "path_of g (publish_pairs xs)"
  by (induction xs rule: publish_pairs.induct) (auto intro!: path_rules path_leaves)

lemma path_reconcile: "path_of g (reconcile_expired_approvals g rid)"
  unfolding reconcile_expired_approvals_def
  by (intro path_rules path_leaves path_publish_pairs)

lemma path_others:
  "path_of g (set_run_prompt_version rid v)" "path_of g (expire_approval_wait g k)"
  "path_of g (list_approvals_service g st orid)" "path_of g (get_action rid a)"
  "path_of g (get_events_service rid after lim)" "path_of g (get_run_workspace g rid)"
  unfolding set_run_prompt_version_def expire_approval_wait_def list_approvals_service_def
    get_action_def get_events_service_def get_run_workspace_def
  by (intro path_rules path_leaves path_require_run path_reconcile path_resolve_workspace)+

lemma path_preview: "path_of g (preview_action g rid q)"
proof -
  have e: "path_of g (case e of Py_error c m \<Rightarrow> n1 c m | _ \<Rightarrow> tx_raise e)"
    if "\<And>c m. path_of g (n1 c m)" for e n1 using that by (cases e) (simp_all add: path_leaves)
  show ?thesis
    unfolding preview_action_def Let_def
    by (intro path_rules path_leaves e path_require_run path_run_policy path_required)
qed

lemma serve_path:
  assumes "\<And>n. uuid_src w n \<noteq> []"
  shows "\<exists>h'. (step g)\<^sup>*\<^sup>* (Config w ts h) (Config (serve g q w) ts h')"
proof -
  have p: "path_of g m \<Longrightarrow> \<exists>h'. (step g)\<^sup>*\<^sup>* (Config w ts h) (Config (snd (m w)) ts h')" for m :: "'z tx"
    by (simp add: path_of_def)
  show ?thesis
    by (cases q) (simp_all only: serve.simps path_submit[OF assms]
        p[OF path_create] p[OF path_others(1)] p[OF path_preview] p[OF path_resolve]
        p[OF path_others(2)] p[OF path_others(3)] p[OF path_others(4)] p[OF path_others(5)]
        p[OF path_others(6)] p[OF path_close(1)] p[OF path_close(2)])
qed

section \<open>Properties\<close>

text \<open>
  C22: the interleaving semantics covers the handlers. Whatever requests are in progress, serving
  one more request to its end, however it ends, is a sequence of steps of the semantics that
  leaves the other requests where they are; so a configuration stays reachable under every
  request the service serves. (Fresh identifiers are never the empty string.)
\<close>

theorem requests_are_step_sequences:
  assumes "reachable g (Config w ts h)" and "\<forall>n. uuid_src w n \<noteq> []"
  shows "\<exists>h'. (step g)\<^sup>*\<^sup>* (Config w ts h) (Config (serve g q w) ts h')
     \<and> reachable g (Config (serve g q w) ts h')"
proof -
  from serve_path[of w g ts h q] assms(2) obtain h' where
    path: "(step g)\<^sup>*\<^sup>* (Config w ts h) (Config (serve g q w) ts h')" by blast
  from assms(1) path have "reachable g (Config (serve g q w) ts h')"
    unfolding reachable_def by (meson rtranclp_trans)
  with path show ?thesis by blast
qed

definition demo_served :: world where
  "demo_served =
     serve demo_gateway (Req_create_run ''demo'' demo_scope None None) (demo_world empty_store)"

lemma demo_served_run: "map run_name (runs_t (db demo_served)) = [''demo'']"
  by code_simp

theorem requests_are_step_sequences_witness:
  "\<exists>h'. reachable demo_gateway (Config demo_served {#} h')
     \<and> map run_name (runs_t (db demo_served)) = [''demo'']"
proof -
  have start: "reachable demo_gateway (Config (demo_world empty_store) {#} [])"
    unfolding reachable_def by (rule exI[of _ "demo_world empty_store"]) (simp add: demo_world_def)
  have ids: "\<forall>n. uuid_src (demo_world empty_store) n \<noteq> []" by (simp add: demo_world_def)
  note path = requests_are_step_sequences[OF start ids,
      of "Req_create_run ''demo'' demo_scope None None", folded demo_served_def]
  then obtain h' where "reachable demo_gateway (Config demo_served {#} h')" by blast
  with demo_served_run show ?thesis by (intro exI conjI)
qed

end
