(* ===== verification/EvidenceChain.thy ===== *)
theory EvidenceChain
  imports Schemas "HOL-Library.List_Lexorder" "HOL-Library.Char_ord"
begin

text \<open>
  The tamper-evident hash chain of \<open>backend/scopewatch/evidence_chain.py\<close>: canonical JSON, the
  chain record and its hash, the lifecycle rules, the verifier, and the builder that chains the
  exported events of a run. SHA-256 is a parameter (\<open>dg_sha\<close>: the hexadecimal digest of the UTF-8
  encoding of a text), and so is the decimal form of a float (\<open>dg_float\<close>).
\<close>

section \<open>Canonical JSON and digests\<close>

text \<open>\<open>json.dumps(obj, sort_keys=True, separators=(",", ":"), ensure_ascii=False)\<close>.\<close>

definition json_char :: "char \<Rightarrow> pystr" where
  "json_char c =
     (let n = (of_char c :: nat) in
      if n = 34 \<or> n = 92 then [CHR 0x5C, c]
      else if n = 10 then [CHR 0x5C, CHR ''n'']
      else if n = 13 then [CHR 0x5C, CHR ''r'']
      else if n = 9 then [CHR 0x5C, CHR ''t'']
      else if n = 12 then [CHR 0x5C, CHR ''f'']
      else if n = 8 then [CHR 0x5C, CHR ''b'']
      else if n < 32 then [CHR 0x5C, CHR ''u'', CHR ''0'', CHR ''0'', hex_digit (n div 16), hex_digit (n mod 16)]
      else [c])"

definition json_string :: "pystr \<Rightarrow> pystr" where
  "json_string s = CHR 0x22 # concat (map json_char s) @ [CHR 0x22]"

fun canonical_text :: "(int \<Rightarrow> int \<Rightarrow> pystr) \<Rightarrow> json \<Rightarrow> pystr" where
  "canonical_text fl JNull = ''null''"
| "canonical_text fl (JBool b) = (if b then ''true'' else ''false'')"
| "canonical_text fl (JInt i) = show_int i"
| "canonical_text fl (JFloat m e) = fl m e"
| "canonical_text fl (JStr s) = json_string s"
| "canonical_text fl (JArr vs) = ''['' @ join '','' (map (canonical_text fl) vs) @ '']''"
| "canonical_text fl (JObj kvs) =
     ''{'' @ join '','' (map snd (sort_key fst
        (map (\<lambda>kv. (fst kv, json_string (fst kv) @ '':'' @ canonical_text fl (snd kv))) kvs))) @ ''}''"

record digester =
  dg_sha :: "pystr \<Rightarrow> pystr"
  dg_float :: "int \<Rightarrow> int \<Rightarrow> pystr"

definition digest_text :: "digester \<Rightarrow> pystr \<Rightarrow> pystr" where
  "digest_text D t = dg_sha D t"

definition digest_payload :: "digester \<Rightarrow> jobj \<Rightarrow> pystr" where
  "digest_payload D payload = dg_sha D (canonical_text (dg_float D) (JObj payload))"

section \<open>Records\<close>

definition GENESIS_HASH :: pystr where
  "GENESIS_HASH = replicate 64 (CHR ''0'')"

definition DECISION_EVENT_TYPES :: "pystr list" where
  "DECISION_EVENT_TYPES = [''POLICY_ALLOWED'', ''POLICY_DENIED'', ''POLICY_HELD'']"

definition TERMINAL_EXECUTION_EVENT_TYPES :: "pystr list" where
  "TERMINAL_EXECUTION_EVENT_TYPES = [''EXECUTION_SUCCEEDED'', ''EXECUTION_FAILED'']"

definition EXECUTION_EVENT_TYPES :: "pystr list" where
  "EXECUTION_EVENT_TYPES = [''EXECUTION_STARTED'', ''EXECUTION_SUCCEEDED'', ''EXECUTION_FAILED'']"

definition APPROVAL_CLOSED_EVENT_TYPES :: "pystr list" where
  "APPROVAL_CLOSED_EVENT_TYPES = [''APPROVAL_DENIED'', ''APPROVAL_EXPIRED'']"

definition RUN_TERMINAL_EVENT_TYPES :: "pystr list" where
  "RUN_TERMINAL_EVENT_TYPES = [''RUN_COMPLETED'', ''SYSTEM_ERROR'']"

definition WORKSPACE_RETENTION_EVENT_TYPES :: "pystr list" where
  "WORKSPACE_RETENTION_EVENT_TYPES =
     [''WORKSPACE_PRUNE_ATTEMPTED'', ''WORKSPACE_PRUNED'', ''WORKSPACE_PRUNE_FAILED'']"

definition KNOWN_EVENT_TYPES :: "pystr list" where
  "KNOWN_EVENT_TYPES =
     DECISION_EVENT_TYPES @ EXECUTION_EVENT_TYPES @ APPROVAL_CLOSED_EVENT_TYPES
     @ RUN_TERMINAL_EVENT_TYPES @ WORKSPACE_RETENTION_EVENT_TYPES
     @ [''RUN_CREATED'', ''ACTION_REQUESTED'', ''APPROVAL_REQUESTED'', ''APPROVAL_GRANTED'',
        ''REASONING_AUDIT_COMPLETED'', ''REASONING_AUDIT_FAILED'']"

record chain_record =
  cr_seq :: int
  cr_run_id :: pystr
  cr_event_type :: pystr
  cr_action_id :: "pystr option"
  cr_payload_digest :: pystr
  cr_prev_hash :: pystr
  cr_record_hash :: pystr

definition hashable_dict :: "chain_record \<Rightarrow> jobj" where
  "hashable_dict r =
     [(''action_id'', opt_str (cr_action_id r)), (''event_type'', JStr (cr_event_type r)),
      (''payload_digest'', JStr (cr_payload_digest r)), (''prev_hash'', JStr (cr_prev_hash r)),
      (''run_id'', JStr (cr_run_id r)), (''seq'', JInt (cr_seq r))]"

definition hashed_text :: "digester \<Rightarrow> chain_record \<Rightarrow> pystr" where
  "hashed_text D r = canonical_text (dg_float D) (JObj (hashable_dict r))"

definition compute_hash :: "digester \<Rightarrow> chain_record \<Rightarrow> pystr" where
  "compute_hash D r = dg_sha D (hashed_text D r)"

definition to_dict :: "chain_record \<Rightarrow> jobj" where
  "to_dict r =
     [(''seq'', JInt (cr_seq r)), (''run_id'', JStr (cr_run_id r)),
      (''event_type'', JStr (cr_event_type r)), (''action_id'', opt_str (cr_action_id r)),
      (''payload_digest'', JStr (cr_payload_digest r)), (''prev_hash'', JStr (cr_prev_hash r)),
      (''record_hash'', JStr (cr_record_hash r))]"

section \<open>The lifecycle of an action\<close>

record action_lifecycle =
  al_decision :: "pystr option"
  al_requested :: bool
  al_approval :: "pystr option"
  al_started :: bool
  al_terminal :: bool

definition fresh_lifecycle :: action_lifecycle where
  "fresh_lifecycle =
     \<lparr>al_decision = None, al_requested = False, al_approval = None, al_started = False,
      al_terminal = False\<rparr>"

text \<open>
  \<open>_lifecycle_violation\<close>: the reason when the record is illegal, and the state of its action after
  it. \<open>advance\<close> is the part that has an action.
\<close>

definition advance ::
  "pystr \<Rightarrow> pystr \<Rightarrow> action_lifecycle \<Rightarrow> pystr option \<times> action_lifecycle" where
  "advance etype aid st =
     (if etype \<in> set DECISION_EVENT_TYPES then
        (case al_decision st of
           Some d \<Rightarrow>
             (Some (''second policy decision '' @ etype @ '' for action '' @ py_repr aid @ '' after '' @ d
                    @ ''; a decision is recorded once''), st)
         | None \<Rightarrow> (None, st\<lparr>al_decision := Some etype\<rparr>))
      else if etype = ''APPROVAL_REQUESTED'' then (None, st\<lparr>al_requested := True\<rparr>)
      else if etype = ''APPROVAL_GRANTED'' then
        (if al_decision st \<noteq> Some ''POLICY_HELD'' then
           (Some (''APPROVAL_GRANTED for action '' @ py_repr aid @ '' without a prior POLICY_HELD (found ''
                  @ (if truthy (al_decision st) then or_empty (al_decision st) else ''no decision'')
                  @ ''); approvals cannot override or replace a policy decision''), st)
         else if al_approval st = Some ''GRANTED'' then
           (Some (''second APPROVAL_GRANTED for action '' @ py_repr aid @ ''; approvals are single-use''), st)
         else if al_approval st = Some ''CLOSED'' then
           (Some (''APPROVAL_GRANTED for action '' @ py_repr aid
                  @ '' after its approval was denied or expired''), st)
         else if \<not> al_requested st then
           (Some (''APPROVAL_GRANTED for action '' @ py_repr aid @ '' without a prior APPROVAL_REQUESTED''), st)
         else (None, st\<lparr>al_approval := Some ''GRANTED''\<rparr>))
      else if etype \<in> set APPROVAL_CLOSED_EVENT_TYPES then
        (if al_approval st = Some ''GRANTED'' then
           (Some (etype @ '' for action '' @ py_repr aid
                  @ '' after APPROVAL_GRANTED; an approval resolves once''), st)
         else if al_approval st = None then (None, st\<lparr>al_approval := Some ''CLOSED''\<rparr>)
         else (None, st))
      else if etype \<notin> set EXECUTION_EVENT_TYPES then (None, st)
      else if al_decision st = None then
        (Some (''EXECUTION for action '' @ py_repr aid @ '' without a prior DECISION event''), st)
      else if al_decision st = Some ''POLICY_DENIED'' then
        (Some (etype @ '' for action '' @ py_repr aid
               @ '' after POLICY_DENIED; a deny permits no execution''), st)
      else if al_decision st = Some ''POLICY_HELD'' \<and> al_approval st \<noteq> Some ''GRANTED'' then
        (Some (etype @ '' for held action '' @ py_repr aid @ '' without a prior APPROVAL_GRANTED''), st)
      else if al_terminal st then
        (Some (etype @ '' for action '' @ py_repr aid
               @ '' after its execution already finished; an action executes at most once''), st)
      else if etype = ''EXECUTION_STARTED'' then
        (if al_started st then
           (Some (''second EXECUTION_STARTED for action '' @ py_repr aid
                  @ ''; an action executes at most once''), st)
         else (None, st\<lparr>al_started := True\<rparr>))
      else (None, st\<lparr>al_terminal := True\<rparr>))"

type_synonym lifecycles = "pystr \<Rightarrow> action_lifecycle option"

definition lifecycle_violation ::
  "chain_record \<Rightarrow> lifecycles \<Rightarrow> pystr option \<times> lifecycles" where
  "lifecycle_violation r actions =
     (case cr_action_id r of
        None \<Rightarrow>
          (if cr_event_type r \<in> set EXECUTION_EVENT_TYPES \<or> cr_event_type r = ''APPROVAL_GRANTED''
           then (Some (''event '' @ cr_event_type r @ '' has no action_id''), actions)
           else (None, actions))
      | Some aid \<Rightarrow>
          (let st = (case actions aid of None \<Rightarrow> fresh_lifecycle | Some s \<Rightarrow> s);
               (violation, st') = advance (cr_event_type r) aid st
           in (violation, actions(aid \<mapsto> st'))))"

section \<open>The verifier\<close>

record verification_result =
  vr_ok :: bool
  vr_first_bad_seq :: "int option"
  vr_reason :: pystr
  vr_code :: pystr
  vr_head_hash :: pystr
  vr_checked :: nat

record verify_state =
  vs_seen :: "(pystr \<times> int) list"
  vs_actions :: lifecycles
  vs_terminal :: "pystr option"
  vs_prev :: pystr

definition verify_start :: verify_state where
  "verify_start = \<lparr>vs_seen = [], vs_actions = (\<lambda>_. None), vs_terminal = None, vs_prev = GENESIS_HASH\<rparr>"

definition retention_event :: "chain_record \<Rightarrow> bool" where
  "retention_event r \<longleftrightarrow> cr_event_type r \<in> set WORKSPACE_RETENTION_EVENT_TYPES"

definition pending_expiry :: "chain_record \<Rightarrow> lifecycles \<Rightarrow> bool" where
  "pending_expiry r actions \<longleftrightarrow>
     cr_event_type r = ''APPROVAL_EXPIRED''
     \<and> (case cr_action_id r of None \<Rightarrow> False
        | Some aid \<Rightarrow> (case actions aid of None \<Rightarrow> False
            | Some st \<Rightarrow> al_decision st = Some ''POLICY_HELD'' \<and> al_requested st \<and> al_approval st = None))"

text \<open>Rule 7: what may follow a terminal run event, and where retention records may stand.\<close>

definition terminal_violation :: "chain_record \<Rightarrow> verify_state \<Rightarrow> pystr option" where
  "terminal_violation r vs =
     (let retention =
            (if retention_event r \<and> (vs_terminal vs = None \<or> cr_action_id r \<noteq> None)
             then Some ''workspace retention requires a terminal run and no action ID'' else None)
      in case vs_terminal vs of
           None \<Rightarrow> retention
         | Some t \<Rightarrow>
             if cr_event_type r \<notin> set RUN_TERMINAL_EVENT_TYPES
                \<and> \<not> pending_expiry r (vs_actions vs)
                \<and> \<not> (retention_event r \<and> cr_action_id r = None)
             then Some (cr_event_type r @ '' after terminal run event '' @ t)
             else retention)"

definition refuse_record ::
  "chain_record list \<Rightarrow> nat \<Rightarrow> int \<Rightarrow> pystr \<Rightarrow> pystr \<Rightarrow> verification_result" where
  "refuse_record recs idx bad reason code =
     \<lparr>vr_ok = False, vr_first_bad_seq = Some bad, vr_reason = reason, vr_code = code,
      vr_head_hash = cr_record_hash (last recs), vr_checked = idx\<rparr>"

definition check_order ::
  "chain_record list \<Rightarrow> nat \<Rightarrow> chain_record \<Rightarrow> verify_state \<Rightarrow> verification_result + verify_state" where
  "check_order recs idx r vs =
     (let (violation, actions) =
            (case terminal_violation r vs of
               Some v \<Rightarrow> (Some v, vs_actions vs)
             | None \<Rightarrow> lifecycle_violation r (vs_actions vs))
      in case violation of
           Some v \<Rightarrow>
             Inl (refuse_record recs idx (cr_seq r)
                    (''ordering violation at seq='' @ show_int (cr_seq r) @ '': '' @ v) ''ORDERING_VIOLATION'')
         | None \<Rightarrow>
             Inr (vs\<lparr>vs_actions := actions,
                     vs_terminal := (if cr_event_type r \<in> set RUN_TERMINAL_EVENT_TYPES
                                     then Some (cr_event_type r) else vs_terminal vs),
                     vs_prev := cr_record_hash r\<rparr>))"

definition check_record ::
  "digester \<Rightarrow> chain_record list \<Rightarrow> pystr \<Rightarrow> nat \<Rightarrow> chain_record \<Rightarrow> verify_state
     \<Rightarrow> verification_result + verify_state" where
  "check_record D recs run_ref idx r vs =
     (let bad = refuse_record recs idx; n = int idx + 1; at = show_int (cr_seq r)
      in if cr_seq r \<noteq> n then
           Inl (bad n (''seq break at position '' @ show_int n @ '': found seq='' @ at
                       @ '', expected seq='' @ show_int n) ''BAD_SEQ'')
         else case map_of (vs_seen vs) (cr_prev_hash r) of
           Some other \<Rightarrow>
             Inl (bad (cr_seq r) (''fork detected at seq='' @ at @ '': prev_hash ''
                    @ take 12 (cr_prev_hash r) @ ''... already claimed by seq='' @ show_int other) ''FORK'')
         | None \<Rightarrow>
             let vs = vs\<lparr>vs_seen := (cr_prev_hash r, cr_seq r) # vs_seen vs\<rparr>
             in if cr_run_id r \<noteq> run_ref then
                  Inl (bad (cr_seq r) (''run_id mismatch at seq='' @ at @ '': found ''
                         @ py_repr (cr_run_id r) @ '', expected '' @ py_repr run_ref) ''RUN_MISMATCH'')
                else if idx = 0 \<and> cr_prev_hash r \<noteq> GENESIS_HASH then
                  Inl (bad (cr_seq r) (''genesis prev mismatch at seq='' @ at @ '': found ''
                         @ take 12 (cr_prev_hash r) @ ''..., expected genesis'') ''BAD_PREV'')
                else if idx \<noteq> 0 \<and> cr_prev_hash r \<noteq> vs_prev vs then
                  Inl (bad (cr_seq r) (''prev linkage break at seq='' @ at @ '': found ''
                         @ take 12 (cr_prev_hash r) @ ''..., expected '' @ take 12 (vs_prev vs) @ ''...'')
                       ''BAD_PREV'')
                else if compute_hash D r \<noteq> cr_record_hash r then
                  Inl (bad (cr_seq r) (''record hash mismatch at seq='' @ at @ '' (event_type=''
                         @ cr_event_type r @ ''): content was modified'') ''BAD_HASH'')
                else if cr_event_type r \<notin> set KNOWN_EVENT_TYPES then
                  Inl (bad (cr_seq r) (''unknown event type at seq='' @ at @ '': ''
                         @ py_repr (cr_event_type r)) ''UNKNOWN_EVENT_TYPE'')
                else check_order recs idx r vs)"

fun verify_loop ::
  "digester \<Rightarrow> chain_record list \<Rightarrow> pystr \<Rightarrow> nat \<Rightarrow> chain_record list \<Rightarrow> verify_state
     \<Rightarrow> verification_result + verify_state" where
  "verify_loop D recs run_ref idx [] vs = Inr vs"
| "verify_loop D recs run_ref idx (r # rs) vs =
     (case check_record D recs run_ref idx r vs of
        Inl bad \<Rightarrow> Inl bad
      | Inr vs' \<Rightarrow> verify_loop D recs run_ref (Suc idx) rs vs')"

definition verify_empty :: "pystr option \<Rightarrow> int option \<Rightarrow> verification_result" where
  "verify_empty expected_head expected_length =
     (let res = (\<lambda>ok bad reason code.
            \<lparr>vr_ok = ok, vr_first_bad_seq = bad, vr_reason = reason, vr_code = code,
             vr_head_hash = GENESIS_HASH, vr_checked = 0\<rparr>)
      in if expected_head \<noteq> None \<and> expected_head \<noteq> Some GENESIS_HASH then
           res False (Some 1) (''empty chain but expected head '' @ take 12 (or_empty expected_head) @ ''...'')
             ''TRUNCATED''
         else if expected_length \<noteq> None \<and> expected_length \<noteq> Some 0 then
           res False (Some 1) (''empty chain but expected length '' @ show_int (the expected_length)) ''TRUNCATED''
         else res True None ''empty chain'' ''OK'')"

text \<open>The pins, compared only once the chain itself is valid.\<close>

definition check_pins ::
  "chain_record list \<Rightarrow> pystr option \<Rightarrow> int option \<Rightarrow> verification_result" where
  "check_pins recs expected_head expected_length =
     (let head = cr_record_hash (last recs); n = int (length recs);
          res = (\<lambda>ok bad reason code.
            \<lparr>vr_ok = ok, vr_first_bad_seq = bad, vr_reason = reason, vr_code = code,
             vr_head_hash = head, vr_checked = length recs\<rparr>)
      in if expected_length \<noteq> None \<and> expected_length \<noteq> Some n then
           res False (Some (n + 1)) (''truncation detected: chain has '' @ show_int n @ '' records, expected ''
             @ show_int (the expected_length)) ''TRUNCATED''
         else if expected_head \<noteq> None \<and> expected_head \<noteq> Some head then
           res False (Some (n + 1)) (''head mismatch: found '' @ take 12 head @ ''..., expected ''
             @ take 12 (or_empty expected_head) @ ''... (truncated or diverged)'') ''TRUNCATED''
         else res True None (''verified '' @ show_int n @ '' records'') ''OK'')"

definition verify_records ::
  "digester \<Rightarrow> chain_record list \<Rightarrow> pystr option \<Rightarrow> pystr option \<Rightarrow> int option
     \<Rightarrow> verification_result" where
  "verify_records D recs expected_run_id expected_head expected_length =
     (if recs = [] then verify_empty expected_head expected_length
      else
        let run_ref = (case expected_run_id of Some k \<Rightarrow> k | None \<Rightarrow> cr_run_id (hd recs))
        in case verify_loop D recs run_ref 0 recs verify_start of
             Inl bad \<Rightarrow> bad
           | Inr _ \<Rightarrow> check_pins recs expected_head expected_length)"

section \<open>The chain of a run\<close>

record chain =
  ch_run_id :: pystr
  ch_records :: "chain_record list"

definition head_hash :: "chain \<Rightarrow> pystr" where
  "head_hash c = (if ch_records c = [] then GENESIS_HASH else cr_record_hash (last (ch_records c)))"

definition chain_append ::
  "digester \<Rightarrow> pystr \<Rightarrow> pystr option \<Rightarrow> jobj \<Rightarrow> chain \<Rightarrow> chain_record \<times> chain" where
  "chain_append D etype aid payload c =
     (let r = \<lparr>cr_seq = int (length (ch_records c)) + 1, cr_run_id = ch_run_id c,
               cr_event_type = etype, cr_action_id = aid,
               cr_payload_digest = digest_payload D payload, cr_prev_hash = head_hash c,
               cr_record_hash = []\<rparr>;
          r = r\<lparr>cr_record_hash := compute_hash D r\<rparr>
      in (r, c\<lparr>ch_records := ch_records c @ [r]\<rparr>))"

definition chain_verify ::
  "digester \<Rightarrow> chain \<Rightarrow> pystr option \<Rightarrow> int option \<Rightarrow> pystr option \<Rightarrow> verification_result" where
  "chain_verify D c expected_head expected_length expected_run_id =
     verify_records D (ch_records c)
       (Some (if truthy expected_run_id then or_empty expected_run_id else ch_run_id c))
       expected_head expected_length"

fun event_type_value :: "event_type \<Rightarrow> pystr" where
  "event_type_value EV_RUN_CREATED = ''RUN_CREATED''"
| "event_type_value EV_ACTION_REQUESTED = ''ACTION_REQUESTED''"
| "event_type_value EV_POLICY_ALLOWED = ''POLICY_ALLOWED''"
| "event_type_value EV_POLICY_DENIED = ''POLICY_DENIED''"
| "event_type_value EV_POLICY_HELD = ''POLICY_HELD''"
| "event_type_value EV_APPROVAL_REQUESTED = ''APPROVAL_REQUESTED''"
| "event_type_value EV_APPROVAL_GRANTED = ''APPROVAL_GRANTED''"
| "event_type_value EV_APPROVAL_DENIED = ''APPROVAL_DENIED''"
| "event_type_value EV_APPROVAL_EXPIRED = ''APPROVAL_EXPIRED''"
| "event_type_value EV_EXECUTION_STARTED = ''EXECUTION_STARTED''"
| "event_type_value EV_EXECUTION_SUCCEEDED = ''EXECUTION_SUCCEEDED''"
| "event_type_value EV_EXECUTION_FAILED = ''EXECUTION_FAILED''"
| "event_type_value EV_RUN_COMPLETED = ''RUN_COMPLETED''"
| "event_type_value EV_SYSTEM_ERROR = ''SYSTEM_ERROR''"
| "event_type_value EV_REASONING_AUDIT_COMPLETED = ''REASONING_AUDIT_COMPLETED''"
| "event_type_value EV_REASONING_AUDIT_FAILED = ''REASONING_AUDIT_FAILED''"
| "event_type_value EV_WORKSPACE_PRUNE_ATTEMPTED = ''WORKSPACE_PRUNE_ATTEMPTED''"
| "event_type_value EV_WORKSPACE_PRUNED = ''WORKSPACE_PRUNED''"
| "event_type_value EV_WORKSPACE_PRUNE_FAILED = ''WORKSPACE_PRUNE_FAILED''"

text \<open>What an exported event contributes: its type, its action, and digests of the rest.\<close>

definition linked_ids :: "event \<Rightarrow> jobj" where
  "linked_ids e =
     filter (\<lambda>kv. snd kv \<noteq> JNull)
       [(''action_request_id'', opt_str (ev_action_id e)),
        (''policy_decision_id'', opt_str (ev_decision_id e)),
        (''approval_request_id'', opt_str (ev_approval_id e)),
        (''execution_receipt_id'', opt_str (ev_receipt_id e)), (''turn_id'', opt_str (ev_turn_id e)),
        (''actor'', JStr (ev_actor e))]"

definition payload_for_event :: "digester \<Rightarrow> event \<Rightarrow> jobj" where
  "payload_for_event D e =
     [(''event_type'', JStr (event_type_value (ev_type e))),
      (''summary_sha256'', JStr (digest_text D (ev_summary e))),
      (''details_sha256'', JStr (digest_payload D (ev_details e))),
      (''linked'', JObj (linked_ids e))]"

definition action_id_for_event :: "event \<Rightarrow> pystr option" where
  "action_id_for_event e = (if truthy (ev_action_id e) then ev_action_id e else None)"

definition build_chain_from_events :: "digester \<Rightarrow> pystr \<Rightarrow> event list \<Rightarrow> chain" where
  "build_chain_from_events D run_id events =
     foldl (\<lambda>c e. snd (chain_append D (event_type_value (ev_type e)) (action_id_for_event e)
                         (payload_for_event D e) c))
       \<lparr>ch_run_id = run_id, ch_records = []\<rparr> events"

end
