(* ===== verification/EvidenceProps.thy ===== *)
theory EvidenceProps
  imports EvidenceChain
begin

text \<open>
  What the chain of \<open>EvidenceChain\<close> shows: the canonical text of a record determines it, so that
  a pinned head fixes the whole chain; the verifier accepts exactly the linked chains whose events
  are in a legal order (\<open>well_ordered\<close>, stated on the events that came before); and the chain
  built from exported events fails only for the order of those events.
\<close>

section \<open>The canonical text of a record\<close>

text \<open>A character is read back from what \<open>json_char\<close> writes, whatever follows it.\<close>

definition hex_val :: "char \<Rightarrow> nat" where
  "hex_val c = (let n = (of_char c :: nat) in if n < 58 then n - 48 else n - 87)"

definition read_json_char :: "pystr \<Rightarrow> char \<times> pystr" where
  "read_json_char s =
     (if hd s \<noteq> CHR 0x5C then (hd s, tl s)
      else if s ! 1 = CHR ''n'' then (char_of (10 :: nat), drop 2 s)
      else if s ! 1 = CHR ''r'' then (char_of (13 :: nat), drop 2 s)
      else if s ! 1 = CHR ''t'' then (char_of (9 :: nat), drop 2 s)
      else if s ! 1 = CHR ''f'' then (char_of (12 :: nat), drop 2 s)
      else if s ! 1 = CHR ''b'' then (char_of (8 :: nat), drop 2 s)
      else if s ! 1 = CHR ''u'' then (char_of (16 * hex_val (s ! 4) + hex_val (s ! 5)), drop 6 s)
      else (s ! 1, drop 2 s))"

lemma hex_val_digit: "n < 16 \<Longrightarrow> hex_val (hex_digit n) = n"
  by (auto simp: hex_val_def hex_digit_def Let_def)

lemma char_by_code: "of_char c = (n :: nat) \<Longrightarrow> c = char_of n"
  by (metis char_of_char)

lemma read_json_char: "read_json_char (json_char c @ x) = (c, x)"
proof -
  let ?n = "of_char c :: nat"
  consider "?n = 34 \<or> ?n = 92" | "?n = 10" | "?n = 13" | "?n = 9" | "?n = 12" | "?n = 8"
    | "?n < 32" "?n \<notin> {8, 9, 10, 12, 13}" | "\<not> ?n < 32" "?n \<noteq> 34" "?n \<noteq> 92" by blast
  then show ?thesis
  proof cases
    case 1
    then have "?n = of_char (CHR 0x22) \<or> ?n = of_char (CHR 0x5C)" by simp
    then have "c = CHR 0x22 \<or> c = CHR 0x5C" by (metis char_of_char)
    then show ?thesis by (auto simp: json_char_def read_json_char_def)
  next
    case 7
    have "char_of (16 * (?n div 16) + ?n mod 16) = c" by (simp add: mult.commute)
    with 7 show ?thesis
      by (simp add: json_char_def read_json_char_def hex_val_digit Let_def nth_append)
  next
    case 8
    then have "c \<noteq> CHR 0x5C" by auto
    with 8 show ?thesis by (simp add: json_char_def read_json_char_def Let_def)
  qed (auto simp: json_char_def read_json_char_def dest: char_by_code)
qed

lemma json_char_prefix: "json_char c @ x = json_char d @ y \<Longrightarrow> c = d \<and> x = y"
  by (metis read_json_char prod.inject)

lemma json_char_start: "json_char c \<noteq> [] \<and> hd (json_char c) \<noteq> CHR 0x22"
  by (auto simp: json_char_def Let_def)

lemma json_string_prefix: "json_string s @ x = json_string t @ y \<Longrightarrow> s = t \<and> x = y"
proof -
  have "concat (map json_char s) @ CHR 0x22 # x = concat (map json_char t) @ CHR 0x22 # y \<Longrightarrow>
      s = t \<and> x = y"
  proof (induction s arbitrary: t)
    case Nil
    then show ?case
      using json_char_start by (cases t) (auto simp: append_eq_Cons_conv, metis hd_append2 list.sel(1))
  next
    case (Cons c s)
    show ?case
    proof (cases t)
      case Nil
      with Cons.prems show ?thesis
        using json_char_start[of c] by (cases "json_char c") auto
    next
      case (Cons d t')
      with Cons.prems json_char_prefix have "c = d"
        "concat (map json_char s) @ CHR 0x22 # x = concat (map json_char t') @ CHR 0x22 # y"
        by auto
      with Cons.IH Cons show ?thesis by simp
    qed
  qed
  then show "json_string s @ x = json_string t @ y \<Longrightarrow> s = t \<and> x = y" by (simp add: json_string_def)
qed

lemma json_string_not_null: "CHR ''n'' # z \<noteq> json_string t @ y" "json_string t @ y \<noteq> CHR ''n'' # z"
  by (simp_all add: json_string_def)

lemma opt_string_prefix:
  "canonical_text fl (opt_str s) @ x = canonical_text fl (opt_str t) @ y \<Longrightarrow> s = t \<and> x = y"
  by (cases s; cases t) (auto simp: opt_str_def json_string_not_null dest: json_string_prefix)

definition read_nat :: "pystr \<Rightarrow> nat" where
  "read_nat = foldl (\<lambda>a c. a * 10 + (of_char c - 48)) 0"

lemma read_show_nat: "read_nat (show_nat n) = n"
proof (induction n rule: show_nat.induct)
  case (1 n)
  show ?case
    by (subst show_nat.simps) (use 1 in \<open>auto simp: read_nat_def\<close>)
qed

lemma show_nat_inj: "show_nat m = show_nat n \<Longrightarrow> m = n"
  by (metis read_show_nat)

lemma show_int_inj: "show_int i = show_int j \<Longrightarrow> 0 \<le> i \<Longrightarrow> 0 \<le> j \<Longrightarrow> i = j"
  by (auto simp: show_int_def dest: show_nat_inj)

lemma sort_key_sorted: "sorted (map f xs) \<Longrightarrow> sort_key f xs = xs"
  by (rule sort_key_id_if_sorted)

lemma hashed_text_form:
  "hashed_text D r =
     ''{'' @ json_string ''action_id'' @ '':'' @ canonical_text (dg_float D) (opt_str (cr_action_id r))
     @ '','' @ json_string ''event_type'' @ '':'' @ json_string (cr_event_type r)
     @ '','' @ json_string ''payload_digest'' @ '':'' @ json_string (cr_payload_digest r)
     @ '','' @ json_string ''prev_hash'' @ '':'' @ json_string (cr_prev_hash r)
     @ '','' @ json_string ''run_id'' @ '':'' @ json_string (cr_run_id r)
     @ '','' @ json_string ''seq'' @ '':'' @ show_int (cr_seq r) @ ''}''"
proof -
  have "sorted [''action_id'', ''event_type'', ''payload_digest'', ''prev_hash'', ''run_id'', ''seq'']"
    by code_simp
  then show ?thesis
    by (simp add: hashed_text_def hashable_dict_def sort_key_sorted)
qed

lemma hashed_text_fields:
  assumes "hashed_text D r = hashed_text D s" and "0 \<le> cr_seq r" "0 \<le> cr_seq s"
  shows "cr_action_id r = cr_action_id s \<and> cr_event_type r = cr_event_type s
     \<and> cr_payload_digest r = cr_payload_digest s \<and> cr_prev_hash r = cr_prev_hash s
     \<and> cr_run_id r = cr_run_id s \<and> cr_seq r = cr_seq s"
proof -
  from assms(1)[unfolded hashed_text_form append_assoc, simplified same_append_eq]
  show ?thesis
    by (auto dest!: opt_string_prefix json_string_prefix show_int_inj[OF _ assms(2,3)] simp: append_assoc)
qed

section \<open>Linked chains\<close>

text \<open>Rules 1, 4 and 5 on a whole list: numbered, linked and with the hashes of their contents.\<close>

fun linked :: "digester \<Rightarrow> int \<Rightarrow> pystr \<Rightarrow> chain_record list \<Rightarrow> bool" where
  "linked D n h [] = True"
| "linked D n h (r # rs) \<longleftrightarrow>
     cr_seq r = n \<and> cr_prev_hash r = h \<and> compute_hash D r = cr_record_hash r
     \<and> linked D (n + 1) (cr_record_hash r) rs"

definition chain_head :: "pystr \<Rightarrow> chain_record list \<Rightarrow> pystr" where
  "chain_head h rs = (if rs = [] then h else cr_record_hash (last rs))"

lemma chain_head_simps [simp]:
  "chain_head h [] = h" "chain_head h (r # rs) = chain_head (cr_record_hash r) rs"
  "chain_head h (rs @ [r]) = cr_record_hash r"
  by (simp_all add: chain_head_def)

lemma linked_append:
  "linked D n h (rs @ ss) \<longleftrightarrow> linked D n h rs \<and> linked D (n + int (length rs)) (chain_head h rs) ss"
  by (induction rs arbitrary: n h) (auto simp: algebra_simps)

text \<open>Two linked chains with the same head are the same chain.\<close>

lemma linked_head_unique:
  assumes "linked D 1 h rs" and "linked D 1 h ss" and "chain_head h rs = chain_head h ss"
    and "rs \<noteq> [] \<longleftrightarrow> ss \<noteq> []"
    and inj: "inj_on (dg_sha D) (hashed_text D ` (set rs \<union> set ss))"
  shows "rs = ss"
  using assms
proof (induction rs arbitrary: ss rule: rev_induct)
  case (snoc r rs)
  then obtain s ss' where ss: "ss = ss' @ [s]" by (metis append_butlast_last_id)
  from snoc.prems ss have hash: "compute_hash D r = compute_hash D s"
    and seqs: "cr_seq r = 1 + int (length rs)" "cr_seq s = 1 + int (length ss')"
    and prevs: "cr_prev_hash r = chain_head h rs" "cr_prev_hash s = chain_head h ss'"
    and hashes: "cr_record_hash r = compute_hash D r" "cr_record_hash s = compute_hash D s"
    by (auto simp: linked_append)
  have "hashed_text D r = hashed_text D s"
    by (rule inj_onD[OF snoc.prems(5)]) (use hash ss in \<open>auto simp: compute_hash_def\<close>)
  from hashed_text_fields[OF this] seqs hash hashes have eq: "r = s"
    by (auto intro!: chain_record.equality)
  with seqs have len: "length rs = length ss'" by simp
  have "rs = ss'"
  proof (rule snoc.IH)
    show "linked D 1 h rs" "linked D 1 h ss'" using snoc.prems ss by (auto simp: linked_append)
    show "chain_head h rs = chain_head h ss'" using prevs eq by simp
    show "rs \<noteq> [] \<longleftrightarrow> ss' \<noteq> []" using len by auto
    show "inj_on (dg_sha D) (hashed_text D ` (set rs \<union> set ss'))"
      using snoc.prems(5) ss by (auto intro: inj_on_subset)
  qed
  with eq ss show ?case by simp
qed simp

section \<open>The legal order of events\<close>

text \<open>
  What may be recorded after the events \<open>pre\<close>, stated on their types and actions. \<open>noted\<close>: an
  event of one of the types was recorded for the action.
\<close>

type_synonym stamp = "pystr \<times> pystr option"

definition noted :: "pystr list \<Rightarrow> pystr \<Rightarrow> stamp list \<Rightarrow> bool" where
  "noted types a pre \<longleftrightarrow> (\<exists>x \<in> set pre. fst x \<in> set types \<and> snd x = Some a)"

definition run_over :: "stamp list \<Rightarrow> bool" where
  "run_over pre \<longleftrightarrow> (\<exists>x \<in> set pre. fst x \<in> set RUN_TERMINAL_EVENT_TYPES)"

definition under_review :: "pystr \<Rightarrow> stamp list \<Rightarrow> bool" where
  "under_review a pre \<longleftrightarrow>
     noted [''POLICY_HELD''] a pre \<and> noted [''APPROVAL_REQUESTED''] a pre
     \<and> \<not> noted (''APPROVAL_GRANTED'' # APPROVAL_CLOSED_EVENT_TYPES) a pre"

definition legal_action :: "stamp list \<Rightarrow> pystr \<Rightarrow> pystr \<Rightarrow> bool" where
  "legal_action pre t a \<longleftrightarrow>
     (t \<in> set DECISION_EVENT_TYPES \<longrightarrow> \<not> noted DECISION_EVENT_TYPES a pre)
     \<and> (t = ''APPROVAL_GRANTED'' \<longrightarrow> under_review a pre)
     \<and> (t \<in> set APPROVAL_CLOSED_EVENT_TYPES \<longrightarrow> \<not> noted [''APPROVAL_GRANTED''] a pre)
     \<and> (t \<in> set EXECUTION_EVENT_TYPES \<longrightarrow>
          (noted [''POLICY_ALLOWED''] a pre
             \<or> noted [''POLICY_HELD''] a pre \<and> noted [''APPROVAL_GRANTED''] a pre)
          \<and> \<not> noted TERMINAL_EXECUTION_EVENT_TYPES a pre)
     \<and> (t = ''EXECUTION_STARTED'' \<longrightarrow> \<not> noted [''EXECUTION_STARTED''] a pre)"

definition legal_after :: "stamp list \<Rightarrow> stamp \<Rightarrow> bool" where
  "legal_after pre x \<longleftrightarrow> (case x of (t, act) \<Rightarrow>
     t \<in> set KNOWN_EVENT_TYPES
     \<and> (t \<in> set WORKSPACE_RETENTION_EVENT_TYPES \<longrightarrow> run_over pre \<and> act = None)
     \<and> (run_over pre \<longrightarrow>
          t \<in> set RUN_TERMINAL_EVENT_TYPES \<or> t \<in> set WORKSPACE_RETENTION_EVENT_TYPES
          \<or> t = ''APPROVAL_EXPIRED'' \<and> (case act of None \<Rightarrow> False | Some a \<Rightarrow> under_review a pre))
     \<and> (case act of None \<Rightarrow> t \<notin> set EXECUTION_EVENT_TYPES \<and> t \<noteq> ''APPROVAL_GRANTED''
        | Some a \<Rightarrow> legal_action pre t a))"

fun well_ordered_from :: "stamp list \<Rightarrow> stamp list \<Rightarrow> bool" where
  "well_ordered_from pre [] = True"
| "well_ordered_from pre (x # xs) \<longleftrightarrow> legal_after pre x \<and> well_ordered_from (pre @ [x]) xs"

definition well_ordered :: "stamp list \<Rightarrow> bool" where
  "well_ordered xs = well_ordered_from [] xs"

lemma well_ordered_from_append:
  "well_ordered_from pre (xs @ ys) \<longleftrightarrow> well_ordered_from pre xs \<and> well_ordered_from (pre @ xs) ys"
  by (induction xs arbitrary: pre) auto

text \<open>The automaton state that stands for what was noted.\<close>

definition decided :: "pystr option \<Rightarrow> pystr \<Rightarrow> stamp list \<Rightarrow> bool" where
  "decided dec a pre \<longleftrightarrow>
     (case dec of
        None \<Rightarrow> \<not> noted DECISION_EVENT_TYPES a pre
      | Some d \<Rightarrow> d \<in> set DECISION_EVENT_TYPES
          \<and> (\<forall>t \<in> set DECISION_EVENT_TYPES. noted [t] a pre \<longleftrightarrow> t = d))"

definition stands_for :: "action_lifecycle \<Rightarrow> pystr \<Rightarrow> stamp list \<Rightarrow> bool" where
  "stands_for st a pre \<longleftrightarrow>
     decided (al_decision st) a pre
     \<and> al_requested st = noted [''APPROVAL_REQUESTED''] a pre
     \<and> al_approval st = (if noted [''APPROVAL_GRANTED''] a pre then Some ''GRANTED''
          else if noted APPROVAL_CLOSED_EVENT_TYPES a pre then Some ''CLOSED'' else None)
     \<and> al_started st = noted [''EXECUTION_STARTED''] a pre
     \<and> al_terminal st = noted TERMINAL_EXECUTION_EVENT_TYPES a pre"

definition lifecycle_of :: "lifecycles \<Rightarrow> pystr \<Rightarrow> action_lifecycle" where
  "lifecycle_of actions a = (case actions a of None \<Rightarrow> fresh_lifecycle | Some st \<Rightarrow> st)"

definition abstracts :: "verify_state \<Rightarrow> stamp list \<Rightarrow> bool" where
  "abstracts vs pre \<longleftrightarrow>
     (\<forall>a. stands_for (lifecycle_of (vs_actions vs) a) a pre)
     \<and> (vs_terminal vs \<noteq> None \<longleftrightarrow> run_over pre)"

lemma noted_snoc [simp]:
  "noted types a (pre @ [(t, act)]) \<longleftrightarrow> noted types a pre \<or> t \<in> set types \<and> act = Some a"
  by (auto simp: noted_def)

lemma noted_Nil [simp]: "\<not> noted types a []"
  by (simp add: noted_def)

lemma noted_many: "noted (t # t' # ts) a pre \<longleftrightarrow> noted [t] a pre \<or> noted (t' # ts) a pre"
  by (auto simp: noted_def)

lemma run_over_snoc [simp]: "run_over (pre @ [(t, act)]) \<longleftrightarrow> run_over pre \<or> t \<in> set RUN_TERMINAL_EVENT_TYPES"
  by (auto simp: run_over_def)

lemmas event_type_sets = DECISION_EVENT_TYPES_def EXECUTION_EVENT_TYPES_def
  APPROVAL_CLOSED_EVENT_TYPES_def TERMINAL_EXECUTION_EVENT_TYPES_def

lemma noted_sets:
  "noted DECISION_EVENT_TYPES a pre \<longleftrightarrow>
     noted [''POLICY_ALLOWED''] a pre \<or> noted [''POLICY_DENIED''] a pre \<or> noted [''POLICY_HELD''] a pre"
  "noted APPROVAL_CLOSED_EVENT_TYPES a pre \<longleftrightarrow>
     noted [''APPROVAL_DENIED''] a pre \<or> noted [''APPROVAL_EXPIRED''] a pre"
  "noted (t # APPROVAL_CLOSED_EVENT_TYPES) a pre \<longleftrightarrow>
     noted [t] a pre \<or> noted APPROVAL_CLOSED_EVENT_TYPES a pre"
  by (auto simp: noted_def event_type_sets)

text \<open>The decision that was noted, if any.\<close>

lemma stands_decision:
  assumes "stands_for st a pre" and "d \<in> set DECISION_EVENT_TYPES"
  shows "al_decision st = Some d \<longleftrightarrow> noted [d] a pre" "al_decision st = None \<longleftrightarrow> \<not> noted DECISION_EVENT_TYPES a pre"
proof -
  have "noted DECISION_EVENT_TYPES a pre \<longleftrightarrow> (\<exists>t \<in> set DECISION_EVENT_TYPES. noted [t] a pre)"
    by (auto simp: noted_def)
  then show "al_decision st = Some d \<longleftrightarrow> noted [d] a pre"
    "al_decision st = None \<longleftrightarrow> \<not> noted DECISION_EVENT_TYPES a pre"
    using assms unfolding stands_for_def decided_def by (cases "al_decision st"; fastforce)+
qed

lemma type_facts:
  "t \<in> set DECISION_EVENT_TYPES \<Longrightarrow>
     t \<noteq> ''APPROVAL_REQUESTED'' \<and> t \<noteq> ''APPROVAL_GRANTED'' \<and> t \<notin> set APPROVAL_CLOSED_EVENT_TYPES
     \<and> t \<notin> set EXECUTION_EVENT_TYPES \<and> t \<noteq> ''EXECUTION_STARTED'' \<and> t \<notin> set TERMINAL_EXECUTION_EVENT_TYPES"
  "t \<in> set APPROVAL_CLOSED_EVENT_TYPES \<Longrightarrow>
     t \<noteq> ''APPROVAL_REQUESTED'' \<and> t \<noteq> ''APPROVAL_GRANTED'' \<and> t \<notin> set DECISION_EVENT_TYPES
     \<and> t \<notin> set EXECUTION_EVENT_TYPES \<and> t \<noteq> ''EXECUTION_STARTED'' \<and> t \<notin> set TERMINAL_EXECUTION_EVENT_TYPES"
  "t \<in> set EXECUTION_EVENT_TYPES \<Longrightarrow>
     t \<noteq> ''APPROVAL_REQUESTED'' \<and> t \<noteq> ''APPROVAL_GRANTED'' \<and> t \<notin> set DECISION_EVENT_TYPES
     \<and> t \<notin> set APPROVAL_CLOSED_EVENT_TYPES
     \<and> (t = ''EXECUTION_STARTED'' \<longleftrightarrow> t \<notin> set TERMINAL_EXECUTION_EVENT_TYPES)"
  "t \<in> set TERMINAL_EXECUTION_EVENT_TYPES \<Longrightarrow> t \<in> set EXECUTION_EVENT_TYPES"
  by (auto simp: event_type_sets)

lemma type_singles:
  "''APPROVAL_REQUESTED'' \<notin> set DECISION_EVENT_TYPES" "''APPROVAL_REQUESTED'' \<notin> set APPROVAL_CLOSED_EVENT_TYPES"
  "''APPROVAL_REQUESTED'' \<notin> set EXECUTION_EVENT_TYPES" "''APPROVAL_REQUESTED'' \<notin> set TERMINAL_EXECUTION_EVENT_TYPES"
  "''APPROVAL_GRANTED'' \<notin> set DECISION_EVENT_TYPES" "''APPROVAL_GRANTED'' \<notin> set APPROVAL_CLOSED_EVENT_TYPES"
  "''APPROVAL_GRANTED'' \<notin> set EXECUTION_EVENT_TYPES" "''APPROVAL_GRANTED'' \<notin> set TERMINAL_EXECUTION_EVENT_TYPES"
  "''EXECUTION_STARTED'' \<in> set EXECUTION_EVENT_TYPES"
  "''POLICY_ALLOWED'' \<in> set DECISION_EVENT_TYPES" "''POLICY_HELD'' \<in> set DECISION_EVENT_TYPES"
  "''POLICY_DENIED'' \<in> set DECISION_EVENT_TYPES"
  by (simp_all add: event_type_sets)

lemma decided_snoc: "t \<notin> set DECISION_EVENT_TYPES \<Longrightarrow> decided d a (pre @ [(t, x)]) \<longleftrightarrow> decided d a pre"
  by (auto simp: decided_def split: option.splits)

text \<open>One step of the automaton, by the kind of the event.\<close>

lemma advance_decision:
  assumes "stands_for st a pre" and "t \<in> set DECISION_EVENT_TYPES"
  shows "fst (advance t a st) = None \<longleftrightarrow> legal_action pre t a"
    and "fst (advance t a st) = None \<Longrightarrow> stands_for (snd (advance t a st)) a (pre @ [(t, Some a)])"
proof -
  note tf = type_facts(1)[OF assms(2)]
  have adv: "fst (advance t a st) = None \<longleftrightarrow> al_decision st = None"
    "al_decision st = None \<Longrightarrow> snd (advance t a st) = st\<lparr>al_decision := Some t\<rparr>"
    using assms(2) by (simp_all add: advance_def split: option.split)
  show "fst (advance t a st) = None \<longleftrightarrow> legal_action pre t a"
    using adv(1) stands_decision(2)[OF assms] assms(2) tf by (simp add: legal_action_def)
  assume "fst (advance t a st) = None"
  then have none: "al_decision st = None" using adv(1) by simp
  then have "\<not> noted DECISION_EVENT_TYPES a pre" using stands_decision(2)[OF assms] by simp
  then have "\<not> noted [d] a pre" if "d \<in> set DECISION_EVENT_TYPES" for d
    using that by (auto simp: noted_def)
  then show "stands_for (snd (advance t a st)) a (pre @ [(t, Some a)])"
    using assms tf none unfolding adv(2)[OF none] stands_for_def by (auto simp: decided_def)
qed

lemma advance_requested:
  assumes "stands_for st a pre"
  shows "fst (advance ''APPROVAL_REQUESTED'' a st) = None"
    "legal_action pre ''APPROVAL_REQUESTED'' a"
    "stands_for (snd (advance ''APPROVAL_REQUESTED'' a st)) a (pre @ [(''APPROVAL_REQUESTED'', Some a)])"
proof -
  have adv: "advance ''APPROVAL_REQUESTED'' a st = (None, st\<lparr>al_requested := True\<rparr>)"
    by (simp add: advance_def type_singles)
  show "fst (advance ''APPROVAL_REQUESTED'' a st) = None" by (simp add: adv)
  show "legal_action pre ''APPROVAL_REQUESTED'' a" by (simp add: legal_action_def type_singles)
  show "stands_for (snd (advance ''APPROVAL_REQUESTED'' a st)) a (pre @ [(''APPROVAL_REQUESTED'', Some a)])"
    using assms unfolding adv stands_for_def by (simp add: type_singles decided_snoc)
qed

lemma advance_granted:
  assumes "stands_for st a pre"
  shows "fst (advance ''APPROVAL_GRANTED'' a st) = None \<longleftrightarrow> legal_action pre ''APPROVAL_GRANTED'' a"
    and "fst (advance ''APPROVAL_GRANTED'' a st) = None \<Longrightarrow>
      stands_for (snd (advance ''APPROVAL_GRANTED'' a st)) a (pre @ [(''APPROVAL_GRANTED'', Some a)])"
proof -
  have held: "al_decision st = Some ''POLICY_HELD'' \<longleftrightarrow> noted [''POLICY_HELD''] a pre"
    by (rule stands_decision(1)[OF assms type_singles(11)])
  have adv: "fst (advance ''APPROVAL_GRANTED'' a st) = None \<longleftrightarrow>
      al_decision st = Some ''POLICY_HELD'' \<and> al_approval st \<noteq> Some ''GRANTED''
      \<and> al_approval st \<noteq> Some ''CLOSED'' \<and> al_requested st"
    by (simp add: advance_def type_singles)
  have under: "under_review a pre \<longleftrightarrow> fst (advance ''APPROVAL_GRANTED'' a st) = None"
    using assms unfolding adv held under_review_def noted_sets(3) stands_for_def by simp
  then show legal: "fst (advance ''APPROVAL_GRANTED'' a st) = None \<longleftrightarrow> legal_action pre ''APPROVAL_GRANTED'' a"
    by (simp add: legal_action_def type_singles)
  assume ok: "fst (advance ''APPROVAL_GRANTED'' a st) = None"
  then have "snd (advance ''APPROVAL_GRANTED'' a st) = st\<lparr>al_approval := Some ''GRANTED''\<rparr>"
    unfolding adv by (simp add: advance_def type_singles)
  then show "stands_for (snd (advance ''APPROVAL_GRANTED'' a st)) a (pre @ [(''APPROVAL_GRANTED'', Some a)])"
    using assms unfolding stands_for_def by (simp add: type_singles decided_snoc)
qed

lemma advance_closed:
  assumes "stands_for st a pre" and "t \<in> set APPROVAL_CLOSED_EVENT_TYPES"
  shows "fst (advance t a st) = None \<longleftrightarrow> legal_action pre t a"
    and "fst (advance t a st) = None \<Longrightarrow> stands_for (snd (advance t a st)) a (pre @ [(t, Some a)])"
proof -
  note tf = type_facts(2)[OF assms(2)]
  have adv: "al_approval st \<noteq> Some ''GRANTED'' \<Longrightarrow> advance t a st =
       (None, if al_approval st = None then st\<lparr>al_approval := Some ''CLOSED''\<rparr> else st)"
    "al_approval st = Some ''GRANTED'' \<Longrightarrow> fst (advance t a st) \<noteq> None"
    using assms(2) tf by (simp_all add: advance_def)
  have granted: "al_approval st = Some ''GRANTED'' \<longleftrightarrow> noted [''APPROVAL_GRANTED''] a pre"
    using assms(1) unfolding stands_for_def by simp
  have ok: "fst (advance t a st) = None \<longleftrightarrow> al_approval st \<noteq> Some ''GRANTED''"
    using adv(2) by (cases "al_approval st = Some ''GRANTED''") (simp_all add: adv(1))
  then show "fst (advance t a st) = None \<longleftrightarrow> legal_action pre t a"
    using granted assms(2) tf by (simp add: legal_action_def)
  assume "fst (advance t a st) = None"
  with ok have open': "al_approval st \<noteq> Some ''GRANTED''" by blast
  with granted have ng: "\<not> noted [''APPROVAL_GRANTED''] a pre" by blast
  have next': "snd (advance t a st) = (if al_approval st = None then st\<lparr>al_approval := Some ''CLOSED''\<rparr> else st)"
    by (simp only: adv(1)[OF open'] snd_conv)
  have ap: "al_approval st = (if noted APPROVAL_CLOSED_EVENT_TYPES a pre then Some ''CLOSED'' else None)"
    using assms(1) ng unfolding stands_for_def by simp
  have "al_approval (snd (advance t a st)) = Some ''CLOSED''"
  proof (cases "al_approval st = None")
    case True
    then show ?thesis by (simp add: next')
  next
    case False
    then have "al_approval st = Some ''CLOSED''" using ap by presburger
    then show ?thesis by (simp add: next')
  qed
  moreover have "al_decision (snd (advance t a st)) = al_decision st" "al_requested (snd (advance t a st)) = al_requested st"
    "al_started (snd (advance t a st)) = al_started st" "al_terminal (snd (advance t a st)) = al_terminal st"
    unfolding next' by simp_all
  ultimately show "stands_for (snd (advance t a st)) a (pre @ [(t, Some a)])"
    using assms tf ng by (simp add: stands_for_def decided_snoc)
qed

lemma advance_execution:
  assumes "stands_for st a pre" and "t \<in> set EXECUTION_EVENT_TYPES"
  shows "fst (advance t a st) = None \<longleftrightarrow> legal_action pre t a"
    and "fst (advance t a st) = None \<Longrightarrow> stands_for (snd (advance t a st)) a (pre @ [(t, Some a)])"
proof -
  note tf = type_facts(3)[OF assms(2)]
  note dec = stands_decision[OF assms(1)]
  have parts: "al_approval st = Some ''GRANTED'' \<longleftrightarrow> noted [''APPROVAL_GRANTED''] a pre"
    "al_started st \<longleftrightarrow> noted [''EXECUTION_STARTED''] a pre"
    "al_terminal st \<longleftrightarrow> noted TERMINAL_EXECUTION_EVENT_TYPES a pre"
    using assms(1) unfolding stands_for_def by simp_all
  have three: "al_decision st = None \<or> al_decision st = Some ''POLICY_ALLOWED''
      \<or> al_decision st = Some ''POLICY_DENIED'' \<or> al_decision st = Some ''POLICY_HELD''"
    using assms(1) unfolding stands_for_def decided_def
    by (cases "al_decision st") (auto simp: DECISION_EVENT_TYPES_def)
  have fst_adv: "fst (advance t a st) = None \<longleftrightarrow>
      al_decision st \<noteq> None \<and> al_decision st \<noteq> Some ''POLICY_DENIED''
      \<and> (al_decision st = Some ''POLICY_HELD'' \<longrightarrow> al_approval st = Some ''GRANTED'')
      \<and> \<not> al_terminal st \<and> (t = ''EXECUTION_STARTED'' \<longrightarrow> \<not> al_started st)"
    using assms(2) tf by (simp add: advance_def)
  have "al_decision st \<noteq> None \<and> al_decision st \<noteq> Some ''POLICY_DENIED''
      \<and> (al_decision st = Some ''POLICY_HELD'' \<longrightarrow> al_approval st = Some ''GRANTED'')
    \<longleftrightarrow> al_decision st = Some ''POLICY_ALLOWED''
      \<or> al_decision st = Some ''POLICY_HELD'' \<and> al_approval st = Some ''GRANTED''"
    using three by (elim disjE) simp_all
  with fst_adv have "fst (advance t a st) = None \<longleftrightarrow>
      (al_decision st = Some ''POLICY_ALLOWED''
        \<or> al_decision st = Some ''POLICY_HELD'' \<and> al_approval st = Some ''GRANTED'')
      \<and> \<not> al_terminal st \<and> (t = ''EXECUTION_STARTED'' \<longrightarrow> \<not> al_started st)" by blast
  then show "fst (advance t a st) = None \<longleftrightarrow> legal_action pre t a"
    unfolding dec(1)[OF type_singles(10)] dec(1)[OF type_singles(11)] parts
    using tf assms(2) by (simp add: legal_action_def)
  assume ok: "fst (advance t a st) = None"
  then have next': "snd (advance t a st) =
      (if t = ''EXECUTION_STARTED'' then st\<lparr>al_started := True\<rparr> else st\<lparr>al_terminal := True\<rparr>)"
    using assms(2) tf fst_adv by (simp add: advance_def)
  have "al_approval (snd (advance t a st)) = al_approval st"
    "al_decision (snd (advance t a st)) = al_decision st" "al_requested (snd (advance t a st)) = al_requested st"
    "al_started (snd (advance t a st)) = (al_started st \<or> t = ''EXECUTION_STARTED'')"
    "al_terminal (snd (advance t a st)) = (al_terminal st \<or> t \<in> set TERMINAL_EXECUTION_EVENT_TYPES)"
    unfolding next' using tf by auto
  then show "stands_for (snd (advance t a st)) a (pre @ [(t, Some a)])"
    using assms tf by (simp add: stands_for_def decided_snoc)
qed

lemma advance_other:
  assumes "stands_for st a pre" and "t \<notin> set DECISION_EVENT_TYPES" "t \<noteq> ''APPROVAL_REQUESTED''"
    "t \<noteq> ''APPROVAL_GRANTED''" "t \<notin> set APPROVAL_CLOSED_EVENT_TYPES" "t \<notin> set EXECUTION_EVENT_TYPES"
  shows "fst (advance t a st) = None" "legal_action pre t a"
    "stands_for (snd (advance t a st)) a (pre @ [(t, Some a)])"
proof -
  have "t \<noteq> ''EXECUTION_STARTED''" "t \<notin> set TERMINAL_EXECUTION_EVENT_TYPES"
    using assms(6) type_singles(9) type_facts(4) by blast+
  with assms show "fst (advance t a st) = None" "legal_action pre t a"
    "stands_for (snd (advance t a st)) a (pre @ [(t, Some a)])"
    by (simp_all add: advance_def legal_action_def stands_for_def decided_snoc)
qed

lemma advance_legal:
  assumes "stands_for st a pre"
  shows "fst (advance t a st) = None \<longleftrightarrow> legal_action pre t a"
    and "fst (advance t a st) = None \<Longrightarrow> stands_for (snd (advance t a st)) a (pre @ [(t, Some a)])"
proof -
  consider "t \<in> set DECISION_EVENT_TYPES" | "t = ''APPROVAL_REQUESTED''" | "t = ''APPROVAL_GRANTED''"
    | "t \<in> set APPROVAL_CLOSED_EVENT_TYPES" | "t \<in> set EXECUTION_EVENT_TYPES"
    | "t \<notin> set DECISION_EVENT_TYPES" "t \<noteq> ''APPROVAL_REQUESTED''"
      "t \<noteq> ''APPROVAL_GRANTED''" "t \<notin> set APPROVAL_CLOSED_EVENT_TYPES" "t \<notin> set EXECUTION_EVENT_TYPES"
    by blast
  then have "(fst (advance t a st) = None \<longleftrightarrow> legal_action pre t a)
     \<and> (fst (advance t a st) = None \<longrightarrow> stands_for (snd (advance t a st)) a (pre @ [(t, Some a)]))"
  proof cases
    case 1 with advance_decision[OF assms] show ?thesis by blast
  next
    case 2 show ?thesis unfolding 2 using advance_requested[OF assms] by (intro conjI iffI impI)
  next
    case 3 show ?thesis unfolding 3 using advance_granted[OF assms] by (intro conjI impI)
  next
    case 4 with advance_closed[OF assms] show ?thesis by blast
  next
    case 5 with advance_execution[OF assms] show ?thesis by blast
  next
    case 6 with advance_other[OF assms] show ?thesis by blast
  qed
  then show "fst (advance t a st) = None \<longleftrightarrow> legal_action pre t a"
    and "fst (advance t a st) = None \<Longrightarrow> stands_for (snd (advance t a st)) a (pre @ [(t, Some a)])"
    by blast+
qed

section \<open>The verifier against the specification\<close>

definition stamp_of :: "chain_record \<Rightarrow> stamp" where
  "stamp_of r = (cr_event_type r, cr_action_id r)"

lemma stands_other: "b \<noteq> a \<Longrightarrow> stands_for st b (pre @ [(t, Some a)]) \<longleftrightarrow> stands_for st b pre"
  by (simp add: stands_for_def decided_def cong: option.case_cong)

lemma stands_none: "stands_for st b (pre @ [(t, None)]) \<longleftrightarrow> stands_for st b pre"
  by (simp add: stands_for_def decided_def cong: option.case_cong)

lemma lifecycle_legal:
  assumes ab: "\<forall>a. stands_for (lifecycle_of actions a) a pre"
    and run: "lifecycle_violation r actions = (v, actions')"
  shows "v = None \<longleftrightarrow> (case cr_action_id r of
           None \<Rightarrow> cr_event_type r \<notin> set EXECUTION_EVENT_TYPES \<and> cr_event_type r \<noteq> ''APPROVAL_GRANTED''
         | Some a \<Rightarrow> legal_action pre (cr_event_type r) a)"
    and "v = None \<Longrightarrow> \<forall>a. stands_for (lifecycle_of actions' a) a (pre @ [stamp_of r])"
proof -
  have "(v = None \<longleftrightarrow> (case cr_action_id r of
           None \<Rightarrow> cr_event_type r \<notin> set EXECUTION_EVENT_TYPES \<and> cr_event_type r \<noteq> ''APPROVAL_GRANTED''
         | Some a \<Rightarrow> legal_action pre (cr_event_type r) a))
     \<and> (v = None \<longrightarrow> (\<forall>a. stands_for (lifecycle_of actions' a) a (pre @ [stamp_of r])))"
  proof (cases "cr_action_id r")
    case None
    with run have v: "v = None \<longleftrightarrow> cr_event_type r \<notin> set EXECUTION_EVENT_TYPES \<and> cr_event_type r \<noteq> ''APPROVAL_GRANTED''"
      and "actions' = actions"
      by (auto simp: lifecycle_violation_def split: if_splits)
    then show ?thesis using ab None by (simp add: stamp_of_def stands_none)
  next
    case (Some a)
    let ?st = "lifecycle_of actions a"
    from run Some have v: "v = fst (advance (cr_event_type r) a ?st)"
      and acts: "actions' = actions(a \<mapsto> snd (advance (cr_event_type r) a ?st))"
      by (auto simp: lifecycle_violation_def lifecycle_of_def Let_def split: prod.splits)
    from ab have st: "stands_for ?st a pre" by blast
    have "stands_for (lifecycle_of actions' b) b (pre @ [stamp_of r])" if "v = None" for b
    proof (cases "b = a")
      case True
      with advance_legal(2)[OF st] that v Some show ?thesis
        by (simp add: acts lifecycle_of_def stamp_of_def)
    next
      case False
      with ab Some show ?thesis by (simp add: acts lifecycle_of_def stamp_of_def stands_other)
    qed
    then show ?thesis using advance_legal(1)[OF st] v Some by simp
  qed
  then show "v = None \<longleftrightarrow> (case cr_action_id r of
           None \<Rightarrow> cr_event_type r \<notin> set EXECUTION_EVENT_TYPES \<and> cr_event_type r \<noteq> ''APPROVAL_GRANTED''
         | Some a \<Rightarrow> legal_action pre (cr_event_type r) a)"
    and "v = None \<Longrightarrow> \<forall>a. stands_for (lifecycle_of actions' a) a (pre @ [stamp_of r])"
    by blast+
qed

lemma stands_review:
  "stands_for st a pre \<Longrightarrow> under_review a pre \<longleftrightarrow>
     al_decision st = Some ''POLICY_HELD'' \<and> al_requested st \<and> al_approval st = None"
  unfolding stands_decision(1)[OF _ type_singles(11)]
  by (simp add: stands_for_def under_review_def noted_sets(3))

lemma pending_expiry_iff:
  assumes "\<forall>a. stands_for (lifecycle_of actions a) a pre"
  shows "pending_expiry r actions \<longleftrightarrow> cr_event_type r = ''APPROVAL_EXPIRED''
     \<and> (case cr_action_id r of None \<Rightarrow> False | Some a \<Rightarrow> under_review a pre)"
proof (cases "cr_action_id r")
  case (Some a)
  have "under_review a pre \<longleftrightarrow> (case actions a of None \<Rightarrow> False
      | Some st \<Rightarrow> al_decision st = Some ''POLICY_HELD'' \<and> al_requested st \<and> al_approval st = None)"
    using stands_review[OF assms[rule_format, of a]]
    by (cases "actions a") (simp_all add: lifecycle_of_def fresh_lifecycle_def)
  then show ?thesis by (simp add: pending_expiry_def Some)
qed (simp add: pending_expiry_def)

lemma retention_types:
  "t \<in> set WORKSPACE_RETENTION_EVENT_TYPES \<Longrightarrow> t \<notin> set RUN_TERMINAL_EVENT_TYPES"
  by (auto simp: WORKSPACE_RETENTION_EVENT_TYPES_def RUN_TERMINAL_EVENT_TYPES_def)

lemma check_order_legal:
  assumes ab: "abstracts vs pre" and known: "cr_event_type r \<in> set KNOWN_EVENT_TYPES"
  shows "(\<exists>vs'. check_order recs idx r vs = Inr vs') \<longleftrightarrow> legal_after pre (stamp_of r)"
    and "check_order recs idx r vs = Inr vs' \<Longrightarrow>
      abstracts vs' (pre @ [stamp_of r]) \<and> vs_prev vs' = cr_record_hash r \<and> vs_seen vs' = vs_seen vs"
proof -
  from ab have acts: "\<forall>a. stands_for (lifecycle_of (vs_actions vs) a) a pre"
    and over: "vs_terminal vs \<noteq> None \<longleftrightarrow> run_over pre" by (auto simp: abstracts_def)
  obtain v actions where life: "lifecycle_violation r (vs_actions vs) = (v, actions)" by fastforce
  note legal = lifecycle_legal[OF acts life]
  have tv: "terminal_violation r vs = None \<longleftrightarrow>
      (retention_event r \<longrightarrow> run_over pre \<and> cr_action_id r = None)
      \<and> (run_over pre \<longrightarrow> cr_event_type r \<in> set RUN_TERMINAL_EVENT_TYPES \<or> retention_event r
           \<or> pending_expiry r (vs_actions vs))"
    using over by (cases "vs_terminal vs") (auto simp: terminal_violation_def Let_def)
  show "(\<exists>vs'. check_order recs idx r vs = Inr vs') \<longleftrightarrow> legal_after pre (stamp_of r)"
  proof -
    have "(\<exists>vs'. check_order recs idx r vs = Inr vs') \<longleftrightarrow> terminal_violation r vs = None \<and> v = None"
      by (cases "terminal_violation r vs"; cases v) (simp_all add: check_order_def life)
    also have "\<dots> \<longleftrightarrow> legal_after pre (stamp_of r)"
      unfolding tv legal(1) legal_after_def stamp_of_def pending_expiry_iff[OF acts]
      using known by (auto simp: retention_event_def)
    finally show ?thesis .
  qed
  assume ok: "check_order recs idx r vs = Inr vs'"
  then have t: "terminal_violation r vs = None" and v: "v = None"
    and vs': "vs' = vs\<lparr>vs_actions := actions,
        vs_terminal := (if cr_event_type r \<in> set RUN_TERMINAL_EVENT_TYPES
                        then Some (cr_event_type r) else vs_terminal vs),
        vs_prev := cr_record_hash r\<rparr>"
    by (cases "terminal_violation r vs"; cases v; simp add: check_order_def life)+
  show "abstracts vs' (pre @ [stamp_of r]) \<and> vs_prev vs' = cr_record_hash r \<and> vs_seen vs' = vs_seen vs"
    using legal(2)[OF v] over by (simp add: vs' abstracts_def) (simp add: stamp_of_def)
qed

text \<open>One record, and then all of them.\<close>

lemma check_record_iff:
  assumes ab: "abstracts vs pre" and prev: "idx = 0 \<longrightarrow> vs_prev vs = GENESIS_HASH"
  shows "(\<exists>vs'. check_record D recs k idx r vs = Inr vs') \<longleftrightarrow>
      cr_seq r = int idx + 1 \<and> cr_prev_hash r \<notin> fst ` set (vs_seen vs) \<and> cr_run_id r = k
      \<and> cr_prev_hash r = vs_prev vs \<and> compute_hash D r = cr_record_hash r \<and> legal_after pre (stamp_of r)"
    and "check_record D recs k idx r vs = Inr vs' \<Longrightarrow>
      abstracts vs' (pre @ [stamp_of r]) \<and> vs_prev vs' = cr_record_hash r
      \<and> fst ` set (vs_seen vs') = insert (cr_prev_hash r) (fst ` set (vs_seen vs))"
proof -
  let ?vs = "vs\<lparr>vs_seen := (cr_prev_hash r, cr_seq r) # vs_seen vs\<rparr>"
  let ?ok = "cr_seq r = int idx + 1 \<and> map_of (vs_seen vs) (cr_prev_hash r) = None \<and> cr_run_id r = k
      \<and> cr_prev_hash r = vs_prev vs \<and> compute_hash D r = cr_record_hash r
      \<and> cr_event_type r \<in> set KNOWN_EVENT_TYPES"
  have ab': "abstracts ?vs pre" using ab by (simp add: abstracts_def)
  have seen: "map_of (vs_seen vs) (cr_prev_hash r) = None \<longleftrightarrow> cr_prev_hash r \<notin> fst ` set (vs_seen vs)"
    by (simp add: map_of_eq_None_iff)
  have run: "check_record D recs k idx r vs = check_order recs idx r ?vs" if ?ok
  proof -
    have "map_of (vs_seen vs) (vs_prev vs) = None" using that by metis
    with that prev show ?thesis by (cases "idx = 0") (simp_all add: check_record_def Let_def)
  qed
  have stop: "check_record D recs k idx r vs \<noteq> Inr vs'" if "\<not> ?ok" for vs'
    using that prev
    by (auto simp: check_record_def Let_def split: if_splits option.splits)
  have known: "legal_after pre (stamp_of r) \<Longrightarrow> cr_event_type r \<in> set KNOWN_EVENT_TYPES"
    by (simp add: legal_after_def stamp_of_def)
  show "(\<exists>vs'. check_record D recs k idx r vs = Inr vs') \<longleftrightarrow>
      cr_seq r = int idx + 1 \<and> cr_prev_hash r \<notin> fst ` set (vs_seen vs) \<and> cr_run_id r = k
      \<and> cr_prev_hash r = vs_prev vs \<and> compute_hash D r = cr_record_hash r \<and> legal_after pre (stamp_of r)"
    unfolding seen[symmetric]
  proof (cases ?ok)
    case True
    then have "cr_event_type r \<in> set KNOWN_EVENT_TYPES" by blast
    from check_order_legal(1)[OF ab' this, of recs idx] True
    show "(\<exists>vs'. check_record D recs k idx r vs = Inr vs') \<longleftrightarrow>
      cr_seq r = int idx + 1 \<and> map_of (vs_seen vs) (cr_prev_hash r) = None \<and> cr_run_id r = k
      \<and> cr_prev_hash r = vs_prev vs \<and> compute_hash D r = cr_record_hash r \<and> legal_after pre (stamp_of r)"
      unfolding run[OF True] by blast
  next
    case False
    with stop[OF False] known
    show "(\<exists>vs'. check_record D recs k idx r vs = Inr vs') \<longleftrightarrow>
      cr_seq r = int idx + 1 \<and> map_of (vs_seen vs) (cr_prev_hash r) = None \<and> cr_run_id r = k
      \<and> cr_prev_hash r = vs_prev vs \<and> compute_hash D r = cr_record_hash r \<and> legal_after pre (stamp_of r)"
      by blast
  qed
  assume ok: "check_record D recs k idx r vs = Inr vs'"
  with stop have good: ?ok by blast
  have "check_order recs idx r ?vs = Inr vs'" using ok unfolding run[OF good] .
  from check_order_legal(2)[OF ab' _ this] good
  show "abstracts vs' (pre @ [stamp_of r]) \<and> vs_prev vs' = cr_record_hash r
      \<and> fst ` set (vs_seen vs') = insert (cr_prev_hash r) (fst ` set (vs_seen vs))"
    by simp
qed

lemma verify_loop_iff:
  assumes "abstracts vs pre" and "idx = 0 \<longrightarrow> vs_prev vs = GENESIS_HASH"
  shows "(\<exists>vs'. verify_loop D recs k idx rs vs = Inr vs') \<longleftrightarrow>
      linked D (int idx + 1) (vs_prev vs) rs \<and> (\<forall>r \<in> set rs. cr_run_id r = k)
      \<and> distinct (map cr_prev_hash rs) \<and> set (map cr_prev_hash rs) \<inter> fst ` set (vs_seen vs) = {}
      \<and> well_ordered_from pre (map stamp_of rs)"
  using assms
proof (induction rs arbitrary: idx vs pre)
  case (Cons r rs)
  note iff = check_record_iff[OF Cons.prems, of D recs k r]
  show ?case
  proof (cases "check_record D recs k idx r vs")
    case (Inl bad)
    then have "\<not> (\<exists>vs'. check_record D recs k idx r vs = Inr vs')" by simp
    with iff(1) Inl show ?thesis by auto
  next
    case (Inr vs1)
    then have "\<exists>vs'. check_record D recs k idx r vs = Inr vs'" by blast
    note head = this[unfolded iff(1)]
    note next' = iff(2)[OF Inr]
    have "(\<exists>vs'. verify_loop D recs k (Suc idx) rs vs1 = Inr vs') \<longleftrightarrow>
        linked D (int (Suc idx) + 1) (vs_prev vs1) rs \<and> (\<forall>r \<in> set rs. cr_run_id r = k)
      \<and> distinct (map cr_prev_hash rs) \<and> set (map cr_prev_hash rs) \<inter> fst ` set (vs_seen vs1) = {}
      \<and> well_ordered_from (pre @ [stamp_of r]) (map stamp_of rs)"
      using next' by (intro Cons.IH) auto
    then show ?thesis
      using head next' Inr by (auto simp: algebra_simps intro: rev_image_eqI)
  qed
qed simp

lemma abstracts_start: "abstracts verify_start []"
  by (simp add: abstracts_def verify_start_def lifecycle_of_def fresh_lifecycle_def stands_for_def
      decided_def run_over_def)

text \<open>A chain whose hashes, numbers, links and run are right, and no hash taken twice.\<close>

definition intact :: "digester \<Rightarrow> pystr \<Rightarrow> chain_record list \<Rightarrow> bool" where
  "intact D k recs \<longleftrightarrow>
     linked D 1 GENESIS_HASH recs \<and> (\<forall>r \<in> set recs. cr_run_id r = k)
     \<and> distinct (map cr_prev_hash recs)"

lemma check_pins_ok:
  "vr_ok (check_pins recs eh el) \<longleftrightarrow>
     (case el of None \<Rightarrow> True | Some n \<Rightarrow> n = int (length recs))
     \<and> (case eh of None \<Rightarrow> True | Some h \<Rightarrow> h = cr_record_hash (last recs))"
  by (auto simp: check_pins_def Let_def split: option.splits)

lemma refusals_fail: "verify_loop D recs k idx rs vs = Inl bad \<Longrightarrow> \<not> vr_ok bad"
proof (induction rs arbitrary: idx vs)
  case (Cons r rs)
  show ?case
  proof (cases "check_record D recs k idx r vs")
    case (Inl b)
    have "\<not> vr_ok b"
      using Inl by (auto simp: check_record_def check_order_def refuse_record_def Let_def
          split: if_splits option.splits prod.splits)
    with Inl Cons.prems show ?thesis by simp
  next
    case (Inr vs')
    with Cons show ?thesis by simp
  qed
qed simp

lemma verify_records_ok:
  "vr_ok (verify_records D recs (Some k) head len) \<longleftrightarrow>
     intact D k recs \<and> well_ordered (map stamp_of recs)
     \<and> (case len of None \<Rightarrow> True | Some n \<Rightarrow> n = int (length recs))
     \<and> (case head of None \<Rightarrow> True | Some h \<Rightarrow> h = chain_head GENESIS_HASH recs)"
proof (cases "recs = []")
  case True
  then show ?thesis
    by (auto simp: verify_records_def verify_empty_def Let_def intact_def well_ordered_def
        chain_head_def split: option.splits)
next
  case False
  have start: "vs_prev verify_start = GENESIS_HASH" "vs_seen verify_start = []"
    by (simp_all add: verify_start_def)
  have "(\<exists>vs'. verify_loop D recs k 0 recs verify_start = Inr vs') \<longleftrightarrow>
      intact D k recs \<and> well_ordered (map stamp_of recs)"
    using verify_loop_iff[OF abstracts_start, of 0 D recs k recs] start
    by (simp add: intact_def well_ordered_def)
  moreover have "chain_head GENESIS_HASH recs = cr_record_hash (last recs)"
    using False by (simp add: chain_head_def)
  ultimately show ?thesis
    using False refusals_fail[of D recs k 0 recs verify_start]
    by (cases "verify_loop D recs k 0 recs verify_start"; cases head)
       (auto simp: verify_records_def check_pins_ok)
qed

section \<open>The chain of exported events\<close>

definition stamps_of :: "event list \<Rightarrow> stamp list" where
  "stamps_of es = map (\<lambda>e. (event_type_value (ev_type e), action_id_for_event e)) es"

lemma stamps_of_append [simp]: "stamps_of (es @ fs) = stamps_of es @ stamps_of fs"
  by (simp add: stamps_of_def)

lemma built_chain:
  "ch_run_id (build_chain_from_events D k es) = k
   \<and> linked D 1 GENESIS_HASH (ch_records (build_chain_from_events D k es))
   \<and> (\<forall>r \<in> set (ch_records (build_chain_from_events D k es)). cr_run_id r = k)
   \<and> map stamp_of (ch_records (build_chain_from_events D k es)) = stamps_of es"
proof (induction es rule: rev_induct)
  case (snoc e es)
  let ?c = "build_chain_from_events D k es"
  have next': "build_chain_from_events D k (es @ [e]) =
      snd (chain_append D (event_type_value (ev_type e)) (action_id_for_event e) (payload_for_event D e) ?c)"
    by (simp add: build_chain_from_events_def)
  from snoc show ?case
    unfolding next' chain_append_def Let_def
    by (auto simp: compute_hash_def hashed_text_def hashable_dict_def linked_append head_hash_def chain_head_def stamp_of_def stamps_of_def)
qed (simp add: build_chain_from_events_def stamps_of_def)

lemma linked_prev:
  "linked D n h rs \<Longrightarrow> rs \<noteq> [] \<Longrightarrow> map cr_prev_hash rs = h # map cr_record_hash (butlast rs)"
  by (induction rs arbitrary: n h) auto

lemma linked_hashes:
  "linked D n h rs \<Longrightarrow> map cr_record_hash rs = map (\<lambda>r. dg_sha D (hashed_text D r)) rs"
  by (induction rs arbitrary: n h) (auto simp: compute_hash_def)

lemma linked_texts_distinct:
  "linked D n h rs \<Longrightarrow> 0 \<le> n \<Longrightarrow> distinct (map (hashed_text D) rs) \<and> (\<forall>r \<in> set rs. n \<le> cr_seq r)"
proof (induction rs arbitrary: n h)
  case (Cons r rs)
  then have "distinct (map (hashed_text D) rs)" "\<forall>x \<in> set rs. n + 1 \<le> cr_seq x" "cr_seq r = n" by auto
  moreover have "hashed_text D r \<noteq> hashed_text D x" if "x \<in> set rs" for x
    using hashed_text_fields[of D r x] that calculation Cons.prems(2) by force
  ultimately show ?case by force
qed simp

lemma collision_free_distinct:
  assumes "linked D 1 GENESIS_HASH rs" and "inj_on (dg_sha D) (hashed_text D ` set rs)"
    and "GENESIS_HASH \<notin> dg_sha D ` hashed_text D ` set rs"
  shows "distinct (map cr_prev_hash rs)"
proof (cases "rs = []")
  case False
  have "distinct (map (dg_sha D) (map (hashed_text D) rs))"
    by (subst distinct_map) (use linked_texts_distinct[OF assms(1)] assms(2) in simp)
  then have "distinct (map (\<lambda>r. dg_sha D (hashed_text D r)) rs)" by (simp add: comp_def)
  then have "distinct (map cr_record_hash (butlast rs))"
    unfolding linked_hashes[OF assms(1), symmetric] by (simp add: map_butlast distinct_butlast)
  moreover have "GENESIS_HASH \<notin> set (map cr_record_hash (butlast rs))"
  proof
    assume "GENESIS_HASH \<in> set (map cr_record_hash (butlast rs))"
    then have "GENESIS_HASH \<in> set (map cr_record_hash rs)" by (auto dest: in_set_butlastD)
    with assms(3) show False unfolding linked_hashes[OF assms(1)] by auto
  qed
  ultimately show ?thesis using linked_prev[OF assms(1) False] by simp
qed simp

section \<open>Properties\<close>

text \<open>
  C35: the verifier accepts exactly what it should. With a run and optional pins, the result is ok
  if and only if the records form an intact chain of that run, their events are in a legal order
  (each one against the events before it), and the pinned length and head are those of the chain.
\<close>

theorem verifier_accepts_exactly:
  "vr_ok (verify_records D recs (Some k) head len) \<longleftrightarrow>
     intact D k recs \<and> well_ordered (map stamp_of recs)
     \<and> (case len of None \<Rightarrow> True | Some n \<Rightarrow> n = int (length recs))
     \<and> (case head of None \<Rightarrow> True | Some h \<Rightarrow> h = chain_head GENESIS_HASH recs)"
  by (rule verify_records_ok)

text \<open>
  C36: tampering is detected. When two non-empty chains both verify against the same pinned head
  and no two of their records have colliding hashes, they are the same chain, record by record:
  no record can be edited, dropped, inserted or reordered under a pinned head.
\<close>

theorem pinned_head_fixes_chain:
  assumes "vr_ok (verify_records D recs (Some k) (Some head) len)"
    and "vr_ok (verify_records D recs' (Some k') (Some head) len')"
    and "recs \<noteq> []" and "recs' \<noteq> []"
    and "inj_on (dg_sha D) (hashed_text D ` (set recs \<union> set recs'))"
  shows "recs = recs'"
proof -
  have "linked D 1 GENESIS_HASH recs" "head = chain_head GENESIS_HASH recs"
    using assms(1) by (auto simp: verify_records_ok intact_def)
  moreover have "linked D 1 GENESIS_HASH recs'" "head = chain_head GENESIS_HASH recs'"
    using assms(2) by (auto simp: verify_records_ok intact_def)
  ultimately show ?thesis using assms(3-5) by (intro linked_head_unique) auto
qed

text \<open>
  C37: a chain built from exported events verifies, against its own head and length too, exactly
  when the events are in a legal order: the builder never breaks the numbering, the links or the
  hashes. (No two of its records collide, and none hashes to the all-zero genesis hash.)
\<close>

theorem built_chain_verifies:
  assumes "inj_on (dg_sha D) (hashed_text D ` set (ch_records (build_chain_from_events D k es)))"
    and "GENESIS_HASH \<notin> dg_sha D ` hashed_text D ` set (ch_records (build_chain_from_events D k es))"
  shows "vr_ok (chain_verify D (build_chain_from_events D k es)
       (Some (head_hash (build_chain_from_events D k es))) (Some (int (length es))) None)
     \<longleftrightarrow> well_ordered (stamps_of es)"
proof -
  let ?c = "build_chain_from_events D k es"
  note built = built_chain[of D k es]
  have "length (ch_records ?c) = length es"
    using built by (metis length_map stamps_of_def)
  moreover have "intact D k (ch_records ?c)"
    using built collision_free_distinct[OF _ assms] by (simp add: intact_def)
  ultimately show ?thesis
    using built by (simp add: chain_verify_def verify_records_ok head_hash_def chain_head_def truthy_def)
qed

section \<open>A concrete chain\<close>

definition demo_digester :: digester where
  "demo_digester = \<lparr>dg_sha = (\<lambda>t. show_nat (length t)), dg_float = (\<lambda>_ _. [])\<rparr>"

definition demo_event :: "nat \<Rightarrow> event_type \<Rightarrow> pystr option \<Rightarrow> event" where
  "demo_event n ty a =
     \<lparr>ev_sequence = n, ev_id = [], ev_run_id = ''r'', ev_type = ty, ev_timestamp = 0, ev_actor = ''x'',
      ev_summary = [], ev_action_id = a, ev_decision_id = None, ev_approval_id = None,
      ev_receipt_id = None, ev_turn_id = None, ev_details = [], ev_synthetic = True\<rparr>"

definition demo_events :: "event list" where
  "demo_events = [demo_event 1 EV_RUN_CREATED None, demo_event 2 EV_POLICY_ALLOWED (Some ''a'')]"

definition demo_chain :: chain where
  "demo_chain = build_chain_from_events demo_digester ''r'' demo_events"

text \<open>The same two records as an operator may have stored them.\<close>

definition demo_stored :: "chain_record list" where
  "demo_stored =
     [\<lparr>cr_seq = 1, cr_run_id = ''r'', cr_event_type = ''RUN_CREATED'', cr_action_id = None,
       cr_payload_digest = ''93'', cr_prev_hash = GENESIS_HASH, cr_record_hash = ''167''\<rparr>,
      \<lparr>cr_seq = 2, cr_run_id = ''r'', cr_event_type = ''POLICY_ALLOWED'', cr_action_id = Some ''a'',
       cr_payload_digest = ''120'', cr_prev_hash = ''167'', cr_record_hash = ''109''\<rparr>]"

definition collides :: "digester \<Rightarrow> chain_record list \<Rightarrow> bool" where
  "collides D rs \<longleftrightarrow>
     (\<exists>r \<in> set rs. \<exists>s \<in> set rs. hashed_text D r \<noteq> hashed_text D s
        \<and> dg_sha D (hashed_text D r) = dg_sha D (hashed_text D s))"

lemma collides_inj: "\<not> collides D rs \<Longrightarrow> inj_on (dg_sha D) (hashed_text D ` set rs)"
  by (auto simp: collides_def inj_on_def)

lemma demo_built: "ch_records demo_chain = demo_stored"
  by code_simp

lemma demo_verified:
  "vr_ok (verify_records demo_digester demo_stored (Some ''r'') (Some ''109'') (Some 2))"
  by code_simp

lemma demo_collision_free: "\<not> collides demo_digester demo_stored"
  by code_simp

lemma demo_no_genesis:
  "GENESIS_HASH \<notin> set (map (\<lambda>r. dg_sha demo_digester (hashed_text demo_digester r)) demo_stored)"
  by code_simp

lemma demo_ordered: "well_ordered (stamps_of demo_events)"
  by code_simp

theorem pinned_head_fixes_chain_witness:
  "vr_ok (verify_records demo_digester (ch_records demo_chain) (Some ''r'') (Some ''109'') (Some 2))
   \<and> ch_records demo_chain = demo_stored"
proof -
  have "inj_on (dg_sha demo_digester)
      (hashed_text demo_digester ` (set (ch_records demo_chain) \<union> set demo_stored))"
    using collides_inj[OF demo_collision_free] by (simp add: demo_built)
  moreover have "demo_stored \<noteq> []" by (simp add: demo_stored_def)
  ultimately show ?thesis
    using pinned_head_fixes_chain[OF demo_verified[folded demo_built] demo_verified] demo_verified
    unfolding demo_built by blast
qed

theorem built_chain_verifies_witness:
  "vr_ok (chain_verify demo_digester demo_chain (Some (head_hash demo_chain)) (Some 2) None)"
proof -
  have "GENESIS_HASH \<notin> dg_sha demo_digester ` hashed_text demo_digester ` set (ch_records demo_chain)"
    using demo_no_genesis unfolding demo_built by auto
  moreover have "inj_on (dg_sha demo_digester) (hashed_text demo_digester ` set (ch_records demo_chain))"
    using collides_inj[OF demo_collision_free] unfolding demo_built .
  moreover have "length demo_events = 2" by (simp add: demo_events_def)
  ultimately show ?thesis
    using built_chain_verifies[of demo_digester "''r''" demo_events, folded demo_chain_def] demo_ordered
    by simp
qed

end
