(* ===== verification/Workspaces.thy ===== *)
theory Workspaces
  imports Executor
begin

text \<open>
  \<open>backend/scopewatch/workspaces.py\<close>: the per-run workspace directories. The manager knows the scenario
  fixture and the managed root; a run's workspace is the directory named after the run inside the
  root. Reading the disk goes through its view (\<open>resolve\<close>, \<open>is_dir\<close>, file contents); what the standard
  library does to a whole tree (\<open>copytree\<close>, the \<open>chmod\<close> walk, \<open>rmtree\<close>, \<open>os.replace\<close>) and \<open>json.loads\<close> /
  \<open>json.dumps\<close> are operations of the environment (\<open>ws_env\<close>). The permission bits are not in the disk model.
\<close>

section \<open>Environment and errors\<close>

text \<open>The tree a directory descriptor sees: device numbers, file sizes, and anything else.\<close>

datatype tree_entry =
    Tree_dir nat "tree_entry list"
  | Tree_file nat nat
  | Tree_other nat

record ws_env =
  we_cwd :: path
  we_mkdirs :: "path \<Rightarrow> disk \<Rightarrow> (exc + unit) \<times> disk"
  we_write_text :: "path \<Rightarrow> pystr \<Rightarrow> disk \<Rightarrow> (exc + unit) \<times> disk"
  we_unlink :: "path \<Rightarrow> disk \<Rightarrow> (exc + unit) \<times> disk"
  we_copytree :: "path \<Rightarrow> path \<Rightarrow> (path \<Rightarrow> pystr list \<Rightarrow> pystr list) \<Rightarrow> disk \<Rightarrow> (exc + unit) \<times> disk"
  we_apply_modes :: "path \<Rightarrow> disk \<Rightarrow> (exc + unit) \<times> disk"
  we_replace :: "path \<Rightarrow> path \<Rightarrow> disk \<Rightarrow> (exc + unit) \<times> disk"
  we_rmtree :: "path \<Rightarrow> disk \<Rightarrow> disk"
  we_stat :: "pystr \<Rightarrow> disk \<Rightarrow> exc + nat \<times> nat"
  we_delete :: "pystr \<Rightarrow> disk \<Rightarrow> (exc + unit) \<times> disk"
  we_tree :: "path \<Rightarrow> disk \<Rightarrow> tree_entry"
  we_loads :: "pystr \<Rightarrow> json option"
  we_dumps :: "json \<Rightarrow> pystr"
  we_iso :: "instant \<Rightarrow> pystr"
  we_from_iso :: "pystr \<Rightarrow> stamp"
  we_safe_rmtree :: bool

record workspace_manager =
  wm_source :: path
  wm_root :: path

definition WORKSPACE_MARKER_NAME :: pystr where
  "WORKSPACE_MARKER_NAME = ''.scopewatch-run-workspace.json''"

definition RUN_WORKSPACES_DIRNAME :: pystr where "RUN_WORKSPACES_DIRNAME = ''.runs''"

definition MARKER_VERSION :: int where "MARKER_VERSION = 1"

text \<open>\<open>RunWorkspaceError\<close> and \<open>RunWorkspaceRootError\<close>, carrying the code the service reports.\<close>

definition ws_error :: exc where
  "ws_error = Py_error ''RunWorkspaceError'' ''RUN_WORKSPACE_UNAVAILABLE''"

definition ws_root_error :: exc where
  "ws_root_error = Py_error ''RunWorkspaceRootError'' ''RUN_WORKSPACES_ROOT_UNAVAILABLE''"

definition OS_ERRORS :: "pystr list" where
  "OS_ERRORS =
     [''OSError'', ''BlockingIOError'', ''ChildProcessError'', ''ConnectionError'', ''BrokenPipeError'',
      ''ConnectionAbortedError'', ''ConnectionRefusedError'', ''ConnectionResetError'', ''FileExistsError'',
      ''FileNotFoundError'', ''InterruptedError'', ''IsADirectoryError'', ''NotADirectoryError'',
      ''PermissionError'', ''ProcessLookupError'', ''TimeoutError'', ''Error'', ''SameFileError'',
      ''SpecialFileError'', ''UnsupportedOperation'']"

definition VALUE_ERRORS :: "pystr list" where
  "VALUE_ERRORS = [''ValueError'', ''JSONDecodeError'', ''UnicodeDecodeError'', ''UnicodeEncodeError'', ''UnsupportedOperation'']"

definition RUNTIME_ERRORS :: "pystr list" where
  "RUNTIME_ERRORS = [''RuntimeError'', ''NotImplementedError'', ''RecursionError'']"

definition catch_as :: "pystr list \<Rightarrow> exc \<Rightarrow> 'a tx \<Rightarrow> 'a tx" where
  "catch_as classes e m = tx_catch m (\<lambda>x. tx_raise (if exc_class x \<in> set classes then e else x))"

section \<open>Identity\<close>

text \<open>\<open>[A-Za-z0-9][A-Za-z0-9._-]{0,127}\<close>, matched in full.\<close>

definition ascii_alnum :: "char \<Rightarrow> bool" where
  "ascii_alnum c =
     (let n = (of_char c :: nat)
      in (48 \<le> n \<and> n \<le> 57) \<or> (65 \<le> n \<and> n \<le> 90) \<or> (97 \<le> n \<and> n \<le> 122))"

definition safe_segment :: "pystr \<Rightarrow> bool" where
  "safe_segment s \<longleftrightarrow>
     s \<noteq> [] \<and> length s \<le> 128 \<and> ascii_alnum (hd s)
     \<and> (\<forall>c \<in> set (tl s). ascii_alnum c \<or> c = CHR ''.'' \<or> c = CHR ''_'' \<or> c = CHR ''-'')"

definition workspace_segment :: "pystr \<Rightarrow> exc + pystr" where
  "workspace_segment run_id = (if safe_segment run_id then Inr run_id else Inl ws_error)"

definition default_run_workspaces_root :: "environ \<Rightarrow> (pystr \<Rightarrow> path) \<Rightarrow> path \<Rightarrow> path" where
  "default_run_workspaces_root env to_path source_root =
     (let override = strip (case env ''SCOPEWATCH_RUN_WORKSPACES_DIR'' of None \<Rightarrow> [] | Some v \<Rightarrow> v)
      in if override \<noteq> [] then to_path override else source_root @ [RUN_WORKSPACES_DIRNAME])"

definition path_for :: "workspace_manager \<Rightarrow> pystr \<Rightarrow> exc + path" where
  "path_for M run_id =
     (case workspace_segment run_id of Inl e \<Rightarrow> Inl e | Inr s \<Rightarrow> Inr (wm_root M @ [s]))"

definition workspace_key :: "pystr \<Rightarrow> exc + pystr" where
  "workspace_key run_id = workspace_segment run_id"

text \<open>\<open>Path(s)\<close>, made absolute against the working directory.\<close>

definition to_path :: "ws_env \<Rightarrow> pystr \<Rightarrow> path" where
  "to_path E s =
     (if starts_with s ''/'' then pure_path_parts s else we_cwd E @ pure_path_parts s)"

definition is_dir :: "disk \<Rightarrow> path \<Rightarrow> bool" where
  "is_dir d p = (case dk_node d p of Some (Dir_node _) \<Rightarrow> True | _ \<Rightarrow> False)"

text \<open>The marker of a directory, when it has a readable one.\<close>

definition read_marker :: "ws_env \<Rightarrow> path \<Rightarrow> disk \<Rightarrow> jobj option" where
  "read_marker E workspace d =
     (case dk_node d (workspace @ [WORKSPACE_MARKER_NAME]) of
        Some (File_node text _) \<Rightarrow>
          (case we_loads E text of Some (JObj m) \<Rightarrow> Some m | _ \<Rightarrow> None)
      | _ \<Rightarrow> None)"

section \<open>The managed root\<close>

definition hex12 :: "pystr \<Rightarrow> pystr" where
  "hex12 u = take 12 (filter (\<lambda>c. c \<noteq> CHR ''-'') u)"

definition ensure_root :: "ws_env \<Rightarrow> workspace_manager \<Rightarrow> path tx" where
  "ensure_root E M =
     catch_as OS_ERRORS ws_root_error
       (tx_bind (disk_op (we_mkdirs E (wm_root M))) (\<lambda>_.
        tx_bind uuid4 (\<lambda>u.
        let probe = wm_root M @ [''.writable-'' @ hex12 u]
        in tx_bind (disk_op (we_write_text E probe [])) (\<lambda>_.
           tx_bind (disk_op (we_unlink E probe)) (\<lambda>_. tx_return (wm_root M))))))"

definition nested_in_source :: "workspace_manager \<Rightarrow> disk \<Rightarrow> bool" where
  "nested_in_source M d =
     (case (os_resolve (dk_view d) (wm_root M), os_resolve (dk_view d) (wm_source M)) of
        (Some root, Some source) \<Rightarrow> relative_to root source \<noteq> None
      | _ \<Rightarrow> False)"

text \<open>Only the managed root itself is left out of a copy, and only at the top of the fixture.\<close>

definition copy_ignore :: "workspace_manager \<Rightarrow> bool \<Rightarrow> path \<Rightarrow> pystr list \<Rightarrow> pystr list" where
  "copy_ignore M nested src_dir names =
     (if src_dir \<noteq> wm_source M \<or> \<not> nested then []
      else if wm_root M \<noteq> [] \<and> last (wm_root M) \<in> set names then [last (wm_root M)] else [])"

definition marker_json :: "ws_env \<Rightarrow> workspace_manager \<Rightarrow> pystr \<Rightarrow> instant \<Rightarrow> json" where
  "marker_json E M segment now =
     JObj [(''version'', JInt MARKER_VERSION), (''run_id'', JStr segment),
           (''source'', JStr (''/'' @ join ''/'' (wm_source M))), (''created_at'', JStr (we_iso E now))]"

definition build_workspace ::
  "ws_env \<Rightarrow> workspace_manager \<Rightarrow> pystr \<Rightarrow> path \<Rightarrow> path \<Rightarrow> unit tx" where
  "build_workspace E M segment staging target =
     tx_bind (read_disk (nested_in_source M)) (\<lambda>nested.
     tx_bind (disk_op (we_copytree E (wm_source M) staging (copy_ignore M nested))) (\<lambda>_.
     tx_bind (disk_op (we_apply_modes E staging)) (\<lambda>_.
     tx_bind utc_now (\<lambda>now.
     tx_bind (disk_op (we_write_text E (staging @ [WORKSPACE_MARKER_NAME])
                         (we_dumps E (marker_json E M segment now)))) (\<lambda>_.
       disk_op (we_replace E staging target))))))"

definition initialize :: "ws_env \<Rightarrow> workspace_manager \<Rightarrow> pystr \<Rightarrow> path tx" where
  "initialize E M run_id =
     tx_bind (tx_of_sum (workspace_segment run_id)) (\<lambda>segment.
     let target = wm_root M @ [segment]
     in tx_bind (read_disk (read_marker E target)) (\<lambda>marker.
        if marker \<noteq> None then tx_return target
        else
          tx_bind (read_disk (\<lambda>d. is_dir d (wm_source M))) (\<lambda>ok.
            if \<not> ok then tx_raise ws_error
            else
              tx_bind (ensure_root E M) (\<lambda>_.
              tx_bind uuid4 (\<lambda>u.
              let staging = wm_root M @ [''.init-'' @ segment @ ''-'' @ hex12 u]
              in tx_catch
                   (tx_bind (build_workspace E M segment staging target) (\<lambda>_. tx_return target))
                   (\<lambda>e. tx_bind (disk_op (\<lambda>d. (Inr (), we_rmtree E staging d))) (\<lambda>_.
                          tx_raise (if exc_class e \<in> set OS_ERRORS then ws_error else e))))))))"

section \<open>Resolution\<close>

definition resolve_stored ::
  "ws_env \<Rightarrow> workspace_manager \<Rightarrow> pystr \<Rightarrow> pystr \<Rightarrow> path tx" where
  "resolve_stored E M run_id stored =
     tx_bind (tx_of_sum (workspace_segment run_id)) (\<lambda>segment.
     tx_bind (catch_as (OS_ERRORS @ RUNTIME_ERRORS) ws_error
                (tx_bind (resolve_path (wm_root M)) (\<lambda>managed.
                 tx_bind (resolve_path (to_path E stored)) (\<lambda>resolved.
                   tx_return (managed, resolved))))) (\<lambda>(managed, resolved).
       if resolved \<noteq> managed @ [segment] then tx_raise ws_error
       else
         tx_bind (read_disk (\<lambda>d. is_dir d resolved)) (\<lambda>ok.
           if \<not> ok then tx_raise ws_error else tx_return resolved)))"

definition resolve_workspace ::
  "ws_env \<Rightarrow> workspace_manager \<Rightarrow> pystr \<Rightarrow> pystr option \<Rightarrow> path tx" where
  "resolve_workspace E M run_id stored =
     (if truthy stored then resolve_stored E M run_id (or_empty stored)
      else initialize E M run_id)"

section \<open>Retention targets\<close>

fun tree_bytes :: "nat \<Rightarrow> tree_entry \<Rightarrow> exc + nat"
  and entries_bytes :: "nat \<Rightarrow> tree_entry list \<Rightarrow> exc + nat" where
  "tree_bytes dev (Tree_dir d es) = (if d \<noteq> dev then Inl ws_error else entries_bytes dev es)"
| "tree_bytes dev (Tree_file d n) = (if d \<noteq> dev then Inl ws_error else Inr n)"
| "tree_bytes dev (Tree_other d) = Inl ws_error"
| "entries_bytes dev [] = Inr 0"
| "entries_bytes dev (e # es) =
     (case tree_bytes dev e of
        Inl x \<Rightarrow> Inl x
      | Inr n \<Rightarrow> (case entries_bytes dev es of Inl x \<Rightarrow> Inl x | Inr m \<Rightarrow> Inr (n + m)))"

text \<open>
  The inspected workspace. Of the open descriptor \<open>workspace_fd\<close> the target keeps what the code asks
  it for later: the device and inode numbers of the directory it was opened on.
\<close>

record prune_target =
  pt_identity :: "nat \<times> nat"
  pt_key :: pystr
  pt_size_bytes :: nat
  pt_created_at :: stamp

text \<open>
  \<open>WorkspacePruneTarget.delete\<close>: the directory now under that name must be the one inspected
  (\<open>we_stat\<close> is \<open>os.stat\<close> beside the descriptor of the root, \<open>we_delete\<close> is \<open>shutil.rmtree\<close> beside it).
\<close>

definition delete_target :: "ws_env \<Rightarrow> prune_target \<Rightarrow> unit tx" where
  "delete_target E target =
     tx_bind (read_disk (we_stat E (pt_key target))) (\<lambda>st.
     tx_bind (tx_of_sum st) (\<lambda>current.
       if current \<noteq> pt_identity target then tx_raise ws_error
       else disk_op (we_delete E (pt_key target))))"

text \<open>
  \<open>_open_directory_without_links\<close>: every component of the path is a directory and not a link.
  \<open>os.open\<close> with \<open>O_NOFOLLOW\<close> raises an \<open>OSError\<close> otherwise.
\<close>

definition linkless_dir :: "disk \<Rightarrow> path \<Rightarrow> bool" where
  "linkless_dir d p \<longleftrightarrow>
     (\<forall>n \<in> set [0..<Suc (length p)].
        is_dir d (take n p) \<and> os_islink (dk_view d) (take n p) = Some False)"

definition device_of :: "tree_entry \<Rightarrow> nat" where
  "device_of t = (case t of Tree_dir d _ \<Rightarrow> d | Tree_file d _ \<Rightarrow> d | Tree_other d \<Rightarrow> d)"

definition marker_created :: "ws_env \<Rightarrow> pystr \<Rightarrow> jobj \<Rightarrow> exc + stamp" where
  "marker_created E run_id m =
     (if py_eq (jget m ''version'') (JInt MARKER_VERSION) \<and> jget m ''run_id'' = JStr run_id
      then (case jget m ''created_at'' of JStr s \<Rightarrow> Inr (we_from_iso E s) | _ \<Rightarrow> Inl ws_error)
      else Inl ws_error)"

definition unsafe_root :: "workspace_manager \<Rightarrow> path \<Rightarrow> path \<Rightarrow> bool" where
  "unsafe_root M resolved_root source \<longleftrightarrow>
     wm_root M \<noteq> resolved_root \<or> wm_root M = [] \<or> source = wm_root M \<or> relative_to source (wm_root M) \<noteq> None"

definition inspect_workspace ::
  "ws_env \<Rightarrow> workspace_manager \<Rightarrow> pystr \<Rightarrow> path \<Rightarrow> prune_target tx" where
  "inspect_workspace E M run_id workspace =
     tx_bind (read_disk id) (\<lambda>d.
       let tree = we_tree E workspace d
       in if \<not> linkless_dir d (wm_root M) \<or> \<not> linkless_dir d workspace then tx_raise (Py_error ''OSError'' [])
          else
            tx_bind (tx_of_sum (we_stat E run_id d)) (\<lambda>identity.
            if device_of (we_tree E (wm_root M) d) \<noteq> device_of tree then tx_raise ws_error
            else
            tx_bind (tx_of_sum (tree_bytes (device_of tree) tree)) (\<lambda>size.
              case (if os_islink (dk_view d) (workspace @ [WORKSPACE_MARKER_NAME]) = Some False
                    then read_marker E workspace d else None) of
                None \<Rightarrow> tx_raise ws_error
              | Some m \<Rightarrow>
                  tx_bind (tx_of_sum (marker_created E run_id m)) (\<lambda>created.
                    tx_return \<lparr>pt_identity = identity, pt_key = run_id, pt_size_bytes = size,
                                 pt_created_at = created\<rparr>))))"

text \<open>What \<open>retention_target\<close> checks before it hands out a target, and the inspected target.\<close>

definition retention_inspect ::
  "ws_env \<Rightarrow> workspace_manager \<Rightarrow> pystr \<Rightarrow> pystr option \<Rightarrow> prune_target tx" where
  "retention_inspect E M run_id stored =
     tx_bind (resolve_path (wm_source M)) (\<lambda>source.
     tx_bind (resolve_path (wm_root M)) (\<lambda>resolved_root.
       if unsafe_root M resolved_root source then tx_raise ws_error
       else
         tx_bind (if \<not> truthy stored then tx_return False
                  else tx_bind (tx_of_sum (workspace_segment run_id)) (\<lambda>s.
                         tx_return (to_path E (or_empty stored) = wm_root M @ [s]))) (\<lambda>managed.
           if \<not> managed then tx_raise ws_error
           else if \<not> we_safe_rmtree E then tx_raise ws_error
           else
             tx_bind (resolve_workspace E M run_id stored) (\<lambda>_.
             tx_bind (tx_of_sum (workspace_segment run_id)) (\<lambda>s.
               inspect_workspace E M run_id (wm_root M @ [s]))))))"

text \<open>
  \<open>with retention_target(...) as target: body\<close>: what the inspection, or the body, raises as
  \<open>OSError\<close>, \<open>RuntimeError\<close> or \<open>ValueError\<close> leaves as a \<open>RunWorkspaceError\<close>.
\<close>

definition retention_target ::
  "ws_env \<Rightarrow> workspace_manager \<Rightarrow> pystr \<Rightarrow> pystr option \<Rightarrow> (prune_target \<Rightarrow> 'a tx) \<Rightarrow> 'a tx" where
  "retention_target E M run_id stored body =
     catch_as (OS_ERRORS @ RUNTIME_ERRORS @ VALUE_ERRORS) ws_error
       (tx_bind (retention_inspect E M run_id stored) body)"

section \<open>A run gets its own workspace only\<close>

lemma catch_as_Inr: "catch_as cs e m w = (Inr x, w') \<longleftrightarrow> m w = (Inr x, w')"
  by (auto simp: catch_as_def tx_catch_def tx_raise_def split: prod.splits sum.splits)

lemma read_disk_Inr: "read_disk f w = (Inr x, w') \<longleftrightarrow> x = f (w_disk w) \<and> w' = w"
  by (auto simp: read_disk_def disk_op_def)

lemma resolve_path_ok: "resolve_path p w = (Inr q, w') \<longleftrightarrow> os_resolve (dk_view (w_disk w)) p = Some q \<and> w' = w"
  by (auto simp: resolve_path_def disk_op_def split: option.splits)

lemma segment_Inr: "workspace_segment k = Inr s \<longleftrightarrow> safe_segment k \<and> s = k"
  by (auto simp: workspace_segment_def)

lemma resolve_stored_Inr:
  "resolve_stored E M k stored w = (Inr p, w') \<longleftrightarrow>
     w' = w \<and> safe_segment k \<and> is_dir (w_disk w) p
     \<and> os_resolve (dk_view (w_disk w)) (to_path E stored) = Some p
     \<and> (\<exists>managed. os_resolve (dk_view (w_disk w)) (wm_root M) = Some managed \<and> p = managed @ [k])"
  by (auto simp: resolve_stored_def tx_bind_Inr tx_of_sum_Inr segment_Inr catch_as_Inr
      resolve_path_ok read_disk_Inr tx_return_def tx_raise_def split: if_splits)

lemma safe_segment_chars:
  "safe_segment s \<Longrightarrow> c \<in> set s \<Longrightarrow> ascii_alnum c \<or> c = CHR ''.'' \<or> c = CHR ''_'' \<or> c = CHR ''-''"
  by (cases s) (auto simp: safe_segment_def)

lemma safe_segment_name: "safe_segment s \<Longrightarrow> s \<noteq> ''..'' \<and> s \<noteq> ''.'' \<and> CHR ''/'' \<notin> set s"
proof -
  assume s: "safe_segment s"
  have "\<not> ascii_alnum (CHR ''.'')" "\<not> ascii_alnum (CHR ''/'')" by (simp_all add: ascii_alnum_def)
  moreover have "hd s = CHR ''.''" if "s = ''..'' \<or> s = ''.''" using that by auto
  ultimately show ?thesis using s safe_segment_chars[OF s, of "CHR ''/''"] unfolding safe_segment_def by auto
qed

section \<open>Properties\<close>

text \<open>
  A stored workspace path only ever resolves to the run's own directory. What is returned is
  the directory named after the run directly inside the (canonical) managed root, never the root, a
  sibling run's directory, or what a link inside the root leads to; the name cannot climb out of
  the root; nothing is written; and two runs never share a workspace.
\<close>

lemma stored_workspace_is_own:
  assumes "resolve_workspace E M k (Some stored) w = (Inr p, w')" and "stored \<noteq> []"
  shows "(\<exists>managed. os_resolve (dk_view (w_disk w)) (wm_root M) = Some managed \<and> p = managed @ [k])
     \<and> k \<noteq> ''..'' \<and> k \<noteq> ''.'' \<and> CHR ''/'' \<notin> set k \<and> is_dir (w_disk w) p \<and> w' = w
     \<and> (\<forall>k2 stored2 q w2. resolve_workspace E M k2 (Some stored2) w = (Inr q, w2) \<and> stored2 \<noteq> []
          \<and> k2 \<noteq> k \<longrightarrow> q \<noteq> p)"
proof -
  have *: "resolve_stored E M j s w = (Inr q, v)"
    if "resolve_workspace E M j (Some s) w = (Inr q, v)" "s \<noteq> []" for j s q v
    using that by (simp add: resolve_workspace_def truthy_def)
  from *[OF assms] show ?thesis
    unfolding resolve_stored_Inr using safe_segment_name by (auto dest!: * simp: resolve_stored_Inr)
qed


text \<open>A disk with one marked workspace, and an environment in which removing it empties it.\<close>

definition demo_ws_env :: ws_env where
  "demo_ws_env =
     \<lparr>we_cwd = [], we_mkdirs = (\<lambda>p d. (Inr (), d)), we_write_text = (\<lambda>p s d. (Inr (), d)),
      we_unlink = (\<lambda>p d. (Inr (), d)), we_copytree = (\<lambda>s t f d. (Inr (), d)),
      we_apply_modes = (\<lambda>p d. (Inr (), d)), we_replace = (\<lambda>s t d. (Inr (), d)), we_rmtree = (\<lambda>p d. d),
      we_stat = (\<lambda>k d. Inr (1, 1)),
      we_delete = (\<lambda>k d. (Inr (), d\<lparr>dk_node := (dk_node d)([''runs'', k] := None)\<rparr>)),
      we_tree = (\<lambda>p d. Tree_dir 1 [Tree_file 1 12]),
      we_loads = (\<lambda>s. Some (JObj [(''version'', JInt 1), (''run_id'', JStr s), (''created_at'', JStr ''t'')])),
      we_dumps = (\<lambda>j. ''{}''), we_iso = (\<lambda>t. ''t''), we_from_iso = (\<lambda>s. Stamp 0),
      we_safe_rmtree = True\<rparr>"

definition demo_manager :: workspace_manager where
  "demo_manager = \<lparr>wm_source = [''fixture''], wm_root = [''runs'']\<rparr>"

definition demo_ws_disk :: disk where
  "demo_ws_disk =
     \<lparr>dk_view = quiet_view, dk_resolve_exc = ''OSError'',
      dk_node = [[] \<mapsto> Dir_node [], [''runs''] \<mapsto> Dir_node [], [''runs'', ''r1''] \<mapsto> Dir_node [],
                 [''runs'', ''r1'', WORKSPACE_MARKER_NAME] \<mapsto> File_node ''r1'' 2]\<rparr>"

definition demo_ws_world :: "store \<Rightarrow> world" where
  "demo_ws_world s = (demo_world s)\<lparr>w_disk := demo_ws_disk\<rparr>"

end
