(* ===== verification/Retention.thy ===== *)
theory Retention
  imports Workspaces Journal
begin

text \<open>
  \<open>backend/scopewatch/retention.py\<close>: operator pruning of run workspaces. Every candidate is checked
  twice: in the transaction that commits the attempt event, and again in the transaction that
  deletes and records the result.
\<close>

section \<open>Eligibility\<close>

definition retention_timestamp :: "stamp \<Rightarrow> exc + instant" where
  "retention_timestamp s = from_isoformat s"

text \<open>\<open>_guard\<close>: why a run's workspace must stay, \<open>None\<close> when it may go.\<close>

definition retention_guard :: "run \<Rightarrow> instant \<Rightarrow> pystr option tx" where
  "retention_guard r cutoff =
     (if run_st r \<noteq> RS_COMPLETED \<and> run_st r \<noteq> RS_FAILED then tx_return (Some ''nonterminal'')
      else
        tx_bind (list_approvals None (Some (run_key r)) (Some AS_PENDING)) (\<lambda>pending.
          if pending \<noteq> [] then tx_return (Some ''pending_approval'')
          else
            tx_bind (list_approvals None (Some (run_key r)) (Some AS_APPROVED)) (\<lambda>approved.
              if approved \<noteq> [] then tx_return (Some ''approved_action_in_flight'')
              else
                tx_bind (in_flight_action_ids (Some (run_key r))) (\<lambda>ids.
                  if ids \<noteq> {} then tx_return (Some ''execution_in_flight'')
                  else if cutoff < run_updated_at r then tx_return (Some ''retention_window'')
                  else tx_return None))))"

definition guard_run :: "run option \<Rightarrow> instant \<Rightarrow> pystr option tx" where
  "guard_run r cutoff =
     (case r of None \<Rightarrow> tx_return (Some ''missing_run'') | Some rn \<Rightarrow> retention_guard rn cutoff)"

definition workspace_of_run :: "run option \<Rightarrow> pystr option" where
  "workspace_of_run r = (case r of None \<Rightarrow> None | Some rn \<Rightarrow> workspace_path rn)"

record retention =
  rt_env :: ws_env
  rt_manager :: workspace_manager
  rt_days :: int
  rt_apply :: bool
  rt_cutoff :: instant

definition unavailable :: "pystr list" where
  "unavailable = [''RunWorkspaceError'', ''RunWorkspaceRootError''] @ VALUE_ERRORS"

definition or_reason :: "pystr \<Rightarrow> (pystr option \<times> 'a) tx \<Rightarrow> 'a \<Rightarrow> (pystr option \<times> 'a) tx" where
  "or_reason reason m x =
     tx_catch m (\<lambda>e. if exc_class e \<in> set unavailable then tx_return (Some reason, x) else tx_raise e)"

text \<open>The body of the \<open>with\<close> in the first transaction: too young, or its details.\<close>

definition target_details ::
  "retention \<Rightarrow> pystr \<Rightarrow> prune_target \<Rightarrow> (pystr option \<times> jobj) tx" where
  "target_details R k target =
     tx_bind (tx_of_sum (retention_timestamp (pt_created_at target))) (\<lambda>created.
       if rt_cutoff R < created then tx_return (Some ''retention_window'', [])
       else
         tx_bind (tx_of_sum (workspace_key k)) (\<lambda>key.
           tx_return (None, [(''workspace_key'', JStr key), (''bytes'', JInt (int (pt_size_bytes target))),
                             (''retention_days'', JInt (rt_days R)),
                             (''cutoff'', JStr (we_iso (rt_env R) (rt_cutoff R)))])))"

definition retention_actor :: pystr where "retention_actor = ''workspace-retention-operator''"

definition attempt_tx :: "retention \<Rightarrow> pystr \<Rightarrow> (pystr option \<times> jobj) tx" where
  "attempt_tx R k =
     tx_bind (get_run k) (\<lambda>r.
     tx_bind (guard_run r (rt_cutoff R)) (\<lambda>reason.
     tx_bind (if reason \<noteq> None then tx_return (reason, [])
              else or_reason ''unsafe_or_unavailable_workspace''
                     (retention_target (rt_env R) (rt_manager R) k (workspace_of_run r)
                        (target_details R k)) []) (\<lambda>(reason, details).
       if reason = None \<and> rt_apply R then
         tx_bind uuid4 (\<lambda>i.
         let details = details @ [(''attempt_id'', JStr i)]
         in tx_bind utc_now (\<lambda>now.
            tx_bind (append_event k EV_WORKSPACE_PRUNE_ATTEMPTED retention_actor
                       ''Workspace pruning attempted.'' now details no_refs None) (\<lambda>_.
              tx_return (None, details))))
       else tx_return (reason, details))))"

text \<open>
  The second transaction: re-read, delete, record the result. The size just read is in the details
  by the time the removal runs, so a failing removal is recorded with it; what the removal raises as
  \<open>OSError\<close>, \<open>RuntimeError\<close> or \<open>ValueError\<close> reaches the handler as a \<open>RunWorkspaceError\<close>.
\<close>

definition target_delete ::
  "retention \<Rightarrow> jobj \<Rightarrow> prune_target \<Rightarrow> (pystr option \<times> jobj) tx" where
  "target_delete R details target =
     tx_bind (tx_of_sum (retention_timestamp (pt_created_at target))) (\<lambda>created.
       if rt_cutoff R < created then tx_return (Some ''retention_window'', details)
       else
         let details = AList.update ''bytes'' (JInt (int (pt_size_bytes target))) details
         in tx_catch
              (tx_bind (delete_target (rt_env R) target) (\<lambda>_. tx_return (None, details)))
              (\<lambda>e. if exc_class e \<in> set (OS_ERRORS @ RUNTIME_ERRORS @ unavailable)
                    then tx_return (Some ''workspace_removal_failed'', details) else tx_raise e))"

definition result_details :: "pystr option \<Rightarrow> jobj \<Rightarrow> jobj" where
  "result_details reason details =
     details @ [(''outcome'', JStr (if reason = None then ''pruned'' else ''failed''))]
     @ (case reason of None \<Rightarrow> [] | Some r \<Rightarrow> [(''reason'', JStr r)])"

definition removal ::
  "retention \<Rightarrow> pystr \<Rightarrow> run option \<Rightarrow> jobj \<Rightarrow> pystr option \<Rightarrow> (pystr option \<times> jobj) tx" where
  "removal R k r details reason =
     (if reason \<noteq> None then tx_return (reason, details)
      else or_reason ''workspace_removal_failed''
             (retention_target (rt_env R) (rt_manager R) k (workspace_of_run r) (target_delete R details))
             details)"

definition record_result :: "pystr \<Rightarrow> pystr option \<times> jobj \<Rightarrow> (pystr option \<times> jobj) tx" where
  "record_result k x =
     (let (reason, details) = x
      in tx_bind utc_now (\<lambda>now.
         tx_bind (append_event k (if reason = None then EV_WORKSPACE_PRUNED else EV_WORKSPACE_PRUNE_FAILED)
                    retention_actor
                    (if reason = None then ''Workspace pruned.''
                     else ''Workspace pruning failed; removal may be partial.'')
                    now (result_details reason details) no_refs None) (\<lambda>_.
           tx_return (reason, details))))"

definition result_tx :: "retention \<Rightarrow> pystr \<Rightarrow> jobj \<Rightarrow> (pystr option \<times> jobj) tx" where
  "result_tx R k details =
     tx_bind (get_run k) (\<lambda>r.
     tx_bind (guard_run r (rt_cutoff R)) (\<lambda>reason.
     tx_bind (removal R k r details reason) (record_result k)))"

section \<open>The sweep\<close>

record retention_report =
  rr_eligible_count :: nat
  rr_eligible_bytes :: int
  rr_reaped_count :: nat
  rr_reaped_bytes :: int
  rr_failed_count :: nat
  rr_skipped_count :: nat
  rr_results :: "jobj list"

definition empty_report :: retention_report where
  "empty_report =
     \<lparr>rr_eligible_count = 0, rr_eligible_bytes = 0, rr_reaped_count = 0, rr_reaped_bytes = 0,
      rr_failed_count = 0, rr_skipped_count = 0, rr_results = []\<rparr>"

definition bytes_of :: "jobj \<Rightarrow> int" where
  "bytes_of details = (case jget details ''bytes'' of JInt n \<Rightarrow> n | _ \<Rightarrow> 0)"

definition skipped_report :: "pystr \<Rightarrow> pystr \<Rightarrow> retention_report \<Rightarrow> retention_report" where
  "skipped_report k why rep =
     rep\<lparr>rr_skipped_count := rr_skipped_count rep + 1,
         rr_results := rr_results rep
           @ [[(''run_id'', JStr k), (''outcome'', JStr ''skipped''), (''reason'', JStr why)]]\<rparr>"

definition eligible_report :: "jobj \<Rightarrow> retention_report \<Rightarrow> retention_report" where
  "eligible_report details rep =
     rep\<lparr>rr_eligible_count := rr_eligible_count rep + 1,
         rr_eligible_bytes := rr_eligible_bytes rep + bytes_of details\<rparr>"

definition dry_report :: "pystr \<Rightarrow> jobj \<Rightarrow> retention_report \<Rightarrow> retention_report" where
  "dry_report k details rep =
     rep\<lparr>rr_results := rr_results rep
           @ [[(''run_id'', JStr k), (''outcome'', JStr ''eligible''), (''bytes'', JInt (bytes_of details))]]\<rparr>"

definition removed_report ::
  "pystr \<Rightarrow> retention_report \<Rightarrow> pystr option \<times> jobj \<Rightarrow> retention_report" where
  "removed_report k rep x =
     (let (reason, details) = x;
          rep = (if reason = None
                 then rep\<lparr>rr_reaped_count := rr_reaped_count rep + 1,
                          rr_reaped_bytes := rr_reaped_bytes rep + bytes_of details\<rparr>
                 else rep\<lparr>rr_failed_count := rr_failed_count rep + 1\<rparr>)
      in rep\<lparr>rr_results := rr_results rep @ [(''run_id'', JStr k) # result_details reason details]\<rparr>)"

definition reap_eligible ::
  "retention \<Rightarrow> pystr \<Rightarrow> retention_report \<Rightarrow> pystr option \<times> jobj \<Rightarrow> retention_report tx" where
  "reap_eligible R k rep x =
     (case x of
        (Some why, _) \<Rightarrow> tx_return (skipped_report k why rep)
      | (None, details) \<Rightarrow>
          if \<not> rt_apply R then tx_return (dry_report k details (eligible_report details rep))
          else
            tx_bind (db_transaction (result_tx R k details)) (\<lambda>y.
              tx_return (removed_report k (eligible_report details rep) y)))"

definition reap_one :: "retention \<Rightarrow> pystr \<Rightarrow> retention_report \<Rightarrow> retention_report tx" where
  "reap_one R k rep = tx_bind (db_transaction (attempt_tx R k)) (reap_eligible R k rep)"

fun reap_all :: "retention \<Rightarrow> pystr list \<Rightarrow> retention_report \<Rightarrow> retention_report tx" where
  "reap_all R [] rep = tx_return rep"
| "reap_all R (k # ks) rep = tx_bind (reap_one R k rep) (reap_all R ks)"

definition MIN_INSTANT :: instant where "MIN_INSTANT = - 62135596800000000"

definition reap_workspaces ::
  "ws_env \<Rightarrow> workspace_manager \<Rightarrow> path \<Rightarrow> int \<Rightarrow> bool \<Rightarrow> instant option \<Rightarrow> retention_report tx" where
  "reap_workspaces E M database days apply now =
     (if days < 1 then tx_raise (Py_error ''ValueError'' ''Retention days must be a positive integer.'')
      else
        tx_bind (case now of Some t \<Rightarrow> tx_return t | None \<Rightarrow> utc_now) (\<lambda>instant.
        let cutoff = instant - days * 86400000000
        in if cutoff < MIN_INSTANT then
             tx_raise (Py_error ''ValueError'' ''Retention window exceeds the supported date range.'')
           else
             tx_bind (read_disk (\<lambda>d. case dk_node d database of Some (File_node _ _) \<Rightarrow> True | _ \<Rightarrow> False))
               (\<lambda>exists.
             tx_bind (if \<not> exists then tx_return False
                      else tx_bind (resolve_path database) (\<lambda>p.
                           tx_bind (resolve_path (wm_root M)) (\<lambda>root.
                             tx_return (relative_to p root = None)))) (\<lambda>ok.
               if \<not> ok then
                 tx_raise (Py_error ''ValueError''
                             ''Retention requires an existing database outside the managed root.'')
               else
                 tx_bind list_runs (\<lambda>rs.
                   reap_all \<lparr>rt_env = E, rt_manager = M, rt_days = days, rt_apply = apply, rt_cutoff = cutoff\<rparr>
                     (map run_key rs) empty_report)))))"


section \<open>What the sweep does to the disk\<close>

lemma disk_same_catch_as: "disk_same m \<Longrightarrow> disk_same (catch_as cs e m)"
  unfolding catch_as_def by (intro disk_rules)

lemma disk_same_resolve_stored: "disk_same (resolve_stored E M k stored)"
  unfolding resolve_stored_def
  by (rule disk_same_bind, rule disk_same_of_sum, rule disk_same_bind)
     (auto intro!: disk_rules disk_same_catch_as split: prod.split)

lemma disk_same_inspect: "disk_same (inspect_workspace E M k p)"
  unfolding inspect_workspace_def Let_def by (intro disk_rules)

text \<open>Only the body of the \<open>with\<close> can touch the disk: a missing workspace is never initialized.\<close>

lemma disk_same_retention_inspect: "disk_same (retention_inspect E M k stored)"
proof (cases "truthy stored")
  case True
  then show ?thesis
    unfolding retention_inspect_def resolve_workspace_def
    by (auto intro!: disk_rules disk_same_resolve_stored disk_same_inspect)
next
  case False
  then have "disk_same (tx_bind (if \<not> truthy stored then tx_return False else m) (\<lambda>managed.
      if \<not> managed then tx_raise ws_error else n))" for m n
    by (simp add: disk_same_def tx_bind_def)
  then show ?thesis
    unfolding retention_inspect_def
    by (intro disk_same_bind[OF disk_same_basic(7)] disk_same_if disk_same_basic(2))
qed

lemma disk_same_target: "(\<And>t. disk_same (body t)) \<Longrightarrow> disk_same (retention_target E M k stored body)"
  unfolding retention_target_def
  by (intro disk_same_catch_as disk_same_bind disk_same_retention_inspect)

section \<open>What the sweep does to the database\<close>

lemma same_disk: "keeps (=) (read_disk f)" "keeps (=) (resolve_path p)" "keeps (=) (disk_op h)"
  by (simp_all add: read_disk_def resolve_path_def same.keeps_other_state)

lemma same_catch_as: "keeps (=) m \<Longrightarrow> keeps (=) (catch_as cs e m)"
  unfolding catch_as_def by (intro same.keeps_rules)

lemmas same_workspace_rules = same_of_sum same_disk same_catch_as same.keeps_rules

lemma same_resolve: "keeps (=) (resolve_workspace E M k stored)"
proof -
  have "keeps (=) (ensure_root E M)"
    unfolding ensure_root_def Let_def by (intro same_workspace_rules)
  moreover have "keeps (=) (build_workspace E M seg staging target)" for seg staging target
    unfolding build_workspace_def Let_def by (intro same_workspace_rules)
  ultimately have init: "keeps (=) (initialize E M k)"
    unfolding initialize_def Let_def by (intro same_workspace_rules)
  have "keeps (=) (resolve_stored E M k s)" for s
    unfolding resolve_stored_def
    by (rule same.keeps_bind, rule same_of_sum, rule same.keeps_bind)
       (auto intro!: same_workspace_rules split: prod.split)
  with init show ?thesis unfolding resolve_workspace_def by simp
qed

lemma same_target:
  assumes "\<And>t. keeps (=) (body t)"
  shows "keeps (=) (retention_target E M k stored body)"
proof -
  have "keeps (=) (inspect_workspace E M k p)" for p
    unfolding inspect_workspace_def Let_def by (intro same_workspace_rules)
  then show ?thesis
    unfolding retention_target_def retention_inspect_def
    by (intro same_workspace_rules same_resolve assms)
qed

lemma same_or_reason: "keeps (=) m \<Longrightarrow> keeps (=) (or_reason reason m x)"
  unfolding or_reason_def by (intro same.keeps_rules)

lemma same_guard: "keeps (=) (guard_run r cutoff)"
  unfolding guard_run_def retention_guard_def list_approvals_def in_flight_action_ids_def get_events_def Let_def
  by (intro same.keeps_rules)

lemma same_details: "keeps (=) (target_details R k t)"
  unfolding target_details_def by (intro same_workspace_rules)

lemma same_delete: "keeps (=) (target_delete R details t)"
  unfolding target_delete_def delete_target_def Let_def by (intro same_workspace_rules)


section \<open>Who is eligible\<close>

text \<open>What the guard promises of the run whose workspace goes, over the rows of the database.\<close>

definition prunable :: "pystr \<Rightarrow> instant \<Rightarrow> store \<Rightarrow> bool" where
  "prunable k cutoff s \<longleftrightarrow>
     (\<exists>r. find_run k s = Some r \<and> (run_st r = RS_COMPLETED \<or> run_st r = RS_FAILED)
        \<and> run_updated_at r \<le> cutoff)
     \<and> (\<forall>p \<in> set (approvals_t s). app_run_id p = k \<longrightarrow>
          app_status p \<noteq> AS_PENDING \<and> app_status p \<noteq> AS_APPROVED)
     \<and> set (started_actions (run_events k s)) \<subseteq> set (finished_actions (run_events k s))"

lemma listed_none:
  assumes "list_approvals None (Some k) (Some st) w = (Inr [], w')" and "p \<in> set (approvals_t (db w))"
    and "app_run_id p = k"
  shows "app_status p \<noteq> st"
proof -
  from assms(1) have "newest_first (filter (\<lambda>p. app_status p = st \<and> app_run_id p = k) (approvals_t (db w))) = []"
    by (auto simp: list_approvals_def)
  then have "set (newest_first (filter (\<lambda>p. app_status p = st \<and> app_run_id p = k) (approvals_t (db w)))) = {}"
    by simp
  with assms(2,3) show ?thesis by (auto simp: newest_first_def filter_empty_conv)
qed

lemma actions_of_events:
  "set (started_actions (events_of k None None s)) = set (started_actions (run_events k s))"
  "set (finished_actions (events_of k None None s)) = set (finished_actions (run_events k s))"
proof -
  have E: "set (events_of k None None s) = event_from_row ` set (run_events k s)"
    by (simp add: events_of_def limit_rows_def)
  have row: "ev_type (event_from_row e) = ev_type e" "ev_action_id (event_from_row e) = ev_action_id e" for e
    by (simp_all add: event_from_row_def)
  have im: "f ` {x \<in> event_from_row ` S. P x} = (\<lambda>x. f (event_from_row x)) ` {x \<in> S. P (event_from_row x)}"
    for f :: "event \<Rightarrow> pystr" and P S by auto
  show "set (started_actions (events_of k None None s)) = set (started_actions (run_events k s))"
    "set (finished_actions (events_of k None None s)) = set (finished_actions (run_events k s))"
    by (simp_all add: started_actions_def finished_actions_def E im row)
qed

lemma guard_Inr:
  assumes "guard_run (find_run k (db w)) cutoff w = (Inr None, w')" and "k \<noteq> []"
  shows "w' = w \<and> prunable k cutoff (db w)"
proof -
  from assms(1) obtain r where r: "find_run k (db w) = Some r" and g: "retention_guard r cutoff w = (Inr None, w')"
    by (auto simp: guard_run_def split: option.splits)
  from r have key: "run_key r = k" by (auto simp: find_run_def dest: find_SomeD)
  obtain ls where l: "list_approvals None (Some k) (Some st) w = (Inr (ls st), w)" for st
    by (simp add: list_approvals_def)
  from g have st: "run_st r = RS_COMPLETED \<or> run_st r = RS_FAILED" and age: "run_updated_at r \<le> cutoff"
    and w': "w' = w" and none: "ls AS_PENDING = []" "ls AS_APPROVED = []"
    and i: "in_flight_action_ids (Some k) w = (Inr {}, w)"
    using assms(2)
    by (auto simp: retention_guard_def tx_bind_Inr key l in_flight_action_ids_def truthy_def or_empty_def
        get_events_def split: if_splits)
  note p = l[of AS_PENDING, unfolded none] and q = l[of AS_APPROVED, unfolded none]
  from i assms(2) have "set (started_actions (run_events k (db w))) \<subseteq> set (finished_actions (run_events k (db w)))"
    by (simp add: in_flight_action_ids_def truthy_def or_empty_def get_events_def tx_bind_def actions_of_events)
  with listed_none[OF p] listed_none[OF q] r st age w' show ?thesis by (auto simp: prunable_def)
qed


section \<open>The effect of a removal\<close>

text \<open>A step that changes the disk after one that does not: the first returned.\<close>

lemma disk_bind_changed:
  assumes "tx_bind m f w = (r, w')" and "w_disk w' \<noteq> w_disk w" and "disk_same m"
  obtains x w1 where "m w = (Inr x, w1)" "w_disk w1 = w_disk w" "f x w1 = (r, w')"
    "w_disk w' \<noteq> w_disk w1"
  using assms by (auto simp: tx_bind_def dest: disk_sameD split: prod.splits sum.splits)

lemma catch_as_run:
  "catch_as cs e m w = (r, w') \<Longrightarrow> \<exists>r0. m w = (r0, w') \<and> (\<forall>y. r = Inr y \<longleftrightarrow> r0 = Inr y)"
  by (auto simp: catch_as_def tx_catch_def split: prod.splits sum.splits)

text \<open>The run's row names the run's own directory, canonical and inside the canonical managed root.\<close>

definition owns_workspace :: "ws_env \<Rightarrow> workspace_manager \<Rightarrow> pystr \<Rightarrow> pystr option \<Rightarrow> disk \<Rightarrow> bool" where
  "owns_workspace E M k stored d \<longleftrightarrow>
     safe_segment k \<and> to_path E (or_empty stored) = wm_root M @ [k]
     \<and> os_resolve (dk_view d) (wm_root M) = Some (wm_root M)
     \<and> os_resolve (dk_view d) (wm_root M @ [k]) = Some (wm_root M @ [k])
     \<and> is_dir d (wm_root M @ [k])"

lemma retention_inspect_Inr:
  assumes "retention_inspect E M k stored w = (Inr t, w')"
  shows "pt_key t = k \<and> owns_workspace E M k stored (w_disk w) \<and> w' = w"
  using assms
  by (auto simp: retention_inspect_def tx_bind_Inr tx_of_sum_Inr segment_Inr resolve_path_ok unsafe_root_def
      resolve_workspace_def resolve_stored_Inr inspect_workspace_def Let_def read_disk_Inr owns_workspace_def
      split: if_splits option.splits)

lemma target_changed:
  assumes "retention_target E M k stored body w = (r, w')" and "w_disk w' \<noteq> w_disk w"
  shows "\<exists>t r0. body t w = (r0, w') \<and> (\<forall>y. r = Inr y \<longleftrightarrow> r0 = Inr y) \<and> pt_key t = k
           \<and> owns_workspace E M k stored (w_disk w)"
proof -
  from catch_as_run[OF assms(1)[unfolded retention_target_def]] obtain r0 where
    r0: "tx_bind (retention_inspect E M k stored) body w = (r0, w')" "\<forall>y. r = Inr y \<longleftrightarrow> r0 = Inr y" by blast
  from disk_bind_changed[OF r0(1) assms(2) disk_same_retention_inspect] obtain t w1 where
    "retention_inspect E M k stored w = (Inr t, w1)" "body t w1 = (r0, w')" by blast
  with retention_inspect_Inr r0(2) show ?thesis by blast
qed

definition logged :: "store \<Rightarrow> event \<Rightarrow> store" where
  "logged s e = s\<lparr>events_t := events_t s @ [e]\<rparr>"

lemma append_event_logged:
  "append_event k ty actor summary t details refs turn w = (Inr ev, w') \<Longrightarrow>
     \<exists>e. db w' = logged (db w) e \<and> ev_run_id e = k \<and> ev_type e = ty \<and> w_disk w' = w_disk w"
  by (auto simp: append_event_def tx_bind_Inr Let_def insert_row_Inr uuid4_def logged_def
      split: sum.splits)

lemma disk_same_append_event: "disk_same (append_event k ty actor summary t details refs turn)"
  by (auto simp: disk_same_def append_event_def insert_row_def tx_bind_def uuid4_def Let_def
      split: sum.splits)

lemma disk_same_guard: "disk_same (guard_run r cutoff)"
  unfolding guard_run_def retention_guard_def list_approvals_def in_flight_action_ids_def get_events_def Let_def
  by (intro disk_rules)

lemma target_delete_changed:
  "target_delete R details t w = (r, w') \<Longrightarrow> w_disk w' \<noteq> w_disk w \<Longrightarrow>
     db w' = db w \<and> w_disk w' = snd (we_delete (rt_env R) (pt_key t) (w_disk w))
     \<and> ((\<exists>d. r = Inr (None, d)) \<longleftrightarrow> (\<exists>u. fst (we_delete (rt_env R) (pt_key t) (w_disk w)) = Inr u))"
  by (cases "we_delete (rt_env R) (pt_key t) (w_disk w)"; cases "fst (we_delete (rt_env R) (pt_key t) (w_disk w))")
     (auto simp: target_delete_def delete_target_def read_disk_def tx_raise_def tx_bind_def tx_of_sum_def
       tx_catch_def disk_op_def Let_def split: sum.splits if_splits)

lemma or_reason_run:
  "or_reason reason m x w = (r, w') \<Longrightarrow>
     \<exists>q. m w = (q, w') \<and> ((\<exists>d. r = Inr (None, d)) \<longleftrightarrow> (\<exists>d. q = Inr (None, d)))"
  by (auto simp: or_reason_def tx_catch_def split: prod.splits sum.splits if_splits)

lemma removal_changed:
  assumes "removal R k run details why w = (r, w')" and "w_disk w' \<noteq> w_disk w"
  shows "why = None \<and> owns_workspace (rt_env R) (rt_manager R) k (workspace_of_run run) (w_disk w) \<and> db w' = db w
    \<and> w_disk w' = snd (we_delete (rt_env R) k (w_disk w))
    \<and> ((\<exists>d. r = Inr (None, d)) \<longleftrightarrow> (\<exists>u. fst (we_delete (rt_env R) k (w_disk w)) = Inr u))"
proof -
  from assms have why: "why = None" by (cases why) (auto simp: removal_def)
  with assms(1) have "or_reason ''workspace_removal_failed'' (retention_target (rt_env R) (rt_manager R) k
      (workspace_of_run run) (target_delete R details)) details w = (r, w')"
    by (simp add: removal_def)
  from or_reason_run[OF this] obtain q where
    q: "retention_target (rt_env R) (rt_manager R) k (workspace_of_run run) (target_delete R details) w = (q, w')"
    and r: "(\<exists>d. r = Inr (None, d)) \<longleftrightarrow> (\<exists>d. q = Inr (None, d))" by blast
  from target_changed[OF q assms(2)] obtain t r0 where
    t: "target_delete R details t w = (r0, w')" "pt_key t = k"
      "owns_workspace (rt_env R) (rt_manager R) k (workspace_of_run run) (w_disk w)"
    and q0: "\<forall>y. q = Inr y \<longleftrightarrow> r0 = Inr y" by blast
  from target_delete_changed[OF t(1) assms(2), unfolded t(2)] r q0 t(3) why show ?thesis by blast
qed

lemma record_result_run:
  assumes "record_result k (why, d) w = (r, w')"
  shows "w_disk w' = w_disk w \<and> (\<forall>y. r = Inr y \<longrightarrow> (\<exists>e. db w' = logged (db w) e \<and> ev_run_id e = k
      \<and> ev_type e = (if why = None then EV_WORKSPACE_PRUNED else EV_WORKSPACE_PRUNE_FAILED)))"
proof -
  have "disk_same (record_result k (why, d))"
    unfolding record_result_def by (auto intro!: disk_rules disk_same_append_event)
  moreover have "db v = db w" if "utc_now w = (Inr t, v)" for t v
    using that by (auto simp: utc_now_def)
  ultimately show ?thesis
    using assms by (auto simp: record_result_def tx_bind_Inr dest!: append_event_logged dest: disk_sameD; blast)
qed

lemma result_changed:
  assumes "result_tx R k details w = (r, w')" and "w_disk w' \<noteq> w_disk w"
  shows "prunable k (rt_cutoff R) (db w)
    \<and> owns_workspace (rt_env R) (rt_manager R) k (workspace_of_run (find_run k (db w))) (w_disk w)
    \<and> w_disk w' = snd (we_delete (rt_env R) k (w_disk w))
    \<and> (\<forall>y. r = Inr y \<longrightarrow> (\<exists>e. db w' = logged (db w) e \<and> ev_run_id e = k
          \<and> ev_type e = (if \<exists>u. fst (we_delete (rt_env R) k (w_disk w)) = Inr u
                          then EV_WORKSPACE_PRUNED else EV_WORKSPACE_PRUNE_FAILED)))"
proof -
  have g: "tx_bind (guard_run (find_run k (db w)) (rt_cutoff R)) (\<lambda>reason.
      tx_bind (removal R k (find_run k (db w)) details reason) (record_result k)) w = (r, w')"
    using assms(1) by (simp add: result_tx_def get_run_def tx_bind_def)
  from disk_bind_changed[OF g assms(2) disk_same_guard] obtain why w1 where
    gw: "guard_run (find_run k (db w)) (rt_cutoff R) w = (Inr why, w1)"
    and d1: "w_disk w1 = w_disk w" "w_disk w' \<noteq> w_disk w1"
    and m: "tx_bind (removal R k (find_run k (db w)) details why) (record_result k) w1 = (r, w')" by blast
  obtain q w2 where q: "removal R k (find_run k (db w)) details why w1 = (q, w2)" by fastforce
  have d2: "w_disk w' = w_disk w2"
    using m record_result_run[of k _ _ w2] by (auto simp: tx_bind_def q split: sum.splits)
  with d1(2) have "w_disk w2 \<noteq> w_disk w1" by simp
  note rm = removal_changed[OF q this]
  then have k: "k \<noteq> []" by (auto simp: owns_workspace_def safe_segment_def)
  from rm have "why = None" by blast
  from guard_Inr[OF gw[unfolded this] k] have w1: "w1 = w" and pr: "prunable k (rt_cutoff R) (db w)" by auto
  have "\<exists>e. db w' = logged (db w) e \<and> ev_run_id e = k
      \<and> ev_type e = (if \<exists>u. fst (we_delete (rt_env R) k (w_disk w)) = Inr u
                      then EV_WORKSPACE_PRUNED else EV_WORKSPACE_PRUNE_FAILED)" if r: "r = Inr y" for y
  proof -
    from m r obtain reason d where qd: "q = Inr (reason, d)" and rec: "record_result k (reason, d) w2 = (r, w')"
      by (auto simp: tx_bind_def q split: sum.splits)
    have "reason = None \<longleftrightarrow> (\<exists>u. fst (we_delete (rt_env R) k (w_disk w)) = Inr u)"
      using rm qd unfolding w1 by auto
    with record_result_run[OF rec] r rm w1 show ?thesis by auto
  qed
  with pr rm d2 w1 show ?thesis by auto
qed


lemma attempt_Inr:
  assumes "attempt_tx R k w = (Inr (None, details), w1)" and "rt_apply R"
  shows "\<exists>e. db w1 = logged (db w) e \<and> ev_run_id e = k \<and> ev_type e = EV_WORKSPACE_PRUNE_ATTEMPTED"
proof -
  have u: "uuid4 v = (Inr i, v') \<Longrightarrow> db v' = db v" "utc_now v = (Inr t, v') \<Longrightarrow> db v' = db v" for v v' i t
    by (auto simp: uuid4_def utc_now_def)
  have same: "keeps (=) (or_reason reason (retention_target E M k st (target_details R k)) y)" for reason E M st y
    by (intro same_or_reason same_target same_details)
  from assms show ?thesis
    by (auto simp: attempt_tx_def tx_bind_Inr get_run_def Let_def split: if_splits
        dest!: append_event_logged u keepsD[OF same_guard] keepsD[OF same])
qed

lemma attempt_disk: "disk_same (attempt_tx R k)"
proof -
  have "disk_same (or_reason reason (retention_target E M k st (target_details R k)) y)" for reason E M st y
    unfolding or_reason_def target_details_def by (intro disk_rules disk_same_target)
  then show ?thesis
    unfolding attempt_tx_def Let_def get_run_def
    by (auto intro!: disk_rules disk_same_guard disk_same_append_event)
qed

lemma disk_same_transaction: "disk_same m \<Longrightarrow> disk_same (db_transaction m)"
  by (auto simp: disk_same_def db_transaction_def split: prod.splits sum.splits) (metis snd_conv)+

section \<open>Properties\<close>

text \<open>
  C40: the sweep removes a workspace only when it may. If pruning a run changes the disk, then the
  operator asked for it (\<open>--apply\<close>); the attempt had been committed to the run's evidence first;
  with the attempt on record the run was COMPLETED or FAILED, untouched since the cutoff, with no
  pending and no granted approval and every started execution finished; its row names its own
  directory in the managed root; what happened to the disk is the removal of that directory and
  nothing else; and unless recording fails, exactly one event follows, which says pruned when
  the removal returned and failed when it raised.
\<close>

theorem removal_needs_closed_run_and_attempt:
  assumes "reap_one R k rep w = (res, w')" and "w_disk w' \<noteq> w_disk w"
  shows "rt_apply R \<and> (\<exists>attempt.
      ev_run_id attempt = k \<and> ev_type attempt = EV_WORKSPACE_PRUNE_ATTEMPTED
    \<and> prunable k (rt_cutoff R) (logged (db w) attempt)
    \<and> owns_workspace (rt_env R) (rt_manager R) k (workspace_of_run (find_run k (db w))) (w_disk w)
    \<and> w_disk w' = snd (we_delete (rt_env R) k (w_disk w))
    \<and> (case res of
         Inl _ \<Rightarrow> db w' = logged (db w) attempt
       | Inr _ \<Rightarrow> \<exists>outcome. db w' = logged (logged (db w) attempt) outcome \<and> ev_run_id outcome = k
           \<and> ev_type outcome = (if \<exists>u. fst (we_delete (rt_env R) k (w_disk w)) = Inr u
                                then EV_WORKSPACE_PRUNED else EV_WORKSPACE_PRUNE_FAILED)))"
proof -
  from disk_bind_changed[OF assms(1)[unfolded reap_one_def] assms(2) disk_same_transaction[OF attempt_disk]]
  obtain x w1 where a: "attempt_tx R k w = (Inr x, w1)" and d: "w_disk w1 = w_disk w" "w_disk w' \<noteq> w_disk w1"
    and m: "reap_eligible R k rep x w1 = (res, w')"
    unfolding db_transaction_Inr by blast
  from m d(2) obtain details where x: "x = (None, details)" and ap: "rt_apply R"
    and m2: "tx_bind (db_transaction (result_tx R k details)) (\<lambda>y.
              tx_return (removed_report k (eligible_report details rep) y)) w1 = (res, w')"
    by (auto simp: reap_eligible_def split: prod.splits option.splits if_splits)
  from attempt_Inr[OF a[unfolded x] ap] obtain attempt where
    at: "db w1 = logged (db w) attempt" "ev_run_id attempt = k" "ev_type attempt = EV_WORKSPACE_PRUNE_ATTEMPTED"
    by blast
  obtain r v where rv: "result_tx R k details w1 = (r, v)" by fastforce
  have v: "w_disk w' = w_disk v" and dbv: "db w' = (case r of Inl _ \<Rightarrow> db w1 | Inr _ \<Rightarrow> db v)"
    and res: "(\<exists>e. res = Inl e) \<longleftrightarrow> (\<exists>e. r = Inl e)"
    using m2 by (auto simp: tx_bind_def db_transaction_def rv split: sum.splits)
  from result_changed[OF rv] v d(2) have rc: "prunable k (rt_cutoff R) (db w1)"
    "owns_workspace (rt_env R) (rt_manager R) k (workspace_of_run (find_run k (db w1))) (w_disk w1)"
    "w_disk v = snd (we_delete (rt_env R) k (w_disk w1))"
    "\<And>y. r = Inr y \<Longrightarrow> \<exists>e. db v = logged (db w1) e \<and> ev_run_id e = k
          \<and> ev_type e = (if \<exists>u. fst (we_delete (rt_env R) k (w_disk w1)) = Inr u
                          then EV_WORKSPACE_PRUNED else EV_WORKSPACE_PRUNE_FAILED)" by auto
  have "find_run k (db w1) = find_run k (db w)" by (simp add: at(1) logged_def find_run_def)
  moreover have "case res of
         Inl _ \<Rightarrow> db w' = logged (db w) attempt
       | Inr _ \<Rightarrow> \<exists>outcome. db w' = logged (logged (db w) attempt) outcome \<and> ev_run_id outcome = k
           \<and> ev_type outcome = (if \<exists>u. fst (we_delete (rt_env R) k (w_disk w)) = Inr u
                                then EV_WORKSPACE_PRUNED else EV_WORKSPACE_PRUNE_FAILED)"
    using rc(4) at(1) dbv res d(1) by (cases res; cases r) simp_all
  ultimately show ?thesis using rc(1-3) ap at v d(1) by (intro conjI exI[of _ attempt]) simp_all
qed



definition closed_store :: store where
  "closed_store = empty_store\<lparr>runs_t := [demo_run\<lparr>run_st := RS_COMPLETED, workspace_path := Some ''/runs/r1''\<rparr>]\<rparr>"

definition demo_retention :: retention where
  "demo_retention =
     \<lparr>rt_env = demo_ws_env, rt_manager = demo_manager, rt_days = 7, rt_apply = True, rt_cutoff = 0\<rparr>"

definition demo_reap :: "(exc + retention_report) \<times> world" where
  "demo_reap = reap_one demo_retention ''r1'' empty_report (demo_ws_world closed_store)"

lemma demo_reap_removes:
  "dk_node (w_disk (snd demo_reap)) [''runs'', ''r1''] = None
   \<and> map ev_type (events_t (db (snd demo_reap))) = [EV_WORKSPACE_PRUNE_ATTEMPTED, EV_WORKSPACE_PRUNED]"
  by code_simp

theorem removal_needs_closed_run_and_attempt_witness:
  "rt_apply demo_retention
   \<and> (\<exists>attempt. ev_run_id attempt = ''r1'' \<and> prunable ''r1'' 0 (logged closed_store attempt))
   \<and> w_disk (snd demo_reap) = snd (we_delete demo_ws_env ''r1'' demo_ws_disk)"
proof -
  have w: "w_disk (demo_ws_world closed_store) = demo_ws_disk" "db (demo_ws_world closed_store) = closed_store"
    by (simp_all add: demo_ws_world_def demo_world_def)
  have "dk_node demo_ws_disk [''runs'', ''r1''] \<noteq> None" by (simp add: demo_ws_disk_def)
  with demo_reap_removes have "w_disk (snd demo_reap) \<noteq> w_disk (demo_ws_world closed_store)"
    unfolding w by auto
  moreover have "reap_one demo_retention ''r1'' empty_report (demo_ws_world closed_store)
      = (fst demo_reap, snd demo_reap)" by (simp add: demo_reap_def)
  ultimately have *: "rt_apply demo_retention" "\<exists>attempt. ev_run_id attempt = ''r1''
      \<and> prunable ''r1'' (rt_cutoff demo_retention) (logged closed_store attempt)"
      "w_disk (snd demo_reap) = snd (we_delete (rt_env demo_retention) ''r1'' demo_ws_disk)"
    using removal_needs_closed_run_and_attempt[of demo_retention "''r1''" empty_report
        "demo_ws_world closed_store" "fst demo_reap" "snd demo_reap"] unfolding w by auto
  then show ?thesis by (simp add: demo_retention_def)
qed

section \<open>A report changes nothing\<close>

lemma dry_attempt: "\<not> rt_apply R \<Longrightarrow> keeps (=) (attempt_tx R k)"
  unfolding attempt_tx_def get_run_def Let_def
  by (intro same.keeps_rules same_guard same_or_reason same_target same_details)
     (simp add: same.keeps_return split: prod.split)

lemma dry_reap:
  assumes "\<not> rt_apply R"
  shows "keeps (=) (reap_one R k rep)" "disk_same (reap_one R k rep)"
proof -
  have "keeps (=) (reap_eligible R k rep x)" "disk_same (reap_eligible R k rep x)" for x
    using assms
    by (auto simp: reap_eligible_def same.keeps_return disk_same_basic split: prod.split option.split)
  note el = this
  show "keeps (=) (reap_one R k rep)"
    unfolding reap_one_def by (intro same.keeps_rules dry_attempt assms el)
  show "disk_same (reap_one R k rep)"
    unfolding reap_one_def by (intro disk_rules disk_same_transaction attempt_disk el)
qed

lemma dry_reap_all:
  "\<not> rt_apply R \<Longrightarrow> keeps (=) (reap_all R ks rep)" "\<not> rt_apply R \<Longrightarrow> disk_same (reap_all R ks rep)"
  by (induction ks arbitrary: rep)
     (auto intro!: same.keeps_rules disk_rules dry_reap)

text \<open>
  Without \<open>--apply\<close> the sweep only reports. Whatever the runs, the age limit and the state of
  the workspaces, and also when it raises, the database and the disk are as before.
\<close>

lemma report_changes_nothing:
  "db (snd (reap_workspaces E M database days False now w)) = db w
   \<and> w_disk (snd (reap_workspaces E M database days False now w)) = w_disk w"
proof -
  have "keeps (=) (reap_workspaces E M database days False now)"
    unfolding reap_workspaces_def list_runs_def Let_def
    by (intro same_workspace_rules dry_reap_all) simp_all
  moreover have "disk_same (reap_workspaces E M database days False now)"
    unfolding reap_workspaces_def list_runs_def Let_def
    by (intro disk_rules dry_reap_all) simp_all
  ultimately show ?thesis unfolding keeps_def disk_same_def by metis
qed

end
