(* ===== verification/Ingress.thy ===== *)
theory Ingress
  imports Prelude
begin

text \<open>
  \<open>backend/scopewatch/ingress.py\<close>: the ASGI middleware that bounds request bodies before anything else
  of the application runs. The messages \<open>receive()\<close> will answer are a list; a list that runs out is a
  call that has not been answered yet (\<open>Waiting\<close>).
\<close>

section \<open>Messages and outcomes\<close>

text \<open>\<open>http.request\<close> with its body and \<open>more_body\<close>, \<open>http.disconnect\<close>, and any other message type.\<close>

datatype asgi_message = Request_message pystr bool | Disconnect_message | Other_message

record asgi_scope =
  sc_type :: pystr
  sc_method :: pystr
  sc_headers :: "(pystr \<times> pystr) list"

text \<open>
  What the middleware does: hand the untouched channel on, answer 413, return on a disconnect, or call
  the application with the buffered body.
\<close>

datatype ingress_outcome = Passed | Too_large | Gone | Called pystr | Waiting

definition DEFAULT_MAX_REQUEST_BODY_BYTES :: int where
  "DEFAULT_MAX_REQUEST_BODY_BYTES = 256 * 1024"

definition REQUEST_BODY_LIMIT_ENV_VAR :: pystr where
  "REQUEST_BODY_LIMIT_ENV_VAR = ''SCOPEWATCH_MAX_BODY_BYTES''"

definition max_request_body_bytes :: "(pystr \<Rightarrow> pystr option) \<Rightarrow> int" where
  "max_request_body_bytes env =
     (let raw = strip (or_empty (env REQUEST_BODY_LIMIT_ENV_VAR))
      in if raw = [] then DEFAULT_MAX_REQUEST_BODY_BYTES
         else (case py_int raw of
                 Some v \<Rightarrow> if 0 < v then v else DEFAULT_MAX_REQUEST_BODY_BYTES
               | None \<Rightarrow> DEFAULT_MAX_REQUEST_BODY_BYTES))"

definition exempt_methods :: "pystr list" where "exempt_methods = [''GET'', ''HEAD'']"

definition is_exempt :: "asgi_scope \<Rightarrow> bool" where
  "is_exempt sc \<longleftrightarrow> py_upper (sc_method sc) \<in> set exempt_methods"

fun declared_content_length :: "(pystr \<times> pystr) list \<Rightarrow> int option" where
  "declared_content_length [] = None"
| "declared_content_length ((name, val) # hs) =
     (if name = ''content-length'' then py_int (strip val) else declared_content_length hs)"

section \<open>The middleware\<close>

text \<open>The loop: the bytes counted so far are those of the chunks buffered so far.\<close>

fun buffer_body ::
  "int \<Rightarrow> pystr \<Rightarrow> asgi_message list \<Rightarrow> ingress_outcome \<times> asgi_message list" where
  "buffer_body limit chunks [] = (Waiting, [])"
| "buffer_body limit chunks (Disconnect_message # ms) = (Gone, ms)"
| "buffer_body limit chunks (Other_message # ms) = buffer_body limit chunks ms"
| "buffer_body limit chunks (Request_message body again # ms) =
     (if limit < int (length (chunks @ body)) then (Too_large, ms)
      else if \<not> again then (Called (chunks @ body), ms)
      else buffer_body limit (chunks @ body) ms)"

definition body_size_limit ::
  "int \<Rightarrow> asgi_scope \<Rightarrow> asgi_message list \<Rightarrow> ingress_outcome \<times> asgi_message list" where
  "body_size_limit limit sc ms =
     (if sc_type sc \<noteq> ''http'' \<or> is_exempt sc then (Passed, ms)
      else
        case declared_content_length (sc_headers sc) of
          Some n \<Rightarrow> if limit < n then (Too_large, ms) else buffer_body limit [] ms
        | None \<Rightarrow> buffer_body limit [] ms)"

text \<open>\<open>replay_receive\<close>: the buffered body as one message, then disconnects.\<close>

fun replay_receive :: "asgi_message list \<Rightarrow> asgi_message \<times> asgi_message list" where
  "replay_receive [] = (Disconnect_message, [])"
| "replay_receive (m # ms) = (m, ms)"

section \<open>What the application sees\<close>

text \<open>
  The body the client sent, read off the messages: \<open>sent used\<close> are the bytes of the request messages,
  and \<open>whole used\<close> says that they end with the last message of the body.
\<close>

fun message_bytes :: "asgi_message \<Rightarrow> pystr" where
  "message_bytes (Request_message body again) = body"
| "message_bytes m = []"

definition sent :: "asgi_message list \<Rightarrow> pystr" where "sent ms = concat (map message_bytes ms)"

fun more_follows :: "asgi_message \<Rightarrow> bool" where
  "more_follows (Request_message body again) = again"
| "more_follows Disconnect_message = False"
| "more_follows Other_message = True"

definition whole :: "asgi_message list \<Rightarrow> bool" where
  "whole used \<longleftrightarrow>
     used \<noteq> [] \<and> list_all more_follows (butlast used) \<and> (\<exists>b. last used = Request_message b False)"

lemma sent_simps [simp]: "sent [] = []" "sent (m # ms) = message_bytes m @ sent ms"
  by (simp_all add: sent_def)

lemma whole_Cons:
  "whole (m # ms) \<longleftrightarrow> (ms = [] \<and> (\<exists>b. m = Request_message b False)) \<or> (more_follows m \<and> whole ms)"
  by (cases ms) (auto simp: whole_def)

lemma buffer_body_Called:
  "buffer_body limit chunks ms = (Called b, rest) \<longleftrightarrow>
     (\<exists>used. ms = used @ rest \<and> whole used \<and> b = chunks @ sent used \<and> int (length b) \<le> limit)"
proof (induction limit chunks ms arbitrary: rule: buffer_body.induct)
  case (4 limit chunks body again ms)
  show ?case
  proof (cases "limit < int (length (chunks @ body))")
    case True
    then show ?thesis by (auto simp: Cons_eq_append_conv whole_Cons whole_def)
  next
    case False
    then show ?thesis
      using 4 by (cases again) (auto simp: Cons_eq_append_conv whole_Cons, auto simp: whole_def)
  qed
qed (auto simp: Cons_eq_append_conv whole_Cons, auto simp: whole_def)

lemma buffer_body_Waiting:
  "int (length chunks) \<le> limit \<Longrightarrow> fst (buffer_body limit chunks ms) = Waiting \<longleftrightarrow>
     list_all more_follows ms \<and> int (length chunks + length (sent ms)) \<le> limit"
  by (induction limit chunks ms rule: buffer_body.induct) auto

lemma max_body_positive: "0 < max_request_body_bytes env"
  by (auto simp: max_request_body_bytes_def DEFAULT_MAX_REQUEST_BODY_BYTES_def Let_def
      split: option.split)

text \<open>The requests whose body is counted, with no declared length over the limit.\<close>

definition counted :: "int \<Rightarrow> asgi_scope \<Rightarrow> bool" where
  "counted limit sc \<longleftrightarrow>
     sc_type sc = ''http'' \<and> \<not> is_exempt sc
     \<and> (case declared_content_length (sc_headers sc) of None \<Rightarrow> True | Some n \<Rightarrow> n \<le> limit)"

section \<open>Properties\<close>

text \<open>
  The body bound. Whatever the environment sets, whatever length is declared and however the
  client cuts the body into messages: the application is called with a buffered body exactly when the
  request is a bounded one whose declared length, if it has a readable one, is within the limit and
  whose body arrived in full within the limit, and then with that body and no other bytes. And the
  middleware is still waiting only when no message received so far ended the body or the connection
  and the bytes received so far are within the limit, so that it never buffers more than the limit
  and always answers once the body ends, the client leaves or the limit is passed.
\<close>

lemma bodies_are_bounded:
  "(body_size_limit (max_request_body_bytes env) sc ms = (Called b, rest) \<longleftrightarrow>
      counted (max_request_body_bytes env) sc
      \<and> (\<exists>used. ms = used @ rest \<and> whole used \<and> b = sent used
                \<and> int (length b) \<le> max_request_body_bytes env))
   \<and> (fst (body_size_limit (max_request_body_bytes env) sc ms) = Waiting \<longleftrightarrow>
      counted (max_request_body_bytes env) sc
      \<and> list_all more_follows ms \<and> int (length (sent ms)) \<le> max_request_body_bytes env)"
  using buffer_body_Called[of "max_request_body_bytes env" "[]" ms b rest] max_body_positive[of env]
    buffer_body_Waiting[of "[]" "max_request_body_bytes env" ms]
  by (auto simp: body_size_limit_def counted_def split: option.split)

end
