(* ===== verification/HttpAuth.thy ===== *)
theory HttpAuth
  imports DemoGuards Ingress
begin

text \<open>
  The credentials of the HTTP application: the resolvers of \<open>backend/scopewatch/config.py\<close>, the
  middleware and the reviewer check of \<open>backend/scopewatch/app.py\<close>. The module constants of
  \<open>config.py\<close> are read from the environment at import (\<open>ha_imported\<close>), the resolvers from the
  environment of the call (\<open>ha_env\<close>). A middleware returns the reply it sends instead of calling on, or
  nothing; \<open>request.url.path\<close> is what the framework answers for it, which need not be the path routed.
\<close>

section \<open>Configuration\<close>

fun first_nonempty :: "environ \<Rightarrow> pystr list \<Rightarrow> pystr" where
  "first_nonempty src [] = []"
| "first_nonempty src (k # ks) =
     (let val = strip (or_empty (src k)) in if val \<noteq> [] then val else first_nonempty src ks)"

definition get_api_key :: "environ \<Rightarrow> pystr" where
  "get_api_key src = first_nonempty src [''SCOPEWATCH_API_KEY'', ''API_KEY'']"

definition get_reviewer_token :: "environ \<Rightarrow> pystr" where
  "get_reviewer_token src =
     first_nonempty src [''SCOPEWATCH_REVIEWER_TOKEN'', ''REVIEWER_TOKEN'', ''SCOPEWATCH_REVIEWER_KEY'']"

definition get_reviewer_identity :: "environ \<Rightarrow> pystr" where
  "get_reviewer_identity src =
     first_nonempty src [''SCOPEWATCH_REVIEWER_ID'', ''DEFAULT_REVIEWER_IDENTITY'', ''REVIEWER_ID'']"

definition get_cors_allow_origins :: "environ \<Rightarrow> pystr list" where
  "get_cors_allow_origins src =
     filter (\<lambda>x. x \<noteq> [])
       (map strip (split_on (CHR '','')
          (first_nonempty src [''SCOPEWATCH_CORS_ALLOW_ORIGINS'', ''CORS_ALLOW_ORIGINS''])))"

definition flag_of :: "pystr \<Rightarrow> bool" where
  "flag_of raw \<longleftrightarrow> lower (if raw = [] then ''false'' else raw) \<in> {''true'', ''1'', ''yes''}"

definition get_cors_allow_credentials :: "environ \<Rightarrow> bool" where
  "get_cors_allow_credentials src \<longleftrightarrow>
     flag_of (first_nonempty src [''SCOPEWATCH_CORS_ALLOW_CREDENTIALS'', ''CORS_ALLOW_CREDENTIALS''])"

definition get_allow_demo_reset :: "environ \<Rightarrow> bool" where
  "get_allow_demo_reset src \<longleftrightarrow> flag_of (first_nonempty src [''SCOPEWATCH_ALLOW_RESET'', ''ALLOW_DEMO_RESET''])"

definition get_enable_hsts :: "environ \<Rightarrow> bool" where
  "get_enable_hsts src \<longleftrightarrow> flag_of (first_nonempty src [''SCOPEWATCH_ENABLE_HSTS'', ''ENABLE_HSTS''])"

definition reviewer_token_expected :: "environ \<Rightarrow> pystr" where
  "reviewer_token_expected src = get_reviewer_token src"

definition is_demo_mode :: "environ \<Rightarrow> bool" where
  "is_demo_mode src \<longleftrightarrow> first_nonempty src [''DEMO_TOKEN''] \<noteq> []"

definition is_auth_configured :: "environ \<Rightarrow> bool" where
  "is_auth_configured src \<longleftrightarrow>
     first_nonempty src [''DEMO_TOKEN''] \<noteq> [] \<or> get_api_key src \<noteq> [] \<or> get_reviewer_token src \<noteq> []"

text \<open>Agent credentials against the reviewer's: a \<open>ValueError\<close> when one is equal to it.\<close>

fun refuse_equal :: "pystr list \<Rightarrow> pystr \<Rightarrow> pystr + unit" where
  "refuse_equal [] rev_tok = Inr ()"
| "refuse_equal (a # creds) rev_tok =
     (if a = [] then refuse_equal creds rev_tok
      else case compare_digest a rev_tok of
             Inl e \<Rightarrow> Inl e
           | Inr True \<Rightarrow> Inl ''ValueError''
           | Inr False \<Rightarrow> refuse_equal creds rev_tok)"

definition validate_auth_configuration :: "environ \<Rightarrow> pystr + unit" where
  "validate_auth_configuration src =
     (let demo_tok = first_nonempty src [''DEMO_TOKEN'']; agent_k = get_api_key src;
          rev_tok = get_reviewer_token src
      in if rev_tok = [] then Inr () else refuse_equal [demo_tok, agent_k] rev_tok)"

section \<open>The application's settings\<close>

record http_app =
  ha_imported :: environ
  ha_env :: environ
  ha_guards :: guard_config
  ha_fingerprint :: "pystr \<Rightarrow> pystr"
  ha_bracketed_host :: "pystr \<Rightarrow> bool"

definition active_cors_origins :: "http_app \<Rightarrow> pystr list" where
  "active_cors_origins A =
     (let val = get_cors_allow_origins (ha_imported A)
      in if val \<noteq> [] then val else get_cors_allow_origins (ha_env A))"

definition active_cors_credentials :: "http_app \<Rightarrow> bool" where
  "active_cors_credentials A \<longleftrightarrow>
     (if get_cors_allow_credentials (ha_imported A) then True else get_cors_allow_credentials (ha_env A))"

definition active_enable_hsts :: "http_app \<Rightarrow> bool" where
  "active_enable_hsts A \<longleftrightarrow>
     (if get_enable_hsts (ha_imported A) then True else get_enable_hsts (ha_env A))"

definition active_allow_demo_reset :: "http_app \<Rightarrow> bool" where
  "active_allow_demo_reset A \<longleftrightarrow>
     (if get_allow_demo_reset (ha_imported A) then True else get_allow_demo_reset (ha_env A))"

definition active_api_key :: "http_app \<Rightarrow> pystr" where
  "active_api_key A =
     (let val = get_api_key (ha_imported A) in if val \<noteq> [] then val else get_api_key (ha_env A))"

definition active_reviewer_token :: "http_app \<Rightarrow> pystr" where
  "active_reviewer_token A =
     (let val = get_reviewer_token (ha_imported A)
      in if val \<noteq> [] then val else get_reviewer_token (ha_env A))"

definition active_reviewer_identity :: "http_app \<Rightarrow> pystr" where
  "active_reviewer_identity A =
     (let val = get_reviewer_identity (ha_imported A)
      in if val \<noteq> [] then val else get_reviewer_identity (ha_env A))"

text \<open>The check of \<open>create_app\<close>, repeated when the application starts.\<close>

definition startup_check :: "http_app \<Rightarrow> pystr + unit" where
  "startup_check A =
     (let active_rev = active_reviewer_token A;
          demo_tok = strip (or_empty (ha_env A ''DEMO_TOKEN''));
          first = (if active_rev = [] then Inr ()
                   else refuse_equal [demo_tok, active_api_key A] active_rev)
      in case first of Inl e \<Rightarrow> Inl e | Inr _ \<Rightarrow> validate_auth_configuration (ha_env A))"

section \<open>Requests and replies\<close>

record http_request =
  hq_method :: pystr
  hq_url_path :: pystr
  hq_scheme :: pystr
  hq_base_url :: pystr
  hq_header :: environ
  hq_peer :: "pystr option"

record http_reply =
  hr_status :: nat
  hr_content :: jobj
  hr_headers :: "(pystr \<times> pystr) list"

definition flat_error :: "nat \<Rightarrow> pystr \<Rightarrow> pystr \<Rightarrow> http_reply" where
  "flat_error st code message =
     \<lparr>hr_status = st, hr_content = [(''error'', JStr code), (''message'', JStr message)], hr_headers = []\<rparr>"

definition request_client_ip :: "http_request \<Rightarrow> pystr" where
  "request_client_ip q =
     client_ip_from (hq_header q) (case hq_peer q of Some p \<Rightarrow> p | None \<Rightarrow> ''unknown'')"

definition extract_bearer_token :: "http_request \<Rightarrow> pystr option" where
  "extract_bearer_token q =
     (let auth = or_empty (hq_header q ''authorization'')
      in if starts_with (lower auth) ''bearer '' then Some (strip (drop 7 auth)) else None)"

definition extract_reviewer_token :: "http_request \<Rightarrow> pystr option" where
  "extract_reviewer_token q =
     (if truthy (hq_header q ''x-reviewer-token'') then hq_header q ''x-reviewer-token''
      else if truthy (hq_header q ''x-reviewer-key'') then hq_header q ''x-reviewer-key''
      else extract_bearer_token q)"

section \<open>Sequencing\<close>

text \<open>Expressions that may raise, by class name: the next one runs when the first returned.\<close>

definition sum_bind :: "'e + 'a \<Rightarrow> ('a \<Rightarrow> 'e + 'b) \<Rightarrow> 'e + 'b" where
  "sum_bind r f = (case r of Inl e \<Rightarrow> Inl e | Inr x \<Rightarrow> f x)"

text \<open>\<open>bool(provided and token_matches(provided, expected))\<close>.\<close>

definition given_matches :: "pystr option \<Rightarrow> pystr \<Rightarrow> pystr + bool" where
  "given_matches provided expected =
     (if truthy provided then token_matches provided expected else Inr False)"

section \<open>Security headers\<close>

definition content_security_policy :: pystr where
  "content_security_policy =
     (let q = (\<lambda>s. CHR 0x27 # s @ [CHR 0x27])
      in ''default-src '' @ q ''self'' @ ''; script-src '' @ q ''self'' @ ''; style-src '' @ q ''self''
         @ ''; img-src '' @ q ''self'' @ '' data:; font-src '' @ q ''self'' @ ''; connect-src '' @ q ''self''
         @ ''; frame-ancestors '' @ q ''none'' @ ''; base-uri '' @ q ''self'' @ ''; form-action '' @ q ''self'')"

definition security_headers :: "http_app \<Rightarrow> http_request \<Rightarrow> (pystr \<times> pystr) list" where
  "security_headers A q =
     (let is_https = (hq_scheme q = ''https'' \<or> hq_header q ''x-forwarded-proto'' = Some ''https'')
      in (if active_enable_hsts A \<or> (is_https \<and> \<not> is_demo_mode (ha_env A))
          then [(''Strict-Transport-Security'', ''max-age=31536000; includeSubDomains'')] else [])
         @ [(''Content-Security-Policy'', content_security_policy),
            (''X-Content-Type-Options'', ''nosniff''), (''X-Frame-Options'', ''DENY''),
            (''Referrer-Policy'', ''strict-origin-when-cross-origin''),
            (''Permissions-Policy'', ''geolocation=(), microphone=(), camera=()'')])"

section \<open>The cross-origin guard\<close>

definition scheme_char :: "char \<Rightarrow> bool" where
  "scheme_char c =
     (let n = (of_char c :: nat)
      in (48 \<le> n \<and> n \<le> 57) \<or> (65 \<le> n \<and> n \<le> 90) \<or> (97 \<le> n \<and> n \<le> 122)
         \<or> c = CHR ''+'' \<or> c = CHR ''-'' \<or> c = CHR ''.'')"

definition ascii_alpha :: "char \<Rightarrow> bool" where
  "ascii_alpha c =
     (let n = (of_char c :: nat) in (65 \<le> n \<and> n \<le> 90) \<or> (97 \<le> n \<and> n \<le> 122))"

text \<open>The scheme and the network location of \<open>urllib.parse.urlparse\<close>.\<close>

definition split_scheme :: "pystr \<Rightarrow> pystr \<times> pystr" where
  "split_scheme url =
     (let pre = takeWhile (\<lambda>c. c \<noteq> CHR '':'') url
      in if length pre < length url \<and> pre \<noteq> [] \<and> ascii_alpha (hd pre) \<and> list_all scheme_char pre
         then (lower pre, drop (Suc (length pre)) url) else ([], url))"

definition urlparse :: "(pystr \<Rightarrow> bool) \<Rightarrow> pystr \<Rightarrow> pystr + (pystr \<times> pystr)" where
  "urlparse bracketed url =
     (let (scheme, rest) =
            split_scheme (filter (\<lambda>c. c \<noteq> CHR 0x09 \<and> c \<noteq> CHR 0x0D \<and> c \<noteq> CHR 0x0A)
                            (dropWhile (\<lambda>c. (of_char c :: nat) \<le> 32) url));
          netloc = (if starts_with rest ''//''
                    then takeWhile (\<lambda>c. c \<noteq> CHR ''/'' \<and> c \<noteq> CHR ''?'' \<and> c \<noteq> CHR ''#'') (drop 2 rest)
                    else []);
          opens = (CHR ''['' \<in> set netloc); closes = (CHR '']'' \<in> set netloc)
      in if opens \<noteq> closes \<or> (opens \<and> \<not> bracketed netloc) then Inl ''ValueError''
         else Inr (scheme, netloc))"

definition rstrip_slash :: "pystr \<Rightarrow> pystr" where
  "rstrip_slash s = rev (dropWhile (\<lambda>c. c = CHR ''/'') (rev s))"

definition resolves_approval :: "pystr \<Rightarrow> bool" where
  "resolves_approval path \<longleftrightarrow>
     substring_of ''/approvals/'' path \<and> (suffix ''/approve'' path \<or> suffix ''/deny'' path)"

definition content_type_guard :: "http_request \<Rightarrow> http_reply option" where
  "content_type_guard q =
     (if \<not> resolves_approval (hq_url_path q) then None
      else
        let raw_ct = hq_header q ''content-type'';
            media_type = lower (strip (hd (split_on (CHR '';'') (or_empty raw_ct))))
        in if \<not> truthy raw_ct \<or> media_type \<noteq> ''application/json'' then
             Some (flat_error 415 ''unsupported_media_type'' ''Content-Type must be application/json'')
           else None)"

definition origin_allowed :: "http_app \<Rightarrow> http_request \<Rightarrow> pystr \<Rightarrow> pystr + bool" where
  "origin_allowed A q origin =
     sum_bind (urlparse (ha_bracketed_host A) origin) (\<lambda>(scheme, netloc).
       let host = lower (or_empty (hq_header q ''host''));
           origin_base = rstrip_slash (scheme @ ''://'' @ netloc);
           request_base = rstrip_slash (hq_base_url q);
           is_same_origin = (lower netloc = host \<or> origin_base = request_base);
           origins = active_cors_origins A
       in Inr (is_same_origin \<or> origin \<in> set origins \<or> origin_base \<in> set origins))"

definition cross_origin_guard :: "http_app \<Rightarrow> http_request \<Rightarrow> pystr + http_reply option" where
  "cross_origin_guard A q =
     (if \<not> is_mutating_api_call (hq_method q) (hq_url_path q) then Inr None
      else if lower (or_empty (hq_header q ''sec-fetch-site'')) = ''cross-site'' then
        Inr (Some (flat_error 403 ''cross_site_request_blocked'' ''Cross-site requests are forbidden.''))
      else if truthy (hq_header q ''origin'') then
        sum_bind (origin_allowed A q (or_empty (hq_header q ''origin''))) (\<lambda>allowed.
          if \<not> allowed then
            Inr (Some (flat_error 403 ''cross_origin_forbidden''
                         ''Cross-origin state-changing requests are forbidden.''))
          else Inr (content_type_guard q))
      else Inr (content_type_guard q))"

section \<open>The credential middleware\<close>

definition reviewer_required :: "pystr \<Rightarrow> http_reply" where
  "reviewer_required message = flat_error 403 ''reviewer_credential_required'' message"

definition agent_not_permitted :: pystr where
  "agent_not_permitted =
     ''Reviewer credential required to resolve approvals; agent credentials are not permitted.''"

definition reviewer_path :: "pystr \<Rightarrow> bool" where
  "reviewer_path path \<longleftrightarrow> substring_of ''/approvals/'' path \<or> substring_of ''reset'' path"

definition api_key_middleware :: "http_app \<Rightarrow> http_request \<Rightarrow> pystr + http_reply option" where
  "api_key_middleware A q =
     (let key = active_api_key A; rev_tok = extract_reviewer_token q;
          exp_rev = reviewer_token_expected (ha_env A)
      in if key = [] \<or> gc_enabled (ha_guards A) \<or> \<not> is_mutating_api_call (hq_method q) (hq_url_path q)
         then Inr None
         else
           sum_bind (given_matches rev_tok key) (\<lambda>agent_as_reviewer.
             if agent_as_reviewer \<and> reviewer_path (hq_url_path q) then
               Inr (Some (reviewer_required agent_not_permitted))
             else
               sum_bind (given_matches (hq_header q ''x-api-key'') key) (\<lambda>authed_agent.
               sum_bind (if exp_rev = [] then Inr False else given_matches rev_tok exp_rev) (\<lambda>authed_reviewer.
                 if \<not> (authed_agent \<or> authed_reviewer) then
                   Inr (Some (flat_error 401 ''api_key_required''
                                ''API key required. Send it as the X-API-Key header.''))
                 else Inr None))))"

definition demo_token_middleware :: "http_app \<Rightarrow> http_request \<Rightarrow> pystr + http_reply option" where
  "demo_token_middleware A q =
     (let rev_tok = extract_reviewer_token q; exp_rev = reviewer_token_expected (ha_env A);
          demo_tok = gc_token (ha_guards A)
      in if \<not> gc_enabled (ha_guards A) \<or> \<not> is_mutating_api_call (hq_method q) (hq_url_path q)
         then Inr None
         else
           sum_bind (if demo_tok = [] then Inr False else given_matches rev_tok demo_tok) (\<lambda>agent_as_reviewer.
             if agent_as_reviewer \<and> reviewer_path (hq_url_path q) then
               Inr (Some (reviewer_required agent_not_permitted))
             else
               sum_bind (check_token (ha_guards A) (hq_header q ''x-demo-token'')) (\<lambda>decision.
               sum_bind (if gd_allowed decision \<or> exp_rev = [] then Inr False
                         else given_matches rev_tok exp_rev) (\<lambda>authorised_reviewer.
                 if \<not> gd_allowed decision \<and> \<not> authorised_reviewer then
                   Inr (Some (flat_error (nat (gd_status decision)) (gd_code decision) (gd_message decision)))
                 else Inr None))))"

end
