(* ===== verification/HttpApp.thy ===== *)
theory HttpApp
  imports ServiceContract HttpAuth
begin

text \<open>
  The routes of \<open>backend/scopewatch/app.py\<close> over the service, the error handlers of \<open>errors.py\<close> and the
  seeding of \<open>demo_seed.py\<close>. A call is a routed request: its endpoint with the decoded path, query and
  body; decoding and validating them, like routing, is the framework's. What the application answers on
  success is its status only. A reply to an exception carries a fresh identifier.
\<close>

section \<open>Calls\<close>

record resolve_body =
  rb_resolution_reason :: "pystr option"
  rb_reviewer_id :: "pystr option"

datatype http_call =
    Call_health
  | Call_demo_reset bool
  | Call_demo_reseed
  | Call_list_runs
  | Call_create_run pystr task_scope "pystr option"
  | Call_get_run pystr
  | Call_update_run pystr "pystr option"
  | Call_complete pystr "int option"
  | Call_fail pystr "pystr option"
  | Call_submit pystr submit_request
  | Call_preview pystr submit_request
  | Call_get_action pystr pystr
  | Call_list_approvals "approval_status option" "pystr option"
  | Call_list_run_approvals pystr "approval_status option"
  | Call_expire pystr
  | Call_approve pystr "resolve_body option"
  | Call_deny pystr "resolve_body option"
  | Call_events pystr "int option" "int option"

fun call_method :: "http_call \<Rightarrow> pystr" where
  "call_method Call_health = ''GET''"
| "call_method Call_list_runs = ''GET''"
| "call_method (Call_get_run _) = ''GET''"
| "call_method (Call_get_action _ _) = ''GET''"
| "call_method (Call_list_approvals _ _) = ''GET''"
| "call_method (Call_list_run_approvals _ _) = ''GET''"
| "call_method (Call_events _ _ _) = ''GET''"
| "call_method (Call_update_run _ _) = ''PATCH''"
| "call_method _ = ''POST''"

fun call_path :: "http_call \<Rightarrow> pystr" where
  "call_path Call_health = ''/api/v1/health''"
| "call_path (Call_demo_reset alias) = (if alias then ''/demo/reset'' else ''/api/v1/demo/reset'')"
| "call_path Call_demo_reseed = ''/api/v1/demo/reseed''"
| "call_path Call_list_runs = ''/api/v1/runs''"
| "call_path (Call_create_run _ _ _) = ''/api/v1/runs''"
| "call_path (Call_get_run k) = ''/api/v1/runs/'' @ k"
| "call_path (Call_update_run k _) = ''/api/v1/runs/'' @ k"
| "call_path (Call_complete k _) = ''/api/v1/runs/'' @ k @ ''/complete''"
| "call_path (Call_fail k _) = ''/api/v1/runs/'' @ k @ ''/fail''"
| "call_path (Call_submit k _) = ''/api/v1/runs/'' @ k @ ''/actions''"
| "call_path (Call_preview k _) = ''/api/v1/runs/'' @ k @ ''/actions/preview''"
| "call_path (Call_get_action k a) = ''/api/v1/runs/'' @ k @ ''/actions/'' @ a"
| "call_path (Call_list_approvals _ _) = ''/api/v1/approvals''"
| "call_path (Call_list_run_approvals k _) = ''/api/v1/runs/'' @ k @ ''/approvals''"
| "call_path (Call_expire k) = ''/api/v1/approvals/'' @ k @ ''/expire''"
| "call_path (Call_approve k _) = ''/api/v1/approvals/'' @ k @ ''/approve''"
| "call_path (Call_deny k _) = ''/api/v1/approvals/'' @ k @ ''/deny''"
| "call_path (Call_events k _ _) = ''/api/v1/runs/'' @ k @ ''/events''"

datatype http_outcome = Refusal http_reply | Success nat

section \<open>Errors\<close>

definition envelope :: "pystr \<Rightarrow> pystr \<Rightarrow> pystr \<Rightarrow> jobj" where
  "envelope code message request_id =
     [(''error'', JObj [(''code'', JStr code), (''message'', JStr message), (''request_id'', JStr request_id)])]"

text \<open>The replies of the handlers registered for the gateway's own exceptions, and the generic one.\<close>

fun error_reply :: "pystr \<Rightarrow> exc \<Rightarrow> http_reply option" where
  "error_reply i (Api_error code message st) =
     Some \<lparr>hr_status = st, hr_content = envelope code message i, hr_headers = []\<rparr>"
| "error_reply i (Security_error message code st) =
     Some \<lparr>hr_status = st, hr_content = envelope code message i, hr_headers = []\<rparr>"
| "error_reply i (Guard_refusal st code message retry) =
     Some \<lparr>hr_status = st, hr_content = [(''error'', JStr code), (''message'', JStr message)],
           hr_headers = (if 0 < retry then [(''Retry-After'', show_int retry)] else [])\<rparr>"
| "error_reply i (Repo_conflict _) = None"
| "error_reply i (Repo_not_found _) = None"
| "error_reply i (Py_error _ _) = None"

definition generic_error_reply :: "pystr \<Rightarrow> http_reply" where
  "generic_error_reply i =
     \<lparr>hr_status = 500,
      hr_content = envelope ''INTERNAL_SERVER_ERROR''
                     ''An unexpected error occurred. Raw exception details are withheld.'' i,
      hr_headers = []\<rparr>"

definition refuse_with :: "exc \<Rightarrow> http_outcome tx" where
  "refuse_with e =
     tx_bind uuid4 (\<lambda>i.
       case error_reply i e of Some reply \<Rightarrow> tx_return (Refusal reply) | None \<Rightarrow> tx_raise e)"

text \<open>A handler that answers \<open>st\<close> when the service returns.\<close>

definition responds :: "nat \<Rightarrow> 'a tx \<Rightarrow> http_outcome tx" where
  "responds st m = tx_catch (tx_bind m (\<lambda>_. tx_return (Success st))) refuse_with"

text \<open>What a pure check decides: the exception, the reply, or to go on.\<close>

definition checked :: "pystr + http_reply option \<Rightarrow> http_outcome tx \<Rightarrow> http_outcome tx" where
  "checked r m =
     (case r of
        Inl cls \<Rightarrow> tx_raise (Py_error cls [])
      | Inr (Some reply) \<Rightarrow> tx_return (Refusal reply)
      | Inr None \<Rightarrow> m)"

section \<open>The reviewer's credential\<close>

definition word_char :: "char \<Rightarrow> bool" where
  "word_char c =
     (let n = (of_char c :: nat)
      in (48 \<le> n \<and> n \<le> 57) \<or> (65 \<le> n \<and> n \<le> 90) \<or> (97 \<le> n \<and> n \<le> 122) \<or> n = 95
         \<or> n \<in> {170, 178, 179, 181, 185, 186, 188, 189, 190}
         \<or> (192 \<le> n \<and> n \<noteq> 215 \<and> n \<noteq> 247))"

definition clean_identity :: "pystr \<Rightarrow> pystr" where
  "clean_identity s =
     strip (take 64 (filter (\<lambda>c. word_char c \<or> py_space c \<or> c \<in> set ''-.()@'') s))"

text \<open>The label of a resolution when the server has no credential at all.\<close>

definition unauthenticated_reviewer :: "http_app \<Rightarrow> http_request \<Rightarrow> resolve_body option \<Rightarrow> pystr" where
  "unauthenticated_reviewer A q body =
     (let from_body = (case body of
            None \<Rightarrow> []
          | Some b \<Rightarrow> if truthy (rb_reviewer_id b) then clean_identity (or_empty (rb_reviewer_id b)) else []);
          candidate = (if from_body = [] \<and> truthy (hq_header q ''x-reviewer-id'')
                       then clean_identity (or_empty (hq_header q ''x-reviewer-id'')) else from_body)
      in if active_reviewer_identity A \<noteq> [] then active_reviewer_identity A
         else if candidate \<noteq> []
              \<and> lower candidate \<notin> {''agent'', ''agent-authored'', ''model'', ''assistant''}
              then candidate
         else DEMO_REVIEWER_ID)"

definition auth_configured :: "http_app \<Rightarrow> bool" where
  "auth_configured A \<longleftrightarrow>
     active_api_key A \<noteq> [] \<or> gc_token (ha_guards A) \<noteq> [] \<or> gc_enabled (ha_guards A)
     \<or> reviewer_token_expected (ha_env A) \<noteq> []"

text \<open>\<open>(key and token_matches(rev, key)) or (demo and token_matches(rev, demo))\<close>.\<close>

definition is_agent_credential :: "http_app \<Rightarrow> pystr option \<Rightarrow> pystr + bool" where
  "is_agent_credential A rev_tok =
     sum_bind (if active_api_key A = [] then Inr False else token_matches rev_tok (active_api_key A)) (\<lambda>k.
       if k then Inr True
       else if gc_token (ha_guards A) = [] then Inr False
       else token_matches rev_tok (gc_token (ha_guards A)))"

definition resolver_label :: "http_app \<Rightarrow> pystr \<Rightarrow> pystr" where
  "resolver_label A rev_tok =
     (if active_reviewer_identity A \<noteq> [] then active_reviewer_identity A
      else ''reviewer-'' @ ha_fingerprint A rev_tok)"

text \<open>With a credential configured: the offered one against the reviewer's.\<close>

definition judge_reviewer :: "http_app \<Rightarrow> http_request \<Rightarrow> pystr + (http_reply + pystr)" where
  "judge_reviewer A q =
     (let rev_tok = extract_reviewer_token q
      in sum_bind (given_matches rev_tok (reviewer_token_expected (ha_env A))) (\<lambda>good.
         if good then Inr (Inr (resolver_label A (or_empty rev_tok)))
         else if truthy (hq_header q ''x-demo-token'') \<or> truthy (hq_header q ''x-api-key'') then
           Inr (Inl (reviewer_required agent_not_permitted))
         else if \<not> truthy rev_tok then
           Inr (Inl (flat_error 401 ''reviewer_credential_required''
                       ''Reviewer credential required to resolve approvals.''))
         else
           Inr (Inl (flat_error 403 ''invalid_reviewer_credential'' ''Invalid reviewer credential.''))))"

definition offered_agent_credential :: "http_app \<Rightarrow> http_request \<Rightarrow> pystr + bool" where
  "offered_agent_credential A q =
     (if truthy (extract_reviewer_token q) then is_agent_credential A (extract_reviewer_token q)
      else Inr False)"

definition verify_reviewer_auth ::
  "http_app \<Rightarrow> http_request \<Rightarrow> resolve_body option \<Rightarrow> pystr + (http_reply + pystr)" where
  "verify_reviewer_auth A q body =
     sum_bind (offered_agent_credential A q) (\<lambda>agent.
       if agent then Inr (Inl (reviewer_required agent_not_permitted))
       else if \<not> auth_configured A then Inr (Inr (unauthenticated_reviewer A q body))
       else if reviewer_token_expected (ha_env A) = [] then
         Inr (Inl (reviewer_required
           (''Reviewer credential is required to resolve approvals, but ''
            @ ''SCOPEWATCH_REVIEWER_TOKEN is not configured on the server.'')))
       else judge_reviewer A q)"

definition resolve_route ::
  "http_app \<Rightarrow> gateway \<Rightarrow> http_request \<Rightarrow> pystr \<Rightarrow> bool \<Rightarrow> resolve_body option \<Rightarrow> http_outcome tx" where
  "resolve_route A g q k approve body =
     (case verify_reviewer_auth A q body of
        Inl cls \<Rightarrow> tx_raise (Py_error cls [])
      | Inr (Inl reply) \<Rightarrow> tx_return (Refusal reply)
      | Inr (Inr reviewer) \<Rightarrow>
          responds 200
            (resolve_approval g k approve reviewer
               (case body of None \<Rightarrow> None | Some b \<Rightarrow> rb_resolution_reason b)))"

section \<open>Demo administration\<close>

definition demo_admin_refusal :: "http_app \<Rightarrow> http_request \<Rightarrow> pystr + http_reply option" where
  "demo_admin_refusal A q =
     (let exp_rev = reviewer_token_expected (ha_env A); rev_tok = extract_reviewer_token q
      in if \<not> active_allow_demo_reset A then
           Inr (Some (flat_error 403 ''reset_disabled''
             ''Demo reset/reseed is disabled. Set SCOPEWATCH_ALLOW_RESET=true to enable.''))
         else if \<not> auth_configured A then Inr None
         else if exp_rev = [] then
           Inr (Some (reviewer_required
             (''Reviewer credential required for demo reset, but ''
              @ ''SCOPEWATCH_REVIEWER_TOKEN is not configured on the server.'')))
         else
           sum_bind (offered_agent_credential A q) (\<lambda>agent.
             if agent then
               Inr (Some (reviewer_required
                 ''Reviewer credential required for demo reset; agent credentials are not permitted.''))
             else
               sum_bind (given_matches rev_tok exp_rev) (\<lambda>good.
                 if \<not> good then
                   Inr (Some (reviewer_required ''Reviewer credential required for demo reset.''))
                 else Inr None)))"

definition clear_demo_tx :: "http_reply option tx" where
  "clear_demo_tx =
     tx_bind (has_in_flight_executions None) (\<lambda>busy.
       if busy then
         tx_return (Some (flat_error 409 ''execution_in_flight''
           ''Cannot reset demo while action execution is in flight.''))
       else
         tx_bind (query (\<lambda>s. filter (\<lambda>p. app_status p = AS_PENDING) (approvals_t s))) (\<lambda>pending.
           if pending \<noteq> [] then
             tx_return (Some (flat_error 409 ''pending_approvals''
               ''Resolve pending approvals before resetting. Reset never approves or denies them.''))
           else
             tx_bind (update_db (\<lambda>s. empty_store)) (\<lambda>_. tx_return None)))"

definition clear_demo :: "http_outcome tx" where
  "clear_demo =
     tx_catch
       (tx_bind (db_transaction clear_demo_tx) (\<lambda>r.
          case r of Some reply \<Rightarrow> tx_return (Refusal reply) | None \<Rightarrow> tx_return (Success 200)))
       refuse_with"

definition reset_demo :: "http_app \<Rightarrow> gateway \<Rightarrow> http_request \<Rightarrow> http_outcome tx" where
  "reset_demo A g q =
     checked (demo_admin_refusal A q)
       (tx_catch (tx_bind (reconcile_expired_approvals g None) (\<lambda>_. clear_demo)) refuse_with)"

text \<open>The scenario file and the offline auditor are arguments of the seed.\<close>

record demo_scenario =
  ds_scope :: task_scope
  ds_action :: submit_request
  ds_audit :: "run \<Rightarrow> action \<Rightarrow> pystr \<Rightarrow> pystr \<Rightarrow> action list \<Rightarrow> ledger \<Rightarrow> audit_result \<times> ledger"

definition seed_judge_review :: "demo_scenario \<Rightarrow> gateway \<Rightarrow> pystr tx" where
  "seed_judge_review ds g =
     tx_bind utc_now (\<lambda>now.
     tx_bind (create_run_service g ''06 Invoice injection (synthetic mock replay)''
                ((ds_scope ds)\<lparr>require_reasoning_for := [''write_text''], ts_created_at := now\<rparr>)
                None None) (\<lambda>(r, _).
     tx_bind (submit_action (g\<lparr>gw_audit := ds_audit ds\<rparr>) (run_key r) (ds_action ds) None) (\<lambda>_.
       tx_return (run_key r))))"

definition reseed_demo ::
  "http_app \<Rightarrow> demo_scenario \<Rightarrow> gateway \<Rightarrow> http_request \<Rightarrow> http_outcome tx" where
  "reseed_demo A ds g q =
     checked (demo_admin_refusal A q)
       (tx_bind list_runs (\<lambda>rs.
          if rs \<noteq> [] then
            tx_return (Refusal (flat_error 409 ''demo_not_empty''
              (''Resolve pending approvals and reset before reseeding. ''
               @ ''Existing evidence is preserved.'')))
          else responds 200 (seed_judge_review ds g)))"

section \<open>The routes\<close>

fun handle :: "http_app \<Rightarrow> demo_scenario \<Rightarrow> gateway \<Rightarrow> http_request \<Rightarrow> http_call \<Rightarrow> http_outcome tx" where
  "handle A ds g q Call_health = tx_return (Success 200)"
| "handle A ds g q (Call_demo_reset alias) = reset_demo A g q"
| "handle A ds g q Call_demo_reseed = reseed_demo A ds g q"
| "handle A ds g q Call_list_runs = responds 200 list_runs"
| "handle A ds g q (Call_create_run name sc prompt) =
     responds 201 (create_run_service g name sc (Some (request_client_ip q)) prompt)"
| "handle A ds g q (Call_get_run k) = responds 200 (get_run_service k)"
| "handle A ds g q (Call_update_run k v) =
     (if truthy v then responds 200 (set_run_prompt_version k (or_empty v))
      else responds 200 (get_run_service k))"
| "handle A ds g q (Call_complete k budget) = responds 200 (complete_run k budget)"
| "handle A ds g q (Call_fail k reason) =
     responds 200 (fail_run k (if truthy reason then or_empty reason else ''Agent execution failed.''))"
| "handle A ds g q (Call_submit k sr) = responds 201 (submit_action g k sr (hq_header q CAPTURE_TOKEN_HEADER))"
| "handle A ds g q (Call_preview k sr) = responds 200 (preview_action g k sr)"
| "handle A ds g q (Call_get_action k a) = responds 200 (get_action k a)"
| "handle A ds g q (Call_list_approvals st k) = responds 200 (list_approvals_service g st k)"
| "handle A ds g q (Call_list_run_approvals k st) =
     responds 200 (tx_bind (get_run_service k) (\<lambda>_. list_approvals_service g st (Some k)))"
| "handle A ds g q (Call_expire k) = responds 200 (expire_approval_wait g k)"
| "handle A ds g q (Call_approve k body) = resolve_route A g q k True body"
| "handle A ds g q (Call_deny k body) = resolve_route A g q k False body"
| "handle A ds g q (Call_events k after lim) =
     responds 200 (tx_bind (get_run_service k) (\<lambda>_. get_events_service k after lim))"

text \<open>
  The stack, outermost first: the generic error handler, the demo token, the API key, the cross-origin
  guard, the security headers around the route. Only replies from inside the last one carry them.
\<close>

definition with_headers :: "(pystr \<times> pystr) list \<Rightarrow> http_outcome \<Rightarrow> http_outcome" where
  "with_headers hs out =
     (case out of Refusal r \<Rightarrow> Refusal (r\<lparr>hr_headers := hr_headers r @ hs\<rparr>) | Success st \<Rightarrow> Success st)"

definition guarded_call ::
  "http_app \<Rightarrow> demo_scenario \<Rightarrow> gateway \<Rightarrow> http_request \<Rightarrow> http_call \<Rightarrow> http_outcome tx" where
  "guarded_call A ds g q call =
     checked (demo_token_middleware A q)
       (checked (api_key_middleware A q)
          (checked (cross_origin_guard A q)
             (tx_bind (handle A ds g q call) (\<lambda>out.
                tx_return (with_headers (security_headers A q) out)))))"

definition serve_http ::
  "http_app \<Rightarrow> demo_scenario \<Rightarrow> gateway \<Rightarrow> http_request \<Rightarrow> http_call \<Rightarrow> http_outcome tx" where
  "serve_http A ds g q call =
     tx_catch (guarded_call A ds g q call)
       (\<lambda>e. tx_bind uuid4 (\<lambda>i. tx_return (Refusal (generic_error_reply i))))"


section \<open>What reaches the service\<close>

lemma sum_bind_Inr: "sum_bind r f = Inr y \<longleftrightarrow> (\<exists>x. r = Inr x \<and> f x = Inr y)"
  by (cases r) (auto simp: sum_bind_def)

lemma given_matches_True:
  "given_matches p e = Inr True \<longleftrightarrow>
     e \<noteq> [] \<and> truthy p \<and> strip (or_empty p) = e \<and> py_ascii e"
  by (auto simp: given_matches_def token_matches_def compare_digest_Inr)

lemma given_matches_False: "given_matches p e = Inr False \<Longrightarrow> e \<noteq> [] \<Longrightarrow> truthy p \<Longrightarrow> strip (or_empty p) \<noteq> e"
  by (auto simp: given_matches_def token_matches_def compare_digest_Inr split: if_splits)

lemma checked_runs:
  "db (snd (checked r m w)) \<noteq> db w \<Longrightarrow> r = Inr None \<and> db (snd (checked r m w)) = db (snd (m w))"
  by (auto simp: checked_def split: sum.splits option.splits)

lemma tx_bind_db: "(\<And>x. keeps (=) (f x)) \<Longrightarrow> db (snd (tx_bind m f w)) = db (snd (m w))"
  by (auto simp: tx_bind_def keeps_def split: prod.split sum.split)

lemma tx_catch_db: "(\<And>e. keeps (=) (f e)) \<Longrightarrow> db (snd (tx_catch m f w)) = db (snd (m w))"
  by (auto simp: tx_catch_def keeps_def split: prod.split sum.split)

lemma refuse_same: "keeps (=) (refuse_with e)"
  unfolding refuse_with_def by (intro same.keeps_rules)

lemma responds_db: "db (snd (responds st m w)) = db (snd (m w))"
  unfolding responds_def by (subst tx_catch_db[OF refuse_same]) (rule tx_bind_db, rule same.keeps_return)

lemma serve_http_reaches:
  assumes "serve_http A ds g q call w = (res, w')" and "db w' \<noteq> db w"
  shows "demo_token_middleware A q = Inr None \<and> api_key_middleware A q = Inr None
    \<and> cross_origin_guard A q = Inr None \<and> db w' = db (snd (handle A ds g q call w))"
proof -
  have keep: "keeps (=) (tx_bind uuid4 (\<lambda>i. tx_return (Refusal (generic_error_reply i))))"
    "keeps (=) (tx_return (with_headers hs out))" for hs out
    by (intro same.keeps_rules)+
  have "db (snd (serve_http A ds g q call w)) = db (snd (guarded_call A ds g q call w))"
    unfolding serve_http_def by (rule tx_catch_db) (rule keep)
  with assms(1) have w': "db w' = db (snd (guarded_call A ds g q call w))" by simp
  have h: "db (snd (tx_bind (handle A ds g q call) (\<lambda>out. tx_return (with_headers (security_headers A q) out)) w))
      = db (snd (handle A ds g q call w))"
    by (rule tx_bind_db[OF keep(2)])
  from assms(2) w' show ?thesis
    unfolding guarded_call_def
    by (metis checked_runs h)
qed


section \<open>Credentials\<close>

text \<open>The request carries the reviewer's token, which is no agent credential.\<close>

definition presents_reviewer :: "http_app \<Rightarrow> http_request \<Rightarrow> bool" where
  "presents_reviewer A q \<longleftrightarrow>
     (let t = strip (or_empty (extract_reviewer_token q))
      in t \<noteq> [] \<and> t = reviewer_token_expected (ha_env A)
         \<and> t \<noteq> active_api_key A \<and> t \<noteq> gc_token (ha_guards A))"

lemma not_agent:
  assumes "is_agent_credential A p = Inr False" and "truthy p"
  shows "(active_api_key A \<noteq> [] \<longrightarrow> strip (or_empty p) \<noteq> active_api_key A)
       \<and> (gc_token (ha_guards A) \<noteq> [] \<longrightarrow> strip (or_empty p) \<noteq> gc_token (ha_guards A))"
  using assms
  by (auto simp: is_agent_credential_def sum_bind_Inr token_matches_def compare_digest_Inr split: if_splits)

lemma reviewer_good:
  assumes "offered_agent_credential A q = Inr False"
    and "given_matches (extract_reviewer_token q) (reviewer_token_expected (ha_env A)) = Inr True"
  shows "presents_reviewer A q"
  using assms not_agent[of A "extract_reviewer_token q"]
  by (auto simp: presents_reviewer_def given_matches_True offered_agent_credential_def Let_def)

lemma judge_reviewer_Inr:
  "judge_reviewer A q = Inr (Inr who) \<Longrightarrow>
     given_matches (extract_reviewer_token q) (reviewer_token_expected (ha_env A)) = Inr True
     \<and> who = resolver_label A (or_empty (extract_reviewer_token q))"
  by (auto simp: judge_reviewer_def Let_def sum_bind_Inr split: if_splits)

lemma verify_reviewer_Inr:
  assumes "verify_reviewer_auth A q body = Inr (Inr who)" and "auth_configured A"
  shows "presents_reviewer A q \<and> who = resolver_label A (or_empty (extract_reviewer_token q))"
proof -
  from assms(1) obtain agent where a: "offered_agent_credential A q = Inr agent"
    and r: "(if agent then Inr (Inl (reviewer_required agent_not_permitted))
       else if \<not> auth_configured A then Inr (Inr (unauthenticated_reviewer A q body))
       else if reviewer_token_expected (ha_env A) = [] then
         Inr (Inl (reviewer_required
           (''Reviewer credential is required to resolve approvals, but ''
            @ ''SCOPEWATCH_REVIEWER_TOKEN is not configured on the server.'')))
       else judge_reviewer A q) = Inr (Inr who)"
    unfolding verify_reviewer_auth_def sum_bind_Inr by blast
  from r assms(2) have "\<not> agent" and "judge_reviewer A q = Inr (Inr who)"
    by (simp_all split: if_splits)
  with a reviewer_good judge_reviewer_Inr show ?thesis by simp
qed

lemma admin_Inr:
  assumes "demo_admin_refusal A q = Inr None"
  shows "active_allow_demo_reset A \<and> (auth_configured A \<longrightarrow> presents_reviewer A q)"
  using assms reviewer_good[of A q]
  by (auto simp: demo_admin_refusal_def Let_def sum_bind_Inr split: if_splits)

section \<open>Properties\<close>

definition reason_of :: "resolve_body option \<Rightarrow> pystr option" where
  "reason_of body = (case body of None \<Rightarrow> None | Some b \<Rightarrow> rb_resolution_reason b)"

text \<open>
  C2: with any credential configured, only the reviewer resolves. If a request to approve or deny
  changes the database, whatever path and headers the framework reports for it, then it presented the
  configured reviewer token, which is neither the agents' API key nor the demo token; what happened
  is the resolution under the label of the server's reviewer identity or of the token's
  fingerprint, never a name the request chose.
\<close>

theorem only_the_reviewer_resolves:
  assumes "serve_http A ds g q call w = (res, w')" and "db w' \<noteq> db w" and "auth_configured A"
    and "call = (if approve then Call_approve k body else Call_deny k body)"
  shows "presents_reviewer A q
       \<and> db w' = db (snd (resolve_approval g k approve
                             (resolver_label A (or_empty (extract_reviewer_token q))) (reason_of body) w))"
proof -
  from serve_http_reaches[OF assms(1,2)] have h: "db w' = db (snd (resolve_route A g q k approve body w))"
    unfolding assms(4) by (simp split: if_splits)
  with assms(2) obtain who where who: "verify_reviewer_auth A q body = Inr (Inr who)"
    by (auto simp: resolve_route_def split: sum.splits)
  with h have "db w' = db (snd (resolve_approval g k approve who (reason_of body) w))"
    by (simp add: resolve_route_def responds_db reason_of_def)
  with verify_reviewer_Inr[OF who assms(3)] show ?thesis by simp
qed


lemma call_path_mutating:
  "call_method call \<noteq> ''GET'' \<Longrightarrow> is_mutating_api_call (call_method call) (call_path call)"
proof -
  have m: "py_upper ''POST'' \<in> set MUTATING_METHODS" "py_upper ''PATCH'' \<in> set MUTATING_METHODS"
    by code_simp+
  assume "call_method call \<noteq> ''GET''"
  with m show ?thesis by (cases call) (simp_all add: is_mutating_api_call_def starts_with_def)
qed

text \<open>The shared secret of the mode the server runs in, or the reviewer's.\<close>

definition carries_credential :: "http_app \<Rightarrow> http_request \<Rightarrow> bool" where
  "carries_credential A q \<longleftrightarrow>
     (let rev_tok = strip (or_empty (extract_reviewer_token q)); exp_rev = reviewer_token_expected (ha_env A);
          reviewer = (exp_rev \<noteq> [] \<and> rev_tok = exp_rev)
      in if gc_enabled (ha_guards A)
         then reviewer \<or> (gc_token (ha_guards A) \<noteq> []
                \<and> strip (or_empty (hq_header q ''x-demo-token'')) = gc_token (ha_guards A))
         else active_api_key A = [] \<or> reviewer
              \<or> strip (or_empty (hq_header q ''x-api-key'')) = active_api_key A)"

definition same_site :: "http_app \<Rightarrow> http_request \<Rightarrow> bool" where
  "same_site A q \<longleftrightarrow>
     lower (or_empty (hq_header q ''sec-fetch-site'')) \<noteq> ''cross-site''
     \<and> (truthy (hq_header q ''origin'') \<longrightarrow> origin_allowed A q (or_empty (hq_header q ''origin'')) = Inr True)"

lemma check_token_allowed:
  assumes "check_token cfg p = Inr d" and "gd_allowed d" and "gc_enabled cfg"
  shows "gc_token cfg \<noteq> [] \<and> strip (or_empty p) = gc_token cfg"
  using assms
  by (auto simp: check_token_def guard_deny_def token_matches_def compare_digest_Inr
      split: if_splits sum.splits bool.splits)

lemma demo_middleware_admits:
  assumes "demo_token_middleware A q = Inr None" and "gc_enabled (ha_guards A)"
    and "is_mutating_api_call (hq_method q) (hq_url_path q)"
  shows "carries_credential A q"
proof -
  from assms obtain d where d: "check_token (ha_guards A) (hq_header q ''x-demo-token'') = Inr d"
    and r: "gd_allowed d \<or> (reviewer_token_expected (ha_env A) \<noteq> []
        \<and> given_matches (extract_reviewer_token q) (reviewer_token_expected (ha_env A)) = Inr True)"
    by (auto simp: demo_token_middleware_def Let_def sum_bind_Inr split: if_splits)
  from r show ?thesis
  proof
    assume "gd_allowed d"
    from check_token_allowed[OF d this assms(2)] assms(2) show ?thesis by (simp add: carries_credential_def Let_def)
  qed (auto simp: carries_credential_def Let_def given_matches_True assms(2))
qed

lemma api_middleware_admits:
  assumes "api_key_middleware A q = Inr None" and "\<not> gc_enabled (ha_guards A)"
    and "is_mutating_api_call (hq_method q) (hq_url_path q)"
  shows "carries_credential A q"
proof (cases "active_api_key A = []")
  case False
  with assms obtain a r where "given_matches (hq_header q ''x-api-key'') (active_api_key A) = Inr a"
    and "(if reviewer_token_expected (ha_env A) = [] then Inr False
          else given_matches (extract_reviewer_token q) (reviewer_token_expected (ha_env A))) = Inr r" and "a \<or> r"
    by (auto simp: api_key_middleware_def Let_def sum_bind_Inr split: if_splits)
  then show ?thesis
    by (cases a) (auto simp: carries_credential_def Let_def given_matches_True assms(2) split: if_splits)
qed (simp add: carries_credential_def assms(2))

lemma cross_origin_admits:
  assumes "cross_origin_guard A q = Inr None" and "is_mutating_api_call (hq_method q) (hq_url_path q)"
  shows "same_site A q \<and> content_type_guard q = None"
  using assms by (auto simp: cross_origin_guard_def same_site_def sum_bind_Inr split: if_splits)

lemma json_only:
  "content_type_guard q = None \<Longrightarrow> resolves_approval (hq_url_path q) \<Longrightarrow>
     lower (strip (hd (split_on (CHR '';'') (or_empty (hq_header q ''content-type''))))) = ''application/json''"
  by (auto simp: content_type_guard_def Let_def split: if_splits)

text \<open>
  C3: no state-changing call gets past the gate without admission. If a call of another method than GET
  changes the database, and the framework reports its own path and method for it, then it carried the
  credential of the server's mode (the demo token, or outside demo mode the API key when there is one)
  or the reviewer's token; it was not a cross-site request and named no foreign origin; and a
  resolution had a JSON body, so that no plain form post reaches it.
\<close>

theorem effects_need_admission:
  assumes "serve_http A ds g q call w = (res, w')" and "db w' \<noteq> db w"
    and "hq_method q = call_method call" and "hq_url_path q = call_path call"
    and "call_method call \<noteq> ''GET''"
  shows "carries_credential A q \<and> same_site A q
       \<and> (if resolves_approval (call_path call)
          then lower (strip (hd (split_on (CHR '';'') (or_empty (hq_header q ''content-type'')))))
                 = ''application/json''
          else True)"
proof -
  from call_path_mutating[OF assms(5)] have m: "is_mutating_api_call (hq_method q) (hq_url_path q)"
    unfolding assms(3,4) .
  from serve_http_reaches[OF assms(1,2)] have d: "demo_token_middleware A q = Inr None"
    and k: "api_key_middleware A q = Inr None" and x: "cross_origin_guard A q = Inr None" by auto
  have "carries_credential A q"
    using demo_middleware_admits[OF d _ m] api_middleware_admits[OF k _ m] by blast
  with cross_origin_admits[OF x m] json_only[of q] assms(4) show ?thesis by simp
qed


text \<open>No review and no execution is open anywhere in the database.\<close>

definition idle :: "store \<Rightarrow> bool" where
  "idle s \<longleftrightarrow>
     (\<forall>p \<in> set (approvals_t s). app_status p \<noteq> AS_PENDING \<and> app_status p \<noteq> AS_APPROVED)
     \<and> (\<forall>e \<in> set (events_t s). \<forall>a. ev_type e = EV_EXECUTION_STARTED \<and> ev_action_id e = Some a \<longrightarrow>
          (\<exists>f \<in> set (events_t s). ev_action_id f = Some a
             \<and> (ev_type f = EV_EXECUTION_SUCCEEDED \<or> ev_type f = EV_EXECUTION_FAILED)))"

lemma has_in_flight_none:
  assumes "has_in_flight_executions None w = (Inr False, w')"
  shows "w' = w \<and> (\<forall>p \<in> set (approvals_t (db w)). app_status p \<noteq> AS_APPROVED)
    \<and> set (List.map_filter (\<lambda>e. if ev_type e = EV_EXECUTION_STARTED then ev_action_id e else None) (events_t (db w)))
      \<subseteq> set (List.map_filter (\<lambda>e. if ev_type e = EV_EXECUTION_SUCCEEDED \<or> ev_type e = EV_EXECUTION_FAILED
                         then ev_action_id e else None) (events_t (db w)))"
proof -
  have l: "list_approvals None None (Some AS_APPROVED) w
      = (Inr (map (approval_from_row (db w)) (newest_first (filter (\<lambda>p. app_status p = AS_APPROVED) (approvals_t (db w))))), w)"
    by (simp add: list_approvals_def)
  have n: "newest_first ps = [] \<longleftrightarrow> ps = []" for ps by (auto simp: newest_first_def dest: arg_cong[of _ _ set])
  from assms show ?thesis
    by (auto simp: has_in_flight_executions_def tx_bind_Inr l n in_flight_action_ids_def truthy_def
        filter_empty_conv split: if_splits)
qed

lemma map_filter_in: "a \<in> set (List.map_filter f xs) \<longleftrightarrow> (\<exists>x \<in> set xs. f x = Some a)"
  by (force simp: List.map_filter_def)

lemma clear_demo_tx_Inr:
  assumes "clear_demo_tx w = (Inr None, w')"
  shows "idle (db w) \<and> db w' = empty_store"
proof -
  from assms obtain w1 where f: "has_in_flight_executions None w = (Inr False, w1)"
    by (auto simp: clear_demo_tx_def tx_bind_Inr split: if_splits)
  with assms have "db w' = empty_store" "\<forall>p \<in> set (approvals_t (db w)). app_status p \<noteq> AS_PENDING"
    using has_in_flight_none[OF f]
    by (auto simp: clear_demo_tx_def tx_bind_Inr filter_empty_conv split: if_splits)
  moreover have "\<exists>x \<in> set (events_t (db w)). ev_action_id x = Some a
      \<and> (ev_type x = EV_EXECUTION_SUCCEEDED \<or> ev_type x = EV_EXECUTION_FAILED)"
    if "e \<in> set (events_t (db w))" "ev_type e = EV_EXECUTION_STARTED" "ev_action_id e = Some a" for e a
  proof -
    have "a \<in> set (List.map_filter (\<lambda>e. if ev_type e = EV_EXECUTION_STARTED then ev_action_id e else None) (events_t (db w)))"
      using that by (auto simp: map_filter_in)
    with has_in_flight_none[OF f] have "a \<in> set (List.map_filter (\<lambda>e. if ev_type e = EV_EXECUTION_SUCCEEDED
        \<or> ev_type e = EV_EXECUTION_FAILED then ev_action_id e else None) (events_t (db w)))" by blast
    then show ?thesis by (auto simp: map_filter_in split: if_splits)
  qed
  ultimately show ?thesis using has_in_flight_none[OF f] unfolding idle_def by blast
qed

lemma clear_demo_tx_refuses: "clear_demo_tx w = (Inr (Some r), w') \<Longrightarrow> db w' = db w"
  by (auto simp: clear_demo_tx_def tx_bind_Inr has_in_flight_executions_def list_approvals_def
      in_flight_action_ids_def truthy_def split: if_splits)

lemma clear_demo_db: "db (snd (clear_demo w)) = db w \<or> (idle (db w) \<and> db (snd (clear_demo w)) = empty_store)"
proof -
  obtain r v where t: "clear_demo_tx w = (r, v)" by fastforce
  have d: "db (snd (clear_demo w)) = db (snd (db_transaction clear_demo_tx w))"
    unfolding clear_demo_def by (subst tx_catch_db[OF refuse_same]) (rule tx_bind_db, simp add: same.keeps_rules split: option.split)
  show ?thesis
  proof (cases r)
    case (Inl e)
    with t have "db (snd (db_transaction clear_demo_tx w)) = db w" by (simp add: db_transaction_def)
    with d show ?thesis by simp
  next
    case (Inr x)
    with t have v: "db (snd (clear_demo w)) = db v" using d by (simp add: db_transaction_def)
    show ?thesis
    proof (cases x)
      case None
      with clear_demo_tx_Inr t Inr v show ?thesis by simp
    next
      case (Some y)
      with clear_demo_tx_refuses t Inr v show ?thesis by simp
    qed
  qed
qed

lemma reset_outcome:
  assumes "serve_http A ds g q (Call_demo_reset alias) w = (res, w')" and "db w' \<noteq> db w"
  shows "active_allow_demo_reset A \<and> (\<not> auth_configured A \<or> presents_reviewer A q)
       \<and> (db w' = db (snd (reconcile_expired_approvals g None w))
          \<or> (idle (db (snd (reconcile_expired_approvals g None w))) \<and> db w' = empty_store))"
proof -
  from serve_http_reaches[OF assms] have h: "db w' = db (snd (reset_demo A g q w))" by simp
  with assms(2) have ne: "db (snd (reset_demo A g q w)) \<noteq> db w" by simp
  from checked_runs[OF ne[unfolded reset_demo_def]] have c: "demo_admin_refusal A q = Inr None" by simp
  have "db w' = db (snd (tx_catch (tx_bind (reconcile_expired_approvals g None) (\<lambda>_. clear_demo)) refuse_with w))"
    using h by (simp add: reset_demo_def c checked_def)
  also have "\<dots> = db (snd (tx_bind (reconcile_expired_approvals g None) (\<lambda>_. clear_demo) w))"
    by (rule tx_catch_db[OF refuse_same])
  finally have "db w' = db (snd (tx_bind (reconcile_expired_approvals g None) (\<lambda>_. clear_demo) w))" .
  then have "db w' = db (snd (reconcile_expired_approvals g None w))
      \<or> db w' = db (snd (clear_demo (snd (reconcile_expired_approvals g None w))))"
    by (auto simp: tx_bind_def split: prod.splits sum.splits)
  with clear_demo_db admin_Inr[OF c] show ?thesis by metis
qed


text \<open>
  C14: a demo reset spares open work. If a reset changes the database then resetting is enabled and,
  with any credential configured, the reviewer asked for it; and the outcome is either that of
  expiring the overdue approvals alone, or the empty database from one in which, after those expired,
  no approval is pending or granted and every started execution has its outcome.
\<close>

theorem reset_spares_open_work:
  assumes "serve_http A ds g q (Call_demo_reset alias) w = (res, w')" and "db w' \<noteq> db w"
  shows "active_allow_demo_reset A \<and> (\<not> auth_configured A \<or> presents_reviewer A q)
       \<and> (db w' = db (snd (reconcile_expired_approvals g None w))
          \<or> (idle (db (snd (reconcile_expired_approvals g None w))) \<and> db w' = empty_store))"
  using assms by (rule reset_outcome)

section \<open>Sequences of calls\<close>

context repository_contract
begin

lemma keeps_checked: "keeps R m \<Longrightarrow> keeps R (checked r m)"
  unfolding checked_def by (cases r) (auto intro!: keeps_all split: option.split)

lemma keeps_refuse: "keeps R (refuse_with e)"
  by (rule keeps_same[OF refuse_same])

lemma keeps_responds: "keeps R m \<Longrightarrow> keeps R (responds st m)"
  unfolding responds_def by (intro keeps_all keeps_refuse)

lemma keeps_resolve_route:
  assumes "EV = UNIV" "ST = UNIV" and "executor_backend (gw_execute g)"
  shows "keeps R (resolve_route A g q k approve body)"
  unfolding resolve_route_def
  by (intro keeps_all keeps_responds keeps_resolve assms) (simp_all add: assms)

lemma keeps_reseed:
  assumes "EV = UNIV" SUB "ST = UNIV" and "executor_backend (gw_execute g)"
  shows "keeps R (reseed_demo A ds g q)"
  unfolding reseed_demo_def seed_judge_review_def
  by (intro keeps_all keeps_checked keeps_responds keeps_create_run_service keeps_submit)
    (simp_all add: assms)

lemma keeps_handle:
  assumes "EV = UNIV" SUB "ST = UNIV" and "executor_backend (gw_execute g)"
    and "\<And>alias. call \<noteq> Call_demo_reset alias"
  shows "keeps R (handle A ds g q call)"
proof -
  have q: "desk_events \<subseteq> EV" "open_statuses \<subseteq> ST" using assms(1,3) by simp_all
  have fin: "keeps R (complete_run rid b)" "keeps R (fail_run rid x)" for rid b x
    unfolding complete_run_def fail_run_def by (rule keeps_close; simp add: assms)+
  have run: "keeps R (get_run_service k)" for k unfolding get_run_service_def by (rule keeps_require_run)
  note routes = keeps_all keeps_responds keeps_reseed keeps_create_run_service keeps_set_prompt keeps_preview
    keeps_submit keeps_resolve_route keeps_expire_wait keeps_list_approvals_service keeps_service_reads fin run assms q
  show ?thesis
  proof (cases call)
    case (Call_demo_reset b)
    with assms(5) show ?thesis by blast
  qed (simp_all only: handle.simps, (intro routes)+)
qed

lemma serve_http_keeps:
  assumes "EV = UNIV" SUB "ST = UNIV" and "executor_backend (gw_execute g)"
    and "\<And>alias. call \<noteq> Call_demo_reset alias"
  shows "R (db w) (db (snd (serve_http A ds g q call w)))"
proof (cases "db (snd (serve_http A ds g q call w)) = db w")
  case False
  obtain res w' where s: "serve_http A ds g q call w = (res, w')" by fastforce
  with False serve_http_reaches[OF s] have "db w' = db (snd (handle A ds g q call w))" by simp
  with keeps_handle[OF assms, of A ds q] s show ?thesis by (simp add: keeps_def)
qed (simp add: refl)

lemma reconcile_db: "EV = UNIV \<Longrightarrow> ST = UNIV \<Longrightarrow> R (db w) (db (snd (reconcile_expired_approvals g rid w)))"
  using keeps_reconcile[of g rid] by (simp add: keeps_def)

end

definition serve_calls ::
  "http_app \<Rightarrow> demo_scenario \<Rightarrow> gateway \<Rightarrow> (http_request \<times> http_call) list \<Rightarrow> world \<Rightarrow> world" where
  "serve_calls A ds g calls w = fold (\<lambda>(q, call) w. snd (serve_http A ds g q call w)) calls w"

lemma serve_calls_simps [simp]:
  "serve_calls A ds g [] w = w"
  "serve_calls A ds g (calls @ [(q, call)]) w = snd (serve_http A ds g q call (serve_calls A ds g calls w))"
  by (simp_all add: serve_calls_def)

definition evidence_kept :: "store \<Rightarrow> store \<Rightarrow> bool" where
  "evidence_kept s t \<longleftrightarrow> append_only s t \<and> approvals_forward s t"

lemma evidence_kept_refl: "evidence_kept s s"
  by (simp add: evidence_kept_def append.refl forward.refl)

lemma evidence_kept_trans: "evidence_kept s t \<Longrightarrow> evidence_kept t u \<Longrightarrow> evidence_kept s u"
  unfolding evidence_kept_def using append.trans forward.trans by blast

text \<open>An admitted reset of a demo in which, once the overdue approvals expired, nothing is open.\<close>

definition emptied_by :: "http_app \<Rightarrow> gateway \<Rightarrow> http_request \<times> http_call \<Rightarrow> world \<Rightarrow> world \<Rightarrow> bool" where
  "emptied_by A g c w w' \<longleftrightarrow>
     (\<exists>alias. snd c = Call_demo_reset alias) \<and> active_allow_demo_reset A
     \<and> (\<not> auth_configured A \<or> presents_reviewer A (fst c))
     \<and> idle (db (snd (reconcile_expired_approvals g None w))) \<and> db w' = empty_store"

lemma call_keeps_or_empties:
  assumes "executor_backend (gw_execute g)"
  shows "evidence_kept (db w) (db (snd (serve_http A ds g q call w)))
       \<or> emptied_by A g (q, call) w (snd (serve_http A ds g q call w))"
proof (cases "\<exists>alias. call = Call_demo_reset alias")
  case False
  then have n: "\<And>alias. call \<noteq> Call_demo_reset alias" by blast
  have "append_only (db w) (db (snd (serve_http A ds g q call w)))"
    by (rule append.serve_http_keeps[OF _ _ _ assms n]) simp_all
  moreover have "approvals_forward (db w) (db (snd (serve_http A ds g q call w)))"
    by (rule forward.serve_http_keeps[OF _ _ _ assms n]) simp_all
  ultimately show ?thesis by (simp add: evidence_kept_def)
next
  case True
  then obtain b where reset: "call = Call_demo_reset b" by blast
  obtain res w' where s: "serve_http A ds g q (Call_demo_reset b) w = (res, w')" by fastforce
  show ?thesis
  proof (cases "db w' = db w")
    case True
    with s reset show ?thesis by (simp add: evidence_kept_refl)
  next
    case False
    have "evidence_kept (db w) (db (snd (reconcile_expired_approvals g None w)))"
      by (simp add: evidence_kept_def append.reconcile_db forward.reconcile_db)
    with reset_outcome[OF s False] s reset show ?thesis by (auto simp: emptied_by_def)
  qed
qed

definition since_reset ::
  "http_app \<Rightarrow> demo_scenario \<Rightarrow> gateway \<Rightarrow> (http_request \<times> http_call) list \<Rightarrow> (http_request \<times> http_call) list \<Rightarrow> world \<Rightarrow> bool"
where
  "since_reset A ds g before calls w \<longleftrightarrow>
     evidence_kept (db (serve_calls A ds g before w)) (db (serve_calls A ds g calls w))
     \<and> (before = []
        \<or> (\<exists>earlier c. before = earlier @ [c]
             \<and> emptied_by A g c (serve_calls A ds g earlier w) (serve_calls A ds g before w)))"

lemma calls_since_reset:
  assumes "executor_backend (gw_execute g)"
  shows "\<exists>before after. calls = before @ after \<and> since_reset A ds g before calls w"
proof (induction calls rule: rev_induct)
  case Nil
  show ?case by (simp add: since_reset_def evidence_kept_refl)
next
  case (snoc c calls)
  obtain q call where c: "c = (q, call)" by fastforce
  let ?w = "serve_calls A ds g calls w"
  from call_keeps_or_empties[OF assms, of ?w A ds q call] show ?case
  proof
    assume "emptied_by A g (q, call) ?w (snd (serve_http A ds g q call ?w))"
    then have "since_reset A ds g (calls @ [c]) (calls @ [c]) w"
      unfolding since_reset_def by (auto simp: c evidence_kept_refl)
    then show ?thesis by (metis append_Nil2)
  next
    assume step: "evidence_kept (db ?w) (db (snd (serve_http A ds g q call ?w)))"
    from snoc.IH obtain before after where b: "calls = before @ after" "since_reset A ds g before calls w" by blast
    have "since_reset A ds g before (calls @ [c]) w"
      using b(2) step unfolding since_reset_def by (auto simp: c intro: evidence_kept_trans)
    with b(1) show ?thesis by (metis append.assoc)
  qed
qed

text \<open>
  C24: the evidence is append-only and an approval never goes back, but for an admitted demo reset. After any
  sequence of HTTP calls there is a point, the beginning or an admitted reset that emptied a database
  with nothing open, since which the action, decision, audit, receipt and event tables were only
  extended; an approval keeps its identity, moves only from PENDING to a resolution and from APPROVED to
  CONSUMED, and what its resolution recorded (who, when, why) is never rewritten.
\<close>

theorem requests_only_append_evidence:
  assumes "executor_backend (gw_execute g)"
  shows "\<exists>before after.
      calls = before @ after
      \<and> append_only (db (serve_calls A ds g before w)) (db (serve_calls A ds g calls w))
      \<and> approvals_forward (db (serve_calls A ds g before w)) (db (serve_calls A ds g calls w))
      \<and> (before = []
         \<or> (\<exists>earlier c. before = earlier @ [c]
              \<and> emptied_by A g c (serve_calls A ds g earlier w) (serve_calls A ds g before w)))"
  using calls_since_reset[OF assms, of calls A ds w] unfolding since_reset_def evidence_kept_def by blast

section \<open>The hypotheses can hold\<close>

text \<open>A server with an API key and a reviewer token, and a run with a held write.\<close>

definition demo_app :: http_app where
  "demo_app =
     \<lparr>ha_imported = (\<lambda>_. None),
      ha_env = [''SCOPEWATCH_API_KEY'' \<mapsto> ''key'', ''SCOPEWATCH_REVIEWER_TOKEN'' \<mapsto> ''rev'',
                ''SCOPEWATCH_ALLOW_RESET'' \<mapsto> ''true''],
      ha_guards = default_guards, ha_fingerprint = id, ha_bracketed_host = (\<lambda>_. False)\<rparr>"

definition demo_scenario_none :: demo_scenario where
  "demo_scenario_none =
     \<lparr>ds_scope = demo_scope, ds_action = demo_submit ''write_text'' ''a'' [], ds_audit = gw_audit demo_gateway\<rparr>"

definition demo_deny_request :: http_request where
  "demo_deny_request =
     \<lparr>hq_method = ''POST'', hq_url_path = call_path (Call_deny ''id6'' None), hq_scheme = ''http'',
      hq_base_url = ''http://h/'',
      hq_header = [''x-reviewer-token'' \<mapsto> '' rev'', ''content-type'' \<mapsto> ''application/json''],
      hq_peer = None\<rparr>"

definition demo_held :: world where
  "demo_held =
     serve demo_gateway
       (Req_submit ''r1'' (demo_submit ''write_text'' ''outputs/a.txt'' [(''content'', JStr ''hi'')]) None)
       (demo_world demo_store)"

definition demo_denied :: "(exc + http_outcome) \<times> world" where
  "demo_denied = serve_http demo_app demo_scenario_none demo_gateway demo_deny_request (Call_deny ''id6'' None) demo_held"

lemma demo_denied_status:
  "map app_status (approvals_t (db demo_held)) = [AS_PENDING]"
  "map app_status (approvals_t (db (snd demo_denied))) = [AS_DENIED]"
  by code_simp+

lemma demo_denied_changes: "db (snd demo_denied) \<noteq> db demo_held"
  using demo_denied_status by auto

theorem only_the_reviewer_resolves_witness:
  "presents_reviewer demo_app demo_deny_request"
proof -
  have "auth_configured demo_app" by code_simp
  with only_the_reviewer_resolves[of demo_app demo_scenario_none demo_gateway demo_deny_request _ demo_held
      "fst demo_denied" "snd demo_denied" False "''id6''" None] demo_denied_changes
  show ?thesis by (simp add: demo_denied_def)
qed

theorem effects_need_admission_witness:
  "carries_credential demo_app demo_deny_request \<and> same_site demo_app demo_deny_request"
proof -
  have "hq_method demo_deny_request = call_method (Call_deny ''id6'' None)"
    "hq_url_path demo_deny_request = call_path (Call_deny ''id6'' None)"
    by (simp_all add: demo_deny_request_def)
  with effects_need_admission[of demo_app demo_scenario_none demo_gateway demo_deny_request
      "Call_deny ''id6'' None" demo_held "fst demo_denied" "snd demo_denied"] demo_denied_changes
  show ?thesis by (simp add: demo_denied_def)
qed

definition demo_reset :: "(exc + http_outcome) \<times> world" where
  "demo_reset =
     serve_http demo_app demo_scenario_none demo_gateway demo_deny_request (Call_demo_reset False) (snd demo_denied)"

lemma demo_reset_clears:
  "map run_key (runs_t (db (snd demo_denied))) = [''r1'']" "runs_t (db (snd demo_reset)) = []"
  by code_simp+

theorem reset_spares_open_work_witness:
  "active_allow_demo_reset demo_app \<and> presents_reviewer demo_app demo_deny_request"
proof -
  have "db (snd demo_reset) \<noteq> db (snd demo_denied)" using demo_reset_clears by auto
  moreover have "auth_configured demo_app" by code_simp
  ultimately show ?thesis
    using reset_spares_open_work[of demo_app demo_scenario_none demo_gateway demo_deny_request False
        "snd demo_denied" "fst demo_reset" "snd demo_reset"]
    by (simp add: demo_reset_def)
qed

theorem requests_only_append_evidence_witness:
  "\<exists>before after. [(demo_deny_request, Call_deny ''id6'' None), (demo_deny_request, Call_demo_reset False)] = before @ after
     \<and> append_only (db (serve_calls demo_app demo_scenario_none demo_gateway before demo_held)) (db (snd demo_reset))"
proof -
  let ?calls = "[(demo_deny_request, Call_deny ''id6'' None), (demo_deny_request, Call_demo_reset False)]"
  have "serve_calls demo_app demo_scenario_none demo_gateway ?calls demo_held = snd demo_reset"
    by (simp add: serve_calls_def demo_reset_def demo_denied_def)
  with requests_only_append_evidence[OF demo_gateway_backend, of ?calls demo_app demo_scenario_none demo_held]
  show ?thesis by auto
qed

end
