(* ===== verification/EventStream.thy ===== *)
theory EventStream
  imports Service
begin

text \<open>
  \<open>backend/scopewatch/events.py\<close>, the broadcaster of evidence events to subscriber queues, and the
  streaming route of \<open>app.py\<close> that replays stored events and then follows its queue. Publishing runs in
  the threads of the handlers, the stream in the event loop: \<open>stream_step\<close> interleaves them.
\<close>

section \<open>The broadcaster\<close>

text \<open>
  \<open>_subscribers\<close> as pairs of a run and a queue, the contents of the queues, and the \<open>put_nowait\<close> calls
  handed to a running loop (\<open>call_soon_threadsafe\<close>) that it has not made yet.
\<close>

record broadcast =
  bs_subscribers :: "(pystr \<times> nat) list"
  bs_queue :: "nat \<Rightarrow> event list"
  bs_soon :: "(nat \<times> event) list"

definition QUEUE_MAXSIZE :: nat where "QUEUE_MAXSIZE = 100"

definition subscribe :: "pystr \<Rightarrow> nat \<Rightarrow> broadcast \<Rightarrow> broadcast" where
  "subscribe run_id q b =
     b\<lparr>bs_subscribers := List.insert (run_id, q) (bs_subscribers b), bs_queue := (bs_queue b)(q := [])\<rparr>"

definition unsubscribe :: "pystr \<Rightarrow> nat \<Rightarrow> broadcast \<Rightarrow> broadcast" where
  "unsubscribe run_id q b = b\<lparr>bs_subscribers := removeAll (run_id, q) (bs_subscribers b)\<rparr>"

text \<open>\<open>put_nowait\<close> with its \<open>QueueFull\<close> caught and the event dropped.\<close>

definition put_or_drop :: "nat \<Rightarrow> event \<Rightarrow> broadcast \<Rightarrow> broadcast" where
  "put_or_drop q ev b =
     (if length (bs_queue b q) < QUEUE_MAXSIZE
      then b\<lparr>bs_queue := (bs_queue b)(q := bs_queue b q @ [ev])\<rparr> else b)"

definition queues_of :: "pystr \<Rightarrow> broadcast \<Rightarrow> nat list" where
  "queues_of run_id b = map snd (filter (\<lambda>(r, q). r = run_id) (bs_subscribers b))"

text \<open>\<open>loop_running q\<close>: the queue is bound to a running loop, so the put is left to that loop.\<close>

definition publish_sync :: "(nat \<Rightarrow> bool) \<Rightarrow> pystr \<Rightarrow> event \<Rightarrow> broadcast \<Rightarrow> broadcast" where
  "publish_sync loop_running run_id ev b =
     fold (\<lambda>q b. if loop_running q then b\<lparr>bs_soon := bs_soon b @ [(q, ev)]\<rparr> else put_or_drop q ev b)
       (queues_of run_id b) b"

definition run_soon :: "broadcast \<Rightarrow> broadcast" where
  "run_soon b =
     (case bs_soon b of [] \<Rightarrow> b | (q, ev) # rest \<Rightarrow> put_or_drop q ev (b\<lparr>bs_soon := rest\<rparr>))"

section \<open>The stream\<close>

datatype frame = Connected | Frame event | Keepalive

datatype phase = Starting | Subscribed | Replaying "event list" | Live | Closed

record session =
  sn_run :: pystr
  sn_queue :: nat
  sn_last_event_id :: "pystr option"
  sn_after_sequence :: "int option"
  sn_cursor :: "int option"
  sn_limit :: "int option"
  sn_phase :: phase
  sn_seen :: "nat list"
  sn_count :: int
  sn_out :: "frame list"

text \<open>
  The cursor: \<open>Last-Event-ID\<close> when it \<open>isdigit()\<close>, else the query parameter. \<open>isdigit\<close> is wider than what
  \<open>int\<close> reads: the superscript digits pass the test and raise a \<open>ValueError\<close>.
\<close>

definition digit_char :: "char \<Rightarrow> bool" where
  "digit_char c = (let n = (of_char c :: nat) in (48 \<le> n \<and> n \<le> 57) \<or> n = 178 \<or> n = 179 \<or> n = 185)"

definition stream_cursor :: "pystr option \<Rightarrow> int option \<Rightarrow> pystr + int option" where
  "stream_cursor last_event_id after_sequence =
     (if truthy last_event_id \<and> list_all digit_char (or_empty last_event_id) then
        (case py_int (or_empty last_event_id) of
           Some n \<Rightarrow> Inr (Some n) | None \<Rightarrow> Inl ''ValueError'')
      else Inr after_sequence)"

definition limit_reached :: "session \<Rightarrow> bool" where
  "limit_reached sn = (case sn_limit sn of None \<Rightarrow> False | Some l \<Rightarrow> l \<le> sn_count sn)"

definition emit :: "frame \<Rightarrow> session \<Rightarrow> session" where
  "emit f sn = sn\<lparr>sn_out := sn_out sn @ [f], sn_count := sn_count sn + 1\<rparr>"

definition emit_event :: "event \<Rightarrow> session \<Rightarrow> session" where
  "emit_event ev sn = emit (Frame ev) (sn\<lparr>sn_seen := ev_sequence ev # sn_seen sn\<rparr>)"

record stream_state =
  ss_db :: store
  ss_unpublished :: "event list"
  ss_broadcast :: broadcast
  ss_session :: session

text \<open>Leaving the generator runs its \<open>finally\<close>.\<close>

definition close_stream :: "stream_state \<Rightarrow> stream_state" where
  "close_stream st =
     st\<lparr>ss_session := (ss_session st)\<lparr>sn_phase := Closed\<rparr>,
        ss_broadcast := unsubscribe (sn_run (ss_session st)) (sn_queue (ss_session st)) (ss_broadcast st)\<rparr>"

definition after_yield :: "phase \<Rightarrow> stream_state \<Rightarrow> stream_state" where
  "after_yield next st =
     (if limit_reached (ss_session st) then close_stream st
      else st\<lparr>ss_session := (ss_session st)\<lparr>sn_phase := next\<rparr>\<rparr>)"

definition with_session :: "session \<Rightarrow> stream_state \<Rightarrow> stream_state" where
  "with_session sn st = st\<lparr>ss_session := sn\<rparr>"

text \<open>
  One step of the generator, up to its next suspension; \<open>None\<close> when it cannot move. The first yield
  happens before the subscription, so a limit of one never subscribes, nor does a cursor that \<open>int\<close>
  cannot read: the generator dies with the error.
\<close>

definition generator_step :: "stream_state \<Rightarrow> stream_state option" where
  "generator_step st =
     (let sn = ss_session st; q = sn_queue sn; b = ss_broadcast st
      in case sn_phase sn of
           Starting \<Rightarrow>
             (let st1 = with_session (emit Connected sn) st
              in if limit_reached (ss_session st1)
                 then Some (st1\<lparr>ss_session := (ss_session st1)\<lparr>sn_phase := Closed\<rparr>\<rparr>)
                 else case stream_cursor (sn_last_event_id sn) (sn_after_sequence sn) of
                        Inl _ \<Rightarrow> Some (st1\<lparr>ss_session := (ss_session st1)\<lparr>sn_phase := Closed\<rparr>\<rparr>)
                      | Inr c \<Rightarrow>
                          Some (st1\<lparr>ss_session := (ss_session st1)\<lparr>sn_phase := Subscribed, sn_cursor := c\<rparr>,
                                    ss_broadcast := subscribe (sn_run sn) q b\<rparr>))
         | Subscribed \<Rightarrow>
             (case sn_cursor sn of
                None \<Rightarrow> Some (with_session (sn\<lparr>sn_phase := Live\<rparr>) st)
              | Some c \<Rightarrow>
                  Some (with_session
                          (sn\<lparr>sn_phase := Replaying (events_of (sn_run sn) (Some c) None (ss_db st))\<rparr>) st))
         | Replaying [] \<Rightarrow> Some (with_session (sn\<lparr>sn_phase := Live\<rparr>) st)
         | Replaying (ev # evs) \<Rightarrow> Some (after_yield (Replaying evs) (with_session (emit_event ev sn) st))
         | Live \<Rightarrow>
             (case bs_queue b q of
                [] \<Rightarrow> Some (with_session (sn\<lparr>sn_out := sn_out sn @ [Keepalive]\<rparr>) st)
              | ev # evs \<Rightarrow>
                  let st1 = st\<lparr>ss_broadcast := b\<lparr>bs_queue := (bs_queue b)(q := evs)\<rparr>\<rparr>
                  in if ev_sequence ev \<in> set (sn_seen sn) then Some st1
                     else Some (after_yield Live (with_session (emit_event ev sn) st1)))
         | Closed \<Rightarrow> None)"

text \<open>
  The steps around it: a transaction that commits events (of any run, in sequence), a handler that
  publishes one it committed (with the turn it was recorded under, which the row keeps in its details
  only), the loop making a deferred put, and the client going away.
\<close>

definition sequences :: "pystr \<Rightarrow> store \<Rightarrow> nat list" where
  "sequences k s = map ev_sequence (run_events k s)"

text \<open>What other subscribers do to the broadcaster: nothing to this queue.\<close>

definition elsewhere :: "nat \<Rightarrow> broadcast \<Rightarrow> broadcast \<Rightarrow> bool" where
  "elsewhere q b c \<longleftrightarrow>
     bs_queue c q = bs_queue b q
     \<and> filter (\<lambda>x. snd x = q) (bs_subscribers c) = filter (\<lambda>x. snd x = q) (bs_subscribers b)
     \<and> filter (\<lambda>x. fst x = q) (bs_soon c) = filter (\<lambda>x. fst x = q) (bs_soon b)"

inductive stream_step :: "stream_state \<Rightarrow> stream_state \<Rightarrow> bool" where
  commits: "events_t s = events_t (ss_db st) @ evs \<Longrightarrow> (\<And>k. distinct (sequences k s)) \<Longrightarrow>
    stream_step st (st\<lparr>ss_db := s, ss_unpublished := ss_unpublished st @ evs\<rparr>)"
| publishes: "row \<in> set (ss_unpublished st) \<Longrightarrow> ev = row\<lparr>ev_turn_id := turn\<rparr> \<Longrightarrow>
    stream_step st (st\<lparr>ss_unpublished := remove1 row (ss_unpublished st),
                       ss_broadcast := publish_sync running (ev_run_id ev) ev (ss_broadcast st)\<rparr>)"
| puts: "stream_step st (st\<lparr>ss_broadcast := run_soon (ss_broadcast st)\<rparr>)"
| others: "elsewhere (sn_queue (ss_session st)) (ss_broadcast st) b \<Longrightarrow>
    stream_step st (st\<lparr>ss_broadcast := b\<rparr>)"
| generates: "generator_step st = Some st' \<Longrightarrow> stream_step st st'"
| leaves: "stream_step st (close_stream st)"

inductive_cases stream_stepE [elim]: "stream_step st st'"

definition open_session :: "pystr \<Rightarrow> nat \<Rightarrow> pystr option \<Rightarrow> int option \<Rightarrow> int option \<Rightarrow> session" where
  "open_session k q header after lim =
     \<lparr>sn_run = k, sn_queue = q, sn_last_event_id = header, sn_after_sequence = after, sn_cursor = None,
      sn_limit = lim, sn_phase = Starting, sn_seen = [], sn_count = 0, sn_out = []\<rparr>"

text \<open>A stream opens on a fresh queue of a gateway in any state.\<close>

definition opens :: "stream_state \<Rightarrow> bool" where
  "opens st \<longleftrightarrow>
     ss_session st = open_session (sn_run (ss_session st)) (sn_queue (ss_session st))
       (sn_last_event_id (ss_session st)) (sn_after_sequence (ss_session st)) (sn_limit (ss_session st))
     \<and> sn_queue (ss_session st) \<notin> snd ` set (bs_subscribers (ss_broadcast st))
     \<and> sn_queue (ss_session st) \<notin> fst ` set (bs_soon (ss_broadcast st))
     \<and> (\<forall>k. distinct (sequences k (ss_db st))) \<and> set (ss_unpublished st) \<subseteq> set (events_t (ss_db st))"


section \<open>What the broadcaster does to one queue\<close>

text \<open>The deferred puts and the subscriptions of one queue.\<close>

definition soon_of :: "nat \<Rightarrow> broadcast \<Rightarrow> event list" where
  "soon_of q b = map snd (filter (\<lambda>x. fst x = q) (bs_soon b))"

definition subscribed :: "nat \<Rightarrow> broadcast \<Rightarrow> pystr set" where
  "subscribed q b = fst ` {x \<in> set (bs_subscribers b). snd x = q}"

definition reaching :: "nat \<Rightarrow> broadcast \<Rightarrow> event set" where
  "reaching q b = set (bs_queue b q) \<union> set (soon_of q b)"

definition pending :: "nat \<Rightarrow> broadcast \<Rightarrow> nat set" where
  "pending q b = ev_sequence ` reaching q b"

lemma soon_of_in: "e \<in> set (soon_of q b) \<longleftrightarrow> (q, e) \<in> set (bs_soon b)"
  by (force simp: soon_of_def)

lemma reaching_in: "e \<in> reaching q b \<longleftrightarrow> e \<in> set (bs_queue b q) \<or> (q, e) \<in> set (bs_soon b)"
  by (simp add: reaching_def soon_of_in)

lemma put_or_drop_simps [simp]:
  "bs_subscribers (put_or_drop q ev b) = bs_subscribers b" "bs_soon (put_or_drop q ev b) = bs_soon b"
  by (simp_all add: put_or_drop_def)

lemma put_other: "p \<noteq> q \<Longrightarrow> bs_queue (put_or_drop p ev b) q = bs_queue b q"
  by (simp add: put_or_drop_def)

lemma put_bounds:
  fixes b :: broadcast
  shows "set (bs_queue b q) \<subseteq> set (bs_queue (put_or_drop p ev b) q)"
  "set (bs_queue (put_or_drop p ev b) q) \<subseteq> set (bs_queue b q) \<union> (if p = q then {ev} else {})"
  by (auto simp: put_or_drop_def)

lemma queues_of_in: "q \<in> set (queues_of k b) \<longleftrightarrow> k \<in> subscribed q b"
  by (auto simp: queues_of_def subscribed_def image_iff)

text \<open>The loop of \<open>publish_sync\<close> over any list of queues.\<close>

definition put_on :: "(nat \<Rightarrow> bool) \<Rightarrow> event \<Rightarrow> nat \<Rightarrow> broadcast \<Rightarrow> broadcast" where
  "put_on running ev q b = (if running q then b\<lparr>bs_soon := bs_soon b @ [(q, ev)]\<rparr> else put_or_drop q ev b)"

lemma publish_put: "publish_sync running k ev b = fold (put_on running ev) (queues_of k b) b"
  by (simp add: publish_sync_def put_on_def[abs_def])

lemma put_on_reaching:
  "reaching q b \<subseteq> reaching q (put_on running ev p b)"
  "reaching q (put_on running ev p b) \<subseteq> reaching q b \<union> (if p = q then {ev} else {})"
  "bs_subscribers (put_on running ev p b) = bs_subscribers b"
  using put_bounds[where b = b and q = q and p = p and ev = ev] by (auto simp: put_on_def reaching_in)

lemma put_on_room:
  "length (bs_queue b q) < QUEUE_MAXSIZE \<Longrightarrow> ev \<in> reaching q (put_on running ev q b)"
  by (auto simp: put_on_def reaching_in put_or_drop_def)

lemma fold_put_on:
  "reaching q b \<subseteq> reaching q (fold (put_on running ev) ps b)
   \<and> reaching q (fold (put_on running ev) ps b) \<subseteq> reaching q b \<union> (if q \<in> set ps then {ev} else {})
   \<and> bs_subscribers (fold (put_on running ev) ps b) = bs_subscribers b"
proof (induction ps arbitrary: b)
  case (Cons p ps)
  have "fold (put_on running ev) (p # ps) b = fold (put_on running ev) ps (put_on running ev p b)" by simp
  with Cons[of "put_on running ev p b"] put_on_reaching(1,2)[where q = q and running = running and ev = ev and p = p and b = b]
    put_on_reaching(3)[of running ev p b]
  show ?case by (cases "p = q"; cases "q \<in> set ps") (auto dest: subsetD)
qed simp

lemma put_on_length: "p \<noteq> q \<Longrightarrow> bs_queue (put_on running ev p b) q = bs_queue b q"
  by (simp add: put_on_def put_other)

lemma fold_put_on_other:
  "q \<notin> set ps \<Longrightarrow> soon_of q (fold (put_on running ev) ps b) = soon_of q b"
proof (induction ps arbitrary: b)
  case (Cons p ps)
  have "soon_of q (put_on running ev p b) = soon_of q b"
    using Cons.prems by (auto simp: soon_of_def put_on_def)
  with Cons show ?case by simp
qed simp

lemma fold_put_on_room:
  "q \<in> set ps \<Longrightarrow> length (bs_queue b q) < QUEUE_MAXSIZE \<Longrightarrow> ev \<in> reaching q (fold (put_on running ev) ps b)"
proof (induction ps arbitrary: b)
  case (Cons p ps)
  show ?case
  proof (cases "p = q")
    case True
    with put_on_room[OF Cons.prems(2), of ev running] fold_put_on[of q "put_on running ev q b" running ev ps]
    show ?thesis by auto
  next
    case False
    with Cons put_on_length[OF False, of running ev b] show ?thesis by simp
  qed
qed simp

lemma publish_reaching:
  "reaching q b \<subseteq> reaching q (publish_sync running k ev b)"
  "reaching q (publish_sync running k ev b) \<subseteq> reaching q b \<union> (if k \<in> subscribed q b then {ev} else {})"
  "bs_subscribers (publish_sync running k ev b) = bs_subscribers b"
  "k \<in> subscribed q b \<Longrightarrow> length (bs_queue b q) < QUEUE_MAXSIZE \<Longrightarrow> ev \<in> reaching q (publish_sync running k ev b)"
  "k \<notin> subscribed q b \<Longrightarrow> soon_of q (publish_sync running k ev b) = soon_of q b"
  using fold_put_on_other[of q "queues_of k b" running ev b]
    fold_put_on[of q b running ev "queues_of k b"] fold_put_on_room[of q "queues_of k b" b ev running]
  by (simp_all add: publish_put queues_of_in)

lemma run_soon_reaching:
  "reaching q (run_soon b) \<subseteq> reaching q b" "bs_subscribers (run_soon b) = bs_subscribers b"
  "length (bs_queue b q) < QUEUE_MAXSIZE \<Longrightarrow> reaching q (run_soon b) = reaching q b"
  by (auto simp: run_soon_def reaching_in put_or_drop_def split: list.splits prod.splits if_splits)

lemma elsewhere_same:
  assumes "elsewhere q b c"
  shows "reaching q c = reaching q b" "subscribed q c = subscribed q b" "bs_queue c q = bs_queue b q"
proof -
  have "set (filter (\<lambda>x. snd x = q) (bs_subscribers c)) = set (filter (\<lambda>x. snd x = q) (bs_subscribers b))"
    using assms by (simp add: elsewhere_def)
  then show "subscribed q c = subscribed q b" by (auto simp: subscribed_def)
  show "reaching q c = reaching q b" "bs_queue c q = bs_queue b q"
    using assms by (simp_all add: elsewhere_def reaching_def soon_of_def)
qed


section \<open>What a stream sends\<close>

fun frame_sequences :: "frame list \<Rightarrow> nat list" where
  "frame_sequences [] = []"
| "frame_sequences (Frame ev # fs) = ev_sequence ev # frame_sequences fs"
| "frame_sequences (Connected # fs) = frame_sequences fs"
| "frame_sequences (Keepalive # fs) = frame_sequences fs"

fun counted_frames :: "frame list \<Rightarrow> int" where
  "counted_frames [] = 0"
| "counted_frames (Keepalive # fs) = counted_frames fs"
| "counted_frames (Connected # fs) = 1 + counted_frames fs"
| "counted_frames (Frame ev # fs) = 1 + counted_frames fs"

lemma frame_sequences_append [simp]: "frame_sequences (fs @ gs) = frame_sequences fs @ frame_sequences gs"
  by (induction fs rule: frame_sequences.induct) simp_all

lemma counted_frames_append [simp]: "counted_frames (fs @ gs) = counted_frames fs + counted_frames gs"
  by (induction fs rule: counted_frames.induct) simp_all

text \<open>The sequences still to be replayed.\<close>

fun replay_of :: "phase \<Rightarrow> nat list" where
  "replay_of (Replaying evs) = map ev_sequence evs"
| "replay_of p = []"

text \<open>What holds of the session alone, and of the queue it reads.\<close>

definition sent_ok :: "session \<Rightarrow> store \<Rightarrow> bool" where
  "sent_ok sn s \<longleftrightarrow>
     distinct (sn_seen sn @ replay_of (sn_phase sn))
     \<and> frame_sequences (sn_out sn) = rev (sn_seen sn)
     \<and> set (sn_seen sn @ replay_of (sn_phase sn)) \<subseteq> set (sequences (sn_run sn) s)
     \<and> (sn_phase sn = Starting \<or> sn_phase sn = Subscribed \<longrightarrow> sn_seen sn = [])
     \<and> counted_frames (sn_out sn) = sn_count sn"

definition within_limit :: "session \<Rightarrow> bool" where
  "within_limit sn \<longleftrightarrow>
     (sn_phase sn = Starting \<longrightarrow> sn_count sn = 0)
     \<and> (case sn_limit sn of None \<Rightarrow> True
        | Some l \<Rightarrow> sn_count sn \<le> max 1 l \<and> (sn_phase sn = Starting \<or> sn_phase sn = Closed \<or> sn_count sn < l))"

definition routed_ok :: "session \<Rightarrow> store \<Rightarrow> broadcast \<Rightarrow> bool" where
  "routed_ok sn s b \<longleftrightarrow>
     (if sn_phase sn = Starting then subscribed (sn_queue sn) b = {} \<and> soon_of (sn_queue sn) b = []
      else if sn_phase sn = Closed then True
      else subscribed (sn_queue sn) b \<subseteq> {sn_run sn}
           \<and> pending (sn_queue sn) b \<subseteq> set (sequences (sn_run sn) s))"

definition db_ok :: "stream_state \<Rightarrow> bool" where
  "db_ok st \<longleftrightarrow>
     (\<forall>k. distinct (sequences k (ss_db st))) \<and> set (ss_unpublished st) \<subseteq> set (events_t (ss_db st))"

definition stream_ok :: "stream_state \<Rightarrow> bool" where
  "stream_ok st \<longleftrightarrow>
     db_ok st \<and> sent_ok (ss_session st) (ss_db st) \<and> within_limit (ss_session st)
     \<and> routed_ok (ss_session st) (ss_db st) (ss_broadcast st)"

lemma events_grow:
  "events_t s = events_t r @ evs \<Longrightarrow> set (sequences k r) \<subseteq> set (sequences k s)"
  "events_t s = events_t r @ evs \<Longrightarrow> set (run_events k r) \<subseteq> set (run_events k s)"
  by (auto simp: sequences_def run_events_def)

lemma opens_session:
  assumes "opens st"
  shows "sn_phase (ss_session st) = Starting" "sn_seen (ss_session st) = []"
    "sn_count (ss_session st) = 0" "sn_out (ss_session st) = []" "sn_cursor (ss_session st) = None"
proof -
  have start: "ss_session st = open_session (sn_run (ss_session st)) (sn_queue (ss_session st))
      (sn_last_event_id (ss_session st)) (sn_after_sequence (ss_session st)) (sn_limit (ss_session st))"
    using assms unfolding opens_def by blast
  show "sn_phase (ss_session st) = Starting" "sn_seen (ss_session st) = []"
    "sn_count (ss_session st) = 0" "sn_out (ss_session st) = []" "sn_cursor (ss_session st) = None"
    using arg_cong[OF start, of sn_phase] arg_cong[OF start, of sn_seen] arg_cong[OF start, of sn_count]
      arg_cong[OF start, of sn_out] arg_cong[OF start, of sn_cursor] by (simp_all add: open_session_def)
qed

lemma stream_ok_opens:
  assumes "opens st"
  shows "stream_ok st"
proof -
  let ?q = "sn_queue (ss_session st)"
  have "soon_of ?q (ss_broadcast st) = []"
    using assms by (force simp: opens_def soon_of_def filter_empty_conv)
  moreover have "subscribed ?q (ss_broadcast st) = {}" using assms by (force simp: opens_def subscribed_def)
  ultimately show ?thesis using assms opens_session[OF assms]
    by (auto simp: opens_def stream_ok_def db_ok_def sent_ok_def within_limit_def routed_ok_def split: option.splits)
qed

lemma ok_commits:
  assumes "stream_ok st" and "events_t s = events_t (ss_db st) @ evs" and "\<And>k. distinct (sequences k s)"
  shows "stream_ok (st\<lparr>ss_db := s, ss_unpublished := ss_unpublished st @ evs\<rparr>)"
  using assms events_grow[OF assms(2), of "sn_run (ss_session st)"]
  by (auto simp: stream_ok_def db_ok_def sent_ok_def routed_ok_def split: if_splits)

lemma subscribed_same: "bs_subscribers c = bs_subscribers b \<Longrightarrow> subscribed q c = subscribed q b"
  by (simp add: subscribed_def)

lemma ok_publishes:
  assumes "stream_ok st" and "row \<in> set (ss_unpublished st)" and "ev = row\<lparr>ev_turn_id := turn\<rparr>"
  shows "stream_ok (st\<lparr>ss_unpublished := remove1 row (ss_unpublished st),
                       ss_broadcast := publish_sync running (ev_run_id ev) ev (ss_broadcast st)\<rparr>)"
proof -
  let ?b = "publish_sync running (ev_run_id ev) ev (ss_broadcast st)" and ?q = "sn_queue (ss_session st)"
  have sub: "subscribed ?q ?b = subscribed ?q (ss_broadcast st)" by (rule subscribed_same[OF publish_reaching(3)])
  have "ev_sequence ev \<in> set (sequences (ev_run_id ev) (ss_db st))"
    using assms by (auto simp: stream_ok_def db_ok_def run_events_def sequences_def)
  moreover have "pending ?q ?b \<subseteq> pending ?q (ss_broadcast st)
      \<union> (if ev_run_id ev \<in> subscribed ?q (ss_broadcast st) then {ev_sequence ev} else {})"
    using publish_reaching(2)[of ?q running "ev_run_id ev" ev "ss_broadcast st"] by (auto simp: pending_def)
  moreover have "sn_phase (ss_session st) \<noteq> Starting \<Longrightarrow> sn_phase (ss_session st) \<noteq> Closed \<Longrightarrow>
      ev_run_id ev \<in> subscribed ?q (ss_broadcast st) \<Longrightarrow> ev_run_id ev = sn_run (ss_session st)"
    using assms(1) by (auto simp: stream_ok_def routed_ok_def)
  ultimately have "routed_ok (ss_session st) (ss_db st) ?b"
    using assms(1) sub publish_reaching(5)[of "ev_run_id ev" ?q "ss_broadcast st" running ev]
    by (cases "ev_run_id ev \<in> subscribed ?q (ss_broadcast st)")
      (auto simp: stream_ok_def routed_ok_def dest: subsetD split: if_splits)
  with assms(1) show ?thesis
    using set_remove1_subset[of row "ss_unpublished st"] by (auto simp: stream_ok_def db_ok_def)
qed

lemma ok_broadcast:
  assumes "stream_ok st"
    and "subscribed (sn_queue (ss_session st)) b \<subseteq> subscribed (sn_queue (ss_session st)) (ss_broadcast st)"
    and "reaching (sn_queue (ss_session st)) b \<subseteq> reaching (sn_queue (ss_session st)) (ss_broadcast st)"
    and "soon_of (sn_queue (ss_session st)) (ss_broadcast st) = [] \<Longrightarrow> soon_of (sn_queue (ss_session st)) b = []"
  shows "stream_ok (st\<lparr>ss_broadcast := b\<rparr>)"
proof -
  have "pending (sn_queue (ss_session st)) b \<subseteq> pending (sn_queue (ss_session st)) (ss_broadcast st)"
    using assms(3) by (auto simp: pending_def)
  then show ?thesis using assms(1,2,4) by (auto simp: stream_ok_def db_ok_def routed_ok_def split: if_splits)
qed

lemma run_soon_soon: "soon_of q b = [] \<Longrightarrow> soon_of q (run_soon b) = []"
  by (cases "bs_soon b") (auto simp: run_soon_def soon_of_def split: if_splits)

lemma ok_puts: "stream_ok st \<Longrightarrow> stream_ok (st\<lparr>ss_broadcast := run_soon (ss_broadcast st)\<rparr>)"
  by (erule ok_broadcast[OF _ equalityD1[OF subscribed_same[OF run_soon_reaching(2)]] run_soon_reaching(1) run_soon_soon])

lemma ok_others:
  assumes "stream_ok st" and "elsewhere (sn_queue (ss_session st)) (ss_broadcast st) b"
  shows "stream_ok (st\<lparr>ss_broadcast := b\<rparr>)"
proof (rule ok_broadcast[OF assms(1)])
  note same = elsewhere_same[OF assms(2)]
  show "subscribed (sn_queue (ss_session st)) b \<subseteq> subscribed (sn_queue (ss_session st)) (ss_broadcast st)"
    "reaching (sn_queue (ss_session st)) b \<subseteq> reaching (sn_queue (ss_session st)) (ss_broadcast st)"
    by (simp_all only: same order_refl)
  show "soon_of (sn_queue (ss_session st)) (ss_broadcast st) = [] \<Longrightarrow> soon_of (sn_queue (ss_session st)) b = []"
    using assms(2) by (simp add: elsewhere_def soon_of_def)
qed

text \<open>The steps of the generator, one per phase.\<close>

lemma replayed:
  assumes "\<And>k. distinct (sequences k s)"
  shows "distinct (map ev_sequence (events_of k (Some c) None s))"
    "set (map ev_sequence (events_of k (Some c) None s)) = {n \<in> set (sequences k s). c < int n}"
proof -
  let ?evs = "filter (\<lambda>e. c < int (ev_sequence e)) (run_events k s)"
  have row: "map ev_sequence (map event_from_row evs) = map ev_sequence evs" for evs
    by (simp add: event_from_row_def)
  have evs: "map ev_sequence (events_of k (Some c) None s) = map ev_sequence (sort_key ev_sequence ?evs)"
    by (simp only: events_of_def row limit_rows_def option.case)
  have "distinct (map ev_sequence ?evs)" using assms[of k] by (simp add: sequences_def distinct_map_filter)
  then show "distinct (map ev_sequence (events_of k (Some c) None s))" by (simp add: evs distinct_map)
  show "set (map ev_sequence (events_of k (Some c) None s)) = {n \<in> set (sequences k s). c < int n}"
    by (auto simp: evs sequences_def)
qed

lemmas generator_defs = generator_step_def after_yield_def close_stream_def with_session_def emit_event_def
  emit_def limit_reached_def

lemma unsubscribed: "subscribed q (unsubscribe k q b) = subscribed q b - {k}"
  "reaching q (unsubscribe k p b) = reaching q b" "pending q (unsubscribe k p b) = pending q b" "soon_of q (unsubscribe k p b) = soon_of q b"
  "bs_queue (unsubscribe k p b) q = bs_queue b q"
  by (auto simp: subscribed_def unsubscribe_def pending_def reaching_def soon_of_def)

lemma ok_closes: "stream_ok st \<Longrightarrow> stream_ok (close_stream st)"
  by (auto simp: stream_ok_def close_stream_def db_ok_def sent_ok_def within_limit_def routed_ok_def unsubscribed
      split: if_splits option.splits)

text \<open>Sending one more event, before the limit is looked at.\<close>

definition may_send :: "event \<Rightarrow> phase \<Rightarrow> stream_state \<Rightarrow> bool" where
  "may_send ev next st \<longleftrightarrow>
     ev_sequence ev \<in> set (sequences (sn_run (ss_session st)) (ss_db st))
     \<and> distinct (ev_sequence ev # sn_seen (ss_session st) @ replay_of next)
     \<and> set (replay_of next) \<subseteq> set (sequences (sn_run (ss_session st)) (ss_db st))
     \<and> next \<noteq> Starting \<and> next \<noteq> Subscribed \<and> next \<noteq> Closed"

lemma ok_sends:
  assumes "stream_ok st" and "may_send ev next st"
    and "sn_phase (ss_session st) \<noteq> Starting" "sn_phase (ss_session st) \<noteq> Closed"
  shows "stream_ok (after_yield next (with_session (emit_event ev (ss_session st)) st))"
proof -
  let ?st = "with_session (emit_event ev (ss_session st)) st"
  have room: "case sn_limit (ss_session st) of None \<Rightarrow> True | Some l \<Rightarrow> sn_count (ss_session st) < l"
    using assms(1,3,4) by (auto simp: stream_ok_def within_limit_def split: option.splits)
  show ?thesis
  proof (cases "limit_reached (ss_session ?st)")
    case True
    with assms room show ?thesis
      by (auto simp: stream_ok_def db_ok_def sent_ok_def within_limit_def routed_ok_def may_send_def
          unsubscribed generator_defs split: option.splits)
  next
    case False
    with assms room show ?thesis
      by (auto simp: stream_ok_def db_ok_def sent_ok_def within_limit_def routed_ok_def may_send_def
          generator_defs split: option.splits)
  qed
qed


lemma subscribe_fresh:
  assumes "subscribed q b = {}" and "soon_of q b = []"
  shows "subscribed q (subscribe k q b) = {k}" "reaching q (subscribe k q b) = {}" "pending q (subscribe k q b) = {}"
proof -
  have "snd x \<noteq> q" if "x \<in> set (bs_subscribers b)" for x using assms(1) that unfolding subscribed_def by blast
  then have "{x \<in> set (List.insert (k, q) (bs_subscribers b)). snd x = q} = {(k, q)}" by auto
  then show "subscribed q (subscribe k q b) = {k}" by (simp add: subscribed_def subscribe_def)
  show "reaching q (subscribe k q b) = {}" "pending q (subscribe k q b) = {}"
    using assms(2) by (simp_all add: subscribe_def pending_def reaching_def soon_of_def)
qed

lemma pops:
  assumes "bs_queue b q = ev # evs"
  shows "pending q (b\<lparr>bs_queue := (bs_queue b)(q := evs)\<rparr>) \<subseteq> pending q b"
    "pending q b = insert (ev_sequence ev) (pending q (b\<lparr>bs_queue := (bs_queue b)(q := evs)\<rparr>))"
    "subscribed q (b\<lparr>bs_queue := (bs_queue b)(q := evs)\<rparr>) = subscribed q b"
    "soon_of q (b\<lparr>bs_queue := (bs_queue b)(q := evs)\<rparr>) = soon_of q b"
  using assms by (auto simp: pending_def reaching_def subscribed_def soon_of_def)

lemma starting_step:
  assumes "sn_phase (ss_session st) = Starting" and "generator_step st = Some st'"
  obtains (stops) "st' = st\<lparr>ss_session := (emit Connected (ss_session st))\<lparr>sn_phase := Closed\<rparr>\<rparr>"
  | (subscribes) c where "\<not> limit_reached (emit Connected (ss_session st))"
      "st' = st\<lparr>ss_session := (emit Connected (ss_session st))\<lparr>sn_phase := Subscribed, sn_cursor := c\<rparr>,
              ss_broadcast := subscribe (sn_run (ss_session st)) (sn_queue (ss_session st)) (ss_broadcast st)\<rparr>"
  using assms by (auto simp: generator_step_def with_session_def Let_def split: if_splits sum.splits)

lemma ok_starts:
  assumes "stream_ok st" and "sn_phase (ss_session st) = Starting" and "generator_step st = Some st'"
  shows "stream_ok st'"
  using assms(2,3)
proof (cases rule: starting_step)
  case stops
  with assms(1,2) show ?thesis
    by (auto simp: stream_ok_def db_ok_def sent_ok_def within_limit_def routed_ok_def emit_def split: option.splits)
next
  case (subscribes c)
  with assms(1,2) subscribe_fresh[of "sn_queue (ss_session st)" "ss_broadcast st" "sn_run (ss_session st)"]
  show ?thesis
    by (auto simp: stream_ok_def db_ok_def sent_ok_def within_limit_def routed_ok_def emit_def limit_reached_def
        split: option.splits)
qed

lemma fetching_step:
  assumes "sn_phase (ss_session st) = Subscribed"
  shows "generator_step st = Some (st\<lparr>ss_session := (ss_session st)\<lparr>sn_phase :=
      (case sn_cursor (ss_session st) of None \<Rightarrow> Live
       | Some c \<Rightarrow> Replaying (events_of (sn_run (ss_session st)) (Some c) None (ss_db st)))\<rparr>\<rparr>)"
  using assms by (simp add: generator_step_def with_session_def Let_def split: option.splits)

lemma ok_phase:
  assumes "stream_ok st" and "sn_phase (ss_session st) \<noteq> Starting" "sn_phase (ss_session st) \<noteq> Closed"
    and "distinct (sn_seen (ss_session st) @ replay_of p)"
    and "set (replay_of p) \<subseteq> set (sequences (sn_run (ss_session st)) (ss_db st))"
    and "p \<noteq> Starting" "p \<noteq> Subscribed"
  shows "stream_ok (st\<lparr>ss_session := (ss_session st)\<lparr>sn_phase := p\<rparr>\<rparr>)"
  using assms
  by (auto simp: stream_ok_def db_ok_def sent_ok_def within_limit_def routed_ok_def split: option.splits)

lemma ok_fetches:
  assumes "stream_ok st" and "sn_phase (ss_session st) = Subscribed" and "generator_step st = Some st'"
  shows "stream_ok st'"
proof -
  let ?sn = "ss_session st"
  have "\<And>k. distinct (sequences k (ss_db st))" using assms(1) by (simp add: stream_ok_def db_ok_def)
  note replay = replayed[OF this, of "sn_run ?sn"]
  have "sn_seen ?sn = []" using assms(1,2) by (simp add: stream_ok_def sent_ok_def)
  moreover have "st' = st\<lparr>ss_session := ?sn\<lparr>sn_phase := (case sn_cursor ?sn of None \<Rightarrow> Live
       | Some c \<Rightarrow> Replaying (events_of (sn_run ?sn) (Some c) None (ss_db st)))\<rparr>\<rparr>"
    using assms(3) fetching_step[OF assms(2)] by simp
  ultimately show ?thesis
    using assms(1,2) replay by (auto intro!: ok_phase split: option.splits simp del: set_map)
qed

lemma ok_replays:
  assumes "stream_ok st" and "sn_phase (ss_session st) = Replaying evs" and "generator_step st = Some st'"
  shows "stream_ok st'"
proof (cases evs)
  case Nil
  with assms show ?thesis
    by (auto simp: stream_ok_def db_ok_def sent_ok_def within_limit_def routed_ok_def generator_step_def
        with_session_def split: option.splits)
next
  case (Cons ev rest)
  with assms have "may_send ev (Replaying rest) st" by (auto simp: may_send_def stream_ok_def sent_ok_def)
  from ok_sends[OF assms(1) this] assms(2,3) Cons show ?thesis by (simp add: generator_step_def)
qed

lemma ok_lives:
  assumes "stream_ok st" and "sn_phase (ss_session st) = Live" and "generator_step st = Some st'"
  shows "stream_ok st'"
proof (cases "bs_queue (ss_broadcast st) (sn_queue (ss_session st))")
  case Nil
  with assms show ?thesis
    by (auto simp: stream_ok_def db_ok_def sent_ok_def within_limit_def routed_ok_def generator_step_def
        with_session_def Let_def split: option.splits)
next
  case (Cons ev evs)
  let ?st = "st\<lparr>ss_broadcast := (ss_broadcast st)
      \<lparr>bs_queue := (bs_queue (ss_broadcast st))(sn_queue (ss_session st) := evs)\<rparr>\<rparr>"
  note pop = pops[OF Cons]
  have ok: "stream_ok ?st"
    using assms(1,2) pop by (auto simp: stream_ok_def db_ok_def routed_ok_def)
  show ?thesis
  proof (cases "ev_sequence ev \<in> set (sn_seen (ss_session st))")
    case True
    with ok assms(2,3) Cons show ?thesis by (simp add: generator_step_def Let_def)
  next
    case False
    with assms(1,2) pop(2) have "may_send ev Live ?st"
      by (auto simp: may_send_def stream_ok_def sent_ok_def routed_ok_def)
    from ok_sends[OF ok this] assms(2,3) Cons False show ?thesis by (simp add: generator_step_def Let_def)
  qed
qed

lemma ok_generates: "stream_ok st \<Longrightarrow> generator_step st = Some st' \<Longrightarrow> stream_ok st'"
  by (cases "sn_phase (ss_session st)") (auto intro: ok_starts ok_fetches ok_replays ok_lives simp: generator_step_def)

lemma ok_step: "stream_step st st' \<Longrightarrow> stream_ok st \<Longrightarrow> stream_ok st'"
  by (induction rule: stream_step.induct)
    (blast intro: ok_commits ok_publishes ok_puts ok_others ok_generates ok_closes)+

lemma ok_reachable: "stream_step\<^sup>*\<^sup>* st st' \<Longrightarrow> stream_ok st \<Longrightarrow> stream_ok st'"
  by (induction rule: rtranclp_induct) (blast dest: ok_step)+


section \<open>What a stream cannot miss\<close>

text \<open>
  Once the cursor's replay is fetched, an event of the run past the cursor was sent, is in the replay, is
  on its way through the queue, or has not been published yet.
\<close>

definition unpublished_of :: "pystr \<Rightarrow> event list \<Rightarrow> nat list" where
  "unpublished_of k us = map ev_sequence (filter (\<lambda>e. ev_run_id e = k) us)"

definition owed :: "stream_state \<Rightarrow> nat set" where
  "owed st =
     set (sn_seen (ss_session st)) \<union> set (replay_of (sn_phase (ss_session st)))
     \<union> pending (sn_queue (ss_session st)) (ss_broadcast st)
     \<union> set (unpublished_of (sn_run (ss_session st)) (ss_unpublished st))"

definition past_cursor :: "session \<Rightarrow> store \<Rightarrow> nat set" where
  "past_cursor sn s =
     {n \<in> set (sequences (sn_run sn) s). case sn_cursor sn of None \<Rightarrow> False | Some c \<Rightarrow> c < int n}"

definition covered :: "stream_state \<Rightarrow> bool" where
  "covered st \<longleftrightarrow>
     (sn_phase (ss_session st) = Starting \<or> sn_phase (ss_session st) = Closed
      \<or> sn_run (ss_session st) \<in> subscribed (sn_queue (ss_session st)) (ss_broadcast st)
        \<and> (sn_phase (ss_session st) = Subscribed \<or> past_cursor (ss_session st) (ss_db st) \<subseteq> owed st))"

definition has_room :: "stream_state \<Rightarrow> bool" where
  "has_room st \<longleftrightarrow> length (bs_queue (ss_broadcast st) (sn_queue (ss_session st))) < QUEUE_MAXSIZE"

definition roomy_step :: "stream_state \<Rightarrow> stream_state \<Rightarrow> bool" where
  "roomy_step st st' \<longleftrightarrow> stream_step st st' \<and> has_room st"

lemma covered_commits:
  assumes "covered st" and "events_t s = events_t (ss_db st) @ evs"
  shows "covered (st\<lparr>ss_db := s, ss_unpublished := ss_unpublished st @ evs\<rparr>)"
proof -
  let ?st = "st\<lparr>ss_db := s, ss_unpublished := ss_unpublished st @ evs\<rparr>" and ?sn = "ss_session st"
  have "sequences k s = sequences k (ss_db st) @ unpublished_of k evs" for k
    using assms(2) by (simp add: sequences_def run_events_def unpublished_of_def)
  then have "past_cursor ?sn s \<subseteq> past_cursor ?sn (ss_db st) \<union> set (unpublished_of (sn_run ?sn) evs)"
    by (auto simp: past_cursor_def)
  moreover have "owed ?st = owed st \<union> set (unpublished_of (sn_run ?sn) evs)"
    by (auto simp: owed_def unpublished_of_def)
  ultimately show ?thesis using assms(1) by (auto simp: covered_def)
qed

text \<open>A change of the broadcaster that loses nothing of what is owed.\<close>

lemma covered_broadcast:
  assumes "covered st" and "subscribed (sn_queue (ss_session st)) b = subscribed (sn_queue (ss_session st)) (ss_broadcast st)"
    and "owed st \<subseteq> owed (st\<lparr>ss_broadcast := b, ss_unpublished := us\<rparr>)"
  shows "covered (st\<lparr>ss_broadcast := b, ss_unpublished := us\<rparr>)"
  using assms by (auto simp: covered_def)

lemma unpublished_remove1:
  "set (unpublished_of k us)
   \<subseteq> (if ev_run_id row = k then {ev_sequence row} else {}) \<union> set (unpublished_of k (remove1 row us))"
  by (induction us) (auto simp: unpublished_of_def)

lemma covered_publishes:
  assumes "covered st" and "has_room st" and "row \<in> set (ss_unpublished st)" and "ev = row\<lparr>ev_turn_id := turn\<rparr>"
  shows "covered (st\<lparr>ss_unpublished := remove1 row (ss_unpublished st),
                     ss_broadcast := publish_sync running (ev_run_id ev) ev (ss_broadcast st)\<rparr>)"
proof (cases "sn_phase (ss_session st) = Starting \<or> sn_phase (ss_session st) = Closed")
  case True
  then show ?thesis by (auto simp: covered_def)
next
  case False
  let ?q = "sn_queue (ss_session st)" and ?b = "publish_sync running (ev_run_id ev) ev (ss_broadcast st)"
  have kept: "pending ?q (ss_broadcast st) \<subseteq> pending ?q ?b" 
    using publish_reaching(1)[of ?q "ss_broadcast st" running "ev_run_id ev" ev] by (auto simp: pending_def)
  have new: "ev_sequence ev \<in> pending ?q ?b" if "ev_run_id ev = sn_run (ss_session st)"
  proof -
    have "ev \<in> reaching ?q ?b"
      using False assms(1,2) that by (intro publish_reaching(4)) (auto simp: covered_def has_room_def)
    then show ?thesis by (auto simp: pending_def)
  qed
  have "owed st \<subseteq> owed (st\<lparr>ss_broadcast := ?b, ss_unpublished := remove1 row (ss_unpublished st)\<rparr>)"
    using kept new assms(4) unpublished_remove1[of "sn_run (ss_session st)" "ss_unpublished st" row]
    by (auto simp: owed_def split: if_splits)
  from covered_broadcast[OF assms(1) subscribed_same[OF publish_reaching(3)] this]
  show ?thesis by (simp add: covered_def owed_def)
qed

lemma covered_puts:
  assumes "covered st" and "has_room st"
  shows "covered (st\<lparr>ss_broadcast := run_soon (ss_broadcast st)\<rparr>)"
proof -
  have "owed st \<subseteq> owed (st\<lparr>ss_broadcast := run_soon (ss_broadcast st), ss_unpublished := ss_unpublished st\<rparr>)"
    using run_soon_reaching(3)[of "ss_broadcast st" "sn_queue (ss_session st)"] assms(2)
    by (simp add: owed_def has_room_def pending_def)
  from covered_broadcast[OF assms(1) subscribed_same[OF run_soon_reaching(2)] this]
  show ?thesis by (simp add: covered_def owed_def)
qed

lemma covered_others:
  assumes "covered st" and "elsewhere (sn_queue (ss_session st)) (ss_broadcast st) b"
  shows "covered (st\<lparr>ss_broadcast := b\<rparr>)"
  using covered_broadcast[OF assms(1) elsewhere_same(2)[OF assms(2)], of "ss_unpublished st"]
    elsewhere_same(1)[OF assms(2)]
  by (simp add: owed_def pending_def)

lemma covered_generates:
  assumes "covered st" and "stream_ok st" and "generator_step st = Some st'"
  shows "covered st'"
proof (cases "sn_phase (ss_session st)")
  case Starting
  then show ?thesis using assms(3)
  proof (cases rule: starting_step)
    case (subscribes c)
    with assms(2) Starting subscribe_fresh(1)[of "sn_queue (ss_session st)" "ss_broadcast st" "sn_run (ss_session st)"]
    show ?thesis by (simp add: covered_def stream_ok_def routed_ok_def emit_def)
  qed (simp add: covered_def)
next
  case Subscribed
  have "\<And>k. distinct (sequences k (ss_db st))" using assms(2) by (simp add: stream_ok_def db_ok_def)
  note replay = replayed(2)[OF this, of "sn_run (ss_session st)"]
  have "past_cursor (ss_session st') (ss_db st') \<subseteq> owed st'"
    using assms(3) fetching_step[OF Subscribed] replay
    by (auto simp: past_cursor_def owed_def simp del: set_map split: option.splits)
  with Subscribed assms(1,3) fetching_step[OF Subscribed] show ?thesis
    by (auto simp: covered_def)
next
  case (Replaying evs)
  with assms show ?thesis
    by (cases evs) (auto simp: covered_def past_cursor_def owed_def generator_defs Let_def split: if_splits option.splits)
next
  case Live
  show ?thesis
  proof (cases "bs_queue (ss_broadcast st) (sn_queue (ss_session st))")
    case Nil
    with Live assms show ?thesis
      by (auto simp: covered_def past_cursor_def owed_def generator_defs Let_def split: option.splits)
  next
    case (Cons ev evs)
    with Live assms pops(2-3)[OF Cons] show ?thesis
      by (auto simp: covered_def past_cursor_def owed_def generator_defs Let_def split: if_splits option.splits)
  qed
qed (use assms in \<open>simp add: generator_step_def\<close>)

lemma covered_step:
  assumes "roomy_step st st'" and "covered st" and "stream_ok st"
  shows "covered st'"
  using assms(1)[unfolded roomy_step_def, THEN conjunct1]
proof cases
  case leaves
  then show ?thesis by (simp add: covered_def close_stream_def)
next
  case (commits s evs)
  with assms(2) show ?thesis by (simp add: covered_commits)
next
  case (publishes row ev turn running)
  with assms show ?thesis using covered_publishes[of st row ev turn running] by (simp add: roomy_step_def)
next
  case puts
  with assms show ?thesis using covered_puts[of st] by (simp add: roomy_step_def)
next
  case (others b)
  with assms(2) show ?thesis by (simp add: covered_others)
next
  case generates
  with assms show ?thesis by (blast intro: covered_generates)
qed

lemma covered_reachable:
  assumes "roomy_step\<^sup>*\<^sup>* st st'" and "opens st"
  shows "covered st' \<and> stream_ok st'"
  using assms(1)
proof (induction rule: rtranclp_induct)
  case base
  from opens_session(1)[OF assms(2)] stream_ok_opens[OF assms(2)] show ?case by (simp add: covered_def)
next
  case (step y z)
  then show ?case using covered_step[of y z] ok_step[of y z] by (simp add: roomy_step_def)
qed


section \<open>The generator catches up\<close>

fun run_generator :: "nat \<Rightarrow> stream_state \<Rightarrow> stream_state" where
  "run_generator 0 st = st"
| "run_generator (Suc n) st =
     (case generator_step st of None \<Rightarrow> st | Some st1 \<Rightarrow> run_generator n st1)"

text \<open>How many steps the generator is behind.\<close>

definition queued :: "stream_state \<Rightarrow> nat" where
  "queued st = length (bs_queue (ss_broadcast st) (sn_queue (ss_session st)))"

definition backlog :: "stream_state \<Rightarrow> nat" where
  "backlog st =
     (case sn_phase (ss_session st) of
        Subscribed \<Rightarrow>
          (case sn_cursor (ss_session st) of
             None \<Rightarrow> 1 | Some c \<Rightarrow> 2 + length (events_of (sn_run (ss_session st)) (Some c) None (ss_db st)))
          + queued st
      | Replaying evs \<Rightarrow> 1 + length evs + queued st
      | Live \<Rightarrow> queued st
      | _ \<Rightarrow> 0)"

definition streaming :: "stream_state \<Rightarrow> bool" where
  "streaming st \<longleftrightarrow>
     sn_phase (ss_session st) \<noteq> Starting \<and> sn_phase (ss_session st) \<noteq> Closed \<and> sn_limit (ss_session st) = None"

text \<open>What a generator step leaves alone.\<close>

definition same_work :: "stream_state \<Rightarrow> stream_state \<Rightarrow> bool" where
  "same_work st st' \<longleftrightarrow>
     ss_db st' = ss_db st \<and> ss_unpublished st' = ss_unpublished st
     \<and> sn_run (ss_session st') = sn_run (ss_session st) \<and> sn_queue (ss_session st') = sn_queue (ss_session st)
     \<and> sn_cursor (ss_session st') = sn_cursor (ss_session st)
     \<and> bs_soon (ss_broadcast st') = bs_soon (ss_broadcast st)"

lemma one_less:
  assumes "streaming st" and "backlog st = Suc m"
  shows "\<exists>st'. generator_step st = Some st' \<and> backlog st' = m \<and> streaming st' \<and> same_work st st'"
proof (cases "sn_phase (ss_session st)")
  case Subscribed
  with assms show ?thesis
    by (auto simp: fetching_step backlog_def streaming_def same_work_def queued_def split: option.splits)
next
  case (Replaying evs)
  with assms show ?thesis
    by (cases evs) (auto simp: generator_defs backlog_def streaming_def same_work_def queued_def Let_def)
next
  case Live
  with assms obtain ev evs where "bs_queue (ss_broadcast st) (sn_queue (ss_session st)) = ev # evs"
    by (auto simp: backlog_def queued_def length_Suc_conv)
  with Live assms show ?thesis
    by (auto simp: generator_defs backlog_def streaming_def same_work_def queued_def Let_def)
qed (use assms in \<open>auto simp: streaming_def\<close>)

lemma caught_up:
  assumes "streaming st" and "backlog st = 0"
  shows "sn_phase (ss_session st) = Live \<and> bs_queue (ss_broadcast st) (sn_queue (ss_session st)) = []"
  using assms by (auto simp: streaming_def backlog_def queued_def split: phase.splits option.splits)

lemma catches_up:
  "streaming st \<Longrightarrow> covered st \<Longrightarrow> stream_ok st \<Longrightarrow> backlog st = n \<Longrightarrow>
   streaming (run_generator n st) \<and> backlog (run_generator n st) = 0 \<and> same_work st (run_generator n st)
   \<and> covered (run_generator n st) \<and> stream_ok (run_generator n st)"
proof (induction n arbitrary: st)
  case (Suc m)
  obtain st1 where step: "generator_step st = Some st1" "backlog st1 = m" "streaming st1" "same_work st st1"
    using one_less[OF Suc.prems(1,4)] by blast
  have "covered st1" "stream_ok st1"
    using Suc.prems covered_generates[OF _ _ step(1)] ok_generates[OF _ step(1)] by blast+
  from Suc.IH[OF step(3) this step(2)] step(1,4) show ?case by (auto simp: same_work_def)
qed (simp add: same_work_def)

section \<open>A concrete stream\<close>

definition stream_event :: "nat \<Rightarrow> event" where
  "stream_event n =
     \<lparr>ev_sequence = n, ev_id = ''e'', ev_run_id = ''r'', ev_type = EV_RUN_CREATED, ev_timestamp = 0,
      ev_actor = ''agent'', ev_summary = [], ev_action_id = None, ev_decision_id = None,
      ev_approval_id = None, ev_receipt_id = None, ev_turn_id = None, ev_details = [], ev_synthetic = True\<rparr>"

definition demo_stream :: stream_state where
  "demo_stream =
     \<lparr>ss_db = empty_store\<lparr>events_t := [stream_event 1, stream_event 2]\<rparr>, ss_unpublished = [stream_event 2],
      ss_broadcast = \<lparr>bs_subscribers = [], bs_queue = (\<lambda>_. []), bs_soon = []\<rparr>,
      ss_session = open_session ''r'' 7 None (Some 0) None\<rparr>"

lemma demo_opens: "opens demo_stream"
  by (auto simp: opens_def demo_stream_def open_session_def sequences_def run_events_def stream_event_def)

text \<open>The second event is published after the subscription and before the stored events are read.\<close>

definition demo_published :: "stream_state \<Rightarrow> stream_state" where
  "demo_published st =
     st\<lparr>ss_unpublished := [], ss_broadcast := publish_sync (\<lambda>_. False) ''r'' (stream_event 2) (ss_broadcast st)\<rparr>"

lemmas demo_defs = demo_stream_def demo_published_def stream_event_def open_session_def sequences_def run_events_def
  publish_sync_def put_or_drop_def queues_of_def subscribe_def QUEUE_MAXSIZE_def stream_cursor_def

definition demo_subscribed :: stream_state where
  "demo_subscribed =
     demo_stream\<lparr>ss_broadcast := \<lparr>bs_subscribers = [(''r'', 7)], bs_queue = (\<lambda>_. []), bs_soon = []\<rparr>,
       ss_session := (ss_session demo_stream)
         \<lparr>sn_phase := Subscribed, sn_cursor := Some 0, sn_out := [Connected], sn_count := 1\<rparr>\<rparr>"

lemma demo_first: "generator_step demo_stream = Some demo_subscribed"
  by (simp add: generator_defs demo_defs demo_subscribed_def Let_def truthy_def fun_upd_def)

lemma demo_steps:
  "roomy_step\<^sup>*\<^sup>* demo_stream (demo_published demo_subscribed)"
  "stream_step\<^sup>*\<^sup>* demo_stream (demo_published demo_subscribed)"
proof -
  have first: "stream_step demo_stream demo_subscribed" by (rule stream_step.generates[OF demo_first])
  have second: "stream_step demo_subscribed (demo_published demo_subscribed)"
    using stream_step.publishes[of "stream_event 2" demo_subscribed "stream_event 2" None "\<lambda>_. False"]
    by (simp add: demo_defs demo_subscribed_def)
  have "has_room demo_stream" "has_room demo_subscribed"
    by (simp_all add: has_room_def demo_defs demo_subscribed_def)
  with first second have "roomy_step demo_stream demo_subscribed"
    "roomy_step demo_subscribed (demo_published demo_subscribed)" by (simp_all add: roomy_step_def)
  then show "roomy_step\<^sup>*\<^sup>* demo_stream (demo_published demo_subscribed)"
    by (meson converse_rtranclp_into_rtranclp rtranclp.rtrancl_refl)
  from first second show "stream_step\<^sup>*\<^sup>* demo_stream (demo_published demo_subscribed)"
    by (meson converse_rtranclp_into_rtranclp rtranclp.rtrancl_refl)
qed

section \<open>Properties\<close>

text \<open>
  A stream sends no event twice.

  However the commits, the publications and the steps of the loop and of the generator interleave, the
  events a stream has sent have distinct sequence numbers, each the number of a committed event of the
  stream's own run, and a stream with a limit sends at most that many messages besides keepalives (the
  message that it is connected is sent in any case).\<close>

lemma stream_sends_each_event_once:
  assumes "opens st" and "stream_step\<^sup>*\<^sup>* st st'"
  shows "distinct (frame_sequences (sn_out (ss_session st')))
    \<and> set (frame_sequences (sn_out (ss_session st'))) \<subseteq> set (sequences (sn_run (ss_session st')) (ss_db st'))
    \<and> (case sn_limit (ss_session st') of
         None \<Rightarrow> True | Some l \<Rightarrow> counted_frames (sn_out (ss_session st')) \<le> max 1 l)"
proof -
  have ok: "sent_ok (ss_session st') (ss_db st')" "within_limit (ss_session st')"
    using ok_reachable[OF assms(2) stream_ok_opens[OF assms(1)]] by (simp_all add: stream_ok_def)
  then have "frame_sequences (sn_out (ss_session st')) = rev (sn_seen (ss_session st'))"
    "counted_frames (sn_out (ss_session st')) = sn_count (ss_session st')" by (simp_all add: sent_ok_def)
  with ok show ?thesis by (simp add: sent_ok_def within_limit_def split: option.splits)
qed

text \<open>
  C13: a resumed stream misses nothing.

  A stream that resumed after a cursor, has no limit, and whose queue was never full, has sent every
  committed event of its run past the cursor once the gateway has published what it committed, the loop
  has made its deferred puts, and the generator has run as many steps as it is behind: subscribing before
  the stored events are read leaves no gap.\<close>

theorem resumed_stream_misses_nothing:
  assumes "opens st" and "roomy_step\<^sup>*\<^sup>* st st'" and "streaming st'"
    and "sn_cursor (ss_session st') = Some c" and "ss_unpublished st' = []" and "bs_soon (ss_broadcast st') = []"
  shows "{n \<in> set (sequences (sn_run (ss_session st')) (ss_db st')). c < int n}
      \<subseteq> set (frame_sequences (sn_out (ss_session (run_generator (backlog st') st'))))"
proof -
  let ?st = "run_generator (backlog st') st'"
  note reached = covered_reachable[OF assms(2,1)]
  have caught: "streaming ?st" "backlog ?st = 0" "same_work st' ?st" "covered ?st" "stream_ok ?st"
    using catches_up[OF assms(3)] reached by blast+
  note live = caught_up[OF caught(1,2)]
  have "pending (sn_queue (ss_session ?st)) (ss_broadcast ?st) = {}"
    using live caught(3) assms(6) by (simp add: pending_def reaching_def soon_of_def same_work_def)
  then have "owed ?st = set (frame_sequences (sn_out (ss_session ?st)))"
    using live caught(3,5) assms(5) by (simp add: owed_def stream_ok_def sent_ok_def same_work_def unpublished_of_def)
  then show ?thesis
    using live caught(3,4) assms(4) by (auto simp: covered_def past_cursor_def same_work_def)
qed

theorem resumed_stream_misses_nothing_witness:
  "{n \<in> set (sequences ''r'' (ss_db demo_stream)). 0 < int n}
   \<subseteq> set (frame_sequences (sn_out (ss_session
        (run_generator (backlog (demo_published demo_subscribed)) (demo_published demo_subscribed)))))"
  using resumed_stream_misses_nothing[OF demo_opens demo_steps(1), of 0]
  by (simp add: streaming_def demo_published_def demo_subscribed_def demo_stream_def open_session_def
      publish_sync_def put_or_drop_def queues_of_def)

end
