(* ===== verification/AgentTools.thy ===== *)
theory AgentTools
  imports Provenance Schemas
begin

text \<open>
  \<open>backend/scopewatch/agent/tools.py\<close>: the tools offered to a model, the conversion of a tool call into a
  submission, and the dispatcher that talks to the gateway over HTTP. The gateway, the clock and the
  model are on the other side of a connection, so they are an environment: operations on a world of any
  type that may fail. Of an exception the class name and, where the code writes it, the message is kept;
  the message of an exception of the library is left empty.
\<close>

section \<open>Tool calls\<close>

text \<open>\<open>str(a or b or "")\<close>.\<close>

fun first_truthy :: "json list \<Rightarrow> json" where
  "first_truthy [] = JStr []"
| "first_truthy (v # vs) = (if json_truthy v then v else first_truthy vs)"

type_synonym fault = "pystr \<times> pystr"

text \<open>What the conversion takes from the library: \<open>json.loads\<close> and the text of a float.\<close>

record tool_lib =
  tl_loads :: "pystr \<Rightarrow> json option"
  tl_float :: "int \<Rightarrow> int \<Rightarrow> pystr"

definition parse_tool_call_arguments :: "tool_lib \<Rightarrow> json \<Rightarrow> jobj" where
  "parse_tool_call_arguments L args =
     (case args of
        JObj kvs \<Rightarrow> kvs
      | JStr s \<Rightarrow> (case tl_loads L s of Some (JObj kvs) \<Rightarrow> kvs | _ \<Rightarrow> [])
      | _ \<Rightarrow> [])"

text \<open>
  \<open>dict(v or {})\<close> followed by the validation of the keys as strings: a list of two-element lists or
  two-character strings is a dictionary too.
\<close>

fun dict_pair :: "json \<Rightarrow> fault + json \<times> json" where
  "dict_pair (JArr [k, v]) = Inr (k, v)"
| "dict_pair (JArr vs) = Inl (''ValueError'', [])"
| "dict_pair (JStr [c, d]) = Inr (JStr [c], JStr [d])"
| "dict_pair (JStr s) = Inl (''ValueError'', [])"
| "dict_pair (JObj [(k, _), (l, _)]) = Inr (JStr k, JStr l)"
| "dict_pair (JObj kvs) = Inl (''ValueError'', [])"
| "dict_pair _ = Inl (''TypeError'', [])"

fun dict_key :: "json \<Rightarrow> fault + unit" where
  "dict_key (JArr _) = Inl (''TypeError'', [])"
| "dict_key (JObj _) = Inl (''TypeError'', [])"
| "dict_key _ = Inr ()"

text \<open>Building the dictionary raises on the first bad pair; the validation of its keys comes after.\<close>

fun dict_pairs :: "json list \<Rightarrow> fault + (json \<times> json) list" where
  "dict_pairs [] = Inr []"
| "dict_pairs (v # vs) =
     (case dict_pair v of
        Inl e \<Rightarrow> Inl e
      | Inr kv \<Rightarrow>
          (case dict_key (fst kv) of
             Inl e \<Rightarrow> Inl e
           | Inr _ \<Rightarrow> (case dict_pairs vs of Inl e \<Rightarrow> Inl e | Inr kvs \<Rightarrow> Inr (kv # kvs))))"

fun string_keys :: "(json \<times> json) list \<Rightarrow> jobj \<Rightarrow> fault + jobj" where
  "string_keys [] d = Inr d"
| "string_keys ((JStr k, v) # kvs) d = string_keys kvs (dict_set d k v)"
| "string_keys ((_, v) # kvs) d = Inl (''ValidationError'', [])"

definition dict_of_json :: "json \<Rightarrow> fault + jobj" where
  "dict_of_json v =
     (if \<not> json_truthy v then Inr []
      else case v of
             JObj kvs \<Rightarrow> Inr kvs
           | JArr vs \<Rightarrow> (case dict_pairs vs of Inl e \<Rightarrow> Inl e | Inr kvs \<Rightarrow> string_keys kvs [])
           | JStr s \<Rightarrow> Inl (''ValueError'', [])
           | _ \<Rightarrow> Inl (''TypeError'', []))"

text \<open>The label of the reasoning: the provider's when it is one the gateway knows, else by what is there.\<close>

definition provenances :: "provenance list" where
  "provenances = [RP_UNAVAILABLE, RP_AGENT_AUTHORED_SUMMARY, RP_PROVIDER_EXPOSED_TRACE, RP_SYNTHETIC_FIXTURE,
                  RP_CALLER_ASSERTED_PROVIDER_TRACE, RP_CALLER_ASSERTED_SUMMARY]"

definition tool_call_provenance :: "pystr option \<Rightarrow> pystr option \<Rightarrow> pystr option \<Rightarrow> provenance" where
  "tool_call_provenance label trace summary =
     (case label of
        Some l \<Rightarrow> (case find (\<lambda>p. provenance_value p = l) provenances of Some p \<Rightarrow> p | None \<Rightarrow> RP_UNAVAILABLE)
      | None \<Rightarrow>
          if truthy trace then RP_PROVIDER_EXPOSED_TRACE
          else if truthy summary then RP_AGENT_AUTHORED_SUMMARY else RP_UNAVAILABLE)"

definition MAX_REASONING_SUMMARY_CHARS :: nat where "MAX_REASONING_SUMMARY_CHARS = 8000"
definition MAX_REASONING_TRACE_CHARS :: nat where "MAX_REASONING_TRACE_CHARS = 32000"

definition submit_request_valid :: "submit_request \<Rightarrow> bool" where
  "submit_request_valid q \<longleftrightarrow>
     length (or_empty (sr_reasoning_summary q)) \<le> MAX_REASONING_SUMMARY_CHARS
     \<and> length (or_empty (sr_exposed_trace q)) \<le> MAX_REASONING_TRACE_CHARS
     \<and> length (or_empty (sr_turn_id q)) \<le> 256
     \<and> bound_argument_strings (sr_arguments q)"

text \<open>Operation, resource and arguments of a call: the generic \<open>workspace\<close> tool names its own operation.\<close>

definition tool_target :: "tool_lib \<Rightarrow> json \<Rightarrow> jobj \<Rightarrow> fault + json \<times> pystr \<times> jobj" where
  "tool_target L tool_name args =
     (if tool_name = JStr ''workspace'' then
        (case dict_of_json (jget args ''arguments'') of
           Inl e \<Rightarrow> Inl e
         | Inr d \<Rightarrow>
             Inr (JStr (json_text (tl_float L) (first_truthy [jget args ''operation''])),
                  json_text (tl_float L) (first_truthy [jget args ''resource'', jget args ''path'']),
                  case map_of args ''content'' of
                    Some c \<Rightarrow> if map_of d ''content'' = None then dict_set d ''content'' c else d
                  | None \<Rightarrow> d))
      else
        Inr (tool_name,
             json_text (tl_float L) (first_truthy [jget args ''path'', jget args ''resource'', jget args ''url'']),
             filter (\<lambda>kv. fst kv \<notin> {''path'', ''resource'', ''url''}) args))"

definition convert_tool_call_to_submit_request ::
  "tool_lib \<Rightarrow> json \<Rightarrow> json \<Rightarrow> pystr option \<Rightarrow> pystr option \<Rightarrow> pystr option \<Rightarrow> pystr option \<Rightarrow> pystr
   \<Rightarrow> fault + submit_request" where
  "convert_tool_call_to_submit_request L tool_name tool_arguments turn trace label summary requester =
     (case tool_target L tool_name (parse_tool_call_arguments L tool_arguments) of
        Inl e \<Rightarrow> Inl e
      | Inr (JStr op, res, args) \<Rightarrow>
          let q = \<lparr>sr_tool = ''workspace'', sr_operation = op, sr_resource = res, sr_arguments = args,
                   sr_requested_by = Some requester, sr_reasoning_summary = summary, sr_exposed_trace = trace,
                   sr_provenance = Some (tool_call_provenance label trace summary), sr_turn_id = turn\<rparr>
          in if submit_request_valid q then Inr q else Inl (''ValidationError'', [])
      | Inr _ \<Rightarrow> Inl (''ValidationError'', []))"

section \<open>The dispatcher\<close>

text \<open>The requests it makes; headers and parameters as the code sets them.\<close>

datatype gateway_call =
    Post_action pystr submit_request "(pystr \<times> pystr) list"
  | Get_action pystr pystr
  | Get_run_approvals pystr
  | Get_approvals pystr
  | Post_expire pystr "(pystr \<times> pystr) list"
  | Post_complete pystr "int option" "(pystr \<times> pystr) list"
  | Post_fail pystr pystr "(pystr \<times> pystr) list"
  | Patch_prompt pystr pystr "(pystr \<times> pystr) list"
  | Get_run pystr

text \<open>
  A response body by what \<open>model_validate\<close> makes of it; \<open>Error_body\<close> is the error envelope with its code,
  \<open>Opaque_body\<close> anything else.
\<close>

datatype reply_body =
    Action_body action_response
  | Approval_body approval
  | Approvals_body "approval list"
  | Run_body run_response
  | Error_body pystr
  | Opaque_body

record gateway_reply =
  gr_status :: nat
  gr_body :: reply_body
  gr_text :: pystr

text \<open>Times and durations are microseconds of the monotonic clock.\<close>

record 'w connection =
  cn_now :: "'w \<Rightarrow> int \<times> 'w"
  cn_sleep :: "int \<Rightarrow> 'w \<Rightarrow> 'w"
  cn_send :: "gateway_call \<Rightarrow> 'w \<Rightarrow> (fault + gateway_reply) \<times> 'w"

record dispatcher =
  gd_capture_token :: "pystr option"
  gd_demo_token :: "pystr option"
  gd_api_key :: "pystr option"

text \<open>An operation that may fail, and one that may also never return.\<close>

type_synonym ('a, 'w) oper = "'w \<Rightarrow> (fault + 'a) \<times> 'w"
type_synonym ('a, 'w) poper = "'w \<Rightarrow> ((fault + 'a) \<times> 'w) option"

definition new_dispatcher ::
  "(pystr \<Rightarrow> pystr option) \<Rightarrow> pystr option \<Rightarrow> pystr option \<Rightarrow> pystr option \<Rightarrow> dispatcher" where
  "new_dispatcher env capture demo key =
     \<lparr>gd_capture_token = (case capture of Some t \<Rightarrow> Some t | None \<Rightarrow> configured_capture_token (env ''SCOPEWATCH_CAPTURE_TOKEN'')),
      gd_demo_token = (case demo of Some t \<Rightarrow> Some t | None \<Rightarrow> env ''DEMO_TOKEN''),
      gd_api_key = (case key of Some t \<Rightarrow> Some t | None \<Rightarrow> env ''SCOPEWATCH_API_KEY'')\<rparr>"

definition header_of :: "pystr \<Rightarrow> pystr option \<Rightarrow> (pystr \<times> pystr) list" where
  "header_of name v = (if truthy v then [(name, or_empty v)] else [])"

definition mutating_headers :: "dispatcher \<Rightarrow> (pystr \<times> pystr) list" where
  "mutating_headers d = header_of ''X-Demo-Token'' (gd_demo_token d) @ header_of ''X-API-Key'' (gd_api_key d)"

definition capture_headers :: "dispatcher \<Rightarrow> (pystr \<times> pystr) list" where
  "capture_headers d = mutating_headers d @ header_of CAPTURE_TOKEN_HEADER (gd_capture_token d)"

definition runtime_error :: "pystr \<Rightarrow> fault" where
  "runtime_error m = (''RuntimeError'', m)"

definition http_failed :: "pystr \<Rightarrow> gateway_reply \<Rightarrow> fault" where
  "http_failed what r = runtime_error (what @ '' (HTTP '' @ show_nat (gr_status r) @ ''): '' @ gr_text r)"

definition validated :: "'a option \<Rightarrow> fault + 'a" where
  "validated v = (case v of None \<Rightarrow> Inl (''ValidationError'', []) | Some a \<Rightarrow> Inr a)"

definition action_of_reply :: "gateway_reply \<Rightarrow> action_response option" where
  "action_of_reply r =
     (case gr_body r of Action_body a \<Rightarrow> if ar_decision a = None then None else Some a | _ \<Rightarrow> None)"

definition run_of_reply :: "gateway_reply \<Rightarrow> run_response option" where
  "run_of_reply r = (case gr_body r of Run_body x \<Rightarrow> Some x | _ \<Rightarrow> None)"

text \<open>One request, answered by \<open>accept\<close> or the error of the answer.\<close>

definition request ::
  "'w connection \<Rightarrow> gateway_call \<Rightarrow> (gateway_reply \<Rightarrow> fault + 'a) \<Rightarrow> ('a, 'w) oper" where
  "request C call accept w =
     (case cn_send C call w of (Inl e, w1) \<Rightarrow> (Inl e, w1) | (Inr r, w1) \<Rightarrow> (accept r, w1))"

definition submit_call :: "'w connection \<Rightarrow> dispatcher \<Rightarrow> pystr \<Rightarrow> submit_request \<Rightarrow> (action_response, 'w) oper" where
  "submit_call C d run_id q =
     request C (Post_action run_id q (capture_headers d))
       (\<lambda>r. if gr_status r \<noteq> 200 \<and> gr_status r \<noteq> 201
            then Inl (http_failed ''Gateway rejected action submission'' r)
            else validated (action_of_reply r))"

definition get_action_call :: "'w connection \<Rightarrow> pystr \<Rightarrow> pystr \<Rightarrow> (action_response, 'w) oper" where
  "get_action_call C run_id action_id =
     request C (Get_action run_id action_id)
       (\<lambda>r. if gr_status r \<noteq> 200 then Inl (http_failed (''Failed to get action '' @ quoted action_id) r)
            else validated (action_of_reply r))"

definition approvals_of_reply :: "gateway_reply \<Rightarrow> fault + approval list" where
  "approvals_of_reply r =
     (if gr_status r \<noteq> 200 then Inl (http_failed ''Failed to list approvals'' r)
      else case gr_body r of Approvals_body ps \<Rightarrow> Inr ps | _ \<Rightarrow> Inl (''ValidationError'', []))"

definition list_approvals_call :: "'w connection \<Rightarrow> pystr \<Rightarrow> (approval list, 'w) oper" where
  "list_approvals_call C run_id w =
     (case cn_send C (Get_run_approvals run_id) w of
        (Inl e, w1) \<Rightarrow> (Inl e, w1)
      | (Inr r, w1) \<Rightarrow>
          if gr_status r = 404 then request C (Get_approvals run_id) approvals_of_reply w1
          else (approvals_of_reply r, w1))"

definition expire_call :: "'w connection \<Rightarrow> dispatcher \<Rightarrow> pystr \<Rightarrow> (approval, 'w) oper" where
  "expire_call C d k =
     request C (Post_expire k (mutating_headers d))
       (\<lambda>r. if gr_status r \<noteq> 200
            then Inl (runtime_error (''Failed to end approval wait (HTTP '' @ show_nat (gr_status r) @ '').''))
            else case gr_body r of Approval_body p \<Rightarrow> Inr p | _ \<Rightarrow> Inl (''ValidationError'', []))"

text \<open>
  \<open>_post_terminal\<close>: the retries while the gateway answers that an approved action is in flight. A pass
  reads the clock twice under a deadline.
\<close>

definition RETRY_PAUSE :: int where "RETRY_PAUSE = 50000"

definition in_flight_reply :: "gateway_reply \<Rightarrow> bool" where
  "in_flight_reply r \<longleftrightarrow> gr_status r = 409 \<and> gr_body r = Error_body ''APPROVED_ACTION_IN_FLIGHT''"

definition post_once ::
  "'w connection \<Rightarrow> (int option \<Rightarrow> gateway_call) \<Rightarrow> int option \<Rightarrow> (gateway_reply, 'w) oper" where
  "post_once C call deadline w =
     (case deadline of
        None \<Rightarrow> cn_send C (call None) w
      | Some d \<Rightarrow>
          (case cn_now C w of (t, w1) \<Rightarrow>
             if d \<le> t then (Inl (''TimeoutError'', ''Wall clock timeout reached while completing run.''), w1)
             else case cn_now C w1 of (t', w2) \<Rightarrow> cn_send C (call (Some (max 0 (d - t')))) w2))"

partial_function (option) post_terminal ::
  "'w connection \<Rightarrow> (int option \<Rightarrow> gateway_call) \<Rightarrow> int option \<Rightarrow> 'w \<Rightarrow> ((fault + gateway_reply) \<times> 'w) option"
where
  "post_terminal C call deadline w =
     (case post_once C call deadline w of
        (Inl e, w1) \<Rightarrow> Some (Inl e, w1)
      | (Inr r, w1) \<Rightarrow>
          if in_flight_reply r then post_terminal C call deadline (cn_sleep C RETRY_PAUSE w1)
          else Some (Inr r, w1))"

definition complete_run_call :: "'w connection \<Rightarrow> dispatcher \<Rightarrow> pystr \<Rightarrow> int \<Rightarrow> (run_response, 'w) poper" where
  "complete_run_call C d run_id deadline w =
     (case post_terminal C (\<lambda>b. Post_complete run_id b (mutating_headers d)) (Some deadline) w of
        None \<Rightarrow> None
      | Some (Inl e, w1) \<Rightarrow> Some (Inl e, w1)
      | Some (Inr r, w1) \<Rightarrow>
          Some (if gr_status r \<noteq> 200 then Inl (http_failed (''Failed to complete run '' @ quoted run_id) r)
                else validated (run_of_reply r), w1))"

definition fail_run_call :: "'w connection \<Rightarrow> dispatcher \<Rightarrow> pystr \<Rightarrow> pystr \<Rightarrow> (run_response option, 'w) poper" where
  "fail_run_call C d run_id reason w =
     (case post_terminal C (\<lambda>_. Post_fail run_id reason (mutating_headers d)) None w of
        None \<Rightarrow> None
      | Some (Inl e, w1) \<Rightarrow> Some (Inl e, w1)
      | Some (Inr r, w1) \<Rightarrow>
          Some (if gr_status r \<noteq> 200 then Inr None
                else map_sum id Some (validated (run_of_reply r)), w1))"

definition record_prompt_call :: "'w connection \<Rightarrow> dispatcher \<Rightarrow> pystr \<Rightarrow> pystr \<Rightarrow> (run_response option, 'w) oper" where
  "record_prompt_call C d run_id version =
     request C (Patch_prompt run_id version (mutating_headers d))
       (\<lambda>r. if gr_status r \<noteq> 200 then Inr None else map_sum id Some (validated (run_of_reply r)))"

end
