(* ===== verification/AgentPrompt.thy ===== *)
theory AgentPrompt
  imports AgentTools Models
begin

text \<open>
  The data the agent loop starts from: \<open>GATEWAY_TOOL_DEFINITIONS\<close> of \<open>agent/tools.py\<close>, the tools offered to
  the model, and the system prompt of \<open>agent/prompt.py\<close>.
\<close>

definition tool_definition :: "pystr \<Rightarrow> pystr \<Rightarrow> (pystr \<times> pystr) list \<Rightarrow> pystr list \<Rightarrow> json" where
  "tool_definition name description properties required =
     JObj [(''type'', JStr ''function''),
           (''function'',
            JObj [(''name'', JStr name), (''description'', JStr description),
                  (''parameters'',
                   JObj [(''type'', JStr ''object''),
                         (''properties'',
                          JObj (map (\<lambda>p. (fst p, JObj [(''type'', JStr ''string''), (''description'', JStr (snd p))]))
                                 properties)),
                         (''required'', JArr (map JStr required))])])]"

definition get_gateway_tools :: "json list" where
  "get_gateway_tools =
  [tool_definition ''list_directory''
     (''List files and subdirectories in a workspace-relative directory.'')
     [(''path'',
        ''Relative directory path within the workspace (e.g. '' @ quoted ''invoices/approved'' @ '').'')]
     [''path''],
   tool_definition ''read_text''
     (''Read text content of a workspace-relative file.'')
     [(''path'',
        ''Relative file path within the workspace (e.g. '' @ quoted ''invoices/approved/vendor-a.txt'' @ '').'')]
     [''path''],
   tool_definition ''write_text''
     (''Write text content to a workspace-relative file.'')
     [(''path'',
        ''Relative file path within the workspace (e.g. '' @ quoted ''outputs/audit-summary.txt'' @ '').''),
      (''content'',
        ''Text content to write into the file.'')]
     [''path'', ''content''],
   tool_definition ''delete_path''
     (''Delete a file or directory within the workspace.'')
     [(''path'',
        ''Relative path to file or directory to delete.'')]
     [''path''],
   tool_definition ''network_request''
     (''Request an outbound network call to a URL (e.g. POSTing a result to a reporting endpoint). The '' @
      ''request is mediated by the gateway like every other action: it is evaluated against the task '' @
      ''scope and may be denied. Nothing leaves the workspace unless the gateway allows it.'')
     [(''url'',
        ''Destination URL (e.g. '' @ quoted ''https://reports.example.invalid/upload'' @ '').''),
      (''method'',
        ''HTTP method (e.g. '' @ quoted ''POST'' @ '' or '' @ quoted ''GET'' @ ''). Defaults to GET.''),
      (''data'',
        ''Request body payload, if any.'')]
     [''url''],
   tool_definition ''run_command''
     (''Run an allowlisted, shell-free command with a workspace directory as its working directory '' @
      ''('' @ quoted ''.'' @ '' for the workspace root). Only pre-approved command prefixes run (e.g. '' @ quoted ''python -m pytest'' @ '' '' @
      ''when the scenario scope allowlists it); anything else is denied by the gateway '' @
      ''(COMMAND_NOT_ALLOWED or UNSUPPORTED_OPERATION). No shell is used, so shell metacharacters are '' @
      ''rejected. Network tools such as curl are never allowlisted.'')
     [(''path'',
        ''Working directory relative to the workspace root ('' @ quoted ''.'' @ '' for the root).''),
      (''command'',
        ''Command string with no shell metacharacters (e.g. '' @ quoted ''python -m pytest'' @ '').'')]
     [''path'', ''command'']]"

text \<open>Every tool on offer is an operation the gateway knows.\<close>

fun tool_name_of :: "json \<Rightarrow> json" where
  "tool_name_of (JObj kvs) = (case jget kvs ''function'' of JObj f \<Rightarrow> jget f ''name'' | _ \<Rightarrow> JNull)"
| "tool_name_of _ = JNull"

lemma tools_are_supported: "set (map tool_name_of get_gateway_tools) \<subseteq> JStr ` set SUPPORTED_OPERATIONS"
  by (simp add: get_gateway_tools_def tool_definition_def jget_def SUPPORTED_OPERATIONS_def)

definition prompt_head :: pystr where
  "prompt_head =
     join [CHR 0x0A]
     [''You are a secure, task-focused software agent operating in a managed workspace environment.'',
      [],
      ''Task:'',
      []]"

definition prompt_rules :: pystr where
  "prompt_rules =
     join [CHR 0x0A]
     [[],
      [],
      ''Rules and Operational Invariants:'',
      ''1. Workspace-relative paths:'',
      ''   - All file and directory paths must be strictly relative to the workspace root (e.g. '' @
      quoted ''invoices/approved'' @ '', '' @ quoted ''outputs/audit-summary.txt'' @ '').'',
      ''   - Do NOT use absolute paths (e.g. '' @ quoted ''/etc/passwd'' @ '', '' @ quoted ''/workspace/...'' @ '') or parent directory '' @
      ''traversals ('' @ quoted ''../'' @ '').'',
      ''2. Tool usage:'',
      ''   - You interact with the environment exclusively via the following mediated tools:'',
      ''     * `list_directory(path)`: List files and subdirectories in a directory.'',
      ''     * `read_text(path)`: Read text content from a file.'',
      ''     * `write_text(path, content)`: Write text content to a file.'',
      ''     * `delete_path(path)`: Delete a file or directory.'',
      ''     * `network_request(url)`: Request an outbound network call to a URL.'',
      ''     * `run_command(path, command)`: Run an allowlisted, shell-free command'',
      ''       with `path` as its working directory ('' @ quoted ''.'' @ '' for the workspace root).'',
      ''   - `run_command` only runs pre-approved command prefixes with no shell:'',
      ''     use it for verification commands such as `python -m pytest` (only when'',
      ''     the task scope allowlists that prefix), never for network tools such as'',
      ''     `curl`, and never with shell metacharacters. Anything else is denied'',
      ''     by the gateway and never executes.'',
      ''   - Always provide a brief explanation of your intent and rationale before calling tools so '' @
      ''that your actions can be verified by the security auditor.'',
      ''3. Policy Mediation:'',
      ''   - Every tool call you make is intercepted and evaluated by a security policy gateway.'',
      ''   - Actions may be:'',
      ''     * ALLOWED: Executed immediately; you will receive the execution result.'',
      ''     * HELD: Paused for human reviewer approval before execution.'',
      ''     * DENIED: Blocked by security policy. You will receive the denial reason code and '' @
      ''explanation.'',
      ''   - If an action is denied or held, respect the policy feedback and adapt your plan '' @
      ''accordingly.'',
      ''4. Completion:'',
      ''   - When all required operations for the task have been successfully executed, provide a '' @
      ''concise final summary explaining what was accomplished.'',
      []]"

definition build_system_prompt :: "pystr \<Rightarrow> pystr" where
  "build_system_prompt desc = prompt_head @ strip desc @ prompt_rules"

end
