(* ===== verification/AgentLoop.thy ===== *)
theory AgentLoop
  imports AgentPrompt BudgetStore
begin

text \<open>
  \<open>backend/scopewatch/agent/loop.py\<close>: the loop that asks a model for its next turn and sends every tool
  call of the turn to the gateway, one at a time. The state of a run is the world and what the code keeps
  in local variables; the conversation is kept as it was handed to the provider.
\<close>

section \<open>Failure reasons\<close>

definition token_char :: "char \<Rightarrow> bool" where
  "token_char c =
     (let n = (of_char c :: nat)
      in (48 \<le> n \<and> n \<le> 57) \<or> (65 \<le> n \<and> n \<le> 90) \<or> (97 \<le> n \<and> n \<le> 122) \<or> c \<in> {CHR ''_'', CHR ''-'', CHR ''.''})"

text \<open>
  A match of one of the two patterns at the head of a string: the keyword in any case, separators, and at
  least eight token characters; the classes are disjoint, so no backtracking changes it. It gives what is
  kept and what follows.
\<close>

definition secret_at :: "pystr list \<Rightarrow> (char \<Rightarrow> bool) \<Rightarrow> pystr \<Rightarrow> (pystr \<times> pystr) option" where
  "secret_at words sep s =
     (case find (\<lambda>k. starts_with (lower s) k) words of
        None \<Rightarrow> None
      | Some k \<Rightarrow>
          let r = drop (length k) s; t = dropWhile sep r
          in if takeWhile sep r \<noteq> [] \<and> 8 \<le> length (takeWhile token_char t)
             then Some (take (length k) s @ takeWhile sep r, dropWhile token_char t) else None)"

definition redact :: "pystr list \<Rightarrow> (char \<Rightarrow> bool) \<Rightarrow> pystr \<Rightarrow> pystr" where
  "redact words sep = re_sub (\<lambda>s. map_option (\<lambda>(kept, rest). (kept @ ''[REDACTED]'', rest)) (secret_at words sep s))"

definition key_words :: "pystr list" where
  "key_words = [''apikey'', ''api_key'', ''api-key'', ''token'', ''secret'', ''password'']"

definition sanitize_failure_reason :: "pystr \<Rightarrow> pystr" where
  "sanitize_failure_reason error =
     (let a = redact [''bearer''] py_space error;
          b = redact key_words (\<lambda>c. c = CHR ''='' \<or> c = CHR '':'' \<or> py_space c) a
      in if 300 < length b then take 297 b @ ''...'' else b)"

section \<open>The conversation and the result\<close>

record chat_result =
  cr_content :: "pystr option"
  cr_tool_calls :: "jobj list"
  cr_reasoning :: "pystr option"
  cr_provenance :: pystr

text \<open>The content of a tool message is the value that is dumped; the id is the model's.\<close>

datatype message =
    System_msg pystr
  | User_msg pystr
  | Assistant_msg "pystr option" "jobj list" "pystr option"
  | Tool_msg json json

record agent_result =
  ag_status :: pystr
  ag_result_turns :: int
  ag_result_calls :: int
  ag_result_actions :: "action_response list"
  ag_result_decisions :: "pystr list"
  ag_final :: "pystr option"
  ag_error :: "pystr option"
  ag_prompt :: pystr
  ag_result_messages :: "message list"

definition PROMPT_VERSION :: pystr where "PROMPT_VERSION = ''2026-10-03''"

section \<open>Budget\<close>

definition REPLAY_AGENT_WALL_CLOCK :: int where "REPLAY_AGENT_WALL_CLOCK = 120000000"
definition LIVE_AGENT_WALL_CLOCK :: int where "LIVE_AGENT_WALL_CLOCK = 600000000"

text \<open>\<open>py_float\<close> is the standard library's \<open>float\<close> on a string, in microseconds.\<close>

definition agent_wall_clock_timeout ::
  "(pystr \<Rightarrow> int option) \<Rightarrow> environ \<Rightarrow> pystr \<Rightarrow> pystr \<Rightarrow> int" where
  "agent_wall_clock_timeout py_float env name base_url =
     (let raw = strip (or_empty (env ''SCOPEWATCH_AGENT_WALL_CLOCK_S''));
          default = (if (name \<noteq> [] \<or> base_url \<noteq> []) \<and> \<not> is_mock_profile name base_url
                     then LIVE_AGENT_WALL_CLOCK else REPLAY_AGENT_WALL_CLOCK)
      in if raw = [] then default
         else case py_float raw of Some v \<Rightarrow> if 0 < v then v else default | None \<Rightarrow> default)"

definition resolve_wall_clock ::
  "(pystr \<Rightarrow> int option) \<Rightarrow> environ \<Rightarrow> pystr \<Rightarrow> pystr \<Rightarrow> int option \<Rightarrow> int" where
  "resolve_wall_clock py_float env name base_url explicit =
     (case explicit of Some v \<Rightarrow> v | None \<Rightarrow> agent_wall_clock_timeout py_float env name base_url)"

section \<open>The state of a run\<close>

record loop_conf =
  lc_run_id :: pystr
  lc_task :: pystr
  lc_max_turns :: int
  lc_max_calls :: int
  lc_wall_clock :: int
  lc_approval_timeout :: int
  lc_poll :: int
  lc_requested_by :: pystr
  lc_prompt_version :: pystr
  lc_dispatcher :: dispatcher

text \<open>
  The provider gets the conversation and the budget left (a client without a timeout parameter ignores
  it); \<open>ae_seconds\<close> is the text of a duration as a float of seconds.
\<close>

record 'w agent_env = "'w connection" +
  ae_complete :: "message list \<Rightarrow> int \<Rightarrow> 'w \<Rightarrow> (fault + chat_result) \<times> 'w"
  ae_uuid :: "'w \<Rightarrow> pystr \<times> 'w"
  ae_lib :: tool_lib
  ae_seconds :: "int \<Rightarrow> pystr"

record 'w agent =
  ag_world :: 'w
  ag_turns :: int
  ag_calls :: int
  ag_actions :: "action_response list"
  ag_decisions :: "pystr list"
  ag_unresolved :: int
  ag_messages :: "message list"

definition po_return :: "'a \<Rightarrow> ('a, 's) poper" where
  "po_return x s = Some (Inr x, s)"

definition po_raise :: "fault \<Rightarrow> ('a, 's) poper" where
  "po_raise e s = Some (Inl e, s)"

definition po_bind :: "('a, 's) poper \<Rightarrow> ('a \<Rightarrow> ('b, 's) poper) \<Rightarrow> ('b, 's) poper" where
  "po_bind m f s =
     (case m s of None \<Rightarrow> None | Some (Inl e, t) \<Rightarrow> Some (Inl e, t) | Some (Inr a, t) \<Rightarrow> f a t)"

text \<open>\<open>try ... except Exception\<close>.\<close>

definition po_catch :: "('a, 's) poper \<Rightarrow> (fault \<Rightarrow> ('a, 's) poper) \<Rightarrow> ('a, 's) poper" where
  "po_catch m h s =
     (case m s of None \<Rightarrow> None | Some (Inl e, t) \<Rightarrow> h e t | Some (Inr a, t) \<Rightarrow> Some (Inr a, t))"

definition in_world :: "('a, 'w) oper \<Rightarrow> ('a, 'w agent) poper" where
  "in_world m s = (case m (ag_world s) of (r, w) \<Rightarrow> Some (r, s\<lparr>ag_world := w\<rparr>))"

definition in_world_p :: "('a, 'w) poper \<Rightarrow> ('a, 'w agent) poper" where
  "in_world_p m s =
     (case m (ag_world s) of None \<Rightarrow> None | Some (r, w) \<Rightarrow> Some (r, s\<lparr>ag_world := w\<rparr>))"

definition sure :: "('w \<Rightarrow> 'a \<times> 'w) \<Rightarrow> ('a, 'w) oper" where
  "sure m w = (case m w of (a, w1) \<Rightarrow> (Inr a, w1))"

definition attempt :: "('a, 's) poper \<Rightarrow> (unit, 's) poper" where
  "attempt m = po_catch (po_bind m (\<lambda>_. po_return ())) (\<lambda>_. po_return ())"

definition update_agent :: "('w agent \<Rightarrow> 'w agent) \<Rightarrow> (unit, 'w agent) poper" where
  "update_agent f s = Some (Inr (), f s)"

definition say :: "message \<Rightarrow> 'w agent \<Rightarrow> 'w agent" where
  "say m s = s\<lparr>ag_messages := ag_messages s @ [m]\<rparr>"

definition result_of :: "pystr \<Rightarrow> pystr \<Rightarrow> pystr option \<Rightarrow> pystr option \<Rightarrow> 'w agent \<Rightarrow> agent_result" where
  "result_of status prompt final_text err s =
     \<lparr>ag_status = status, ag_result_turns = ag_turns s, ag_result_calls = ag_calls s,
      ag_result_actions = ag_actions s, ag_result_decisions = ag_decisions s, ag_final = final_text,
      ag_error = err, ag_prompt = prompt, ag_result_messages = ag_messages s\<rparr>"

definition returns_result ::
  "pystr \<Rightarrow> pystr \<Rightarrow> pystr option \<Rightarrow> pystr option \<Rightarrow> (agent_result, 'w agent) poper" where
  "returns_result status prompt final_text err s = Some (Inr (result_of status prompt final_text err s), s)"

text \<open>Marking the run failed and returning; some returns leave out the prompt version and get the default.\<close>

definition give_up :: "'w agent_env \<Rightarrow> loop_conf \<Rightarrow> pystr \<Rightarrow> pystr \<Rightarrow> (agent_result, 'w agent) poper" where
  "give_up E F prompt err =
     po_bind (in_world_p (fail_run_call (connection.truncate E) (lc_dispatcher F) (lc_run_id F) err)) (\<lambda>_.
       returns_result ''FAILED'' prompt None (Some err))"


section \<open>What a tool call is answered\<close>

definition receipt_feedback :: "receipt \<Rightarrow> jobj" where
  "receipt_feedback r =
     (let d = (case sanitized_result r of None \<Rightarrow> [] | Some d \<Rightarrow> d);
          d1 = (if d = [] \<or> rec_status r \<noteq> XS_EXECUTED
                then dict_set d ''status'' (JStr (execution_status_value (rec_status r))) else d)
      in if truthy (rec_error_code r) then dict_set d1 ''error_code'' (JStr (or_empty (rec_error_code r))) else d1)"

text \<open>A truncated read without its content is answered as a failure.\<close>

definition oversized_read :: "jobj \<Rightarrow> bool" where
  "oversized_read d \<longleftrightarrow>
     jget d ''operation'' = JStr ''read_text'' \<and> json_truthy (jget d ''truncated'') \<and> map_of d ''content'' = None"

definition byte_count_text :: "tool_lib \<Rightarrow> jobj \<Rightarrow> pystr" where
  "byte_count_text L d =
     (case map_of d ''byte_count'' of None \<Rightarrow> ''0'' | Some v \<Rightarrow> json_text (tl_float L) v)"

definition allowed_feedback :: "tool_lib \<Rightarrow> receipt \<Rightarrow> jobj" where
  "allowed_feedback L r =
     (let d = receipt_feedback r
      in if oversized_read d then
           [(''status'', JStr ''FAILED''),
            (''error'', JStr (''File read was truncated ('' @ byte_count_text L d
                              @ '' bytes). Reads above the bound are refused.'')),
            (''error_code'', JStr ''OVERSIZED_FILE'')]
         else d)"

definition denied_feedback :: "decision \<Rightarrow> jobj" where
  "denied_feedback d =
     [(''status'', JStr ''DENIED''), (''reason_code'', JStr (reason_code_value (reason_code d))),
      (''explanation'', JStr (explanation d))]"

section \<open>Waiting for a review\<close>

datatype review = Out_of_time | Settled jobj bool | Waiting bool

definition matching_approval :: "action_response \<Rightarrow> approval list \<Rightarrow> approval option" where
  "matching_approval resp ps =
     find (\<lambda>p. (case ar_approval resp of None \<Rightarrow> False | Some q \<Rightarrow> app_id q \<noteq> [] \<and> app_id p = app_id q)
               \<or> app_action_id p = act_id (ar_action resp)) ps"

text \<open>The approval a pass looks at: the one it expires when the review wait is over, else the listed one.\<close>

definition look_up ::
  "'w connection \<Rightarrow> loop_conf \<Rightarrow> action_response \<Rightarrow> bool \<Rightarrow> (approval option, 'w) oper" where
  "look_up C F resp timed_out w =
     (if timed_out then
        (case ar_approval resp of
           None \<Rightarrow> (Inl (runtime_error ''Held action has no approval request.''), w)
         | Some q \<Rightarrow> (case expire_call C (lc_dispatcher F) (app_id q) w of (r, w1) \<Rightarrow> (map_sum id Some r, w1)))
      else (case list_approvals_call C (lc_run_id F) w of (r, w1) \<Rightarrow> (map_sum id (matching_approval resp) r, w1)))"

definition review_denied :: "approval \<Rightarrow> jobj" where
  "review_denied p =
     [(''status'', JStr ''DENIED''),
      (''explanation'', JStr (if truthy (resolution_reason p) then or_empty (resolution_reason p)
                              else ''Action was denied by human reviewer.''))]"

definition review_ended :: "loop_conf \<Rightarrow> (int \<Rightarrow> pystr) \<Rightarrow> bool \<Rightarrow> jobj" where
  "review_ended F secs timed_out =
     (if timed_out then
        [(''status'', JStr ''TIMEOUT''),
         (''explanation'', JStr (''Approval timed out after '' @ secs (lc_approval_timeout F)
                                 @ ''s waiting for review.''))]
      else [(''status'', JStr ''DENIED''), (''explanation'', JStr ''Approval request expired before review.'')])"

definition judge_approval ::
  "'w connection \<Rightarrow> (int \<Rightarrow> pystr) \<Rightarrow> loop_conf \<Rightarrow> action_response \<Rightarrow> bool \<Rightarrow> bool \<Rightarrow> approval option \<Rightarrow> (review, 'w) oper" where
  "judge_approval C secs F resp in_flight timed_out matching w =
     (case matching of
        None \<Rightarrow> (Inr (Waiting in_flight), w)
      | Some p \<Rightarrow>
          (case app_status p of
             AS_PENDING \<Rightarrow> (Inr (Waiting in_flight), w)
           | AS_DENIED \<Rightarrow> (Inr (Settled (review_denied p) False), w)
           | AS_EXPIRED \<Rightarrow> (Inr (Settled (review_ended F secs timed_out) timed_out), w)
           | _ \<Rightarrow>
               (case get_action_call C (lc_run_id F) (act_id (ar_action resp)) w of
                  (Inl e, w1) \<Rightarrow> (Inl e, w1)
                | (Inr a, w1) \<Rightarrow>
                    (Inr (case ar_receipt a of
                            Some r \<Rightarrow> Settled (receipt_feedback r) False | None \<Rightarrow> Waiting True), w1))))"

text \<open>One pass of the loop; the review deadline is not read once the approved action is in flight.\<close>

definition review_timed_out :: "'w connection \<Rightarrow> loop_conf \<Rightarrow> int \<Rightarrow> bool \<Rightarrow> 'w \<Rightarrow> bool \<times> 'w" where
  "review_timed_out C F poll_start in_flight w =
     (if in_flight then (False, w)
      else case cn_now C w of (t, w1) \<Rightarrow> (lc_approval_timeout F \<le> t - poll_start, w1))"

definition review_round ::
  "'w connection \<Rightarrow> (int \<Rightarrow> pystr) \<Rightarrow> loop_conf \<Rightarrow> int \<Rightarrow> int \<Rightarrow> action_response \<Rightarrow> bool \<Rightarrow> (review, 'w) oper" where
  "review_round C secs F start poll_start resp in_flight w =
     (case cn_now C w of (t, w1) \<Rightarrow>
        if lc_wall_clock F \<le> t - start then (Inr Out_of_time, w1)
        else
          (case review_timed_out C F poll_start in_flight w1 of (timed_out, w2) \<Rightarrow>
             (case look_up C F resp timed_out w2 of
                (Inl e, w3) \<Rightarrow> (Inl e, w3)
              | (Inr matching, w3) \<Rightarrow> judge_approval C secs F resp in_flight timed_out matching w3)))"

partial_function (option) await_review ::
  "'w connection \<Rightarrow> (int \<Rightarrow> pystr) \<Rightarrow> loop_conf \<Rightarrow> int \<Rightarrow> int \<Rightarrow> action_response \<Rightarrow> bool \<Rightarrow> 'w \<Rightarrow> ((fault + review) \<times> 'w) option"
where
  "await_review C secs F start poll_start resp in_flight w =
     (case review_round C secs F start poll_start resp in_flight w of
        (Inl e, w1) \<Rightarrow> Some (Inl e, w1)
      | (Inr (Waiting fl), w1) \<Rightarrow> await_review C secs F start poll_start resp fl (cn_sleep C (lc_poll F) w1)
      | (Inr Out_of_time, w1) \<Rightarrow> Some (Inr Out_of_time, w1)
      | (Inr (Settled d u), w1) \<Rightarrow> Some (Inr (Settled d u), w1))"

section \<open>A turn\<close>

datatype flow = Next | Finish agent_result

definition finished :: "(agent_result, 's) poper \<Rightarrow> (flow, 's) poper" where
  "finished m = po_bind m (\<lambda>r. po_return (Finish r))"

definition clock :: "'w agent_env \<Rightarrow> (int, 'w agent) poper" where
  "clock E = in_world (sure (cn_now E))"

definition wall_clock_text :: "'w agent_env \<Rightarrow> loop_conf \<Rightarrow> pystr" where
  "wall_clock_text E F = ''Wall clock timeout reached ('' @ ae_seconds E (lc_wall_clock F) @ ''s).''"

definition expire_attempt :: "'w agent_env \<Rightarrow> loop_conf \<Rightarrow> action_response \<Rightarrow> (unit, 'w agent) poper" where
  "expire_attempt E F resp =
     (case ar_approval resp of
        None \<Rightarrow> po_return ()
      | Some q \<Rightarrow> attempt (in_world (expire_call (connection.truncate E) (lc_dispatcher F) (app_id q))))"

definition handle_hold ::
  "'w agent_env \<Rightarrow> loop_conf \<Rightarrow> int \<Rightarrow> json \<Rightarrow> action_response \<Rightarrow> (flow, 'w agent) poper" where
  "handle_hold E F start call_id resp =
     po_bind (clock E) (\<lambda>poll_start.
     po_bind (in_world_p (await_review (connection.truncate E) (ae_seconds E) F start poll_start resp False)) (\<lambda>r.
       case r of
         Settled d unresolved \<Rightarrow>
           po_bind (update_agent (\<lambda>s. say (Tool_msg call_id (JObj d))
                                   (s\<lparr>ag_unresolved := ag_unresolved s + (if unresolved then 1 else 0)\<rparr>)))
             (\<lambda>_. po_return Next)
       | _ \<Rightarrow>
           po_bind (expire_attempt E F resp) (\<lambda>_.
             finished (give_up E F (lc_prompt_version F)
               (''Wall clock timeout reached ('' @ ae_seconds E (lc_wall_clock F)
                @ ''s) while awaiting approval.'')))))"

definition reply_and_go :: "json \<Rightarrow> jobj \<Rightarrow> (flow, 'w agent) poper" where
  "reply_and_go call_id d = po_bind (update_agent (say (Tool_msg call_id (JObj d)))) (\<lambda>_. po_return Next)"

definition handle_response ::
  "'w agent_env \<Rightarrow> loop_conf \<Rightarrow> int \<Rightarrow> json \<Rightarrow> action_response \<Rightarrow> decision \<Rightarrow> (flow, 'w agent) poper" where
  "handle_response E F start call_id resp d =
     (case outcome d of
        PO_ALLOW \<Rightarrow>
          (case ar_receipt resp of
             None \<Rightarrow> po_raise (runtime_error ''Allowed action returned no execution receipt.'')
           | Some r \<Rightarrow> reply_and_go call_id (allowed_feedback (ae_lib E) r))
      | PO_DENY \<Rightarrow> reply_and_go call_id (denied_feedback d)
      | PO_HOLD \<Rightarrow> handle_hold E F start call_id resp)"

text \<open>
  The function of a call; \<open>.get\<close> on a value that is not a dictionary raises. A label of a summary moves
  the provider's text to the summary field.
\<close>

definition tool_function :: "jobj \<Rightarrow> fault + json \<times> json" where
  "tool_function call =
     (case (case map_of call ''function'' of None \<Rightarrow> JObj [] | Some v \<Rightarrow> v) of
        JObj f \<Rightarrow> Inr (case map_of f ''name'' of None \<Rightarrow> JStr [] | Some v \<Rightarrow> v,
                      case map_of f ''arguments'' of None \<Rightarrow> JObj [] | Some v \<Rightarrow> v)
      | _ \<Rightarrow> Inl (''AttributeError'', []))"

definition reasoning_label :: "chat_result \<Rightarrow> pystr option" where
  "reasoning_label cr = (if truthy (cr_reasoning cr) then Some (cr_provenance cr) else None)"

definition summary_only :: "chat_result \<Rightarrow> bool" where
  "summary_only cr \<longleftrightarrow> reasoning_label cr = Some (provenance_value RP_AGENT_AUTHORED_SUMMARY)"

definition submission_of_call ::
  "'w agent_env \<Rightarrow> loop_conf \<Rightarrow> pystr \<Rightarrow> chat_result \<Rightarrow> jobj \<Rightarrow> fault + submit_request" where
  "submission_of_call E F turn cr call =
     (case tool_function call of
        Inl e \<Rightarrow> Inl e
      | Inr (name, args) \<Rightarrow>
          convert_tool_call_to_submit_request (ae_lib E) name args (Some turn)
            (if summary_only cr then None else cr_reasoning cr) (reasoning_label cr)
            (if summary_only cr then cr_reasoning cr else cr_content cr) (lc_requested_by F))"

definition call_id_of :: "jobj \<Rightarrow> int \<Rightarrow> json" where
  "call_id_of call n = (case map_of call ''id'' of None \<Rightarrow> JStr (''call_'' @ show_int n) | Some v \<Rightarrow> v)"

definition submit_tool_call ::
  "'w agent_env \<Rightarrow> loop_conf \<Rightarrow> pystr \<Rightarrow> chat_result \<Rightarrow> jobj \<Rightarrow> (action_response, 'w agent) poper" where
  "submit_tool_call E F turn cr call =
     (case submission_of_call E F turn cr call of
        Inl e \<Rightarrow> po_raise e
      | Inr q \<Rightarrow> in_world (submit_call (connection.truncate E) (lc_dispatcher F) (lc_run_id F) q))"

definition record_response :: "action_response \<Rightarrow> decision \<Rightarrow> 'w agent \<Rightarrow> 'w agent" where
  "record_response resp d s =
     s\<lparr>ag_actions := ag_actions s @ [resp], ag_decisions := ag_decisions s @ [policy_outcome_value (outcome d)]\<rparr>"

definition dispatch_call ::
  "'w agent_env \<Rightarrow> loop_conf \<Rightarrow> int \<Rightarrow> pystr \<Rightarrow> chat_result \<Rightarrow> jobj \<Rightarrow> (flow, 'w agent) poper" where
  "dispatch_call E F start turn cr call =
     po_bind (update_agent (\<lambda>s. s\<lparr>ag_calls := ag_calls s + 1\<rparr>)) (\<lambda>_.
     po_bind (submit_tool_call E F turn cr call) (\<lambda>resp s.
       case ar_decision resp of
         None \<Rightarrow> po_raise (''ValidationError'', []) s
       | Some d \<Rightarrow>
           po_bind (update_agent (record_response resp d))
             (\<lambda>_. handle_response E F start (call_id_of call (ag_calls s)) resp d) s))"

definition handle_call ::
  "'w agent_env \<Rightarrow> loop_conf \<Rightarrow> int \<Rightarrow> pystr \<Rightarrow> chat_result \<Rightarrow> jobj \<Rightarrow> (flow, 'w agent) poper" where
  "handle_call E F start turn cr call s =
     (if lc_max_calls F \<le> ag_calls s then
        finished (give_up E F PROMPT_VERSION
          (''Maximum tool calls limit reached ('' @ show_int (lc_max_calls F) @ '').'')) s
      else
        po_bind (clock E) (\<lambda>t.
          if lc_wall_clock F \<le> t - start then finished (give_up E F (lc_prompt_version F) (wall_clock_text E F))
          else dispatch_call E F start turn cr call) s)"

fun process_calls ::
  "'w agent_env \<Rightarrow> loop_conf \<Rightarrow> int \<Rightarrow> pystr \<Rightarrow> chat_result \<Rightarrow> jobj list \<Rightarrow> (flow, 'w agent) poper" where
  "process_calls E F start turn cr [] = po_return Next"
| "process_calls E F start turn cr (call # calls) =
     po_bind (handle_call E F start turn cr call) (\<lambda>fl.
       case fl of Next \<Rightarrow> process_calls E F start turn cr calls | Finish r \<Rightarrow> po_return (Finish r))"

text \<open>A turn without tool calls completes the run, within the deadline or not at all.\<close>

definition final_text :: "'w agent \<Rightarrow> pystr option \<Rightarrow> pystr option" where
  "final_text s content =
     (if ag_unresolved s = 0 then content
      else Some (or_empty content @ [CHR 0x0A, CHR 0x0A] @ ''[Gateway note: '' @ show_int (ag_unresolved s)
                 @ '' held action(s) received no review before the approval timeout and were not executed.]''))"

definition finish_run ::
  "'w agent_env \<Rightarrow> loop_conf \<Rightarrow> int \<Rightarrow> chat_result \<Rightarrow> (agent_result, 'w agent) poper" where
  "finish_run E F start cr =
     po_bind
       (po_catch
          (po_bind (in_world_p (complete_run_call (connection.truncate E) (lc_dispatcher F) (lc_run_id F)
                                  (start + lc_wall_clock F))) (\<lambda>_. po_return True))
          (\<lambda>_. po_return False))
       (\<lambda>completed s.
          if completed then returns_result ''COMPLETED'' (lc_prompt_version F) (final_text s (cr_content cr)) None s
          else give_up E F PROMPT_VERSION (wall_clock_text E F) s)"

definition assistant_message :: "chat_result \<Rightarrow> message" where
  "assistant_message cr =
     Assistant_msg (if truthy (cr_content cr) then cr_content cr else None) (cr_tool_calls cr)
       (if truthy (cr_reasoning cr) then cr_reasoning cr else None)"

text \<open>What follows the answer of the provider.\<close>

definition take_turn ::
  "'w agent_env \<Rightarrow> loop_conf \<Rightarrow> int \<Rightarrow> chat_result \<Rightarrow> (flow, 'w agent) poper" where
  "take_turn E F start cr =
     po_bind (in_world (sure (ae_uuid E))) (\<lambda>i.
     po_bind (update_agent (say (assistant_message cr))) (\<lambda>_.
       if cr_tool_calls cr = [] then finished (finish_run E F start cr)
       else process_calls E F start (''turn-'' @ i) cr (cr_tool_calls cr)))"

definition ask_provider :: "'w agent_env \<Rightarrow> loop_conf \<Rightarrow> int \<Rightarrow> (chat_result, 'w agent) poper" where
  "ask_provider E F elapsed s =
     po_bind (in_world (ae_complete E (ag_messages s) (max 1000 (lc_wall_clock F - elapsed)))) (\<lambda>cr.
     po_bind (update_agent (\<lambda>s. s\<lparr>ag_turns := ag_turns s + 1\<rparr>)) (\<lambda>_. po_return cr)) s"

definition agent_turn :: "'w agent_env \<Rightarrow> loop_conf \<Rightarrow> int \<Rightarrow> (flow, 'w agent) poper" where
  "agent_turn E F start s =
     (if lc_max_turns F \<le> ag_turns s then
        finished (give_up E F (lc_prompt_version F)
          (''Maximum turns limit reached ('' @ show_int (lc_max_turns F) @ '').'')) s
      else
        po_bind (clock E) (\<lambda>t.
          if lc_wall_clock F \<le> t - start then finished (give_up E F (lc_prompt_version F) (wall_clock_text E F))
          else
            po_bind (ask_provider E F (t - start)) (\<lambda>cr.
            po_bind (clock E) (\<lambda>t2.
              if lc_wall_clock F \<le> t2 - start then
                finished (give_up E F (lc_prompt_version F) (wall_clock_text E F))
              else take_turn E F start cr))) s)"

partial_function (option) agent_loop ::
  "'w agent_env \<Rightarrow> loop_conf \<Rightarrow> int \<Rightarrow> 'w agent \<Rightarrow> ((fault + agent_result) \<times> 'w agent) option"
where
  "agent_loop E F start s =
     (case agent_turn E F start s of
        None \<Rightarrow> None
      | Some (Inl e, s1) \<Rightarrow> Some (Inl e, s1)
      | Some (Inr (Finish r), s1) \<Rightarrow> Some (Inr r, s1)
      | Some (Inr Next, s1) \<Rightarrow> agent_loop E F start s1)"

definition start_agent :: "loop_conf \<Rightarrow> 'w \<Rightarrow> 'w agent" where
  "start_agent F w =
     \<lparr>ag_world = w, ag_turns = 0, ag_calls = 0, ag_actions = [], ag_decisions = [], ag_unresolved = 0,
      ag_messages =
        [System_msg (build_system_prompt (lc_task F)),
         User_msg (''Task: '' @ lc_task F @ [CHR 0x0A]
           @ ''Work only with the paths and operations this task names: do not probe other directories, ''
           @ ''and do not try tools the task does not need. When the task is finished, or when a step is ''
           @ ''blocked, stop calling tools and reply with a short summary of the outcome.'')]\<rparr>"

definition aborted :: "fault \<Rightarrow> pystr" where
  "aborted e = ''Agent loop aborted: '' @ fst e @ '': '' @ sanitize_failure_reason (snd e)"

definition agent_run :: "'w agent_env \<Rightarrow> loop_conf \<Rightarrow> 'w \<Rightarrow> ((fault + agent_result) \<times> 'w agent) option" where
  "agent_run E F w =
     po_bind (clock E) (\<lambda>start.
     po_bind (attempt (in_world (record_prompt_call (connection.truncate E) (lc_dispatcher F) (lc_run_id F)
                                   (lc_prompt_version F)))) (\<lambda>_.
       po_catch (agent_loop E F start) (\<lambda>e.
         po_bind (attempt (in_world_p (fail_run_call (connection.truncate E) (lc_dispatcher F) (lc_run_id F)
                                         (aborted e)))) (\<lambda>_.
           returns_result ''FAILED'' (lc_prompt_version F) None (Some (aborted e))))))
       (start_agent F w)"

end
