(* ===== verification/AgentProps.thy ===== *)
theory AgentProps
  imports AgentLoop
begin

text \<open>
  What a run of the agent loop guarantees, whatever the model answers and whatever the gateway does: it
  stays within its bounds, it reports a completion only when the gateway accepted one before the
  deadline, the provider only ever sees conversations in which every tool call is answered, and it
  returns.
\<close>

section \<open>Triples\<close>

text \<open>Postconditions for a value and for an exception; an operation that does not return satisfies any.\<close>

definition runs ::
  "('s \<Rightarrow> bool) \<Rightarrow> ('a, 's) poper \<Rightarrow> ('a \<Rightarrow> 's \<Rightarrow> bool) \<Rightarrow> ('s \<Rightarrow> bool) \<Rightarrow> bool" where
  "runs P m Q X \<longleftrightarrow>
     (\<forall>s e t. P s \<longrightarrow> m s = Some (Inl e, t) \<longrightarrow> X t) \<and> (\<forall>s a t. P s \<longrightarrow> m s = Some (Inr a, t) \<longrightarrow> Q a t)"

lemma runsI:
  "(\<And>s e t. P s \<Longrightarrow> m s = Some (Inl e, t) \<Longrightarrow> X t) \<Longrightarrow> (\<And>s a t. P s \<Longrightarrow> m s = Some (Inr a, t) \<Longrightarrow> Q a t)
   \<Longrightarrow> runs P m Q X"
  unfolding runs_def by blast

lemma runs_raised: "runs P m Q X \<Longrightarrow> m s = Some (Inl e, t) \<Longrightarrow> P s \<Longrightarrow> X t"
  unfolding runs_def by blast

lemma runs_value: "runs P m Q X \<Longrightarrow> m s = Some (Inr a, t) \<Longrightarrow> P s \<Longrightarrow> Q a t"
  unfolding runs_def by blast

lemma runs_conseq:
  "runs P m Q X \<Longrightarrow> (\<And>s. P' s \<Longrightarrow> P s) \<Longrightarrow> (\<And>a s. Q a s \<Longrightarrow> Q' a s) \<Longrightarrow> (\<And>s. X s \<Longrightarrow> X' s) \<Longrightarrow> runs P' m Q' X'"
  unfolding runs_def by blast

lemma runs_pre: "runs P m Q X \<Longrightarrow> runs (\<lambda>s. P s \<and> R s) m Q X"
  unfolding runs_def by blast

lemma bind_raised:
  "po_bind m f s = Some (Inl e, t) \<Longrightarrow>
   m s = Some (Inl e, t) \<or> (\<exists>a u. m s = Some (Inr a, u) \<and> f a u = Some (Inl e, t))"
  by (auto simp: po_bind_def split: option.splits sum.splits)

lemma bind_value:
  "po_bind m f s = Some (Inr b, t) \<Longrightarrow> \<exists>a u. m s = Some (Inr a, u) \<and> f a u = Some (Inr b, t)"
  by (auto simp: po_bind_def split: option.splits sum.splits)

lemma catch_raised:
  "po_catch m h s = Some (Inl e, t) \<Longrightarrow> \<exists>e0 u. m s = Some (Inl e0, u) \<and> h e0 u = Some (Inl e, t)"
  by (auto simp: po_catch_def split: option.splits sum.splits)

lemma catch_value:
  "po_catch m h s = Some (Inr a, t) \<Longrightarrow>
   m s = Some (Inr a, t) \<or> (\<exists>e u. m s = Some (Inl e, u) \<and> h e u = Some (Inr a, t))"
  by (auto simp: po_catch_def split: option.splits sum.splits)

lemma runs_bind:
  assumes "runs P m Q X" and "\<And>a. runs (Q a) (f a) R X"
  shows "runs P (po_bind m f) R X"
proof (rule runsI)
  fix s e t assume "P s" "po_bind m f s = Some (Inl e, t)"
  with assms show "X t" using bind_raised[of m f s e t] unfolding runs_def by blast
next
  fix s b t assume "P s" "po_bind m f s = Some (Inr b, t)"
  with assms show "R b t" using bind_value[of m f s b t] unfolding runs_def by blast
qed

lemma runs_catch:
  assumes "runs P m Q Y" and "\<And>e. runs Y (h e) Q X"
  shows "runs P (po_catch m h) Q X"
proof (rule runsI)
  fix s e t assume "P s" "po_catch m h s = Some (Inl e, t)"
  with assms show "X t" using catch_raised[of m h s e t] unfolding runs_def by blast
next
  fix s b t assume "P s" "po_catch m h s = Some (Inr b, t)"
  with assms show "Q b t" using catch_value[of m h s b t] unfolding runs_def by blast
qed

lemma runs_return [intro]: "runs (Q x) (po_return x) Q X"
  by (simp add: runs_def po_return_def)

lemma runs_raise [intro]: "runs X (po_raise e) Q X"
  by (simp add: runs_def po_raise_def)

lemma runs_update: "runs (\<lambda>s. Q () (f s)) (update_agent f) Q X"
  by (simp add: runs_def update_agent_def)

lemma runs_state:
  "(\<And>s0. P s0 \<Longrightarrow> runs (\<lambda>s. s = s0) (f s0) Q X) \<Longrightarrow> runs P (\<lambda>s. f s s) Q X"
  by (auto simp: runs_def)

lemma runs_all: "(\<And>s. P s \<Longrightarrow> runs (\<lambda>t. t = s) m Q X) \<Longrightarrow> runs P m Q X"
  by (auto simp: runs_def)

section \<open>Bounds\<close>

text \<open>
  Two meters on the world: how many submissions were sent, and how often the provider was asked. A send
  adds at most one to the first, when it is a submission; asking adds at most one to the second.
\<close>

definition metered :: "'w agent_env \<Rightarrow> ('w \<Rightarrow> int) \<Rightarrow> ('w \<Rightarrow> int) \<Rightarrow> bool" where
  "metered E subs asks \<longleftrightarrow>
     (\<forall>w. subs (snd (cn_now E w)) = subs w \<and> asks (snd (cn_now E w)) = asks w)
     \<and> (\<forall>d w. subs (cn_sleep E d w) = subs w \<and> asks (cn_sleep E d w) = asks w)
     \<and> (\<forall>w. subs (snd (ae_uuid E w)) = subs w \<and> asks (snd (ae_uuid E w)) = asks w)
     \<and> (\<forall>c w. subs (snd (cn_send E c w)) \<le> subs w + (case c of Post_action _ _ _ \<Rightarrow> 1 | _ \<Rightarrow> 0)
              \<and> asks (snd (cn_send E c w)) = asks w)
     \<and> (\<forall>ms b w. subs (snd (ae_complete E ms b w)) = subs w \<and> asks (snd (ae_complete E ms b w)) \<le> asks w + 1)"

definition quiet :: "('w \<Rightarrow> int) \<Rightarrow> ('w \<Rightarrow> int) \<Rightarrow> ('a, 'w) oper \<Rightarrow> bool" where
  "quiet subs asks m \<longleftrightarrow> (\<forall>w. subs (snd (m w)) \<le> subs w \<and> asks (snd (m w)) \<le> asks w)"

definition quiet_p :: "('w \<Rightarrow> int) \<Rightarrow> ('w \<Rightarrow> int) \<Rightarrow> ('a, 'w) poper \<Rightarrow> bool" where
  "quiet_p subs asks m \<longleftrightarrow> (\<forall>w r w'. m w = Some (r, w') \<longrightarrow> subs w' \<le> subs w \<and> asks w' \<le> asks w)"

lemma metered_send:
  assumes "metered E subs asks" and "\<And>k q h. c \<noteq> Post_action k q h"
  shows "subs (snd (cn_send E c w)) \<le> subs w \<and> asks (snd (cn_send E c w)) \<le> asks w"
proof -
  have "subs (snd (cn_send E c w)) \<le> subs w + (case c of Post_action _ _ _ \<Rightarrow> 1 | _ \<Rightarrow> 0)"
    "asks (snd (cn_send E c w)) = asks w"
    using assms(1) unfolding metered_def by blast+
  with assms(2) show ?thesis by (cases c) auto
qed

lemma truncate_simps [simp]:
  "cn_now (connection.truncate E) = cn_now E" "cn_sleep (connection.truncate E) = cn_sleep E"
  "cn_send (connection.truncate E) = cn_send E"
  by (simp_all add: connection.truncate_def)

text \<open>A connection on which nothing but submissions moves the first meter, and nothing the second.\<close>

definition metered_cn :: "'w connection \<Rightarrow> ('w \<Rightarrow> int) \<Rightarrow> ('w \<Rightarrow> int) \<Rightarrow> bool" where
  "metered_cn C subs asks \<longleftrightarrow>
     (\<forall>w. subs (snd (cn_now C w)) = subs w \<and> asks (snd (cn_now C w)) = asks w)
     \<and> (\<forall>d w. subs (cn_sleep C d w) = subs w \<and> asks (cn_sleep C d w) = asks w)
     \<and> (\<forall>c w. (\<forall>k q h. c \<noteq> Post_action k q h) \<longrightarrow>
          subs (snd (cn_send C c w)) \<le> subs w \<and> asks (snd (cn_send C c w)) \<le> asks w)"

lemma metered_cn: "metered E subs asks \<Longrightarrow> metered_cn (connection.truncate E) subs asks"
  using metered_send[of E subs asks] unfolding metered_cn_def truncate_simps by (simp add: metered_def)

lemma cn_send_quiet:
  assumes "metered_cn C subs asks" and "\<And>k q h. c \<noteq> Post_action k q h" and "cn_send C c w = (r, w1)"
  shows "subs w1 \<le> subs w \<and> asks w1 \<le> asks w"
proof -
  have "subs (snd (cn_send C c w)) \<le> subs w \<and> asks (snd (cn_send C c w)) \<le> asks w"
    using assms(1,2) unfolding metered_cn_def by blast
  with assms(3) show ?thesis by simp
qed

lemma cn_now_quiet:
  assumes "metered_cn C subs asks" and "cn_now C w = (t, w1)"
  shows "subs w1 = subs w \<and> asks w1 = asks w"
proof -
  have "subs (snd (cn_now C w)) = subs w \<and> asks (snd (cn_now C w)) = asks w"
    using assms(1) unfolding metered_cn_def by blast
  with assms(2) show ?thesis by simp
qed

lemma quietI: "(\<And>w r w1. m w = (r, w1) \<Longrightarrow> subs w1 \<le> subs w \<and> asks w1 \<le> asks w) \<Longrightarrow> quiet subs asks m"
  unfolding quiet_def by (metis prod.collapse)

lemma quietD: "quiet subs asks m \<Longrightarrow> m w = (r, w1) \<Longrightarrow> subs w1 \<le> subs w \<and> asks w1 \<le> asks w"
  unfolding quiet_def by (metis snd_conv)

lemma quiet_pI:
  "(\<And>w r w1. m w = Some (r, w1) \<Longrightarrow> subs w1 \<le> subs w \<and> asks w1 \<le> asks w) \<Longrightarrow> quiet_p subs asks m"
  unfolding quiet_p_def by blast

lemma request_quiet:
  assumes "metered_cn C subs asks" and "\<And>k q h. c \<noteq> Post_action k q h"
  shows "quiet subs asks (request C c accept)"
proof (rule quietI)
  fix w r w1 assume "request C c accept w = (r, w1)"
  then obtain a where "cn_send C c w = (a, w1)" by (auto simp: request_def split: prod.splits sum.splits)
  then show "subs w1 \<le> subs w \<and> asks w1 \<le> asks w" by (rule cn_send_quiet[OF assms])
qed

lemma gateway_calls_quiet:
  assumes "metered_cn C subs asks"
  shows "quiet subs asks (get_action_call C k i)" "quiet subs asks (expire_call C d i)"
    "quiet subs asks (record_prompt_call C d k v)"
  by (simp_all add: get_action_call_def expire_call_def record_prompt_call_def request_quiet[OF assms])

lemma list_quiet:
  assumes "metered_cn C subs asks"
  shows "quiet subs asks (list_approvals_call C k)"
proof (rule quietI)
  fix w r w1 assume l: "list_approvals_call C k w = (r, w1)"
  obtain a w2 where s: "cn_send C (Get_run_approvals k) w = (a, w2)" by fastforce
  from cn_send_quiet[OF assms _ s] have q: "subs w2 \<le> subs w \<and> asks w2 \<le> asks w" by simp
  show "subs w1 \<le> subs w \<and> asks w1 \<le> asks w"
  proof (cases "w1 = w2")
    case False
    with l s have "request C (Get_approvals k) approvals_of_reply w2 = (r, w1)"
      by (auto simp: list_approvals_call_def split: sum.splits if_splits)
    from quietD[OF request_quiet[OF assms] this] q show ?thesis by auto
  qed (use q in simp)
qed

lemma post_once_quiet:
  assumes "metered_cn C subs asks" and "\<And>b k q h. call b \<noteq> Post_action k q h"
  shows "quiet subs asks (post_once C call deadline)"
proof (rule quietI)
  fix w r w1 assume p: "post_once C call deadline w = (r, w1)"
  show "subs w1 \<le> subs w \<and> asks w1 \<le> asks w"
  proof (cases deadline)
    case None
    with p show ?thesis using cn_send_quiet[OF assms(1), of "call None" w r w1] assms(2) by (simp add: post_once_def)
  next
    case (Some d)
    obtain t w2 t' w3 where n: "cn_now C w = (t, w2)" "cn_now C w2 = (t', w3)" by fastforce
    note q = cn_now_quiet[OF assms(1) n(1)] cn_now_quiet[OF assms(1) n(2)]
    show ?thesis
    proof (cases "d \<le> t")
      case True
      with p Some n q show ?thesis by (simp add: post_once_def)
    next
      case False
      with p Some n have "cn_send C (call (Some (max 0 (d - t')))) w3 = (r, w1)" by (simp add: post_once_def)
      from cn_send_quiet[OF assms this] q show ?thesis by simp
    qed
  qed
qed

lemma post_terminal_quiet:
  assumes "metered_cn C subs asks" and "\<And>b k q h. call b \<noteq> Post_action k q h"
  shows "quiet_p subs asks (post_terminal C call deadline)"
proof (rule quiet_pI)
  fix w r w1 assume p: "post_terminal C call deadline w = Some (r, w1)"
  have "metered_cn C subs asks \<longrightarrow> (\<forall>b k q h. call b \<noteq> Post_action k q h) \<longrightarrow>
      subs (snd (r, w1)) \<le> subs w \<and> asks (snd (r, w1)) \<le> asks w"
  proof (rule post_terminal.raw_induct[where P = "\<lambda>C call dl w y. metered_cn C subs asks \<longrightarrow>
      (\<forall>b k q h. call b \<noteq> Post_action k q h) \<longrightarrow> subs (snd y) \<le> subs w \<and> asks (snd y) \<le> asks w", OF _ p])
    fix loop C call dl w y
    assume IH: "\<And>C call dl w y. loop C call dl w = Some y \<Longrightarrow> metered_cn C subs asks \<longrightarrow>
        (\<forall>b k q h. call b \<noteq> Post_action k q h) \<longrightarrow> subs (snd y) \<le> subs w \<and> asks (snd y) \<le> asks w"
      and body: "(case post_once C call dl w of (Inl e, w1) \<Rightarrow> Some (Inl e, w1)
        | (Inr r, w1) \<Rightarrow> if in_flight_reply r then loop C call dl (cn_sleep C RETRY_PAUSE w1) else Some (Inr r, w1)) = Some y"
    show "metered_cn C subs asks \<longrightarrow> (\<forall>b k q h. call b \<noteq> Post_action k q h) \<longrightarrow> subs (snd y) \<le> subs w \<and> asks (snd y) \<le> asks w"
    proof (intro impI)
      assume C: "metered_cn C subs asks" and call: "\<forall>b k q h. call b \<noteq> Post_action k q h"
      obtain a w2 where once: "post_once C call dl w = (a, w2)" by fastforce
      from quietD[OF post_once_quiet[OF C, of call] once] call have q: "subs w2 \<le> subs w \<and> asks w2 \<le> asks w" by simp
      have sleep: "subs (cn_sleep C RETRY_PAUSE w2) = subs w2 \<and> asks (cn_sleep C RETRY_PAUSE w2) = asks w2"
        using C unfolding metered_cn_def by blast
      show "subs (snd y) \<le> subs w \<and> asks (snd y) \<le> asks w"
        using body[unfolded once] q sleep IH[of C call dl "cn_sleep C RETRY_PAUSE w2" y] C call
        by (cases a) (auto split: if_splits)
    qed
  qed
  then show "subs w1 \<le> subs w \<and> asks w1 \<le> asks w" using assms by simp
qed

lemma terminal_calls_quiet:
  assumes "metered_cn C subs asks"
  shows "quiet_p subs asks (complete_run_call C d k dl)" "quiet_p subs asks (fail_run_call C d k m)"
proof -
  have quiet: "quiet_p subs asks (post_terminal C (\<lambda>b. Post_complete k b h) x)"
    "quiet_p subs asks (post_terminal C (\<lambda>b. Post_fail k m h) x)" for h x
    by (simp_all add: post_terminal_quiet[OF assms])
  show "quiet_p subs asks (complete_run_call C d k dl)"
    using quiet(1) by (force simp: quiet_p_def complete_run_call_def split: option.splits sum.splits)
  show "quiet_p subs asks (fail_run_call C d k m)"
    using quiet(2) by (force simp: quiet_p_def fail_run_call_def split: option.splits sum.splits)
qed


lemma look_up_quiet:
  assumes "metered_cn C subs asks"
  shows "quiet subs asks (look_up C F resp timed_out)"
proof (rule quietI)
  fix w r w1 assume l: "look_up C F resp timed_out w = (r, w1)"
  show "subs w1 \<le> subs w \<and> asks w1 \<le> asks w"
  proof (cases timed_out)
    case False
    with l obtain a where "list_approvals_call C (lc_run_id F) w = (a, w1)"
      by (auto simp: look_up_def split: prod.splits)
    from quietD[OF list_quiet[OF assms] this] show ?thesis .
  next
    case True
    show ?thesis
    proof (cases "ar_approval resp")
      case None
      with True l show ?thesis by (simp add: look_up_def)
    next
      case (Some q)
      with True l obtain a where "expire_call C (lc_dispatcher F) (app_id q) w = (a, w1)"
        by (auto simp: look_up_def split: prod.splits)
      from quietD[OF gateway_calls_quiet(2)[OF assms] this] show ?thesis .
    qed
  qed
qed

lemma judge_quiet:
  assumes "metered_cn C subs asks"
  shows "quiet subs asks (judge_approval C secs F resp fl timed_out matching)"
proof (rule quietI)
  fix w r w1 assume j: "judge_approval C secs F resp fl timed_out matching w = (r, w1)"
  show "subs w1 \<le> subs w \<and> asks w1 \<le> asks w"
  proof (cases "w1 = w")
    case False
    with j obtain a where "get_action_call C (lc_run_id F) (act_id (ar_action resp)) w = (a, w1)"
      by (auto simp: judge_approval_def split: option.splits approval_status.splits prod.splits sum.splits)
    from quietD[OF gateway_calls_quiet(1)[OF assms] this] show ?thesis .
  qed simp
qed

lemma review_round_quiet:
  assumes "metered_cn C subs asks"
  shows "quiet subs asks (review_round C secs F start poll_start resp fl)"
proof (rule quietI)
  fix w r w1 assume j: "review_round C secs F start poll_start resp fl w = (r, w1)"
  obtain t w2 timed_out w3 a w4 where n: "cn_now C w = (t, w2)"
    "review_timed_out C F poll_start fl w2 = (timed_out, w3)" "look_up C F resp timed_out w3 = (a, w4)" by fastforce
  have w2: "subs w2 = subs w \<and> asks w2 = asks w" by (rule cn_now_quiet[OF assms n(1)])
  have w3: "subs w3 = subs w2 \<and> asks w3 = asks w2"
    using n(2) cn_now_quiet[OF assms, of w2] by (auto simp: review_timed_out_def split: if_splits prod.splits)
  have w4: "subs w4 \<le> subs w3 \<and> asks w4 \<le> asks w3" by (rule quietD[OF look_up_quiet[OF assms] n(3)])
  show "subs w1 \<le> subs w \<and> asks w1 \<le> asks w"
  proof (cases "w1 = w2 \<or> w1 = w4")
    case True
    with w2 w3 w4 show ?thesis by auto
  next
    case False
    with j n obtain m where "judge_approval C secs F resp fl timed_out m w4 = (r, w1)"
      by (auto simp: review_round_def split: if_splits sum.splits)
    from quietD[OF judge_quiet[OF assms] this] w2 w3 w4 show ?thesis by simp
  qed
qed

lemma await_review_quiet:
  assumes "metered_cn C subs asks"
  shows "quiet_p subs asks (await_review C secs F start poll_start resp fl)"
proof (rule quiet_pI)
  fix w r w1 assume p: "await_review C secs F start poll_start resp fl w = Some (r, w1)"
  have "metered_cn C subs asks \<longrightarrow> subs (snd (r, w1)) \<le> subs w \<and> asks (snd (r, w1)) \<le> asks w"
  proof (rule await_review.raw_induct[where P = "\<lambda>C secs F start poll_start resp fl w y. metered_cn C subs asks \<longrightarrow>
      subs (snd y) \<le> subs w \<and> asks (snd y) \<le> asks w", OF _ p])
    fix loop C secs F start poll_start resp fl w y
    assume IH: "\<And>C secs F start poll_start resp fl w y. loop C secs F start poll_start resp fl w = Some y \<Longrightarrow>
        metered_cn C subs asks \<longrightarrow> subs (snd y) \<le> subs w \<and> asks (snd y) \<le> asks w"
      and body: "(case review_round C secs F start poll_start resp fl w of
        (Inl e, w1) \<Rightarrow> Some (Inl e, w1)
      | (Inr (Waiting fl), w1) \<Rightarrow> loop C secs F start poll_start resp fl (cn_sleep C (lc_poll F) w1)
      | (Inr Out_of_time, w1) \<Rightarrow> Some (Inr Out_of_time, w1)
      | (Inr (Settled d u), w1) \<Rightarrow> Some (Inr (Settled d u), w1)) = Some y"
    show "metered_cn C subs asks \<longrightarrow> subs (snd y) \<le> subs w \<and> asks (snd y) \<le> asks w"
    proof
      assume C: "metered_cn C subs asks"
      obtain a w2 where once: "review_round C secs F start poll_start resp fl w = (a, w2)" by fastforce
      from quietD[OF review_round_quiet[OF C] once] have q: "subs w2 \<le> subs w \<and> asks w2 \<le> asks w" .
      have sleep: "subs (cn_sleep C d w2) = subs w2 \<and> asks (cn_sleep C d w2) = asks w2" for d
        using C unfolding metered_cn_def by blast
      have again: "subs (snd y) \<le> subs w \<and> asks (snd y) \<le> asks w"
        if "loop C secs F start poll_start resp fl' (cn_sleep C (lc_poll F) w2) = Some y" for fl'
        using IH[OF that] C q sleep[of "lc_poll F"] by simp
      show "subs (snd y) \<le> subs w \<and> asks (snd y) \<le> asks w"
        using body[unfolded once] q again by (cases a) (auto split: review.splits)
    qed
  qed
  then show "subs w1 \<le> subs w \<and> asks w1 \<le> asks w" using assms by simp
qed

section \<open>The bounds of a run\<close>

text \<open>
  What holds between operations: \<open>i\<close>, \<open>j\<close> and \<open>k\<close> are what the meters and the recorded actions are still
  behind the counters of the loop. \<open>weak\<close> is what holds after an exception.
\<close>

record 'w meters =
  mt_conf :: loop_conf
  mt_subs :: "'w \<Rightarrow> int"
  mt_asks :: "'w \<Rightarrow> int"
  mt_subs0 :: int
  mt_asks0 :: int

definition within_counts :: "loop_conf \<Rightarrow> int \<Rightarrow> int \<Rightarrow> nat \<Rightarrow> nat \<Rightarrow> bool" where
  "within_counts F turns calls acts decs \<longleftrightarrow>
     0 \<le> turns \<and> turns \<le> max 0 (lc_max_turns F) \<and> 0 \<le> calls \<and> calls \<le> max 0 (lc_max_calls F)
     \<and> int acts \<le> calls \<and> decs = acts"

definition counted :: "'w meters \<Rightarrow> int \<Rightarrow> int \<Rightarrow> int \<Rightarrow> 'w agent \<Rightarrow> bool" where
  "counted M i j k s \<longleftrightarrow>
     within_counts (mt_conf M) (ag_turns s) (ag_calls s) (length (ag_actions s)) (length (ag_decisions s))
     \<and> ag_turns s + k \<le> max 0 (lc_max_turns (mt_conf M))
     \<and> int (length (ag_actions s)) \<le> ag_calls s - j
     \<and> mt_subs M (ag_world s) \<le> mt_subs0 M + ag_calls s - i
     \<and> mt_asks M (ag_world s) \<le> mt_asks0 M + ag_turns s + k"

definition weak :: "'w meters \<Rightarrow> 'w agent \<Rightarrow> bool" where
  "weak M s \<longleftrightarrow>
     within_counts (mt_conf M) (ag_turns s) (ag_calls s) (length (ag_actions s)) (length (ag_decisions s))
     \<and> mt_subs M (ag_world s) \<le> mt_subs0 M + max 0 (lc_max_calls (mt_conf M))
     \<and> mt_asks M (ag_world s) \<le> mt_asks0 M + max 0 (lc_max_turns (mt_conf M))"

definition result_within :: "loop_conf \<Rightarrow> agent_result \<Rightarrow> bool" where
  "result_within F r \<longleftrightarrow>
     within_counts F (ag_result_turns r) (ag_result_calls r) (length (ag_result_actions r))
       (length (ag_result_decisions r))"

abbreviation steady :: "'w meters \<Rightarrow> 'w agent \<Rightarrow> bool" where "steady M \<equiv> counted M 0 0 0"

lemma counted_weak: "counted M i j k s \<Longrightarrow> 0 \<le> i \<Longrightarrow> 0 \<le> j \<Longrightarrow> 0 \<le> k \<Longrightarrow> weak M s"
  by (auto simp: counted_def weak_def within_counts_def)

lemma steady_weak: "steady M s \<Longrightarrow> weak M s"
  by (simp add: counted_weak)

lemma in_world_eq: "in_world m s = Some (r, t) \<longleftrightarrow> (\<exists>w. m (ag_world s) = (r, w) \<and> t = s\<lparr>ag_world := w\<rparr>)"
  by (auto simp: in_world_def split: prod.splits)

lemma in_world_p_eq:
  "in_world_p m s = Some (r, t) \<longleftrightarrow> (\<exists>w. m (ag_world s) = Some (r, w) \<and> t = s\<lparr>ag_world := w\<rparr>)"
  by (auto simp: in_world_p_def split: option.splits)

lemma world_moves:
  "counted M i j k s \<Longrightarrow> mt_subs M w \<le> mt_subs M (ag_world s) \<Longrightarrow> mt_asks M w \<le> mt_asks M (ag_world s)
   \<Longrightarrow> counted M i j k (s\<lparr>ag_world := w\<rparr>)"
  "weak M s \<Longrightarrow> mt_subs M w \<le> mt_subs M (ag_world s) \<Longrightarrow> mt_asks M w \<le> mt_asks M (ag_world s)
   \<Longrightarrow> weak M (s\<lparr>ag_world := w\<rparr>)"
  by (auto simp: counted_def weak_def)

lemma quiet_world:
  assumes "quiet (mt_subs M) (mt_asks M) m" and "in_world m s = Some (r, t)"
  shows "counted M i j k s \<Longrightarrow> counted M i j k t" "weak M s \<Longrightarrow> weak M t"
proof -
  obtain w where w: "m (ag_world s) = (r, w)" "t = s\<lparr>ag_world := w\<rparr>" using assms(2) by (auto simp: in_world_eq)
  from quietD[OF assms(1) w(1)] w(2) show "counted M i j k s \<Longrightarrow> counted M i j k t" "weak M s \<Longrightarrow> weak M t"
    using world_moves(1)[of M i j k s w] world_moves(2)[of M s w] by blast+
qed

lemma quiet_world_p:
  assumes "quiet_p (mt_subs M) (mt_asks M) m" and "in_world_p m s = Some (r, t)"
  shows "counted M i j k s \<Longrightarrow> counted M i j k t" "weak M s \<Longrightarrow> weak M t"
proof -
  obtain w where w: "m (ag_world s) = Some (r, w)" "t = s\<lparr>ag_world := w\<rparr>" using assms(2) by (auto simp: in_world_p_eq)
  from assms(1) w show "counted M i j k s \<Longrightarrow> counted M i j k t" "weak M s \<Longrightarrow> weak M t"
    using world_moves(1)[of M i j k s w] world_moves(2)[of M s w] unfolding quiet_p_def by blast+
qed

lemma runs_quiet:
  assumes "quiet (mt_subs M) (mt_asks M) m"
  shows "0 \<le> i \<Longrightarrow> 0 \<le> j \<Longrightarrow> 0 \<le> k \<Longrightarrow> runs (counted M i j k) (in_world m) (\<lambda>_. counted M i j k) (weak M)"
    "runs (weak M) (in_world m) (\<lambda>_. weak M) (weak M)"
  using quiet_world[OF assms] counted_weak by (blast intro!: runsI)+

lemma runs_quiet_p:
  assumes "quiet_p (mt_subs M) (mt_asks M) m"
  shows "0 \<le> i \<Longrightarrow> 0 \<le> j \<Longrightarrow> 0 \<le> k \<Longrightarrow> runs (counted M i j k) (in_world_p m) (\<lambda>_. counted M i j k) (weak M)"
    "runs (weak M) (in_world_p m) (\<lambda>_. weak M) (weak M)"
  using quiet_world_p[OF assms] counted_weak by (blast intro!: runsI)+


definition ends_well :: "'w meters \<Rightarrow> agent_result \<Rightarrow> 'w agent \<Rightarrow> bool" where
  "ends_well M r s \<longleftrightarrow> weak M s \<and> result_within (mt_conf M) r"

definition flows_well :: "'w meters \<Rightarrow> flow \<Rightarrow> 'w agent \<Rightarrow> bool" where
  "flows_well M fl s = (case fl of Next \<Rightarrow> steady M s | Finish r \<Rightarrow> ends_well M r s)"

lemma runs_finished:
  assumes "runs P m (ends_well M) (weak M)"
  shows "runs P (finished m) (flows_well M) (weak M)"
  unfolding finished_def
  by (rule runs_bind[OF assms], rule runs_conseq[OF runs_return]) (simp_all add: flows_well_def)

lemma runs_result: "runs (weak M) (returns_result st p x e) (ends_well M) (weak M)"
  by (rule runsI) (auto simp: returns_result_def ends_well_def result_within_def result_of_def weak_def)

lemma runs_weaken: "runs (weak M) m Q X \<Longrightarrow> runs (steady M) m Q X"
  by (erule runs_conseq) (simp_all add: steady_weak)

lemma runs_attempt: "runs P m (\<lambda>_. R) R \<Longrightarrow> runs P (attempt m) (\<lambda>_. R) X"
  unfolding attempt_def
  by (rule runs_catch[where Y = R], rule runs_bind) (rule runs_return | assumption)+

lemma runs_if:
  assumes "runs (\<lambda>s. P s \<and> c s) m Q X" and "runs (\<lambda>s. P s \<and> \<not> c s) n Q X"
  shows "runs P (\<lambda>s. if c s then m s else n s) Q X"
  using assms unfolding runs_def by (metis (mono_tags, lifting))

lemma runs_give_up:
  assumes "metered E (mt_subs M) (mt_asks M)"
  shows "runs (weak M) (give_up E F p e) (ends_well M) (weak M)"
  unfolding give_up_def
  by (rule runs_bind[OF runs_quiet_p(2)[OF terminal_calls_quiet(2)[OF metered_cn[OF assms]]] runs_result])

lemma sure_clock_quiet: "metered E subs asks \<Longrightarrow> quiet subs asks (sure (cn_now E))"
  by (auto simp: quiet_def sure_def metered_def split: prod.splits) (metis order_refl snd_conv)+

lemma runs_clock:
  assumes "metered E (mt_subs M) (mt_asks M)"
  shows "runs (steady M) (clock E) (\<lambda>_. steady M) (weak M)"
  unfolding clock_def by (rule runs_quiet(1)[OF sure_clock_quiet[OF assms]]) simp_all

lemma runs_say: "runs (steady M) (update_agent (say m)) (\<lambda>_. steady M) (weak M)"
  by (rule runsI) (auto simp: update_agent_def say_def counted_def)

lemma runs_next: "runs (steady M) (po_return Next) (flows_well M) (weak M)"
  by (rule runsI) (auto simp: po_return_def flows_well_def)

lemma runs_reply: "runs (steady M) (reply_and_go i d) (flows_well M) (weak M)"
  unfolding reply_and_go_def by (rule runs_bind[OF runs_say runs_next])

lemma runs_expire:
  assumes "metered E (mt_subs M) (mt_asks M)"
  shows "runs (weak M) (expire_attempt E F resp) (\<lambda>_. weak M) (weak M)"
  unfolding expire_attempt_def
  using runs_attempt[OF runs_quiet(2)[OF gateway_calls_quiet(2)[OF metered_cn[OF assms]]]]
  by (auto intro: runs_return split: option.splits)

lemma runs_out_of_time:
  assumes "metered E (mt_subs M) (mt_asks M)"
  shows "runs (steady M) (finished (give_up E F p e)) (flows_well M) (weak M)"
  by (rule runs_weaken[OF runs_finished[OF runs_give_up[OF assms]]])

lemma runs_hold:
  assumes "metered E (mt_subs M) (mt_asks M)"
  shows "runs (steady M) (handle_hold E F start i resp) (flows_well M) (weak M)"
  unfolding handle_hold_def
proof (rule runs_bind[OF runs_clock[OF assms]], rule runs_bind[where Q = "\<lambda>_. steady M"])
  fix t
  show "runs (steady M) (in_world_p (await_review (connection.truncate E) (ae_seconds E) F start t resp False))
      (\<lambda>_. steady M) (weak M)"
    by (rule runs_quiet_p(1)[OF await_review_quiet[OF metered_cn[OF assms]]]) simp_all
  fix r
  have late: "runs (steady M) (po_bind (expire_attempt E F resp) (\<lambda>_. finished (give_up E F p e))) (flows_well M) (weak M)" for p e
    by (rule runs_weaken[OF runs_bind[OF runs_expire[OF assms] runs_finished[OF runs_give_up[OF assms]]]])
  have settled: "runs (steady M) (po_bind (update_agent (\<lambda>s. say m (s\<lparr>ag_unresolved := ag_unresolved s + n\<rparr>)))
      (\<lambda>_. po_return Next)) (flows_well M) (weak M)" for m n
    by (rule runs_bind[OF _ runs_next], rule runsI) (auto simp: update_agent_def say_def counted_def)
  show "runs (steady M) (case r of Settled d unresolved \<Rightarrow>
        po_bind (update_agent (\<lambda>s. say (Tool_msg i (JObj d))
                                (s\<lparr>ag_unresolved := ag_unresolved s + (if unresolved then 1 else 0)\<rparr>)))
          (\<lambda>_. po_return Next)
      | _ \<Rightarrow> po_bind (expire_attempt E F resp) (\<lambda>_. finished (give_up E F (lc_prompt_version F)
          (''Wall clock timeout reached ('' @ ae_seconds E (lc_wall_clock F) @ ''s) while awaiting approval.''))))
      (flows_well M) (weak M)"
    by (cases r) (simp_all only: review.case late settled)
qed


lemma runs_response:
  assumes "metered E (mt_subs M) (mt_asks M)"
  shows "runs (steady M) (handle_response E F start i resp d) (flows_well M) (weak M)"
  unfolding handle_response_def
proof -
  have "runs (steady M) (po_raise e) (flows_well M) (weak M)" for e by (rule runs_weaken[OF runs_raise])
  with runs_hold[OF assms] runs_reply show "runs (steady M) (case outcome d of
        PO_ALLOW \<Rightarrow> (case ar_receipt resp of
             None \<Rightarrow> po_raise (runtime_error ''Allowed action returned no execution receipt.'')
           | Some r \<Rightarrow> reply_and_go i (allowed_feedback (ae_lib E) r))
      | PO_DENY \<Rightarrow> reply_and_go i (denied_feedback d)
      | PO_HOLD \<Rightarrow> handle_hold E F start i resp) (flows_well M) (weak M)"
    by (auto split: policy_outcome.splits option.splits)
qed

lemma submission_metered:
  assumes "metered E subs asks"
  shows "submit_call (connection.truncate E) d k q w = (r, w1) \<Longrightarrow> subs w1 \<le> subs w + 1 \<and> asks w1 = asks w"
proof -
  assume c: "submit_call (connection.truncate E) d k q w = (r, w1)"
  have "subs (snd (cn_send E (Post_action k q h) w)) \<le> subs w + 1
    \<and> asks (snd (cn_send E (Post_action k q h) w)) = asks w" for h
    using assms unfolding metered_def by (metis gateway_call.case(1))
  with c show ?thesis by (auto simp: submit_call_def request_def split: prod.splits sum.splits) (metis snd_conv)+
qed

lemma runs_submit:
  assumes "metered E (mt_subs M) (mt_asks M)"
  shows "runs (counted M 1 1 0) (submit_tool_call E F turn cr call) (\<lambda>_. counted M 0 1 0) (weak M)"
proof (rule runsI)
  fix s e t assume s: "counted M 1 1 0 s" and "submit_tool_call E F turn cr call s = Some (Inl e, t)"
  then consider "t = s" | q where "submit_call (connection.truncate E) (lc_dispatcher F) (lc_run_id F) q (ag_world s)
      = (Inl e, ag_world t)" "t = s\<lparr>ag_world := ag_world t\<rparr>"
    by (auto simp: submit_tool_call_def po_raise_def in_world_eq split: sum.splits)
  then show "weak M t"
  proof cases
    case 1
    with s show ?thesis by (simp add: counted_weak)
  next
    case 2
    from submission_metered[OF assms 2(1)] s have "counted M 0 1 0 (s\<lparr>ag_world := ag_world t\<rparr>)"
      by (auto simp: counted_def)
    with 2(2) show ?thesis by (metis counted_weak order_refl zero_le_one)
  qed
next
  fix s a t assume s: "counted M 1 1 0 s" and "submit_tool_call E F turn cr call s = Some (Inr a, t)"
  then obtain q w where c: "submit_call (connection.truncate E) (lc_dispatcher F) (lc_run_id F) q (ag_world s) = (Inr a, w)"
      "t = s\<lparr>ag_world := w\<rparr>"
    by (auto simp: submit_tool_call_def po_raise_def in_world_eq split: sum.splits)
  from submission_metered[OF assms c(1)] s c(2) show "counted M 0 1 0 t" by (auto simp: counted_def)
qed

lemma runs_dispatch:
  assumes "metered E (mt_subs M) (mt_asks M)"
  shows "runs (\<lambda>s. steady M s \<and> ag_calls s < lc_max_calls (mt_conf M)) (dispatch_call E F start turn cr call)
    (flows_well M) (weak M)"
  unfolding dispatch_call_def
proof (rule runs_bind[where Q = "\<lambda>_. counted M 1 1 0"])
  show "runs (\<lambda>s. steady M s \<and> ag_calls s < lc_max_calls (mt_conf M)) (update_agent (\<lambda>s. s\<lparr>ag_calls := ag_calls s + 1\<rparr>))
      (\<lambda>_. counted M 1 1 0) (weak M)"
    by (rule runsI) (auto simp: update_agent_def counted_def within_counts_def)
next
  fix u :: unit
  show "runs (counted M 1 1 0) (po_bind (submit_tool_call E F turn cr call) (\<lambda>resp s.
       case ar_decision resp of
         None \<Rightarrow> po_raise (''ValidationError'', []) s
       | Some d \<Rightarrow> po_bind (update_agent (record_response resp d))
             (\<lambda>_. handle_response E F start (call_id_of call (ag_calls s)) resp d) s)) (flows_well M) (weak M)"
  proof (rule runs_bind[OF runs_submit[OF assms]])
    fix resp
    show "runs (counted M 0 1 0) (\<lambda>s. case ar_decision resp of
         None \<Rightarrow> po_raise (''ValidationError'', []) s
       | Some d \<Rightarrow> po_bind (update_agent (record_response resp d))
             (\<lambda>_. handle_response E F start (call_id_of call (ag_calls s)) resp d) s) (flows_well M) (weak M)"
    proof (cases "ar_decision resp")
      case None
      then show ?thesis by (auto intro!: runsI simp: po_raise_def counted_weak)
    next
      case (Some d)
      have recorded: "runs (counted M 0 1 0) (update_agent (record_response resp d)) (\<lambda>_. steady M) (weak M)"
        by (rule runsI) (auto simp: update_agent_def record_response_def counted_def within_counts_def)
      have "runs (\<lambda>t. t = s) (po_bind (update_agent (record_response resp d))
          (\<lambda>_. handle_response E F start (call_id_of call (ag_calls s)) resp d)) (flows_well M) (weak M)"
        if "counted M 0 1 0 s" for s
        by (rule runs_conseq[OF runs_bind[OF recorded runs_response[OF assms]]]) (use that in auto)
      then show ?thesis unfolding Some option.case by (auto simp: runs_def)
    qed
  qed
qed

lemma runs_call:
  assumes "metered E (mt_subs M) (mt_asks M)" and "mt_conf M = F"
  shows "runs (steady M) (handle_call E F start turn cr call) (flows_well M) (weak M)"
  unfolding handle_call_def[abs_def]
proof (rule runs_if)
  show "runs (\<lambda>s. steady M s \<and> lc_max_calls F \<le> ag_calls s) (finished (give_up E F PROMPT_VERSION
          (''Maximum tool calls limit reached ('' @ show_int (lc_max_calls F) @ '').''))) (flows_well M) (weak M)"
    by (rule runs_pre[OF runs_out_of_time[OF assms(1)]])
  have clock: "runs (\<lambda>s. steady M s \<and> \<not> lc_max_calls F \<le> ag_calls s) (clock E)
      (\<lambda>_ s. steady M s \<and> ag_calls s < lc_max_calls (mt_conf M)) (weak M)"
    using runs_clock[OF assms(1)] assms(2) unfolding runs_def clock_def by (auto simp: in_world_eq)
  show "runs (\<lambda>s. steady M s \<and> \<not> lc_max_calls F \<le> ag_calls s)
     (\<lambda>s. po_bind (clock E) (\<lambda>t. if lc_wall_clock F \<le> t - start
        then finished (give_up E F (lc_prompt_version F) (wall_clock_text E F))
        else dispatch_call E F start turn cr call) s) (flows_well M) (weak M)"
  proof (rule runs_bind[OF clock])
    fix t
    show "runs (\<lambda>s. steady M s \<and> ag_calls s < lc_max_calls (mt_conf M)) (if lc_wall_clock F \<le> t - start
        then finished (give_up E F (lc_prompt_version F) (wall_clock_text E F))
        else dispatch_call E F start turn cr call) (flows_well M) (weak M)"
      using runs_dispatch[OF assms(1)] runs_pre[OF runs_out_of_time[OF assms(1)]] by simp
  qed
qed


lemma runs_calls:
  assumes "metered E (mt_subs M) (mt_asks M)" and "mt_conf M = F"
  shows "runs (steady M) (process_calls E F start turn cr calls) (flows_well M) (weak M)"
proof (induction calls)
  case Nil
  show ?case unfolding process_calls.simps by (rule runs_next)
next
  case (Cons call calls)
  have "runs (flows_well M fl) (case fl of Next \<Rightarrow> process_calls E F start turn cr calls | Finish r \<Rightarrow> po_return (Finish r))
      (flows_well M) (weak M)" for fl
  proof (cases fl)
    case Next
    with Cons.IH show ?thesis by (auto simp: flows_well_def[abs_def] runs_def)
  next
    case (Finish r)
    with runs_return[of "flows_well M" "Finish r" "weak M"] show ?thesis by simp
  qed
  with runs_bind[OF runs_call[OF assms] this] show ?case by simp
qed

lemma runs_finish_run:
  assumes "metered E (mt_subs M) (mt_asks M)"
  shows "runs (steady M) (finish_run E F start cr) (ends_well M) (weak M)"
  unfolding finish_run_def
proof (rule runs_bind[where Q = "\<lambda>_. weak M"])
  show "runs (steady M) (po_catch (po_bind (in_world_p (complete_run_call (connection.truncate E) (lc_dispatcher F)
        (lc_run_id F) (start + lc_wall_clock F))) (\<lambda>_. po_return True)) (\<lambda>_. po_return False)) (\<lambda>_. weak M) (weak M)"
    by (rule runs_weaken[OF runs_catch[OF runs_bind[OF runs_quiet_p(2)[OF terminal_calls_quiet(1)[OF metered_cn[OF assms]]]]]])
      (rule runs_return)+
  fix completed :: bool
  show "runs (weak M) (\<lambda>s. if completed
      then returns_result ''COMPLETED'' (lc_prompt_version F) (final_text s (cr_content cr)) None s
      else give_up E F PROMPT_VERSION (wall_clock_text E F) s) (ends_well M) (weak M)"
  proof (cases completed)
    case True
    have "runs (weak M) (returns_result ''COMPLETED'' (lc_prompt_version F) (final_text s (cr_content cr)) None)
        (ends_well M) (weak M)" for s :: "'a agent" by (rule runs_result)
    with True show ?thesis unfolding runs_def by simp
  qed (simp add: runs_give_up[OF assms])
qed

lemma runs_take_turn:
  assumes "metered E (mt_subs M) (mt_asks M)" and "mt_conf M = F"
  shows "runs (steady M) (take_turn E F start cr) (flows_well M) (weak M)"
  unfolding take_turn_def
proof (rule runs_bind[where Q = "\<lambda>_. steady M"])
  have "quiet (mt_subs M) (mt_asks M) (sure (ae_uuid E))"
    using assms(1) by (auto simp: quiet_def sure_def metered_def split: prod.splits) (metis order_refl snd_conv)+
  then show "runs (steady M) (in_world (sure (ae_uuid E))) (\<lambda>_. steady M) (weak M)" by (rule runs_quiet(1)) simp_all
next
  fix i
  show "runs (steady M) (po_bind (update_agent (say (assistant_message cr))) (\<lambda>_.
       if cr_tool_calls cr = [] then finished (finish_run E F start cr)
       else process_calls E F start (''turn-'' @ i) cr (cr_tool_calls cr))) (flows_well M) (weak M)"
    by (rule runs_bind[OF runs_say]) (simp add: runs_finished[OF runs_finish_run[OF assms(1)]] runs_calls[OF assms])
qed

text \<open>Asking the provider: an answer is counted as a turn, a failure only on the meter.\<close>

lemma runs_ask:
  assumes "metered E (mt_subs M) (mt_asks M)" and "mt_conf M = F"
  shows "runs (\<lambda>s. steady M s \<and> ag_turns s < lc_max_turns F) (ask_provider E F b) (\<lambda>_. steady M) (weak M)"
proof -
  let ?P = "\<lambda>s. steady M s \<and> ag_turns s < lc_max_turns F"
  have asked: "counted M 0 0 1 (s\<lparr>ag_world := w\<rparr>)"
    if "?P s" "ae_complete E ms x (ag_world s) = (r, w)" for s ms x r w
  proof -
    have "mt_subs M w = mt_subs M (ag_world s) \<and> mt_asks M w \<le> mt_asks M (ag_world s) + 1"
      using assms(1) that(2) unfolding metered_def by (metis snd_conv)
    with that(1) assms(2) show ?thesis by (auto simp: counted_def)
  qed
  show ?thesis
    unfolding ask_provider_def[abs_def]
  proof (rule runsI)
    fix s e t
    assume P: "?P s" and m: "po_bind (in_world (ae_complete E (ag_messages s) (max 1000 (lc_wall_clock F - b)))) (\<lambda>cr.
      po_bind (update_agent (\<lambda>s. s\<lparr>ag_turns := ag_turns s + 1\<rparr>)) (\<lambda>_. po_return cr)) s = Some (Inl e, t)"
    then obtain w where "ae_complete E (ag_messages s) (max 1000 (lc_wall_clock F - b)) (ag_world s) = (Inl e, w)"
      "t = s\<lparr>ag_world := w\<rparr>"
      using bind_raised[OF m] by (auto simp: in_world_eq po_bind_def update_agent_def po_return_def)
    with asked[OF P] show "weak M t" by (metis counted_weak order_refl zero_le_one)
  next
    fix s a t
    assume P: "?P s" and m: "po_bind (in_world (ae_complete E (ag_messages s) (max 1000 (lc_wall_clock F - b)))) (\<lambda>cr.
      po_bind (update_agent (\<lambda>s. s\<lparr>ag_turns := ag_turns s + 1\<rparr>)) (\<lambda>_. po_return cr)) s = Some (Inr a, t)"
    then obtain w where w: "ae_complete E (ag_messages s) (max 1000 (lc_wall_clock F - b)) (ag_world s) = (Inr a, w)"
      "t = s\<lparr>ag_world := w, ag_turns := ag_turns s + 1\<rparr>"
      using bind_value[OF m] by (auto simp: in_world_eq po_bind_def update_agent_def po_return_def)
    with asked[OF P w(1)] show "steady M t" by (auto simp: counted_def within_counts_def)
  qed
qed


lemma runs_turn:
  assumes "metered E (mt_subs M) (mt_asks M)" and "mt_conf M = F"
  shows "runs (steady M) (agent_turn E F start) (flows_well M) (weak M)"
  unfolding agent_turn_def[abs_def]
proof (rule runs_if)
  show "runs (\<lambda>s. steady M s \<and> lc_max_turns F \<le> ag_turns s) (finished (give_up E F (lc_prompt_version F)
          (''Maximum turns limit reached ('' @ show_int (lc_max_turns F) @ '').''))) (flows_well M) (weak M)"
    by (rule runs_pre[OF runs_out_of_time[OF assms(1)]])
  let ?P = "\<lambda>s. steady M s \<and> ag_turns s < lc_max_turns F"
  have clock: "runs (\<lambda>s. steady M s \<and> \<not> lc_max_turns F \<le> ag_turns s) (clock E) (\<lambda>_. ?P) (weak M)"
    using runs_clock[OF assms(1)] unfolding runs_def clock_def by (auto simp: in_world_eq)
  have rest: "runs ?P (po_bind (ask_provider E F b) (\<lambda>cr. po_bind (clock E) (\<lambda>t2.
      if lc_wall_clock F \<le> t2 - start then finished (give_up E F (lc_prompt_version F) (wall_clock_text E F))
      else take_turn E F start cr))) (flows_well M) (weak M)" for b
  proof (rule runs_bind[OF runs_ask[OF assms]], rule runs_bind[OF runs_clock[OF assms(1)]])
    fix cr t2
    show "runs (steady M) (if lc_wall_clock F \<le> t2 - start
        then finished (give_up E F (lc_prompt_version F) (wall_clock_text E F)) else take_turn E F start cr)
        (flows_well M) (weak M)"
      using runs_out_of_time[OF assms(1)] runs_take_turn[OF assms] by simp
  qed
  show "runs (\<lambda>s. steady M s \<and> \<not> lc_max_turns F \<le> ag_turns s) (\<lambda>s. po_bind (clock E) (\<lambda>t.
      if lc_wall_clock F \<le> t - start then finished (give_up E F (lc_prompt_version F) (wall_clock_text E F))
      else po_bind (ask_provider E F (t - start)) (\<lambda>cr. po_bind (clock E) (\<lambda>t2.
          if lc_wall_clock F \<le> t2 - start then finished (give_up E F (lc_prompt_version F) (wall_clock_text E F))
          else take_turn E F start cr))) s) (flows_well M) (weak M)"
  proof (rule runs_bind[OF clock])
    fix t
    show "runs ?P (if lc_wall_clock F \<le> t - start then finished (give_up E F (lc_prompt_version F) (wall_clock_text E F))
      else po_bind (ask_provider E F (t - start)) (\<lambda>cr. po_bind (clock E) (\<lambda>t2.
          if lc_wall_clock F \<le> t2 - start then finished (give_up E F (lc_prompt_version F) (wall_clock_text E F))
          else take_turn E F start cr))) (flows_well M) (weak M)"
      using runs_pre[OF runs_out_of_time[OF assms(1)]] rest by simp
  qed
qed

text \<open>An invariant of the turn is one of the loop.\<close>

lemma runs_loop:
  assumes "runs P (agent_turn E F start) (\<lambda>fl s. case fl of Next \<Rightarrow> P s | Finish r \<Rightarrow> Q r s) X"
  shows "runs P (agent_loop E F start) Q X"
proof -
  have "runs P (agent_turn E F start) (\<lambda>fl s. case fl of Next \<Rightarrow> P s | Finish r \<Rightarrow> Q r s) X \<longrightarrow> P s \<longrightarrow>
      (\<forall>e. fst y = Inl e \<longrightarrow> X (snd y)) \<and> (\<forall>r. fst y = Inr r \<longrightarrow> Q r (snd y))"
    if p: "agent_loop E F start s = Some y" for s y
  proof (rule agent_loop.raw_induct[where P = "\<lambda>E F start s y.
      runs P (agent_turn E F start) (\<lambda>fl s. case fl of Next \<Rightarrow> P s | Finish r \<Rightarrow> Q r s) X \<longrightarrow> P s \<longrightarrow>
      (\<forall>e. fst y = Inl e \<longrightarrow> X (snd y)) \<and> (\<forall>r. fst y = Inr r \<longrightarrow> Q r (snd y))", OF _ p])
    fix loop E F start s y
    assume IH: "\<And>E F start s y. loop E F start s = Some y \<Longrightarrow>
        runs P (agent_turn E F start) (\<lambda>fl s. case fl of Next \<Rightarrow> P s | Finish r \<Rightarrow> Q r s) X \<longrightarrow> P s \<longrightarrow>
        (\<forall>e. fst y = Inl e \<longrightarrow> X (snd y)) \<and> (\<forall>r. fst y = Inr r \<longrightarrow> Q r (snd y))"
      and body: "(case agent_turn E F start s of None \<Rightarrow> None | Some (Inl e, s1) \<Rightarrow> Some (Inl e, s1)
        | Some (Inr (Finish r), s1) \<Rightarrow> Some (Inr r, s1) | Some (Inr Next, s1) \<Rightarrow> loop E F start s1) = Some y"
    show "runs P (agent_turn E F start) (\<lambda>fl s. case fl of Next \<Rightarrow> P s | Finish r \<Rightarrow> Q r s) X \<longrightarrow> P s \<longrightarrow>
        (\<forall>e. fst y = Inl e \<longrightarrow> X (snd y)) \<and> (\<forall>r. fst y = Inr r \<longrightarrow> Q r (snd y))"
    proof (intro impI)
      assume t: "runs P (agent_turn E F start) (\<lambda>fl s. case fl of Next \<Rightarrow> P s | Finish r \<Rightarrow> Q r s) X" and s: "P s"
      show "(\<forall>e. fst y = Inl e \<longrightarrow> X (snd y)) \<and> (\<forall>r. fst y = Inr r \<longrightarrow> Q r (snd y))"
      proof (cases "agent_turn E F start s")
        case (Some rt)
        obtain r u where rt: "agent_turn E F start s = Some (r, u)" using Some by (cases rt) auto
        show ?thesis
        proof (cases r)
          case (Inl e)
          with body rt runs_raised[OF t, of s e u] s show ?thesis by auto
        next
          case (Inr fl)
          note post = runs_value[OF t rt[unfolded Inr] s]
          show ?thesis
          proof (cases fl)
            case Next
            with body rt Inr have "loop E F start u = Some y" by simp
            from IH[OF this] t post Next show ?thesis by simp
          next
            case (Finish x)
            with body rt Inr post show ?thesis by auto
          qed
        qed
      qed (use body in simp)
    qed
  qed
  with assms show ?thesis by (auto intro!: runsI)
qed


lemma runs_run:
  assumes "metered E (mt_subs M) (mt_asks M)" and "mt_conf M = F"
  shows "runs (steady M) (\<lambda>s. po_bind (clock E) (\<lambda>start.
     po_bind (attempt (in_world (record_prompt_call (connection.truncate E) (lc_dispatcher F) (lc_run_id F)
                                   (lc_prompt_version F)))) (\<lambda>_.
       po_catch (agent_loop E F start) (\<lambda>e.
         po_bind (attempt (in_world_p (fail_run_call (connection.truncate E) (lc_dispatcher F) (lc_run_id F)
                                         (aborted e)))) (\<lambda>_.
           returns_result ''FAILED'' (lc_prompt_version F) None (Some (aborted e)))))) s)
    (ends_well M) (\<lambda>_. False)"
proof (rule runs_bind[where Q = "\<lambda>_. steady M"])
  note cn = metered_cn[OF assms(1)]
  show "runs (steady M) (clock E) (\<lambda>_. steady M) (\<lambda>_. False)"
    using runs_clock[OF assms(1)] unfolding runs_def clock_def by (auto simp: in_world_eq sure_def split: prod.splits)
  fix start
  have recorded: "runs (steady M) (attempt (in_world (record_prompt_call (connection.truncate E) (lc_dispatcher F)
      (lc_run_id F) (lc_prompt_version F)))) (\<lambda>_. steady M) (\<lambda>_. False)"
    by (rule runs_attempt, rule runsI) (auto dest: quiet_world(1)[OF gateway_calls_quiet(3)[OF cn]])
  have looped: "runs (steady M) (agent_loop E F start) (ends_well M) (weak M)"
    by (rule runs_loop) (use runs_turn[OF assms] in \<open>simp add: flows_well_def[abs_def]\<close>)
  have failed: "runs (weak M) (po_bind (attempt (in_world_p (fail_run_call (connection.truncate E) (lc_dispatcher F)
      (lc_run_id F) m))) (\<lambda>_. returns_result st p x e)) (ends_well M) (\<lambda>_. False)" for m st p x e
  proof (rule runs_bind[OF runs_attempt[OF runs_quiet_p(2)[OF terminal_calls_quiet(2)[OF cn]]]])
    show "runs (weak M) (returns_result st p x e) (ends_well M) (\<lambda>_. False)"
      using runs_result[of M st p x e] unfolding runs_def by (simp add: returns_result_def)
  qed
  show "runs (steady M) (po_bind (attempt (in_world (record_prompt_call (connection.truncate E) (lc_dispatcher F)
      (lc_run_id F) (lc_prompt_version F)))) (\<lambda>_.
       po_catch (agent_loop E F start) (\<lambda>e.
         po_bind (attempt (in_world_p (fail_run_call (connection.truncate E) (lc_dispatcher F) (lc_run_id F)
                                         (aborted e)))) (\<lambda>_.
           returns_result ''FAILED'' (lc_prompt_version F) None (Some (aborted e)))))) (ends_well M) (\<lambda>_. False)"
    by (rule runs_bind[OF recorded], rule runs_catch[OF looped failed])
qed

lemma run_within:
  assumes "metered E subs asks" and "agent_run E F w = Some (r, s)"
  shows "(\<exists>x. r = Inr x \<and> result_within F x)
    \<and> subs (ag_world s) \<le> subs w + max 0 (lc_max_calls F) \<and> asks (ag_world s) \<le> asks w + max 0 (lc_max_turns F)"
proof -
  let ?M = "\<lparr>mt_conf = F, mt_subs = subs, mt_asks = asks, mt_subs0 = subs w, mt_asks0 = asks w\<rparr>"
  have start: "steady ?M (start_agent F w)" by (simp add: counted_def within_counts_def start_agent_def)
  note post = runs_run[of E ?M F] 
  show ?thesis
  proof (cases r)
    case (Inl e)
    from runs_raised[OF post assms(2)[unfolded agent_run_def Inl] start] assms(1) show ?thesis by simp
  next
    case (Inr x)
    from runs_value[OF post assms(2)[unfolded agent_run_def Inr] start] assms(1)
    have "ends_well ?M x s" by simp
    with Inr show ?thesis by (simp add: ends_well_def weak_def)
  qed
qed

section \<open>The loops end\<close>

text \<open>
  What the clock is assumed to do: \<open>clk\<close> is its position, no operation turns it back, and a sleep moves it
  on by at least its duration. The gateway stops answering that an action is in flight at some time.
\<close>

definition ticking :: "'w agent_env \<Rightarrow> ('w \<Rightarrow> int) \<Rightarrow> bool" where
  "ticking E clk \<longleftrightarrow>
     (\<forall>w. clk w \<le> fst (cn_now E w) \<and> fst (cn_now E w) \<le> clk (snd (cn_now E w)))
     \<and> (\<forall>d w. 0 \<le> d \<longrightarrow> clk w + d \<le> clk (cn_sleep E d w))
     \<and> (\<forall>c w. clk w \<le> clk (snd (cn_send E c w)))"

definition settles :: "'w agent_env \<Rightarrow> ('w \<Rightarrow> int) \<Rightarrow> int \<Rightarrow> bool" where
  "settles E clk T \<longleftrightarrow> (\<forall>c w r w1. cn_send E c w = (Inr r, w1) \<longrightarrow> in_flight_reply r \<longrightarrow> clk w < T)"

lemma tick:
  assumes "ticking E clk"
  shows "cn_now E w = (t, w1) \<Longrightarrow> clk w \<le> t \<and> t \<le> clk w1" "0 \<le> d \<Longrightarrow> clk w + d \<le> clk (cn_sleep E d w)"
    "cn_send E c w = (a, w1) \<Longrightarrow> clk w \<le> clk w1"
  using assms unfolding ticking_def by (metis fst_conv snd_conv)+

lemma post_once_ticks:
  assumes "ticking E clk" and "settles E clk T" and "post_once (connection.truncate E) call dl w = (r, w1)"
  shows "clk w \<le> clk w1" "r = Inr x \<Longrightarrow> in_flight_reply x \<Longrightarrow> clk w < T"
proof -
  have "clk w \<le> clk w1 \<and> (\<forall>x. r = Inr x \<longrightarrow> in_flight_reply x \<longrightarrow> clk w < T)"
  proof (cases dl)
    case None
    with assms(3) have s: "cn_send E (call None) w = (r, w1)" by (simp add: post_once_def)
    with tick(3)[OF assms(1) s] assms(2) show ?thesis unfolding settles_def by blast
  next
    case (Some d)
    obtain t w2 t' w3 where n: "cn_now E w = (t, w2)" "cn_now E w2 = (t', w3)" by fastforce
    note le = tick(1)[OF assms(1) n(1)] tick(1)[OF assms(1) n(2)]
    show ?thesis
    proof (cases "d \<le> t")
      case True
      with assms(3) Some n le show ?thesis by (auto simp: post_once_def)
    next
      case False
      with assms(3) Some n have s: "cn_send E (call (Some (max 0 (d - t')))) w3 = (r, w1)" by (simp add: post_once_def)
      from s assms(2) have "\<forall>x. r = Inr x \<longrightarrow> in_flight_reply x \<longrightarrow> clk w3 < T" unfolding settles_def by blast
      with tick(3)[OF assms(1) s] le show ?thesis by fastforce
    qed
  qed
  then show "clk w \<le> clk w1" "r = Inr x \<Longrightarrow> in_flight_reply x \<Longrightarrow> clk w < T" by blast+
qed

lemma post_terminal_returns:
  assumes "ticking E clk" and "settles E clk T"
  shows "\<exists>r w1. post_terminal (connection.truncate E) call dl w = Some (r, w1) \<and> clk w \<le> clk w1"
proof (induction "nat (T - clk w)" arbitrary: w rule: less_induct)
  case less
  obtain r w1 where once: "post_once (connection.truncate E) call dl w = (r, w1)" by fastforce
  note ticks = post_once_ticks[OF assms once]
  show ?case
  proof (cases "\<exists>x. r = Inr x \<and> in_flight_reply x")
    case True
    then obtain x where x: "r = Inr x" "in_flight_reply x" by blast
    let ?w = "cn_sleep E RETRY_PAUSE w1"
    have moved: "clk w1 + 50000 \<le> clk ?w" using tick(2)[OF assms(1), of RETRY_PAUSE w1] by (simp add: RETRY_PAUSE_def)
    with ticks(1) ticks(2)[OF x] have "nat (T - clk ?w) < nat (T - clk w)" by simp
    from less[OF this] moved ticks(1) once x show ?thesis
      by (subst post_terminal.simps) (auto intro: order_trans)
  next
    case False
    with once ticks(1) show ?thesis by (subst post_terminal.simps) (auto split: sum.splits)
  qed
qed


lemma review_round_waits:
  assumes "ticking E clk"
    and "review_round (connection.truncate E) secs F start poll_start resp fl w = (Inr (Waiting fl'), w1)"
  shows "clk w - start < lc_wall_clock F \<and> clk w \<le> clk w1"
proof -
  obtain t w2 timed_out w3 a w4 where n: "cn_now E w = (t, w2)"
    "review_timed_out (connection.truncate E) F poll_start fl w2 = (timed_out, w3)"
    "look_up (connection.truncate E) F resp timed_out w3 = (a, w4)" by fastforce
  have sent: "clk u \<le> clk v" if "cn_send E c u = (r, v)" for c u r v using tick(3)[OF assms(1) that] .
  have w3: "clk w2 \<le> clk w3"
    using n(2) tick(1)[OF assms(1), of w2] by (fastforce simp: review_timed_out_def split: if_splits prod.splits)
  have w4: "clk w3 \<le> clk w4"
    using n(3) sent by (auto simp: look_up_def expire_call_def list_approvals_call_def request_def
        split: if_splits option.splits prod.splits sum.splits) (meson order_trans)+
  have judged: "clk w4 \<le> clk w1" if "judge_approval (connection.truncate E) secs F resp fl timed_out m w4 = (r, w1)" for m r
    using that sent by (auto simp: judge_approval_def get_action_call_def request_def
        split: option.splits approval_status.splits prod.splits sum.splits)
  show ?thesis
    using assms(2) n w3 w4 judged tick(1)[OF assms(1) n(1)]
    by (auto simp: review_round_def split: if_splits sum.splits) (meson order_trans)+
qed

lemma await_review_returns:
  assumes "ticking E clk" and "0 < lc_poll F"
  shows "await_review (connection.truncate E) secs F start poll_start resp fl w \<noteq> None"
proof (induction "nat (start + lc_wall_clock F - clk w)" arbitrary: fl w rule: less_induct)
  case less
  obtain r w1 where round: "review_round (connection.truncate E) secs F start poll_start resp fl w = (r, w1)" by fastforce
  show ?case
  proof (cases "\<exists>fl'. r = Inr (Waiting fl')")
    case True
    then obtain fl' where fl': "r = Inr (Waiting fl')" by blast
    let ?w = "cn_sleep E (lc_poll F) w1"
    from review_round_waits[OF assms(1) round[unfolded fl']] tick(2)[OF assms(1), of "lc_poll F" w1] assms(2)
    have "nat (start + lc_wall_clock F - clk ?w) < nat (start + lc_wall_clock F - clk w)" by simp
    from less[OF this] round fl' show ?thesis by (subst await_review.simps) simp
  next
    case False
    with round show ?thesis by (subst await_review.simps) (auto split: sum.splits review.splits)
  qed
qed

definition returns :: "('a, 's) poper \<Rightarrow> bool" where
  "returns m \<longleftrightarrow> (\<forall>s. m s \<noteq> None)"

named_theorems return_rules \<open>operations that return\<close>

lemma returns_bind [return_rules]: "returns m \<Longrightarrow> (\<And>a. returns (f a)) \<Longrightarrow> returns (po_bind m f)"
  by (auto simp: returns_def po_bind_def split: option.splits sum.splits prod.splits)

lemma returns_catch [return_rules]: "returns m \<Longrightarrow> (\<And>e. returns (h e)) \<Longrightarrow> returns (po_catch m h)"
  by (auto simp: returns_def po_catch_def split: option.splits sum.splits prod.splits)

lemma returns_basic [return_rules]:
  "returns (po_return x)" "returns (po_raise e)" "returns (update_agent f)" "returns (in_world n)"
  "returns (returns_result a b c d)" "returns (clock E)"
  by (auto simp: returns_def po_return_def po_raise_def update_agent_def in_world_def returns_result_def clock_def
      split: prod.splits)

lemma returns_in_world_p [return_rules]: "returns m \<Longrightarrow> returns (in_world_p m)"
  by (auto simp: returns_def in_world_p_def split: option.splits prod.splits)

lemma returns_if [return_rules]: "returns m \<Longrightarrow> returns n \<Longrightarrow> returns (\<lambda>s. if c s then m s else n s)"
  by (auto simp: returns_def)

lemma returns_if' [return_rules]: "returns m \<Longrightarrow> returns n \<Longrightarrow> returns (if c then m else n)"
  by simp

lemma returns_wrapped [return_rules]:
  "returns m \<Longrightarrow> returns (attempt m)" "returns m' \<Longrightarrow> returns (finished m')"
  by (auto simp: attempt_def finished_def intro!: return_rules)

lemma returns_terminal:
  assumes "ticking E clk" and "settles E clk T"
  shows "returns (complete_run_call (connection.truncate E) d k dl)"
    "returns (fail_run_call (connection.truncate E) d k m)"
proof -
  have "post_terminal (connection.truncate E) call x w \<noteq> None" for call x w
    using post_terminal_returns[OF assms] by (metis option.distinct(1))
  then show "returns (complete_run_call (connection.truncate E) d k dl)"
    "returns (fail_run_call (connection.truncate E) d k m)"
    by (auto simp: returns_def complete_run_call_def fail_run_call_def split: option.splits sum.splits)
qed

lemma turn_returns:
  assumes "ticking E clk" and "settles E clk T" and "0 < lc_poll F"
  shows "returns (agent_turn E F start)"
proof -
  note terminal = returns_terminal[OF assms(1,2)]
  have give_up: "returns (give_up E F p e)" for p e unfolding give_up_def by (intro return_rules terminal)
  have await: "returns (await_review (connection.truncate E) secs F a b resp fl)" for secs a b resp fl
    using await_review_returns[OF assms(1,3)] by (simp add: returns_def)
  have expire: "returns (expire_attempt E F resp)" for resp
    unfolding expire_attempt_def by (cases "ar_approval resp") (simp_all add: return_rules)
  have hold: "returns (handle_hold E F a i resp)" for a i resp
    unfolding handle_hold_def by (intro return_rules await) (auto split: review.splits intro!: return_rules expire give_up)
  have response: "returns (handle_response E F a i resp d)" for a i resp d
    unfolding handle_response_def reply_and_go_def
    by (auto split: policy_outcome.splits option.splits intro!: return_rules hold)
  have submit: "returns (submit_tool_call E F turn cr call)" for turn cr call
    unfolding submit_tool_call_def by (auto split: sum.splits intro!: return_rules)
  have recorded: "returns (\<lambda>s. case x of None \<Rightarrow> po_raise e s
       | Some d \<Rightarrow> po_bind (f d) (\<lambda>_. handle_response E F a (g s) resp d) s)" if "\<And>d. returns (f d)" for x e f a g resp
  proof (cases x)
    case (Some d)
    have "returns (po_bind (f d) (\<lambda>_. handle_response E F a i resp d))" for i by (intro return_rules response that)
    with Some show ?thesis by (simp add: returns_def)
  qed (simp add: returns_def po_raise_def)
  have dispatch: "returns (dispatch_call E F a turn cr call)" for a turn cr call
    unfolding dispatch_call_def by (intro return_rules submit recorded)
  have call: "returns (handle_call E F a turn cr call)" for a turn cr call
    unfolding handle_call_def[abs_def] by (intro return_rules give_up dispatch)
  have calls: "returns (process_calls E F a turn cr calls)" for a turn cr calls
    by (induction calls) (auto intro!: return_rules call split: flow.splits)
  have finish: "returns (finish_run E F a cr)" for a cr
  proof -
    have "returns (\<lambda>s. returns_result x y (z s) e s)" for x y z e by (simp add: returns_def returns_result_def)
    with give_up show ?thesis unfolding finish_run_def by (intro return_rules terminal)
  qed
  have take: "returns (take_turn E F a cr)" for a cr
    unfolding take_turn_def by (intro return_rules finish calls)
  have ask: "returns (ask_provider E F b)" for b
    unfolding ask_provider_def[abs_def] returns_def po_bind_def in_world_def update_agent_def po_return_def
    by (auto split: prod.splits sum.splits)
  show ?thesis unfolding agent_turn_def[abs_def] by (intro return_rules give_up ask take)
qed


text \<open>A turn that goes on has counted itself.\<close>

definition spares :: "('s \<Rightarrow> 'b) \<Rightarrow> ('a, 's) poper \<Rightarrow> bool" where
  "spares g m \<longleftrightarrow> (\<forall>s r t. m s = Some (r, t) \<longrightarrow> g t = g s)"

named_theorems spare_rules \<open>operations that leave a part of the state alone\<close>

lemma spares_bind [spare_rules]: "spares g m \<Longrightarrow> (\<And>a. spares g (f a)) \<Longrightarrow> spares g (po_bind m f)"
  unfolding spares_def po_bind_def by (auto split: option.splits sum.splits)

lemma spares_catch [spare_rules]: "spares g m \<Longrightarrow> (\<And>e. spares g (h e)) \<Longrightarrow> spares g (po_catch m h)"
  unfolding spares_def po_catch_def by (auto split: option.splits sum.splits)

lemma spares_basic [spare_rules]:
  "spares g (po_return x)" "spares g (po_raise e)" "spares ag_turns (returns_result a b c d)"
  by (simp_all add: spares_def po_return_def po_raise_def returns_result_def)

lemma spares_update [spare_rules]: "(\<And>s. g (f s) = g s) \<Longrightarrow> spares g (update_agent f)"
  by (simp add: spares_def update_agent_def)

lemma spares_world [spare_rules]:
  "spares ag_turns (in_world n)" "spares ag_turns (in_world_p n')" "spares ag_turns (clock E)"
  by (auto simp: spares_def in_world_eq in_world_p_eq clock_def)

lemma spares_if [spare_rules]: "spares g m \<Longrightarrow> spares g n \<Longrightarrow> spares g (\<lambda>s. if c s then m s else n s)"
  "spares g m' \<Longrightarrow> spares g n' \<Longrightarrow> spares g (if b then m' else n')"
  by (auto simp: spares_def)

lemma spares_wrapped [spare_rules]:
  "spares g m \<Longrightarrow> spares g (attempt m)" "spares g m' \<Longrightarrow> spares g (finished m')"
  by (auto simp: attempt_def finished_def intro!: spare_rules)

lemma take_turn_spares: "spares ag_turns (take_turn E F start cr)"
proof -
  have give_up: "spares ag_turns (give_up E F p e)" for p e unfolding give_up_def by (intro spare_rules)
  have expire: "spares ag_turns (expire_attempt E F resp)" for resp
    unfolding expire_attempt_def by (cases "ar_approval resp") (simp_all add: spare_rules)
  have said: "spares ag_turns (update_agent (say m))" for m by (intro spare_rules) (simp add: say_def)
  have settled: "spares ag_turns (update_agent (\<lambda>s. say m (s\<lparr>ag_unresolved := ag_unresolved s + n\<rparr>)))" for m n
    by (intro spare_rules) (simp add: say_def)
  have hold: "spares ag_turns (handle_hold E F a i resp)" for a i resp
    unfolding handle_hold_def
    by (intro spare_rules) (auto split: review.splits intro!: spare_rules expire give_up settled simp: say_def)
  have response: "spares ag_turns (handle_response E F a i resp d)" for a i resp d
    unfolding handle_response_def reply_and_go_def
    by (auto split: policy_outcome.splits option.splits intro!: spare_rules hold said)
  have submit: "spares ag_turns (submit_tool_call E F turn cr call)" for turn call
    unfolding submit_tool_call_def by (auto split: sum.splits intro!: spare_rules)
  have recorded: "spares ag_turns (\<lambda>s. case x of None \<Rightarrow> po_raise e s
       | Some d \<Rightarrow> po_bind (update_agent (record_response resp d)) (\<lambda>_. handle_response E F a (f s) resp d) s)"
    for x e a f resp
  proof (cases x)
    case (Some d)
    have "spares ag_turns (po_bind (update_agent (record_response resp d)) (\<lambda>_. handle_response E F a i resp d))" for i
      by (intro spare_rules response) (simp add: record_response_def)
    with Some show ?thesis by (simp add: spares_def)
  qed (simp add: spares_def po_raise_def)
  have called: "spares ag_turns (update_agent (\<lambda>s. s\<lparr>ag_calls := ag_calls s + 1\<rparr>))" by (intro spare_rules) simp
  have dispatch: "spares ag_turns (dispatch_call E F a turn cr call)" for a turn call
    unfolding dispatch_call_def by (intro spare_rules(1) called submit recorded)
  have call: "spares ag_turns (handle_call E F a turn cr call)" for a turn call
    unfolding handle_call_def[abs_def] by (intro spare_rules give_up dispatch)
  have calls: "spares ag_turns (process_calls E F a turn cr calls)" for a turn calls
    by (induction calls) (auto intro!: spare_rules call split: flow.splits)
  have "spares ag_turns (\<lambda>s. returns_result x y (z s) e s)" for x y z e by (simp add: spares_def returns_result_def)
  then have finish: "spares ag_turns (finish_run E F a cr)" for a
    unfolding finish_run_def by (intro spare_rules give_up)
  show ?thesis unfolding take_turn_def by (intro spare_rules said finish calls)
qed

lemma next_turn:
  assumes "agent_turn E F start s = Some (Inr Next, t)"
  shows "ag_turns s < lc_max_turns F \<and> ag_turns t = ag_turns s + 1"
proof -
  have stop: "finished m u \<noteq> Some (Inr Next, t)" for m :: "(agent_result, 'a agent) poper" and u
    by (auto simp: finished_def po_bind_def po_return_def split: option.splits sum.splits)
  with assms obtain tm u where u: "ag_turns s < lc_max_turns F" "clock E s = Some (Inr tm, u)"
    "po_bind (ask_provider E F (tm - start)) (\<lambda>cr. po_bind (clock E) (\<lambda>t2.
        if lc_wall_clock F \<le> t2 - start then finished (give_up E F (lc_prompt_version F) (wall_clock_text E F))
        else take_turn E F start cr)) u = Some (Inr Next, t)"
    by (auto simp: agent_turn_def dest!: bind_value split: if_splits)
  from bind_value[OF u(3)] obtain cr v where v: "ask_provider E F (tm - start) u = Some (Inr cr, v)"
    "po_bind (clock E) (\<lambda>t2. if lc_wall_clock F \<le> t2 - start
        then finished (give_up E F (lc_prompt_version F) (wall_clock_text E F))
        else take_turn E F start cr) v = Some (Inr Next, t)" by blast
  from bind_value[OF v(2)] stop obtain t2 x where x: "clock E v = Some (Inr t2, x)"
    "take_turn E F start cr x = Some (Inr Next, t)" by (auto split: if_splits)
  have "ag_turns u = ag_turns s" "ag_turns x = ag_turns v" "ag_turns t = ag_turns x"
    using u(2) x spares_world(3)[of E] take_turn_spares[of E F start cr]
    unfolding spares_def by (blast, blast, blast)
  moreover have "ag_turns v = ag_turns u + 1"
    using v(1) by (auto simp: ask_provider_def po_bind_def in_world_def update_agent_def po_return_def
        split: prod.splits sum.splits)
  ultimately show ?thesis using u(1) by simp
qed

lemma loop_returns:
  assumes "ticking E clk" and "settles E clk T" and "0 < lc_poll F"
  shows "agent_loop E F start s \<noteq> None"
proof (induction "nat (lc_max_turns F - ag_turns s)" arbitrary: s rule: less_induct)
  case less
  obtain r t where turn: "agent_turn E F start s = Some (r, t)"
    using turn_returns[OF assms, of start] unfolding returns_def by fast
  show ?case
  proof (cases "r = Inr Next")
    case True
    with next_turn[of E F start s t] turn have "nat (lc_max_turns F - ag_turns t) < nat (lc_max_turns F - ag_turns s)"
      by simp
    from less[OF this] turn True show ?thesis by (subst agent_loop.simps) simp
  next
    case False
    with turn show ?thesis by (subst agent_loop.simps) (auto split: sum.splits flow.splits)
  qed
qed

lemma run_returns:
  assumes "ticking E clk" and "settles E clk T" and "0 < lc_poll F"
  shows "agent_run E F w \<noteq> None"
proof -
  have "returns (agent_loop E F start)" for start
    using loop_returns[OF assms] by (simp add: returns_def)
  then have "returns (po_bind (clock E) (\<lambda>start.
     po_bind (attempt (in_world (record_prompt_call (connection.truncate E) (lc_dispatcher F) (lc_run_id F)
                                   (lc_prompt_version F)))) (\<lambda>_.
       po_catch (agent_loop E F start) (\<lambda>e.
         po_bind (attempt (in_world_p (fail_run_call (connection.truncate E) (lc_dispatcher F) (lc_run_id F)
                                         (aborted e)))) (\<lambda>_.
           returns_result ''FAILED'' (lc_prompt_version F) None (Some (aborted e)))))))"
    by (intro return_rules returns_terminal[OF assms(1,2)])
  then show ?thesis by (simp add: agent_run_def returns_def)
qed


section \<open>A completion was accepted in time\<close>

text \<open>
  The run ended at \<open>w\<close> with the gateway accepting the completion; the clock was read before the deadline
  right before the request, which carried what was left of the budget.
\<close>

definition accepted :: "'w agent_env \<Rightarrow> loop_conf \<Rightarrow> int \<Rightarrow> 'w \<Rightarrow> bool" where
  "accepted E F start w \<longleftrightarrow>
     (\<exists>w0 t w1 t' w2 r.
        cn_now E w0 = (t, w1) \<and> t < start + lc_wall_clock F \<and> cn_now E w1 = (t', w2)
        \<and> cn_send E (Post_complete (lc_run_id F) (Some (max 0 (start + lc_wall_clock F - t')))
                       (mutating_headers (lc_dispatcher F))) w2 = (Inr r, w)
        \<and> gr_status r = 200)"

definition honest :: "'w agent_env \<Rightarrow> loop_conf \<Rightarrow> int \<Rightarrow> agent_result \<Rightarrow> 'w agent \<Rightarrow> bool" where
  "honest E F start r s \<longleftrightarrow>
     ag_status r = ''FAILED'' \<or> ag_status r = ''COMPLETED'' \<and> accepted E F start (ag_world s)"

definition honest_flow :: "'w agent_env \<Rightarrow> loop_conf \<Rightarrow> int \<Rightarrow> flow \<Rightarrow> 'w agent \<Rightarrow> bool" where
  "honest_flow E F start fl s = (case fl of Next \<Rightarrow> True | Finish r \<Rightarrow> honest E F start r s)"

lemma post_terminal_last:
  assumes "post_terminal C call dl w = Some (Inr r, w1)"
  shows "\<exists>w0. post_once C call dl w0 = (Inr r, w1)"
proof -
  have "\<forall>r. fst y = Inr r \<longrightarrow> (\<exists>w0. post_once C call dl w0 = (Inr r, snd y))"
    if p: "post_terminal C call dl w = Some y" for y
  proof (rule post_terminal.raw_induct[where P = "\<lambda>C call dl w y. \<forall>r. fst y = Inr r \<longrightarrow>
      (\<exists>w0. post_once C call dl w0 = (Inr r, snd y))", OF _ p])
    fix loop C call dl w y
    assume IH: "\<And>C call dl w y. loop C call dl w = Some y \<Longrightarrow>
        \<forall>r. fst y = Inr r \<longrightarrow> (\<exists>w0. post_once C call dl w0 = (Inr r, snd y))"
      and body: "(case post_once C call dl w of (Inl e, w1) \<Rightarrow> Some (Inl e, w1)
        | (Inr r, w1) \<Rightarrow> if in_flight_reply r then loop C call dl (cn_sleep C RETRY_PAUSE w1) else Some (Inr r, w1)) = Some y"
    obtain a w2 where once: "post_once C call dl w = (a, w2)" by fastforce
    have "y = (a, w2) \<or> loop C call dl (cn_sleep C RETRY_PAUSE w2) = Some y"
      using body[unfolded once] by (cases a) (simp_all split: if_splits)
    then show "\<forall>r. fst y = Inr r \<longrightarrow> (\<exists>w0. post_once C call dl w0 = (Inr r, snd y))"
    proof
      assume "y = (a, w2)"
      with once show ?thesis by (metis fst_conv snd_conv)
    qed (rule IH)
  qed
  from this[OF assms] show ?thesis by simp
qed

lemma completion_accepted:
  assumes "complete_run_call (connection.truncate E) (lc_dispatcher F) (lc_run_id F) (start + lc_wall_clock F) w
    = Some (Inr x, w')"
  shows "accepted E F start w'"
proof -
  let ?call = "\<lambda>b. Post_complete (lc_run_id F) b (mutating_headers (lc_dispatcher F))"
  from assms obtain r where r: "post_terminal (connection.truncate E) ?call (Some (start + lc_wall_clock F)) w = Some (Inr r, w')"
    "gr_status r = 200"
    by (auto simp: complete_run_call_def split: option.splits sum.splits if_splits)
  from post_terminal_last[OF r(1)] obtain w0
    where once: "post_once (connection.truncate E) ?call (Some (start + lc_wall_clock F)) w0 = (Inr r, w')" by blast
  obtain t w1 t' w2 where n: "cn_now E w0 = (t, w1)" "cn_now E w1 = (t', w2)" by fastforce
  have "t < start + lc_wall_clock F" using once n by (auto simp: post_once_def split: if_splits)
  moreover from this have "cn_send E (?call (Some (max 0 (start + lc_wall_clock F - t')))) w2 = (Inr r, w')"
    using once n by (simp add: post_once_def)
  ultimately show ?thesis unfolding accepted_def using n r(2) by blast
qed

abbreviation anywhere :: "'s \<Rightarrow> bool" where "anywhere \<equiv> \<lambda>_. True"

lemma runs_any: "runs anywhere m (\<lambda>_. anywhere) anywhere"
  by (simp add: runs_def)

lemma give_up_honest: "runs anywhere (give_up E F p e) (honest E F start) anywhere"
  unfolding give_up_def
  by (rule runs_bind[OF runs_any], rule runsI) (auto simp: returns_result_def honest_def result_of_def)

lemma finished_honest:
  "runs anywhere m (honest E F start) anywhere \<Longrightarrow> runs anywhere (finished m) (honest_flow E F start) anywhere"
  unfolding finished_def
  by (erule runs_bind, rule runsI) (auto simp: po_return_def honest_flow_def)

lemma next_honest: "runs P (po_bind m (\<lambda>_. po_return Next)) (honest_flow E F start) anywhere"
  by (rule runsI) (auto simp: honest_flow_def po_return_def dest!: bind_value)

lemma stops_honest: "runs anywhere (finished (give_up E F p e)) (honest_flow E F start) anywhere"
  by (rule finished_honest[OF give_up_honest])

lemma calls_honest: "runs anywhere (process_calls E F start turn cr calls) (honest_flow E F start) anywhere"
proof -
  have raised: "runs P (po_raise e) Q anywhere" for P :: "'a agent \<Rightarrow> bool" and Q e
    by (rule runsI) (auto simp: po_raise_def)
  have hold: "runs anywhere (handle_hold E F start i resp) (honest_flow E F start) anywhere" for i resp
    unfolding handle_hold_def
    by (rule runs_bind[OF runs_any], rule runs_bind[OF runs_any])
      (auto split: review.splits intro: next_honest runs_bind[OF runs_any stops_honest])
  have response: "runs anywhere (handle_response E F start i resp d) (honest_flow E F start) anywhere" for i resp d
    unfolding handle_response_def reply_and_go_def
    by (auto split: policy_outcome.splits option.splits intro: hold next_honest raised)
  have dispatch: "runs anywhere (dispatch_call E F start turn cr call) (honest_flow E F start) anywhere" for call
    unfolding dispatch_call_def
  proof (rule runs_bind[OF runs_any], rule runs_bind[OF runs_any])
    fix resp
    have "runs anywhere (po_bind (update_agent (record_response resp d)) (\<lambda>_. handle_response E F start i resp d))
        (honest_flow E F start) anywhere" for d i by (rule runs_bind[OF runs_any response])
    then show "runs anywhere (\<lambda>s. case ar_decision resp of None \<Rightarrow> po_raise (''ValidationError'', []) s
         | Some d \<Rightarrow> po_bind (update_agent (record_response resp d))
             (\<lambda>_. handle_response E F start (call_id_of call (ag_calls s)) resp d) s) (honest_flow E F start) anywhere"
      by (cases "ar_decision resp") (simp_all add: runs_def po_raise_def)
  qed
  have call: "runs anywhere (handle_call E F start turn cr call) (honest_flow E F start) anywhere" for call
    unfolding handle_call_def[abs_def]
    by (rule runs_if; rule runs_pre)
      (auto intro!: stops_honest dispatch runs_bind[OF runs_any])
  show ?thesis
  proof (induction calls)
    case (Cons call calls)
    have "runs (honest_flow E F start fl) (case fl of Next \<Rightarrow> process_calls E F start turn cr calls
        | Finish r \<Rightarrow> po_return (Finish r)) (honest_flow E F start) anywhere" for fl
      using Cons.IH by (cases fl) (auto simp: runs_def po_return_def)
    from runs_bind[OF call this] show ?case by simp
  qed (auto simp: runs_def po_return_def honest_flow_def)
qed

lemma finish_honest: "runs anywhere (finish_run E F start cr) (honest E F start) anywhere"
  unfolding finish_run_def
proof (rule runs_bind[where Q = "\<lambda>c s. c \<longrightarrow> accepted E F start (ag_world s)"])
  show "runs anywhere (po_catch (po_bind (in_world_p (complete_run_call (connection.truncate E) (lc_dispatcher F)
      (lc_run_id F) (start + lc_wall_clock F))) (\<lambda>_. po_return True)) (\<lambda>_. po_return False))
      (\<lambda>c s. c \<longrightarrow> accepted E F start (ag_world s)) anywhere"
    by (rule runs_catch[where Y = anywhere], rule runsI)
      (auto simp: in_world_p_eq po_return_def runs_def dest!: bind_value completion_accepted)
  fix c :: bool
  show "runs (\<lambda>s. c \<longrightarrow> accepted E F start (ag_world s)) (\<lambda>s. if c
      then returns_result ''COMPLETED'' (lc_prompt_version F) (final_text s (cr_content cr)) None s
      else give_up E F PROMPT_VERSION (wall_clock_text E F) s) (honest E F start) anywhere"
    using give_up_honest[of E F PROMPT_VERSION "wall_clock_text E F" start]
    by (cases c) (auto simp: runs_def returns_result_def honest_def result_of_def)
qed

lemma turn_honest: "runs anywhere (agent_turn E F start) (honest_flow E F start) anywhere"
proof -
  have take: "runs anywhere (take_turn E F start cr) (honest_flow E F start) anywhere" for cr
    unfolding take_turn_def
    by (rule runs_bind[OF runs_any], rule runs_bind[OF runs_any])
      (auto intro: finished_honest[OF finish_honest] calls_honest)
  show ?thesis
    unfolding agent_turn_def[abs_def]
    by (rule runs_if; rule runs_pre)
      (auto intro!: stops_honest take runs_bind[OF runs_any])
qed

lemma run_honest:
  assumes "agent_run E F w = Some (Inr r, s)"
  shows "\<exists>start. start = fst (cn_now E w) \<and> honest E F start r s"
proof -
  obtain t w1 where now: "cn_now E w = (t, w1)" by fastforce
  have world: "ag_world (start_agent F w) = w" by (simp add: start_agent_def)
  then obtain u where u: "clock E (start_agent F w) = Some (Inr (fst (cn_now E w)), u)"
    using now by (simp add: clock_def in_world_def sure_def)
  let ?start = "fst (cn_now E w)"
  have looped: "runs anywhere (agent_loop E F ?start) (honest E F ?start) anywhere"
    by (rule runs_loop) (use turn_honest in \<open>simp add: honest_flow_def[abs_def]\<close>)
  have "runs anywhere (po_bind (attempt (in_world (record_prompt_call (connection.truncate E) (lc_dispatcher F) (lc_run_id F)
                                   (lc_prompt_version F)))) (\<lambda>_.
       po_catch (agent_loop E F ?start) (\<lambda>e.
         po_bind (attempt (in_world_p (fail_run_call (connection.truncate E) (lc_dispatcher F) (lc_run_id F)
                                         (aborted e)))) (\<lambda>_.
           returns_result ''FAILED'' (lc_prompt_version F) None (Some (aborted e)))))) (honest E F ?start) anywhere"
    by (rule runs_bind[OF runs_any], rule runs_catch[OF looped], rule runs_bind[OF runs_any], rule runsI)
      (auto simp: returns_result_def honest_def result_of_def)
  from runs_value[OF this, of u r s] assms u show ?thesis
    by (simp add: agent_run_def po_bind_def[of "clock E"])
qed


section \<open>Conversations\<close>

text \<open>
  Reading a conversation: the tool calls still unanswered, in order; \<open>None\<close> when a message does not fit. A
  tool message answers the first of them, under its id when the call has one.
\<close>

definition answers :: "jobj \<Rightarrow> json \<Rightarrow> bool" where
  "answers call i \<longleftrightarrow> (case map_of call ''id'' of None \<Rightarrow> True | Some v \<Rightarrow> i = v)"

fun heard :: "message \<Rightarrow> jobj list \<Rightarrow> jobj list option" where
  "heard (Tool_msg i v) (call # calls) = (if answers call i then Some calls else None)"
| "heard (Tool_msg i v) [] = None"
| "heard (Assistant_msg c calls r) [] = Some calls"
| "heard m [] = Some []"
| "heard m calls = None"

fun conversation :: "message list \<Rightarrow> jobj list \<Rightarrow> jobj list option" where
  "conversation [] calls = Some calls"
| "conversation (m # ms) calls = (case heard m calls of None \<Rightarrow> None | Some rest \<Rightarrow> conversation ms rest)"

lemma conversation_append:
  "conversation (ms @ ns) calls = (case conversation ms calls of None \<Rightarrow> None | Some rest \<Rightarrow> conversation ns rest)"
  by (induction ms arbitrary: calls) (auto split: option.splits)

definition open_calls :: "jobj list \<Rightarrow> 'w agent \<Rightarrow> bool" where
  "open_calls calls s \<longleftrightarrow> conversation (ag_messages s) [] = Some calls"

text \<open>The same agent with a provider that refuses any conversation with an unanswered call.\<close>

definition strict_provider :: "'w agent_env \<Rightarrow> 'w agent_env" where
  "strict_provider E =
     E\<lparr>ae_complete := \<lambda>ms b w. if conversation ms [] = Some [] then ae_complete E ms b w
                             else ((Inl (''ProviderError'', ''unanswered tool call'')), w)\<rparr>"

lemma strict_simps [simp]:
  "connection.truncate (strict_provider E) = connection.truncate E" "cn_now (strict_provider E) = cn_now E"
  "ae_uuid (strict_provider E) = ae_uuid E" "ae_lib (strict_provider E) = ae_lib E"
  "ae_seconds (strict_provider E) = ae_seconds E"
  by (simp_all add: strict_provider_def connection.truncate_def)

lemma strict_parts:
  "give_up (strict_provider E) = give_up E" "clock (strict_provider E) = clock E"
  "take_turn (strict_provider E) = take_turn E" "wall_clock_text (strict_provider E) = wall_clock_text E"
proof -
  show give_up: "give_up (strict_provider E) = give_up E" by (intro ext) (simp add: give_up_def)
  show clock: "clock (strict_provider E) = clock E" by (simp add: clock_def)
  show wall: "wall_clock_text (strict_provider E) = wall_clock_text E" by (intro ext) (simp add: wall_clock_text_def)
  have expire: "expire_attempt (strict_provider E) = expire_attempt E" by (intro ext) (simp add: expire_attempt_def cong: option.case_cong)
  have hold: "handle_hold (strict_provider E) = handle_hold E"
    by (intro ext) (simp add: handle_hold_def clock give_up expire cong: review.case_cong)
  have response: "handle_response (strict_provider E) = handle_response E"
    by (intro ext) (simp add: handle_response_def hold cong: policy_outcome.case_cong option.case_cong)
  have submit: "submit_tool_call (strict_provider E) = submit_tool_call E"
    by (intro ext) (simp add: submit_tool_call_def submission_of_call_def cong: sum.case_cong)
  have dispatch: "dispatch_call (strict_provider E) = dispatch_call E"
    by (intro ext) (simp add: dispatch_call_def submit response cong: option.case_cong)
  have call: "handle_call (strict_provider E) = handle_call E"
    by (intro ext) (simp add: handle_call_def give_up clock wall dispatch cong: if_cong)
  have calls: "process_calls (strict_provider E) F start turn cr calls = process_calls E F start turn cr calls"
    for F start turn cr calls by (induction calls) (simp_all add: call cong: flow.case_cong)
  have finish: "finish_run (strict_provider E) = finish_run E"
    by (intro ext) (simp add: finish_run_def give_up wall cong: if_cong)
  show "take_turn (strict_provider E) = take_turn E"
    by (intro ext) (simp add: take_turn_def finish calls cong: if_cong)
qed

lemma strict_turn:
  assumes "open_calls [] s"
  shows "agent_turn (strict_provider E) F start s = agent_turn E F start s"
proof -
  have "ask_provider (strict_provider E) F b u = ask_provider E F b u" if "open_calls [] u" for b u
    using that by (simp add: ask_provider_def strict_provider_def open_calls_def po_bind_def in_world_def)
  moreover have "open_calls [] u" if "clock E s = Some (Inr t, u)" for t u
    using that assms by (auto simp: clock_def in_world_eq open_calls_def)
  ultimately show ?thesis
    by (simp add: agent_turn_def strict_parts po_bind_def split: option.split sum.split)
qed

text \<open>What each part of a turn does to the conversation.\<close>

abbreviation talks :: "('w agent \<Rightarrow> bool) \<Rightarrow> ('a, 'w agent) poper \<Rightarrow> ('w agent \<Rightarrow> bool) \<Rightarrow> bool" where
  "talks P m Q \<equiv> runs P m (\<lambda>_. Q) anywhere"

definition goes_on :: "jobj list \<Rightarrow> flow \<Rightarrow> 'w agent \<Rightarrow> bool" where
  "goes_on calls fl s \<longleftrightarrow> (fl = Next \<longrightarrow> open_calls calls s)"

lemma world_talks:
  "talks (open_calls cs) (in_world n) (open_calls cs)" "talks (open_calls cs) (in_world_p p) (open_calls cs)"
  "talks (open_calls cs) (clock E) (open_calls cs)"
  by (rule runsI; auto simp: in_world_eq in_world_p_eq clock_def open_calls_def)+

lemma stops_talking: "runs P (finished m) (goes_on cs) anywhere"
  by (rule runsI) (auto simp: finished_def po_return_def goes_on_def dest!: bind_value)

lemma raises_talking: "runs P (po_raise e) Q anywhere"
  by (rule runsI) (auto simp: po_raise_def)

lemma reply_talks:
  assumes "answers call i" and "\<And>s. ag_messages (f s) = ag_messages s @ [Tool_msg i v]"
  shows "runs (open_calls (call # cs)) (po_bind (update_agent f) (\<lambda>_. po_return Next)) (goes_on cs) anywhere"
  using assms
  by (intro runsI) (auto simp: goes_on_def po_return_def update_agent_def open_calls_def conversation_append
      dest!: bind_value)

lemma hold_talks:
  assumes "answers call i"
  shows "runs (open_calls (call # cs)) (handle_hold E F start i resp) (goes_on cs) anywhere"
  unfolding handle_hold_def
proof (rule runs_bind[OF world_talks(3)], rule runs_bind[OF world_talks(2)])
  fix r
  show "runs (open_calls (call # cs)) (case r of Settled d unresolved \<Rightarrow>
        po_bind (update_agent (\<lambda>s. say (Tool_msg i (JObj d))
                                (s\<lparr>ag_unresolved := ag_unresolved s + (if unresolved then 1 else 0)\<rparr>)))
          (\<lambda>_. po_return Next)
      | _ \<Rightarrow> po_bind (expire_attempt E F resp) (\<lambda>_. finished (give_up E F (lc_prompt_version F)
          (''Wall clock timeout reached ('' @ ae_seconds E (lc_wall_clock F) @ ''s) while awaiting approval.''))))
      (goes_on cs) anywhere"
    by (cases r) (auto intro!: reply_talks[OF assms] runs_bind[OF runs_conseq[OF runs_any] stops_talking]
        simp: say_def)
qed

lemma response_talks:
  assumes "answers call i"
  shows "runs (open_calls (call # cs)) (handle_response E F start i resp d) (goes_on cs) anywhere"
  unfolding handle_response_def reply_and_go_def
  by (auto split: policy_outcome.splits option.splits intro!: hold_talks[OF assms] reply_talks[OF assms] raises_talking
      simp: say_def)

lemma call_talks: "runs (open_calls (call # cs)) (handle_call E F start turn cr call) (goes_on cs) anywhere"
proof -
  let ?P = "open_calls (call # cs)"
  have submit: "talks ?P (submit_tool_call E F turn cr call) ?P"
    using raises_talking world_talks(1) by (auto simp: submit_tool_call_def split: sum.splits)
  have updated: "talks ?P (update_agent f) ?P" if "\<And>s. ag_messages (f s) = ag_messages s" for f
    using that by (intro runsI) (auto simp: update_agent_def open_calls_def)
  have id: "answers call (call_id_of call n)" for n by (simp add: answers_def call_id_of_def split: option.splits)
  have dispatch: "runs ?P (dispatch_call E F start turn cr call) (goes_on cs) anywhere"
    unfolding dispatch_call_def
  proof (rule runs_bind[where Q = "\<lambda>_. ?P"], rule updated, simp, rule runs_bind[OF submit])
    fix resp
    have "runs ?P (po_bind (update_agent (record_response resp d)) (\<lambda>_. handle_response E F start (call_id_of call n) resp d))
        (goes_on cs) anywhere" for d n
      by (rule runs_bind[OF updated response_talks[OF id]]) (simp add: record_response_def)
    then show "runs ?P (\<lambda>s. case ar_decision resp of None \<Rightarrow> po_raise (''ValidationError'', []) s
         | Some d \<Rightarrow> po_bind (update_agent (record_response resp d))
             (\<lambda>_. handle_response E F start (call_id_of call (ag_calls s)) resp d) s) (goes_on cs) anywhere"
      by (cases "ar_decision resp") (simp_all add: runs_def po_raise_def)
  qed
  show ?thesis
    unfolding handle_call_def[abs_def]
    by (rule runs_if; rule runs_pre) (auto intro!: stops_talking dispatch runs_bind[OF world_talks(3)])
qed

lemma calls_talk: "runs (open_calls calls) (process_calls E F start turn cr calls) (goes_on []) anywhere"
proof (induction calls)
  case (Cons call calls)
  have "runs (goes_on calls fl) (case fl of Next \<Rightarrow> process_calls E F start turn cr calls
      | Finish r \<Rightarrow> po_return (Finish r)) (goes_on []) anywhere" for fl
    using Cons.IH by (cases fl) (auto simp: runs_def po_return_def goes_on_def)
  from runs_bind[OF call_talks this] show ?case by simp
qed (auto simp: runs_def po_return_def goes_on_def)

lemma turn_talks: "runs (open_calls []) (agent_turn E F start) (goes_on []) anywhere"
proof -
  have take: "runs (open_calls []) (take_turn E F start cr) (goes_on []) anywhere" for cr
    unfolding take_turn_def
  proof (rule runs_bind[OF world_talks(1)], rule runs_bind[where Q = "\<lambda>_. open_calls (cr_tool_calls cr)"])
    show "talks (open_calls []) (update_agent (say (assistant_message cr))) (open_calls (cr_tool_calls cr))"
      by (rule runsI) (auto simp: update_agent_def say_def open_calls_def conversation_append assistant_message_def)
  qed (auto intro: stops_talking calls_talk)
  have ask: "talks (open_calls []) (ask_provider E F b) (open_calls [])" for b
    unfolding ask_provider_def[abs_def]
    by (rule runsI) (auto simp: in_world_eq update_agent_def po_return_def open_calls_def dest!: bind_value)
  show ?thesis
    unfolding agent_turn_def[abs_def]
    by (rule runs_if; rule runs_pre)
      (auto intro!: stops_talking take runs_bind[OF world_talks(3)] runs_bind[OF ask])
qed


lemma loop_agrees:
  assumes "agent_loop E F start s = Some y" and "open_calls [] s"
    and "\<And>u. open_calls [] u \<Longrightarrow> agent_turn E' F start u = agent_turn E F start u"
  shows "agent_loop E' F start s = Some y"
proof -
  have "open_calls [] s \<longrightarrow> (\<forall>u. open_calls [] u \<longrightarrow> agent_turn E' F start u = agent_turn E F start u) \<longrightarrow>
      agent_loop E' F start s = Some y"
  proof (rule agent_loop.raw_induct[where P = "\<lambda>E F start s y. open_calls [] s \<longrightarrow>
      (\<forall>u. open_calls [] u \<longrightarrow> agent_turn E' F start u = agent_turn E F start u) \<longrightarrow>
      agent_loop E' F start s = Some y", OF _ assms(1)])
    fix loop E F start s y
    assume IH: "\<And>E F start s y. loop E F start s = Some y \<Longrightarrow> open_calls [] s \<longrightarrow>
        (\<forall>u. open_calls [] u \<longrightarrow> agent_turn E' F start u = agent_turn E F start u) \<longrightarrow>
        agent_loop E' F start s = Some y"
      and body: "(case agent_turn E F start s of None \<Rightarrow> None | Some (Inl e, s1) \<Rightarrow> Some (Inl e, s1)
        | Some (Inr (Finish r), s1) \<Rightarrow> Some (Inr r, s1) | Some (Inr Next, s1) \<Rightarrow> loop E F start s1) = Some y"
    show "open_calls [] s \<longrightarrow> (\<forall>u. open_calls [] u \<longrightarrow> agent_turn E' F start u = agent_turn E F start u) \<longrightarrow>
        agent_loop E' F start s = Some y"
    proof (intro impI)
      assume s: "open_calls [] s" and same: "\<forall>u. open_calls [] u \<longrightarrow> agent_turn E' F start u = agent_turn E F start u"
      obtain r t where turn: "agent_turn E F start s = Some (r, t)"
        using body by (cases "agent_turn E F start s") auto
      show "agent_loop E' F start s = Some y"
      proof (cases "r = Inr Next")
        case True
        with body turn have "loop E F start t = Some y" by simp
        moreover have "open_calls [] t"
          using runs_value[OF turn_talks turn[unfolded True] s] by (simp add: goes_on_def)
        ultimately have "agent_loop E' F start t = Some y" using IH[of E F start t y] same by blast
        with turn True same s show ?thesis by (subst agent_loop.simps) simp
      next
        case False
        with body turn same s show ?thesis by (subst agent_loop.simps) (auto split: sum.splits flow.splits)
      qed
    qed
  qed
  with assms(2,3) show ?thesis by blast
qed

lemma strict_loop:
  assumes "open_calls [] s"
  shows "agent_loop (strict_provider E) F start s = agent_loop E F start s"
proof (cases "agent_loop E F start s")
  case None
  show ?thesis
  proof (cases "agent_loop (strict_provider E) F start s")
    case (Some y)
    have "agent_loop E F start s = Some y"
      by (rule loop_agrees[OF Some assms]) (rule strict_turn[symmetric])
    with None show ?thesis by simp
  qed (simp add: None)
next
  case (Some y)
  have "agent_loop (strict_provider E) F start s = Some y"
    by (rule loop_agrees[OF Some assms]) (rule strict_turn)
  with Some show ?thesis by simp
qed

lemma strict_run: "agent_run (strict_provider E) F w = agent_run E F w"
proof -
  have start: "open_calls [] (start_agent F w)" by (simp add: open_calls_def start_agent_def)
  have recorded: "talks (open_calls []) (attempt (in_world n)) (open_calls [])" for n :: "('b, 'a) oper"
    by (rule runsI) (auto simp: attempt_def po_catch_def po_bind_def in_world_def po_return_def open_calls_def
        split: prod.splits sum.splits option.splits)
  have bind: "po_bind m f s = po_bind m g s" if "talks P m Q" "P s" "\<And>a t. Q t \<Longrightarrow> f a t = g a t"
    for m :: "('b, 'a agent) poper" and f g :: "'b \<Rightarrow> ('c, 'a agent) poper" and P Q s
    using that unfolding po_bind_def runs_def by (auto split: option.split sum.split)
  have caught: "po_catch (agent_loop (strict_provider E) F a) h t = po_catch (agent_loop E F a) h t"
    if "open_calls [] t" for a t h using that by (simp add: po_catch_def strict_loop)
  show ?thesis
    unfolding agent_run_def strict_parts strict_simps
    by (rule bind[OF world_talks(3) start], rule bind[OF recorded], assumption, rule caught)
qed


section \<open>A concrete run\<close>

text \<open>The world: the clock, and how many submissions and provider calls there were.\<close>

definition scripted_action :: action where
  "scripted_action =
     \<lparr>act_id = ''a'', act_run_id = ''r'', tool = ''workspace'', operation = ''read_text'', resource = ''x'',
      arguments = [], requested_by = ''agent'', requested_at = 0, reasoning_summary = None, exposed_trace = None,
      reasoning_provenance = RP_UNAVAILABLE, caller_claimed = None, turn_id = None, act_audit_id = None\<rparr>"

definition scripted_denial :: decision where
  "scripted_denial =
     \<lparr>dec_id = ''d'', dec_action_id = ''a'', outcome = PO_DENY, reason_code = RC_PATH_NOT_ALLOWED, explanation = [],
      matched_rule = [], decided_at = 0, deterministic = True, dec_audit_id = None, policy_version = None\<rparr>"

definition scripted_run :: run_response where
  "scripted_run =
     \<lparr>rr_id = ''r'', rr_name = [],
      rr_scope = \<lparr>schema_version = [], task_description = [], allowed_paths = [], blocked_paths = [], allowed_tools = [],
        allowed_operations = [], allowed_network_destinations = [], requires_approval = [], require_reasoning_for = [],
        allowed_commands = [], commands_requiring_approval = [], ts_created_at = 0\<rparr>,
      rr_status = RS_COMPLETED, rr_created_at = 0, rr_updated_at = 0, rr_synthetic = True,
      rr_interception_coverage = [], rr_reasoning_availability = [], rr_prompt_version = None\<rparr>"

definition scripted_body :: "gateway_call \<Rightarrow> reply_body" where
  "scripted_body c =
     (case c of
        Post_action _ _ _ \<Rightarrow>
          Action_body \<lparr>ar_action = scripted_action, ar_decision = Some scripted_denial, ar_approval = None,
            ar_receipt = None, ar_events = [], ar_audit = None, ar_audit_id = None\<rparr>
      | _ \<Rightarrow> Run_body scripted_run)"

definition scripted_env :: "(int \<times> int \<times> int) agent_env" where
  "scripted_env =
     \<lparr>cn_now = (\<lambda>w. (fst w, w)),
      cn_sleep = (\<lambda>d w. (fst w + d, snd w)),
      cn_send = (\<lambda>c w. (Inr \<lparr>gr_status = 200, gr_body = scripted_body c, gr_text = []\<rparr>,
                        case c of Post_action _ _ _ \<Rightarrow> (fst w, fst (snd w) + 1, snd (snd w)) | _ \<Rightarrow> w)),
      ae_complete = (\<lambda>ms b w. (Inr \<lparr>cr_content = Some ''done'',
          cr_tool_calls = (if snd (snd w) = 0
            then [[(''id'', JStr ''1''), (''function'', JObj [(''name'', JStr ''read_text'')])]] else []),
          cr_reasoning = None, cr_provenance = ''UNAVAILABLE''\<rparr>, (fst w, fst (snd w), snd (snd w) + 1))),
      ae_uuid = (\<lambda>w. (''u'', w)),
      ae_lib = \<lparr>tl_loads = (\<lambda>_. None), tl_float = (\<lambda>_ _. [])\<rparr>,
      ae_seconds = (\<lambda>_. [])\<rparr>"

definition scripted_conf :: loop_conf where
  "scripted_conf =
     \<lparr>lc_run_id = ''r'', lc_task = [], lc_max_turns = 3, lc_max_calls = 5, lc_wall_clock = 1000000,
      lc_approval_timeout = 1000, lc_poll = 10, lc_requested_by = ''agent'', lc_prompt_version = [],
      lc_dispatcher = \<lparr>gd_capture_token = None, gd_demo_token = None, gd_api_key = None\<rparr>\<rparr>"

lemma scripted_metered: "metered scripted_env (\<lambda>w. fst (snd w)) (\<lambda>w. snd (snd w))"
  by (auto simp: metered_def scripted_env_def split: gateway_call.splits)

lemma scripted_ticks: "ticking scripted_env fst"
  by (auto simp: ticking_def scripted_env_def split: gateway_call.splits)

lemma scripted_settles: "settles scripted_env fst 0"
  by (auto simp: settles_def scripted_env_def in_flight_reply_def)

lemma scripted_poll: "0 < lc_poll scripted_conf"
  by (simp add: scripted_conf_def)

lemmas scripted_defs = agent_run_def agent_loop.simps agent_turn_def take_turn_def finish_run_def ask_provider_def
  complete_run_call_def post_terminal.simps post_once_def record_prompt_call_def request_def
  clock_def sure_def in_world_def in_world_p_def po_bind_def po_catch_def po_return_def update_agent_def
  attempt_def finished_def returns_result_def result_of_def say_def start_agent_def assistant_message_def
  final_text_def in_flight_reply_def validated_def run_of_reply_def connection.truncate_def
  scripted_env_def scripted_conf_def scripted_body_def

lemma scripted_completes:
  "case agent_run scripted_env scripted_conf (0, 0, 1) of
     Some (Inr r, s) \<Rightarrow> ag_status r = ''COMPLETED'' | _ \<Rightarrow> False"
  by (simp add: scripted_defs)


section \<open>Properties\<close>

text \<open>
  C10: a run stays within its bounds.

  Whatever the model answers and the gateway does, a run of the agent loop sends at most
  \<open>max_tool_calls\<close> submissions and asks the provider at most \<open>max_turns\<close> times; it never raises, and
  the turns, tool calls, actions and decisions of its result are within the same bounds.
\<close>

theorem agent_run_stays_in_bounds:
  assumes "metered E subs asks" and "agent_run E F w = Some (r, s)"
  shows "subs (ag_world s) \<le> subs w + max 0 (lc_max_calls F) \<and> asks (ag_world s) \<le> asks w + max 0 (lc_max_turns F)
    \<and> (case r of Inl _ \<Rightarrow> False | Inr x \<Rightarrow> result_within F x)"
  using run_within[OF assms] by auto

theorem agent_run_stays_in_bounds_witness:
  "\<exists>r s. agent_run scripted_env scripted_conf (0, 0, 0) = Some (r, s)
     \<and> fst (snd (ag_world s)) \<le> 5 \<and> snd (snd (ag_world s)) \<le> 3"
proof -
  obtain y where "agent_run scripted_env scripted_conf (0, 0, 0) = Some y"
    using run_returns[OF scripted_ticks scripted_settles scripted_poll, of "(0, 0, 0)"] by blast
  moreover obtain r s where "y = (r, s)" by (cases y)
  ultimately show ?thesis
    using agent_run_stays_in_bounds[OF scripted_metered, of scripted_conf "(0, 0, 0)" r s]
    by (simp add: scripted_conf_def)
qed

text \<open>
  C11: a run of the agent loop returns.

  If the clock never goes back and sleeping moves it, the poll interval is positive, and the gateway
  stops at some time to answer that an approved action is still in flight, then the run returns a result
  in every case: the turns are bounded, the wait for a review ends with the wall clock, and the retries
  of a terminal request with the gateway's answer.
\<close>

theorem agent_run_returns:
  assumes "ticking E clk" and "settles E clk T" and "0 < lc_poll F"
  shows "\<exists>r s. agent_run E F w = Some (Inr r, s)"
proof -
  obtain y where y: "agent_run E F w = Some y" using run_returns[OF assms] by blast
  obtain r s where "y = (r, s)" by (cases y)
  moreover have "metered E (\<lambda>_. 0) (\<lambda>_. 0)" by (simp add: metered_def split: gateway_call.splits)
  ultimately show ?thesis using run_within[of E "\<lambda>_. 0" "\<lambda>_. 0" F w r s] y by auto
qed

theorem agent_run_returns_witness:
  "\<exists>r s. agent_run scripted_env scripted_conf (0, 0, 0) = Some (Inr r, s)"
  by (rule agent_run_returns[OF scripted_ticks scripted_settles scripted_poll])

text \<open>
  A completion was accepted before the deadline.

  A result is \<open>FAILED\<close> or \<open>COMPLETED\<close>, and it is \<open>COMPLETED\<close> only when the last thing that happened is that
  the gateway answered the completion request with success, a request sent after the clock was read below
  the deadline and with what was left of the budget: a run that overruns its budget never reports a
  completion.
\<close>

lemma completion_was_accepted:
  assumes "agent_run E F w = Some (Inr r, s)"
  shows "ag_status r = ''FAILED'' \<or> ag_status r = ''COMPLETED'' \<and> accepted E F (fst (cn_now E w)) (ag_world s)"
  using run_honest[OF assms] by (simp add: honest_def)

text \<open>
  C12: the provider only sees answered tool calls.

  The run is the same with a provider that refuses every conversation in which a tool call has no answer,
  an answer has no call, or an answer carries another id than its call: the loop never sends one, however
  a call is decided, held, reviewed or expired.
\<close>

theorem provider_sees_answered_calls:
  "agent_run (strict_provider E) F w = agent_run E F w"
  by (rule strict_run)

end
