(* ===== verification/AuditOutput.thy ===== *)
theory AuditOutput
  imports AuditPrompt
begin

text \<open>
  The other half of \<open>backend/scopewatch/reasoning_audit.py\<close>: the auditor's answer is parsed, checked
  against its schema, and every excerpt it flags is derived again from the trace. \<open>json.loads\<close> and the
  text of a float are arguments; \<open>load_fails\<close> is a ValueError, \<open>load_raises\<close> any other exception.
\<close>

section \<open>Tokens and their alignment\<close>

definition MIN_RELAXED_EXCERPT_TOKENS :: nat where "MIN_RELAXED_EXCERPT_TOKENS = 3"
definition MAX_ALIGNMENT_SKIP_TOKENS :: nat where "MAX_ALIGNMENT_SKIP_TOKENS = 4"
definition MAX_SPAN_EXPANSION :: nat where "MAX_SPAN_EXPANSION = 2"

definition TRUNCATION_MARKER :: pystr where
  "TRUNCATION_MARKER = LF @ ''[... reasoning trace truncated to stay within audit context limits ...]'' @ LF"

definition truncate_reasoning_trace :: "pystr option \<Rightarrow> nat \<Rightarrow> pystr" where
  "truncate_reasoning_trace trace max_chars =
     (let t = or_empty trace
      in if length t \<le> max_chars then t
         else if max_chars \<le> length TRUNCATION_MARKER then take max_chars TRUNCATION_MARKER
         else take (max_chars - length TRUNCATION_MARKER) t @ TRUNCATION_MARKER)"

type_synonym span = "pystr \<times> nat \<times> nat"

definition span_start :: "span \<Rightarrow> nat" where "span_start s = fst (snd s)"
definition span_end :: "span \<Rightarrow> nat" where "span_end s = snd (snd s)"

definition not_space :: "char \<Rightarrow> bool" where "not_space c \<longleftrightarrow> \<not> py_space c"

function token_spans :: "nat \<Rightarrow> pystr \<Rightarrow> span list" where
  "token_spans i s =
     (let j = i + length (takeWhile py_space s); t = takeWhile not_space (dropWhile py_space s)
      in if t = [] then []
         else (t, j, j + length t) # token_spans (j + length t) (dropWhile not_space (dropWhile py_space s)))"
  by pat_completeness auto

termination
proof (relation "measure (\<lambda>(i, s). length s)", simp, clarsimp)
  fix s :: pystr
  assume "takeWhile not_space (dropWhile py_space s) \<noteq> []"
  then obtain c r where "dropWhile py_space s = c # r" "not_space c"
    by (cases "dropWhile py_space s") (auto split: if_splits)
  then show "length (dropWhile not_space (dropWhile py_space s)) < length s"
    using length_dropWhile_le[of not_space r] length_dropWhile_le[of py_space s] by simp
qed

declare token_spans.simps [simp del]

text \<open>\<open>all(char in remaining for char in needle)\<close>: the iterator is read up to each character.\<close>

fun reads :: "pystr \<Rightarrow> pystr \<Rightarrow> bool" where
  "reads [] h \<longleftrightarrow> True"
| "reads (c # cs) h \<longleftrightarrow> (case dropWhile (\<lambda>d. d \<noteq> c) h of [] \<Rightarrow> False | _ # rest \<Rightarrow> reads cs rest)"

definition is_subsequence :: "pystr \<Rightarrow> pystr \<Rightarrow> bool" where
  "is_subsequence needle haystack = reads (casefold needle) (casefold haystack)"

definition compact_length :: "pystr \<Rightarrow> nat" where
  "compact_length s = length (filter not_space s)"

text \<open>
  The inner loop from the token after the cursor, with the tokens skipped so far, and the loop over the
  excerpt's other tokens: the skips and the last matched token.
\<close>

fun probe :: "nat \<Rightarrow> pystr \<Rightarrow> nat \<Rightarrow> span list \<Rightarrow> (nat \<times> span \<times> span list) option" where
  "probe budget tok skipped [] = None"
| "probe budget tok skipped (t # ts) =
     (if budget < skipped then None
      else if is_subsequence tok (fst t) then Some (skipped, t, ts)
      else probe budget tok (Suc skipped) ts)"

fun align :: "nat \<Rightarrow> pystr list \<Rightarrow> nat \<Rightarrow> span \<Rightarrow> span list \<Rightarrow> (nat \<times> span) option" where
  "align budget [] skipped cursor ts = Some (skipped, cursor)"
| "align budget (tok # toks) skipped cursor ts =
     (case probe budget tok skipped ts of
        None \<Rightarrow> None | Some (skipped', t, ts') \<Rightarrow> align budget toks skipped' t ts')"

text \<open>The candidate starts in order; the first of the fewest skips wins, and none stops the search.\<close>

fun best_alignment ::
  "nat \<Rightarrow> pystr \<Rightarrow> pystr list \<Rightarrow> (nat \<times> nat \<times> nat) option \<Rightarrow> span list \<Rightarrow> (nat \<times> nat \<times> nat) option" where
  "best_alignment budget first toks best [] = best"
| "best_alignment budget first toks best (t # ts) =
     (case (if is_subsequence first (fst t) then align budget toks 0 t ts else None) of
        None \<Rightarrow> best_alignment budget first toks best ts
      | Some (skipped, final) \<Rightarrow>
          let b = (case best of
                     None \<Rightarrow> (skipped, span_start t, span_end final)
                   | Some old \<Rightarrow> if skipped < fst old then (skipped, span_start t, span_end final) else old)
          in if fst b = 0 then Some b else best_alignment budget first toks (Some b) ts)"

definition slice :: "nat \<Rightarrow> nat \<Rightarrow> pystr \<Rightarrow> pystr" where
  "slice i j s = take (j - i) (drop i s)"

definition repair_excerpt_from_trace :: "pystr \<Rightarrow> pystr \<Rightarrow> pystr option" where
  "repair_excerpt_from_trace excerpt trace =
     (let toks = map fst (token_spans 0 excerpt);
          ts = token_spans 0 trace
      in if length toks < MIN_RELAXED_EXCERPT_TOKENS \<or> ts = [] then None
         else case best_alignment (min MAX_ALIGNMENT_SKIP_TOKENS (length toks - 1)) (hd toks) (tl toks) None ts of
                None \<Rightarrow> None
              | Some (skipped, i, j) \<Rightarrow>
                  if compact_length excerpt * MAX_SPAN_EXPANSION < compact_length (slice i j trace) then None
                  else Some (slice i j trace))"

definition resolve_excerpt :: "pystr \<Rightarrow> json \<Rightarrow> pystr option" where
  "resolve_excerpt trace v =
     (case v of
        JStr excerpt \<Rightarrow>
          if strip excerpt = [] \<or> substring_of (strip TRUNCATION_MARKER) excerpt then None
          else if substring_of excerpt trace then Some excerpt
          else repair_excerpt_from_trace excerpt trace
      | _ \<Rightarrow> None)"

fun resolve_grounded_excerpts :: "pystr \<Rightarrow> json list \<Rightarrow> pystr list option" where
  "resolve_grounded_excerpts trace [] = Some []"
| "resolve_grounded_excerpts trace (v # vs) =
     (case resolve_excerpt trace v of
        None \<Rightarrow> None
      | Some e \<Rightarrow> map_option (\<lambda>es. e # es) (resolve_grounded_excerpts trace vs))"

definition validate_grounded_excerpts :: "pystr \<Rightarrow> json list \<Rightarrow> bool" where
  "validate_grounded_excerpts trace vs \<longleftrightarrow> resolve_grounded_excerpts trace vs \<noteq> None"

section \<open>The auditor's answer\<close>

text \<open>\<open>s.splitlines()\<close>, and the removal of a Markdown code fence.\<close>

definition line_end :: "char \<Rightarrow> bool" where
  "line_end c = ((of_char c :: nat) \<in> {10, 11, 12, 13, 28, 29, 30, 133})"

fun lines_from :: "bool \<Rightarrow> pystr \<Rightarrow> pystr list" where
  "lines_from after_cr [] = []"
| "lines_from after_cr (c # s) =
     (if after_cr \<and> c = CHR 0x0A then lines_from False s
      else if line_end c then [] # lines_from (c = CHR 0x0D) s
      else (case lines_from False s of [] \<Rightarrow> [[c]] | w # ws \<Rightarrow> (c # w) # ws))"

definition splitlines :: "pystr \<Rightarrow> pystr list" where
  "splitlines s = lines_from False s"

definition FENCE :: pystr where "FENCE = ''```''"

definition strip_fence :: "pystr \<Rightarrow> pystr" where
  "strip_fence cleaned =
     (if starts_with cleaned FENCE then
        let ls = splitlines cleaned;
            body = (if starts_with (hd ls) FENCE then tl ls else ls);
            body' = (if body \<noteq> [] \<and> strip (last body) = FENCE then butlast body else body)
        in strip (join LF body')
      else cleaned)"

datatype load_result = loaded json | load_fails | load_raises

record audit_labels =
  al_model :: pystr
  al_profile :: pystr
  al_latency :: int
  al_tokens :: "int option"

definition audit_answer ::
  "audit_labels \<Rightarrow> audit_verdict \<Rightarrow> concern option \<Rightarrow> pystr list \<Rightarrow> pystr \<Rightarrow> pystr option \<Rightarrow> audit_result" where
  "audit_answer m v concern excerpts why code =
     \<lparr>ar_verdict = v, ar_concern = concern, ar_excerpts = excerpts, ar_explanation = why,
      ar_model = al_model m, ar_profile = al_profile m, ar_latency = al_latency m,
      ar_total_tokens = al_tokens m, ar_error_code = code, ar_tiers = []\<rparr>"

definition closed :: "audit_labels \<Rightarrow> pystr \<Rightarrow> pystr \<Rightarrow> audit_result" where
  "closed m why code = audit_answer m RV_FAILED None [] why (Some code)"

definition concern_of :: "pystr \<Rightarrow> concern option" where
  "concern_of s = find (\<lambda>c. concern_value c = s)
     [AC_SCOPE_DRIFT, AC_INJECTION_FOLLOWING, AC_EXFILTRATION_INTENT, AC_POLICY_EVASION]"

text \<open>
  The checks of a CONCERN; \<open>None\<close> is the TypeError of looking up a list or an object, which are
  unhashable, in the set of concern types.
\<close>

definition parse_concern :: "audit_labels \<Rightarrow> pystr \<Rightarrow> json \<Rightarrow> json list \<Rightarrow> pystr \<Rightarrow> audit_result option" where
  "parse_concern m trace raw_concern raw_excerpts why =
     (let invalid = Some (closed m ''Auditor returned an invalid concern_type for CONCERN verdict.'' ''INVALID_AUDIT_OUTPUT'')
      in case raw_concern of
           JArr _ \<Rightarrow> None
         | JObj _ \<Rightarrow> None
         | JStr s \<Rightarrow>
             (case concern_of s of
                None \<Rightarrow> invalid
              | Some concern \<Rightarrow>
                  if raw_excerpts = [] then
                    Some (closed m ''CONCERN verdict must include at least one flagged excerpt.'' ''INVALID_AUDIT_OUTPUT'')
                  else (case resolve_grounded_excerpts trace raw_excerpts of
                          None \<Rightarrow> Some (closed m ''Audit failed closed: returned excerpt is not grounded in the reasoning trace.''
                                            ''UNGROUNDED_EXCERPT'')
                        | Some excerpts \<Rightarrow>
                            Some (audit_answer m RV_CONCERN (Some concern) excerpts
                              (if why = [] then ''Identified concern: '' @ s else why) None)))
         | _ \<Rightarrow> invalid)"

definition parse_verdict :: "(int \<Rightarrow> int \<Rightarrow> pystr) \<Rightarrow> audit_labels \<Rightarrow> pystr \<Rightarrow> jobj \<Rightarrow> audit_result option" where
  "parse_verdict fl m trace data =
     (let verdict = jget data ''verdict'';
          raw_concern = jget data ''concern_type'';
          raw_excerpts = (case map_of data ''flagged_excerpts'' of None \<Rightarrow> JArr [] | Some v \<Rightarrow> v);
          why = strip (case map_of data ''explanation'' of None \<Rightarrow> [] | Some v \<Rightarrow> json_text fl v)
      in if verdict \<noteq> JStr ''NO_CONCERN'' \<and> verdict \<noteq> JStr ''CONCERN'' then
           Some (closed m ''Auditor returned an invalid verdict.'' ''INVALID_AUDIT_OUTPUT'')
         else case raw_excerpts of
           JArr excerpts \<Rightarrow>
             if verdict = JStr ''CONCERN'' then parse_concern m trace raw_concern excerpts why
             else if raw_concern \<noteq> JNull then
               Some (closed m ''concern_type must be null when verdict is NO_CONCERN.'' ''INVALID_AUDIT_OUTPUT'')
             else if excerpts \<noteq> [] then
               Some (closed m ''flagged_excerpts must be empty when verdict is NO_CONCERN.'' ''INVALID_AUDIT_OUTPUT'')
             else Some (audit_answer m RV_NO_CONCERN None []
                    (if why = [] then ''No security concerns identified in agent turn.'' else why) None)
         | _ \<Rightarrow> Some (closed m ''Flagged excerpts must be a list.'' ''INVALID_AUDIT_OUTPUT''))"

definition parse_auditor_output ::
  "(pystr \<Rightarrow> load_result) \<Rightarrow> (int \<Rightarrow> int \<Rightarrow> pystr) \<Rightarrow> audit_labels \<Rightarrow> pystr \<Rightarrow> pystr \<Rightarrow> audit_result option" where
  "parse_auditor_output loads fl m trace response =
     (if strip response = [] then
        Some (closed m ''Auditor returned an empty or non-string response.'' ''PARSE_ERROR'')
      else case loads (strip_fence (strip response)) of
        load_raises \<Rightarrow> None
      | load_fails \<Rightarrow> Some (closed m ''Auditor returned malformed JSON.'' ''PARSE_ERROR'')
      | loaded (JObj data) \<Rightarrow> parse_verdict fl m trace data
      | loaded _ \<Rightarrow> Some (closed m ''Auditor response is not a JSON object.'' ''INVALID_AUDIT_OUTPUT''))"

section \<open>What the tokens are\<close>

definition words :: "pystr \<Rightarrow> pystr list" where
  "words s = map fst (token_spans 0 s)"

lemma reads_subseq: "reads cs h \<longleftrightarrow> subseq cs h"
proof (induction cs arbitrary: h)
  case (Cons c cs)
  show ?case
  proof (cases "c \<in> set h")
    case True
    then obtain u v where h: "h = u @ c # v" "c \<notin> set u" by (metis split_list_first)
    then have "dropWhile (\<lambda>d. d \<noteq> c) h = c # v" by (induction u arbitrary: h) auto
    moreover have "subseq (c # cs) h \<longleftrightarrow> subseq cs v" using h by (induction u arbitrary: h) auto
    ultimately show ?thesis using Cons by simp
  next
    case False
    then have none: "dropWhile (\<lambda>d. d \<noteq> c) h = []" by (auto simp: dropWhile_eq_Nil_conv)
    have "\<not> subseq (c # cs) h" using False by (auto dest: list_emb_set)
    then show ?thesis unfolding reads.simps none by simp
  qed
qed simp

lemma is_subsequence_iff: "is_subsequence a b \<longleftrightarrow> subseq (casefold a) (casefold b)"
  by (simp add: is_subsequence_def reads_subseq)

lemma probe_some:
  "probe b tok k ts = Some (k', t, ts') \<Longrightarrow>
   k' \<le> b \<and> is_subsequence tok (fst t) \<and> (\<exists>us. ts = us @ t # ts' \<and> k' = k + length us)"
proof (induction ts arbitrary: k)
  case (Cons a ts)
  show ?case
  proof (cases "is_subsequence tok (fst a)")
    case False
    with Cons.prems have "probe b tok (Suc k) ts = Some (k', t, ts')" by (simp split: if_splits)
    from Cons.IH[OF this] show ?thesis by (metis append_Cons add_Suc_shift length_Cons)
  qed (use Cons.prems in \<open>simp split: if_splits\<close>)
qed simp

lemma align_some:
  "align b toks k cursor ts = Some (k', final) \<Longrightarrow> k \<le> b \<Longrightarrow>
   \<exists>n. n \<le> length ts \<and> final = (cursor # ts) ! n \<and> k + n = k' + length toks \<and> k' \<le> b
       \<and> list_emb is_subsequence toks (map fst (take n ts))"
proof (induction toks arbitrary: k cursor ts)
  case (Cons tok toks)
  then obtain k1 t ts' where p: "probe b tok k ts = Some (k1, t, ts')" "align b toks k1 t ts' = Some (k', final)"
    by (auto split: option.splits)
  from probe_some[OF p(1)] obtain us where us:
    "k1 \<le> b" "is_subsequence tok (fst t)" "ts = us @ t # ts'" "k1 = k + length us" by auto
  from Cons.IH[OF p(2) us(1)] obtain n where n:
    "n \<le> length ts'" "final = (t # ts') ! n" "k1 + n = k' + length toks" "k' \<le> b"
    "list_emb is_subsequence toks (map fst (take n ts'))" by auto
  have "list_emb is_subsequence (tok # toks) (map fst us @ fst t # map fst (take n ts'))"
    using us(2) n(5) by (intro list_emb_append2 list_emb_Cons2)
  then have "list_emb is_subsequence (tok # toks) (map fst (take (length us + Suc n) ts))"
    by (simp add: us(3))
  moreover have "final = (cursor # ts) ! (length us + Suc n)"
    using n(2) by (simp add: us(3) nth_append)
  ultimately show ?case using us n by (intro exI[of _ "length us + Suc n"]) simp
qed auto

definition aligned :: "nat \<Rightarrow> pystr list \<Rightarrow> span list \<Rightarrow> nat \<times> nat \<times> nat \<Rightarrow> bool" where
  "aligned b toks ts c \<longleftrightarrow>
     (\<exists>a n. a + n < length ts \<and> fst (snd c) = span_start (ts ! a) \<and> snd (snd c) = span_end (ts ! (a + n))
        \<and> list_emb is_subsequence toks (map fst (take (Suc n) (drop a ts))) \<and> Suc n \<le> b + length toks)"

lemma aligned_Cons: "aligned b toks ts c \<Longrightarrow> aligned b toks (t # ts) c"
proof -
  assume "aligned b toks ts c"
  then obtain a n where "a + n < length ts" "fst (snd c) = span_start (ts ! a)" "snd (snd c) = span_end (ts ! (a + n))"
    "list_emb is_subsequence toks (map fst (take (Suc n) (drop a ts)))" "Suc n \<le> b + length toks"
    by (auto simp: aligned_def)
  then show ?thesis unfolding aligned_def by (intro exI[of _ "Suc a"] exI[of _ n]) simp
qed

lemma align_aligned:
  assumes "is_subsequence first (fst t)" "align b toks 0 t ts = Some (k, final)"
  shows "aligned b (first # toks) (t # ts) (k, span_start t, span_end final)"
proof -
  from align_some[OF assms(2)] obtain n where
    "n \<le> length ts" "final = (t # ts) ! n" "n = k + length toks" "k \<le> b"
    "list_emb is_subsequence toks (map fst (take n ts))" by auto
  with assms(1) show ?thesis unfolding aligned_def by (intro exI[of _ 0] exI[of _ n]) auto
qed

lemma best_aligned:
  "best_alignment b first toks best ts = Some c \<Longrightarrow>
   (\<And>old. best = Some old \<Longrightarrow> aligned b (first # toks) (us @ ts) old) \<Longrightarrow>
   aligned b (first # toks) (us @ ts) c"
proof (induction ts arbitrary: best us)
  case (Cons t ts)
  have skip: "aligned b (first # toks) ((us @ [t]) @ ts) c"
    if "best_alignment b first toks best' ts = Some c"
      "\<And>old. best' = Some old \<Longrightarrow> aligned b (first # toks) (us @ t # ts) old" for best'
    using that by (intro Cons.IH[where best = best']) auto
  show ?case
  proof (cases "if is_subsequence first (fst t) then align b toks 0 t ts else None")
    case None
    with Cons.prems have "best_alignment b first toks best ts = Some c" by simp
    with skip[OF this Cons.prems(2)] show ?thesis by simp
  next
    case (Some y)
    then obtain k final where y: "is_subsequence first (fst t)" "align b toks 0 t ts = Some (k, final)"
      by (cases y) (auto split: if_splits)
    let ?new = "(k, span_start t, span_end final)"
    define cand where "cand = (case best of None \<Rightarrow> ?new | Some old \<Rightarrow> if k < fst old then ?new else old)"
    have "aligned b (first # toks) (us @ t # ts) ?new"
      using align_aligned[OF y] by (induction us) (auto intro: aligned_Cons)
    then have cand: "aligned b (first # toks) (us @ t # ts) cand"
      using Cons.prems(2) by (auto simp: cand_def split: option.splits)
    have "(if fst cand = 0 then Some cand else best_alignment b first toks (Some cand) ts) = Some c"
      using Cons.prems(1) unfolding cand_def
      by (simp only: best_alignment.simps y if_True option.case prod.case Let_def)
    then show ?thesis using cand skip[of "Some cand"] by (auto split: if_splits)
  qed
qed simp

text \<open>A text is white space, a token and a rest that does not continue it; or white space only.\<close>

definition starts_token :: "pystr \<Rightarrow> pystr \<Rightarrow> pystr \<Rightarrow> bool" where
  "starts_token w t r \<longleftrightarrow>
     list_all py_space w \<and> list_all not_space t \<and> t \<noteq> [] \<and> (r = [] \<or> py_space (hd r))"

lemma token_spans_cons:
  assumes "starts_token w t r"
  shows "token_spans k (w @ t @ r) = (t, k + length w, k + length w + length t) # token_spans (k + length w + length t) r"
proof -
  obtain c t' where t: "t = c # t'" "\<not> py_space c" using assms by (cases t) (auto simp: starts_token_def not_space_def)
  have w: "takeWhile py_space (w @ t @ r) = w" "dropWhile py_space (w @ t @ r) = t @ r"
    using assms t by (auto simp: starts_token_def list_all_iff takeWhile_append2 dropWhile_append2)
  have "takeWhile not_space r = []" "dropWhile not_space r = r"
    using assms by (cases r; auto simp: starts_token_def not_space_def)+
  then have "takeWhile not_space (t @ r) = t" "dropWhile not_space (t @ r) = r"
    using assms by (auto simp: starts_token_def list_all_iff takeWhile_append2 dropWhile_append2)
  with w t show ?thesis by (subst token_spans.simps) (simp add: Let_def)
qed

lemma token_spans_empty: "list_all py_space s \<Longrightarrow> token_spans k s = []"
  by (subst token_spans.simps) (simp add: list_all_iff dropWhile_eq_Nil_conv[THEN iffD2])

lemma token_cases:
  obtains (blank) "list_all py_space s"
  | (tok) w t r where "s = w @ t @ r" "starts_token w t r" "length r < length s"
proof (cases "list_all py_space s")
  case False
  define d where "d = dropWhile py_space s"
  have s: "s = takeWhile py_space s @ takeWhile not_space d @ dropWhile not_space d" by (simp add: d_def)
  have "d \<noteq> []" using False by (auto simp: d_def list_all_iff dropWhile_eq_Nil_conv)
  then have "not_space (hd d)" by (simp add: d_def not_space_def hd_dropWhile)
  with \<open>d \<noteq> []\<close> have "takeWhile not_space d \<noteq> []" by (cases d) auto
  moreover have "dropWhile not_space d = [] \<or> py_space (hd (dropWhile not_space d))"
    using hd_dropWhile[of not_space d] by (auto simp: not_space_def)
  ultimately have "starts_token (takeWhile py_space s) (takeWhile not_space d) (dropWhile not_space d)"
    by (auto simp: starts_token_def list_all_iff dest: set_takeWhileD)
  moreover have "length (dropWhile not_space d) < length s"
  proof -
    have "length d = length (takeWhile not_space d) + length (dropWhile not_space d)"
      "length s = length (takeWhile py_space s) + length d"
      unfolding d_def by (metis length_append takeWhile_dropWhile_id)+
    then show ?thesis using \<open>takeWhile not_space d \<noteq> []\<close> by simp
  qed
  ultimately show ?thesis using s tok by blast
qed (use blank in simp)

lemma spans_drop:
  "n < length (token_spans k s) \<Longrightarrow>
   k \<le> span_start (token_spans k s ! n)
   \<and> token_spans (span_start (token_spans k s ! n)) (drop (span_start (token_spans k s ! n) - k) s) = drop n (token_spans k s)"
proof (induction "length s" arbitrary: s k n rule: less_induct)
  case less
  show ?case
  proof (cases s rule: token_cases)
    case (tok w t r)
    note spans = token_spans_cons[OF tok(2), of k]
    have here: "token_spans (k + length w) (t @ r) = token_spans k s"
      using token_spans_cons[of "[]" t r "k + length w"] tok spans by (simp add: starts_token_def)
    show ?thesis
    proof (cases n)
      case 0
      then show ?thesis using here spans tok by (simp add: span_start_def)
    next
      case (Suc m)
      let ?k = "k + length w + length t"
      have m: "m < length (token_spans ?k r)" using less.prems spans tok Suc by simp
      define i where "i = span_start (token_spans ?k r ! m)"
      have i: "?k \<le> i" "token_spans i (drop (i - ?k) r) = drop m (token_spans ?k r)"
        using less.hyps[OF tok(3) m] by (simp_all add: i_def)
      then have "i - k = length w + length t + (i - ?k)" by simp
      then have "drop (i - k) s = drop (i - ?k) r" unfolding tok(1) by simp
      moreover have "span_start (token_spans k s ! n) = i" using spans tok(1) Suc by (simp add: i_def)
      ultimately show ?thesis using i spans tok(1) Suc by simp
    qed
  qed (use less.prems token_spans_empty in simp)
qed

lemma spans_take:
  "n < length (token_spans k s) \<Longrightarrow>
   k < span_end (token_spans k s ! n) \<and> span_end (token_spans k s ! n) \<le> k + length s
   \<and> token_spans k (take (span_end (token_spans k s ! n) - k) s) = take (Suc n) (token_spans k s)"
proof (induction "length s" arbitrary: s k n rule: less_induct)
  case less
  show ?case
  proof (cases s rule: token_cases)
    case (tok w t r)
    let ?k = "k + length w + length t"
    note spans = token_spans_cons[OF tok(2), of k]
    have t: "t \<noteq> []" using tok(2) by (simp add: starts_token_def)
    have short: "token_spans k (w @ t @ take j r) = (t, k + length w, ?k) # token_spans ?k (take j r)" for j
      by (rule token_spans_cons) (use tok(2) in \<open>cases r; cases j; simp add: starts_token_def\<close>)
    show ?thesis
    proof (cases n)
      case 0
      then show ?thesis using spans tok t short[of 0] by (simp add: span_end_def token_spans_empty)
    next
      case (Suc m)
      have m: "m < length (token_spans ?k r)" using less.prems spans tok Suc by simp
      define j where "j = span_end (token_spans ?k r ! m)"
      have j: "?k < j" "j \<le> ?k + length r" "token_spans ?k (take (j - ?k) r) = take (Suc m) (token_spans ?k r)"
        using less.hyps[OF tok(3) m] by (simp_all add: j_def)
      then have "j - k = length w + length t + (j - ?k)" by simp
      then have "take (j - k) s = w @ t @ take (j - ?k) r" unfolding tok(1) by simp
      moreover have "span_end (token_spans k s ! n) = j" using spans tok(1) Suc by (simp add: j_def)
      ultimately show ?thesis using j spans short[of "j - ?k"] tok(1) Suc by simp
    qed
  qed (use less.prems token_spans_empty in simp)
qed

lemma token_spans_offset: "map fst (token_spans k s) = words s"
proof (induction "length s" arbitrary: s k rule: less_induct)
  case less
  show ?case
  proof (cases s rule: token_cases)
    case (tok w t r)
    then show ?thesis
      using less[OF tok(3), of "k + length w + length t"] less[OF tok(3), of "length w + length t"]
      by (simp add: words_def token_spans_cons)
  qed (simp add: words_def token_spans_empty)
qed

lemma words_slice:
  assumes "a + n < length (token_spans 0 s)"
  shows "words (slice (span_start (token_spans 0 s ! a)) (span_end (token_spans 0 s ! (a + n))) s)
           = take (Suc n) (drop a (words s))"
proof -
  define ts where "ts = token_spans 0 s"
  define i j where "i = span_start (ts ! a)" and "j = span_end (ts ! (a + n))"
  have d: "token_spans i (drop i s) = drop a ts"
    using spans_drop[of a 0 s] assms by (simp add: ts_def i_def)
  then have "span_end (token_spans i (drop i s) ! n) = j" "n < length (token_spans i (drop i s))"
    using assms by (simp_all add: j_def ts_def)
  with spans_take[of n i "drop i s"] d have "token_spans i (take (j - i) (drop i s)) = take (Suc n) (drop a ts)" by simp
  then have "words (slice i j s) = map fst (take (Suc n) (drop a ts))"
    using token_spans_offset[of i "slice i j s"] by (simp add: slice_def)
  then show ?thesis by (simp add: i_def j_def ts_def words_def take_map drop_map)
qed

lemma slice_substring: "substring_of (slice i j s) s"
  unfolding substring_of_iff slice_def by (metis append_take_drop_id)

section \<open>Repaired excerpts\<close>

lemma repair_some:
  assumes "repair_excerpt_from_trace e t = Some s"
  shows "substring_of s t \<and> list_emb is_subsequence (words e) (words s)
    \<and> length (words s) \<le> length (words e) + MAX_ALIGNMENT_SKIP_TOKENS
    \<and> compact_length s \<le> compact_length e * MAX_SPAN_EXPANSION \<and> MIN_RELAXED_EXCERPT_TOKENS \<le> length (words e)"
proof -
  let ?b = "min MAX_ALIGNMENT_SKIP_TOKENS (length (words e) - 1)"
  from assms obtain k i j where r:
    "best_alignment ?b (hd (words e)) (tl (words e)) None (token_spans 0 t) = Some (k, i, j)"
    "s = slice i j t" "compact_length s \<le> compact_length e * MAX_SPAN_EXPANSION"
    "MIN_RELAXED_EXCERPT_TOKENS \<le> length (words e)"
    by (auto simp: repair_excerpt_from_trace_def words_def Let_def split: if_splits option.splits)
  then have ne: "hd (words e) # tl (words e) = words e" by (cases "words e") (auto simp: MIN_RELAXED_EXCERPT_TOKENS_def)
  have "aligned ?b (words e) (token_spans 0 t) (k, i, j)"
    using best_aligned[OF r(1), of "[]"] ne by simp
  then obtain a n where an: "a + n < length (token_spans 0 t)" "i = span_start (token_spans 0 t ! a)"
    "j = span_end (token_spans 0 t ! (a + n))"
    "list_emb is_subsequence (words e) (map fst (take (Suc n) (drop a (token_spans 0 t))))" "Suc n \<le> ?b + length (words e)"
    by (auto simp: aligned_def)
  have w: "words s = take (Suc n) (drop a (words t))" using words_slice[OF an(1)] r(2) an by simp
  with an have "list_emb is_subsequence (words e) (words s)" by (simp add: words_def take_map drop_map)
  moreover have "length (words s) \<le> Suc n" by (simp add: w)
  ultimately show ?thesis using r an(5) slice_substring[of i j t] by simp
qed

text \<open>
  C7: an excerpt the auditor miscopied is shown only as the trace's own text: the span returned is in the
  trace, holds the excerpt's tokens in order, each a case-folded subsequence of a token of the span, has at
  most four tokens more and at most twice its visible characters, and a quote of one or two words is never
  repaired.
\<close>

theorem repaired_excerpt_is_trace_text:
  "case repair_excerpt_from_trace e t of
     None \<Rightarrow> True
   | Some s \<Rightarrow> substring_of s t
       \<and> list_emb (\<lambda>a b. subseq (casefold a) (casefold b)) (words e) (words s)
       \<and> length (words s) \<le> length (words e) + 4 \<and> 3 \<le> length (words e)
       \<and> compact_length s \<le> 2 * compact_length e"
proof (cases "repair_excerpt_from_trace e t")
  case (Some s)
  have "is_subsequence = (\<lambda>a b. subseq (casefold a) (casefold b))" by (intro ext) (rule is_subsequence_iff)
  with repair_some[OF Some] Some show ?thesis
    by (simp add: MAX_ALIGNMENT_SKIP_TOKENS_def MAX_SPAN_EXPANSION_def MIN_RELAXED_EXCERPT_TOKENS_def)
qed simp

section \<open>The verdict\<close>

lemma words_Nil: "words s = [] \<longleftrightarrow> strip s = []"
proof (cases s rule: token_cases)
  case (tok w t r)
  then have "\<exists>c \<in> set s. \<not> py_space c" by (cases t) (auto simp: starts_token_def not_space_def)
  moreover have "words s \<noteq> []" using tok token_spans_cons[OF tok(2), of 0] by (simp add: words_def)
  ultimately show ?thesis by (auto simp: strip_Nil_iff)
qed (auto simp: words_def token_spans_empty strip_Nil_iff list_all_iff)

lemma resolve_excerpt_grounded:
  "resolve_excerpt t v = Some e \<Longrightarrow> substring_of e t \<and> strip e \<noteq> []"
proof -
  assume "resolve_excerpt t v = Some e"
  then consider "substring_of e t" "strip e \<noteq> []" | x where "repair_excerpt_from_trace x t = Some e"
    by (auto simp: resolve_excerpt_def split: json.splits if_splits)
  then show ?thesis
  proof cases
    case (2 x)
    from repair_some[OF this] have "substring_of e t" "words x \<noteq> []" "list_emb is_subsequence (words x) (words e)"
      by (auto simp: MIN_RELAXED_EXCERPT_TOKENS_def)
    then have "words e \<noteq> []" by auto
    with \<open>substring_of e t\<close> show ?thesis by (simp add: words_Nil)
  qed simp
qed

lemma resolved_grounded:
  "resolve_grounded_excerpts t vs = Some es \<Longrightarrow>
   list_all (\<lambda>e. substring_of e t \<and> strip e \<noteq> []) es \<and> length es = length vs"
  by (induction vs arbitrary: es) (auto split: option.splits dest!: resolve_excerpt_grounded)

text \<open>What an answer must be before its result may be used.\<close>

definition sound_answer :: "pystr \<Rightarrow> audit_result \<Rightarrow> bool" where
  "sound_answer trace r \<longleftrightarrow>
     (case ar_verdict r of
        RV_FAILED \<Rightarrow> ar_error_code r \<noteq> None \<and> ar_concern r = None \<and> ar_excerpts r = []
      | RV_NO_CONCERN \<Rightarrow> ar_error_code r = None \<and> ar_concern r = None \<and> ar_excerpts r = []
      | RV_CONCERN \<Rightarrow> ar_error_code r = None \<and> ar_concern r \<noteq> None \<and> ar_excerpts r \<noteq> []
          \<and> list_all (\<lambda>e. substring_of e trace \<and> strip e \<noteq> []) (ar_excerpts r))"

lemma closed_sound: "sound_answer trace (closed m why code) \<and> ar_verdict (closed m why code) = RV_FAILED"
  by (simp add: sound_answer_def closed_def audit_answer_def)

lemma accepted_sound:
  "sound_answer trace (audit_answer m RV_NO_CONCERN None [] why None)"
  "list_all (\<lambda>e. substring_of e trace \<and> strip e \<noteq> []) es \<Longrightarrow> es \<noteq> [] \<Longrightarrow>
   sound_answer trace (audit_answer m RV_CONCERN (Some c) es why None)"
  "ar_verdict (audit_answer m v concern es why code) = v"
  by (simp_all add: sound_answer_def audit_answer_def)

lemma parse_concern_sound:
  "parse_concern m trace c xs why = Some r \<Longrightarrow> sound_answer trace r \<and> ar_verdict r \<noteq> RV_NO_CONCERN"
  using resolved_grounded[of trace xs]
  by (auto simp: parse_concern_def closed_sound accepted_sound Let_def
      split: json.splits option.splits if_splits intro!: accepted_sound(2))

definition clears :: "jobj \<Rightarrow> bool" where
  "clears d \<longleftrightarrow> map_of d ''verdict'' = Some (JStr ''NO_CONCERN'') \<and> jget d ''concern_type'' = JNull
     \<and> (case map_of d ''flagged_excerpts'' of None \<Rightarrow> True | Some v \<Rightarrow> v = JArr [])"

lemma jget_JStr: "jget d k = JStr s \<longleftrightarrow> map_of d k = Some (JStr s)"
  by (simp add: jget_def split: option.splits)

lemma parse_verdict_sound:
  assumes "parse_verdict fl m trace d = Some r"
  shows "sound_answer trace r \<and> (ar_verdict r = RV_NO_CONCERN \<longrightarrow> clears d)
    \<and> (ar_verdict r = RV_CONCERN \<longrightarrow> map_of d ''verdict'' = Some (JStr ''CONCERN''))"
proof (cases "jget d ''verdict'' = JStr ''CONCERN''")
  case True
  then have "map_of d ''verdict'' = Some (JStr ''CONCERN'')" by (simp add: jget_JStr)
  with True assms show ?thesis
    by (auto simp: parse_verdict_def Let_def closed_sound split: json.splits option.splits if_splits
        dest!: parse_concern_sound)
next
  case False
  with assms show ?thesis
    by (auto simp: parse_verdict_def Let_def closed_sound clears_def jget_JStr accepted_sound
        split: json.splits option.splits if_splits)
qed

lemma parse_output_sound:
  "case parse_auditor_output loads fl m trace response of
     None \<Rightarrow> True
   | Some r \<Rightarrow> sound_answer trace r
       \<and> (ar_verdict r = RV_FAILED
          \<or> (\<exists>d. loads (strip_fence (strip response)) = loaded (JObj d)
                \<and> (if ar_verdict r = RV_NO_CONCERN then clears d
                   else map_of d ''verdict'' = Some (JStr ''CONCERN''))))"
proof (cases "parse_auditor_output loads fl m trace response")
  case (Some r)
  then consider why code where "r = closed m why code"
    | d where "loads (strip_fence (strip response)) = loaded (JObj d)" "parse_verdict fl m trace d = Some r"
    by (auto simp: parse_auditor_output_def split: if_splits load_result.splits json.splits)
  then show ?thesis
  proof cases
    case 1
    then show ?thesis using Some closed_sound by simp
  next
    case 2
    with parse_verdict_sound[OF 2(2)] Some show ?thesis by (cases "ar_verdict r") auto
  qed
qed simp

text \<open>
  The auditor's text is only ever relaxing when it is an object that says so itself: a parsed answer is
  FAILED with an error code, or CONCERN with a concern type and at least one excerpt, every one of them
  text of the trace and not blank, or NO_CONCERN, and then the object's verdict is NO_CONCERN and it
  names no concern and flags nothing.
\<close>

lemma verdict_is_grounded:
  "case parse_auditor_output loads fl m trace response of
     None \<Rightarrow> True
   | Some r \<Rightarrow> sound_answer trace r
       \<and> (case ar_verdict r of
            RV_NO_CONCERN \<Rightarrow> \<exists>d. loads (strip_fence (strip response)) = loaded (JObj d) \<and> clears d
          | _ \<Rightarrow> True)"
  using parse_output_sound[where loads = loads and fl = fl and m = m and trace = trace and response = response] by (auto split: option.splits audit_verdict.splits)

text \<open>
  An answer that names a concern and quotes the trace exactly is taken as it is; the quotes are not
  replaced.
\<close>

lemma exact_excerpts_kept:
  "list_all (\<lambda>e. substring_of e t \<and> strip e \<noteq> [] \<and> \<not> substring_of (strip TRUNCATION_MARKER) e) es \<Longrightarrow>
   resolve_grounded_excerpts t (map JStr es) = Some es"
  by (induction es) (simp_all add: resolve_excerpt_def)

end
