(* ===== verification/ProviderClient.thy ===== *)
theory ProviderClient
  imports TieredAudit
begin

text \<open>
  \<open>backend/scopewatch/providers/client.py\<close>: the chat completion client of the agent and of the auditor.
  The wire, the clocks and the sleep are an environment over a world of any type; durations are in
  microseconds and the back-off factor is an integer. What a call sends and how long it sleeps is kept
  as a list of events.
\<close>

section \<open>Reasoning in a message\<close>

type_synonym extraction = "pystr option \<times> pystr \<times> pystr option"

definition VALID_PROVENANCES :: "pystr list" where
  "VALID_PROVENANCES =
     [''PROVIDER_EXPOSED_TRACE'', ''AGENT_AUTHORED_SUMMARY'', ''UNAVAILABLE'', ''SYNTHETIC_FIXTURE'']"

definition RAW_REASONING_FIELDS :: "pystr list" where
  "RAW_REASONING_FIELDS = [''reasoning_content'', ''reasoning'']"

definition RAW_DETAIL_TYPES :: "pystr list" where "RAW_DETAIL_TYPES = [''reasoning.text'']"
definition SUMMARY_DETAIL_TYPES :: "pystr list" where "SUMMARY_DETAIL_TYPES = [''reasoning.summary'']"

text \<open>The stripped text of a value that is a non-blank string.\<close>

definition nonblank_text :: "json \<Rightarrow> pystr option" where
  "nonblank_text v = (case v of JStr s \<Rightarrow> if strip s \<noteq> [] then Some (strip s) else None | _ \<Rightarrow> None)"

definition detail_text :: "jobj \<Rightarrow> pystr \<Rightarrow> pystr option" where
  "detail_text d k = nonblank_text (jget d k)"

definition untyped_detail :: "jobj \<Rightarrow> extraction" where
  "untyped_detail d =
     (case detail_text d ''text'' of
        Some t \<Rightarrow> (Some t, ''PROVIDER_EXPOSED_TRACE'', Some ''reasoning.text'')
      | None \<Rightarrow>
          (case detail_text d ''summary'' of
             Some t \<Rightarrow> (Some t, ''AGENT_AUTHORED_SUMMARY'', Some ''reasoning.summary'')
           | None \<Rightarrow> (None, ''UNAVAILABLE'', None)))"

definition normalize_detail :: "json \<Rightarrow> extraction" where
  "normalize_detail v =
     (case v of
        JObj d \<Rightarrow>
          (case jget d ''type'' of
             JStr t \<Rightarrow>
               if t = [] then untyped_detail d
               else if t \<in> set RAW_DETAIL_TYPES then (detail_text d ''text'', ''PROVIDER_EXPOSED_TRACE'', Some t)
               else if t \<in> set SUMMARY_DETAIL_TYPES then (detail_text d ''summary'', ''AGENT_AUTHORED_SUMMARY'', Some t)
               else (None, ''UNAVAILABLE'', Some t)
           | _ \<Rightarrow> untyped_detail d)
      | _ \<Rightarrow> (None, ''UNAVAILABLE'', None))"

definition matches_of :: "pystr \<Rightarrow> extraction list \<Rightarrow> extraction list" where
  "matches_of p es = filter (\<lambda>e. fst (snd e) = p \<and> truthy (fst e)) es"

definition joined :: "pystr \<Rightarrow> extraction list \<Rightarrow> extraction" where
  "joined p ms = (Some (join [CHR 0x0A] (map (or_empty \<circ> fst) ms)), p, snd (snd (hd ms)))"

definition best_extraction :: "extraction list \<Rightarrow> extraction" where
  "best_extraction es =
     (let raw = matches_of ''PROVIDER_EXPOSED_TRACE'' es; summary = matches_of ''AGENT_AUTHORED_SUMMARY'' es
      in if raw \<noteq> [] then joined ''PROVIDER_EXPOSED_TRACE'' raw
         else if summary \<noteq> [] then joined ''AGENT_AUTHORED_SUMMARY'' summary
         else (None, ''UNAVAILABLE'',
               (case find (truthy \<circ> snd \<circ> snd) es of None \<Rightarrow> None | Some e \<Rightarrow> snd (snd e))))"

definition extract_reasoning :: "jobj \<Rightarrow> extraction" where
  "extract_reasoning m =
     (case find (\<lambda>f. nonblank_text (jget m f) \<noteq> None) RAW_REASONING_FIELDS of
        Some f \<Rightarrow> (nonblank_text (jget m f), ''PROVIDER_EXPOSED_TRACE'', Some f)
      | None \<Rightarrow>
          (case jget m ''reasoning_details'' of
             JArr ds \<Rightarrow> if ds = [] then (None, ''UNAVAILABLE'', None) else best_extraction (map normalize_detail ds)
           | JObj d \<Rightarrow> if d = [] then (None, ''UNAVAILABLE'', None) else normalize_detail (JObj d)
           | _ \<Rightarrow> (None, ''UNAVAILABLE'', None)))"

section \<open>A response\<close>

datatype client_error = Provider_error pystr pystr | Other_error pystr

record completion =
  co_content :: "pystr option"
  co_tool_calls :: "jobj list"
  co_reasoning :: "pystr option"
  co_provenance :: pystr
  co_detail_type :: "pystr option"
  co_usage :: jobj
  co_latency :: int
  co_model :: pystr
  co_profile :: pystr

definition normalize_content :: "json \<Rightarrow> pystr option" where
  "normalize_content v =
     (case v of
        JStr s \<Rightarrow> Some s
      | JArr parts \<Rightarrow>
          (let texts = concat (map (\<lambda>p. case p of JObj d \<Rightarrow> (case jget d ''text'' of JStr s \<Rightarrow> [s] | _ \<Rightarrow> []) | _ \<Rightarrow> []) parts)
           in if texts = [] then None else Some (join [CHR 0x0A] texts))
      | _ \<Rightarrow> None)"

definition ensure_dict :: "json \<Rightarrow> jobj" where
  "ensure_dict v = (case v of JObj d \<Rightarrow> d | _ \<Rightarrow> [])"

text \<open>Every element an object, as the result type demands.\<close>

fun objects_of :: "json list \<Rightarrow> jobj list option" where
  "objects_of [] = Some []"
| "objects_of (JObj d # vs) = map_option (\<lambda>ds. d # ds) (objects_of vs)"
| "objects_of (_ # vs) = None"

definition provider_says :: "profile \<Rightarrow> pystr \<Rightarrow> pystr \<Rightarrow> client_error" where
  "provider_says p code what = Provider_error code (''Provider '' @ quoted (pf_name p) @ '' '' @ what)"

definition malformed :: "profile \<Rightarrow> pystr \<Rightarrow> client_error" where
  "malformed p what = provider_says p ''MALFORMED_RESPONSE'' (''returned '' @ what)"

text \<open>A body that is not an object has no \<open>get\<close>.\<close>

definition parse_message :: "profile \<Rightarrow> jobj \<Rightarrow> int \<Rightarrow> jobj \<Rightarrow> client_error + completion" where
  "parse_message p data latency m =
     (let shape = malformed p ''response with unexpected shape.'';
          raw_content = jget m ''content'';
          raw_calls = jget m ''tool_calls'';
          model = (if json_truthy (jget data ''model'') then jget data ''model'' else JStr (pf_model p));
          (reasoning, provenance, detail) = extract_reasoning m
      in if (case raw_content of JNull \<Rightarrow> False | JStr _ \<Rightarrow> False | JArr _ \<Rightarrow> False | _ \<Rightarrow> True) then Inl shape
         else case (case raw_calls of JNull \<Rightarrow> Some [] | JArr vs \<Rightarrow> objects_of vs | _ \<Rightarrow> None) of
           None \<Rightarrow> Inl shape
         | Some calls \<Rightarrow>
             (case model of
                JStr name \<Rightarrow>
                  if provenance \<in> set VALID_PROVENANCES then
                    Inr \<lparr>co_content = normalize_content raw_content, co_tool_calls = calls,
                         co_reasoning = reasoning, co_provenance = provenance, co_detail_type = detail,
                         co_usage = ensure_dict (jget data ''usage''), co_latency = latency, co_model = name,
                         co_profile = pf_name p\<rparr>
                  else Inl shape
              | _ \<Rightarrow> Inl shape))"

definition parse_chat_response :: "profile \<Rightarrow> json \<Rightarrow> int \<Rightarrow> client_error + completion" where
  "parse_chat_response p body latency =
     (case body of
        JObj data \<Rightarrow>
          (case jget data ''choices'' of
             JArr (JObj choice # _) \<Rightarrow>
               (case jget choice ''message'' of
                  JObj m \<Rightarrow> parse_message p data latency m
                | _ \<Rightarrow> Inl (malformed p ''invalid message format.''))
           | JArr (_ # _) \<Rightarrow> Inl (malformed p ''invalid choice format.'')
           | _ \<Rightarrow> Inl (malformed p ''response without choices.''))
      | _ \<Rightarrow> Inl (Other_error ''AttributeError''))"

section \<open>The client\<close>

record client =
  cl_profile :: profile
  cl_key :: "pystr option"
  cl_initial :: int
  cl_max :: int
  cl_factor :: int

text \<open>\<open>__init__\<close>: an explicit key, the named variable, or none.\<close>

definition resolve_key :: "environ \<Rightarrow> profile \<Rightarrow> pystr option \<Rightarrow> client_error + pystr option" where
  "resolve_key env p explicit =
     (case explicit of
        Some k \<Rightarrow> Inr (Some k)
      | None \<Rightarrow>
          (if truthy (pf_key_env p) then
             (let v = env (or_empty (pf_key_env p))
              in if blank v then
                   Inl (Provider_error ''MISSING_API_KEY''
                          (''Required environment variable '' @ quoted (or_empty (pf_key_env p))
                           @ '' is missing or empty for profile '' @ quoted (pf_name p) @ ''.''))
                 else Inr (Some (strip (or_empty v))))
           else Inr None))"

definition DEFAULT_INITIAL_BACKOFF :: int where "DEFAULT_INITIAL_BACKOFF = 500000"
definition DEFAULT_MAX_BACKOFF :: int where "DEFAULT_MAX_BACKOFF = 8000000"
definition DEFAULT_BACKOFF_FACTOR :: int where "DEFAULT_BACKOFF_FACTOR = 2"

definition make_client :: "environ \<Rightarrow> profile \<Rightarrow> pystr option \<Rightarrow> client_error + client" where
  "make_client env p explicit =
     map_sum id (\<lambda>k. \<lparr>cl_profile = p, cl_key = k, cl_initial = DEFAULT_INITIAL_BACKOFF,
                      cl_max = DEFAULT_MAX_BACKOFF, cl_factor = DEFAULT_BACKOFF_FACTOR\<rparr>)
       (resolve_key env p explicit)"

definition strip_end_slashes :: "pystr \<Rightarrow> pystr" where
  "strip_end_slashes s = rev (dropWhile (\<lambda>c. c = CHR ''/'') (rev s))"

definition resolve_url :: "profile \<Rightarrow> pystr" where
  "resolve_url p =
     (let base = strip_end_slashes (pf_base_url p)
      in if suffix ''/chat/completions'' base then base else base @ ''/chat/completions'')"

record chat_request =
  rq_url :: pystr
  rq_headers :: "(pystr \<times> pystr) list"
  rq_payload :: jobj
  rq_timeout :: int

definition request_headers :: "client \<Rightarrow> (pystr \<times> pystr) list" where
  "request_headers cl =
     (''Content-Type'', ''application/json'')
     # (if truthy (cl_key cl) then [(''Authorization'', ''Bearer '' @ or_empty (cl_key cl))] else [])"

definition payload_of :: "profile \<Rightarrow> json list \<Rightarrow> jobj \<Rightarrow> jobj" where
  "payload_of p messages options =
     (let d0 = [(''model'', JStr (pf_model p)), (''messages'', JArr messages)];
          d1 = dict_update d0 (pf_extra_body p);
          d2 = (case pf_reasoning p of None \<Rightarrow> d1 | Some r \<Rightarrow> if r = [] then d1 else dict_set d1 ''reasoning'' (JObj r))
      in dict_update d2 options)"

datatype wire_outcome = Answer nat "json option" | Times_out | Network_fails | Wire_raises pystr

datatype client_event = Posted chat_request | Slept int

record 'w wire =
  wi_now :: "'w \<Rightarrow> int \<times> 'w"
  wi_perf :: "'w \<Rightarrow> int \<times> 'w"
  wi_post :: "chat_request \<Rightarrow> 'w \<Rightarrow> wire_outcome \<times> 'w"
  wi_sleep :: "int \<Rightarrow> 'w \<Rightarrow> 'w"
  wi_instant :: "'w \<Rightarrow> instant \<times> 'w"
  wi_fixed2 :: "int \<Rightarrow> pystr"

record 'w calls =
  ca_world :: 'w
  ca_ledger :: ledger
  ca_events :: "client_event list"

definition read_now :: "'w wire \<Rightarrow> 'w calls \<Rightarrow> int \<times> 'w calls" where
  "read_now W s = (case wi_now W (ca_world s) of (t, w) \<Rightarrow> (t, s\<lparr>ca_world := w\<rparr>))"

definition read_perf :: "'w wire \<Rightarrow> 'w calls \<Rightarrow> int \<times> 'w calls" where
  "read_perf W s = (case wi_perf W (ca_world s) of (t, w) \<Rightarrow> (t, s\<lparr>ca_world := w\<rparr>))"

definition post :: "'w wire \<Rightarrow> chat_request \<Rightarrow> 'w calls \<Rightarrow> wire_outcome \<times> 'w calls" where
  "post W rq s =
     (case wi_post W rq (ca_world s) of (r, w) \<Rightarrow> (r, s\<lparr>ca_world := w, ca_events := ca_events s @ [Posted rq]\<rparr>))"

definition sleep_for :: "'w wire \<Rightarrow> int \<Rightarrow> 'w calls \<Rightarrow> 'w calls" where
  "sleep_for W d s = s\<lparr>ca_world := wi_sleep W d (ca_world s), ca_events := ca_events s @ [Slept d]\<rparr>"

definition record_token_metering :: "'w wire \<Rightarrow> profile \<Rightarrow> completion \<Rightarrow> 'w calls \<Rightarrow> 'w calls" where
  "record_token_metering W p r s =
     (if is_mock_profile (pf_name p) (pf_base_url p) then s
      else case wi_instant W (ca_world s) of
        (now, w) \<Rightarrow> s\<lparr>ca_world := w, ca_ledger := snd (record_completion (pf_name p) (JObj (co_usage r)) now (ca_ledger s))\<rparr>)"

section \<open>One attempt and the loop\<close>

definition overdue :: "'w wire \<Rightarrow> int option \<Rightarrow> int \<Rightarrow> 'w calls \<Rightarrow> bool \<times> 'w calls" where
  "overdue W deadline d s =
     (case deadline of None \<Rightarrow> (False, s) | Some t \<Rightarrow> (case read_now W s of (now, s1) \<Rightarrow> (t < now + d, s1)))"

definition status_error :: "profile \<Rightarrow> nat \<Rightarrow> client_error" where
  "status_error p status =
     (if status = 429 then provider_says p ''PROVIDER_RATE_LIMIT'' ''rate limit exceeded (HTTP 429).''
      else if status \<in> {502, 503, 504} then
        provider_says p ''PROVIDER_UNAVAILABLE'' (''service unavailable (HTTP '' @ show_nat status @ '').'')
      else if 500 \<le> status then provider_says p ''PROVIDER_ERROR'' (''server error (HTTP '' @ show_nat status @ '').'')
      else if status = 400 then provider_says p ''PROVIDER_ERROR'' ''rejected request with client error (HTTP 400).''
      else provider_says p ''PROVIDER_ERROR'' (''request failed (HTTP '' @ show_nat status @ '').''))"

definition retryable :: "nat \<Rightarrow> bool" where
  "retryable status \<longleftrightarrow> status = 429 \<or> 500 \<le> status"

definition backoff :: "client \<Rightarrow> nat \<Rightarrow> int" where
  "backoff cl attempt = min (cl_max cl) (cl_initial cl * cl_factor cl ^ attempt)"

text \<open>The pause before the next attempt: an error when it would pass the deadline.\<close>

definition pause :: "'w wire \<Rightarrow> client \<Rightarrow> int option \<Rightarrow> nat \<Rightarrow> pystr \<Rightarrow> 'w calls \<Rightarrow> client_error option \<times> 'w calls" where
  "pause W cl deadline attempt shown s =
     (case overdue W deadline (backoff cl attempt) s of
        (True, s1) \<Rightarrow> (Some (provider_says (cl_profile cl) ''PROVIDER_TIMEOUT''
                               (''retry delay '' @ shown @ ''would exceed call deadline.'')), s1)
      | (False, s1) \<Rightarrow> (None, sleep_for W (backoff cl attempt) s1))"

definition accept :: "'w wire \<Rightarrow> profile \<Rightarrow> json option \<Rightarrow> int \<Rightarrow> 'w calls \<Rightarrow> (client_error + completion) \<times> 'w calls" where
  "accept W p body latency s =
     (case body of
        None \<Rightarrow> (Inl (malformed p ''invalid JSON.''), s)
      | Some v \<Rightarrow>
          if (case v of JObj d \<Rightarrow> map_of d ''error'' \<noteq> None | _ \<Rightarrow> False) then
            (Inl (provider_says p ''PROVIDER_ERROR'' ''returned error response envelope.''), s)
          else (case parse_chat_response p v latency of
                  Inl e \<Rightarrow> (Inl e, s) | Inr r \<Rightarrow> (Inr r, record_token_metering W p r s)))"

datatype 'a attempt_end = Finished 'a | Try_again bool client_error

text \<open>An attempt: its end, or a failure that may be tried again, and whether its pause is written out.\<close>

definition attempt_once ::
  "'w wire \<Rightarrow> client \<Rightarrow> chat_request \<Rightarrow> int option \<Rightarrow> 'w calls \<Rightarrow> (client_error + completion) attempt_end \<times> 'w calls" where
  "attempt_once W cl rq deadline s =
     (let p = cl_profile cl
      in case read_perf W s of (t0, s1) \<Rightarrow>
         (case post W rq s1 of
            (Wire_raises e, s2) \<Rightarrow> (Finished (Inl (Other_error e)), s2)
          | (Times_out, s2) \<Rightarrow> (Try_again False (provider_says p ''PROVIDER_TIMEOUT'' ''request timed out.''), s2)
          | (Network_fails, s2) \<Rightarrow>
              (Try_again False (provider_says p ''PROVIDER_UNAVAILABLE'' ''network connection failed.''), s2)
          | (Answer status body, s2) \<Rightarrow>
              (case read_perf W s2 of (t1, s3) \<Rightarrow>
                 (case overdue W deadline 0 s3 of
                    (True, s4) \<Rightarrow>
                      (Finished (Inl (provider_says p ''PROVIDER_TIMEOUT'' ''call deadline exceeded during request execution.'')), s4)
                  | (False, s4) \<Rightarrow>
                      if status = 200 then (case accept W p body (t1 - t0) s4 of (r, s5) \<Rightarrow> (Finished r, s5))
                      else if retryable status then
                        (Try_again True (status_error p status), s4)
                      else (Finished (Inl (status_error p status)), s4)))))"

definition time_limit :: "'w wire \<Rightarrow> client \<Rightarrow> int option \<Rightarrow> 'w calls \<Rightarrow> int option \<times> 'w calls" where
  "time_limit W cl deadline s =
     (let own = pf_timeout (cl_profile cl)
      in case deadline of
           None \<Rightarrow> (Some own, s)
         | Some t \<Rightarrow> (case read_now W s of (now, s1) \<Rightarrow>
             (if t - now \<le> 0 then None else Some (min own (max 1000 (t - now))), s1)))"

function complete_loop ::
  "'w wire \<Rightarrow> client \<Rightarrow> (int \<Rightarrow> chat_request) \<Rightarrow> int option \<Rightarrow> nat \<Rightarrow> 'w calls \<Rightarrow> (client_error + completion) \<times> 'w calls"
where
  "complete_loop W cl rq deadline attempt s =
     (case time_limit W cl deadline s of
        (None, s1) \<Rightarrow>
          (Inl (provider_says (cl_profile cl) ''PROVIDER_TIMEOUT'' ''call deadline exceeded before completion.''), s1)
      | (Some t, s1) \<Rightarrow>
          (case attempt_once W cl (rq t) deadline s1 of
             (Finished r, s2) \<Rightarrow> (r, s2)
           | (Try_again show_delay err, s2) \<Rightarrow>
               if attempt < nat (pf_max_retries (cl_profile cl)) then
                 (case pause W cl deadline attempt
                         (if show_delay then ''('' @ wi_fixed2 W (backoff cl attempt) @ ''s) '' else []) s2 of
                    (Some e, s3) \<Rightarrow> (Inl e, s3)
                  | (None, s3) \<Rightarrow> complete_loop W cl rq deadline (Suc attempt) s3)
               else (Inl err, s2)))"
  by pat_completeness auto

termination
  by (relation "measure (\<lambda>(W, cl, rq, d, attempt, s). nat (pf_max_retries (cl_profile cl)) - attempt)") auto

declare complete_loop.simps [simp del]

definition complete ::
  "'w wire \<Rightarrow> client \<Rightarrow> json list \<Rightarrow> jobj \<Rightarrow> int option \<Rightarrow> 'w calls \<Rightarrow> (client_error + completion) \<times> 'w calls" where
  "complete W cl messages options request_timeout s =
     (let p = cl_profile cl;
          rq = (\<lambda>t. \<lparr>rq_url = resolve_url p, rq_headers = request_headers cl,
                     rq_payload = payload_of p messages options, rq_timeout = t\<rparr>)
      in case read_now W s of (start, s1) \<Rightarrow>
           complete_loop W cl rq (map_option (\<lambda>t. start + t) request_timeout) 0 s1)"

text \<open>
  \<open>audit_chat\<close>: the options are keyword arguments of \<open>complete\<close>, which has \<open>messages\<close> and \<open>self\<close> already;
  \<open>request_timeout\<close> among them is not part of the payload.
\<close>

definition audit_options :: "profile \<Rightarrow> jobj" where
  "audit_options p =
     dict_update [(''response_format'', JObj [(''type'', JStr ''json_object'')]), (''max_tokens'', JInt 256)]
       (pf_auditor_body p)"

definition audit_chat ::
  "'w wire \<Rightarrow> client \<Rightarrow> json list \<Rightarrow> int \<Rightarrow> 'w calls \<Rightarrow> (client_error + completion) \<times> 'w calls" where
  "audit_chat W cl messages timeout s =
     (let options = filter (\<lambda>kv. fst kv \<noteq> ''request_timeout'') (audit_options (cl_profile cl))
      in if \<exists>k \<in> set [''messages'', ''self'']. map_of options k \<noteq> None then (Inl (Other_error ''TypeError''), s)
         else complete W cl messages options (Some timeout) s)"

section \<open>Reasoning is never taken from elsewhere\<close>

lemma nonblank_text_some: "nonblank_text v = Some t \<Longrightarrow> strip t \<noteq> []"
proof -
  assume "nonblank_text v = Some t"
  then obtain x where "t = strip x" "strip x \<noteq> []" by (auto simp: nonblank_text_def split: json.splits if_splits)
  then have "\<not> py_space (last t)" "last t \<in> set t" using strip_last[of x] by auto
  then show ?thesis by (auto simp: strip_Nil_iff)
qed

lemma strip_empty: "strip [] = []"
  by (simp add: strip_Nil_iff)

text \<open>The reasoning a detail block carries: under a recognised type, or with no type at all.\<close>

definition block_text :: "pystr \<Rightarrow> pystr \<Rightarrow> json \<Rightarrow> pystr option" where
  "block_text type key v =
     (case v of
        JObj d \<Rightarrow> if jget d ''type'' = JStr type \<or> \<not> (\<exists>t. jget d ''type'' = JStr t \<and> t \<noteq> []) then nonblank_text (jget d key) else None
      | _ \<Rightarrow> None)"

definition raw_text :: "json \<Rightarrow> pystr option" where "raw_text = block_text ''reasoning.text'' ''text''"
definition summary_text :: "json \<Rightarrow> pystr option" where "summary_text = block_text ''reasoning.summary'' ''summary''"

lemma untyped_detail_cases:
  "untyped_detail d = (x, p, y) \<Longrightarrow>
   (case x of
      Some t \<Rightarrow> p = ''PROVIDER_EXPOSED_TRACE'' \<and> nonblank_text (jget d ''text'') = Some t
         \<or> p = ''AGENT_AUTHORED_SUMMARY'' \<and> nonblank_text (jget d ''summary'') = Some t
    | None \<Rightarrow> p = ''UNAVAILABLE'')"
  by (auto simp: untyped_detail_def detail_text_def split: option.splits)

lemma normalize_detail_cases:
  assumes "normalize_detail v = (x, p, y)"
  shows "p = ''PROVIDER_EXPOSED_TRACE'' \<and> x = raw_text v \<or> p = ''AGENT_AUTHORED_SUMMARY'' \<and> x = summary_text v
    \<or> p = ''UNAVAILABLE'' \<and> x = None"
proof (cases v)
  case (JObj d)
  show ?thesis
  proof (cases "\<exists>t. jget d ''type'' = JStr t \<and> t \<noteq> []")
    case True
    with JObj assms show ?thesis
      by (auto simp: normalize_detail_def raw_text_def summary_text_def block_text_def detail_text_def
          RAW_DETAIL_TYPES_def SUMMARY_DETAIL_TYPES_def split: if_splits)
  next
    case False
    then have "normalize_detail v = untyped_detail d" using JObj by (auto simp: normalize_detail_def split: json.splits)
    with untyped_detail_cases[of d x p y] assms False JObj show ?thesis
      by (auto simp: raw_text_def summary_text_def block_text_def split: option.splits)
  qed
qed (use assms in \<open>simp_all add: normalize_detail_def\<close>)

definition texts_of :: "(json \<Rightarrow> pystr option) \<Rightarrow> json list \<Rightarrow> pystr list" where
  "texts_of f vs = concat (map (\<lambda>v. case f v of None \<Rightarrow> [] | Some t \<Rightarrow> [t]) vs)"

lemma texts_of_simps [simp]:
  "texts_of f [] = []"
  "texts_of f (v # vs) = (case f v of None \<Rightarrow> [] | Some t \<Rightarrow> [t]) @ texts_of f vs"
  by (simp_all add: texts_of_def)

lemma block_text_some: "block_text type key v = Some t \<Longrightarrow> strip t \<noteq> []"
  by (auto simp: block_text_def dest: nonblank_text_some split: json.splits if_splits)

lemma raw_text_some: "raw_text v = Some t \<Longrightarrow> strip t \<noteq> [] \<and> fst (snd (normalize_detail v)) = ''PROVIDER_EXPOSED_TRACE''"
  using block_text_some[of "''reasoning.text''" "''text''" v t]
  by (auto simp: raw_text_def block_text_def normalize_detail_def untyped_detail_def detail_text_def
      RAW_DETAIL_TYPES_def split: json.splits if_splits option.splits)

lemma summary_text_some: "summary_text v = Some t \<Longrightarrow> strip t \<noteq> []"
  by (simp add: summary_text_def block_text_some)

lemma raw_matches: "map (or_empty \<circ> fst) (matches_of ''PROVIDER_EXPOSED_TRACE'' (map normalize_detail ds)) = texts_of raw_text ds"
proof (induction ds)
  case (Cons v ds)
  obtain x p y where n: "normalize_detail v = (x, p, y)" by (cases "normalize_detail v")
  have "truthy (Some t)" if "strip t \<noteq> []" for t using that strip_empty by (auto simp: truthy_def)
  with normalize_detail_cases[OF n] raw_text_some[of v] strip_empty n Cons show ?case
    by (cases "raw_text v") (auto simp: matches_of_def truthy_def)
qed (simp add: matches_of_def)

lemma summary_matches:
  "texts_of raw_text ds = [] \<Longrightarrow>
   map (or_empty \<circ> fst) (matches_of ''AGENT_AUTHORED_SUMMARY'' (map normalize_detail ds)) = texts_of summary_text ds"
proof (induction ds)
  case (Cons v ds)
  obtain x p y where n: "normalize_detail v = (x, p, y)" by (cases "normalize_detail v")
  have raw: "raw_text v = None" "texts_of raw_text ds = []" using Cons.prems by (auto split: option.splits)
  have ear: "p = ''AGENT_AUTHORED_SUMMARY''" if "summary_text v = Some t" for t
    using that raw n by (auto simp: summary_text_def raw_text_def block_text_def normalize_detail_def untyped_detail_def
      detail_text_def RAW_DETAIL_TYPES_def SUMMARY_DETAIL_TYPES_def split: json.splits if_splits option.splits)
  from normalize_detail_cases[OF n] summary_text_some[of v] strip_empty ear n Cons.IH[OF raw(2)] show ?case
    by (cases "summary_text v") (auto simp: matches_of_def truthy_def)
qed (simp add: matches_of_def)

lemma best_extraction_blocks:
  "\<exists>y. best_extraction (map normalize_detail ds) =
     (if texts_of raw_text ds \<noteq> [] then (Some (join [CHR 0x0A] (texts_of raw_text ds)), ''PROVIDER_EXPOSED_TRACE'', y)
      else if texts_of summary_text ds \<noteq> [] then (Some (join [CHR 0x0A] (texts_of summary_text ds)), ''AGENT_AUTHORED_SUMMARY'', y)
      else (None, ''UNAVAILABLE'', y))"
  using raw_matches[of ds] summary_matches[of ds]
  by (auto simp: best_extraction_def Let_def joined_def)

lemma join_has: "w \<in> set ws \<Longrightarrow> set w \<subseteq> set (join sep ws)"
  by (induction sep ws rule: join.induct) auto

lemma texts_of_join:
  assumes "texts_of f vs \<noteq> []" "\<And>v t. f v = Some t \<Longrightarrow> strip t \<noteq> []"
  shows "strip (join sep (texts_of f vs)) \<noteq> []"
proof -
  obtain t where t: "t \<in> set (texts_of f vs)" using assms(1) by (cases "texts_of f vs") auto
  then have "strip t \<noteq> []" using assms(2) by (auto simp: texts_of_def split: option.splits)
  with join_has[OF t, of sep] show ?thesis by (auto simp: strip_Nil_iff)
qed

definition reasoning_keys :: "pystr list" where
  "reasoning_keys = RAW_REASONING_FIELDS @ [''reasoning_details'']"

lemma jget_filter: "P k \<Longrightarrow> jget (filter (\<lambda>kv. P (fst kv)) d) k = jget d k"
proof -
  assume "P k"
  then have "map_of (filter (\<lambda>kv. P (fst kv)) d) k = map_of d k" by (induction d) auto
  then show ?thesis by (simp add: jget_def)
qed

lemma extraction_local: "extract_reasoning (filter (\<lambda>kv. fst kv \<in> set reasoning_keys) m) = extract_reasoning m"
proof -
  have "jget (filter (\<lambda>kv. fst kv \<in> set reasoning_keys) m) k = jget m k" if "k \<in> set reasoning_keys" for k
    using jget_filter[of "\<lambda>k. k \<in> set reasoning_keys" k m] that by simp
  then show ?thesis
    by (simp add: extract_reasoning_def reasoning_keys_def RAW_REASONING_FIELDS_def)
qed

text \<open>Where a text of a given provenance was found.\<close>

definition earned :: "jobj \<Rightarrow> pystr \<Rightarrow> pystr \<Rightarrow> bool" where
  "earned m p t \<longleftrightarrow>
     (if p = ''PROVIDER_EXPOSED_TRACE'' then
        nonblank_text (jget m ''reasoning_content'') = Some t \<or> nonblank_text (jget m ''reasoning'') = Some t
        \<or> (case jget m ''reasoning_details'' of
             JArr ds \<Rightarrow> t = join [CHR 0x0A] (texts_of raw_text ds) | v \<Rightarrow> raw_text v = Some t)
      else
        p = ''AGENT_AUTHORED_SUMMARY'' \<and> nonblank_text (jget m ''reasoning_content'') = None \<and> nonblank_text (jget m ''reasoning'') = None
        \<and> (case jget m ''reasoning_details'' of
             JArr ds \<Rightarrow> texts_of raw_text ds = [] \<and> t = join [CHR 0x0A] (texts_of summary_text ds)
           | v \<Rightarrow> summary_text v = Some t))"

lemma details_earned:
  assumes "nonblank_text (jget m ''reasoning_content'') = None" "nonblank_text (jget m ''reasoning'') = None"
    "extract_reasoning m = (Some t, p, d)"
  shows "strip t \<noteq> [] \<and> earned m p t"
proof (cases "jget m ''reasoning_details''")
  case (JArr ds)
  with assms have "ds \<noteq> [] \<and> best_extraction (map normalize_detail ds) = (Some t, p, d)"
    by (auto simp: extract_reasoning_def RAW_REASONING_FIELDS_def split: if_splits)
  with best_extraction_blocks[of ds] texts_of_join[of raw_text ds "[CHR 0x0A]"] texts_of_join[of summary_text ds "[CHR 0x0A]"]
    raw_text_some summary_text_some assms JArr
  show ?thesis by (auto simp: earned_def split: if_splits)
next
  case (JObj o')
  with assms have "normalize_detail (JObj o') = (Some t, p, d)"
    by (auto simp: extract_reasoning_def RAW_REASONING_FIELDS_def split: if_splits)
  from normalize_detail_cases[OF this] raw_text_some summary_text_some assms JObj
  show ?thesis by (auto simp: earned_def)
qed (use assms in \<open>simp_all add: extract_reasoning_def RAW_REASONING_FIELDS_def\<close>)

lemma extraction_earned:
  assumes "extract_reasoning m = (Some t, p, d)" shows "strip t \<noteq> [] \<and> earned m p t"
proof (cases "nonblank_text (jget m ''reasoning_content'') = None \<and> nonblank_text (jget m ''reasoning'') = None")
  case False
  with assms have "p = ''PROVIDER_EXPOSED_TRACE''"
    "nonblank_text (jget m ''reasoning_content'') = Some t \<or> nonblank_text (jget m ''reasoning'') = Some t"
    by (auto simp: extract_reasoning_def RAW_REASONING_FIELDS_def split: if_splits)
  then show ?thesis using nonblank_text_some by (auto simp: earned_def)
qed (use assms details_earned in blast)

text \<open>
  C8: reasoning is never made up: it depends on the three reasoning fields of the message alone (not on its
  content), it is not blank, raw text comes from a raw field, from a block of the recognised raw type or
  from the \<open>text\<close> of a block that names no type, and a summary is labelled as one and taken only when there
  is no raw text; an encrypted or undocumented block contributes nothing. The block that names no type is
  a divergence: the documentation of \<open>_normalize_detail\<close> calls a recognised raw type the only source of a
  trace and untyped payloads unavailable, the code takes their \<open>text\<close> as a trace
  (\<open>untyped_text_is_a_trace\<close> below).
\<close>

theorem reasoning_provenance_is_earned:
  "extract_reasoning (filter (\<lambda>kv. fst kv \<in> set reasoning_keys) m) = extract_reasoning m
   \<and> (case extract_reasoning m of
        (None, p, d) \<Rightarrow> True
      | (Some t, p, d) \<Rightarrow> strip t \<noteq> [] \<and> earned m p t)"
  using extraction_local extraction_earned by (auto split: option.splits)

text \<open>An untyped block: its text is taken as a trace the provider exposed, its summary as a summary.\<close>

lemma untyped_text_is_a_trace:
  "nonblank_text (jget d ''text'') = Some t \<Longrightarrow> jget d ''type'' = JNull \<Longrightarrow>
   normalize_detail (JObj d) = (Some t, ''PROVIDER_EXPOSED_TRACE'', Some ''reasoning.text'')"
  by (simp add: normalize_detail_def untyped_detail_def detail_text_def)

text \<open>A typed object whose text is blank still has the provenance of a trace, with no text.\<close>

lemma blank_detail_keeps_provenance:
  "extract_reasoning [(''reasoning_details'', JObj [(''type'', JStr ''reasoning.text''), (''text'', JStr [])])]
     = (None, ''PROVIDER_EXPOSED_TRACE'', Some ''reasoning.text'')"
  by code_simp

section \<open>What a call sends, and what it returns\<close>

definition client_codes :: "pystr list" where
  "client_codes = [''PROVIDER_RATE_LIMIT'', ''PROVIDER_UNAVAILABLE'', ''PROVIDER_ERROR'', ''PROVIDER_TIMEOUT'', ''MALFORMED_RESPONSE'']"

text \<open>A result is a completion of the client's profile or an error with a documented code about its profile.\<close>

definition well_formed :: "profile \<Rightarrow> client_error + completion \<Rightarrow> bool" where
  "well_formed p r \<longleftrightarrow>
     (case r of
        Inl (Provider_error code text) \<Rightarrow> code \<in> set client_codes \<and> prefix (''Provider '' @ quoted (pf_name p)) text
      | Inl (Other_error e) \<Rightarrow> True
      | Inr c \<Rightarrow> co_profile c = pf_name p \<and> co_provenance c \<in> set VALID_PROVENANCES
          \<and> (co_model c = pf_model p \<or> co_model c \<noteq> []) \<and> (co_reasoning c = None \<or> co_provenance c \<noteq> ''UNAVAILABLE''))"

lemma said_well_formed: "code \<in> set client_codes \<Longrightarrow> well_formed p (Inl (provider_says p code what))"
  by (simp add: well_formed_def provider_says_def)

lemma malformed_well_formed: "well_formed p (Inl (malformed p what))"
  by (simp add: malformed_def said_well_formed client_codes_def)

lemma status_error_well_formed: "well_formed p (Inl (status_error p status))"
  by (simp add: status_error_def said_well_formed client_codes_def)

lemma extraction_known: "extract_reasoning m = (x, p, d) \<Longrightarrow> x = None \<or> p \<noteq> ''UNAVAILABLE''"
  using extraction_earned[of m] by (cases x) (auto simp: earned_def)

lemma parse_message_well_formed: "well_formed p (parse_message p data latency m)"
proof -
  obtain x q d where e: "extract_reasoning m = (x, q, d)" by (cases "extract_reasoning m")
  from extraction_known[OF e] e show ?thesis
    by (auto simp: parse_message_def Let_def malformed_well_formed well_formed_def[of _ "Inr _"]
        split: json.splits option.splits if_splits)
qed

lemma parse_well_formed: "well_formed p (parse_chat_response p body latency)"
  by (auto simp: parse_chat_response_def malformed_well_formed parse_message_well_formed well_formed_def[of _ "Inl (Other_error _)"]
      split: json.splits list.splits)

text \<open>What every attempt keeps: its events come after the others; a failure leaves the ledger as it was.\<close>

definition is_post :: "client_event \<Rightarrow> bool" where
  "is_post e = (case e of Posted _ \<Rightarrow> True | Slept _ \<Rightarrow> False)"

fun event_ok :: "client \<Rightarrow> (int \<Rightarrow> chat_request) \<Rightarrow> client_event \<Rightarrow> bool" where
  "event_ok cl rq (Posted r) \<longleftrightarrow> (\<exists>t. r = rq t \<and> t \<le> pf_timeout (cl_profile cl))"
| "event_ok cl rq (Slept d) \<longleftrightarrow> d \<le> cl_max cl"

definition adds :: "client \<Rightarrow> (int \<Rightarrow> chat_request) \<Rightarrow> nat \<Rightarrow> 'w calls \<Rightarrow> 'w calls \<Rightarrow> bool" where
  "adds cl rq n s s' \<longleftrightarrow>
     (\<exists>new. ca_events s' = ca_events s @ new \<and> length (filter is_post new) \<le> n \<and> list_all (event_ok cl rq) new)"

lemma adds_refl: "ca_events s' = ca_events s \<Longrightarrow> adds cl rq n s s'"
  by (simp add: adds_def)

lemma adds_trans: "adds cl rq n s t \<Longrightarrow> adds cl rq m t u \<Longrightarrow> adds cl rq (n + m) s u"
  unfolding adds_def by (elim exE conjE, rule exI[of _ "_ @ _"]) auto

lemma read_keeps:
  "read_now W s = (x, t) \<Longrightarrow> ca_events t = ca_events s \<and> ca_ledger t = ca_ledger s"
  "read_perf W s = (y, u) \<Longrightarrow> ca_events u = ca_events s \<and> ca_ledger u = ca_ledger s"
  by (auto simp: read_now_def read_perf_def split: prod.splits)

lemma overdue_keeps: "overdue W dl d s = (b, t) \<Longrightarrow> ca_events t = ca_events s \<and> ca_ledger t = ca_ledger s"
  by (auto simp: overdue_def split: option.splits prod.splits dest: read_keeps)

lemma limit_keeps:
  "time_limit W cl dl s = (x, t) \<Longrightarrow>
   ca_events t = ca_events s \<and> ca_ledger t = ca_ledger s \<and> (case x of None \<Rightarrow> True | Some l \<Rightarrow> l \<le> pf_timeout (cl_profile cl))"
  by (auto simp: time_limit_def Let_def split: option.splits prod.splits if_splits dest: read_keeps)

lemma pause_keeps:
  "pause W cl dl a shown s = (x, t) \<Longrightarrow>
   adds cl rq 0 s t \<and> ca_ledger t = ca_ledger s
   \<and> (case x of None \<Rightarrow> True | Some e \<Rightarrow> well_formed (cl_profile cl) (Inl e))"
  by (auto simp: pause_def sleep_for_def adds_def backoff_def is_post_def said_well_formed client_codes_def
      split: prod.splits bool.splits dest!: overdue_keeps)

definition charged :: "profile \<Rightarrow> client_error + completion \<Rightarrow> ledger \<Rightarrow> ledger \<Rightarrow> bool" where
  "charged p r l l' \<longleftrightarrow>
     (case r of
        Inl _ \<Rightarrow> l' = l
      | Inr c \<Rightarrow> if is_mock_profile (pf_name p) (pf_base_url p) then l' = l
                 else \<exists>now. l' = snd (record_completion (pf_name p) (JObj (co_usage c)) now l))"

lemma charged_Inl [simp]: "charged p (Inl e) l l' \<longleftrightarrow> l' = l"
  by (simp add: charged_def)

lemma record_charged:
  "ca_events (record_token_metering W p c s) = ca_events s
   \<and> charged p (Inr c) (ca_ledger s) (ca_ledger (record_token_metering W p c s))"
  by (auto simp: record_token_metering_def charged_def split: prod.splits)

lemma accept_keeps:
  assumes "accept W p body latency s = (r, t)"
  shows "ca_events t = ca_events s \<and> charged p r (ca_ledger s) (ca_ledger t) \<and> well_formed p r"
proof (cases body)
  case None
  with assms show ?thesis by (auto simp: accept_def malformed_well_formed)
next
  case (Some v)
  show ?thesis
  proof (cases "case v of JObj d \<Rightarrow> map_of d ''error'' \<noteq> None | _ \<Rightarrow> False")
    case True
    with assms Some show ?thesis by (auto simp: accept_def said_well_formed client_codes_def)
  next
    case False
    with assms Some have "(r, t) = (case parse_chat_response p v latency of Inl e \<Rightarrow> (Inl e, s) | Inr c \<Rightarrow> (Inr c, record_token_metering W p c s))"
      by (simp add: accept_def)
    with parse_well_formed[of p v latency] record_charged show ?thesis
      by (cases "parse_chat_response p v latency") auto
  qed
qed

definition call_ok ::
  "client \<Rightarrow> (int \<Rightarrow> chat_request) \<Rightarrow> nat \<Rightarrow> client_error + completion \<Rightarrow> 'w calls \<Rightarrow> 'w calls \<Rightarrow> bool" where
  "call_ok cl rq n r s t \<longleftrightarrow>
     adds cl rq n s t \<and> charged (cl_profile cl) r (ca_ledger s) (ca_ledger t) \<and> well_formed (cl_profile cl) r"

lemma post_adds:
  "post W (rq l) s = (x, t) \<Longrightarrow> l \<le> pf_timeout (cl_profile cl) \<Longrightarrow> adds cl rq 1 s t \<and> ca_ledger t = ca_ledger s"
  by (auto simp: post_def adds_def is_post_def split: prod.splits)

lemma adds_same: "adds cl rq n s t \<Longrightarrow> ca_events u = ca_events t \<Longrightarrow> adds cl rq n s u"
  by (simp add: adds_def)

lemma same_adds: "adds cl rq n t u \<Longrightarrow> ca_events t = ca_events s \<Longrightarrow> adds cl rq n s u"
  by (simp add: adds_def)

lemma attempt_keeps:
  assumes "attempt_once W cl (rq l) dl s = (x, t)" "l \<le> pf_timeout (cl_profile cl)"
  shows "adds cl rq 1 s t \<and> (case x of
      Finished r \<Rightarrow> charged (cl_profile cl) r (ca_ledger s) (ca_ledger t) \<and> well_formed (cl_profile cl) r
    | Try_again b e \<Rightarrow> ca_ledger t = ca_ledger s \<and> well_formed (cl_profile cl) (Inl e))"
proof -
  obtain t0 s1 where s1: "read_perf W s = (t0, s1)" by (cases "read_perf W s")
  obtain y s2 where s2: "post W (rq l) s1 = (y, s2)" by (cases "post W (rq l) s1")
  have base: "adds cl rq 1 s s2" "ca_ledger s2 = ca_ledger s"
    using post_adds[where rq = rq and l = l, OF s2 assms(2)] read_keeps(2)[OF s1] by (auto intro: same_adds)
  show ?thesis
  proof (cases y)
    case (Answer status body)
    obtain t1 s3 where s3: "read_perf W s2 = (t1, s3)" by (cases "read_perf W s2")
    obtain b s4 where s4: "overdue W dl 0 s3 = (b, s4)" by (cases "overdue W dl 0 s3")
    have four: "ca_events s4 = ca_events s2" "ca_ledger s4 = ca_ledger s"
      using read_keeps(2)[OF s3] overdue_keeps[OF s4] base by auto
    have adds4: "adds cl rq 1 s s4" using base(1) four(1) by (rule adds_same)
    obtain r s5 where s5: "accept W (cl_profile cl) body (t1 - t0) s4 = (r, s5)" by (cases "accept W (cl_profile cl) body (t1 - t0) s4")
    from accept_keeps[OF s5] four adds4 have five:
      "adds cl rq 1 s s5" "charged (cl_profile cl) r (ca_ledger s) (ca_ledger s5)" "well_formed (cl_profile cl) r"
      by (auto intro: adds_same)
    show ?thesis
      using assms(1) Answer s1 s2 s3 s4 s5 four adds4 five status_error_well_formed
      by (auto simp: attempt_once_def Let_def said_well_formed client_codes_def split: bool.splits if_splits)
  qed (use assms(1) s1 s2 base in \<open>auto simp: attempt_once_def Let_def said_well_formed client_codes_def well_formed_def[of _ "Inl (Other_error _)"]\<close>)
qed

lemma loop_keeps:
  "complete_loop W cl rq dl a s = (r, t) \<Longrightarrow> call_ok cl rq (Suc (nat (pf_max_retries (cl_profile cl)) - a)) r s t"
proof (induction W cl rq dl a s arbitrary: r t rule: complete_loop.induct)
  case (1 W cl rq dl a s)
  obtain l s1 where s1: "time_limit W cl dl s = (l, s1)" by (cases "time_limit W cl dl s")
  note k1 = limit_keeps[OF s1]
  show ?case
  proof (cases l)
    case None
    with 1(2) s1 k1 show ?thesis
      by (subst (asm) complete_loop.simps) (auto simp: call_ok_def said_well_formed client_codes_def intro: adds_refl)
  next
    case (Some lim)
    obtain x s2 where s2: "attempt_once W cl (rq lim) dl s1 = (x, s2)" by (cases "attempt_once W cl (rq lim) dl s1")
    have lim: "lim \<le> pf_timeout (cl_profile cl)" using k1 Some by simp
    note k2 = attempt_keeps[where rq = rq and l = lim, OF s2 lim]
    have a2: "adds cl rq 1 s s2" using k1 k2 by (auto intro: same_adds)
    show ?thesis
    proof (cases x)
      case (Finished y)
      have "adds cl rq (Suc (nat (pf_max_retries (cl_profile cl)) - a)) s s2" using a2 by (auto simp: adds_def)
      with 1(2) s1 s2 Some Finished k1 k2 show ?thesis
        by (subst (asm) complete_loop.simps) (auto simp: call_ok_def)
    next
      case (Try_again b e)
      show ?thesis
      proof (cases "a < nat (pf_max_retries (cl_profile cl))")
        case False
        have "adds cl rq (Suc (nat (pf_max_retries (cl_profile cl)) - a)) s s2" using a2 by (auto simp: adds_def)
        with 1(2) s1 s2 Some Try_again False k1 k2 show ?thesis
          by (subst (asm) complete_loop.simps) (auto simp: call_ok_def)
      next
        case True
        let ?shown = "if b then ''('' @ wi_fixed2 W (backoff cl a) @ ''s) '' else []"
        obtain y s3 where s3: "pause W cl dl a ?shown s2 = (y, s3)" by (cases "pause W cl dl a ?shown s2")
        note k3 = pause_keeps[OF s3, of rq]
        have a3: "adds cl rq (1 + 0) s s3" using a2 k3 by (blast intro: adds_trans)
        have led: "ca_ledger s3 = ca_ledger s" using k1 k2 k3 Try_again by simp
        show ?thesis
        proof (cases y)
          case (Some e')
          have "adds cl rq (Suc (nat (pf_max_retries (cl_profile cl)) - a)) s s3" using a3 by (auto simp: adds_def)
          with 1(2) s1 s2 s3 \<open>l = Some lim\<close> Try_again True Some k3 led show ?thesis
            by (subst (asm) complete_loop.simps) (auto simp: call_ok_def)
        next
          case None
          with 1(2) s1 s2 s3 \<open>l = Some lim\<close> Try_again True have "complete_loop W cl rq dl (Suc a) s3 = (r, t)"
            by (subst (asm) complete_loop.simps) simp
          with 1(1)[OF s1[symmetric] \<open>l = Some lim\<close> s2[symmetric] Try_again True s3[symmetric] None]
          have "call_ok cl rq (Suc (nat (pf_max_retries (cl_profile cl)) - Suc a)) r s3 t" by blast
          moreover have "1 + 0 + Suc (nat (pf_max_retries (cl_profile cl)) - Suc a) = Suc (nat (pf_max_retries (cl_profile cl)) - a)"
            using True by simp
          ultimately show ?thesis using a3 led unfolding call_ok_def by (metis adds_trans)
        qed
      qed
    qed
  qed
qed

lemma complete_keeps:
  "case complete W cl messages options request_timeout s of
     (r, t) \<Rightarrow>
       adds cl (\<lambda>l. \<lparr>rq_url = resolve_url (cl_profile cl), rq_headers = request_headers cl,
                    rq_payload = payload_of (cl_profile cl) messages options, rq_timeout = l\<rparr>)
         (Suc (nat (pf_max_retries (cl_profile cl)))) s t
       \<and> charged (cl_profile cl) r (ca_ledger s) (ca_ledger t) \<and> well_formed (cl_profile cl) r"
proof -
  obtain start s1 where s1: "read_now W s = (start, s1)" by (cases "read_now W s")
  let ?rq = "\<lambda>l. \<lparr>rq_url = resolve_url (cl_profile cl), rq_headers = request_headers cl,
                  rq_payload = payload_of (cl_profile cl) messages options, rq_timeout = l\<rparr>"
  let ?dl = "map_option (\<lambda>t. start + t) request_timeout"
  obtain r t where t: "complete_loop W cl ?rq ?dl 0 s1 = (r, t)" by (cases "complete_loop W cl ?rq ?dl 0 s1")
  from loop_keeps[OF t] read_keeps(1)[OF s1]
  have "adds cl ?rq (Suc (nat (pf_max_retries (cl_profile cl)))) s t"
    "charged (cl_profile cl) r (ca_ledger s) (ca_ledger t)" "well_formed (cl_profile cl) r"
    by (auto simp: call_ok_def intro: same_adds)
  then show ?thesis using s1 t by (simp add: complete_def Let_def)
qed

text \<open>
  A call of the client sends at most one request more than the profile's retries, all of them to the
  profile's address with the one payload and never with a longer timeout than the profile's, sleeps no
  longer than the largest pause, and charges the ledger for the usage of a completion and for nothing
  else.
\<close>

lemma client_calls_are_bounded:
  "case complete W cl messages options request_timeout s of
     (r, t) \<Rightarrow>
       adds cl (\<lambda>l. \<lparr>rq_url = resolve_url (cl_profile cl), rq_headers = request_headers cl,
                    rq_payload = payload_of (cl_profile cl) messages options, rq_timeout = l\<rparr>)
         (Suc (nat (pf_max_retries (cl_profile cl)))) s t
       \<and> charged (cl_profile cl) r (ca_ledger s) (ca_ledger t)"
  using complete_keeps[where W = W and cl = cl and messages = messages and options = options and request_timeout = request_timeout and s = s]
  by (auto split: prod.splits)

text \<open>
  C9: whatever a provider answers, a call ends with an error of a documented code whose text starts with
  the profile (or an exception that is not a ProviderError), or with a completion that satisfies its schema: the client's profile, a
  model, one of the valid provenance labels, and no reasoning text under the label of unavailable
  reasoning.
\<close>

theorem client_results_are_well_formed:
  "well_formed (cl_profile cl) (fst (complete W cl messages options request_timeout s))"
  using complete_keeps[where W = W and cl = cl and messages = messages and options = options and request_timeout = request_timeout and s = s]
  by (auto split: prod.splits)

end
