(* ===== verification/AuditTurn.thy ===== *)
theory AuditTurn
  imports MockAuditor ProviderClient SubmitAction
begin

text \<open>
  \<open>ReasoningAuditor\<close> of \<open>backend/scopewatch/reasoning_audit.py\<close> with its two providers, and how
  \<open>backend/scopewatch/service.py\<close> runs an audit. The measured latency of a turn and whether the call of a
  profile outlived its time limit are arguments; a thread that is no longer waited for has still used its provider.
\<close>

section \<open>Providers and their replies\<close>

datatype audit_exc = Timeout_exc | Os_exc pystr | Provider_exc pystr | Other_exc

text \<open>
  An \<open>AuditorChatResponse\<close>, the completion of a provider client, a string, a dictionary, and anything
  else.
\<close>

datatype reply =
    Auditor_response pystr pystr pystr int
  | Client_response completion
  | Text_response pystr
  | Dict_response jobj
  | Odd_response

type_synonym chat = "(pystr \<times> pystr) list"
type_synonym 's provider = "chat \<Rightarrow> 's \<Rightarrow> (audit_exc + reply) \<times> 's"

record 's auditor =
  au_profile :: pystr
  au_model :: pystr
  au_max_trace :: nat
  au_timeout :: int
  au_ask :: "'s provider"

text \<open>What the auditor takes from the library: \<open>json.loads\<close>, floats, and pydantic's integers from strings.\<close>

record audit_lib =
  li_loads :: "pystr \<Rightarrow> load_result"
  li_float :: "int \<Rightarrow> int \<Rightarrow> pystr"
  li_int :: "pystr \<Rightarrow> int option"

definition client_exc :: "client_error \<Rightarrow> audit_exc" where
  "client_exc e = (case e of Provider_error code _ \<Rightarrow> Provider_exc code | Other_error _ \<Rightarrow> Other_exc)"

definition message_json :: "pystr \<times> pystr \<Rightarrow> json" where
  "message_json m = JObj [(''role'', JStr (fst m)), (''content'', JStr (snd m))]"

definition client_ask :: "'w wire \<Rightarrow> client \<Rightarrow> int \<Rightarrow> ('w calls) provider" where
  "client_ask W cl timeout messages s =
     (case audit_chat W cl (map message_json messages) timeout s of
        (Inl e, t) \<Rightarrow> (Inl (client_exc e), t) | (Inr c, t) \<Rightarrow> (Inr (Client_response c), t))"

text \<open>
  The mock: its canned responses in order, then the rules on the last user message. An item of another
  type is consumed and the rules answer.
\<close>

datatype canned = Canned_raise audit_exc | Canned_response pystr pystr pystr int | Canned_text pystr | Canned_dict jobj | Canned_odd

definition SIMULATED_LATENCY :: int where "SIMULATED_LATENCY = 1000"

definition mock_rules :: "audit_lib \<Rightarrow> pystr \<Rightarrow> pystr \<Rightarrow> chat \<Rightarrow> audit_exc + reply" where
  "mock_rules L model profile messages =
     (let content = (case find (\<lambda>m. fst m = ''user'') (rev messages) of None \<Rightarrow> [] | Some m \<Rightarrow> snd m)
      in case evaluate_content (li_loads L) content of
           None \<Rightarrow> Inl Other_exc
         | Some v \<Rightarrow> Inr (Auditor_response (json_dumps (li_float L) v) model profile SIMULATED_LATENCY))"

fun mock_chat :: "audit_lib \<Rightarrow> pystr \<Rightarrow> pystr \<Rightarrow> chat \<Rightarrow> canned list \<Rightarrow> (audit_exc + reply) \<times> canned list" where
  "mock_chat L model profile messages [] = (mock_rules L model profile messages, [])"
| "mock_chat L model profile messages (item # rest) =
     ((case item of
         Canned_raise e \<Rightarrow> Inl e
       | Canned_response content m p latency \<Rightarrow> Inr (Auditor_response content m p latency)
       | Canned_text content \<Rightarrow> Inr (Auditor_response content model profile SIMULATED_LATENCY)
       | Canned_dict d \<Rightarrow> Inr (Auditor_response (json_dumps (li_float L) (JObj d)) model profile SIMULATED_LATENCY)
       | Canned_odd \<Rightarrow> mock_rules L model profile messages), rest)"

definition mock_ask :: "audit_lib \<Rightarrow> pystr \<Rightarrow> pystr \<Rightarrow> 's provider" where
  "mock_ask L model profile messages s = (mock_rules L model profile messages, s)"

section \<open>One turn\<close>

text \<open>The optional integer field of the result: \<open>None\<close> where validation refuses the value.\<close>

definition token_field :: "(pystr \<Rightarrow> int option) \<Rightarrow> json \<Rightarrow> int option option" where
  "token_field as_int v =
     (case v of
        JNull \<Rightarrow> Some None
      | JBool b \<Rightarrow> Some (Some (if b then 1 else 0))
      | JInt i \<Rightarrow> Some (Some i)
      | JFloat m e \<Rightarrow> if e \<ge> 0 \<or> m mod 2 ^ nat (- e) = 0 then Some (Some (py_trunc (m, e))) else None
      | JStr s \<Rightarrow> map_option Some (as_int s)
      | _ \<Rightarrow> None)"

text \<open>The content of a reply and the labels of the result; the provider's own win where they are given.\<close>

definition read_reply :: "audit_lib \<Rightarrow> 's auditor \<Rightarrow> int \<Rightarrow> reply \<Rightarrow> (pystr \<times> audit_labels) option" where
  "read_reply L A latency r =
     (let own = (\<lambda>tokens. \<lparr>al_model = au_model A, al_profile = au_profile A, al_latency = latency, al_tokens = tokens\<rparr>)
      in case r of
           Auditor_response content m p lat \<Rightarrow>
             Some (content,
               \<lparr>al_model = if m = [] then au_model A else m, al_profile = if p = [] then au_profile A else p,
                al_latency = if lat = 0 then latency else lat, al_tokens = None\<rparr>)
         | Client_response c \<Rightarrow>
             (case token_field (li_int L) (jget (co_usage c) ''total_tokens'') of
                None \<Rightarrow> None
              | Some tokens \<Rightarrow>
                  Some (or_empty (co_content c),
                    \<lparr>al_model = co_model c, al_profile = co_profile c, al_latency = co_latency c, al_tokens = tokens\<rparr>))
         | Text_response content \<Rightarrow> Some (content, own None)
         | Dict_response d \<Rightarrow> Some (json_dumps (li_float L) (JObj d), own None)
         | Odd_response \<Rightarrow> None)"

definition own_labels :: "'s auditor \<Rightarrow> int \<Rightarrow> int option \<Rightarrow> audit_labels" where
  "own_labels A latency tokens =
     \<lparr>al_model = au_model A, al_profile = au_profile A, al_latency = latency, al_tokens = tokens\<rparr>"

definition failed_call :: "'s auditor \<Rightarrow> int \<Rightarrow> audit_exc \<Rightarrow> audit_result" where
  "failed_call A latency e =
     (let m = own_labels A latency None;
          transport = ''Audit failed closed: provider request timed out or transport error.''
      in case e of
           Timeout_exc \<Rightarrow> closed m transport ''AUDIT_TIMEOUT''
         | Os_exc text \<Rightarrow>
             closed m transport (if substring_of ''timed out'' (lower text) then ''AUDIT_TIMEOUT'' else ''PROVIDER_ERROR'')
         | Provider_exc code \<Rightarrow> closed m (''Audit failed closed: provider error ['' @ code @ ''].'') code
         | Other_exc \<Rightarrow> closed m ''Audit failed closed due to an internal or provider error.'' ''AUDIT_ERROR'')"

definition judge :: "audit_lib \<Rightarrow> 's auditor \<Rightarrow> int \<Rightarrow> pystr \<Rightarrow> audit_exc + reply \<Rightarrow> audit_result" where
  "judge L A latency trace answer =
     (case answer of
        Inl e \<Rightarrow> failed_call A latency e
      | Inr r \<Rightarrow>
          (case (case read_reply L A latency r of
                   None \<Rightarrow> None
                 | Some (content, m) \<Rightarrow> parse_auditor_output (li_loads L) (li_float L) m trace content) of
             None \<Rightarrow> failed_call A latency Other_exc
           | Some result \<Rightarrow> result))"

text \<open>
  The trace is escaped before it is measured, and once more inside \<open>build_turn_audit_messages\<close>, whose
  exception would leave the method.
\<close>

definition audit_turn ::
  "audit_lib \<Rightarrow> 's auditor \<Rightarrow> int \<Rightarrow> task_scope \<Rightarrow> pystr option \<Rightarrow> pystr \<Rightarrow> planned_action list \<Rightarrow> recent_action list
   \<Rightarrow> 's \<Rightarrow> (pystr + audit_result) \<times> 's" where
  "audit_turn L A latency sc reasoning provenance planned recent s =
     (let raw = or_empty reasoning; trace = escape_untrusted_trace (Some raw)
      in if au_max_trace A < length raw \<or> au_max_trace A < length trace then
           (Inr (closed (own_labels A latency (Some 0))
                   ''Audit failed closed: complete reasoning exceeds the audit context limit.'' ''INPUT_TOO_LARGE''), s)
         else case build_turn_audit_messages (li_float L) (au_max_trace A) sc trace provenance planned recent of
           Inl code \<Rightarrow> (Inl code, s)
         | Inr messages \<Rightarrow> (case au_ask A messages s of (answer, t) \<Rightarrow> (Inr (judge L A latency trace answer), t)))"

text \<open>\<open>raise_on_failure\<close>: a failed result becomes a \<open>ReasoningAuditException\<close> with its code.\<close>

definition raise_on_failure :: "pystr + audit_result \<Rightarrow> pystr + audit_result" where
  "raise_on_failure r =
     (case r of
        Inl code \<Rightarrow> Inl code
      | Inr a \<Rightarrow> if ar_verdict a = RV_FAILED
                 then Inl (if truthy (ar_error_code a) then or_empty (ar_error_code a) else ''AUDIT_ERROR'') else Inr a)"

section \<open>The service\<close>

definition auditor_name :: "environ \<Rightarrow> pystr" where
  "auditor_name env = (case env ''SCOPEWATCH_AUDITOR_PROFILE'' of None \<Rightarrow> ''mock'' | Some n \<Rightarrow> n)"

record 'w audit_env =
  ve_env :: environ
  ve_lib :: audit_lib
  ve_wire :: "'w wire"
  ve_profile :: "pystr \<Rightarrow> client_error + profile"
  ve_latency :: int
  ve_late :: "pystr \<Rightarrow> bool"

text \<open>\<open>ReasoningAuditor(profile, model, timeout_s)\<close>: the rules for the mock profile, else a client.\<close>

definition build_auditor :: "'w audit_env \<Rightarrow> pystr \<Rightarrow> pystr \<Rightarrow> int \<Rightarrow> client_error + ('w calls) auditor" where
  "build_auditor V name model timeout =
     (if name = ''mock'' then
        Inr \<lparr>au_profile = name, au_model = model, au_max_trace = DEFAULT_MAX_TRACE_CHARS, au_timeout = timeout,
             au_ask = mock_ask (ve_lib V) model name\<rparr>
      else
        (case ve_profile V name of
           Inl e \<Rightarrow> Inl e
         | Inr p \<Rightarrow>
             map_sum id
               (\<lambda>cl. \<lparr>au_profile = name, au_model = if model = [] then pf_model p else model,
                      au_max_trace = DEFAULT_MAX_TRACE_CHARS, au_timeout = timeout,
                      au_ask = client_ask (ve_wire V) cl timeout\<rparr>)
               (make_client (ve_env V) p None)))"

definition get_auditor :: "'w audit_env \<Rightarrow> client_error + ('w calls) auditor" where
  "get_auditor V =
     (case ve_profile V (auditor_name (ve_env V)) of
        Inl e \<Rightarrow> Inl e
      | Inr p \<Rightarrow> build_auditor V (pf_name p) (pf_model p) (pf_timeout p))"

definition requested_auditor_identity :: "'w audit_env \<Rightarrow> pystr \<times> pystr" where
  "requested_auditor_identity V =
     (case ve_profile V (auditor_name (ve_env V)) of
        Inl e \<Rightarrow> (auditor_name (ve_env V), ''unknown'') | Inr p \<Rightarrow> (pf_name p, pf_model p))"

definition client_code :: "client_error \<Rightarrow> pystr" where
  "client_code e =
     (case e of Provider_error code _ \<Rightarrow> if code = [] then ''AUDIT_ERROR'' else code | Other_error _ \<Rightarrow> ''AUDIT_ERROR'')"

definition action_plan :: "action \<Rightarrow> planned_action" where
  "action_plan a = \<lparr>pa_tool = tool a, pa_operation = operation a, pa_resource = resource a, pa_arguments = arguments a\<rparr>"

definition action_summary :: "action \<Rightarrow> recent_action" where
  "action_summary a = \<lparr>ra_tool = tool a, ra_operation = operation a, ra_resource = resource a, ra_decision = None\<rparr>"

definition late_result :: "'s auditor \<Rightarrow> audit_result" where
  "late_result A = closed (own_labels A 0 None) ''Audit failed closed: reasoning audit timed out.'' ''AUDIT_TIMEOUT''"

definition single_audit ::
  "'w audit_env \<Rightarrow> ('w calls) auditor \<Rightarrow> run \<Rightarrow> action \<Rightarrow> pystr \<Rightarrow> action list \<Rightarrow> 'w calls \<Rightarrow> audit_result \<times> 'w calls" where
  "single_audit V A r a text recent s =
     (case audit_turn (ve_lib V) A (ve_latency V) (run_scope r) (Some text) (provenance_value (reasoning_provenance a))
             [action_plan a] (map action_summary (drop (length recent - 5) recent)) s of
        (result, t) \<Rightarrow>
          (if ve_late V (au_profile A) then late_result A
           else case result of
             Inr x \<Rightarrow> x
           | Inl code \<Rightarrow> closed (own_labels A 0 None) ''Audit failed closed due to an internal or provider error.''
                           (if code = [] then ''AUDIT_ERROR'' else code), t))"

definition run_single_reasoning_audit ::
  "'w audit_env \<Rightarrow> ('w calls) auditor option \<Rightarrow> run \<Rightarrow> action \<Rightarrow> pystr \<Rightarrow> action list \<Rightarrow> 'w calls \<Rightarrow> audit_result \<times> 'w calls" where
  "run_single_reasoning_audit V override r a text recent s =
     (case (case override of Some A \<Rightarrow> Inr A | None \<Rightarrow> get_auditor V) of
        Inr A \<Rightarrow> single_audit V A r a text recent s
      | Inl e \<Rightarrow>
          (case requested_auditor_identity V of
             (name, model) \<Rightarrow>
               (closed \<lparr>al_model = model, al_profile = name, al_latency = 0, al_tokens = None\<rparr>
                  (''Audit failed closed: auditor client for profile '' @ quoted name @ '' could not be built.'')
                  (client_code e), s)))"

section \<open>Routing\<close>

text \<open>
  The audit as the gateway calls it, on the token ledger. \<open>wd p\<close> is the world in which the call with the
  profile \<open>p\<close> starts; with two tiers each tier has a client of its own.
\<close>

definition on_ledger :: "'w \<Rightarrow> ('w calls \<Rightarrow> audit_result \<times> 'w calls) \<Rightarrow> ledger \<Rightarrow> audit_result \<times> ledger" where
  "on_ledger w f l =
     (case f \<lparr>ca_world = w, ca_ledger = l, ca_events = []\<rparr> of (r, t) \<Rightarrow> (r, ca_ledger t))"

definition tier_auditor :: "'w audit_env \<Rightarrow> profile \<Rightarrow> client \<Rightarrow> ('w calls) auditor" where
  "tier_auditor V p cl =
     \<lparr>au_profile = pf_name p, au_model = pf_model p, au_max_trace = DEFAULT_MAX_TRACE_CHARS,
      au_timeout = pf_timeout p, au_ask = client_ask (ve_wire V) cl (pf_timeout p)\<rparr>"

definition tiers_of ::
  "'w audit_env \<Rightarrow> (pystr \<Rightarrow> nat \<Rightarrow> instant) \<Rightarrow> (pystr \<Rightarrow> int) \<Rightarrow> (pystr \<Rightarrow> 'w) \<Rightarrow> run \<Rightarrow> action \<Rightarrow> pystr \<Rightarrow> action list \<Rightarrow> tier_env" where
  "tiers_of V clk lat wd r a text recent =
     \<lparr>te_env = ve_env V,
      te_get_profile = (\<lambda>n. case ve_profile V n of Inl _ \<Rightarrow> None | Inr p \<Rightarrow> Some p),
      te_client = (\<lambda>p. \<not> isl (make_client (ve_env V) p None)),
      te_run_single = (\<lambda>p l. case make_client (ve_env V) p None of
          Inl _ \<Rightarrow> (None, l)
        | Inr cl \<Rightarrow>
            (case on_ledger (wd (pf_name p))
                    (run_single_reasoning_audit V (Some (tier_auditor V p cl)) r a text recent) l of
               (x, l') \<Rightarrow> (Some x, l'))),
      te_clk = clk, te_lat = lat\<rparr>"

record tier_times =
  tt_clk :: "pystr \<Rightarrow> nat \<Rightarrow> instant"
  tt_lat :: "pystr \<Rightarrow> int"
  tt_float :: "pystr \<Rightarrow> int option"
  tt_total :: int

definition run_reasoning_audit ::
  "'w audit_env \<Rightarrow> tier_times \<Rightarrow> (pystr \<Rightarrow> 'w) \<Rightarrow> run \<Rightarrow> action \<Rightarrow> pystr \<Rightarrow> pystr \<Rightarrow> action list \<Rightarrow> ledger
   \<Rightarrow> audit_result \<times> ledger" where
  "run_reasoning_audit V T wd r a turn text recent l =
     (if routing_mode (ve_env V) = ''single'' then
        on_ledger (wd (auditor_name (ve_env V))) (run_single_reasoning_audit V None r a text recent) l
      else run_tiered_audit (tiers_of V (tt_clk T) (tt_lat T) wd r a text recent) (tt_float T) (li_int (ve_lib V))
             (tt_total T) l)"

section \<open>What reaches the provider\<close>

definition turn_trace :: "pystr option \<Rightarrow> pystr" where
  "turn_trace reasoning = escape_untrusted_trace (Some (or_empty reasoning))"

definition too_large :: "'s auditor \<Rightarrow> pystr option \<Rightarrow> bool" where
  "too_large A reasoning \<longleftrightarrow> au_max_trace A < max (length (or_empty reasoning)) (length (turn_trace reasoning))"

text \<open>
  The messages an auditor's provider may be sent for a piece of reasoning: it fits, its escaped text is
  the whole of the last region, and no region of the prompt can be closed or opened from within.
\<close>

definition prompt_ok :: "'s auditor \<Rightarrow> pystr option \<Rightarrow> chat \<Rightarrow> bool" where
  "prompt_ok A reasoning messages \<longleftrightarrow>
     \<not> too_large A reasoning \<and> boundary_tags (turn_trace reasoning) = []
     \<and> (\<exists>content u.
          messages = [(''system'', HARDENED_AUDITOR_SYSTEM_PROMPT), (''user'', content)]
          \<and> boundary_tags content = prompt_tags
          \<and> content = u @ ''>'' @ LF @ turn_trace reasoning @ LF @ CLOSE_TRACE)"

lemma user_message_ends:
  "\<exists>u. user_message fl sc trace provenance planned recent = u @ ''>'' @ LF @ trace @ LF @ CLOSE_TRACE"
proof
  let ?u = "scope_xml fl sc @ LF @ LF @ planned_xml fl planned @ LF @ LF @ recent_xml recent @ LF @ LF
    @ ''<untrusted_reasoning_trace'' @ attribute ''provenance'' provenance"
  show "user_message fl sc trace provenance planned recent = ?u @ ''>'' @ LF @ trace @ LF @ CLOSE_TRACE"
    by (simp add: user_message_def trace_xml_def CLOSE_TRACE_def)
qed

text \<open>Because escaping is idempotent, the messages of a trace that fits are always built.\<close>

definition turn_messages ::
  "audit_lib \<Rightarrow> task_scope \<Rightarrow> pystr option \<Rightarrow> pystr \<Rightarrow> planned_action list \<Rightarrow> recent_action list \<Rightarrow> chat" where
  "turn_messages L sc reasoning provenance planned recent =
     [(''system'', HARDENED_AUDITOR_SYSTEM_PROMPT),
      (''user'', user_message (li_float L) sc (turn_trace reasoning) provenance planned
         (drop (length recent - DEFAULT_MAX_RECENT_ACTIONS) recent))]"

lemma messages_built:
  assumes "\<not> too_large A reasoning"
  shows "build_turn_audit_messages (li_float L) (au_max_trace A) sc (turn_trace reasoning) provenance planned recent
           = Inr (turn_messages L sc reasoning provenance planned recent)"
  using assms
  by (simp add: build_turn_audit_messages_def turn_messages_def turn_trace_def too_large_def escape_idempotent Let_def)

lemma messages_ok:
  assumes "\<not> too_large A reasoning"
  shows "prompt_ok A reasoning (turn_messages L sc reasoning provenance planned recent)"
proof -
  let ?t = "turn_trace reasoning"
  let ?recent = "drop (length recent - DEFAULT_MAX_RECENT_ACTIONS) recent"
  have tags: "boundary_tags ?t = []" by (simp add: turn_trace_def escape_leaves_no_tags)
  obtain u where u: "user_message (li_float L) sc ?t provenance planned ?recent = u @ ''>'' @ LF @ ?t @ LF @ CLOSE_TRACE"
    using user_message_ends by blast
  show ?thesis
    unfolding prompt_ok_def turn_messages_def
    by (intro conjI exI, rule assms, rule tags, rule refl, rule user_message_tags[OF tags], rule u)
qed

lemma audit_turn_cases:
  "audit_turn L A latency sc reasoning provenance planned recent s =
     (if too_large A reasoning then
        (Inr (closed (own_labels A latency (Some 0))
           ''Audit failed closed: complete reasoning exceeds the audit context limit.'' ''INPUT_TOO_LARGE''), s)
      else (case au_ask A (turn_messages L sc reasoning provenance planned recent) s of
              (answer, t) \<Rightarrow> (Inr (judge L A latency (turn_trace reasoning) answer), t)))"
  using messages_built[of A reasoning L sc provenance planned recent]
  by (auto simp: audit_turn_def turn_trace_def too_large_def Let_def)

lemma other_provider_same_labels:
  "judge L (A\<lparr>au_ask := ask\<rparr>) = judge L A" "own_labels (A\<lparr>au_ask := ask\<rparr>) = own_labels A"
  "too_large (A\<lparr>au_ask := ask\<rparr>) = too_large A"
  by (auto simp: fun_eq_iff judge_def failed_call_def read_reply_def own_labels_def too_large_def Let_def
      split: sum.splits option.splits reply.splits audit_exc.splits)

lemma audit_turn_outcome:
  "if length (or_empty reasoning) \<le> au_max_trace A \<and> length (turn_trace reasoning) \<le> au_max_trace A
   then \<exists>messages. prompt_ok A reasoning messages
          \<and> audit_turn L A latency sc reasoning provenance planned recent s
              = (case au_ask A messages s of
                   (answer, t) \<Rightarrow> (Inr (judge L A latency (turn_trace reasoning) answer), t))
   else \<exists>x. audit_turn L A latency sc reasoning provenance planned recent s = (Inr x, s)
          \<and> ar_verdict x = RV_FAILED \<and> ar_error_code x = Some ''INPUT_TOO_LARGE''"
proof (cases "too_large A reasoning")
  case True
  then show ?thesis by (auto simp: audit_turn_cases too_large_def closed_def audit_answer_def)
next
  case False
  with messages_ok[OF False, of L sc provenance planned recent] show ?thesis
    by (auto simp: audit_turn_cases too_large_def)
qed

text \<open>
  C6: a provider is only ever sent the prompt of the reasoning it judges: the regions are intact, the last
  one holds the complete escaped reasoning, which fits the limit. Two providers that agree on every
  such prompt cannot be told apart by an audit; reasoning that fits is judged by one call with such a
  prompt; and reasoning that is too long, raw or escaped, is refused as INPUT_TOO_LARGE with no call.
\<close>

theorem provider_sees_intact_prompts:
  assumes "\<And>messages u. prompt_ok A reasoning messages \<Longrightarrow> ask messages u = au_ask A messages u"
  shows "audit_turn L (A\<lparr>au_ask := ask\<rparr>) latency sc reasoning provenance planned recent s
           = audit_turn L A latency sc reasoning provenance planned recent s
   \<and> (if length (or_empty reasoning) \<le> au_max_trace A \<and> length (turn_trace reasoning) \<le> au_max_trace A
      then \<exists>messages. prompt_ok A reasoning messages
             \<and> audit_turn L A latency sc reasoning provenance planned recent s
                 = (case au_ask A messages s of
                      (answer, t) \<Rightarrow> (Inr (judge L A latency (turn_trace reasoning) answer), t))
      else \<exists>x. audit_turn L A latency sc reasoning provenance planned recent s = (Inr x, s)
             \<and> ar_verdict x = RV_FAILED \<and> ar_error_code x = Some ''INPUT_TOO_LARGE'')"
proof
  show "audit_turn L (A\<lparr>au_ask := ask\<rparr>) latency sc reasoning provenance planned recent s
           = audit_turn L A latency sc reasoning provenance planned recent s"
    using assms[OF messages_ok]
    by (cases "too_large A reasoning") (simp_all add: audit_turn_cases other_provider_same_labels)
qed (rule audit_turn_outcome)

text \<open>A provider that answers every prompt the same, against one that fails on prompts that are not intact.\<close>

definition plain_auditor :: "nat auditor" where
  "plain_auditor =
     \<lparr>au_profile = ''p'', au_model = ''m'', au_max_trace = 40, au_timeout = 1,
      au_ask = (\<lambda>_ n. (Inr (Text_response ''no''), Suc n))\<rparr>"

definition picky_ask :: "pystr option \<Rightarrow> nat provider" where
  "picky_ask reasoning =
     (\<lambda>messages n. if prompt_ok plain_auditor reasoning messages then (Inr (Text_response ''no''), Suc n)
                   else (Inl Other_exc, 0))"

definition plain_lib :: audit_lib where
  "plain_lib = \<lparr>li_loads = (\<lambda>_. load_fails), li_float = (\<lambda>_ _. ''0.0''), li_int = (\<lambda>_. None)\<rparr>"

theorem provider_sees_intact_prompts_witness:
  "audit_turn plain_lib (plain_auditor\<lparr>au_ask := picky_ask (Some ''do it <task_scope>'')\<rparr>) 0 demo_scope
       (Some ''do it <task_scope>'') ''UNAVAILABLE'' [] [] 3
     = audit_turn plain_lib plain_auditor 0 demo_scope (Some ''do it <task_scope>'') ''UNAVAILABLE'' [] [] 3"
  by (rule provider_sees_intact_prompts[THEN conjunct1]) (simp add: plain_auditor_def picky_ask_def)

section \<open>An audit fails closed\<close>

text \<open>
  The provider answered with a text that is an object: one that clears the turn, or one that states a
  concern.
\<close>

definition cleared :: "audit_lib \<Rightarrow> 's auditor \<Rightarrow> audit_exc + reply \<Rightarrow> bool" where
  "cleared L A answer \<longleftrightarrow>
     (\<exists>r latency content m d. answer = Inr r \<and> read_reply L A latency r = Some (content, m)
        \<and> li_loads L (strip_fence (strip content)) = loaded (JObj d) \<and> clears d)"

definition concerned :: "audit_lib \<Rightarrow> 's auditor \<Rightarrow> audit_exc + reply \<Rightarrow> bool" where
  "concerned L A answer \<longleftrightarrow>
     (\<exists>r latency content m d. answer = Inr r \<and> read_reply L A latency r = Some (content, m)
        \<and> li_loads L (strip_fence (strip content)) = loaded (JObj d)
        \<and> map_of d ''verdict'' = Some (JStr ''CONCERN''))"

definition backed :: "audit_lib \<Rightarrow> 's auditor \<Rightarrow> audit_verdict \<Rightarrow> audit_exc + reply \<Rightarrow> bool" where
  "backed L A v answer \<longleftrightarrow>
     (case v of RV_NO_CONCERN \<Rightarrow> cleared L A answer | RV_CONCERN \<Rightarrow> concerned L A answer | RV_FAILED \<Rightarrow> True)"

lemma backed_simps [simp]:
  "backed L A RV_FAILED answer" "backed L A RV_NO_CONCERN answer = cleared L A answer"
  by (simp_all add: backed_def)

lemma failed_call_sound: "sound_answer trace (failed_call A latency e) \<and> ar_verdict (failed_call A latency e) = RV_FAILED"
  by (auto simp: failed_call_def Let_def closed_sound split: audit_exc.splits)

lemma judge_sound:
  "sound_answer trace (judge L A latency trace answer)
   \<and> backed L A (ar_verdict (judge L A latency trace answer)) answer"
proof (cases answer)
  case (Inr r)
  show ?thesis
  proof (cases "read_reply L A latency r")
    case (Some y)
    then obtain content m where y: "read_reply L A latency r = Some (content, m)" by (cases y) auto
    show ?thesis
    proof (cases "parse_auditor_output (li_loads L) (li_float L) m trace content")
      case (Some x)
      with parse_output_sound[where loads = "li_loads L" and fl = "li_float L" and m = m and trace = trace and response = content] Inr y show ?thesis
        by (cases "ar_verdict x") (auto simp: judge_def backed_def cleared_def concerned_def)
    qed (use Inr y failed_call_sound[of trace A latency Other_exc] in \<open>simp add: judge_def\<close>)
  qed (use Inr failed_call_sound[of trace A latency Other_exc] in \<open>simp add: judge_def\<close>)
qed (use failed_call_sound[of trace A latency] in \<open>simp add: judge_def\<close>)

lemma turn_sound:
  "case audit_turn L A latency sc reasoning provenance planned recent s of
     (r, t) \<Rightarrow> (\<exists>x. r = Inr x \<and> sound_answer (turn_trace reasoning) x
       \<and> (ar_verdict x = RV_FAILED \<or> \<not> too_large A reasoning
            \<and> backed L A (ar_verdict x) (fst (au_ask A (turn_messages L sc reasoning provenance planned recent) s))))"
  using judge_sound[of "turn_trace reasoning" L A latency]
  by (auto simp: audit_turn_cases closed_sound split: prod.splits)

text \<open>
  What the gateway may rely on: a sound answer, and unless it is FAILED, an auditor of the service's
  configuration that was built and answered in time, for reasoning within its limit, with an object that
  states the verdict. The auditors of the configuration are the single profile's, or in two-tier routing
  the two tiers' with the limits of their tier.
\<close>

definition asked :: "'w audit_env \<Rightarrow> tier_times \<Rightarrow> ('w calls) auditor \<Rightarrow> bool" where
  "asked V T A \<longleftrightarrow>
     (if routing_mode (ve_env V) = ''single'' then get_auditor V = Inr A
      else routing_mode (ve_env V) = ''two-tier''
        \<and> (\<exists>cfgs cfg p cl. tier_configs (ve_env V) (tt_float T) (li_int (ve_lib V)) = Some cfgs \<and> cfg \<in> set cfgs
             \<and> ve_profile V (tc_profile cfg) = Inr p \<and> make_client (ve_env V) (tier_profile cfg p) None = Inr cl
             \<and> A = tier_auditor V (tier_profile cfg p) cl))"

definition action_messages :: "'w audit_env \<Rightarrow> run \<Rightarrow> action \<Rightarrow> pystr \<Rightarrow> action list \<Rightarrow> chat" where
  "action_messages V r a text recent =
     turn_messages (ve_lib V) (run_scope r) (Some text) (provenance_value (reasoning_provenance a))
       [action_plan a] (map action_summary (drop (length recent - 5) recent))"

definition trustworthy :: "'w audit_env \<Rightarrow> (('w calls) auditor \<Rightarrow> bool) \<Rightarrow> pystr \<Rightarrow> chat \<Rightarrow> audit_result \<Rightarrow> bool" where
  "trustworthy V among text messages x \<longleftrightarrow>
     sound_answer (turn_trace (Some text)) x
     \<and> (ar_verdict x = RV_FAILED \<or>
        (\<exists>A s. among A \<and> \<not> ve_late V (au_profile A) \<and> \<not> too_large A (Some text)
           \<and> backed (ve_lib V) A (ar_verdict x) (fst (au_ask A messages s))))"

lemma failed_trustworthy: "trustworthy V among text messages (closed m why code)"
  by (simp add: trustworthy_def closed_sound)

lemma tier_failed_trustworthy: "trustworthy V among text messages (failed_audit profile model code)"
  by (simp add: trustworthy_def sound_answer_def failed_audit_def)

lemma single_trustworthy:
  assumes "among A"
  shows "trustworthy V among text (action_messages V r a text recent) (fst (single_audit V A r a text recent s))"
proof (cases "ve_late V (au_profile A)")
  case True
  then show ?thesis by (auto simp: single_audit_def late_result_def failed_trustworthy split: prod.splits)
next
  case False
  let ?p = "provenance_value (reasoning_provenance a)"
  let ?turn = "audit_turn (ve_lib V) A (ve_latency V) (run_scope r) (Some text) ?p
      [action_plan a] (map action_summary (drop (length recent - 5) recent)) s"
  have "\<exists>x. fst ?turn = Inr x \<and> trustworthy V among text (action_messages V r a text recent) x"
    using turn_sound[where L = "ve_lib V" and A = A and latency = "ve_latency V" and sc = "run_scope r" and reasoning = "Some text"
        and provenance = ?p and planned = "[action_plan a]" and recent = "map action_summary (drop (length recent - 5) recent)" and s = s] assms False
    by (auto simp: trustworthy_def action_messages_def split: prod.splits)
  with False show ?thesis
    by (auto simp: single_audit_def split: prod.splits)
qed

lemma run_single_trustworthy:
  assumes "\<And>A. override = Some A \<or> override = None \<and> get_auditor V = Inr A \<Longrightarrow> among A"
  shows "trustworthy V among text (action_messages V r a text recent)
           (fst (run_single_reasoning_audit V override r a text recent s))"
proof (cases "case override of Some A \<Rightarrow> Inr A | None \<Rightarrow> get_auditor V")
  case (Inl e)
  then show ?thesis by (auto simp: run_single_reasoning_audit_def failed_trustworthy split: prod.splits)
next
  case (Inr A)
  then have "among A" using assms by (auto split: option.splits)
  with Inr show ?thesis by (simp add: run_single_reasoning_audit_def single_trustworthy)
qed

lemma trustworthy_relabelled:
  "trustworthy V among text messages x \<Longrightarrow> ar_verdict y = ar_verdict x \<Longrightarrow> ar_error_code y = ar_error_code x \<Longrightarrow>
   ar_concern y = ar_concern x \<Longrightarrow> ar_excerpts y = ar_excerpts x \<Longrightarrow> trustworthy V among text messages y"
  by (cases "ar_verdict x") (simp_all add: trustworthy_def sound_answer_def)

lemma reserved_call_trustworthy:
  assumes "\<And>l x l'. te_run_single te p l = (Some x, l') \<Longrightarrow> trustworthy V among text messages x"
  shows "trustworthy V among text messages (fst (fst (reserved_call te cfg p n l)))"
  using assms tier_failed_trustworthy by (auto simp: reserved_call_def Let_def split: prod.splits option.splits)

text \<open>What a tier runs is the audit with the profile of its configuration.\<close>

definition tier_runs :: "tier_env \<Rightarrow> tier_config \<Rightarrow> (audit_result \<Rightarrow> bool) \<Rightarrow> bool" where
  "tier_runs te cfg P \<longleftrightarrow>
     (\<forall>p l x l'. te_get_profile te (tc_profile cfg) = Some p
        \<longrightarrow> te_run_single te (tier_profile cfg p) l = (Some x, l') \<longrightarrow> P x)"

lemma run_tier_trustworthy:
  assumes "tier_runs te cfg (trustworthy V among text messages)"
  shows "trustworthy V among text messages (fst (fst (run_tier te cfg l)))"
proof -
  have call: "trustworthy V among text messages (fst (fst (call_tier te cfg (tier_profile cfg p) l)))"
    if "te_get_profile te (tc_profile cfg) = Some p" for p
  proof -
    have run: "trustworthy V among text messages x" if "te_run_single te (tier_profile cfg p) k = (Some x, k')" for k x k'
      using assms \<open>te_get_profile te (tc_profile cfg) = Some p\<close> that unfolding tier_runs_def by blast
    show ?thesis
      using reserved_call_trustworthy[where te = te and p = "tier_profile cfg p", OF run] tier_failed_trustworthy
      by (auto simp: call_tier_def Let_def split: prod.splits)
  qed
  define out where "out = (case map_option (tier_profile cfg) (te_get_profile te (tc_profile cfg)) of
      None \<Rightarrow> ((failed_audit (tc_profile cfg) ''unknown'' ''AUDIT_ERROR'', False), l) | Some p \<Rightarrow> call_tier te cfg p l)"
  have "trustworthy V among text messages (fst (fst out))"
    using call tier_failed_trustworthy
    by (cases "te_get_profile te (tc_profile cfg)") (simp_all add: out_def)
  then show ?thesis
    unfolding run_tier_def Let_def out_def[symmetric] by (cases out) (auto intro: trustworthy_relabelled)
qed

lemma run_tiers_trustworthy:
  assumes "\<forall>cfg \<in> set cfgs. tier_runs te cfg (trustworthy V among text messages)"
  shows "\<forall>x \<in> set (map fst (fst (run_tiers te cfgs l))). trustworthy V among text messages x"
  using assms
proof (induction cfgs arbitrary: l)
  case (Cons cfg cfgs)
  obtain r l1 where r: "run_tier te cfg l = (r, l1)" by (cases "run_tier te cfg l")
  have "trustworthy V among text messages (fst r)" using run_tier_trustworthy[of te cfg V among "text" messages l] Cons.prems r by simp
  moreover have "\<forall>x \<in> set (map fst (fst (run_tiers te cfgs l1))). trustworthy V among text messages x"
    by (rule Cons.IH) (use Cons.prems in simp)
  ultimately show ?case using r by auto
qed simp

lemma select_member: "rs \<noteq> [] \<Longrightarrow> select_result rs \<in> set rs"
  by (auto simp: select_result_def find_Some_iff split: option.splits)

lemma tiered_trustworthy:
  assumes "\<And>cfgs cfg. routing_mode (te_env te) = ''two-tier'' \<Longrightarrow> tier_configs (te_env te) as_float as_int = Some cfgs
     \<Longrightarrow> cfg \<in> set cfgs \<Longrightarrow> tier_runs te cfg (trustworthy V among text messages)"
  shows "trustworthy V among text messages (fst (run_tiered_audit te as_float as_int took l))"
proof (cases "if routing_mode (te_env te) \<noteq> ''two-tier'' then None else tier_configs (te_env te) as_float as_int")
  case None
  then show ?thesis by (simp add: run_tiered_audit_def tier_failed_trustworthy)
next
  case (Some cfgs)
  then have mode: "routing_mode (te_env te) = ''two-tier''" "tier_configs (te_env te) as_float as_int = Some cfgs"
    by (auto split: if_splits)
  obtain outs l' where o': "run_tiers te cfgs l = (outs, l')" by (cases "run_tiers te cfgs l")
  have "cfgs \<noteq> []" using mode(2) by (auto simp: tier_configs_def split: option.splits)
  then have "outs \<noteq> []" using run_tiers_nonempty[of cfgs te l] o' by simp
  moreover have "\<forall>x \<in> set (map fst (fst (run_tiers te cfgs l))). trustworthy V among text messages x"
    using assms[OF mode] by (intro run_tiers_trustworthy) blast
  ultimately have "trustworthy V among text messages (select_result (map fst outs))"
    using o' select_member[of "map fst outs"] by (metis fst_conv map_is_Nil_conv)
  with Some o' show ?thesis by (auto simp: run_tiered_audit_def intro: trustworthy_relabelled)
qed

lemma reasoning_audit_trustworthy:
  "trustworthy V (asked V T) text (action_messages V r a text recent)
     (fst (run_reasoning_audit V T wd r a turn text recent l))"
proof (cases "routing_mode (ve_env V) = ''single''")
  case True
  then have "trustworthy V (asked V T) text (action_messages V r a text recent)
      (fst (run_single_reasoning_audit V None r a text recent s))" for s
    by (intro run_single_trustworthy) (simp add: asked_def)
  with True show ?thesis
    by (auto simp: run_reasoning_audit_def on_ledger_def split: prod.splits) (metis fst_conv)
next
  case False
  let ?te = "tiers_of V (tt_clk T) (tt_lat T) wd r a text recent"
  have "tier_runs ?te cfg (trustworthy V (asked V T) text (action_messages V r a text recent))"
    if mode: "routing_mode (ve_env V) = ''two-tier''"
      and cfgs: "tier_configs (ve_env V) (tt_float T) (li_int (ve_lib V)) = Some cfgs" "cfg \<in> set cfgs" for cfgs cfg
    unfolding tier_runs_def
  proof (intro allI impI)
    fix p k x k'
    assume got: "te_get_profile ?te (tc_profile cfg) = Some p"
      and run: "te_run_single ?te (tier_profile cfg p) k = (Some x, k')"
    from got have p: "ve_profile V (tc_profile cfg) = Inr p" by (simp add: tiers_of_def split: sum.splits)
    from run obtain cl where cl: "make_client (ve_env V) (tier_profile cfg p) None = Inr cl"
      "x = fst (run_single_reasoning_audit V (Some (tier_auditor V (tier_profile cfg p) cl)) r a text recent
                  \<lparr>ca_world = wd (pf_name (tier_profile cfg p)), ca_ledger = k, ca_events = []\<rparr>)"
      by (auto simp: tiers_of_def on_ledger_def split: sum.splits prod.splits)
    have "asked V T (tier_auditor V (tier_profile cfg p) cl)"
      using mode cfgs p cl(1) False unfolding asked_def by auto
    then show "trustworthy V (asked V T) text (action_messages V r a text recent) x"
      unfolding cl(2) by (intro run_single_trustworthy) auto
  qed
  then have "trustworthy V (asked V T) text (action_messages V r a text recent)
      (fst (run_tiered_audit ?te (tt_float T) (li_int (ve_lib V)) (tt_total T) l))"
    by (intro tiered_trustworthy) (simp_all add: tiers_of_def)
  with False show ?thesis by (simp add: run_reasoning_audit_def)
qed

text \<open>
  C5: the audit of an action, on one tier or two, always returns a result, and every excerpt it reports is
  text of the escaped trace. The result is FAILED with a code unless an auditor of the service's
  configuration (the single profile's, or a configured tier's with that tier's limits) could be built, was
  given reasoning within its limit, did not outlive its time limit and answered the action's prompt with
  an object that states the verdict: a profile that cannot be loaded, a late call, an exception of the
  provider or of the library and an unreadable answer are never NO_CONCERN or CONCERN.
\<close>

theorem audit_fails_closed:
  "trustworthy V (asked V T) text (action_messages V r a text recent)
     (fst (run_reasoning_audit V T wd r a turn text recent l))"
  by (rule reasoning_audit_trustworthy)

end
