(* ===== verification/AuditGate.thy ===== *)
theory AuditGate
  imports AuditTurn Escalation
begin

text \<open>
  The gateway of \<open>service.py\<close> with the auditor of \<open>reasoning_audit.py\<close> in place: from a decision that is
  allowed back to the provider's answer.
\<close>

section \<open>Where a used audit comes from\<close>

lemma required_reasoning_db: "required_reasoning_decision a r d en w = (x, w') \<Longrightarrow> db w' = db w"
  by (auto simp: required_reasoning_decision_def Let_def tx_bind_def tx_return_def uuid4_def utc_now_def
      split: if_splits sum.splits prod.splits)

text \<open>
  A stored audit that may be reused: it was made in this run for the same turn and the same text (by its
  hash), and an action of the same tool, operation, resource and equal arguments refers to it.
\<close>

definition reusable :: "gateway \<Rightarrow> run \<Rightarrow> action \<Rightarrow> pystr \<Rightarrow> store \<Rightarrow> audit \<Rightarrow> bool" where
  "reusable g r a turn s rec \<longleftrightarrow>
     rec \<in> set (audits_t s) \<and> aud_run_id rec = run_key r \<and> aud_turn_id rec = turn
     \<and> trace_hash rec = gw_sha256 g (audit_trace_text a)
     \<and> (\<exists>b \<in> set (actions_t s). act_audit_id b = Some (aud_id rec) \<and> tool b = tool a \<and> operation b = operation a
          \<and> resource b = resource a \<and> py_eq (JObj (arguments b)) (JObj (arguments a)))"

lemma cached_audit_reusable:
  assumes "get_reasoning_audit_by_turn (run_key r) turn (gw_sha256 g (audit_trace_text a)) (Some (tool a))
     (Some (operation a)) (Some (resource a)) (Some (arguments a)) w = (Inr (Some rec), w')"
  shows "reusable g r a turn (db w) rec"
  using assms
  by (auto simp: get_reasoning_audit_by_turn_def query_def audits_by_turn_def reusable_def dest!: find_SomeD)

lemma cached_audit_db: "get_reasoning_audit_by_turn k turn h t p q args w = (x, w') \<Longrightarrow> db w' = db w"
  by (simp add: get_reasoning_audit_by_turn_def query_def)

definition made_by :: "gateway \<Rightarrow> run \<Rightarrow> action \<Rightarrow> pystr \<Rightarrow> store \<Rightarrow> audit \<Rightarrow> bool" where
  "made_by g r a turn s rec \<longleftrightarrow>
     (\<exists>i now l. rec = audit_record_of i (run_key r) turn (gw_sha256 g (audit_trace_text a)) now
        (fst (gw_audit g r a turn (audit_trace_text a)
               (sort_key requested_at (filter (\<lambda>b. act_run_id b = run_key r) (actions_t s))) l)))"

lemma ledger_op_Inr: "ledger_op f w = (Inr x, w') \<Longrightarrow> \<exists>l. x = fst (f l)"
  by (auto simp: ledger_op_def split: prod.splits) (metis fst_conv)

lemma fresh_audit_origin:
  assumes "fresh_audit g r a turn (audit_trace_text a) (gw_sha256 g (audit_trace_text a)) w = (Inr (rec, n), w')"
  shows "made_by g r a turn (db w) rec"
proof -
  from assms obtain recent result w1 w2 w3 w4 w5 i now k where recent: "list_actions_for_run (run_key r) w = (Inr recent, w1)"
    and "ledger_op (gw_audit g r a turn (audit_trace_text a) recent) w2 = (Inr result, w3)"
    "tx_return (audit_record_of i (run_key r) turn (gw_sha256 g (audit_trace_text a)) now result, k) w4 = (Inr (rec, n), w5)"
    unfolding fresh_audit_def tx_bind_Inr by blast
  then obtain l where "rec = audit_record_of i (run_key r) turn (gw_sha256 g (audit_trace_text a)) now
      (fst (gw_audit g r a turn (audit_trace_text a) recent l))"
    by (auto simp: tx_return_def dest!: ledger_op_Inr)
  with recent show ?thesis unfolding made_by_def by (auto simp: list_actions_for_run_def query_def)
qed

lemma obtain_audit_origin:
  assumes "obtain_audit g r a turn (audit_trace_text a) w = (Inr (rec, n), w')"
  shows "reusable g r a turn (db w) rec \<or> made_by g r a turn (db w) rec"
proof -
  from assms obtain cached w1 where c:
    "get_reasoning_audit_by_turn (run_key r) turn (gw_sha256 g (audit_trace_text a)) (Some (tool a)) (Some (operation a))
       (Some (resource a)) (Some (arguments a)) w = (Inr cached, w1)"
    "(case cached of Some rec \<Rightarrow> tx_return (rec, 0)
      | None \<Rightarrow> fresh_audit g r a turn (audit_trace_text a) (gw_sha256 g (audit_trace_text a))) w1
       = (Inr (rec, n), w')"
    by (auto simp: obtain_audit_def Let_def tx_bind_Inr)
  show ?thesis
  proof (cases cached)
    case None
    with c(2) have "made_by g r a turn (db w1) rec" by (auto dest: fresh_audit_origin)
    with cached_audit_db[OF c(1)] show ?thesis by simp
  next
    case (Some x)
    with c show ?thesis by (auto simp: tx_return_def dest: cached_audit_reusable)
  qed
qed

lemma audited_obtains:
  assumes "audited_decision g r a turn d en w = (Inr (a', e, au), w')"
    and "outcome d \<noteq> PO_DENY \<and> en \<and> audit_trace_text a \<noteq> []"
  shows "\<exists>rec n w1. obtain_audit g r a turn (audit_trace_text a) w = (Inr (rec, n), w1) \<and> au = Some (rec, n)"
proof -
  let ?rest = "\<lambda>(rec, fresh).
      let a' = a\<lparr>act_audit_id := Some (aud_id rec)\<rparr>; d' = d\<lparr>dec_audit_id := Some (aud_id rec)\<rparr>
      in tx_bind (merge_audit a' rec (policy_version d) d') (\<lambda>final. tx_return (a', final, Some (rec, fresh)))"
  have "tx_bind (obtain_audit g r a turn (audit_trace_text a)) ?rest w = (Inr (a', e, au), w')"
    using assms by (simp add: audited_decision_def)
  then obtain y w1 where y: "obtain_audit g r a turn (audit_trace_text a) w = (Inr y, w1)" "?rest y w1 = (Inr (a', e, au), w')"
    unfolding tx_bind_Inr by blast
  obtain rec n where "y = (rec, n)" by (cases y)
  with y show ?thesis by (auto simp: Let_def tx_bind_Inr tx_return_def)
qed

lemma allowed_by_audit:
  assumes "final_decision g r a turn d0 en w = (Inr (a', d, au, missing), w')"
    and "dec_action_id d0 = act_id a" "outcome d = PO_ALLOW" "en" "audit_trace_text a \<noteq> []"
  shows "\<exists>rec. dec_audit_id d = Some (aud_id rec) \<and> verdict rec = ''NO_CONCERN''
     \<and> (reusable g r a turn (db w) rec \<or> made_by g r a turn (db w) rec)"
proof -
  from assms(1) obtain d1 m1 d2 w1 w2 where
    1: "required_reasoning_decision a r d0 en w = (Inr (d1, m1), w1)" and
    2: "required_reasoning_decision a r d1 en w1 = (Inr (d2, missing), w2)" and
    3: "audited_decision g r a turn d2 en w2 = (Inr (a', d, au), w')"
    by (auto simp: final_decision_def tx_bind_Inr)
  have db: "db w2 = db w" using required_reasoning_db[OF 1] required_reasoning_db[OF 2] by simp
  have i1: "dec_action_id d1 = act_id a"
    using required_reasoning_escalates[OF 1 assms(2)] assms(2) unfolding escalates_def by metis
  have i2: "dec_action_id d2 = act_id a"
    using required_reasoning_escalates[OF 2 i1] i1 unfolding escalates_def by metis
  have esc: "escalates d2 d" using audited_escalates[OF 3 i2] by (rule conjunct1)
  have "outcome d2 \<noteq> PO_DENY"
  proof
    assume "outcome d2 = PO_DENY"
    with escalates_deny[OF esc] assms(3) show False by simp
  qed
  then have cond: "outcome d2 \<noteq> PO_DENY \<and> en \<and> audit_trace_text a \<noteq> []" using assms(4,5) by simp
  obtain rec n w3 where o': "obtain_audit g r a turn (audit_trace_text a) w2 = (Inr (rec, n), w3)" "au = Some (rec, n)"
    using audited_obtains[OF 3 cond] by blast
  with audited_escalates[OF 3 i2] assms(3,4,5) have "verdict rec = ''NO_CONCERN'' \<and> dec_audit_id d = Some (aud_id rec)" by auto
  with obtain_audit_origin[OF o'(1)] db show ?thesis by auto
qed

section \<open>From the decision to the provider\<close>

lemma recorded_verdict: "verdict (audit_record_of i k turn h now x) = ''NO_CONCERN'' \<longleftrightarrow> ar_verdict x = RV_NO_CONCERN"
  by (cases "ar_verdict x") (simp_all add: audit_record_of_def)

text \<open>
  What an allowed action rests on: a NO_CONCERN record of its run, turn and text, which either was
  stored for an equal action of this turn, or is the verdict of an auditor of the service's
  configuration that was asked about this very action, after the stored recent actions of the run, with
  its text within the limit, and whose answer came in time and clears it.
\<close>

definition cleared_by :: "'w audit_env \<Rightarrow> tier_times \<Rightarrow> gateway \<Rightarrow> run \<Rightarrow> action \<Rightarrow> pystr \<Rightarrow> store \<Rightarrow> audit \<Rightarrow> bool" where
  "cleared_by V T g r a turn s rec \<longleftrightarrow>
     verdict rec = ''NO_CONCERN'' \<and> aud_run_id rec = run_key r \<and> aud_turn_id rec = turn
     \<and> trace_hash rec = gw_sha256 g (audit_trace_text a)
     \<and> (reusable g r a turn s rec
        \<or> (\<exists>A u. asked V T A \<and> \<not> ve_late V (au_profile A) \<and> \<not> too_large A (Some (audit_trace_text a))
             \<and> cleared (ve_lib V) A (fst (au_ask A
                 (action_messages V r a (audit_trace_text a)
                    (sort_key requested_at (filter (\<lambda>b. act_run_id b = run_key r) (actions_t s)))) u))))"

lemma made_by_cleared:
  assumes "made_by g r a turn s rec" "verdict rec = ''NO_CONCERN''" "gw_audit g = run_reasoning_audit V T wd"
  shows "cleared_by V T g r a turn s rec"
proof -
  let ?recent = "sort_key requested_at (filter (\<lambda>b. act_run_id b = run_key r) (actions_t s))"
  from assms(1) obtain i now l where
    new: "rec = audit_record_of i (run_key r) turn (gw_sha256 g (audit_trace_text a)) now
            (fst (gw_audit g r a turn (audit_trace_text a) ?recent l))"
    unfolding made_by_def by blast
  from new assms(2) have v: "ar_verdict (fst (run_reasoning_audit V T wd r a turn (audit_trace_text a) ?recent l)) = RV_NO_CONCERN"
    by (simp add: recorded_verdict assms(3))
  from reasoning_audit_trustworthy[of V T "audit_trace_text a" r a ?recent wd turn l]
  have "\<exists>A u. asked V T A \<and> \<not> ve_late V (au_profile A) \<and> \<not> too_large A (Some (audit_trace_text a))
      \<and> cleared (ve_lib V) A (fst (au_ask A (action_messages V r a (audit_trace_text a) ?recent) u))"
    unfolding trustworthy_def v by simp
  with assms(2) new show ?thesis
    unfolding cleared_by_def by (simp add: audit_record_of_def)
qed

text \<open>
  C4: when the audit is enabled and an action carries text, a decision that ends as ALLOW refers to an audit
  record with verdict NO_CONCERN for this run, turn and text. The record was already stored for this turn
  and an equal action (same tool, operation, resource and arguments), or it is new, and then a provider of
  the service's own configuration was sent the prompt of this very action and answered within its time
  limit with an object that clears it: no failure, timeout, malformed or ungrounded answer lets an action
  through.
\<close>

theorem allowed_actions_were_cleared:
  assumes "final_decision g r a turn d0 en w = (Inr (a', d, au, missing), w')"
    and "dec_action_id d0 = act_id a"
    and "gw_audit g = run_reasoning_audit V T wd"
  shows "outcome d = PO_ALLOW \<and> en \<and> audit_trace_text a \<noteq> [] \<longrightarrow>
     (\<exists>rec. dec_audit_id d = Some (aud_id rec) \<and> cleared_by V T g r a turn (db w) rec)"
proof
  assume "outcome d = PO_ALLOW \<and> en \<and> audit_trace_text a \<noteq> []"
  with allowed_by_audit[OF assms(1,2)] obtain rec where rec:
    "dec_audit_id d = Some (aud_id rec)" "verdict rec = ''NO_CONCERN''"
    "reusable g r a turn (db w) rec \<or> made_by g r a turn (db w) rec"
    by auto
  from rec(3) have "cleared_by V T g r a turn (db w) rec"
  proof
    assume "reusable g r a turn (db w) rec"
    with rec(2) show ?thesis unfolding cleared_by_def by (auto simp: reusable_def)
  qed (rule made_by_cleared[OF _ rec(2) assms(3)])
  with rec(1) show "\<exists>rec. dec_audit_id d = Some (aud_id rec) \<and> cleared_by V T g r a turn (db w) rec" by blast
qed

text \<open>A live auditor whose provider clears every prompt.\<close>

definition clearing_lib :: audit_lib where
  "clearing_lib =
     \<lparr>li_loads = (\<lambda>_. loaded (JObj [(''verdict'', JStr ''NO_CONCERN'')])), li_float = (\<lambda>_ _. ''0.0''), li_int = (\<lambda>_. None)\<rparr>"

definition live_profile :: profile where
  "live_profile =
     \<lparr>pf_name = ''live'', pf_model = ''m'', pf_key_env = None, pf_reasoning = None, pf_base_url = ''mock://api'',
      pf_timeout = 30000000, pf_max_retries = 1, pf_auditor_body = [], pf_extra_body = []\<rparr>"

definition clearing_wire :: "unit wire" where
  "clearing_wire =
     \<lparr>wi_now = (\<lambda>w. (0, w)), wi_perf = (\<lambda>w. (0, w)),
      wi_post = (\<lambda>_ w. (Answer 200 (Some (JObj [(''choices'', JArr [JObj [(''message'', JObj [(''content'', JStr ''ok'')])]])])), w)),
      wi_sleep = (\<lambda>_ w. w), wi_instant = (\<lambda>w. (0, w)), wi_fixed2 = (\<lambda>_. ''0.50'')\<rparr>"

definition live_env :: environ where
  "live_env = (\<lambda>k. if k = ''SCOPEWATCH_AUDITOR_PROFILE'' then Some ''live'' else None)"

definition clearing_env :: "unit audit_env" where
  "clearing_env =
     \<lparr>ve_env = live_env, ve_lib = clearing_lib, ve_wire = clearing_wire, ve_profile = (\<lambda>_. Inr live_profile),
      ve_latency = 0, ve_late = (\<lambda>_. False)\<rparr>"

definition no_times :: tier_times where
  "no_times = \<lparr>tt_clk = (\<lambda>_ _. 0), tt_lat = (\<lambda>_. 0), tt_float = (\<lambda>_. None), tt_total = 0\<rparr>"

definition audited_gateway :: gateway where
  "audited_gateway = demo_gateway\<lparr>gw_audit := run_reasoning_audit clearing_env no_times (\<lambda>_. ())\<rparr>"

definition cleared_result :: audit_result where
  "cleared_result =
     \<lparr>ar_verdict = RV_NO_CONCERN, ar_concern = None, ar_excerpts = [],
      ar_explanation = ''No security concerns identified in agent turn.'', ar_model = ''m'', ar_profile = ''live'',
      ar_latency = 0, ar_total_tokens = None, ar_error_code = None, ar_tiers = []\<rparr>"

definition clearing_body :: json where
  "clearing_body = JObj [(''choices'', JArr [JObj [(''message'', JObj [(''content'', JStr ''ok'')])]])]"

definition clearing_completion :: completion where
  "clearing_completion =
     \<lparr>co_content = Some ''ok'', co_tool_calls = [], co_reasoning = None, co_provenance = ''UNAVAILABLE'',
      co_detail_type = None, co_usage = [], co_latency = 0, co_model = ''m'', co_profile = ''live''\<rparr>"

definition live_client :: client where
  "live_client =
     \<lparr>cl_profile = live_profile, cl_key = None, cl_initial = DEFAULT_INITIAL_BACKOFF,
      cl_max = DEFAULT_MAX_BACKOFF, cl_factor = DEFAULT_BACKOFF_FACTOR\<rparr>"

text \<open>The client gets its answer at the first attempt.\<close>

lemma clearing_accepted: "accept clearing_wire live_profile (Some clearing_body) 0 s = (Inr clearing_completion, s)"
proof -
  have "parse_chat_response live_profile clearing_body 0 = Inr clearing_completion" by code_simp
  moreover have "is_mock_profile (pf_name live_profile) (pf_base_url live_profile)" by code_simp
  moreover have "\<not> (case clearing_body of JObj d \<Rightarrow> map_of d ''error'' \<noteq> None | _ \<Rightarrow> False)" by code_simp
  ultimately show ?thesis by (simp add: accept_def record_token_metering_def)
qed

lemma clearing_loop:
  "\<exists>t. complete_loop clearing_wire live_client rq (Some 30000000) 0 s = (Inr clearing_completion, t)
       \<and> ca_ledger t = ca_ledger s"
proof -
  have answers: "wi_post clearing_wire = (\<lambda>_ w. (Answer 200 (Some clearing_body), w))"
    by (simp add: clearing_wire_def clearing_body_def)
  have now: "wi_now clearing_wire = (\<lambda>w. (0, w))" "wi_perf clearing_wire = (\<lambda>w. (0, w))"
    by (simp_all add: clearing_wire_def)
  show ?thesis
    by (subst complete_loop.simps)
       (simp add: time_limit_def attempt_once_def read_now_def read_perf_def post_def overdue_def
         now answers live_client_def clearing_accepted Let_def)
qed

lemma clearing_chat:
  "\<exists>t. audit_chat clearing_wire live_client messages 30000000 s = (Inr clearing_completion, t) \<and> ca_ledger t = ca_ledger s"
proof -
  have fits: "\<not> (\<exists>k \<in> set [''messages'', ''self'']. map_of
      (filter (\<lambda>kv. fst kv \<noteq> ''request_timeout'') (audit_options (cl_profile live_client))) k \<noteq> None)" by code_simp
  obtain s1 where s1: "read_now clearing_wire s = (0, s1)" "ca_ledger s1 = ca_ledger s"
    by (simp add: read_now_def clearing_wire_def)
  with fits clearing_loop[of _ s1] show ?thesis by (simp add: audit_chat_def complete_def Let_def)
qed

lemma clearing_ask:
  "\<exists>t. client_ask clearing_wire live_client 30000000 messages s = (Inr (Client_response clearing_completion), t)
       \<and> ca_ledger t = ca_ledger s"
  using clearing_chat[of "map message_json messages" s] by (auto simp: client_ask_def)

lemma clearing_judged:
  assumes "au_profile A = ''live''"
  shows "judge clearing_lib A latency trace (Inr (Client_response clearing_completion)) = cleared_result"
proof -
  have "parse_auditor_output (li_loads clearing_lib) (li_float clearing_lib)
      \<lparr>al_model = ''m'', al_profile = ''live'', al_latency = 0, al_tokens = None\<rparr> trace ''ok'' = Some cleared_result"
    by (simp add: parse_auditor_output_def clearing_lib_def parse_verdict_def jget_def Let_def cleared_result_def
        audit_answer_def strip_Nil_iff strip_empty) code_simp
  then show ?thesis
    by (simp add: judge_def read_reply_def clearing_completion_def jget_def token_field_def)
qed

lemma clearing_auditor:
  "get_auditor clearing_env = Inr
     \<lparr>au_profile = ''live'', au_model = ''m'', au_max_trace = DEFAULT_MAX_TRACE_CHARS, au_timeout = 30000000,
      au_ask = client_ask clearing_wire live_client 30000000\<rparr>"
  by (simp add: get_auditor_def build_auditor_def clearing_env_def make_client_def resolve_key_def live_profile_def
      truthy_def live_client_def)

lemma clearing_audit:
  assumes "length (turn_trace (Some t)) \<le> DEFAULT_MAX_TRACE_CHARS" "length t \<le> DEFAULT_MAX_TRACE_CHARS"
  shows "run_reasoning_audit clearing_env no_times (\<lambda>_. ()) r a turn t recent l = (cleared_result, l)"
proof -
  have mode: "routing_mode (ve_env clearing_env) = ''single''" by code_simp
  have fields: "ve_lib clearing_env = clearing_lib" "ve_late clearing_env = (\<lambda>_. False)" by (simp_all add: clearing_env_def)
  let ?s = "\<lparr>ca_world = (), ca_ledger = l, ca_events = []\<rparr>"
  obtain u where "client_ask clearing_wire live_client 30000000
        (turn_messages clearing_lib (run_scope r) (Some t) (provenance_value (reasoning_provenance a)) [action_plan a]
           (map action_summary (drop (length recent - 5) recent))) ?s
      = (Inr (Client_response clearing_completion), u)" "ca_ledger u = l"
    using clearing_ask[of _ ?s] by fastforce
  with assms show ?thesis
    by (simp add: run_reasoning_audit_def mode on_ledger_def run_single_reasoning_audit_def clearing_auditor
        single_audit_def audit_turn_cases fields too_large_def clearing_judged)
qed

definition cleared_gateway :: gateway where
  "cleared_gateway = demo_gateway\<lparr>gw_audit := (\<lambda>r a turn t recent l. (cleared_result, l))\<rparr>"

definition demo_cleared :: "(exc + action \<times> decision \<times> (audit \<times> int) option \<times> pystr option) \<times> world" where
  "demo_cleared =
     final_decision cleared_gateway demo_run demo_traced ''t1'' (demo_decision PO_ALLOW demo_traced) True
       (demo_world demo_store)"

lemma demo_cleared_allows:
  "case fst demo_cleared of Inl e \<Rightarrow> False | Inr (a', d, x) \<Rightarrow> outcome d = PO_ALLOW"
  by code_simp

lemma demo_cleared_audited:
  "final_decision audited_gateway demo_run demo_traced ''t1'' (demo_decision PO_ALLOW demo_traced) True
     (demo_world demo_store) = demo_cleared"
proof -
  have "length (turn_trace (Some (audit_trace_text demo_traced))) \<le> DEFAULT_MAX_TRACE_CHARS"
    "length (audit_trace_text demo_traced) \<le> DEFAULT_MAX_TRACE_CHARS" by code_simp+
  note run = clearing_audit[OF this]
  have e: "gw_env audited_gateway = gw_env cleared_gateway" "gw_sha256 audited_gateway = gw_sha256 cleared_gateway"
    by (simp_all add: audited_gateway_def cleared_gateway_def)
  have q: "gw_audit audited_gateway demo_run demo_traced ''t1'' (audit_trace_text demo_traced)
      = gw_audit cleared_gateway demo_run demo_traced ''t1'' (audit_trace_text demo_traced)"
    by (intro ext) (simp add: audited_gateway_def cleared_gateway_def run)
  show ?thesis
    unfolding demo_cleared_def final_decision_def audited_decision_def obtain_audit_def fresh_audit_def
      reserve_estimate_def Let_def e q by (rule refl)
qed

theorem allowed_actions_were_cleared_witness:
  "\<exists>rec. cleared_by clearing_env no_times audited_gateway demo_run demo_traced ''t1'' demo_store rec"
proof -
  obtain a' d au missing where r: "fst demo_cleared = Inr (a', d, au, missing)" and allow: "outcome d = PO_ALLOW"
    using demo_cleared_allows by (auto split: sum.splits)
  have run: "final_decision audited_gateway demo_run demo_traced ''t1'' (demo_decision PO_ALLOW demo_traced) True
      (demo_world demo_store) = (Inr (a', d, au, missing), snd demo_cleared)"
    using r unfolding demo_cleared_audited by (metis prod.collapse)
  have id: "dec_action_id (demo_decision PO_ALLOW demo_traced) = act_id demo_traced" by (simp add: demo_decision_def)
  have audit: "gw_audit audited_gateway = run_reasoning_audit clearing_env no_times (\<lambda>_. ())"
    by (simp add: audited_gateway_def)
  have "audit_trace_text demo_traced \<noteq> []" by code_simp
  moreover have "db (demo_world demo_store) = demo_store" by code_simp
  ultimately show ?thesis using allowed_actions_were_cleared[OF run id audit] allow by auto
qed

end
