(* ===== verification/DockerFiles.thy ===== *)
theory DockerFiles
  imports Executor
begin

text \<open>
  The file side of \<open>backend/scopewatch/docker_job.py\<close>: what the gateway copies out of a run's
  workspace for a container (staging) and what it copies back afterwards.

  The staged copy is a tree. The host is a store: a map from real locations (absolute paths without
  symbolic links) to what is there; \<open>walk_from\<close> is the path walk of the operating system over it, so
  that an operation on a path acts at the location the path leads to. \<open>sc_deny\<close> names the locations
  where the operating system refuses a change. File contents are byte strings (characters 0 to 255).
\<close>

unbundle bit_operations_syntax

section \<open>The staged tree and the host\<close>

text \<open>
  A link carries its target text and whether it leads to a directory, which decides the list of
  \<open>os.walk\<close> it appears in. \<open>SOther\<close> and \<open>HOther\<close> are sockets, pipes and devices.
\<close>

datatype staged =
    SDir int "(pystr \<times> staged) list"
  | SFile int pystr
  | SLink pystr bool
  | SOther

datatype hnode = HDir | HFile int pystr | HLink pystr | HOther

type_synonym host = "path \<Rightarrow> hnode option"

definition host_at :: "host \<Rightarrow> path \<Rightarrow> hnode option" where
  "host_at fs p = (if p = [] then Some HDir else fs p)"

text \<open>
  The walk from a real directory: \<open>n\<close> links may still be followed (the operating system gives up
  after forty), missing components are taken as they stand (\<open>resolve(strict=False)\<close>).
\<close>

function walk_from :: "host \<Rightarrow> nat \<Rightarrow> path \<Rightarrow> path \<Rightarrow> path option" where
  "walk_from fs n cur [] = Some cur"
| "walk_from fs n cur (c # cs) =
     (if c = ''..'' then walk_from fs n (butlast cur) cs
      else case fs (cur @ [c]) of
        Some (HLink t) \<Rightarrow>
          (case n of
             0 \<Rightarrow> None
           | Suc k \<Rightarrow> walk_from fs k (if starts_with t ''/'' then [] else cur) (pure_path_parts t @ cs))
      | _ \<Rightarrow> walk_from fs n (cur @ [c]) cs)"
  by pat_completeness auto
termination
  by (relation "measures [\<lambda>(fs, n, cur, cs). n, \<lambda>(fs, n, cur, cs). length cs]") auto

definition MAXSYMLINKS :: nat where "MAXSYMLINKS = 40"

definition host_resolve :: "host \<Rightarrow> path \<Rightarrow> path option" where
  "host_resolve fs p = walk_from fs MAXSYMLINKS [] p"

datatype lstat_result = Lstat hnode | Lmissing | Lerror

definition host_lstat :: "host \<Rightarrow> path \<Rightarrow> lstat_result" where
  "host_lstat fs p =
     (if p = [] then Lstat HDir
      else case host_resolve fs (butlast p) of
        None \<Rightarrow> Lerror
      | Some d \<Rightarrow>
          (case host_at fs d of
             Some HDir \<Rightarrow> (case fs (d @ [last p]) of Some x \<Rightarrow> Lstat x | None \<Rightarrow> Lmissing)
           | None \<Rightarrow> Lmissing
           | Some _ \<Rightarrow> Lerror))"

definition host_is_dir :: "host \<Rightarrow> path \<Rightarrow> bool" where
  "host_is_dir fs p =
     (case host_resolve fs p of Some q \<Rightarrow> host_at fs q = Some HDir | None \<Rightarrow> False)"

definition host_is_symlink :: "host \<Rightarrow> path \<Rightarrow> bool" where
  "host_is_symlink fs p = (case host_lstat fs p of Lstat (HLink t) \<Rightarrow> True | _ \<Rightarrow> False)"

definition host_lexists :: "host \<Rightarrow> path \<Rightarrow> bool" where
  "host_lexists fs p = (case host_lstat fs p of Lstat x \<Rightarrow> True | _ \<Rightarrow> False)"

section \<open>Operations on the host\<close>

type_synonym 'a hx = "host \<Rightarrow> (exc + 'a) \<times> host"

definition os_error :: "pystr \<Rightarrow> exc" where "os_error c = Py_error c []"

text \<open>Change the entry \<open>p\<close>: at its name in the real directory its parent leads to.\<close>

definition host_op ::
  "(path \<Rightarrow> bool) \<Rightarrow> path \<Rightarrow> (path \<Rightarrow> host \<Rightarrow> host) \<Rightarrow> unit hx" where
  "host_op deny p f fs =
     (if p = [] then (Inl (os_error ''OSError''), fs)
      else case host_resolve fs (butlast p) of
        None \<Rightarrow> (Inl (os_error ''OSError''), fs)
      | Some d \<Rightarrow>
          if host_at fs d \<noteq> Some HDir then (Inl (os_error ''FileNotFoundError''), fs)
          else if deny (d @ [last p]) then (Inl (os_error ''PermissionError''), fs)
          else (Inr (), f (d @ [last p]) fs))"

definition host_unlink :: "(path \<Rightarrow> bool) \<Rightarrow> path \<Rightarrow> unit hx" where
  "host_unlink deny p = host_op deny p (\<lambda>q fs. fs(q := None))"

definition host_rmtree :: "(path \<Rightarrow> bool) \<Rightarrow> path \<Rightarrow> unit hx" where
  "host_rmtree deny p = host_op deny p (\<lambda>q fs x. if prefix q x then None else fs x)"

definition host_symlink :: "(path \<Rightarrow> bool) \<Rightarrow> path \<Rightarrow> pystr \<Rightarrow> unit hx" where
  "host_symlink deny p t fs =
     (if host_lexists fs p then (Inl (os_error ''FileExistsError''), fs)
      else host_op deny p (\<lambda>q fs. fs(q \<mapsto> HLink t)) fs)"

text \<open>\<open>Path.mkdir(parents=True, exist_ok=True)\<close>: the missing directories, outermost first.\<close>

fun host_mkdirs :: "(path \<Rightarrow> bool) \<Rightarrow> path \<Rightarrow> path \<Rightarrow> unit hx" where
  "host_mkdirs deny seen [] fs = (Inr (), fs)"
| "host_mkdirs deny seen (c # cs) fs =
     (let p = seen @ [c] in
      if host_is_dir fs p then host_mkdirs deny p cs fs
      else if host_lexists fs p then (Inl (os_error ''FileExistsError''), fs)
      else case host_op deny p (\<lambda>q fs. fs(q \<mapsto> HDir)) fs of
             (Inl e, fs') \<Rightarrow> (Inl e, fs')
           | (Inr _, fs') \<Rightarrow> host_mkdirs deny p cs fs')"

text \<open>
  \<open>shutil.copy2(src, dst)\<close>: below an existing directory under the source's name, else at the file
  the destination leads to, which a special file refuses; content and permission bits are copied.
\<close>

definition host_copy2 :: "(path \<Rightarrow> bool) \<Rightarrow> pystr \<Rightarrow> int \<Rightarrow> pystr \<Rightarrow> path \<Rightarrow> unit hx" where
  "host_copy2 deny name mode content dst fs =
     (let dst' = (if host_is_dir fs dst then dst @ [name] else dst)
      in case host_resolve fs dst' of
           None \<Rightarrow> (Inl (os_error ''OSError''), fs)
         | Some q \<Rightarrow>
             if q \<noteq> [] \<and> fs q = Some HOther then (Inl (os_error ''SpecialFileError''), fs)
             else if host_at fs q = Some HDir then (Inl (os_error ''IsADirectoryError''), fs)
             else host_op deny q (\<lambda>q fs. fs(q \<mapsto> HFile mode content)) fs)"

text \<open>\<open>replace_link\<close>.\<close>

definition replace_link :: "(path \<Rightarrow> bool) \<Rightarrow> pystr \<Rightarrow> path \<Rightarrow> unit hx" where
  "replace_link deny target dest fs =
     (case (if host_lexists fs dest
            then if host_is_dir fs dest \<and> \<not> host_is_symlink fs dest
                 then host_rmtree deny dest fs else host_unlink deny dest fs
            else (Inr (), fs)) of
        (Inl e, fs') \<Rightarrow> (Inl e, fs')
      | (Inr _, fs') \<Rightarrow> host_symlink deny dest target fs')"

section \<open>Blocked paths\<close>

definition staging_error :: "pystr \<Rightarrow> exc" where
  "staging_error msg = Py_error ''StagingScopeError'' msg"

fun blocked_items :: "json list \<Rightarrow> exc + path list" where
  "blocked_items [] = Inr []"
| "blocked_items (JStr s # vs) =
     (case blocked_items vs of
        Inl e \<Rightarrow> Inl e
      | Inr ps \<Rightarrow>
          (let raw = replace_char (CHR 0x5C) (CHR 0x2F) (strip s)
           in Inr (filter (\<lambda>part. part \<noteq> [] \<and> part \<noteq> ''.'') (split_on (CHR 0x2F) raw) # ps)))"
| "blocked_items (v # vs) = Inl (staging_error ''blocked_paths must be a list of strings'')"

definition normalize_blocked_paths :: "json \<Rightarrow> exc + path list" where
  "normalize_blocked_paths v =
     (case v of
        JNull \<Rightarrow> Inr []
      | JArr vs \<Rightarrow> blocked_items vs
      | _ \<Rightarrow> Inl (staging_error ''blocked_paths must be a list of strings''))"

definition job_fold :: "path \<Rightarrow> bool \<Rightarrow> path" where
  "job_fold segments case_insensitive =
     (if \<not> case_insensitive then segments else map (\<lambda>part. casefold (nfc part)) segments)"

definition is_blocked ::
  "bool option \<Rightarrow> (path \<Rightarrow> path \<Rightarrow> bool) option \<Rightarrow> path list \<Rightarrow> path \<Rightarrow> bool" where
  "is_blocked case_insensitive path_matcher blocked parts =
     (case path_matcher of
        Some m \<Rightarrow> list_ex (\<lambda>pre. m parts pre) blocked
      | None \<Rightarrow>
          (let folds = (case_insensitive = None \<or> case_insensitive = Some True)
           in list_ex (\<lambda>pre. length pre \<le> length parts
                 \<and> job_fold (take (length pre) parts) folds = job_fold pre folds) blocked))"

definition contains_blocked ::
  "bool option \<Rightarrow> (path \<Rightarrow> path \<Rightarrow> bool) option \<Rightarrow> path list \<Rightarrow> path \<Rightarrow> bool" where
  "contains_blocked case_insensitive path_matcher blocked parts =
     (case path_matcher of
        Some m \<Rightarrow> list_ex (\<lambda>pre. length parts < length pre \<and> m pre parts) blocked
      | None \<Rightarrow>
          (let folds = (case_insensitive = None \<or> case_insensitive = Some True)
           in list_ex (\<lambda>pre. length parts < length pre
                 \<and> job_fold (take (length parts) pre) folds = job_fold parts folds) blocked))"

section \<open>Staging\<close>

text \<open>
  The ignore callback of \<open>copytree\<close> on a directory and its entries: the names it drops.
  \<open>realpath\<close> is \<open>os.path.realpath\<close>, \<open>None\<close> where it raises.
\<close>

definition blocked_ignore ::
  "(path \<Rightarrow> path option) \<Rightarrow> path \<Rightarrow> path \<Rightarrow> path list \<Rightarrow> bool option
     \<Rightarrow> (path \<Rightarrow> path \<Rightarrow> bool) option \<Rightarrow> path \<Rightarrow> (pystr \<times> staged) list \<Rightarrow> pystr list" where
  "blocked_ignore realpath source resolved_source blocked ci matcher dirpath entries =
     (case relative_to dirpath source of
        None \<Rightarrow> map fst entries
      | Some rel \<Rightarrow>
          map fst (filter (\<lambda>(name, entry).
            if is_blocked ci matcher blocked (rel @ [name]) then True
            else case entry of
              SLink t to_dir \<Rightarrow>
                (case realpath (dirpath @ [name]) of
                   None \<Rightarrow> True
                 | Some target \<Rightarrow>
                     (case relative_to target resolved_source of
                        None \<Rightarrow> False
                      | Some target_rel \<Rightarrow> is_blocked ci matcher blocked target_rel))
            | _ \<Rightarrow> False) entries))"

lemma size_prod_entry: "size_prod (\<lambda>_. 0) size = (\<lambda>p. Suc (size (snd p)))"
  by (auto simp: fun_eq_iff)

text \<open>
  \<open>shutil.copytree(source, copy, symlinks=True, ignore=...)\<close>: links are copied as links, files with
  their permission bits, and an entry that cannot be copied (a special file) makes the call fail
  once the rest is done.
\<close>

function copy_tree ::
    "(path \<Rightarrow> (pystr \<times> staged) list \<Rightarrow> pystr list) \<Rightarrow> path \<Rightarrow> staged \<Rightarrow> staged option"
  and copy_entries ::
    "(path \<Rightarrow> (pystr \<times> staged) list \<Rightarrow> pystr list) \<Rightarrow> path \<Rightarrow> pystr list
      \<Rightarrow> (pystr \<times> staged) list \<Rightarrow> (pystr \<times> staged) list option" where
  "copy_tree ign dir (SDir mode es) = map_option (SDir mode) (copy_entries ign dir (ign dir es) es)"
| "copy_tree ign dir (SFile mode c) = Some (SFile mode c)"
| "copy_tree ign dir (SLink t to_dir) = Some (SLink t to_dir)"
| "copy_tree ign dir SOther = None"
| "copy_entries ign dir dropped [] = Some []"
| "copy_entries ign dir dropped ((n, t) # es) =
     (if n \<in> set dropped then copy_entries ign dir dropped es
      else case (copy_tree ign (dir @ [n]) t, copy_entries ign dir dropped es) of
        (Some t', Some es') \<Rightarrow> Some ((n, t') # es')
      | _ \<Rightarrow> None)"
  by pat_completeness auto
termination
  by (relation "measure (case_sum (\<lambda>(i, d, t). size t)
        (\<lambda>(i, d, dr, es). size_list (\<lambda>p. Suc (size (snd p))) es))")
    (auto simp: size_list_conv_sum_list size_prod_entry)

text \<open>\<open>make_world_accessible\<close>: links are skipped.\<close>

fun world_accessible :: "staged \<Rightarrow> staged" where
  "world_accessible (SDir mode es) = SDir (mode OR 7) (map (\<lambda>(n, t). (n, world_accessible t)) es)"
| "world_accessible (SFile mode c) = SFile (mode OR 6) c"
| "world_accessible t = t"

record stage_env =
  sg_realpath :: "path \<Rightarrow> path option"
  sg_lexists :: "staged \<Rightarrow> path \<Rightarrow> bool"

definition stage_workspace_copy ::
  "stage_env \<Rightarrow> path \<Rightarrow> path \<Rightarrow> staged \<Rightarrow> json \<Rightarrow> bool option
     \<Rightarrow> (path \<Rightarrow> path \<Rightarrow> bool) option \<Rightarrow> exc + staged" where
  "stage_workspace_copy G source resolved_source tree blocked_arg ci matcher =
     (case normalize_blocked_paths blocked_arg of
        Inl e \<Rightarrow> Inl e
      | Inr blocked \<Rightarrow>
          if list_ex (\<lambda>pre. pre = []) blocked
          then Inl (staging_error ''blocked_paths covers the whole workspace'')
          else
            let ign = (if blocked \<noteq> []
                       then blocked_ignore (sg_realpath G) source resolved_source blocked ci matcher
                       else (\<lambda>dirpath entries. []))
            in case copy_tree ign source tree of
                 None \<Rightarrow> Inl (os_error ''Error'')
               | Some copy \<Rightarrow>
                   if list_ex (sg_lexists G copy) blocked
                   then Inl (staging_error ''blocked path present in staged copy'')
                   else Inr (world_accessible copy))"

section \<open>Lemmas: what a staged copy holds\<close>

fun staged_at :: "staged \<Rightarrow> path \<Rightarrow> staged option" where
  "staged_at t [] = Some t"
| "staged_at (SDir mode es) (c # cs) =
     (case map_of es c of None \<Rightarrow> None | Some t \<Rightarrow> staged_at t cs)"
| "staged_at t (c # cs) = None"

lemma staged_at_Cons:
  "staged_at t (c # cs) = Some n \<longleftrightarrow>
     (\<exists>mode es u. t = SDir mode es \<and> map_of es c = Some u \<and> staged_at u cs = Some n)"
  by (cases t) (auto split: option.splits)

lemma job_fold_is_fold_segments: "job_fold = fold_segments"
  by (simp add: fun_eq_iff job_fold_def fold_segments_def)

lemma blocked_items_strings:
  "blocked_items (map JStr bl) = Inr (map normalize_relative_segments bl)"
  by (induction bl) (simp_all add: normalize_relative_segments_def Let_def)

lemma copied_entry:
  assumes "copy_entries ign dir dropped es = Some es'" and "map_of es' c = Some t'"
  shows "\<exists>t. (c, t) \<in> set es \<and> c \<notin> set dropped \<and> copy_tree ign (dir @ [c]) t = Some t'"
  using assms
proof (induction es arbitrary: es')
  case (Cons e es)
  show ?case
  proof (cases e)
    case (Pair n t)
    with Cons.prems Cons.IH show ?thesis
      by (cases "n \<in> set dropped") (auto split: option.splits if_splits)
  qed
qed simp

lemma copied_dir:
  assumes "copy_tree ign dir t = Some (SDir mode es')"
  shows "\<exists>es. t = SDir mode es \<and> copy_entries ign dir (ign dir es) es = Some es'"
  using assms by (cases t) auto

lemma copied_link: "copy_tree ign dir t = Some (SLink a b) \<Longrightarrow> t = SLink a b"
  by (cases t) auto

lemma copied_at:
  assumes "copy_tree ign dir t = Some t'" and "staged_at t' (p @ [c]) = Some n'"
  shows "\<exists>es n. (c, n) \<in> set es \<and> c \<notin> set (ign (dir @ p) es)
            \<and> copy_tree ign (dir @ p @ [c]) n = Some n'"
  using assms
proof (induction p arbitrary: dir t t')
  case Nil
  then obtain mode es' where t': "t' = SDir mode es'" "map_of es' c = Some n'"
    by (auto simp: staged_at_Cons)
  with Nil copied_dir obtain es where "t = SDir mode es" "copy_entries ign dir (ign dir es) es = Some es'"
    by blast
  with copied_entry[OF this(2) t'(2)] show ?case by auto
next
  case (Cons x p)
  then obtain mode es' u' where t': "t' = SDir mode es'" "map_of es' x = Some u'"
    "staged_at u' (p @ [c]) = Some n'"
    by (auto simp: staged_at_Cons)
  with Cons.prems copied_dir obtain es where "copy_entries ign dir (ign dir es) es = Some es'" by blast
  from copied_entry[OF this t'(2)] obtain u where "copy_tree ign (dir @ [x]) u = Some u'" by blast
  from Cons.IH[OF this t'(3)] show ?case by simp
qed

lemma map_of_world: "map_of (map (\<lambda>(n, t). (n, world_accessible t)) es) c = map_option world_accessible (map_of es c)"
  by (induction es) auto

lemma staged_at_world: "staged_at (world_accessible t) p = map_option world_accessible (staged_at t p)"
proof (induction t p rule: staged_at.induct)
  case (2 mode es c cs)
  then show ?case by (simp add: map_of_world split: option.split)
qed simp_all

lemma world_link: "world_accessible t = SLink a b \<longleftrightarrow> t = SLink a b"
  by (cases t) auto

lemma kept_by_ignore:
  assumes "(c, n) \<in> set es"
    and "c \<notin> set (blocked_ignore rp source rs blocked ci matcher (source @ p) es)"
  shows "\<not> is_blocked ci matcher blocked (p @ [c])
       \<and> (case n of SLink t d \<Rightarrow>
            (case rp (source @ p @ [c]) of
               None \<Rightarrow> False
             | Some q \<Rightarrow> (case relative_to q rs of None \<Rightarrow> True
                        | Some rel \<Rightarrow> \<not> is_blocked ci matcher blocked rel))
          | _ \<Rightarrow> True)"
  using assms by (force simp: blocked_ignore_def split: if_splits staged.splits option.splits)

lemma staged_entry:
  assumes "stage_workspace_copy G source rs tree (JArr (map JStr bl)) ci matcher = Inr copy"
    and "staged_at copy (p @ [c]) = Some n" and "bl \<noteq> []"
  shows "\<not> is_blocked ci matcher (map normalize_relative_segments bl) (p @ [c])
       \<and> (case n of SLink t d \<Rightarrow>
            (case sg_realpath G (source @ p @ [c]) of
               None \<Rightarrow> False
             | Some q \<Rightarrow> (case relative_to q rs of None \<Rightarrow> True
                        | Some rel \<Rightarrow> \<not> is_blocked ci matcher (map normalize_relative_segments bl) rel))
          | _ \<Rightarrow> True)"
proof -
  let ?b = "map normalize_relative_segments bl"
  let ?ign = "blocked_ignore (sg_realpath G) source rs ?b ci matcher"
  obtain t where t: "copy_tree ?ign source tree = Some t" and w: "copy = world_accessible t"
    using assms(1,3)
    by (auto simp: stage_workspace_copy_def normalize_blocked_paths_def blocked_items_strings Let_def
        split: if_splits option.splits)
  obtain n0 where at: "staged_at t (p @ [c]) = Some n0" and n: "n = world_accessible n0"
    using assms(2) w by (auto simp: staged_at_world)
  from copied_at[OF t at] obtain es m where "(c, m) \<in> set es" "c \<notin> set (?ign (source @ p) es)"
    "copy_tree ?ign (source @ p @ [c]) m = Some n0" by blast
  with kept_by_ignore[OF this(1,2)] show ?thesis
    using copied_link[of ?ign "source @ p @ [c]" m] n
    by (auto simp: world_link split: staged.splits)
qed

end
