(* ===== verification/CopyBack.thy ===== *)
theory CopyBack
  imports DockerFiles
begin

text \<open>
  \<open>sync_copy_back\<close> of \<open>backend/scopewatch/docker_job.py\<close>: the size check of the staged tree, then the
  walk over it that writes the container's changes to the host. \<open>os.walk\<close> is the loop over a stack of
  directories of the standard library; the body of each visit runs before its subdirectories are
  pushed, so that a name the body removes from \<open>dirnames\<close> is not visited.
\<close>

definition MAX_COPY_BACK_BYTES :: nat where "MAX_COPY_BACK_BYTES = 10 * 1024 * 1024"
definition MAX_COPY_BACK_FILES :: nat where "MAX_COPY_BACK_FILES = 10000"

section \<open>Walking a staged tree\<close>

definition in_dirnames :: "staged \<Rightarrow> bool" where
  "in_dirnames t = (case t of SDir _ _ \<Rightarrow> True | SLink _ to_dir \<Rightarrow> to_dir | _ \<Rightarrow> False)"

definition dirnames :: "(pystr \<times> staged) list \<Rightarrow> (pystr \<times> staged) list" where
  "dirnames es = filter (\<lambda>e. in_dirnames (snd e)) es"

definition filenames :: "(pystr \<times> staged) list \<Rightarrow> (pystr \<times> staged) list" where
  "filenames es = filter (\<lambda>e. \<not> in_dirnames (snd e)) es"

text \<open>The directories pushed after a visit: the real ones among the names that are left.\<close>

fun subdirs :: "path \<Rightarrow> pystr list \<Rightarrow> (pystr \<times> staged) list \<Rightarrow> (path \<times> (pystr \<times> staged) list) list" where
  "subdirs rel pruned [] = []"
| "subdirs rel pruned ((n, SDir mode sub) # es) =
     (if n \<in> set pruned then subdirs rel pruned es
      else (rel @ [n], sub) # subdirs rel pruned es)"
| "subdirs rel pruned (_ # es) = subdirs rel pruned es"

definition walk_start :: "staged \<Rightarrow> (path \<times> (pystr \<times> staged) list) list" where
  "walk_start t = (case t of SDir _ es \<Rightarrow> [([], es)] | _ \<Rightarrow> [])"

definition stack_size :: "(path \<times> (pystr \<times> staged) list) list \<Rightarrow> nat" where
  "stack_size st = sum_list (map (\<lambda>(rel, es). Suc (size_list (\<lambda>p. Suc (size (snd p))) es)) st)"

lemma subdirs_smaller:
  "stack_size (subdirs rel pruned es) \<le> size_list (\<lambda>p. Suc (size (snd p))) es"
  by (induction rel pruned es rule: subdirs.induct)
    (auto simp: stack_size_def size_list_conv_sum_list size_prod_entry)

lemma stack_size_append [simp]: "stack_size (s @ t) = stack_size s + stack_size t"
  by (simp add: stack_size_def)

lemma stack_size_push:
  "stack_size (subdirs rel pruned es) + stack_size rest < stack_size ((rel, es) # rest)"
  using subdirs_smaller[of rel pruned es] by (simp add: stack_size_def)

section \<open>The size check\<close>

definition oversized_error :: "pystr \<Rightarrow> exc" where
  "oversized_error msg = Py_error ''OversizedCopyBackError'' msg"

definition file_size :: "staged \<Rightarrow> nat" where
  "file_size t = (case t of SFile mode c \<Rightarrow> length c | _ \<Rightarrow> 0)"

fun sum_files :: "nat \<Rightarrow> nat \<Rightarrow> (pystr \<times> staged) list \<Rightarrow> exc + nat" where
  "sum_files max_bytes total_bytes [] = Inr total_bytes"
| "sum_files max_bytes total_bytes ((n, t) # fs) =
     (let total' = total_bytes + file_size t in
      if max_bytes < total'
      then Inl (oversized_error (''Staged workspace size ('' @ show_nat total' @ '' bytes) exceeds limit (''
                 @ show_nat max_bytes @ '' bytes).''))
      else sum_files max_bytes total' fs)"

function size_loop ::
  "nat \<Rightarrow> nat \<Rightarrow> (path \<times> (pystr \<times> staged) list) list \<Rightarrow> nat \<Rightarrow> nat \<Rightarrow> exc + nat" where
  "size_loop max_bytes max_files [] total_entries total_bytes = Inr total_bytes"
| "size_loop max_bytes max_files ((rel, es) # stack) total_entries total_bytes =
     (let entries' = total_entries + (length (dirnames es) + length (filenames es)) in
      if max_files < entries'
      then Inl (oversized_error (''Staged workspace entry count ('' @ show_nat entries'
                 @ '') exceeds limit ('' @ show_nat max_files @ '').''))
      else case sum_files max_bytes total_bytes (filenames es) of
             Inl e \<Rightarrow> Inl e
           | Inr bytes' \<Rightarrow>
               size_loop max_bytes max_files (subdirs rel [] es @ stack) entries' bytes')"
  by pat_completeness auto
termination
  by (relation "measure (\<lambda>(mb, mf, stack, te, tb). stack_size stack)") (simp_all add: stack_size_push)

definition check_staged_workspace_size :: "staged \<Rightarrow> nat \<Rightarrow> nat \<Rightarrow> exc + nat" where
  "check_staged_workspace_size t max_bytes max_files =
     size_loop max_bytes max_files (walk_start t) 0 0"

section \<open>Where copy-back may write\<close>

record sync_conf =
  sc_deny :: "path \<Rightarrow> bool"
  sc_root :: path
  sc_blocked :: "path list"
  sc_case :: "bool option"
  sc_matcher :: "(host \<Rightarrow> path \<Rightarrow> path \<Rightarrow> bool) option"

definition blocked_now :: "sync_conf \<Rightarrow> host \<Rightarrow> path \<Rightarrow> bool" where
  "blocked_now C fs parts =
     is_blocked (sc_case C) (map_option (\<lambda>m. m fs) (sc_matcher C)) (sc_blocked C) parts"

definition contains_now :: "sync_conf \<Rightarrow> host \<Rightarrow> path \<Rightarrow> bool" where
  "contains_now C fs parts =
     contains_blocked (sc_case C) (map_option (\<lambda>m. m fs) (sc_matcher C)) (sc_blocked C) parts"

text \<open>
  \<open>resolve_workspace_target(root, target, directory_without_links=True)\<close>: every component from the
  file system root down is a real directory or missing, then both resolve inside the root.
\<close>

definition real_component :: "host \<Rightarrow> path \<Rightarrow> exc option" where
  "real_component fs p =
     (case host_lstat fs p of
        Lmissing \<Rightarrow> None
      | Lstat HDir \<Rightarrow> None
      | Lstat _ \<Rightarrow> Some (Py_error ''ValueError'' ''Destination is not a real directory.'')
      | Lerror \<Rightarrow> Some (os_error ''OSError''))"

definition resolve_real_target :: "host \<Rightarrow> path \<Rightarrow> path \<Rightarrow> exc + path" where
  "resolve_real_target fs root target =
     (if relative_to target root = None then Inl (Py_error ''ValueError'' [])
      else if ''..'' \<in> set target
      then Inl (Py_error ''ValueError'' ''Path escapes workspace boundary.'')
      else case find (\<lambda>p. real_component fs p \<noteq> None) (prefixes target) of
        Some p \<Rightarrow> Inl (the (real_component fs p))
      | None \<Rightarrow>
          (case (host_resolve fs root, host_resolve fs target) of
             (Some resolved_root, Some resolved_target) \<Rightarrow>
               if relative_to resolved_target resolved_root = None
               then Inl (Py_error ''ValueError'' []) else Inr resolved_target
           | _ \<Rightarrow> Inl (os_error ''RuntimeError'')))"

definition dest_dir_allowed :: "sync_conf \<Rightarrow> path \<Rightarrow> host \<Rightarrow> bool" where
  "dest_dir_allowed C dest_dir fs =
     (case (resolve_real_target fs (sc_root C) dest_dir, host_resolve fs (sc_root C)) of
        (Inr target, Some root) \<Rightarrow>
          (case relative_to target root of
             None \<Rightarrow> False
           | Some rel \<Rightarrow> \<not> blocked_now C fs rel)
      | _ \<Rightarrow> False)"

section \<open>The visit of one directory\<close>

text \<open>
  The loop over \<open>list(dirnames)\<close>: the names it removes and the paths it refuses. A real directory
  is left for its own visit.
\<close>

fun sync_dirs ::
  "sync_conf \<Rightarrow> path \<Rightarrow> (pystr \<times> staged) list \<Rightarrow> pystr list \<Rightarrow> pystr list \<Rightarrow> (pystr list \<times> pystr list) hx" where
  "sync_dirs C rel [] pruned refused fs = (Inr (pruned, refused), fs)"
| "sync_dirs C rel ((n, t) # es) pruned refused fs =
     (if blocked_now C fs (rel @ [n])
      then sync_dirs C rel es (pruned @ [n]) (refused @ [join ''/'' (rel @ [n])]) fs
      else case t of
        SLink target to_dir \<Rightarrow>
          if contains_now C fs (rel @ [n])
          then sync_dirs C rel es pruned (refused @ [join ''/'' (rel @ [n])]) fs
          else (case replace_link (sc_deny C) target (sc_root C @ rel @ [n]) fs of
                  (Inl e, fs') \<Rightarrow> (Inl e, fs')
                | (Inr _, fs') \<Rightarrow> sync_dirs C rel es pruned refused fs')
      | _ \<Rightarrow> sync_dirs C rel es pruned refused fs)"

text \<open>One entry of \<open>filenames\<close> that is neither blocked nor an ancestor of a blocked path.\<close>

definition sync_file :: "sync_conf \<Rightarrow> path \<Rightarrow> pystr \<Rightarrow> staged \<Rightarrow> unit hx" where
  "sync_file C dest name t fs =
     (case t of
        SLink target to_dir \<Rightarrow> replace_link (sc_deny C) target dest fs
      | SFile mode content \<Rightarrow>
          (case (if host_is_symlink fs dest then host_unlink (sc_deny C) dest fs
                 else if host_is_dir fs dest \<and> \<not> host_is_symlink fs dest
                 then host_rmtree (sc_deny C) dest fs
                 else (Inr (), fs)) of
             (Inl e, fs') \<Rightarrow> (Inl e, fs')
           | (Inr _, fs') \<Rightarrow> host_copy2 (sc_deny C) name mode content dest fs')
      | _ \<Rightarrow> (Inr (), fs))"

fun sync_files ::
  "sync_conf \<Rightarrow> path \<Rightarrow> (pystr \<times> staged) list \<Rightarrow> pystr list \<Rightarrow> pystr list hx" where
  "sync_files C rel [] refused fs = (Inr refused, fs)"
| "sync_files C rel ((n, t) # es) refused fs =
     (if blocked_now C fs (rel @ [n]) \<or> contains_now C fs (rel @ [n])
      then sync_files C rel es (refused @ [join ''/'' (rel @ [n])]) fs
      else case sync_file C (sc_root C @ rel @ [n]) n t fs of
             (Inl e, fs') \<Rightarrow> (Inl e, fs')
           | (Inr _, fs') \<Rightarrow> sync_files C rel es refused fs')"

text \<open>The body of the walk: the names removed from \<open>dirnames\<close> (all of them where the directory is refused).\<close>

definition sync_visit ::
  "sync_conf \<Rightarrow> path \<Rightarrow> (pystr \<times> staged) list \<Rightarrow> pystr list \<Rightarrow> (pystr list \<times> pystr list) hx" where
  "sync_visit C rel es refused fs =
     (if \<not> dest_dir_allowed C (sc_root C @ rel) fs
      then (Inr (map fst es, refused @ [if rel = [] then ''.'' else join ''/'' rel]), fs)
      else case host_mkdirs (sc_deny C) [] (sc_root C @ rel) fs of
        (Inl e, fs1) \<Rightarrow> (Inl e, fs1)
      | (Inr _, fs1) \<Rightarrow>
          (case sync_dirs C rel (dirnames es) [] refused fs1 of
             (Inl e, fs2) \<Rightarrow> (Inl e, fs2)
           | (Inr (pruned, refused'), fs2) \<Rightarrow>
               (case sync_files C rel (filenames es) refused' fs2 of
                  (Inl e, fs3) \<Rightarrow> (Inl e, fs3)
                | (Inr refused'', fs3) \<Rightarrow> (Inr (pruned, refused''), fs3))))"

function sync_loop ::
  "sync_conf \<Rightarrow> (path \<times> (pystr \<times> staged) list) list \<Rightarrow> pystr list \<Rightarrow> pystr list hx" where
  "sync_loop C [] refused fs = (Inr refused, fs)"
| "sync_loop C ((rel, es) # stack) refused fs =
     (case sync_visit C rel es refused fs of
        (Inl e, fs') \<Rightarrow> (Inl e, fs')
      | (Inr (pruned, refused'), fs') \<Rightarrow>
          sync_loop C (subdirs rel pruned es @ stack) refused' fs')"
  by pat_completeness auto
termination
  by (relation "measure (\<lambda>(C, stack, refused, fs). stack_size stack)") (simp_all add: stack_size_push)

definition sync_copy_back ::
  "sync_conf \<Rightarrow> staged \<Rightarrow> json \<Rightarrow> nat \<Rightarrow> nat \<Rightarrow> pystr list hx" where
  "sync_copy_back C t blocked_arg max_bytes max_files fs =
     (case check_staged_workspace_size t max_bytes max_files of
        Inl e \<Rightarrow> (Inl e, fs)
      | Inr total_bytes \<Rightarrow>
          (case normalize_blocked_paths blocked_arg of
             Inl e \<Rightarrow> (Inl e, fs)
           | Inr blocked \<Rightarrow>
               (case sync_loop (C\<lparr>sc_blocked := blocked\<rparr>) (walk_start t) [] fs of
                  (Inl e, fs') \<Rightarrow> (Inl e, fs')
                | (Inr refused, fs') \<Rightarrow> (Inr (sorted_strs (remdups refused)), fs'))))"

end
