(* ===== verification/CopyBackProps.thy ===== *)
theory CopyBackProps
  imports CopyBack
begin

text \<open>
  What copying back may change. \<open>host_ok\<close> is the shape of a file system (an entry lies in a
  directory), \<open>real_path\<close> a directory no link leads to. The interface \<open>protected_paths\<close> states what
  the blocked-path matcher has to promise for a set of paths to be safe from a copy-back; the walk is
  proved once against it.
\<close>

section \<open>Real directories\<close>

definition host_ok :: "host \<Rightarrow> bool" where
  "host_ok fs \<longleftrightarrow> (\<forall>p c. fs (p @ [c]) \<noteq> None \<longrightarrow> host_at fs p = Some HDir)"

definition real_path :: "host \<Rightarrow> path \<Rightarrow> bool" where
  "real_path fs p \<longleftrightarrow> ''..'' \<notin> set p \<and> (\<forall>q. prefix q p \<longrightarrow> host_at fs q = Some HDir)"

definition open_path :: "host \<Rightarrow> path \<Rightarrow> bool" where
  "open_path fs p \<longleftrightarrow>
     ''..'' \<notin> set p \<and> (\<forall>q. prefix q p \<longrightarrow> host_at fs q = None \<or> host_at fs q = Some HDir)"

lemma real_open: "real_path fs p \<Longrightarrow> open_path fs p"
  by (simp add: real_path_def open_path_def)

lemma real_prefix: "real_path fs p \<Longrightarrow> prefix q p \<Longrightarrow> real_path fs q"
  unfolding real_path_def by (meson prefix_order.trans set_mono_prefix subset_code(1))

lemma walk_open:
  assumes "''..'' \<notin> set cs"
    and "\<And>q t. prefix q cs \<Longrightarrow> q \<noteq> [] \<Longrightarrow> fs (cur @ q) \<noteq> Some (HLink t)"
  shows "walk_from fs n cur (cs @ rest) = walk_from fs n (cur @ cs) rest"
  using assms
proof (induction cs arbitrary: cur)
  case (Cons c cs)
  have nolink: "fs (cur @ [c]) \<noteq> Some (HLink t)" for t using Cons.prems(2)[of "[c]"] by simp
  have "walk_from fs n (cur @ [c]) (cs @ rest) = walk_from fs n ((cur @ [c]) @ cs) rest"
  proof (rule Cons.IH)
    show "''..'' \<notin> set cs" using Cons.prems(1) by simp
    show "fs ((cur @ [c]) @ q) \<noteq> Some (HLink t)" if "prefix q cs" "q \<noteq> []" for q t
      using Cons.prems(2)[of "c # q" t] that by simp
  qed
  then show ?case using Cons.prems(1) nolink by (auto split: option.split hnode.split)
qed simp

lemma resolve_open_append:
  assumes "open_path fs p"
  shows "host_resolve fs (p @ rest) = walk_from fs MAXSYMLINKS p rest"
proof -
  have "fs ([] @ q) \<noteq> Some (HLink t)" if "prefix q p" "q \<noteq> []" for q t
    using assms that by (force simp: open_path_def host_at_def)
  with walk_open[of p fs "[]" MAXSYMLINKS rest] assms show ?thesis
    by (simp add: host_resolve_def open_path_def)
qed

lemma resolve_open: "open_path fs p \<Longrightarrow> host_resolve fs p = Some p"
  using resolve_open_append[of fs p "[]"] by simp

lemma resolve_real: "real_path fs p \<Longrightarrow> host_resolve fs p = Some p"
  by (simp add: real_open resolve_open)

lemma resolve_entry:
  assumes "real_path fs d" and "n \<noteq> ''..''" and "\<And>t. fs (d @ [n]) \<noteq> Some (HLink t)"
  shows "host_resolve fs (d @ [n]) = Some (d @ [n])"
  using resolve_open_append[OF real_open[OF assms(1)], of "[n]"] assms(2,3)
  by (auto split: option.split hnode.split)

lemma resolve_parent: "real_path fs d \<Longrightarrow> host_resolve fs (d @ [''..'']) = Some (butlast d)"
  using resolve_open_append[OF real_open, of fs d "[''..'']"] by simp

lemma lstat_entry:
  assumes "real_path fs d"
  shows "host_lstat fs (d @ [n]) = (case fs (d @ [n]) of Some x \<Rightarrow> Lstat x | None \<Rightarrow> Lmissing)"
  using resolve_real[OF assms] assms by (simp add: host_lstat_def real_path_def)

lemma symlink_entry:
  "real_path fs d \<Longrightarrow> host_is_symlink fs (d @ [n]) \<longleftrightarrow> (\<exists>t. fs (d @ [n]) = Some (HLink t))"
  by (auto simp: host_is_symlink_def lstat_entry split: option.splits hnode.splits)

lemma lexists_entry: "real_path fs d \<Longrightarrow> host_lexists fs (d @ [n]) \<longleftrightarrow> fs (d @ [n]) \<noteq> None"
  by (auto simp: host_lexists_def lstat_entry split: option.splits)

lemma is_dir_entry:
  assumes "real_path fs d" and "\<And>t. fs (d @ [n]) \<noteq> Some (HLink t)"
  shows "host_is_dir fs (d @ [n]) \<longleftrightarrow> n = ''..'' \<or> fs (d @ [n]) = Some HDir"
proof (cases "n = ''..''")
  case True
  have "real_path fs (butlast d)" using assms(1) by (rule real_prefix) (rule prefixeq_butlast)
  then show ?thesis using True resolve_parent[OF assms(1)]
    by (simp add: host_is_dir_def real_path_def)
next
  case False
  then show ?thesis using resolve_entry[OF assms(1) False assms(2)] by (simp add: host_is_dir_def host_at_def)
qed

lemma op_entry:
  assumes "real_path fs d"
  shows "host_op deny (d @ [n]) f fs =
    (if deny (d @ [n]) then (Inl (os_error ''PermissionError''), fs) else (Inr (), f (d @ [n]) fs))"
  using resolve_real[OF assms] assms by (simp add: host_op_def real_path_def)

section \<open>An operation on an entry only touches what lies at or below it\<close>

definition touches :: "path \<Rightarrow> host \<Rightarrow> host \<Rightarrow> bool" where
  "touches p fs fs' \<longleftrightarrow> (\<forall>q. fs' q \<noteq> fs q \<longrightarrow> prefix p q) \<and> (host_ok fs \<longrightarrow> host_ok fs')"

lemma touches_refl [simp, intro]: "touches p fs fs"
  by (simp add: touches_def)

lemma touches_trans: "touches p fs fs1 \<Longrightarrow> touches p fs1 fs2 \<Longrightarrow> touches p fs fs2"
  unfolding touches_def by metis

lemma not_prefix_entry: "prefix q d \<Longrightarrow> \<not> prefix (d @ [n]) q"
  by (auto simp: prefix_def)

lemma touches_above: "touches (d @ [n]) fs fs' \<Longrightarrow> prefix q d \<Longrightarrow> host_at fs' q = host_at fs q"
  using not_prefix_entry unfolding touches_def host_at_def by metis

lemma touches_real: "touches (d @ [n]) fs fs' \<Longrightarrow> real_path fs d \<Longrightarrow> real_path fs' d"
  using touches_above unfolding real_path_def by metis

lemma touches_update:
  assumes "real_path fs d" and "fs (d @ [n]) \<noteq> Some HDir"
  shows "touches (d @ [n]) fs (fs(d @ [n] := v))"
proof -
  let ?fs = "fs(d @ [n] := v)"
  have "host_at ?fs p = Some HDir" if ok: "host_ok fs" and some: "?fs (p @ [c]) \<noteq> None" for p c
  proof -
    have "host_at fs p = Some HDir"
    proof (cases "p @ [c] = d @ [n]")
      case True
      then show ?thesis using assms(1) by (simp add: real_path_def)
    next
      case False
      then show ?thesis using ok some by (auto simp: host_ok_def split: if_splits)
    qed
    then show ?thesis using assms(2) by (auto simp: host_at_def split: if_splits)
  qed
  then show ?thesis unfolding touches_def by (auto simp: host_ok_def)
qed

lemma touches_rmtree:
  "touches p fs (\<lambda>x. if prefix p x then None else fs x)"
proof -
  have "prefix p q \<Longrightarrow> prefix p (q @ [c])" for q c by simp
  then show ?thesis
    unfolding touches_def host_ok_def by (auto simp: host_at_def)
qed

lemma op_touches:
  assumes "real_path fs d" and "touches (d @ [n]) fs (f (d @ [n]) fs)"
  shows "touches (d @ [n]) fs (snd (host_op deny (d @ [n]) f fs))"
  using assms by (simp add: op_entry)

lemma unlink_touches:
  "real_path fs d \<Longrightarrow> fs (d @ [n]) \<noteq> Some HDir \<Longrightarrow> touches (d @ [n]) fs (snd (host_unlink deny (d @ [n]) fs))"
  by (simp add: host_unlink_def op_touches touches_update)

lemma rmtree_touches:
  "real_path fs d \<Longrightarrow> touches (d @ [n]) fs (snd (host_rmtree deny (d @ [n]) fs))"
  by (simp add: host_rmtree_def op_touches touches_rmtree)

lemma symlink_touches:
  "real_path fs d \<Longrightarrow> touches (d @ [n]) fs (snd (host_symlink deny (d @ [n]) t fs))"
  by (auto simp: host_symlink_def lexists_entry intro!: op_touches touches_update)

lemma not_dir_entry:
  assumes "real_path fs d" and "\<not> (host_is_dir fs (d @ [n]) \<and> \<not> host_is_symlink fs (d @ [n]))"
  shows "fs (d @ [n]) \<noteq> Some HDir"
  using assms is_dir_entry[of fs d n] by (auto simp: symlink_entry)

lemma replace_link_touches:
  assumes "real_path fs d"
  shows "touches (d @ [n]) fs (snd (replace_link deny t (d @ [n]) fs))"
proof -
  let ?p = "d @ [n]"
  let ?r = "if host_lexists fs ?p
            then if host_is_dir fs ?p \<and> \<not> host_is_symlink fs ?p
                 then host_rmtree deny ?p fs else host_unlink deny ?p fs
            else (Inr (), fs)"
  have first: "touches ?p fs (snd ?r)"
    using assms by (auto simp: rmtree_touches intro!: unlink_touches dest: not_dir_entry)
  have "touches ?p (snd ?r) (snd (host_symlink deny ?p t (snd ?r)))"
    using symlink_touches[OF touches_real[OF first assms]] .
  with first show ?thesis
    unfolding replace_link_def
    by (cases ?r) (auto split: sum.split dest: touches_trans)
qed

lemma copy2_touches:
  assumes "real_path fs d" and "fs (d @ [n]) \<noteq> Some HDir" and "\<And>t. fs (d @ [n]) \<noteq> Some (HLink t)"
  shows "touches (d @ [n]) fs (snd (host_copy2 deny n mode c (d @ [n]) fs))"
proof (cases "n = ''..''")
  case True
  have up: "real_path fs (butlast d)" "real_path fs (butlast (butlast d))"
    using assms(1) by (meson prefixeq_butlast real_prefix prefix_order.trans)+
  have "host_resolve fs (d @ [''..'', ''..'']) = Some (butlast (butlast d))"
    using resolve_open_append[OF real_open[OF assms(1)], of "[''..'', ''..'']"] by simp
  moreover have "host_at fs (butlast (butlast d)) = Some HDir" using up by (simp add: real_path_def)
  moreover have "host_is_dir fs (d @ [n])" using is_dir_entry[OF assms(1,3)] True by simp
  ultimately show ?thesis using True
    by (auto simp: host_copy2_def Let_def host_at_def split: if_splits)
next
  case False
  then have "\<not> host_is_dir fs (d @ [n])" using is_dir_entry[OF assms(1,3)] assms(2) by simp
  then show ?thesis
    using resolve_entry[OF assms(1) False assms(3)] assms
    by (auto simp: host_copy2_def host_at_def intro!: op_touches touches_update)
qed

lemma host_op_Inr: "host_op deny p f fs = (Inr u, fs') \<Longrightarrow> real_path fs d \<Longrightarrow> p = d @ [n] \<Longrightarrow> fs' = f p fs"
  by (auto simp: op_entry split: if_splits)

lemma sync_file_touches:
  assumes "real_path fs d"
  shows "touches (d @ [n]) fs (snd (sync_file C (d @ [n]) n t fs))"
proof (cases t)
  case (SFile mode c)
  let ?p = "d @ [n]"
  let ?r = "if host_is_symlink fs ?p then host_unlink (sc_deny C) ?p fs
            else if host_is_dir fs ?p \<and> \<not> host_is_symlink fs ?p then host_rmtree (sc_deny C) ?p fs
            else (Inr (), fs)"
  have first: "touches ?p fs (snd ?r)"
    using assms by (auto simp: rmtree_touches symlink_entry intro!: unlink_touches)
  note real = touches_real[OF first assms]
  have gone: "fs' ?p \<noteq> Some HDir \<and> (\<forall>t. fs' ?p \<noteq> Some (HLink t))" if "?r = (Inr u, fs')" for u fs'
  proof (cases "host_is_symlink fs ?p \<or> host_is_dir fs ?p")
    case True
    with that assms show ?thesis
      by (auto simp: host_unlink_def host_rmtree_def op_entry split: if_splits)
  next
    case False
    with that not_dir_entry[OF assms, of n] assms show ?thesis by (auto simp: symlink_entry)
  qed
  show ?thesis
  proof (cases ?r)
    case (Pair x fs')
    show ?thesis
    proof (cases x)
      case (Inl e)
      with Pair first SFile show ?thesis by (simp add: sync_file_def)
    next
      case (Inr u)
      with Pair have r: "?r = (Inr u, fs')" by simp
      from gone[OF r] real r have "touches ?p fs' (snd (host_copy2 (sc_deny C) n mode c ?p fs'))"
        by (intro copy2_touches) auto
      with first r SFile show ?thesis
        by (auto simp: sync_file_def dest: touches_trans)
    qed
  qed
qed (auto simp: sync_file_def replace_link_touches assms)

section \<open>Creating the destination\<close>

lemma open_prefix: "open_path fs p \<Longrightarrow> prefix q p \<Longrightarrow> open_path fs q"
  unfolding open_path_def by (meson prefix_order.trans set_mono_prefix subset_code(1))

lemma is_dir_open: "open_path fs p \<Longrightarrow> host_is_dir fs p \<longleftrightarrow> host_at fs p = Some HDir"
  by (simp add: host_is_dir_def resolve_open)

lemma mkdir_step:
  assumes "real_path fs seen" and "open_path fs (seen @ [c])" and "fs (seen @ [c]) \<noteq> Some HDir"
  shows "host_ok fs \<Longrightarrow> host_ok (fs(seen @ [c] \<mapsto> HDir))" "real_path (fs(seen @ [c] \<mapsto> HDir)) (seen @ [c])"
proof -
  let ?fs = "fs(seen @ [c] \<mapsto> HDir)"
  have t: "touches (seen @ [c]) fs ?fs" by (rule touches_update[OF assms(1,3)])
  then show "host_ok fs \<Longrightarrow> host_ok ?fs" by (simp add: touches_def)
  show "real_path ?fs (seen @ [c])"
    using touches_real[OF t assms(1)] assms(2) by (auto simp: real_path_def open_path_def host_at_def)
qed

lemma mkdirs_creates:
  assumes "real_path fs seen" and "open_path fs (seen @ cs)"
    and "host_mkdirs deny seen cs fs = (r, fs')"
  shows "(\<forall>q. fs' q \<noteq> fs q \<longrightarrow> prefix q (seen @ cs) \<and> host_at fs q = None) \<and> (host_ok fs \<longrightarrow> host_ok fs')
       \<and> (r = Inr () \<longrightarrow> real_path fs' (seen @ cs))"
  using assms
proof (induction deny seen cs fs arbitrary: fs' rule: host_mkdirs.induct)
  case (2 deny seen c cs fs)
  let ?p = "seen @ [c]"
  have op: "open_path fs ?p" by (rule open_prefix[OF "2.prems"(2)]) simp
  show ?case
  proof (cases "fs ?p = Some HDir")
    case True
    then have dir: "host_is_dir fs ?p" using is_dir_open[OF op] by (simp add: host_at_def)
    have "real_path fs ?p" using "2.prems"(1) op True
      by (auto simp: real_path_def open_path_def host_at_def)
    with "2.IH"(1)[OF refl dir] "2.prems" dir show ?thesis by simp
  next
    case False
    then have none: "fs ?p = None" using op by (auto simp: open_path_def host_at_def)
    then have nd: "\<not> host_is_dir fs ?p" "\<not> host_lexists fs ?p"
      using is_dir_open[OF op] lexists_entry[OF "2.prems"(1)] by (simp_all add: host_at_def)
    show ?thesis
    proof (cases "deny ?p")
      case True
      with "2.prems" nd show ?thesis by (auto simp: Let_def op_entry)
    next
      case allowed: False
      let ?fs = "fs(?p \<mapsto> HDir)"
      have mk: "host_op deny ?p (\<lambda>q fs. fs(q \<mapsto> HDir)) fs = (Inr (), ?fs)"
        using allowed by (simp add: op_entry[OF "2.prems"(1)])
      note step = mkdir_step[OF "2.prems"(1) op False]
      have op': "open_path ?fs (?p @ cs)"
        using "2.prems"(2) by (auto simp: open_path_def host_at_def)
      have call: "host_mkdirs deny ?p cs ?fs = (r, fs')"
        using "2.prems"(3) nd mk by (simp add: Let_def)
      note ih = "2.IH"(2)[OF refl nd mk[symmetric] refl step(2) op' call]
      have "prefix q (seen @ c # cs) \<and> host_at fs q = None" if "fs' q \<noteq> fs q" for q
      proof (cases "q = ?p")
        case True
        then show ?thesis using none by (simp add: host_at_def)
      next
        case False
        then have same: "?fs q = fs q" "host_at ?fs q = host_at fs q" by (simp_all add: host_at_def)
        have "prefix q (?p @ cs) \<and> host_at ?fs q = None" using ih that same(1) by metis
        with same(2) show ?thesis by simp
      qed
      moreover have "host_ok fs \<longrightarrow> host_ok fs'" using ih step(1) by metis
      moreover have "r = Inr () \<longrightarrow> real_path fs' (?p @ cs)" using ih by metis
      ultimately show ?thesis by simp
    qed
  qed
qed simp

section \<open>The check of a destination directory\<close>

lemma components_open:
  assumes "host_ok fs" and "''..'' \<notin> set p"
    and "\<And>q. prefix q p \<Longrightarrow> real_component fs q = None"
  shows "open_path fs p"
  using assms
proof (induction p rule: rev_induct)
  case Nil
  then show ?case by (simp add: open_path_def host_at_def)
next
  case (snoc c p)
  then have op: "open_path fs p" by simp
  have "host_at fs (p @ [c]) = None \<or> host_at fs (p @ [c]) = Some HDir"
  proof (cases "fs (p @ [c])")
    case (Some x)
    then have "host_at fs p = Some HDir" using snoc.prems(1) by (auto simp: host_ok_def)
    with Some have "host_lstat fs (p @ [c]) = Lstat x"
      using resolve_open[OF op] by (simp add: host_lstat_def)
    moreover have "real_component fs (p @ [c]) = None" using snoc.prems(3) by simp
    ultimately show ?thesis using Some by (auto simp: real_component_def host_at_def split: hnode.splits)
  qed (simp add: host_at_def)
  with op snoc.prems(2) show ?case by (auto simp: open_path_def)
qed

lemma dest_allowed:
  assumes "dest_dir_allowed C (sc_root C @ rel) fs" and "host_ok fs"
  shows "open_path fs (sc_root C @ rel) \<and> \<not> blocked_now C fs rel"
proof -
  let ?d = "sc_root C @ rel"
  obtain t where t: "resolve_real_target fs (sc_root C) ?d = Inr t"
    using assms(1) by (auto simp: dest_dir_allowed_def split: sum.splits)
  then have "''..'' \<notin> set ?d" "find (\<lambda>p. real_component fs p \<noteq> None) (prefixes ?d) = None"
    by (auto simp: resolve_real_target_def split: if_splits option.splits)
  then have op: "open_path fs ?d"
    using assms(2) by (intro components_open) (auto simp: find_None_iff)
  then have "open_path fs (sc_root C)" by (rule open_prefix) simp
  with op have "host_resolve fs ?d = Some ?d" "host_resolve fs (sc_root C) = Some (sc_root C)"
    by (simp_all add: resolve_open)
  moreover from this t have "t = ?d"
    by (auto simp: resolve_real_target_def split: if_splits option.splits)
  ultimately show ?thesis using assms(1) t op by (simp add: dest_dir_allowed_def)
qed

section \<open>The interface of a blocked-path check, and the walk over it\<close>

definition inside :: "path \<Rightarrow> (path \<Rightarrow> bool) \<Rightarrow> host \<Rightarrow> host \<Rightarrow> bool" where
  "inside root B fs fs' \<longleftrightarrow>
     (\<forall>q. fs' q \<noteq> fs q \<longrightarrow> (\<exists>rel. q = root @ rel \<and> rel \<noteq> [] \<and> \<not> B rel))
     \<and> (host_ok fs \<longrightarrow> host_ok fs')"

lemma inside_refl [simp, intro]: "inside root B fs fs"
  by (simp add: inside_def)

lemma inside_trans: "inside root B fs fs1 \<Longrightarrow> inside root B fs1 fs2 \<Longrightarrow> inside root B fs fs2"
  unfolding inside_def by metis

lemma inside_ok: "inside root B fs fs' \<Longrightarrow> host_ok fs \<Longrightarrow> host_ok fs'"
  by (simp add: inside_def)

lemma inside_root: "inside root B fs fs' \<Longrightarrow> real_path fs root \<Longrightarrow> real_path fs' root"
proof -
  assume i: "inside root B fs fs'" and r: "real_path fs root"
  have "fs' q = fs q" if "prefix q root" for q
    using i that by (auto simp: inside_def prefix_def)
  with r show ?thesis unfolding real_path_def host_at_def by metis
qed

locale protected_paths =
  fixes C :: sync_conf and B :: "path \<Rightarrow> bool"
  assumes protected_blocked: "B p \<Longrightarrow> blocked_now C fs p"
    and protected_below: "B p \<Longrightarrow> B (p @ x)"
    and protected_split: "B (p @ x) \<Longrightarrow> B p \<or> contains_now C fs p"
begin

lemma touch_inside:
  assumes "touches (sc_root C @ rel @ [n]) fs fs'"
    and "\<not> blocked_now C fs (rel @ [n])" and "\<not> contains_now C fs (rel @ [n])"
  shows "inside (sc_root C) B fs fs'"
proof -
  have "\<exists>r. q = sc_root C @ r \<and> r \<noteq> [] \<and> \<not> B r" if "fs' q \<noteq> fs q" for q
  proof -
    have "prefix (sc_root C @ rel @ [n]) q" using that assms(1) unfolding touches_def by blast
    then obtain x where "q = sc_root C @ ((rel @ [n]) @ x)" by (auto simp: prefix_def)
    moreover have "\<not> B ((rel @ [n]) @ x)"
      using protected_split protected_blocked assms(2,3) by blast
    ultimately show ?thesis by blast
  qed
  with assms(1) show ?thesis by (simp add: inside_def touches_def)
qed

lemma sync_dirs_inside:
  assumes "real_path fs (sc_root C @ rel)" and "sync_dirs C rel es pruned refused fs = (r, fs')"
  shows "inside (sc_root C) B fs fs' \<and> real_path fs' (sc_root C @ rel)"
  using assms
proof (induction es arbitrary: pruned refused fs)
  case Nil
  then show ?case by simp
next
  case (Cons e es)
  obtain n t where e: "e = (n, t)" by (cases e)
  show ?case
  proof (cases "blocked_now C fs (rel @ [n])")
    case True
    with Cons e show ?thesis by auto
  next
    case free: False
    show ?thesis
    proof (cases "\<exists>target to_dir. t = SLink target to_dir \<and> \<not> contains_now C fs (rel @ [n])")
      case True
      then obtain target to_dir where t: "t = SLink target to_dir"
        and open_below: "\<not> contains_now C fs (rel @ [n])" by blast
      obtain x fs1 where x: "replace_link (sc_deny C) target (sc_root C @ rel @ [n]) fs = (x, fs1)"
        by (cases "replace_link (sc_deny C) target (sc_root C @ rel @ [n]) fs")
      have tch: "touches ((sc_root C @ rel) @ [n]) fs fs1"
        using replace_link_touches[OF Cons.prems(1), of n "sc_deny C" target] x by simp
      then have "inside (sc_root C) B fs fs1" using touch_inside free open_below by simp
      moreover have "real_path fs1 (sc_root C @ rel)" using touches_real[OF tch Cons.prems(1)] .
      ultimately show ?thesis
        using Cons e t free open_below x by (auto split: sum.splits dest: inside_trans)
    next
      case False
      with Cons e free show ?thesis by (auto split: staged.splits if_splits)
    qed
  qed
qed

lemma sync_files_inside:
  assumes "real_path fs (sc_root C @ rel)" and "sync_files C rel es refused fs = (r, fs')"
  shows "inside (sc_root C) B fs fs' \<and> real_path fs' (sc_root C @ rel)"
  using assms
proof (induction es arbitrary: refused fs)
  case Nil
  then show ?case by simp
next
  case (Cons e es)
  obtain n t where e: "e = (n, t)" by (cases e)
  show ?case
  proof (cases "blocked_now C fs (rel @ [n]) \<or> contains_now C fs (rel @ [n])")
    case True
    with Cons e show ?thesis by auto
  next
    case False
    obtain x fs1 where x: "sync_file C (sc_root C @ rel @ [n]) n t fs = (x, fs1)"
      by (cases "sync_file C (sc_root C @ rel @ [n]) n t fs")
    have tch: "touches ((sc_root C @ rel) @ [n]) fs fs1"
      using sync_file_touches[OF Cons.prems(1), of n C t] x by simp
    then have "inside (sc_root C) B fs fs1" using touch_inside False by simp
    moreover have "real_path fs1 (sc_root C @ rel)" using touches_real[OF tch Cons.prems(1)] .
    ultimately show ?thesis
      using Cons e False x by (auto split: sum.splits dest: inside_trans)
  qed
qed

lemma mkdirs_inside:
  assumes "real_path fs (sc_root C)" "open_path fs (sc_root C @ rel)" "\<not> B rel"
    and "host_mkdirs deny [] (sc_root C @ rel) fs = (r, fs')"
  shows "inside (sc_root C) B fs fs' \<and> (r = Inr () \<longrightarrow> real_path fs' (sc_root C @ rel))"
proof -
  have "real_path fs []" by (simp add: real_path_def host_at_def)
  note made = mkdirs_creates[OF this _ assms(4), simplified, OF assms(2)]
  have "\<exists>x. q = sc_root C @ x \<and> x \<noteq> [] \<and> \<not> B x" if "fs' q \<noteq> fs q" for q
  proof -
    have q: "prefix q (sc_root C @ rel)" "host_at fs q = None" using made that by auto
    then have "\<not> prefix q (sc_root C)" using assms(1) by (auto simp: real_path_def)
    with q(1) obtain x where x: "q = sc_root C @ x" "prefix x rel" by (auto simp: prefix_append)
    then obtain y where "rel = x @ y" by (auto simp: prefix_def)
    moreover have "x \<noteq> []" using x(1) \<open>\<not> prefix q (sc_root C)\<close> by auto
    ultimately show ?thesis using assms(3) protected_below x(1) by blast
  qed
  with made show ?thesis by (simp add: inside_def)
qed

lemma sync_visit_inside:
  assumes "host_ok fs" "real_path fs (sc_root C)" and "sync_visit C rel es refused fs = (r, fs')"
  shows "inside (sc_root C) B fs fs'"
proof (cases "dest_dir_allowed C (sc_root C @ rel) fs")
  case False
  with assms(3) show ?thesis by (simp add: sync_visit_def)
next
  case True
  from dest_allowed[OF this assms(1)] protected_blocked
  have op: "open_path fs (sc_root C @ rel)" "\<not> B rel" by blast+
  obtain x1 fs1 where m: "host_mkdirs (sc_deny C) [] (sc_root C @ rel) fs = (x1, fs1)"
    by (cases "host_mkdirs (sc_deny C) [] (sc_root C @ rel) fs")
  note made = mkdirs_inside[OF assms(2) op m]
  show ?thesis
  proof (cases x1)
    case (Inl e)
    with True m made assms(3) show ?thesis by (simp add: sync_visit_def)
  next
    case (Inr u)
    then have real: "real_path fs1 (sc_root C @ rel)" using made by simp
    obtain x2 fs2 where d: "sync_dirs C rel (dirnames es) [] refused fs1 = (x2, fs2)"
      by (cases "sync_dirs C rel (dirnames es) [] refused fs1")
    note dirs = sync_dirs_inside[OF real d]
    show ?thesis
    proof (cases x2)
      case (Inl e)
      with True m Inr d made dirs assms(3) show ?thesis
        by (auto simp: sync_visit_def dest: inside_trans)
    next
      case (Inr pr)
      obtain x3 fs3 where f: "sync_files C rel (filenames es) (snd pr) fs2 = (x3, fs3)"
        by (cases "sync_files C rel (filenames es) (snd pr) fs2")
      have "inside (sc_root C) B fs2 fs3" using sync_files_inside[OF _ f] dirs by simp
      moreover have "fs' = fs3"
        using True m \<open>x1 = Inr u\<close> d Inr f assms(3)
        by (auto simp: sync_visit_def split: prod.splits sum.splits)
      ultimately show ?thesis using made dirs inside_trans by blast
    qed
  qed
qed

lemma sync_loop_inside:
  assumes "host_ok fs" "real_path fs (sc_root C)" and "sync_loop C stack refused fs = (r, fs')"
  shows "inside (sc_root C) B fs fs'"
  using assms
proof (induction C' \<equiv> C stack refused fs rule: sync_loop.induct)
  case (2 rel es stack refused fs)
  obtain x fs1 where v: "sync_visit C rel es refused fs = (x, fs1)"
    by (cases "sync_visit C rel es refused fs")
  have i: "inside (sc_root C) B fs fs1" using sync_visit_inside[OF 2(2,3) v] .
  show ?case
  proof (cases x)
    case (Inl e)
    with v 2(4) i show ?thesis by simp
  next
    case (Inr pr)
    have "inside (sc_root C) B fs1 fs'"
      using 2(1)[OF v[symmetric] Inr] v Inr 2(4) inside_ok[OF i 2(2)] inside_root[OF i 2(3)]
      by (cases pr) auto
    with i show ?thesis by (rule inside_trans)
  qed
qed simp

end

section \<open>The matchers of the code keep the interface\<close>

text \<open>Without a matcher the comparison folds case: every alias of a blocked path is protected.\<close>

lemma blocked_fold_iff:
  "is_blocked ci None bl p \<longleftrightarrow>
     (\<exists>b \<in> set bl. length b \<le> length p
        \<and> job_fold (take (length b) p) (ci \<noteq> Some False) = job_fold b (ci \<noteq> Some False))"
  by (cases ci) (auto simp: is_blocked_def list_ex_iff)

lemma contains_fold_iff:
  "contains_blocked ci None bl p \<longleftrightarrow>
     (\<exists>b \<in> set bl. length p < length b
        \<and> job_fold (take (length p) b) (ci \<noteq> Some False) = job_fold p (ci \<noteq> Some False))"
  by (cases ci) (auto simp: contains_blocked_def list_ex_iff)

lemma job_fold_take: "job_fold (take n p) f = take n (job_fold p f)"
  by (simp add: job_fold_def take_map)

lemma fold_below: "is_blocked ci None bl p \<Longrightarrow> is_blocked ci None bl (p @ x)"
  unfolding blocked_fold_iff by (elim bexE conjE, rule bexI) auto

lemma fold_split:
  assumes "is_blocked ci None bl (p @ x)"
  shows "is_blocked ci None bl p \<or> contains_blocked ci None bl p"
proof -
  let ?f = "ci \<noteq> Some False"
  obtain b where b: "b \<in> set bl" "length b \<le> length (p @ x)"
    "job_fold (take (length b) (p @ x)) ?f = job_fold b ?f"
    using assms blocked_fold_iff by blast
  show ?thesis
  proof (cases "length b \<le> length p")
    case True
    with b show ?thesis by (auto simp: blocked_fold_iff)
  next
    case False
    have "take (length p) (job_fold (take (length b) (p @ x)) ?f) = take (length p) (job_fold b ?f)"
      using b(3) by simp
    then have "job_fold p ?f = job_fold (take (length p) b) ?f"
      using False by (simp add: job_fold_take[symmetric] min_def)
    then have "contains_blocked ci None bl p"
      unfolding contains_fold_iff using b(1) False by (metis not_le)
    then show ?thesis ..
  qed
qed

interpretation folded: protected_paths "C\<lparr>sc_matcher := None\<rparr>"
    "is_blocked (sc_case C) None (sc_blocked C)"
  for C
proof
  fix p x :: path and fs :: host
  show "is_blocked (sc_case C) None (sc_blocked C) p \<Longrightarrow> blocked_now (C\<lparr>sc_matcher := None\<rparr>) fs p"
    by (simp add: blocked_now_def)
  show "is_blocked (sc_case C) None (sc_blocked C) p \<Longrightarrow> is_blocked (sc_case C) None (sc_blocked C) (p @ x)"
    by (rule fold_below)
  show "is_blocked (sc_case C) None (sc_blocked C) (p @ x) \<Longrightarrow>
      is_blocked (sc_case C) None (sc_blocked C) p \<or> contains_now (C\<lparr>sc_matcher := None\<rparr>) fs p"
    using fold_split by (simp add: contains_now_def)
qed

text \<open>
  With the gateway's matcher, which reads the workspace itself: every path below the exact name of
  a blocked path. The matcher joins the components it is given and normalises the text again, so
  this needs blocked paths none of whose components begins or ends with a blank.
\<close>

definition trimmed :: "path \<Rightarrow> bool" where
  "trimmed p \<longleftrightarrow> (\<forall>c \<in> set p. \<not> py_space (hd c) \<and> \<not> py_space (last c))"

lemma normalized_clean:
  assumes "trimmed (normalize_relative_segments s)"
  shows "clean_segments (take n (normalize_relative_segments s))"
proof -
  let ?q = "take n (normalize_relative_segments s)"
  have sub: "set ?q \<subseteq> set (normalize_relative_segments s)" by (rule set_take_subset)
  have "hd ?q \<in> set ?q \<and> last ?q \<in> set ?q" if "?q \<noteq> []"
    using hd_in_set[OF that] last_in_set[OF that] by blast
  with sub assms show ?thesis
    unfolding clean_segments_def trimmed_def using normalize_segments_wf[of _ s] by blast
qed

lemma matcher_literal:
  "clean_segments b \<Longrightarrow> prefix b p \<Longrightarrow> blocked_path_matcher v root p b"
  by (simp add: blocked_path_matcher_def filesystem_within_literal normalize_join)

interpretation live_matcher: protected_paths
    "C\<lparr>sc_blocked := map normalize_relative_segments bl,
       sc_matcher := Some (\<lambda>fs. blocked_path_matcher (view fs) root)\<rparr>"
    "\<lambda>p. \<exists>b \<in> set bl. trimmed (normalize_relative_segments b) \<and> prefix (normalize_relative_segments b) p"
  for C and bl :: "pystr list" and view :: "host \<Rightarrow> fsview" and root :: path
proof
  fix p x :: path and fs :: host
  let ?C = "C\<lparr>sc_blocked := map normalize_relative_segments bl,
              sc_matcher := Some (\<lambda>fs. blocked_path_matcher (view fs) root)\<rparr>"
  let ?B = "\<lambda>p. \<exists>b \<in> set bl. trimmed (normalize_relative_segments b) \<and> prefix (normalize_relative_segments b) p"
  have whole: "clean_segments (normalize_relative_segments b)" if "trimmed (normalize_relative_segments b)" for b
    using normalized_clean[OF that, of "length (normalize_relative_segments b)"] by simp
  have "blocked_now ?C fs p"
    if "b \<in> set bl" "trimmed (normalize_relative_segments b)" "prefix (normalize_relative_segments b) p" for b
    using matcher_literal[OF whole[OF that(2)] that(3)] that(1)
    by (auto simp: blocked_now_def is_blocked_def list_ex_iff)
  then show "?B p \<Longrightarrow> blocked_now ?C fs p" by blast
  show "?B p \<Longrightarrow> ?B (p @ x)" by (meson prefix_prefix)
  assume "?B (p @ x)"
  then obtain b where b: "b \<in> set bl" "trimmed (normalize_relative_segments b)"
    "prefix (normalize_relative_segments b) (p @ x)" by blast
  let ?b = "normalize_relative_segments b"
  show "?B p \<or> contains_now ?C fs p"
  proof (cases "prefix ?b p")
    case False
    then obtain y where y: "?b = p @ y" "y \<noteq> []" using b(3) by (auto simp: prefix_append)
    have "clean_segments p" using normalized_clean[OF b(2), of "length p"] y by simp
    then have "blocked_path_matcher (view fs) root ?b p" using y by (intro matcher_literal) auto
    then have "contains_now ?C fs p"
      using b(1) y by (auto simp: contains_now_def contains_blocked_def list_ex_iff intro!: bexI[of _ b])
    then show ?thesis ..
  qed (use b in blast)
qed

lemma sync_inside_gateway:
  assumes "host_ok fs" "real_path fs (sc_root C)"
    and "sc_matcher C = Some (\<lambda>fs. blocked_path_matcher (view fs) root)"
    and "sync_copy_back C t (JArr (map JStr bl)) mb mf fs = (r, fs')"
  shows "inside (sc_root C)
     (\<lambda>p. \<exists>b \<in> set bl. trimmed (normalize_relative_segments b) \<and> prefix (normalize_relative_segments b) p) fs fs'"
proof -
  let ?C = "C\<lparr>sc_blocked := map normalize_relative_segments bl\<rparr>"
  have C: "?C = ?C\<lparr>sc_blocked := map normalize_relative_segments bl,
      sc_matcher := Some (\<lambda>fs. blocked_path_matcher (view fs) root)\<rparr>"
    using assms(3) by simp
  obtain x fs1 where l: "sync_loop ?C (walk_start t) [] fs = (x, fs1)"
    by (cases "sync_loop ?C (walk_start t) [] fs")
  have "fs' = fs \<or> fs' = fs1"
    using assms(4) l
    by (auto simp: sync_copy_back_def normalize_blocked_paths_def blocked_items_strings split: sum.splits)
  moreover have "sync_loop (?C\<lparr>sc_blocked := map normalize_relative_segments bl,
      sc_matcher := Some (\<lambda>fs. blocked_path_matcher (view fs) root)\<rparr>) (walk_start t) [] fs = (x, fs1)"
    by (subst C[symmetric]) (rule l)
  from live_matcher.sync_loop_inside[OF assms(1) _ this] assms(2)
  have "inside (sc_root C) (\<lambda>p. \<exists>b \<in> set bl. trimmed (normalize_relative_segments b)
      \<and> prefix (normalize_relative_segments b) p) fs fs1" by simp
  ultimately show ?thesis by auto
qed

section \<open>The size check counts the whole tree\<close>

fun staged_entries :: "staged \<Rightarrow> nat" where
  "staged_entries (SDir mode es) = length es + sum_list (map (\<lambda>(n, t). staged_entries t) es)"
| "staged_entries t = 0"

fun staged_bytes :: "staged \<Rightarrow> nat" where
  "staged_bytes (SDir mode es) = sum_list (map (\<lambda>(n, t). staged_bytes t) es)"
| "staged_bytes (SFile mode c) = length c"
| "staged_bytes t = 0"

definition stack_entries :: "(path \<times> (pystr \<times> staged) list) list \<Rightarrow> nat" where
  "stack_entries st = sum_list (map (\<lambda>(rel, es). staged_entries (SDir 0 es)) st)"

definition stack_bytes :: "(path \<times> (pystr \<times> staged) list) list \<Rightarrow> nat" where
  "stack_bytes st = sum_list (map (\<lambda>(rel, es). staged_bytes (SDir 0 es)) st)"

lemma stack_counts_append:
  "stack_entries (s @ t) = stack_entries s + stack_entries t"
  "stack_bytes (s @ t) = stack_bytes s + stack_bytes t"
  by (simp_all add: stack_entries_def stack_bytes_def)

lemma names_split: "length (dirnames es) + length (filenames es) = length es"
  by (simp add: dirnames_def filenames_def sum_length_filter_compl)

lemma subdirs_counts:
  "stack_entries (subdirs rel [] es) = sum_list (map (\<lambda>(n, t). staged_entries t) es)"
  "sum_list (map (\<lambda>(n, t). file_size t) (filenames es)) + stack_bytes (subdirs rel [] es)
     = sum_list (map (\<lambda>(n, t). staged_bytes t) es)"
  by (induction rel "[] :: pystr list" es rule: subdirs.induct)
    (auto simp: stack_entries_def stack_bytes_def filenames_def in_dirnames_def file_size_def)

lemma sum_files_Inr:
  "tb \<le> mb \<Longrightarrow> sum_files mb tb fs = Inr n \<longleftrightarrow>
     n = tb + sum_list (map (\<lambda>(n, t). file_size t) fs) \<and> n \<le> mb"
  by (induction mb tb fs rule: sum_files.induct) (auto simp: Let_def)

lemma size_loop_Inr:
  "tb \<le> mb \<Longrightarrow> te \<le> mf \<Longrightarrow> size_loop mb mf stack te tb = Inr n \<longleftrightarrow>
     n = tb + stack_bytes stack \<and> n \<le> mb \<and> te + stack_entries stack \<le> mf"
proof (induction mb mf stack te tb arbitrary: n rule: size_loop.induct)
  case (1 mb mf te tb)
  then show ?case by (auto simp: stack_bytes_def stack_entries_def)
next
  case (2 mb mf rel es stack te tb)
  let ?te = "te + (length (dirnames es) + length (filenames es))"
  have counts: "stack_entries ((rel, es) # stack) = length es + stack_entries (subdirs rel [] es @ stack)"
    "stack_bytes ((rel, es) # stack) = sum_list (map (\<lambda>(n, t). file_size t) (filenames es))
       + stack_bytes (subdirs rel [] es @ stack)"
    using subdirs_counts[where rel = rel and es = es]
    by (simp_all add: stack_counts_append) (simp_all add: stack_entries_def stack_bytes_def)
  show ?case
  proof (cases "mf < ?te")
    case True
    then show ?thesis using counts(1) by (auto simp: names_split)
  next
    case False
    show ?thesis
    proof (cases "sum_files mb tb (filenames es)")
      case (Inl e)
      then have "\<not> tb + sum_list (map (\<lambda>(n, t). file_size t) (filenames es)) \<le> mb"
        using sum_files_Inr[OF "2.prems"(1), of "filenames es"] by auto
      with Inl False counts(2) show ?thesis by auto
    next
      case (Inr b)
      then have b: "b = tb + sum_list (map (\<lambda>(n, t). file_size t) (filenames es))" "b \<le> mb"
        using sum_files_Inr[OF "2.prems"(1)] by auto
      have "size_loop mb mf (subdirs rel [] es @ stack) ?te b = Inr n \<longleftrightarrow>
          n = b + stack_bytes (subdirs rel [] es @ stack) \<and> n \<le> mb
          \<and> ?te + stack_entries (subdirs rel [] es @ stack) \<le> mf"
        using "2.IH"[OF refl False Inr b(2)] False by simp
      then show ?thesis using Inr False b counts by (simp add: names_split add.assoc)
    qed
  qed
qed

lemma size_check_Inr:
  "check_staged_workspace_size t mb mf = Inr n \<longleftrightarrow>
     (case t of SDir mode es \<Rightarrow> n = staged_bytes t \<and> n \<le> mb \<and> staged_entries t \<le> mf | _ \<Rightarrow> n = 0)"
  by (cases t) (auto simp: check_staged_workspace_size_def walk_start_def size_loop_Inr
      stack_bytes_def stack_entries_def simp del: size_loop.simps(2))

section \<open>Properties\<close>

text \<open>
  C28: blocked paths never enter the container. For a scope with at least one blocked path, whatever the
  matcher, an entry of a staged copy is not blocked under its own name, nor below a blocked name, and a
  symbolic link in it resolved to a target that is outside the workspace or not blocked.
\<close>

theorem staged_copy_excludes_blocked:
  assumes "stage_workspace_copy G source resolved_source tree (JArr (map JStr bl)) ci matcher = Inr copy"
    and "staged_at copy (p @ [c]) = Some n" and "bl \<noteq> []"
  shows "\<not> is_blocked ci matcher (map normalize_relative_segments bl) (p @ [c])
       \<and> (case n of SLink t d \<Rightarrow>
            (case sg_realpath G (source @ p @ [c]) of
               None \<Rightarrow> False
             | Some q \<Rightarrow>
                 (case relative_to q resolved_source of
                    None \<Rightarrow> True
                  | Some rel \<Rightarrow> \<not> is_blocked ci matcher (map normalize_relative_segments bl) rel))
          | _ \<Rightarrow> True)"
  by (rule staged_entry[OF assms])

definition demo_stage :: stage_env where
  "demo_stage = \<lparr>sg_realpath = (\<lambda>p. if p = [''ws'', ''alias''] then Some [''ws'', ''secrets'', ''key''] else Some p),
                 sg_lexists = (\<lambda>t p. staged_at t p \<noteq> None)\<rparr>"

definition demo_workspace :: staged where
  "demo_workspace = SDir 0x1C0 [(''a.txt'', SFile 0x180 ''a''), (''alias'', SLink ''secrets/key'' False),
     (''SECRETS'', SDir 0x1C0 [(''key'', SFile 0x180 ''k'')]),
     (''out'', SDir 0x1C0 [(''link'', SLink ''../a.txt'' False)])]"

definition demo_staged :: staged where
  "demo_staged = SDir 0x1C7 [(''a.txt'', SFile 0x186 ''a''),
     (''out'', SDir 0x1C7 [(''link'', SLink ''../a.txt'' False)])]"

theorem staged_copy_excludes_blocked_witness:
  "stage_workspace_copy demo_stage [''ws''] [''ws''] demo_workspace (JArr [JStr ''./secrets/'']) None None
     = Inr demo_staged
   \<and> \<not> is_blocked None None [normalize_relative_segments ''./secrets/''] [''out'', ''link'']"
proof -
  have staged: "stage_workspace_copy demo_stage [''ws''] [''ws''] demo_workspace
      (JArr (map JStr [''./secrets/''])) None None = Inr demo_staged" by code_simp
  have at: "staged_at demo_staged ([''out''] @ [''link'']) = Some (SLink ''../a.txt'' False)" by code_simp
  show ?thesis using staged staged_copy_excludes_blocked[OF staged at] by simp
qed

text \<open>
  C27: copying back stays inside. With the gateway's matcher, whatever the container left behind and
  whether the copy succeeds, raises or is cut off half way: a location of the host that changes lies
  strictly below the run's workspace and is neither a blocked path nor below one (blocked paths
  whose components have no outer blanks). Locations are real, so no change goes through a link.
\<close>

theorem copy_back_stays_inside:
  assumes "host_ok fs" and "real_path fs (sc_root C)"
    and "sc_matcher C = Some (\<lambda>fs. blocked_path_matcher (view fs) (sc_root C))"
    and "sync_copy_back C t (JArr (map JStr bl)) max_bytes max_files fs = (r, fs')"
    and "fs' q \<noteq> fs q"
  shows "\<exists>rel. q = sc_root C @ rel \<and> rel \<noteq> []
      \<and> (\<forall>b \<in> set bl. trimmed (normalize_relative_segments b)
            \<longrightarrow> \<not> prefix (normalize_relative_segments b) rel)"
  using sync_inside_gateway[OF assms(1-4)] assms(5) by (auto simp: inside_def)

definition demo_host :: host where
  "demo_host = [[''ws''] \<mapsto> HDir, [''ws'', ''a.txt''] \<mapsto> HFile 0x180 ''old'', [''ws'', ''secrets''] \<mapsto> HDir,
     [''ws'', ''secrets'', ''key''] \<mapsto> HFile 0x180 ''k'']"

definition demo_sync :: sync_conf where
  "demo_sync = \<lparr>sc_deny = (\<lambda>p. False), sc_root = [''ws''], sc_blocked = [], sc_case = Some False,
     sc_matcher = Some (\<lambda>fs. blocked_path_matcher quiet_view [''ws''])\<rparr>"

definition demo_result :: staged where
  "demo_result = SDir 0x1FF [(''a.txt'', SFile 0x186 ''new''),
     (''secrets'', SDir 0x1FF [(''key'', SFile 0x186 ''stolen'')]),
     (''out'', SDir 0x1FF [(''b.txt'', SFile 0x1B6 ''made'')])]"

lemma demo_host_ok: "host_ok demo_host" "real_path demo_host [''ws'']"
proof -
  show "host_ok demo_host"
    by (auto simp: host_ok_def demo_host_def host_at_def Cons_eq_append_conv split: if_splits)
  show "real_path demo_host [''ws'']"
    by (auto simp: real_path_def demo_host_def host_at_def prefix_Cons)
qed

theorem copy_back_stays_inside_witness:
  "(let (r, fs') = sync_copy_back demo_sync demo_result (JArr [JStr ''./secrets/'']) 100 100 demo_host
    in r = Inr [''secrets''] \<and> fs' [''ws'', ''a.txt''] = Some (HFile 0x186 ''new''))
   \<and> (\<exists>rel. [''ws'', ''a.txt''] = [''ws''] @ rel \<and> rel \<noteq> [])"
proof -
  let ?x = "sync_copy_back demo_sync demo_result (JArr (map JStr [''./secrets/''])) 100 100 demo_host"
  have ran: "fst ?x = Inr [''secrets''] \<and> snd ?x [''ws'', ''a.txt''] = Some (HFile 0x186 ''new'')"
    by code_simp
  have pair: "?x = (fst ?x, snd ?x)" by simp
  have changed: "snd ?x [''ws'', ''a.txt''] \<noteq> demo_host [''ws'', ''a.txt'']"
    using ran by (simp add: demo_host_def)
  have "\<exists>rel. [''ws'', ''a.txt''] = sc_root demo_sync @ rel \<and> rel \<noteq> []
      \<and> (\<forall>b \<in> set [''./secrets/'']. trimmed (normalize_relative_segments b)
            \<longrightarrow> \<not> prefix (normalize_relative_segments b) rel)"
    by (rule copy_back_stays_inside[where view = "\<lambda>fs. quiet_view", OF demo_host_ok(1) _ _ pair changed])
      (simp_all add: demo_sync_def demo_host_ok)
  then show ?thesis using ran pair by (auto simp: Let_def demo_sync_def split: prod.split)
qed

text \<open>
  The size check is exact. The loop over the directories of a staged tree accepts it if and only
  if all its entries together, and all bytes of its regular files together, are within the limits,
  and then returns that number of bytes.
\<close>

lemma size_check_counts_tree:
  "check_staged_workspace_size (SDir mode es) max_bytes max_files = Inr n \<longleftrightarrow>
     n = staged_bytes (SDir mode es) \<and> n \<le> max_bytes \<and> staged_entries (SDir mode es) \<le> max_files"
  using size_check_Inr[of "SDir mode es"] by simp

section \<open>Where the code does not do what it means to\<close>

text \<open>
  Copying back with \<open>copy2\<close> carries the permission bits the staging opened to everyone: a private
  file comes back readable and writable by others, although it did not change.
\<close>

lemma copy_back_opens_files:
  "snd (sync_copy_back demo_sync (world_accessible (SDir 0x1C0 [(''a.txt'', SFile 0x180 ''old'')]))
      (JArr []) 100 100 demo_host) [''ws'', ''a.txt''] = Some (HFile 0x186 ''old'')
   \<and> demo_host [''ws'', ''a.txt''] = Some (HFile 0x180 ''old'')"
  by (rule conjI) code_simp+

text \<open>
  An ancestor of a blocked path whose last component ends in a blank is not recognised as one: the
  matcher joins the components and strips the text. A file of that name replaces the directory.
\<close>

lemma blank_ancestor_unprotected:
  "contains_now (demo_sync\<lparr>sc_blocked := [normalize_relative_segments ''data /secret'']\<rparr>) demo_host [''data ''] = False
   \<and> strict_prefix [''data ''] (normalize_relative_segments ''data /secret'')"
  by (rule conjI) code_simp+

end
