(* ===== verification/DockerJob.thy ===== *)
theory DockerJob
  imports CopyBackProps AuditPrompt
begin

text \<open>
  The jobs of \<open>backend/scopewatch/docker_job.py\<close>: the clamped command timeout, the job with its
  canonical serialisation, the \<open>docker run\<close> command line, the program that runs inside the container
  (\<open>helper_code\<close>, which the source holds as text and passes with \<open>python3 -c\<close>) and the bounded
  reading of a container's output. The text of the helper is an argument of the command line; its
  behaviour is \<open>helper_main\<close>, over the same disk operations as the local executor.
\<close>

section \<open>The command timeout\<close>

text \<open>\<open>float(value)\<close>: a finite number, an infinity or NaN; else the exception it raises.\<close>

datatype pyfloat = Finite int int | Infinite bool | Not_a_number

definition num_less :: "int \<times> int \<Rightarrow> int \<times> int \<Rightarrow> bool" where
  "num_less a b \<longleftrightarrow>
     (let k = min (snd a) (snd b)
      in fst a * 2 ^ nat (snd a - k) < fst b * 2 ^ nat (snd b - k))"

text \<open>Integers from this bound on do not fit a double: \<open>float\<close> raises OverflowError.\<close>

definition FLOAT_OVERFLOW :: int where "FLOAT_OVERFLOW = 2 ^ 1024 - 2 ^ 970"

definition py_float :: "(pystr \<Rightarrow> pyfloat option) \<Rightarrow> json \<Rightarrow> pystr + pyfloat" where
  "py_float parse v =
     (case v of
        JBool b \<Rightarrow> Inr (Finite (if b then 1 else 0) 0)
      | JInt i \<Rightarrow> if FLOAT_OVERFLOW \<le> \<bar>i\<bar> then Inl ''OverflowError'' else Inr (Finite i 0)
      | JFloat m e \<Rightarrow> Inr (Finite m e)
      | JStr s \<Rightarrow> (case parse s of None \<Rightarrow> Inl ''ValueError'' | Some x \<Rightarrow> Inr x)
      | _ \<Rightarrow> Inl ''TypeError'')"

definition RUN_COMMAND_DEFAULT_TIMEOUT_S :: "int \<times> int" where "RUN_COMMAND_DEFAULT_TIMEOUT_S = (60, 0)"
definition RUN_COMMAND_MIN_TIMEOUT_S :: "int \<times> int" where "RUN_COMMAND_MIN_TIMEOUT_S = (1, 0)"
definition RUN_COMMAND_MAX_TIMEOUT_S :: "int \<times> int" where "RUN_COMMAND_MAX_TIMEOUT_S = (300, 0)"
definition RUN_COMMAND_OUTPUT_LIMIT :: nat where "RUN_COMMAND_OUTPUT_LIMIT = 64 * 1024"
definition MAX_CONTAINER_OUTPUT_BYTES :: nat where "MAX_CONTAINER_OUTPUT_BYTES = 2 * 1024 * 1024"

definition num_max :: "int \<times> int \<Rightarrow> int \<times> int \<Rightarrow> int \<times> int" where
  "num_max a b = (if num_less a b then b else a)"

definition num_min :: "int \<times> int \<Rightarrow> int \<times> int \<Rightarrow> int \<times> int" where
  "num_min a b = (if num_less b a then b else a)"

definition clamp_run_command_timeout :: "(pystr \<Rightarrow> pyfloat option) \<Rightarrow> json \<Rightarrow> exc + int \<times> int" where
  "clamp_run_command_timeout parse v =
     (case py_float parse v of
        Inl e \<Rightarrow> if e \<in> {''TypeError'', ''ValueError''} then Inr RUN_COMMAND_DEFAULT_TIMEOUT_S
                 else Inl (os_error e)
      | Inr (Finite m e) \<Rightarrow>
          Inr (num_min (num_max (m, e) RUN_COMMAND_MIN_TIMEOUT_S) RUN_COMMAND_MAX_TIMEOUT_S)
      | Inr _ \<Rightarrow> Inr RUN_COMMAND_DEFAULT_TIMEOUT_S)"

section \<open>Jobs\<close>

record docker_job =
  job_operation :: pystr
  job_resource :: pystr
  job_arguments :: jobj
  job_arguments_json :: pystr
  job_timeout_s :: "(int \<times> int) option"

text \<open>\<open>__post_init__\<close>: the stored text is the serialisation of the arguments.\<close>

definition job_post_init :: "(int \<Rightarrow> int \<Rightarrow> pystr) \<Rightarrow> docker_job \<Rightarrow> exc + docker_job" where
  "job_post_init fl j =
     (let expected = json_dumps fl (JObj (job_arguments j)) in
      if job_arguments_json j = [] then Inr (j\<lparr>job_arguments_json := expected\<rparr>)
      else if job_arguments_json j \<noteq> expected
      then Inl (Py_error ''ValueError''
        ''DockerJob arguments and arguments_json disagree; build jobs with prepare_docker_job.'')
      else Inr j)"

definition helper_argv :: "docker_job \<Rightarrow> pystr list" where
  "helper_argv j = [job_operation j, job_resource j, job_arguments_json j]"

definition DOCKER_RUN_TIMEOUT_BUFFER_S :: int where "DOCKER_RUN_TIMEOUT_BUFFER_S = 30"

definition num_add :: "int \<times> int \<Rightarrow> int \<Rightarrow> int \<times> int" where
  "num_add a k =
     (let e = min (snd a) 0 in (fst a * 2 ^ nat (snd a - e) + k * 2 ^ nat (- e), e))"

definition host_timeout_s :: "docker_job \<Rightarrow> int \<times> int \<Rightarrow> int \<times> int" where
  "host_timeout_s j default_s =
     (case job_timeout_s j of
        None \<Rightarrow> default_s
      | Some t \<Rightarrow> num_add t DOCKER_RUN_TIMEOUT_BUFFER_S)"

definition prepare_docker_job ::
  "(int \<Rightarrow> int \<Rightarrow> pystr) \<Rightarrow> pystr \<Rightarrow> pystr \<Rightarrow> jobj \<Rightarrow> (int \<times> int) option \<Rightarrow> exc + docker_job" where
  "prepare_docker_job fl op res args limit =
     job_post_init fl \<lparr>job_operation = op, job_resource = res, job_arguments = args,
                       job_arguments_json = [], job_timeout_s = limit\<rparr>"

section \<open>The command line\<close>

definition CONTAINER_WORKSPACE :: pystr where "CONTAINER_WORKSPACE = ''/workspace''"
definition DOCKER_USER :: pystr where "DOCKER_USER = ''65534:65534''"
definition DOCKER_MEMORY :: pystr where "DOCKER_MEMORY = ''256m''"
definition DOCKER_CPUS :: pystr where "DOCKER_CPUS = ''1.0''"
definition DOCKER_PIDS_LIMIT :: pystr where "DOCKER_PIDS_LIMIT = ''64''"

definition mount_source :: "path \<Rightarrow> pystr" where
  "mount_source p = ''/'' @ join ''/'' p"

definition build_docker_command ::
  "pystr \<Rightarrow> pystr \<Rightarrow> path \<Rightarrow> docker_job \<Rightarrow> pystr \<Rightarrow> pystr \<Rightarrow> pystr \<Rightarrow> pystr list" where
  "build_docker_command helper_code img workspace_copy j container_name run_label executor_label =
     [''docker'', ''run'', ''--rm'', ''--name'', container_name,
      ''--label'', ''scopewatch.executor='' @ executor_label,
      ''--label'', ''scopewatch.run='' @ run_label,
      ''--network'', ''none'', ''--read-only'', ''--tmpfs'', ''/tmp'', ''--user'', DOCKER_USER,
      ''--cap-drop'', ''ALL'', ''--security-opt'', ''no-new-privileges'',
      ''--pids-limit'', DOCKER_PIDS_LIMIT, ''--memory'', DOCKER_MEMORY,
      ''--memory-swap'', DOCKER_MEMORY, ''--cpus'', DOCKER_CPUS,
      ''-v'', mount_source workspace_copy @ '':'' @ CONTAINER_WORKSPACE @ '':rw'',
      ''--workdir'', CONTAINER_WORKSPACE, img, ''python3'', ''-c'', helper_code]
     @ helper_argv j"

section \<open>The output of a container\<close>

text \<open>
  One turn of the selector loop: the clock before it, what \<open>select\<close> and the reads give (a chunk of
  standard output or of standard error, empty at its end), whether the process has ended.
\<close>

record proc_round =
  pr_remaining :: int
  pr_events :: "(bool \<times> pystr) list"
  pr_ended :: bool

record proc_buf =
  pb_out :: pystr
  pb_err :: pystr
  pb_out_open :: bool
  pb_err_open :: bool

fun read_events :: "nat \<Rightarrow> (bool \<times> pystr) list \<Rightarrow> proc_buf \<Rightarrow> proc_buf \<times> bool" where
  "read_events max_bytes [] b = (b, False)"
| "read_events max_bytes ((is_out, chunk) # evs) b =
     (if chunk = []
      then read_events max_bytes evs (if is_out then b\<lparr>pb_out_open := False\<rparr> else b\<lparr>pb_err_open := False\<rparr>)
      else if is_out then
        (let b' = b\<lparr>pb_out := pb_out b @ chunk\<rparr>
         in if max_bytes < length (pb_out b') then (b', True) else read_events max_bytes evs b')
      else
        (let b' = b\<lparr>pb_err := pb_err b @ chunk\<rparr>
         in if max_bytes < length (pb_err b') then (b', True) else read_events max_bytes evs b'))"

datatype proc_stop = Drained | Deadline | Overrun

partial_function (option) read_loop ::
  "nat \<Rightarrow> (nat \<Rightarrow> proc_round) \<Rightarrow> nat \<Rightarrow> proc_buf \<Rightarrow> (proc_stop \<times> proc_buf) option" where
  "read_loop max_bytes rounds n b =
     (if \<not> pb_out_open b \<and> \<not> pb_err_open b then Some (Drained, b)
      else if pr_remaining (rounds n) \<le> 0 then Some (Deadline, b)
      else case read_events max_bytes (pr_events (rounds n)) b of
        (b', over) \<Rightarrow>
          if over then Some (Overrun, b')
          else if pr_ended (rounds n) \<and> pr_events (rounds n) = [] then Some (Drained, b')
          else read_loop max_bytes rounds (Suc n) b')"

text \<open>
  The result, and whether the process group was killed. \<open>wait\<close> is the answer of the final
  \<open>proc.wait(timeout=remaining)\<close>: the return code, or no answer in time.
\<close>

datatype proc_result = Completed int pystr pystr | Timeout_expired | Output_overrun

definition run_docker_process ::
  "nat \<Rightarrow> (nat \<Rightarrow> proc_round) \<Rightarrow> int option \<Rightarrow> (proc_result \<times> bool) option" where
  "run_docker_process max_bytes rounds wait =
     map_option (\<lambda>(stop, b). case stop of
         Deadline \<Rightarrow> (Timeout_expired, True)
       | Overrun \<Rightarrow> (Output_overrun, True)
       | Drained \<Rightarrow>
           (case wait of
              None \<Rightarrow> (Timeout_expired, True)
            | Some code \<Rightarrow> (Completed code (pb_out b) (pb_err b), False)))
       (read_loop max_bytes rounds 0 \<lparr>pb_out = [], pb_err = [], pb_out_open = True, pb_err_open = True\<rparr>)"

section \<open>The program inside the container\<close>

text \<open>
  What the helper prints, once: its status, result and error code. \<open>he_loads\<close> is \<open>json.loads\<close> of
  its argument (\<open>None\<close> where it raises), \<open>he_run\<close> what \<open>subprocess.run\<close> does in a directory and
  \<open>he_decode\<close> the decoding of its output.
\<close>

type_synonym helper_reply = "pystr \<times> jobj \<times> pystr option"

datatype run_outcome = Ran int pystr pystr | Run_timeout | Run_not_found | Run_raised pystr

record helper_env =
  he_ws :: path
  he_os :: os_env
  he_parse :: "pystr \<Rightarrow> pyfloat option"
  he_loads :: "pystr \<Rightarrow> json option"
  he_decode :: "pystr \<Rightarrow> pystr"
  he_run :: "pystr list \<Rightarrow> pyfloat \<Rightarrow> path \<Rightarrow> disk \<Rightarrow> run_outcome \<times> disk"

definition helper_fail :: "pystr \<Rightarrow> pystr \<Rightarrow> helper_reply" where
  "helper_fail msg code = (''FAILED'', [(''error'', JStr msg)], Some code)"

definition helper_error :: "pystr \<Rightarrow> helper_reply" where
  "helper_error msg = helper_fail msg ''EXECUTION_FAILED''"

definition helper_list :: "helper_env \<Rightarrow> pystr \<Rightarrow> path \<Rightarrow> disk \<Rightarrow> helper_reply" where
  "helper_list H res target d =
     (case os_probe (he_os H) target d of Some e \<Rightarrow> helper_error (exc_class e) | None \<Rightarrow>
      case dk_node d target of
        None \<Rightarrow> helper_error (''Directory not found: '' @ res)
      | Some (File_node _ _) \<Rightarrow> helper_error (''Resource is not a directory: '' @ res)
      | Some (Dir_node names) \<Rightarrow>
          (case os_open (he_os H) target d of Some e \<Rightarrow> helper_error (exc_class e) | None \<Rightarrow>
           let raw = take MAX_DIR_ENTRIES names;
               items = map (\<lambda>n. JObj [(''name'', JStr n),
                                       (''type'', JStr (if is_dir_node (dk_node d (target @ [n]))
                                                        then ''directory'' else ''file''))])
                           (sorted_strs raw)
           in (''EXECUTED'',
               [(''operation'', JStr ''list_directory''), (''resource'', JStr res),
                (''item_count'', JInt (int (length items))), (''items'', JArr items),
                (''truncated'', JBool (MAX_DIR_ENTRIES < length names))], None)))"

definition helper_read :: "helper_env \<Rightarrow> pystr \<Rightarrow> path \<Rightarrow> disk \<Rightarrow> helper_reply" where
  "helper_read H res target d =
     (case os_probe (he_os H) target d of Some e \<Rightarrow> helper_error (exc_class e) | None \<Rightarrow>
      case dk_node d target of
        None \<Rightarrow> helper_error (''File not found: '' @ res)
      | Some (Dir_node _) \<Rightarrow> helper_error (''Resource is a directory, not a text file: '' @ res)
      | Some (File_node content nbytes) \<Rightarrow>
          if MAX_READ_BYTES < nbytes
          then helper_fail (''File size '' @ show_nat nbytes @ '' exceeds ''
                 @ show_nat MAX_READ_BYTES @ '' limit.'') ''OVERSIZED_FILE''
          else case os_open (he_os H) target d of Some e \<Rightarrow> helper_error (exc_class e) | None \<Rightarrow>
               (''EXECUTED'',
                [(''operation'', JStr ''read_text''), (''resource'', JStr res),
                 (''byte_count'', JInt (int nbytes)), (''content'', JStr content),
                 (''preview'', JStr (take 500 content)), (''truncated'', JBool False)], None))"

definition helper_write :: "helper_env \<Rightarrow> pystr \<Rightarrow> path \<Rightarrow> jobj \<Rightarrow> disk \<Rightarrow> helper_reply \<times> disk" where
  "helper_write H res target args d =
     (let content = (case map_of args ''content'' of
                       None \<Rightarrow> [] | Some v \<Rightarrow> json_text (float_repr (he_os H)) v);
          nbytes = utf8_length content
      in if MAX_WRITE_BYTES < nbytes
         then (helper_fail (''Payload '' @ show_nat nbytes @ '' bytes exceeds ''
                 @ show_nat MAX_WRITE_BYTES @ '' limit.'') ''OVERSIZED_PAYLOAD'', d)
         else case (os_resolve (dk_view d) (butlast target), os_resolve (dk_view d) (he_ws H)) of
           (Some parent, Some ws) \<Rightarrow>
             if relative_to parent ws = None then (helper_error ''path escapes workspace boundary'', d)
             else (case os_mkdirs (he_os H) (butlast target) d of
               (Inl e, d1) \<Rightarrow> (helper_error (exc_class e), d1)
             | (Inr _, d1) \<Rightarrow>
                 (case os_write_text (he_os H) target content d1 of
                    (Inl e, d2) \<Rightarrow> (helper_error (exc_class e), d2)
                  | (Inr _, d2) \<Rightarrow>
                      ((''EXECUTED'',
                        [(''operation'', JStr ''write_text''), (''resource'', JStr res),
                         (''bytes_written'', JInt (int nbytes))], None), d2)))
         | _ \<Rightarrow> (helper_error (if dk_resolve_exc d = ''ValueError'' then ''path escapes workspace boundary''
                                 else dk_resolve_exc d), d))"

definition helper_delete :: "pystr \<Rightarrow> helper_reply" where
  "helper_delete res =
     (''EXECUTED'',
      [(''operation'', JStr ''delete_path''), (''resource'', JStr res), (''simulated'', JBool True),
       (''note'', JStr ''Deletion simulated safely in baseline demo; target not unlinked.'')], None)"

text \<open>\<open>min(max(timeout, 1), 300)\<close> without the test for NaN, which passes through.\<close>

definition helper_clamp :: "pyfloat \<Rightarrow> pyfloat" where
  "helper_clamp x =
     (case x of
        Finite m e \<Rightarrow>
          (let (m', e') = num_min (num_max (m, e) RUN_COMMAND_MIN_TIMEOUT_S) RUN_COMMAND_MAX_TIMEOUT_S
           in Finite m' e')
      | Infinite positive \<Rightarrow> if positive then Finite 300 0 else Finite 1 0
      | Not_a_number \<Rightarrow> Not_a_number)"

definition truncated_output :: "(pystr \<Rightarrow> pystr) \<Rightarrow> pystr \<Rightarrow> pystr" where
  "truncated_output decode bs =
     decode (take RUN_COMMAND_OUTPUT_LIMIT bs)
     @ (if RUN_COMMAND_OUTPUT_LIMIT < length bs
        then [CHR 0x0A] @ ''...[truncated '' @ show_nat (length bs - RUN_COMMAND_OUTPUT_LIMIT)
             @ '' bytes]'' @ [CHR 0x0A] else [])"

definition command_reply :: "pystr list \<Rightarrow> json \<Rightarrow> pystr \<Rightarrow> pystr \<Rightarrow> bool \<Rightarrow> bool \<Rightarrow> bool \<Rightarrow> jobj" where
  "command_reply argv exit_code out err out_trunc err_trunc timed_out =
     [(''operation'', JStr ''run_command''), (''argv'', JArr (map JStr argv)), (''exit_code'', exit_code),
      (''stdout'', JStr out), (''stderr'', JStr err), (''truncated_stdout'', JBool out_trunc),
      (''truncated_stderr'', JBool err_trunc), (''timed_out'', JBool timed_out)]"

definition helper_command :: "helper_env \<Rightarrow> pystr \<Rightarrow> jobj \<Rightarrow> disk \<Rightarrow> helper_reply \<times> disk" where
  "helper_command H res args d =
     (case (case jget args ''argv'' of JArr vs \<Rightarrow> if vs = [] then None else json_strings vs | _ \<Rightarrow> None) of
        None \<Rightarrow> (helper_error ''malformed argv for run_command'', d)
      | Some argv \<Rightarrow>
          if list_ex (\<lambda>a. CHR 0x00 \<in> set a) argv then (helper_error ''null byte in argv'', d)
          else case (case map_of args ''timeout_s'' of
                       None \<Rightarrow> Inr (Finite 60 0)
                     | Some v \<Rightarrow>
                         (case py_float (he_parse H) v of
                            Inl e \<Rightarrow> if e \<in> {''TypeError'', ''ValueError''} then Inr (Finite 60 0) else Inl e
                          | Inr x \<Rightarrow> Inr x)) of
            Inl e \<Rightarrow> (helper_error e, d)
          | Inr limit \<Rightarrow>
              if ''..'' \<in> set (pure_path_parts res)
              then (helper_error ''cwd uses directory traversal'', d)
              else case (os_resolve (dk_view d) (if res = [] \<or> res = ''.'' then he_ws H
                                                 else he_ws H @ pure_path_parts res),
                         os_resolve (dk_view d) (he_ws H)) of
                (Some cwd, Some ws) \<Rightarrow>
                  if relative_to cwd ws = None then (helper_error ''cwd escapes workspace boundary'', d)
                  else if \<not> is_dir_node (dk_node d cwd) then (helper_error (''cwd not found: '' @ res), d)
                  else (case he_run H argv (helper_clamp limit) cwd d of
                      (Run_timeout, d') \<Rightarrow>
                        ((''FAILED'', command_reply argv JNull [] [] False False True, Some ''COMMAND_TIMEOUT''), d')
                    | (Run_not_found, d') \<Rightarrow> (helper_error ''command not found'', d')
                    | (Run_raised c, d') \<Rightarrow> (helper_error c, d')
                    | (Ran code out err, d') \<Rightarrow>
                        ((if code = 0 then ''EXECUTED'' else ''FAILED'',
                          command_reply argv (JInt code) (truncated_output (he_decode H) out)
                            (truncated_output (he_decode H) err)
                            (RUN_COMMAND_OUTPUT_LIMIT < length out) (RUN_COMMAND_OUTPUT_LIMIT < length err) False,
                          if code = 0 then None else Some ''NONZERO_EXIT''), d'))
              | _ \<Rightarrow> (helper_error (if dk_resolve_exc d = ''ValueError'' then ''cwd escapes workspace boundary''
                                     else ''cwd resolution failed''), d))"

definition absolute_resource :: "pystr \<Rightarrow> bool" where
  "absolute_resource res \<longleftrightarrow>
     starts_with res ''/'' \<or> starts_with res [CHR 0x5C] \<or> (1 < length res \<and> res ! 1 = CHR '':'')"

definition helper_operation ::
  "helper_env \<Rightarrow> pystr \<Rightarrow> pystr \<Rightarrow> path \<Rightarrow> json \<Rightarrow> disk \<Rightarrow> helper_reply \<times> disk" where
  "helper_operation H op res target args d =
     (if op = ''network_request'' then (helper_error ''network requests are forbidden'', d)
      else if op = ''list_directory'' then (helper_list H res target d, d)
      else if op = ''read_text'' then (helper_read H res target d, d)
      else if op = ''write_text'' then
        (case args of JObj kvs \<Rightarrow> helper_write H res target kvs d
         | _ \<Rightarrow> (helper_error ''AttributeError'', d))
      else if op = ''delete_path'' then (helper_delete res, d)
      else if op = ''run_command'' then
        (case args of JObj kvs \<Rightarrow> helper_command H res kvs d
         | _ \<Rightarrow> (helper_error ''AttributeError'', d))
      else (helper_error (''Unsupported operation: '' @ op), d))"

definition helper_main :: "helper_env \<Rightarrow> pystr \<Rightarrow> pystr \<Rightarrow> pystr \<Rightarrow> disk \<Rightarrow> helper_reply \<times> disk" where
  "helper_main H op res args_json d =
     (case (if args_json = [] then Some (JObj []) else he_loads H args_json) of
        None \<Rightarrow> (helper_error ''malformed arguments'', d)
      | Some args \<Rightarrow>
          if CHR 0x00 \<in> set res then (helper_error ''null byte in path'', d)
          else if absolute_resource res then (helper_error ''absolute paths are prohibited'', d)
          else case (os_resolve (dk_view d) (he_ws H @ pure_path_parts res),
                     os_resolve (dk_view d) (he_ws H)) of
            (Some target, Some ws) \<Rightarrow>
              if relative_to target ws = None then (helper_error ''path escapes workspace boundary'', d)
              else helper_operation H op res target args d
          | _ \<Rightarrow> (helper_error (if dk_resolve_exc d = ''ValueError'' then ''path escapes workspace boundary''
                                 else ''path resolution failed''), d))"

section \<open>Lemmas\<close>

text \<open>The clamped timeout lies between the bounds.\<close>

lemma num_less_self [simp]: "\<not> num_less a a"
  by (simp add: num_less_def)

lemma clamp_bounds:
  assumes "clamp_run_command_timeout parse v = Inr t"
  shows "\<not> num_less t RUN_COMMAND_MIN_TIMEOUT_S \<and> \<not> num_less RUN_COMMAND_MAX_TIMEOUT_S t"
proof -
  have order: "\<not> num_less RUN_COMMAND_MAX_TIMEOUT_S RUN_COMMAND_MIN_TIMEOUT_S"
    "\<not> num_less RUN_COMMAND_DEFAULT_TIMEOUT_S RUN_COMMAND_MIN_TIMEOUT_S"
    "\<not> num_less RUN_COMMAND_MAX_TIMEOUT_S RUN_COMMAND_DEFAULT_TIMEOUT_S"
    by (simp_all add: num_less_def RUN_COMMAND_MIN_TIMEOUT_S_def RUN_COMMAND_MAX_TIMEOUT_S_def
        RUN_COMMAND_DEFAULT_TIMEOUT_S_def)
  show ?thesis
    using assms order
    by (auto simp: clamp_run_command_timeout_def num_min_def num_max_def
        split: sum.splits pyfloat.splits if_splits)
qed

lemma read_events_bounded:
  assumes "length (pb_out b) \<le> mb" "length (pb_err b) \<le> mb" and "read_events mb evs b = (b', False)"
  shows "length (pb_out b') \<le> mb \<and> length (pb_err b') \<le> mb"
  using assms
proof (induction mb evs b rule: read_events.induct)
  case (2 mb is_out chunk evs b)
  then show ?case by (auto simp: Let_def split: if_splits)
qed simp

lemma read_loop_bounded:
  assumes "read_loop mb rounds n b = Some y" and "length (pb_out b) \<le> mb \<and> length (pb_err b) \<le> mb"
    and "fst y = Drained"
  shows "length (pb_out (snd y)) \<le> mb \<and> length (pb_err (snd y)) \<le> mb"
proof -
  have "length (pb_out b) \<le> mb \<and> length (pb_err b) \<le> mb \<longrightarrow> fst y = Drained \<longrightarrow>
      length (pb_out (snd y)) \<le> mb \<and> length (pb_err (snd y)) \<le> mb"
  proof (rule read_loop.raw_induct[where P = "\<lambda>mb rounds n b y.
        length (pb_out b) \<le> mb \<and> length (pb_err b) \<le> mb \<longrightarrow> fst y = Drained \<longrightarrow>
        length (pb_out (snd y)) \<le> mb \<and> length (pb_err (snd y)) \<le> mb", OF _ assms(1)])
    fix f mb rounds n b y
    assume ih: "\<And>mb rounds n b y. f mb rounds n b = Some y \<Longrightarrow>
        length (pb_out b) \<le> mb \<and> length (pb_err b) \<le> mb \<longrightarrow> fst y = Drained \<longrightarrow>
        length (pb_out (snd y)) \<le> mb \<and> length (pb_err (snd y)) \<le> mb"
      and run: "(if \<not> pb_out_open b \<and> \<not> pb_err_open b then Some (Drained, b)
        else if pr_remaining (rounds n) \<le> 0 then Some (Deadline, b)
        else case read_events mb (pr_events (rounds n)) b of (b', over) \<Rightarrow>
          if over then Some (Overrun, b')
          else if pr_ended (rounds n) \<and> pr_events (rounds n) = [] then Some (Drained, b')
          else f mb rounds (Suc n) b') = Some y"
    obtain b' over where ev: "read_events mb (pr_events (rounds n)) b = (b', over)" by fastforce
    show "length (pb_out b) \<le> mb \<and> length (pb_err b) \<le> mb \<longrightarrow> fst y = Drained \<longrightarrow>
        length (pb_out (snd y)) \<le> mb \<and> length (pb_err (snd y)) \<le> mb"
    proof (intro impI)
      assume small: "length (pb_out b) \<le> mb \<and> length (pb_err b) \<le> mb" and "fst y = Drained"
      then show "length (pb_out (snd y)) \<le> mb \<and> length (pb_err (snd y)) \<le> mb"
        using run ev ih[of mb rounds "Suc n" b' y] read_events_bounded[of b mb "pr_events (rounds n)" b']
        by (auto split: if_splits)
    qed
  qed
  with assms(2,3) show ?thesis by simp
qed

lemma read_loop_ends:
  assumes "pr_remaining (rounds (n + k)) \<le> 0"
  shows "\<exists>y. read_loop mb rounds n b = Some y"
  using assms
proof (induction k arbitrary: n b)
  case 0
  then show ?case by (subst read_loop.simps) auto
next
  case (Suc k)
  have "\<exists>y. read_loop mb rounds (Suc n) b' = Some y" for b' using Suc by simp
  then show ?case by (subst read_loop.simps) (auto split: prod.split)
qed

section \<open>The container and the local backend do the same to a file\<close>

text \<open>
  How the two report the same failure. They agree on the text, but for two cases: of the three file
  errors the local executor shows the text and the helper the class, and a parent outside the
  workspace is a security error to the local executor.
\<close>

definition same_failure :: "jobj \<Rightarrow> jobj \<Rightarrow> bool" where
  "same_failure helper local_result \<longleftrightarrow>
     helper = local_result
     \<or> helper \<in> {[(''error'', JStr ''FileNotFoundError'')], [(''error'', JStr ''NotADirectoryError'')],
                  [(''error'', JStr ''IsADirectoryError'')]}
     \<or> helper = [(''error'', JStr ''path escapes workspace boundary'')]
         \<and> local_result = [(''error'', JStr ''ExecutionSecurityError'')]"

definition same_effect :: "helper_reply \<times> disk \<Rightarrow> (exc + receipt) \<times> world \<Rightarrow> bool" where
  "same_effect hp rw \<longleftrightarrow>
     (case (hp, rw) of
        (((status, result, code), d), (Inr r, w)) \<Rightarrow>
          status = (if rec_status r = XS_EXECUTED then ''EXECUTED'' else ''FAILED'')
          \<and> code = rec_error_code r \<and> d = w_disk w
          \<and> (case sanitized_result r of
                None \<Rightarrow> False
              | Some local_result \<Rightarrow>
                  (if status = ''EXECUTED'' then result = local_result else same_failure result local_result))
      | _ \<Rightarrow> False)"

definition caught :: "action \<Rightarrow> pystr \<Rightarrow> instant \<Rightarrow> receipt tx \<Rightarrow> receipt tx" where
  "caught a rid began m =
     tx_catch m (\<lambda>e. mk_receipt a rid began XS_FAILED
        [(''error'', JStr (sanitized_message e))] (Some ''EXECUTION_FAILED''))"

lemma mk_receipt_run:
  "mk_receipt a rid began st result code w =
     (Inr \<lparr>rec_id = rid, rec_action_id = act_id a, rec_status = st, started_at = began,
           completed_at = clock_src w (clock_count w), rec_executor = executor_name,
           sanitized_result = Some result, rec_error_code = code, rec_resource = resource a,
           rec_operation = operation a\<rparr>, w\<lparr>clock_count := Suc (clock_count w)\<rparr>)"
  by (simp add: mk_receipt_def tx_bind_def utc_now_def tx_return_def)

lemma same_failure_refl [simp]: "same_failure x x"
  by (simp add: same_failure_def)

text \<open>The helper reports the class of what it catches.\<close>

lemma same_failure_class [simp]:
  "same_failure [(''error'', JStr (exc_class e))] [(''error'', JStr (sanitized_message e))]"
  "same_failure [(''error'', JStr ''FileNotFoundError'')] r"
  "same_failure [(''error'', JStr ''NotADirectoryError'')] r"
  "same_failure [(''error'', JStr ''IsADirectoryError'')] r"
  "same_failure [(''error'', JStr ''path escapes workspace boundary'')]
     [(''error'', JStr (sanitized_message (security_error m k)))]"
  by (cases e) (auto simp: same_failure_def security_error_def)

lemmas effect_defs = same_effect_def caught_def tx_catch_def tx_bind_def tx_raise_def mk_receipt_run
  helper_error_def helper_fail_def

lemma list_same_effect:
  "same_effect (helper_list H (resource a) target (w_disk w), w_disk w)
     (caught a rid began (exec_list_directory (he_os H) a target rid began) w)"
  by (auto simp: effect_defs helper_list_def exec_list_directory_def os_check_def disk_op_def Let_def
      split: option.split node.split)

lemma read_same_effect:
  "same_effect (helper_read H (resource a) target (w_disk w), w_disk w)
     (caught a rid began (exec_read_text (he_os H) a target rid began) w)"
  by (auto simp: effect_defs helper_read_def exec_read_text_def os_check_def disk_op_def Let_def
      split: option.split node.split)

lemma delete_same_effect:
  "same_effect (helper_delete (resource a), w_disk w)
     (caught a rid began (exec_delete_path a rid began) w)"
  by (simp add: effect_defs helper_delete_def exec_delete_path_def)

lemma containment_run:
  "verify_workspace_containment ws p w =
     (case (os_resolve (dk_view (w_disk w)) ws, os_resolve (dk_view (w_disk w)) p) of
        (Some r, Some q) \<Rightarrow>
          if relative_to q r = None
          then (Inl (security_error ''Path escapes workspace boundary.'' ''WORKSPACE_ESCAPE''), w)
          else (Inr q, w)
      | _ \<Rightarrow> (Inl (if dk_resolve_exc (w_disk w) = ''ValueError''
                  then security_error ''Path escapes workspace boundary.'' ''WORKSPACE_ESCAPE''
                  else Py_error (dk_resolve_exc (w_disk w)) []), w))"
  by (auto simp: verify_workspace_containment_def resolve_workspace_target_def tx_catch_def tx_bind_def
      resolve_path_run tx_return_def tx_raise_def split: option.splits)

lemma write_same_effect:
  "same_effect (helper_write H (resource a) target (arguments a) (w_disk w))
     (caught a rid began (exec_write_text (he_os H) a (he_ws H) target rid began) w)"
proof -
  let ?c = "content_argument (he_os H) a" and ?d = "w_disk w"
  have c: "(case map_of (arguments a) ''content'' of
      None \<Rightarrow> [] | Some v \<Rightarrow> json_text (float_repr (he_os H)) v) = ?c"
    by (simp add: content_argument_def)
  obtain x1 d1 where mk: "os_mkdirs (he_os H) (butlast target) ?d = (x1, d1)" by fastforce
  obtain x2 d2 where wr: "os_write_text (he_os H) target ?c d1 = (x2, d2)" by fastforce
  show ?thesis
  proof (cases "MAX_WRITE_BYTES < utf8_length ?c")
    case True
    then show ?thesis unfolding helper_write_def exec_write_text_def c Let_def
      by (simp add: effect_defs)
  next
    case False
    then show ?thesis unfolding helper_write_def exec_write_text_def c Let_def
      using mk wr
      by (auto simp: effect_defs containment_run disk_op_run split: option.split sum.split)
  qed
qed

lemma scoped_target_place:
  assumes "verify_scoped_target ws res scope req w = (Inr t, w')"
  shows "\<exists>root. os_resolve (dk_view (w_disk w)) ws = Some root
    \<and> os_resolve (dk_view (w_disk w)) (root @ normalize_relative_segments res) = Some t
    \<and> relative_to t root \<noteq> None"
proof -
  let ?v = "dk_view (w_disk w)" and ?n = "normalize_relative_segments res"
  from assms obtain root t0 w1 where root: "os_resolve ?v ws = Some root"
    and con: "verify_workspace_containment root (root @ ?n) w = (Inr t0, w1)"
    and chk: "scoped_target_check (dk_view (w_disk w1)) root ?n t0 scope req = Inr t"
    by (auto simp: verify_scoped_target_def Let_def tx_bind_Inr resolve_path_Inr)
  from verify_containment_Inr[OF con] have t0: "os_resolve ?v (root @ ?n) = Some t0" "w1 = w" by auto
  from chk have "t = t0 \<and> relative_to t0 root \<noteq> None"
    by (auto simp: scoped_target_check_def split: option.splits if_splits)
  with t0 root show ?thesis by auto
qed

section \<open>Properties\<close>

text \<open>
  C29: the container and the local backend do the same to a file. For the file operations, on a resource
  that reads the same with and without the policy's normalisation and that the scope check accepted,
  the helper program reports the status and error code of the local executor's receipt, the same
  result where it executed, the same message where it did not, and leaves the same disk; also where
  the operating system raises an error when the path is looked up, opened or written, or a directory
  is created or resolved. The messages differ in two cases (\<open>same_failure\<close>): of the three file errors the
  executor shows the text and the helper the class; of a parent outside the workspace the executor
  shows its security error.
\<close>

theorem helper_agrees_with_local:
  assumes scoped: "verify_scoped_target (he_ws H) (resource a) scope True w = (Inr target, w)"
    and own: "os_resolve (dk_view (w_disk w)) (he_ws H) = Some (he_ws H)"
    and loads: "he_loads H (json_dumps fl (JObj (arguments a))) = Some (JObj (arguments a))"
    and name: "pure_path_parts (resource a) = normalize_relative_segments (resource a)"
      "CHR 0x00 \<notin> set (resource a)" "\<not> absolute_resource (resource a)"
    and op: "operation a \<in> {''list_directory'', ''read_text'', ''write_text'', ''delete_path''}"
  shows "same_effect
     (helper_main H (operation a) (resource a) (json_dumps fl (JObj (arguments a))) (w_disk w))
     (caught a rid began (exec_operation (he_os H) a (he_ws H) scope rid began) w)"
proof -
  have place: "os_resolve (dk_view (w_disk w)) (he_ws H @ pure_path_parts (resource a)) = Some target"
    "relative_to target (he_ws H) \<noteq> None"
    using scoped_target_place[OF scoped] own name(1) by auto
  have main: "helper_main H (operation a) (resource a) (json_dumps fl (JObj (arguments a))) (w_disk w)
      = helper_operation H (operation a) (resource a) target (JObj (arguments a)) (w_disk w)"
    using place own loads name(2,3) by (auto simp: helper_main_def)
  have exec: "caught a rid began (exec_operation (he_os H) a (he_ws H) scope rid began) w
      = caught a rid began
          (if operation a = ''list_directory'' then exec_list_directory (he_os H) a target rid began
           else if operation a = ''read_text'' then exec_read_text (he_os H) a target rid began
           else if operation a = ''write_text'' then exec_write_text (he_os H) a (he_ws H) target rid began
           else exec_delete_path a rid began) w"
    using scoped op by (auto simp: caught_def tx_catch_def exec_operation_def tx_bind_def)
  show ?thesis
    unfolding main exec using op
    by (auto simp: helper_operation_def list_same_effect read_same_effect write_same_effect delete_same_effect)
qed

definition demo_helper :: helper_env where
  "demo_helper =
     \<lparr>he_ws = [''ws''], he_os = demo_os, he_parse = (\<lambda>s. None),
      he_loads = (\<lambda>t. if t = ''{}'' then Some (JObj []) else None), he_decode = (\<lambda>s. s),
      he_run = (\<lambda>argv limit cwd d. (Run_not_found, d))\<rparr>"

theorem helper_agrees_with_local_witness:
  "same_effect
     (helper_main demo_helper ''read_text'' ''invoices/approved/a.txt'' ''{}'' demo_disk)
     (caught (demo_action ''read_text'' ''invoices/approved/a.txt'' []) ''r'' 0
       (exec_operation demo_os (demo_action ''read_text'' ''invoices/approved/a.txt'' []) [''ws'']
          (Some demo_scope) ''r'' 0) (demo_world demo_store))"
proof -
  let ?a = "demo_action ''read_text'' ''invoices/approved/a.txt'' []"
  let ?w = "demo_world demo_store"
  have scoped: "verify_scoped_target (he_ws demo_helper) (resource ?a) (Some demo_scope) True ?w
      = (Inr [''ws'', ''invoices'', ''approved'', ''a.txt''], ?w)"
  proof -
    let ?r = "verify_scoped_target [''ws''] (resource ?a) (Some demo_scope) True ?w"
    have "fst ?r = Inr [''ws'', ''invoices'', ''approved'', ''a.txt'']" by code_simp
    then obtain w' where r: "?r = (Inr [''ws'', ''invoices'', ''approved'', ''a.txt''], w')"
      by (metis prod.collapse)
    with verify_scoped_target_Inr[OF r] show ?thesis by (simp add: demo_helper_def)
  qed
  have "same_effect
      (helper_main demo_helper (operation ?a) (resource ?a) (json_dumps (\<lambda>m e. []) (JObj (arguments ?a))) (w_disk ?w))
      (caught ?a ''r'' 0 (exec_operation (he_os demo_helper) ?a (he_ws demo_helper) (Some demo_scope) ''r'' 0) ?w)"
  proof (rule helper_agrees_with_local[OF scoped])
    show "os_resolve (dk_view (w_disk ?w)) (he_ws demo_helper) = Some (he_ws demo_helper)"
      by (simp add: demo_world_def demo_disk_def quiet_view_def)
    show "he_loads demo_helper (json_dumps (\<lambda>m e. []) (JObj (arguments ?a))) = Some (JObj (arguments ?a))"
      by (simp add: demo_helper_def demo_action_def)
    show "pure_path_parts (resource ?a) = normalize_relative_segments (resource ?a)"
      "CHR 0x00 \<notin> set (resource ?a)" "\<not> absolute_resource (resource ?a)" by code_simp+
    show "operation ?a \<in> {''list_directory'', ''read_text'', ''write_text'', ''delete_path''}"
      by (simp add: demo_action_def)
  qed
  then show ?thesis by (simp add: demo_helper_def demo_action_def demo_world_def)
qed

text \<open>
  C15: reading a container ends and is bounded. Once the clock reaches the deadline at some turn, the
  loop has ended; a completed process left at most the limit on each stream, and one that was given
  up, for time or for volume, was killed.
\<close>

theorem container_output_bounded:
  assumes "pr_remaining (rounds k) \<le> 0"
  shows "\<exists>r killed. run_docker_process max_bytes rounds wait = Some (r, killed)
     \<and> (case r of
          Completed code out err \<Rightarrow> length out \<le> max_bytes \<and> length err \<le> max_bytes \<and> \<not> killed
        | _ \<Rightarrow> killed)"
proof -
  let ?b = "\<lparr>pb_out = [], pb_err = [], pb_out_open = True, pb_err_open = True\<rparr>"
  obtain stop b where y: "read_loop max_bytes rounds 0 ?b = Some (stop, b)"
    using read_loop_ends[of rounds 0 k max_bytes ?b] assms by auto
  with read_loop_bounded[OF y] show ?thesis
    by (cases stop) (auto simp: run_docker_process_def split: option.split)
qed

definition demo_rounds :: "nat \<Rightarrow> proc_round" where
  "demo_rounds n = \<lparr>pr_remaining = 2 - int n, pr_events = [(True, ''abc'')], pr_ended = False\<rparr>"

theorem container_output_bounded_witness:
  "\<exists>r killed. run_docker_process 4 demo_rounds (Some 0) = Some (r, killed) \<and> r \<noteq> Completed 0 [] [] "
proof -
  have "pr_remaining (demo_rounds 2) \<le> 0" by (simp add: demo_rounds_def)
  from container_output_bounded[where rounds = demo_rounds and k = 2 and max_bytes = 4 and wait = "Some 0", OF this]
  obtain r killed where r: "run_docker_process 4 demo_rounds (Some 0) = Some (r, killed)" by blast
  have "read_loop 4 demo_rounds 0 \<lparr>pb_out = [], pb_err = [], pb_out_open = True, pb_err_open = True\<rparr>
      = Some (Overrun, \<lparr>pb_out = ''abcabc'', pb_err = [], pb_out_open = True, pb_err_open = True\<rparr>)"
    by (subst read_loop.simps, simp add: demo_rounds_def, subst read_loop.simps)
      (simp add: demo_rounds_def Let_def)
  with r have "r = Output_overrun" by (simp add: run_docker_process_def)
  with r show ?thesis by simp
qed

end
