(* ===== verification/ExecutorDocker.thy ===== *)
theory ExecutorDocker
  imports DockerJob
begin

text \<open>
  \<open>backend/scopewatch/executor_docker.py\<close>: the Docker backend. The gate and the stored checks are those
  of the local backend; then the scope is checked on the workspace, a staged copy is made without the
  blocked paths and checked again, the job is run in a container over the copy, its reply is read, and
  the writes of a successful job are copied back. The container, the daemon, the temporary directory
  and the reading of a directory tree are an environment (\<open>docker_env\<close>); \<open>de_host\<close> and \<open>de_put\<close> are the
  host's entries as part of the disk.
\<close>

datatype docker_outcome = Process proc_result | No_docker | Docker_raised

record docker_env =
  de_float :: "int \<Rightarrow> int \<Rightarrow> pystr"
  de_parse :: "pystr \<Rightarrow> pyfloat option"
  de_loads :: "pystr \<Rightarrow> json option"
  de_hex :: "pystr \<Rightarrow> pystr"
  de_sys :: pystr
  de_image :: pystr
  de_helper :: pystr
  de_timeout :: "int \<times> int"
  de_available :: bool
  de_staging_root :: path
  de_stage :: "disk \<Rightarrow> stage_env"
  de_tree :: "disk \<Rightarrow> path \<Rightarrow> staged"
  de_mount :: "path \<Rightarrow> staged \<Rightarrow> disk \<Rightarrow> disk"
  de_unmount :: "path \<Rightarrow> disk \<Rightarrow> disk"
  de_run :: "pystr list \<Rightarrow> int \<times> int \<Rightarrow> staged \<Rightarrow> docker_outcome \<times> staged"
  de_host :: "disk \<Rightarrow> host"
  de_put :: "host \<Rightarrow> disk \<Rightarrow> disk"
  de_host_view :: "host \<Rightarrow> fsview"
  de_deny :: "path \<Rightarrow> bool"

definition EXECUTOR_IMAGE_ENV_VAR :: pystr where
  "EXECUTOR_IMAGE_ENV_VAR = ''SCOPEWATCH_EXECUTOR_IMAGE''"

definition resolve_executor_image :: "environ \<Rightarrow> pystr \<Rightarrow> pystr option \<Rightarrow> pystr" where
  "resolve_executor_image env pin img =
     (if truthy img then or_empty img
      else case env EXECUTOR_IMAGE_ENV_VAR of None \<Rightarrow> pin | Some v \<Rightarrow> v)"

definition docker_executor_name :: pystr where "docker_executor_name = ''docker-executor''"

definition extract_run_command_argv :: "action \<Rightarrow> pystr list option" where
  "extract_run_command_argv a =
     (case (jget (arguments a) ''command'', jget (arguments a) ''argv'') of
        (JStr raw_command, _) \<Rightarrow>
          (case shlex_split raw_command of
             Inl e \<Rightarrow> None
           | Inr argv \<Rightarrow> if argv = [] then None else Some argv)
      | (_, JArr vs) \<Rightarrow> if vs = [] then None else json_strings vs
      | _ \<Rightarrow> None)"

definition docker_receipt ::
  "action \<Rightarrow> pystr \<Rightarrow> instant \<Rightarrow> instant \<Rightarrow> execution_status \<Rightarrow> jobj \<Rightarrow> pystr option \<Rightarrow> receipt" where
  "docker_receipt a receipt_id began finished st result code =
     \<lparr>rec_id = receipt_id, rec_action_id = act_id a, rec_status = st, started_at = began,
      completed_at = finished, rec_executor = docker_executor_name, sanitized_result = Some result,
      rec_error_code = code, rec_resource = resource a, rec_operation = operation a\<rparr>"

text \<open>The closure \<open>_failed\<close>.\<close>

definition docker_failed :: "action \<Rightarrow> pystr \<Rightarrow> instant \<Rightarrow> pystr \<Rightarrow> pystr \<Rightarrow> receipt tx" where
  "docker_failed a rid began code msg =
     tx_bind utc_now (\<lambda>finished.
       tx_return (docker_receipt a rid began finished XS_FAILED [(''error'', JStr msg)] (Some code)))"

definition OS_ERROR_CLASSES :: "pystr list" where
  "OS_ERROR_CLASSES = [''OSError'', ''FileNotFoundError'', ''FileExistsError'', ''PermissionError'',
     ''NotADirectoryError'', ''IsADirectoryError'', ''SpecialFileError'', ''Error'', ''StagingScopeError'']"

definition scope_refusal :: "exc \<Rightarrow> bool" where
  "scope_refusal e \<longleftrightarrow> exc_class e \<in> set (''ExecutionSecurityError'' # ''RuntimeError'' # OS_ERROR_CLASSES)"

text \<open>\<open>_verify_scoped_target\<close> inside its \<open>try\<close>: whether the target is in scope.\<close>

definition target_is_scoped :: "path \<Rightarrow> action \<Rightarrow> task_scope option \<Rightarrow> bool tx" where
  "target_is_scoped ws a scope =
     tx_catch (tx_bind (verify_scoped_target ws (resource a) scope (operation a \<noteq> ''run_command''))
                 (\<lambda>target. tx_return True))
       (\<lambda>e. if scope_refusal e then tx_return False else tx_raise e)"

definition load_scope_from_store :: "action \<Rightarrow> task_scope option tx" where
  "load_scope_from_store a =
     tx_catch (tx_bind (get_run (act_run_id a)) (\<lambda>r. tx_return (map_option run_scope r)))
       (\<lambda>e. tx_return None)"

definition copy_path :: "docker_env \<Rightarrow> path" where
  "copy_path E = de_staging_root E @ [''workspace'']"

definition revalidated ::
  "docker_env \<Rightarrow> action \<Rightarrow> task_scope option \<Rightarrow> path \<Rightarrow> denial option tx" where
  "revalidated E a scope ws =
     (if operation a \<noteq> ''run_command'' then tx_return None
      else case scope of
        None \<Rightarrow> tx_return None
      | Some sc \<Rightarrow>
          tx_bind (read_disk dk_view) (\<lambda>v.
            tx_return (revalidate_run_command_in_workspace v (de_sys E) a sc ws)))"

definition docker_matcher :: "docker_env \<Rightarrow> path \<Rightarrow> host \<Rightarrow> path \<Rightarrow> path \<Rightarrow> bool" where
  "docker_matcher E root fs = blocked_path_matcher (de_host_view E fs) root"

section \<open>The reply of the container\<close>

fun str_exc :: "exc \<Rightarrow> pystr" where
  "str_exc (Py_error c msg) = msg"
| "str_exc (Api_error code msg status) = msg"
| "str_exc (Security_error msg code status) = msg"
| "str_exc (Guard_refusal status code msg retry) = msg"
| "str_exc (Repo_conflict msg) = msg"
| "str_exc (Repo_not_found msg) = msg"

definition docker_sync_conf :: "docker_env \<Rightarrow> path \<Rightarrow> bool option \<Rightarrow> sync_conf" where
  "docker_sync_conf E root ci =
     \<lparr>sc_deny = de_deny E, sc_root = root, sc_blocked = [], sc_case = ci,
      sc_matcher = Some (docker_matcher E root)\<rparr>"

definition sync_back ::
  "docker_env \<Rightarrow> path \<Rightarrow> bool option \<Rightarrow> json \<Rightarrow> staged \<Rightarrow> (exc + pystr list) tx" where
  "sync_back E root ci blocked t =
     disk_op (\<lambda>d. case sync_copy_back (docker_sync_conf E root ci) t blocked MAX_COPY_BACK_BYTES
                         MAX_COPY_BACK_FILES (de_host E d) of
                    (r, fs) \<Rightarrow> (Inr r, de_put E fs d))"

text \<open>The receipt: a result that is no dictionary, or a code that is no string, does not validate.\<close>

definition docker_result ::
  "action \<Rightarrow> pystr \<Rightarrow> instant \<Rightarrow> instant \<Rightarrow> execution_status \<Rightarrow> json \<Rightarrow> json \<Rightarrow> receipt tx" where
  "docker_result a rid began finished st result code =
     (case (result, code) of
        (JObj r, JNull) \<Rightarrow> tx_return (docker_receipt a rid began finished st r None)
      | (JObj r, JStr c) \<Rightarrow> tx_return (docker_receipt a rid began finished st r (Some c))
      | _ \<Rightarrow> tx_raise (Py_error ''ValidationError'' []))"

definition docker_reply ::
  "docker_env \<Rightarrow> action \<Rightarrow> path \<Rightarrow> bool option \<Rightarrow> json \<Rightarrow> pystr \<Rightarrow> instant \<Rightarrow> jobj \<Rightarrow> staged \<Rightarrow> receipt tx" where
  "docker_reply E a root ci blocked rid began payload t =
     (let status = jget payload ''status'';
          r = jget payload ''result'';
          result = (if json_truthy r then r else JObj []);
          error_code = jget payload ''error_code''
      in if status \<noteq> JStr ''EXECUTED'' \<and> status \<noteq> JStr ''FAILED''
         then docker_failed a rid began ''EXECUTION_FAILED'' ''Docker helper returned malformed output.''
         else tx_bind utc_now (\<lambda>finished.
           let st = (if status = JStr ''EXECUTED'' then XS_EXECUTED else XS_FAILED)
           in if st = XS_EXECUTED \<and> operation a \<in> {''write_text'', ''run_command''} then
                tx_bind (sync_back E root ci blocked t) (\<lambda>synced. case synced of
                    Inl e \<Rightarrow>
                      if exc_class e = ''OversizedCopyBackError''
                      then docker_failed a rid began ''OVERSIZED_WORKSPACE''
                             (''Copy-back refused: '' @ str_exc e)
                      else docker_failed a rid began ''EXECUTION_FAILED'' ''Docker execution failed.''
                  | Inr refused \<Rightarrow>
                      if refused = [] then docker_result a rid began finished st result error_code
                      else case result of
                        JObj kvs \<Rightarrow>
                          docker_result a rid began finished st
                            (JObj (dict_set kvs ''copy_back_refused'' (JArr (map JStr refused)))) error_code
                      | _ \<Rightarrow> tx_raise (Py_error ''TypeError'' []))
              else docker_result a rid began finished st result error_code))"

definition docker_outcome_receipt ::
  "docker_env \<Rightarrow> action \<Rightarrow> path \<Rightarrow> bool option \<Rightarrow> json \<Rightarrow> pystr \<Rightarrow> instant
     \<Rightarrow> docker_outcome \<times> staged \<Rightarrow> receipt tx" where
  "docker_outcome_receipt E a root ci blocked rid began ended =
     (case ended of
        (Process Timeout_expired, t) \<Rightarrow>
          docker_failed a rid began ''EXECUTION_FAILED'' ''Docker execution timed out.''
      | (No_docker, t) \<Rightarrow>
          docker_failed a rid began ''EXECUTION_FAILED'' ''Docker daemon unavailable; failing closed.''
      | (Process Output_overrun, t) \<Rightarrow>
          docker_failed a rid began ''EXECUTION_FAILED'' ''Docker container output exceeded size limit.''
      | (Docker_raised, t) \<Rightarrow>
          docker_failed a rid began ''EXECUTION_FAILED'' ''Docker execution failed.''
      | (Process (Completed code out err), t) \<Rightarrow>
          if code \<noteq> 0 then docker_failed a rid began ''EXECUTION_FAILED'' ''Docker execution failed.''
          else (case de_loads E out of
              None \<Rightarrow> docker_failed a rid began ''EXECUTION_FAILED'' ''Docker helper returned malformed output.''
            | Some (JObj payload) \<Rightarrow> docker_reply E a root ci blocked rid began payload t
            | Some _ \<Rightarrow> tx_raise (Py_error ''AttributeError'' [])))"

section \<open>Dispatch\<close>

text \<open>The job: the argument vector and the clamped timeout of a command, else the arguments as they are.\<close>

definition docker_job_for :: "docker_env \<Rightarrow> action \<Rightarrow> exc + docker_job option" where
  "docker_job_for E a =
     (if operation a = ''run_command''
      then case extract_run_command_argv a of
          None \<Rightarrow> Inr None
        | Some argv \<Rightarrow>
            (case clamp_run_command_timeout (de_parse E)
                    (case map_of (arguments a) ''timeout_s'' of None \<Rightarrow> JInt 60 | Some v \<Rightarrow> v) of
               Inl e \<Rightarrow> Inl e
             | Inr t \<Rightarrow>
                 map_sum id Some (prepare_docker_job (de_float E) (operation a) (resource a)
                   [(''argv'', JArr (map JStr argv)), (''timeout_s'', JFloat (fst t) (snd t))] (Some t)))
      else map_sum id Some (prepare_docker_job (de_float E) (operation a) (resource a) (arguments a) None))"

definition docker_command :: "docker_env \<Rightarrow> action \<Rightarrow> pystr \<Rightarrow> docker_job \<Rightarrow> pystr list" where
  "docker_command E a container_name j =
     build_docker_command (de_helper E) (de_image E) (copy_path E) j container_name (act_run_id a) ''docker''"

text \<open>After staging: the copy is mounted, checked, and the container runs over it.\<close>

definition docker_in_copy ::
  "docker_env \<Rightarrow> action \<Rightarrow> task_scope option \<Rightarrow> task_scope option \<Rightarrow> path \<Rightarrow> bool option \<Rightarrow> json
     \<Rightarrow> pystr \<Rightarrow> pystr \<Rightarrow> instant \<Rightarrow> staged \<Rightarrow> receipt tx" where
  "docker_in_copy E a scope dispatch_scope root ci blocked container_name rid began copy =
     tx_bind (target_is_scoped (copy_path E) a scope) (\<lambda>in_scope.
       if \<not> in_scope
       then docker_failed a rid began ''EXECUTION_FAILED'' ''Resolved path violates the task scope.''
       else tx_bind (revalidated E a dispatch_scope (copy_path E)) (\<lambda>refusal. case refusal of
           Some (rc, why, rule) \<Rightarrow>
             docker_failed a rid began (reason_code_value rc)
               ''run_command dispatch refused: staged path revalidation failed.''
         | None \<Rightarrow>
             tx_bind (tx_of_sum (docker_job_for E a)) (\<lambda>job. case job of
                 None \<Rightarrow> docker_failed a rid began ''EXECUTION_FAILED'' ''Malformed run_command arguments.''
               | Some j \<Rightarrow>
                   docker_outcome_receipt E a root ci blocked rid began
                     (de_run E (docker_command E a container_name j)
                        (host_timeout_s j (de_timeout E)) copy))))"

definition staging_of :: "docker_env \<Rightarrow> path \<Rightarrow> bool option \<Rightarrow> json \<Rightarrow> (exc + staged) tx" where
  "staging_of E root ci blocked =
     tx_bind (resolve_path root) (\<lambda>resolved_source.
     tx_bind (read_disk (\<lambda>d. stage_workspace_copy (de_stage E d) root resolved_source (de_tree E d root)
                              blocked ci (Some (docker_matcher E root (de_host E d))))) (\<lambda>r.
       tx_return r))"

definition docker_stage_and_run ::
  "docker_env \<Rightarrow> action \<Rightarrow> task_scope option \<Rightarrow> task_scope option \<Rightarrow> path \<Rightarrow> bool option \<Rightarrow> json
     \<Rightarrow> pystr \<Rightarrow> pystr \<Rightarrow> instant \<Rightarrow> receipt tx" where
  "docker_stage_and_run E a scope dispatch_scope root ci blocked container_name rid began =
     tx_bind (tx_catch (staging_of E root ci blocked) (\<lambda>e. tx_return (Inl e))) (\<lambda>st. case st of
         Inl e \<Rightarrow>
           if exc_class e \<in> set OS_ERROR_CLASSES
           then docker_failed a rid began ''EXECUTION_FAILED'' ''Workspace staging failed.''
           else tx_raise e
       | Inr copy \<Rightarrow>
           tx_bind (disk_op (\<lambda>d. (Inr (), de_mount E (copy_path E) copy d))) (\<lambda>_. \<lambda>w.
             case docker_in_copy E a scope dispatch_scope root ci blocked container_name rid began copy w of
               (r, w') \<Rightarrow> (r, w'\<lparr>w_disk := de_unmount E (de_staging_root E) (w_disk w')\<rparr>)))"

definition docker_dispatch ::
  "docker_env \<Rightarrow> action \<Rightarrow> path \<Rightarrow> task_scope option \<Rightarrow> task_scope option \<Rightarrow> pystr \<Rightarrow> instant \<Rightarrow> receipt tx" where
  "docker_dispatch E a ws scope dispatch_scope rid began =
     tx_bind uuid4 (\<lambda>u.
       let container_name = ''scopewatch-'' @ take 12 (de_hex E u);
           blocked = JArr (map JStr (case dispatch_scope of None \<Rightarrow> [] | Some sc \<Rightarrow> blocked_paths sc))
       in tx_bind (resolve_path ws) (\<lambda>root.
          tx_bind (read_disk (\<lambda>d. (dk_node d root, case_probe (dk_view d) root))) (\<lambda>(entry, ci).
            if entry = None
            then docker_failed a rid began ''EXECUTION_FAILED'' ''Workspace root not found.''
            else tx_bind (revalidated E a dispatch_scope root) (\<lambda>refusal. case refusal of
                Some (rc, why, rule) \<Rightarrow>
                  docker_failed a rid began (reason_code_value rc)
                    ''run_command dispatch refused: path revalidation failed.''
              | None \<Rightarrow>
                  docker_stage_and_run E a scope dispatch_scope root ci blocked container_name rid began))))"

text \<open>Past the gate and the stored checks.\<close>

definition docker_attempt ::
  "docker_env \<Rightarrow> action \<Rightarrow> path \<Rightarrow> bool \<Rightarrow> task_scope option \<Rightarrow> pystr \<Rightarrow> instant \<Rightarrow> receipt tx" where
  "docker_attempt E a ws with_store scope rid began =
     tx_bind (target_is_scoped ws a scope) (\<lambda>in_scope.
       if \<not> in_scope
       then docker_failed a rid began ''EXECUTION_FAILED'' ''Resolved path violates the task scope.''
       else if \<not> de_available E
       then docker_failed a rid began ''EXECUTION_FAILED'' ''Docker daemon unavailable; failing closed.''
       else tx_bind (if scope = None \<and> with_store then load_scope_from_store a else tx_return scope)
         (\<lambda>dispatch_scope.
           if scope = None \<and> with_store \<and> dispatch_scope = None \<and> operation a = ''run_command''
           then docker_failed a rid began ''EXECUTION_FAILED'' ''run_command scope unavailable; failing closed.''
           else docker_dispatch E a ws scope dispatch_scope rid began))"

definition execute_docker ::
  "docker_env \<Rightarrow> action \<Rightarrow> path \<Rightarrow> decision option \<Rightarrow> approval option \<Rightarrow> bool \<Rightarrow> task_scope option
     \<Rightarrow> receipt tx" where
  "execute_docker E a ws dec app with_store scope =
     tx_bind uuid4 (\<lambda>rid.
     tx_bind utc_now (\<lambda>began.
       let dv = authorize_dispatch (action_obj a) (decision_obj dec) (approval_obj app)
       in if dv_kind dv = VK_DENY then
            tx_bind utc_now (\<lambda>finished.
              tx_return (docker_receipt a rid began finished XS_NOT_EXECUTED
                [(''reason'', JStr ''Policy outcome was DENY; execution blocked.'')]
                (map_option (\<lambda>d. reason_code_value (reason_code d)) dec)))
          else if \<not> proceed dv then
            tx_raise (security_error (dv_reason dv) (verdict_code_value (dv_code dv)))
          else
            tx_bind (verify_stored a dec app with_store) (\<lambda>_.
              docker_attempt E a ws with_store scope rid began)))"

end
