(* ===== verification/DockerProps.thy ===== *)
theory DockerProps
  imports ExecutorDocker
begin

text \<open>
  What the Docker backend guarantees: it is an \<open>executor_backend\<close> (the database is only read, a
  denied or unauthorised action never runs), an executed action ran in a container over a copy
  without blocked paths, and the host changes only inside the run's workspace. The steps after the
  gate are walked once, in \<open>receipt_frame\<close>, for any relation on disks that the effects keep.
\<close>

section \<open>Steps that only read\<close>

definition reads_only :: "'a tx \<Rightarrow> bool" where
  "reads_only m \<longleftrightarrow> keeps (=) m \<and> disk_same m"

lemma reads_onlyD: "reads_only m \<Longrightarrow> m w = (r, w') \<Longrightarrow> db w' = db w \<and> w_disk w' = w_disk w"
  using keepsD[of "(=)" m w r w'] disk_sameD[of m w r w'] by (auto simp: reads_only_def)

lemma reads_only_basic:
  "reads_only uuid4" "reads_only utc_now" "reads_only (tx_return x)" "reads_only (tx_raise e)"
  "reads_only (read_disk g)" "reads_only (resolve_path p)" "reads_only (tx_of_sum s)"
  by (auto simp: reads_only_def disk_rules same_reads same_of_sum intro: same.keeps_rules)

lemma reads_only_bind: "reads_only m \<Longrightarrow> (\<And>x. reads_only (f x)) \<Longrightarrow> reads_only (tx_bind m f)"
  unfolding reads_only_def by (blast intro: same.keeps_rules disk_rules)

lemma reads_only_catch: "reads_only m \<Longrightarrow> (\<And>e. reads_only (h e)) \<Longrightarrow> reads_only (tx_catch m h)"
  unfolding reads_only_def by (blast intro: same.keeps_rules disk_rules)

lemma reads_only_scope: "reads_only (target_is_scoped ws a scope)"
proof -
  have "reads_only (verify_scoped_target ws res scope req)" for res req
    by (simp add: reads_only_def same_targets disk_same_targets)
  then show ?thesis
    unfolding target_is_scoped_def
    by (intro reads_only_catch reads_only_bind) (auto intro: reads_only_basic)
qed

lemma reads_only_load: "reads_only (load_scope_from_store a)"
proof -
  have "reads_only (get_run k)" for k
    unfolding reads_only_def using same_reads(2) by (auto simp: get_run_def intro: disk_rules)
  then show ?thesis
    unfolding load_scope_from_store_def by (intro reads_only_catch reads_only_bind reads_only_basic)
qed

lemma reads_only_revalidated: "reads_only (revalidated E a scope ws)"
  unfolding revalidated_def
  by (cases scope) (auto intro: reads_only_basic reads_only_bind)

lemma reads_only_staging: "reads_only (staging_of E root ci blocked)"
  unfolding staging_of_def by (intro reads_only_bind reads_only_basic)

section \<open>The steps after the gate\<close>

text \<open>
  From a world with disk \<open>d\<close>: the database is kept, the disk changes by \<open>R\<close>, a receipt is one for the
  action, and it says \<open>EXECUTED\<close> only where \<open>P\<close> holds.
\<close>

definition ends :: "(disk \<Rightarrow> disk \<Rightarrow> bool) \<Rightarrow> ('a \<Rightarrow> bool) \<Rightarrow> disk \<Rightarrow> 'a tx \<Rightarrow> bool" where
  "ends R Q d m \<longleftrightarrow>
     (\<forall>w r w'. w_disk w = d \<and> m w = (r, w') \<longrightarrow>
        db w' = db w \<and> R d (w_disk w') \<and> (\<forall>x. r = Inr x \<longrightarrow> Q x))"

definition receipt_ok :: "action \<Rightarrow> bool \<Rightarrow> receipt \<Rightarrow> bool" where
  "receipt_ok a P x \<longleftrightarrow> rec_action_id x = act_id a \<and> (rec_status x = XS_EXECUTED \<longrightarrow> P)"

abbreviation framed :: "(disk \<Rightarrow> disk \<Rightarrow> bool) \<Rightarrow> bool \<Rightarrow> action \<Rightarrow> disk \<Rightarrow> receipt tx \<Rightarrow> bool" where
  "framed R P a \<equiv> ends R (receipt_ok a P)"

lemma endsD:
  "ends R Q d m \<Longrightarrow> w_disk w = d \<Longrightarrow> m w = (r, w') \<Longrightarrow>
     db w' = db w \<and> R d (w_disk w') \<and> (\<forall>x. r = Inr x \<longrightarrow> Q x)"
  unfolding ends_def by blast

lemma framedD:
  "framed R P a d m \<Longrightarrow> w_disk w = d \<Longrightarrow> m w = (r, w') \<Longrightarrow>
     db w' = db w \<and> R d (w_disk w')
     \<and> (\<forall>x. r = Inr x \<longrightarrow> rec_action_id x = act_id a \<and> (rec_status x = XS_EXECUTED \<longrightarrow> P))"
  unfolding ends_def receipt_ok_def by blast

lemma ends_weaken: "ends R Q d m \<Longrightarrow> (\<And>x. Q x \<Longrightarrow> Q' x) \<Longrightarrow> ends R Q' d m"
  unfolding ends_def by blast

text \<open>How such steps compose, for any relation on disks that is reflexive and transitive.\<close>

locale disk_frame =
  fixes R :: "disk \<Rightarrow> disk \<Rightarrow> bool"
  assumes R_refl: "R d d"
    and R_trans: "R d d1 \<Longrightarrow> R d1 d2 \<Longrightarrow> R d d2"
begin

lemma ends_raise: "ends R Q d (tx_raise e)"
  by (simp add: ends_def R_refl)

lemma ends_return: "Q x \<Longrightarrow> ends R Q d (tx_return x)"
  by (auto simp: ends_def R_refl tx_return_def)

lemma ends_if: "ends R Q d m \<Longrightarrow> ends R Q d n \<Longrightarrow> ends R Q d (if c then m else n)"
  by simp

lemma ends_bind:
  assumes "reads_only n" and "\<And>w x w'. w_disk w = d \<Longrightarrow> n w = (Inr x, w') \<Longrightarrow> ends R Q d (f x)"
  shows "ends R Q d (tx_bind n f)"
  unfolding ends_def
proof (intro allI impI)
  fix w r w' assume "w_disk w = d \<and> tx_bind n f w = (r, w')"
  then have w: "w_disk w = d" and run: "tx_bind n f w = (r, w')" by auto
  obtain y w1 where n: "n w = (y, w1)" by fastforce
  note same = reads_onlyD[OF assms(1) n]
  show "db w' = db w \<and> R d (w_disk w') \<and> (\<forall>x. r = Inr x \<longrightarrow> Q x)"
  proof (cases y)
    case (Inl e)
    with run n same w show ?thesis by (auto simp: tx_bind_def R_refl)
  next
    case (Inr x)
    then have "f x w1 = (r, w')" using run n by (simp add: tx_bind_def)
    from endsD[OF assms(2)[OF w n[unfolded Inr]] _ this] same w show ?thesis by simp
  qed
qed

lemma ends_step:
  assumes "\<And>w y w'. w_disk w = d \<Longrightarrow> n w = (y, w') \<Longrightarrow> db w' = db w \<and> R d (w_disk w')"
    and "\<And>x d'. ends R Q d' (f x)"
  shows "ends R Q d (tx_bind n f)"
  unfolding ends_def
proof (intro allI impI)
  fix w r w' assume "w_disk w = d \<and> tx_bind n f w = (r, w')"
  then have w: "w_disk w = d" and run: "tx_bind n f w = (r, w')" by auto
  obtain y w1 where n: "n w = (y, w1)" by fastforce
  note same = assms(1)[OF w n]
  show "db w' = db w \<and> R d (w_disk w') \<and> (\<forall>x. r = Inr x \<longrightarrow> Q x)"
  proof (cases y)
    case (Inl e)
    with run n same show ?thesis by (auto simp: tx_bind_def)
  next
    case (Inr x)
    then have "f x w1 = (r, w')" using run n by (simp add: tx_bind_def)
    from endsD[OF assms(2) refl this] same R_trans show ?thesis by auto
  qed
qed

end

text \<open>
  A run of the container over a staged copy: it was made of the workspace at \<open>root\<close> on the disk \<open>d\<close>
  without the blocked paths, and the container ended with code 0.
\<close>

definition docker_ran :: "docker_env \<Rightarrow> action \<Rightarrow> task_scope option \<Rightarrow> path \<Rightarrow> disk \<Rightarrow> bool" where
  "docker_ran E a scope root d \<longleftrightarrow>
     (\<exists>resolved_source ci copy j name out err t.
        stage_workspace_copy (de_stage E d) root resolved_source (de_tree E d root)
          (JArr (map JStr (case scope of None \<Rightarrow> [] | Some sc \<Rightarrow> blocked_paths sc))) ci
          (Some (docker_matcher E root (de_host E d))) = Inr copy
        \<and> docker_job_for E a = Inr (Some j)
        \<and> de_run E (docker_command E a name j) (host_timeout_s j (de_timeout E)) copy
            = (Process (Completed 0 out err), t))"

locale receipt_frame = disk_frame R
  for R :: "disk \<Rightarrow> disk \<Rightarrow> bool" +
  fixes E :: docker_env and root :: path and blocked :: json
  assumes R_mount: "R d (de_mount E p t d)"
    and R_unmount: "R d (de_unmount E p d)"
    and R_sync: "R d (de_put E (snd (sync_copy_back (docker_sync_conf E root ci) t blocked
                        MAX_COPY_BACK_BYTES MAX_COPY_BACK_FILES (de_host E d))) d)"
begin

lemmas framed_raise = ends_raise and framed_if = ends_if and framed_bind = ends_bind
  and framed_step = ends_step

lemma framed_return:
  "rec_action_id x = act_id a \<Longrightarrow> (rec_status x = XS_EXECUTED \<Longrightarrow> P) \<Longrightarrow> framed R P a d (tx_return x)"
  by (rule ends_return) (simp add: receipt_ok_def)

lemma framed_failed: "framed R P a d (docker_failed a rid began code msg)"
  unfolding docker_failed_def
  by (intro framed_bind framed_return reads_only_basic) (auto simp: docker_receipt_def)

lemma framed_result:
  assumes P shows "framed R P a d (docker_result a rid began finished st result code)"
  unfolding docker_result_def using assms
  by (auto simp: docker_receipt_def framed_raise split: json.split intro!: framed_return)

lemma framed_sync:
  assumes "\<And>x d'. ends R Q d' (f x)"
  shows "ends R Q d (tx_bind (sync_back E root ci blocked t) f)"
proof (rule framed_step)
  show "db w' = db w \<and> R d (w_disk w')" if "w_disk w = d" "sync_back E root ci blocked t w = (y, w')"
    for w y w'
    using that R_sync[of d ci t] by (auto simp: sync_back_def disk_op_run split_beta)
  show "ends R Q d' (f x)" for x d' by (rule assms)
qed

lemma framed_reply:
  assumes P shows "framed R P a d (docker_reply E a root ci blocked rid began payload t)"
proof -
  show ?thesis
    unfolding docker_reply_def Let_def
    by (auto intro!: framed_bind[of utc_now] framed_sync reads_only_basic framed_failed framed_result
        framed_raise assms split: sum.split json.split)
qed

lemma framed_outcome:
  assumes "\<And>out err. fst ended = Process (Completed 0 out err) \<Longrightarrow> P"
  shows "framed R P a d (docker_outcome_receipt E a root ci blocked rid began ended)"
proof (cases ended)
  case (Pair oc t)
  show ?thesis
  proof (cases "\<exists>out err. oc = Process (Completed 0 out err)")
    case True
    then have P using assms Pair by auto
    with True Pair show ?thesis
      by (auto simp: docker_outcome_receipt_def framed_failed framed_raise framed_reply
          split: option.split json.split)
  next
    case False
    with Pair show ?thesis
      by (auto simp: docker_outcome_receipt_def framed_failed
          split: docker_outcome.split proc_result.split)
  qed
qed

lemma framed_in_copy:
  assumes "\<And>j out err t name. docker_job_for E a = Inr (Some j) \<Longrightarrow>
      de_run E (docker_command E a name j) (host_timeout_s j (de_timeout E)) copy
        = (Process (Completed 0 out err), t) \<Longrightarrow> P"
  shows "framed R P a d (docker_in_copy E a scope dscope root ci blocked name rid began copy)"
proof -
  have job: "framed R P a d' (docker_outcome_receipt E a root ci blocked rid began
      (de_run E (docker_command E a name j) (host_timeout_s j (de_timeout E)) copy))"
    if "docker_job_for E a = Inr (Some j)" for j d'
    using assms[OF that] by (intro framed_outcome) (metis prod.collapse)
  show ?thesis
    unfolding docker_in_copy_def
    by (auto intro!: framed_bind reads_only_scope reads_only_revalidated reads_only_basic
        framed_failed job split: option.split)
qed

lemma framed_unmount:
  assumes "ends R Q d m"
  shows "ends R Q d (\<lambda>w. case m w of (r, w') \<Rightarrow> (r, w'\<lparr>w_disk := de_unmount E p (w_disk w')\<rparr>))"
  using assms R_unmount R_trans unfolding ends_def by (auto split: prod.splits) blast+

lemma framed_mount:
  assumes "\<And>d'. ends R Q d' m"
  shows "ends R Q d (tx_bind (disk_op (\<lambda>d. (Inr (), de_mount E p t d))) (\<lambda>_. m))"
proof (rule framed_step)
  show "db w' = db w \<and> R d (w_disk w')"
    if "w_disk w = d" "disk_op (\<lambda>d. (Inr (), de_mount E p t d)) w = (y, w')" for w y w'
    using that R_mount by (auto simp: disk_op_run)
qed (rule assms)

lemma staging_Inr:
  assumes "tx_catch (staging_of E root ci blocked) (\<lambda>e. tx_return (Inl e)) w = (Inr (Inr copy), w')"
  shows "\<exists>rs. stage_workspace_copy (de_stage E (w_disk w)) root rs (de_tree E (w_disk w) root) blocked ci
      (Some (docker_matcher E root (de_host E (w_disk w)))) = Inr copy"
  using assms
  by (auto simp: staging_of_def tx_catch_def tx_bind_def resolve_path_run tx_return_def
      split: option.splits prod.splits sum.splits)

lemma framed_stage:
  assumes scope: "blocked = JArr (map JStr (case dscope of None \<Rightarrow> [] | Some sc \<Rightarrow> blocked_paths sc))"
  shows "framed R (docker_ran E a dscope root d) a d
    (docker_stage_and_run E a scope dscope root ci blocked name rid began)"
proof -
  let ?P = "docker_ran E a dscope root d"
  have copy: "framed R ?P a d' (docker_in_copy E a scope dscope root ci blocked name rid began copy)"
    if "w_disk w = d"
      "tx_catch (staging_of E root ci blocked) (\<lambda>e. tx_return (Inl e)) w = (Inr (Inr copy), w')"
    for w copy w' d'
  proof (rule framed_in_copy)
    fix j out err t name
    assume "docker_job_for E a = Inr (Some j)"
      "de_run E (docker_command E a name j) (host_timeout_s j (de_timeout E)) copy
        = (Process (Completed 0 out err), t)"
    with staging_Inr[OF that(2)] that(1) scope show ?P unfolding docker_ran_def by blast
  qed
  have staging: "reads_only (tx_catch (staging_of E root ci blocked) (\<lambda>e. tx_return (Inl e)))"
    by (intro reads_only_catch reads_only_staging reads_only_basic)
  show ?thesis
    unfolding docker_stage_and_run_def
  proof (rule framed_bind[OF staging])
    fix w st w'
    assume w: "w_disk w = d"
      and run: "tx_catch (staging_of E root ci blocked) (\<lambda>e. tx_return (Inl e)) w = (Inr st, w')"
    show "framed R ?P a d (case st of
        Inl e \<Rightarrow> if exc_class e \<in> set OS_ERROR_CLASSES
          then docker_failed a rid began ''EXECUTION_FAILED'' ''Workspace staging failed.'' else tx_raise e
      | Inr copy \<Rightarrow> tx_bind (disk_op (\<lambda>d. (Inr (), de_mount E (copy_path E) copy d))) (\<lambda>_ w.
          case docker_in_copy E a scope dscope root ci blocked name rid began copy w of
            (r, w') \<Rightarrow> (r, w'\<lparr>w_disk := de_unmount E (de_staging_root E) (w_disk w')\<rparr>)))"
      using copy[OF w] run
      by (cases st) (auto intro!: framed_failed framed_raise framed_mount framed_unmount)
  qed
qed

lemma framed_dispatch:
  assumes scope: "blocked = JArr (map JStr (case dscope of None \<Rightarrow> [] | Some sc \<Rightarrow> blocked_paths sc))"
    and root: "\<And>x. os_resolve (dk_view d) ws = Some x \<Longrightarrow> x = root"
  shows "framed R (docker_ran E a dscope root d) a d (docker_dispatch E a ws scope dscope rid began)"
proof -
  let ?P = "docker_ran E a dscope root d"
  have inner: "framed R ?P a d (tx_bind (read_disk (\<lambda>d. (dk_node d root, case_probe (dk_view d) root)))
      (\<lambda>(entry, ci).
        if entry = None then docker_failed a rid began ''EXECUTION_FAILED'' ''Workspace root not found.''
        else tx_bind (revalidated E a dscope root) (\<lambda>refusal. case refusal of
            Some (rc, why, rule) \<Rightarrow> docker_failed a rid began (reason_code_value rc)
              ''run_command dispatch refused: path revalidation failed.''
          | None \<Rightarrow> docker_stage_and_run E a scope dscope root ci blocked name rid began)))" for name
    by (auto intro!: framed_bind reads_only_basic reads_only_revalidated framed_failed framed_stage[OF scope]
        split: option.split)
  show ?thesis
    unfolding docker_dispatch_def Let_def scope[symmetric]
  proof (rule framed_bind[OF reads_only_basic(1)], rule framed_bind[OF reads_only_basic(6)])
    fix u w x w'
    assume "w_disk w = d" "resolve_path ws w = (Inr x, w')"
    then have x: "x = root" using root by (auto simp: resolve_path_Inr)
    show "framed R ?P a d (tx_bind (read_disk (\<lambda>d. (dk_node d x, case_probe (dk_view d) x)))
      (\<lambda>(entry, ci).
        if entry = None then docker_failed a rid began ''EXECUTION_FAILED'' ''Workspace root not found.''
        else tx_bind (revalidated E a dscope x) (\<lambda>refusal. case refusal of
            Some (rc, why, rule) \<Rightarrow> docker_failed a rid began (reason_code_value rc)
              ''run_command dispatch refused: path revalidation failed.''
          | None \<Rightarrow> docker_stage_and_run E a scope dscope x ci blocked
              (''scopewatch-'' @ take 12 (de_hex E u)) rid began)))"
      unfolding x by (rule inner)
  qed
qed

lemma framed_attempt:
  assumes "\<And>dscope. scope \<noteq> None \<longrightarrow> dscope = scope \<Longrightarrow>
      framed R P a d (docker_dispatch E a ws scope dscope rid began)"
  shows "framed R P a d (docker_attempt E a ws with_store scope rid began)"
proof -
  have load: "reads_only (if scope = None \<and> with_store then load_scope_from_store a else tx_return scope)"
    by (simp add: reads_only_load reads_only_basic)
  have chosen: "scope \<noteq> None \<longrightarrow> dscope = scope"
    if "(if scope = None \<and> with_store then load_scope_from_store a else tx_return scope) w = (Inr dscope, w')"
    for w dscope w'
    using that by (auto simp: tx_return_def split: if_splits)
  have rest: "framed R P a d (tx_bind
      (if scope = None \<and> with_store then load_scope_from_store a else tx_return scope)
      (\<lambda>dscope.
        if scope = None \<and> with_store \<and> dscope = None \<and> operation a = ''run_command''
        then docker_failed a rid began ''EXECUTION_FAILED'' ''run_command scope unavailable; failing closed.''
        else docker_dispatch E a ws scope dscope rid began))"
  proof (rule framed_bind[OF load])
    fix w dscope w'
    assume "(if scope = None \<and> with_store then load_scope_from_store a else tx_return scope) w = (Inr dscope, w')"
    from assms[OF chosen[OF this]]
    show "framed R P a d
        (if scope = None \<and> with_store \<and> dscope = None \<and> operation a = ''run_command''
         then docker_failed a rid began ''EXECUTION_FAILED'' ''run_command scope unavailable; failing closed.''
         else docker_dispatch E a ws scope dscope rid began)"
      by (intro framed_if framed_failed)
  qed
  show ?thesis
    unfolding docker_attempt_def
    by (intro framed_bind[OF reads_only_scope] framed_if framed_failed rest)
qed

end

section \<open>The gate before them\<close>

text \<open>
  The prefix every backend has, for the receipt \<open>rcpt\<close> of a denial and the steps \<open>attempt\<close> after the
  stored checks: nothing has happened, or the attempt runs in an equal world and is authorised.
\<close>

lemma gated_cases:
  assumes "tx_bind uuid4 (\<lambda>rid. tx_bind utc_now (\<lambda>began.
       let dv = authorize_dispatch (action_obj a) (decision_obj (Some d)) (approval_obj app)
       in if dv_kind dv = VK_DENY then tx_bind utc_now (\<lambda>finished. tx_return (rcpt rid began finished))
          else if \<not> proceed dv then tx_raise (security_error (dv_reason dv) (verdict_code_value (dv_code dv)))
          else tx_bind (verify_stored a (Some d) app st) (\<lambda>_. attempt rid began))) w = (res, w')"
    and "\<And>rid began finished. rec_status (rcpt rid began finished) = XS_NOT_EXECUTED
           \<and> rec_action_id (rcpt rid began finished) = act_id a"
  shows "(w_disk w' = w_disk w \<and> db w' = db w
            \<and> (case res of Inl e \<Rightarrow> True
               | Inr r \<Rightarrow> rec_status r = XS_NOT_EXECUTED \<and> rec_action_id r = act_id a))
       \<or> (outcome d \<noteq> PO_DENY \<and> (st \<longrightarrow> dispatch_authorised (db w) a d app)
          \<and> (\<exists>rid began w1. w_disk w1 = w_disk w \<and> db w1 = db w \<and> attempt rid began w1 = (res, w')))"
proof -
  let ?dv = "authorize_dispatch (action_obj a) (decision_obj (Some d)) (approval_obj app)"
  define rid where "rid = uuid_src w (uuid_count w)"
  define began where "began = clock_src w (clock_count w)"
  define w1 where "w1 = w\<lparr>uuid_count := Suc (uuid_count w), clock_count := Suc (clock_count w)\<rparr>"
  have w1: "w_disk w1 = w_disk w" "db w1 = db w" by (simp_all add: w1_def)
  have run: "(res, w') =
     (if dv_kind ?dv = VK_DENY then
        tx_bind utc_now (\<lambda>finished. tx_return (rcpt rid began finished))

      else if \<not> proceed ?dv then tx_raise (security_error (dv_reason ?dv) (verdict_code_value (dv_code ?dv)))
      else tx_bind (verify_stored a (Some d) app st) (\<lambda>_. attempt rid began)) w1"
    using assms(1)
    by (simp add: tx_bind_def uuid4_def utc_now_def Let_def rid_def began_def
        w1_def cong: if_cong)
  consider (deny) "dv_kind ?dv = VK_DENY" | (refuse) "dv_kind ?dv \<noteq> VK_DENY" "\<not> proceed ?dv"
    | (go) "proceed ?dv" "dv_kind ?dv \<noteq> VK_DENY"
    by (auto simp: proceed_def)
  then show ?thesis
  proof cases
    case deny
    then show ?thesis
      using run w1 assms(2) by (auto simp: tx_bind_def utc_now_def tx_return_def)
  next
    case refuse
    then show ?thesis using run w1 by auto
  next
    case go
    obtain vr w2 where vs: "verify_stored a (Some d) app st w1 = (vr, w2)" by fastforce
    have w2: "w_disk w2 = w_disk w" "db w2 = db w"
      using disk_sameD[OF disk_same_stored vs] keepsD[OF same_stored vs] w1 by auto
    show ?thesis
    proof (cases vr)
      case (Inl e)
      then show ?thesis using run go vs w2 by (auto simp: tx_bind_def)
    next
      case (Inr u)
      have "dispatch_authorised (db w) a d app" if st
        using vs Inr gate_proceeds_cases[OF go(1)] w1 that
        by (cases "outcome d")
           (auto simp: verify_stored_def dispatch_authorised_def simp del: ex_simps
             dest!: approval_single_use_Inr run_not_terminal_Inr)
      moreover have "outcome d \<noteq> PO_DENY" using gate_proceeds_cases[OF go(1)] by auto
      ultimately show ?thesis using run go vs Inr w2 by (auto simp: tx_bind_def)
    qed
  qed
qed

lemma execute_docker_cases:
  assumes "execute_docker E a ws (Some d) app st scope w = (res, w')"
  shows "(w_disk w' = w_disk w \<and> db w' = db w
            \<and> (case res of Inl e \<Rightarrow> True
               | Inr r \<Rightarrow> rec_status r = XS_NOT_EXECUTED \<and> rec_action_id r = act_id a))
       \<or> (outcome d \<noteq> PO_DENY \<and> (st \<longrightarrow> dispatch_authorised (db w) a d app)
          \<and> (\<exists>rid began w1. w_disk w1 = w_disk w \<and> db w1 = db w
               \<and> docker_attempt E a ws st scope rid began w1 = (res, w')))"
  using gated_cases[OF assms[unfolded execute_docker_def]] by (simp add: docker_receipt_def)

section \<open>The effects on the disk\<close>

text \<open>
  The host's entries as part of the disk: what is written is read back, and the staging directory,
  which lies outside, changes nothing of them.
\<close>

definition docker_disk :: "docker_env \<Rightarrow> bool" where
  "docker_disk E \<longleftrightarrow>
     (\<forall>fs d. de_host E (de_put E fs d) = fs)
     \<and> (\<forall>p t d. de_host E (de_mount E p t d) = de_host E d)
     \<and> (\<forall>p d. de_host E (de_unmount E p d) = de_host E d)"

text \<open>Below a blocked path that names itself exactly: no component of it has an outer blank.\<close>

definition below_blocked :: "pystr list \<Rightarrow> path \<Rightarrow> bool" where
  "below_blocked bl p \<longleftrightarrow>
     (\<exists>b \<in> set bl. trimmed (normalize_relative_segments b) \<and> prefix (normalize_relative_segments b) p)"

definition host_kept :: "docker_env \<Rightarrow> path \<Rightarrow> pystr list \<Rightarrow> disk \<Rightarrow> disk \<Rightarrow> bool" where
  "host_kept E root bl d d' \<longleftrightarrow>
     (docker_disk E \<and> host_ok (de_host E d) \<and> real_path (de_host E d) root \<longrightarrow>
        inside root (below_blocked bl) (de_host E d) (de_host E d'))"

interpretation any_disk: receipt_frame "\<lambda>_ _. True" E root blocked
  for E root blocked
  by unfold_locales auto

interpretation host_frame: receipt_frame "host_kept E root bl" E root "JArr (map JStr bl)"
  for E root bl
proof
  fix d d1 d2 :: disk and p :: path and t :: staged and ci :: "bool option"
  show "host_kept E root bl d d" by (simp add: host_kept_def)
  show "host_kept E root bl d d1 \<Longrightarrow> host_kept E root bl d1 d2 \<Longrightarrow> host_kept E root bl d d2"
    unfolding host_kept_def using inside_trans inside_ok inside_root by blast
  show "host_kept E root bl d (de_mount E p t d)" "host_kept E root bl d (de_unmount E p d)"
    by (simp_all add: host_kept_def docker_disk_def)
  let ?s = "sync_copy_back (docker_sync_conf E root ci) t (JArr (map JStr bl))
      MAX_COPY_BACK_BYTES MAX_COPY_BACK_FILES (de_host E d)"
  show "host_kept E root bl d (de_put E (snd ?s) d)"
    unfolding host_kept_def
  proof
    assume h: "docker_disk E \<and> host_ok (de_host E d) \<and> real_path (de_host E d) root"
    have s: "?s = (fst ?s, snd ?s)" by simp
    have "inside (sc_root (docker_sync_conf E root ci)) (below_blocked bl) (de_host E d) (snd ?s)"
      unfolding below_blocked_def
      using sync_inside_gateway[where view = "de_host_view E" and root = root, OF _ _ _ s] h
      by (simp add: docker_sync_conf_def docker_matcher_def fun_eq_iff)
    with h show "inside root (below_blocked bl) (de_host E d) (de_host E (de_put E (snd ?s) d))"
      by (simp add: docker_sync_conf_def docker_disk_def)
  qed
qed

section \<open>The backend\<close>

lemma framed_weaken: "framed R P a d m \<Longrightarrow> (P \<Longrightarrow> Q) \<Longrightarrow> framed R Q a d m"
  by (erule ends_weaken) (simp add: receipt_ok_def)

lemma attempt_framed: "framed (\<lambda>_ _. True) True a d (docker_attempt E a ws st scope rid began)"
proof (rule any_disk.framed_attempt)
  fix dscope
  show "framed (\<lambda>_ _. True) True a d (docker_dispatch E a ws scope dscope rid began)"
    by (rule framed_weaken, rule any_disk.framed_dispatch[OF refl, where root = "the (os_resolve (dk_view d) ws)"])
      auto
qed

lemma docker_attempt_keeps: "keeps (=) (docker_attempt E a ws st scope rid began)"
  unfolding keeps_def
proof
  fix w
  show "db w = db (snd (docker_attempt E a ws st scope rid began w))"
    using framedD[OF attempt_framed refl, of E a ws st scope rid began w]
    by (cases "docker_attempt E a ws st scope rid began w") auto
qed

lemma attempt_for_action: "for_action a (docker_attempt E a ws st scope rid began)"
  unfolding for_action_def using framedD[OF attempt_framed refl] by blast

lemma execute_docker_keeps: "keeps (=) (execute_docker E a ws dec app st scope)"
  unfolding execute_docker_def Let_def by (intro same.keeps_rules same_stored docker_attempt_keeps)

lemma execute_docker_for_action: "for_action a (execute_docker E a ws dec app st scope)"
proof -
  have "for_action a (tx_return (docker_receipt a rid began fin s x c))" for rid began fin s x c
    by (simp add: for_action_def tx_return_def docker_receipt_def)
  then show ?thesis unfolding execute_docker_def Let_def
    by (intro for_action_rules attempt_for_action)
qed

interpretation docker_backend: executor_backend
    "\<lambda>a ws dec app st scope key. execute_docker E a ws dec app st scope"
  for E
proof
  fix a ws d app st scope key w r w'
  show "keeps (=) (execute_docker E a ws dec app st scope)" for dec by (rule execute_docker_keeps)
  show "execute_docker E a ws dec app st scope w = (Inr r, w') \<Longrightarrow> rec_action_id r = act_id a" for dec
    using execute_docker_for_action unfolding for_action_def by blast
  show "execute_docker E a ws (Some d) app st scope w = (Inr r, w') \<Longrightarrow> outcome d = PO_DENY \<Longrightarrow>
      rec_status r = XS_NOT_EXECUTED"
    using execute_docker_cases by fastforce
  show "execute_docker E a ws (Some d) app True scope w = (Inr r, w') \<Longrightarrow>
      rec_status r \<noteq> XS_NOT_EXECUTED \<Longrightarrow> dispatch_authorised (db w) a d app"
    using execute_docker_cases by fastforce
qed

lemma docker_executed:
  assumes run: "execute_docker E a ws (Some d) app True (Some sc) w = (Inr r, w')"
    and ex: "rec_status r = XS_EXECUTED" and root: "os_resolve (dk_view (w_disk w)) ws = Some root"
  shows "dispatch_authorised (db w) a d app \<and> docker_ran E a (Some sc) root (w_disk w)"
proof -
  from execute_docker_cases[OF run] ex obtain rid began w1 where auth: "dispatch_authorised (db w) a d app"
    and w1: "w_disk w1 = w_disk w" and att: "docker_attempt E a ws True (Some sc) rid began w1 = (Inr r, w')"
    by auto
  have "framed (\<lambda>_ _. True) (docker_ran E a (Some sc) root (w_disk w)) a (w_disk w)
      (docker_attempt E a ws True (Some sc) rid began)"
  proof (rule any_disk.framed_attempt)
    fix dscope assume "Some sc \<noteq> None \<longrightarrow> dscope = Some sc"
    then show "framed (\<lambda>_ _. True) (docker_ran E a (Some sc) root (w_disk w)) a (w_disk w)
        (docker_dispatch E a ws (Some sc) dscope rid began)"
      using any_disk.framed_dispatch[OF refl, where d = "w_disk w" and ws = ws and root = root and E = E and a = a
        and dscope = dscope and scope = "Some sc" and rid = rid and began = began] root
      by simp
  qed
  from framedD[OF this w1 att] ex auth show ?thesis by simp
qed

lemma docker_host_effects:
  assumes run: "execute_docker E a ws (Some d) app True (Some sc) w = (res, w')" and E: "docker_disk E"
    and root: "os_resolve (dk_view (w_disk w)) ws = Some root"
    and ok: "host_ok (de_host E (w_disk w))" "real_path (de_host E (w_disk w)) root"
  shows "de_host E (w_disk w') = de_host E (w_disk w)
    \<or> dispatch_authorised (db w) a d app
      \<and> inside root (below_blocked (blocked_paths sc)) (de_host E (w_disk w)) (de_host E (w_disk w'))"
  using execute_docker_cases[OF run]
proof (elim disjE conjE exE)
  fix rid began w1
  assume auth: "True \<longrightarrow> dispatch_authorised (db w) a d app" and w1: "w_disk w1 = w_disk w"
    and att: "docker_attempt E a ws True (Some sc) rid began w1 = (res, w')"
  have "framed (host_kept E root (blocked_paths sc)) True a (w_disk w)
      (docker_attempt E a ws True (Some sc) rid began)"
  proof (rule host_frame.framed_attempt)
    fix dscope assume "Some sc \<noteq> None \<longrightarrow> dscope = Some sc"
    then show "framed (host_kept E root (blocked_paths sc)) True a (w_disk w)
        (docker_dispatch E a ws (Some sc) dscope rid began)"
      using host_frame.framed_dispatch[where bl = "blocked_paths sc" and d = "w_disk w" and ws = ws and root = root and E = E
        and a = a and dscope = dscope and scope = "Some sc" and rid = rid and began = began] root
      by (auto intro: framed_weaken)
  qed
  from framedD[OF this w1 att] auth E ok show ?thesis by (simp add: host_kept_def)
qed simp

section \<open>Properties\<close>

text \<open>
  C26: what the Docker backend executed was authorised and ran without the blocked paths. A receipt that
  says EXECUTED stands for a container that ended with code 0, started with the hardened command line
  for exactly this action's job, over a staged copy in which no entry is blocked; and before it the
  decision, the approval and the stored run authorised the dispatch.
\<close>

theorem docker_execution_is_confined:
  assumes "execute_docker E a ws (Some d) app True (Some sc) w = (Inr r, w')"
    and "rec_status r = XS_EXECUTED" and "os_resolve (dk_view (w_disk w)) ws = Some root"
  shows "dispatch_authorised (db w) a d app
    \<and> (\<exists>j ci copy name out err t. docker_job_for E a = Inr (Some j)
         \<and> de_run E (docker_command E a name j) (host_timeout_s j (de_timeout E)) copy
             = (Process (Completed 0 out err), t)
         \<and> (\<forall>p c n. staged_at copy (p @ [c]) = Some n \<longrightarrow>
              \<not> is_blocked ci (Some (docker_matcher E root (de_host E (w_disk w))))
                   (map normalize_relative_segments (blocked_paths sc)) (p @ [c])))"
proof -
  from docker_executed[OF assms] obtain rs ci copy j name out err t
    where auth: "dispatch_authorised (db w) a d app"
      and staged: "stage_workspace_copy (de_stage E (w_disk w)) root rs (de_tree E (w_disk w) root)
          (JArr (map JStr (blocked_paths sc))) ci (Some (docker_matcher E root (de_host E (w_disk w)))) = Inr copy"
      and job: "docker_job_for E a = Inr (Some j)"
      and ran: "de_run E (docker_command E a name j) (host_timeout_s j (de_timeout E)) copy
          = (Process (Completed 0 out err), t)"
    unfolding docker_ran_def by auto
  have "\<not> is_blocked ci (Some (docker_matcher E root (de_host E (w_disk w))))
          (map normalize_relative_segments (blocked_paths sc)) (p @ [c])"
    if "staged_at copy (p @ [c]) = Some n" for p c n
    using staged_entry[OF staged that] by (cases "blocked_paths sc = []") (auto simp: is_blocked_def)
  with auth job ran show ?thesis by blast
qed

text \<open>
  A concrete environment: the disk keeps the host's entries under a reserved name of its view, the
  container writes the requested file and tries to plant one at a blocked path.
\<close>

fun code_entry :: "hnode option \<Rightarrow> path option" where
  "code_entry None = None"
| "code_entry (Some HDir) = Some [''d'']"
| "code_entry (Some (HFile m c)) =
     Some [''f'', replicate (nat m) (CHR ''x''), replicate (nat (- m)) (CHR ''x''), c]"
| "code_entry (Some (HLink t)) = Some [''l'', t]"
| "code_entry (Some HOther) = Some [''o'']"

fun entry_of :: "path option \<Rightarrow> hnode option" where
  "entry_of (Some [k]) = (if k = ''d'' then Some HDir else if k = ''o'' then Some HOther else None)"
| "entry_of (Some [k, t]) = Some (HLink t)"
| "entry_of (Some [k, x, y, c]) = Some (HFile (int (length x) - int (length y)) c)"
| "entry_of _ = None"

lemma entry_of_code: "entry_of (code_entry x) = x"
  by (cases x rule: code_entry.cases) auto

definition demo_docker :: docker_env where
  "demo_docker =
     \<lparr>de_float = (\<lambda>m e. ''0.0''), de_parse = (\<lambda>s. None),
      de_loads = (\<lambda>t. Some (JObj [(''status'', JStr ''EXECUTED''),
                                   (''result'', JObj [(''operation'', JStr ''write_text'')]),
                                   (''error_code'', JNull)])),
      de_hex = (\<lambda>u. u), de_sys = ''python'', de_image = ''image'', de_helper = ''helper'',
      de_timeout = (60, 0), de_available = True, de_staging_root = [''tmp'', ''s''],
      de_stage = (\<lambda>d. \<lparr>sg_realpath = (\<lambda>p. Some p), sg_lexists = (\<lambda>t p. staged_at t p \<noteq> None)\<rparr>),
      de_tree = (\<lambda>d p. SDir 0x1C0 [(''outputs'', SDir 0x1C0 []),
                                   (''invoices'', SDir 0x1C0 [(''private'', SDir 0x1C0 [])])]),
      de_mount = (\<lambda>p t d. d), de_unmount = (\<lambda>p d. d),
      de_run = (\<lambda>cmd limit t. (Process (Completed 0 ''ok'' []),
                  SDir 0x1C7 [(''outputs'', SDir 0x1C7 [(''a.txt'', SFile 0x186 ''hi'')]),
                              (''invoices'', SDir 0x1C7 [(''private'', SDir 0x1C7 [(''x'', SFile 0x186 ''planted'')])])])),
      de_host = (\<lambda>d p. entry_of (os_resolve (dk_view d) (''#'' # p))),
      de_put = (\<lambda>fs d. d\<lparr>dk_view := (dk_view d)\<lparr>os_resolve := (\<lambda>p. case p of
                  c # q \<Rightarrow> if c = ''#'' then code_entry (fs q) else os_resolve (dk_view d) p
                | [] \<Rightarrow> os_resolve (dk_view d) [])\<rparr>\<rparr>),
      de_host_view = (\<lambda>fs. quiet_view), de_deny = (\<lambda>p. False)\<rparr>"

definition docker_world :: world where
  "docker_world = (demo_world demo_store)\<lparr>w_disk :=
     \<lparr>dk_view = quiet_view\<lparr>os_resolve := (\<lambda>p.
        if p = [''#'', ''ws''] \<or> p = [''#'', ''ws'', ''outputs''] then Some [''d'']
        else if p \<noteq> [] \<and> hd p = ''#'' then None else Some p)\<rparr>,
      dk_resolve_exc = ''OSError'', dk_node = [[''ws''] \<mapsto> Dir_node [''outputs'']]\<rparr>\<rparr>"

definition docker_demo :: "action \<Rightarrow> (exc + receipt) \<times> world" where
  "docker_demo a = execute_docker demo_docker a [''ws'']
     (Some (demo_decision PO_ALLOW a)) None True (Some demo_scope) docker_world"

definition docker_read_action :: action where
  "docker_read_action = demo_action ''read_text'' ''outputs/a.txt'' []"

theorem docker_execution_is_confined_witness:
  "(case fst (docker_demo docker_read_action) of Inr r \<Rightarrow> rec_status r = XS_EXECUTED | _ \<Rightarrow> False)
   \<and> dispatch_authorised demo_store docker_read_action (demo_decision PO_ALLOW docker_read_action) None"
proof -
  have ex: "case fst (docker_demo docker_read_action) of Inr r \<Rightarrow> rec_status r = XS_EXECUTED | _ \<Rightarrow> False"
    by code_simp
  then obtain r where r: "fst (docker_demo docker_read_action) = Inr r" "rec_status r = XS_EXECUTED"
    by (auto split: sum.splits)
  then have run: "docker_demo docker_read_action = (Inr r, snd (docker_demo docker_read_action))"
    by (metis prod.collapse)
  have root: "os_resolve (dk_view (w_disk docker_world)) [''ws''] = Some [''ws'']"
    by (simp add: docker_world_def)
  have "db docker_world = demo_store" by (simp add: docker_world_def demo_world_def)
  with docker_execution_is_confined[OF run[unfolded docker_demo_def] r(2) root] ex show ?thesis by simp
qed

text \<open>
  C25: the effects of the Docker backend stay in the run's workspace. Whatever it returns or raises and
  whatever the container did to its copy, the database is unchanged; and the host's entries are
  unchanged, or the dispatch was authorised and every entry that changed lies strictly below the
  resolved workspace and is neither a blocked path of the scope nor below one, for
  the blocked paths whose components have no outer blanks. (With an outer blank the code normalises the
  joined name a second time and does not recognise an ancestor, see \<open>blank_ancestor_unprotected\<close>.)
\<close>

theorem docker_effects_confined:
  assumes "execute_docker E a ws (Some d) app True (Some sc) w = (res, w')" and "docker_disk E"
    and "os_resolve (dk_view (w_disk w)) ws = Some root"
    and "host_ok (de_host E (w_disk w))" and "real_path (de_host E (w_disk w)) root"
  shows "db w' = db w
    \<and> (de_host E (w_disk w') = de_host E (w_disk w)
       \<or> dispatch_authorised (db w) a d app
         \<and> (\<forall>q. de_host E (w_disk w') q \<noteq> de_host E (w_disk w) q \<longrightarrow>
              (\<exists>rel. q = root @ rel \<and> rel \<noteq> [] \<and>
                    (\<forall>b \<in> set (blocked_paths sc). trimmed (normalize_relative_segments b)
                       \<longrightarrow> \<not> prefix (normalize_relative_segments b) rel))))"
  using docker_host_effects[OF assms] keepsD[OF execute_docker_keeps assms(1)]
  by (auto simp: inside_def below_blocked_def)

lemma demo_docker_disk: "docker_disk demo_docker"
  by (simp add: docker_disk_def demo_docker_def entry_of_code)

lemma docker_world_host:
  "de_host demo_docker (w_disk docker_world) =
     [[''ws''] \<mapsto> HDir, [''ws'', ''outputs''] \<mapsto> HDir]"
  by (auto simp: demo_docker_def docker_world_def fun_eq_iff)

lemma docker_world_ok:
  "host_ok (de_host demo_docker (w_disk docker_world))"
  "real_path (de_host demo_docker (w_disk docker_world)) [''ws'']"
  unfolding docker_world_host
  by (auto simp: host_ok_def real_path_def host_at_def prefix_Cons Cons_eq_append_conv split: if_splits)

theorem docker_effects_confined_witness:
  "db (snd (docker_demo demo_write_action)) = demo_store
   \<and> (de_host demo_docker (w_disk (snd (docker_demo demo_write_action))) [''ws'', ''invoices'', ''private'', ''x'']
        = None)"
proof -
  let ?r = "docker_demo demo_write_action"
  let ?q = "[''ws'', ''invoices'', ''private'', ''x'']"
  have run: "?r = (fst ?r, snd ?r)" by simp
  have root: "os_resolve (dk_view (w_disk docker_world)) [''ws''] = Some [''ws'']"
    by (simp add: docker_world_def)
  note kept = docker_effects_confined[OF run[unfolded docker_demo_def] demo_docker_disk root docker_world_ok,
      folded docker_demo_def]
  have "below_blocked (blocked_paths demo_scope) [''invoices'', ''private'', ''x'']" by code_simp
  with kept have "de_host demo_docker (w_disk (snd ?r)) ?q = de_host demo_docker (w_disk docker_world) ?q"
    unfolding below_blocked_def by force
  moreover have "db docker_world = demo_store" by (simp add: docker_world_def demo_world_def)
  ultimately show ?thesis using kept by (simp add: docker_world_host)
qed

end
