(* ===== verification/ExecutorRemote.thy ===== *)
theory ExecutorRemote
  imports ExecutorDocker
begin

text \<open>
  \<open>backend/scopewatch/executor_remote.py\<close>: the remote backend. The gate, the stored checks and the
  scope checks are those of the other backends; then the dispatch is built together with its digest,
  signed, and posted to the runner. SHA-256 and the HMAC (hexadecimal), the decimal form of a float and
  the runner's connection are arguments; the runner works on the same disk (a shared volume).
\<close>

section \<open>The wire form\<close>

text \<open>\<open>json.dumps(v, sort_keys=True, separators=(",", ":"))\<close>.\<close>

fun wire_text :: "(int \<Rightarrow> int \<Rightarrow> pystr) \<Rightarrow> json \<Rightarrow> pystr" where
  "wire_text fl JNull = ''null''"
| "wire_text fl (JBool b) = (if b then ''true'' else ''false'')"
| "wire_text fl (JInt i) = show_int i"
| "wire_text fl (JFloat m e) = fl m e"
| "wire_text fl (JStr s) = ascii_string s"
| "wire_text fl (JArr vs) = ''['' @ join '','' (map (wire_text fl) vs) @ '']''"
| "wire_text fl (JObj kvs) =
     ''{'' @ join '','' (map snd (sort_key fst
        (map (\<lambda>kv. (fst kv, ascii_string (fst kv) @ '':'' @ wire_text fl (snd kv))) kvs))) @ ''}''"

record wire_env =
  wi_sha :: "pystr \<Rightarrow> pystr"
  wi_hmac :: "pystr \<Rightarrow> pystr \<Rightarrow> pystr"
  wi_float :: "int \<Rightarrow> int \<Rightarrow> pystr"

definition dispatch_scope :: "task_scope option \<Rightarrow> json" where
  "dispatch_scope scope =
     (case scope of
        None \<Rightarrow> JObj [(''allowed_paths'', JArr []), (''blocked_paths'', JArr []), (''allowed_commands'', JArr [])]
      | Some sc \<Rightarrow>
          JObj [(''allowed_paths'', JArr (map JStr (allowed_paths sc))),
                (''blocked_paths'', JArr (map JStr (blocked_paths sc))),
                (''allowed_commands'', JArr (map (\<lambda>cmd. JArr (map JStr cmd)) (allowed_commands sc)))])"

definition compute_action_digest ::
  "wire_env \<Rightarrow> action \<Rightarrow> decision \<Rightarrow> jobj option \<Rightarrow> pystr option \<Rightarrow> task_scope option \<Rightarrow> pystr" where
  "compute_action_digest W a d args run_workspace scope =
     wi_sha W (wire_text (wi_float W) (JObj
       [(''action_id'', JStr (act_id a)), (''run_id'', JStr (act_run_id a)),
        (''operation'', JStr (operation a)), (''resource'', JStr (resource a)),
        (''arguments'', JObj (case args of None \<Rightarrow> arguments a | Some x \<Rightarrow> x)),
        (''policy_decision_id'', JStr (dec_id d)),
        (''policy_outcome'', JStr (policy_outcome_value (outcome d))),
        (''run_workspace'', JStr (or_empty run_workspace)),
        (''task_scope'', dispatch_scope scope)]))"

definition unsigned_part :: "jobj \<Rightarrow> jobj" where
  "unsigned_part payload = filter (\<lambda>kv. fst kv \<noteq> ''dispatch_signature'') payload"

definition sign_dispatch_payload :: "wire_env \<Rightarrow> jobj \<Rightarrow> pystr \<Rightarrow> pystr" where
  "sign_dispatch_payload W payload signing_key =
     wi_hmac W signing_key (wire_text (wi_float W) (JObj (unsigned_part payload)))"

definition normalize_dispatch_arguments :: "(pystr \<Rightarrow> pyfloat option) \<Rightarrow> action \<Rightarrow> exc + jobj" where
  "normalize_dispatch_arguments parse a =
     (if operation a \<noteq> ''run_command'' then Inr (arguments a)
      else case extract_run_command_argv a of
        None \<Rightarrow> Inl (Py_error ''ValueError'' ''Malformed run_command arguments.'')
      | Some argv \<Rightarrow>
          (case clamp_run_command_timeout parse
                  (case map_of (arguments a) ''timeout_s'' of None \<Rightarrow> JFloat 60 0 | Some v \<Rightarrow> v) of
             Inl e \<Rightarrow> Inl e
           | Inr t \<Rightarrow> Inr [(''argv'', JArr (map JStr argv)), (''timeout_s'', JFloat (fst t) (snd t))]))"

definition wire_approval :: "approval option \<Rightarrow> json" where
  "wire_approval app =
     (case app of
        None \<Rightarrow> JNull
      | Some p \<Rightarrow>
          JObj [(''id'', JStr (app_id p)), (''run_id'', JStr (app_run_id p)),
                (''action_request_id'', JStr (app_action_id p)),
                (''policy_decision_id'', JStr (app_decision_id p)),
                (''status'', JStr (approval_status_value (app_status p)))])"

text \<open>\<open>issued\<close> is what \<open>time.time()\<close> gives, as a float.\<close>

definition prepare_dispatch ::
  "wire_env \<Rightarrow> (pystr \<Rightarrow> pyfloat option) \<Rightarrow> int \<times> int \<Rightarrow> pystr \<Rightarrow> action \<Rightarrow> decision \<Rightarrow> approval option
     \<Rightarrow> pystr option \<Rightarrow> task_scope option \<Rightarrow> exc + jobj \<times> pystr" where
  "prepare_dispatch W parse issued dispatch_token a d app run_workspace scope =
     (case normalize_dispatch_arguments parse a of
        Inl e \<Rightarrow> Inl e
      | Inr action_arguments \<Rightarrow>
          (let digest = compute_action_digest W a d (Some action_arguments) run_workspace scope
           in Inr ([(''issued_at'', JFloat (fst issued) (snd issued)),
                    (''dispatch_token'', JStr dispatch_token),
                    (''action_digest'', JStr digest),
                    (''run_workspace'', opt_str run_workspace),
                    (''task_scope'', dispatch_scope scope),
                    (''action'', JObj [(''id'', JStr (act_id a)), (''run_id'', JStr (act_run_id a)),
                       (''operation'', JStr (operation a)), (''resource'', JStr (resource a)),
                       (''arguments'', JObj action_arguments)]),
                    (''policy_decision'', JObj [(''id'', JStr (dec_id d)),
                       (''action_request_id'', JStr (dec_action_id d)),
                       (''outcome'', JStr (policy_outcome_value (outcome d)))]),
                    (''approval'', wire_approval app)], digest)))"

definition signed_payload :: "wire_env \<Rightarrow> jobj \<Rightarrow> pystr \<Rightarrow> jobj" where
  "signed_payload W payload signing_key =
     dict_set payload ''dispatch_signature'' (JStr (sign_dispatch_payload W payload signing_key))"

section \<open>Configuration\<close>

definition strip_option :: "pystr option \<Rightarrow> pystr option" where
  "strip_option s = (if strip (or_empty s) = [] then None else Some (strip (or_empty s)))"

definition resolve_runner_config ::
  "environ \<Rightarrow> pystr option \<Rightarrow> pystr option \<Rightarrow> pystr option \<times> pystr option" where
  "resolve_runner_config env runner_url runner_token =
     (strip_option (case runner_url of None \<Rightarrow> env ''EXECUTOR_RUNNER_URL'' | Some u \<Rightarrow> Some u),
      strip_option (case runner_token of None \<Rightarrow> env ''EXECUTOR_RUNNER_TOKEN'' | Some t \<Rightarrow> Some t))"

definition without_slash :: "pystr \<Rightarrow> pystr" where
  "without_slash s = rev (dropWhile (\<lambda>c. c = CHR ''/'') (rev s))"

datatype remote_answer = Answered nat "json option" | Remote_timeout | Remote_raised

record remote_env =
  re_wire :: wire_env
  re_parse :: "pystr \<Rightarrow> pyfloat option"
  re_time :: "instant \<Rightarrow> int \<times> int"
  re_secret :: "pystr \<Rightarrow> pystr"
  re_sys :: pystr
  re_url :: "pystr option"
  re_token :: "pystr option"
  re_key :: pystr
  re_post :: "pystr \<Rightarrow> jobj \<Rightarrow> pystr \<Rightarrow> disk \<Rightarrow> remote_answer \<times> disk"

text \<open>\<open>RemoteExecutor.__init__\<close>.\<close>

definition configured_remote ::
  "remote_env \<Rightarrow> environ \<Rightarrow> pystr option \<Rightarrow> pystr option \<Rightarrow> remote_env" where
  "configured_remote E env runner_url runner_token =
     (let (url, token) = resolve_runner_config env runner_url runner_token
      in E\<lparr>re_url := map_option without_slash url, re_token := token,
           re_key := strip (or_empty (env ''EXECUTOR_RUNNER_SIGNING_KEY''))\<rparr>)"

definition remote_ready :: "remote_env \<Rightarrow> bool" where
  "remote_ready E \<longleftrightarrow>
     truthy (re_url E) \<and> truthy (re_token E) \<and> re_key E \<noteq> [] \<and> re_token E \<noteq> Some (re_key E)"

section \<open>The backend\<close>

definition remote_executor_name :: pystr where "remote_executor_name = ''remote-executor''"

definition remote_receipt ::
  "action \<Rightarrow> pystr \<Rightarrow> instant \<Rightarrow> instant \<Rightarrow> execution_status \<Rightarrow> jobj \<Rightarrow> pystr option \<Rightarrow> receipt" where
  "remote_receipt a receipt_id began finished st result code =
     \<lparr>rec_id = receipt_id, rec_action_id = act_id a, rec_status = st, started_at = began,
      completed_at = finished, rec_executor = remote_executor_name, sanitized_result = Some result,
      rec_error_code = code, rec_resource = resource a, rec_operation = operation a\<rparr>"

definition remote_failed :: "action \<Rightarrow> pystr \<Rightarrow> instant \<Rightarrow> pystr \<Rightarrow> pystr \<Rightarrow> receipt tx" where
  "remote_failed a rid began code msg =
     tx_bind utc_now (\<lambda>finished.
       tx_return (remote_receipt a rid began finished XS_FAILED [(''error'', JStr msg)] (Some code)))"

text \<open>The check of a command against the run's own workspace: the code and message of a refusal.\<close>

definition remote_revalidated ::
  "remote_env \<Rightarrow> action \<Rightarrow> path \<Rightarrow> bool \<Rightarrow> task_scope option \<Rightarrow> (pystr \<times> pystr) option tx" where
  "remote_revalidated E a ws with_store scope =
     (if operation a \<noteq> ''run_command'' then tx_return None
      else tx_bind (tx_catch (tx_bind (resolve_path ws) (\<lambda>p. tx_return (Some p)))
                     (\<lambda>e. if exc_class e \<in> set OS_ERROR_CLASSES then tx_return None else tx_raise e))
        (\<lambda>resolved. case resolved of
            None \<Rightarrow> tx_return (Some (''EXECUTION_FAILED'', ''Workspace root not found.''))
          | Some root \<Rightarrow>
              tx_bind (if scope = None \<and> with_store then load_scope_from_store a else tx_return scope)
                (\<lambda>found. case found of
                    None \<Rightarrow>
                      tx_return (if with_store
                        then Some (''EXECUTION_FAILED'', ''run_command scope unavailable; failing closed.'')
                        else None)
                  | Some sc \<Rightarrow>
                      tx_bind (read_disk dk_view) (\<lambda>v.
                        tx_return (map_option (\<lambda>(rc, why, rule). (reason_code_value rc,
                            ''run_command dispatch refused: scope revalidation failed.''))
                          (revalidate_run_command_in_workspace v (re_sys E) a sc root))))))"

definition remote_body ::
  "action \<Rightarrow> pystr \<Rightarrow> instant \<Rightarrow> jobj \<Rightarrow> receipt tx" where
  "remote_body a rid began body =
     (let status = jget body ''status'';
          r = jget body ''result'';
          result = (if json_truthy r then r else JObj [])
      in case result of
        JObj kvs \<Rightarrow>
          if status \<noteq> JStr ''EXECUTED'' \<and> status \<noteq> JStr ''FAILED''
          then remote_failed a rid began ''EXECUTION_FAILED'' ''Remote runner returned malformed output.''
          else tx_bind utc_now (\<lambda>finished.
            let st = (if status = JStr ''EXECUTED'' then XS_EXECUTED else XS_FAILED)
            in case jget body ''error_code'' of
              JNull \<Rightarrow> tx_return (remote_receipt a rid began finished st kvs None)
            | JStr c \<Rightarrow> tx_return (remote_receipt a rid began finished st kvs (Some c))
            | _ \<Rightarrow> tx_raise (Py_error ''ValidationError'' []))
      | _ \<Rightarrow> remote_failed a rid began ''EXECUTION_FAILED'' ''Remote runner returned malformed output.'')"

definition remote_reply :: "action \<Rightarrow> pystr \<Rightarrow> instant \<Rightarrow> remote_answer \<Rightarrow> receipt tx" where
  "remote_reply a rid began answer =
     (case answer of
        Remote_timeout \<Rightarrow> remote_failed a rid began ''EXECUTION_FAILED'' ''Remote execution timed out.''
      | Remote_raised \<Rightarrow> remote_failed a rid began ''EXECUTION_FAILED'' ''Remote execution failed.''
      | Answered status body \<Rightarrow>
          if status \<noteq> 200
          then remote_failed a rid began ''EXECUTION_FAILED''
                 (if status = 409 then ''Remote dispatch refused.'' else ''Remote execution failed.'')
          else (case body of
              None \<Rightarrow> remote_failed a rid began ''EXECUTION_FAILED'' ''Remote runner returned malformed output.''
            | Some (JObj kvs) \<Rightarrow> remote_body a rid began kvs
            | Some _ \<Rightarrow> tx_raise (Py_error ''AttributeError'' [])))"

definition remote_send ::
  "remote_env \<Rightarrow> action \<Rightarrow> decision \<Rightarrow> approval option \<Rightarrow> task_scope option \<Rightarrow> pystr option
     \<Rightarrow> pystr \<Rightarrow> instant \<Rightarrow> receipt tx" where
  "remote_send E a d app scope run_workspace rid began =
     (let workspace_key = (if truthy run_workspace then or_empty run_workspace else act_run_id a)
      in tx_bind uuid4 (\<lambda>u. tx_bind utc_now (\<lambda>sent.
         case prepare_dispatch (re_wire E) (re_parse E) (re_time E sent) (re_secret E u) a d app
                (Some workspace_key) scope of
           Inl e \<Rightarrow>
             if exc_class e = ''ValueError''
             then remote_failed a rid began ''EXECUTION_FAILED'' ''Malformed run_command arguments.''
             else tx_raise e
         | Inr (payload, digest) \<Rightarrow>
             tx_bind (disk_op (\<lambda>d. map_prod Inr id
                 (re_post E (or_empty (re_url E) @ ''/execute'') (signed_payload (re_wire E) payload (re_key E))
                    (''Bearer '' @ or_empty (re_token E)) d)))
               (remote_reply a rid began))))"

definition remote_attempt ::
  "remote_env \<Rightarrow> action \<Rightarrow> path \<Rightarrow> decision option \<Rightarrow> approval option \<Rightarrow> bool \<Rightarrow> task_scope option
     \<Rightarrow> pystr option \<Rightarrow> pystr \<Rightarrow> instant \<Rightarrow> receipt tx" where
  "remote_attempt E a ws dec app with_store scope run_workspace rid began =
     tx_bind (target_is_scoped ws a scope) (\<lambda>in_scope.
       if \<not> in_scope
       then remote_failed a rid began ''EXECUTION_FAILED'' ''Resolved path violates the task scope.''
       else tx_bind (remote_revalidated E a ws with_store scope) (\<lambda>refusal. case refusal of
           Some (code, msg) \<Rightarrow> remote_failed a rid began code msg
         | None \<Rightarrow>
             if \<not> remote_ready E
             then remote_failed a rid began ''EXECUTION_FAILED'' ''Remote executor unavailable; failing closed.''
             else (case dec of
                 None \<Rightarrow> tx_raise (Py_error ''AttributeError'' [])
               | Some d \<Rightarrow> remote_send E a d app scope run_workspace rid began)))"

definition execute_remote :: "remote_env \<Rightarrow> executor" where
  "execute_remote E a ws dec app with_store scope run_workspace =
     tx_bind uuid4 (\<lambda>rid.
     tx_bind utc_now (\<lambda>began.
       let dv = authorize_dispatch (action_obj a) (decision_obj dec) (approval_obj app)
       in if dv_kind dv = VK_DENY then
            tx_bind utc_now (\<lambda>finished.
              tx_return (remote_receipt a rid began finished XS_NOT_EXECUTED
                [(''reason'', JStr ''Policy outcome was DENY; execution blocked.'')]
                (map_option (\<lambda>d. reason_code_value (reason_code d)) dec)))
          else if \<not> proceed dv then
            tx_raise (security_error (dv_reason dv) (verdict_code_value (dv_code dv)))
          else
            tx_bind (verify_stored a dec app with_store) (\<lambda>_.
              remote_attempt E a ws dec app with_store scope run_workspace rid began)))"

end
