(* ===== verification/RemoteProps.thy ===== *)
theory RemoteProps
  imports DockerProps ExecutorRemote
begin

text \<open>
  What the remote backend guarantees: it is an \<open>executor_backend\<close>, and whatever it does to the disk it
  does by one signed dispatch, sent after the gate, the stored checks and the scope checks.
\<close>

section \<open>Steps that only read\<close>

lemma reads_only_if: "reads_only m \<Longrightarrow> reads_only n \<Longrightarrow> reads_only (if c then m else n)"
  by simp

lemma reads_only_remote_revalidated: "reads_only (remote_revalidated E a ws with_store scope)"
  unfolding remote_revalidated_def
  by (intro reads_only_if reads_only_bind reads_only_catch;
      (auto intro!: reads_only_basic reads_only_bind reads_only_load reads_only_if split: option.split)?)

text \<open>A step that only reads ends in an equal world: with its exception, or in what follows.\<close>

lemma reads_only_bind_cases:
  assumes "tx_bind n f w = (r, w')" and "reads_only n"
  shows "(\<exists>e. r = Inl e \<and> db w' = db w \<and> w_disk w' = w_disk w)
    \<or> (\<exists>x w1. n w = (Inr x, w1) \<and> db w1 = db w \<and> w_disk w1 = w_disk w \<and> f x w1 = (r, w'))"
proof -
  obtain y w1 where n: "n w = (y, w1)" by fastforce
  from reads_onlyD[OF assms(2) n] n assms(1) show ?thesis
    by (cases y) (auto simp: tx_bind_def)
qed

section \<open>After the gate\<close>

text \<open>
  An attempt is \<open>unsent\<close> when it changes nothing and its receipt does not say \<open>EXECUTED\<close>; it has \<open>posted\<close>
  when the disk is what the runner left after exactly one signed dispatch for the action.
\<close>

definition unsent :: "action \<Rightarrow> world \<Rightarrow> exc + receipt \<Rightarrow> world \<Rightarrow> bool" where
  "unsent a w r w' \<longleftrightarrow>
     db w' = db w \<and> w_disk w' = w_disk w
     \<and> (\<forall>x. r = Inr x \<longrightarrow> rec_action_id x = act_id a \<and> rec_status x \<noteq> XS_EXECUTED)"

definition posted ::
  "remote_env \<Rightarrow> action \<Rightarrow> decision \<Rightarrow> approval option \<Rightarrow> task_scope option \<Rightarrow> pystr \<Rightarrow> world
     \<Rightarrow> exc + receipt \<Rightarrow> world \<Rightarrow> bool" where
  "posted E a d app scope key w r w' \<longleftrightarrow>
     db w' = db w
     \<and> (\<exists>issued token payload digest answer.
          prepare_dispatch (re_wire E) (re_parse E) issued token a d app (Some key) scope = Inr (payload, digest)
          \<and> re_post E (or_empty (re_url E) @ ''/execute'') (signed_payload (re_wire E) payload (re_key E))
              (''Bearer '' @ or_empty (re_token E)) (w_disk w) = (answer, w_disk w')
          \<and> (\<forall>x. r = Inr x \<longrightarrow> rec_action_id x = act_id a
               \<and> (rec_status x = XS_EXECUTED \<longrightarrow>
                    (\<exists>body. answer = Answered 200 (Some (JObj body)) \<and> jget body ''status'' = JStr ''EXECUTED''))))"

lemma unsent_world: "db w1 = db w \<Longrightarrow> w_disk w1 = w_disk w \<Longrightarrow> unsent a w1 r w' \<longleftrightarrow> unsent a w r w'"
  by (simp add: unsent_def)

lemma posted_world:
  "db w1 = db w \<Longrightarrow> w_disk w1 = w_disk w \<Longrightarrow> posted E a d app scope key w1 r w' \<longleftrightarrow> posted E a d app scope key w r w'"
  by (simp add: posted_def)

lemma failed_unsent: "remote_failed a rid began code msg w = (r, w') \<Longrightarrow> unsent a w r w'"
  by (auto simp: remote_failed_def tx_bind_def utc_now_def tx_return_def remote_receipt_def unsent_def)

lemma body_receipt:
  assumes "remote_body a rid began body w = (r, w')"
  shows "db w' = db w \<and> w_disk w' = w_disk w
    \<and> (\<forall>x. r = Inr x \<longrightarrow> rec_action_id x = act_id a
         \<and> (rec_status x = XS_EXECUTED \<longrightarrow> jget body ''status'' = JStr ''EXECUTED''))"
proof -
  have fin: "db w2 = db w1 \<and> w_disk w2 = w_disk w1 \<and> (\<forall>x. y = Inr x \<longrightarrow> rec_action_id x = act_id a
      \<and> (rec_status x = XS_EXECUTED \<longrightarrow> jget body ''status'' = JStr ''EXECUTED''))"
    if "unsent a w1 y w2" for w1 y w2
    using that by (auto simp: unsent_def)
  show ?thesis
    using assms
    by (auto simp: remote_body_def Let_def remote_receipt_def tx_bind_def utc_now_def tx_return_def
        split: json.splits if_splits dest!: failed_unsent fin)
qed

lemma reply_receipt:
  assumes "remote_reply a rid began answer w = (r, w')"
  shows "db w' = db w \<and> w_disk w' = w_disk w
    \<and> (\<forall>x. r = Inr x \<longrightarrow> rec_action_id x = act_id a
         \<and> (rec_status x = XS_EXECUTED \<longrightarrow>
              (\<exists>body. answer = Answered 200 (Some (JObj body)) \<and> jget body ''status'' = JStr ''EXECUTED'')))"
proof (cases "\<exists>body. answer = Answered 200 (Some (JObj body))")
  case True
  then obtain body where body: "answer = Answered 200 (Some (JObj body))" by blast
  with assms have "remote_body a rid began body w = (r, w')" by (simp add: remote_reply_def)
  from body_receipt[OF this] body show ?thesis by auto
next
  case False
  have "unsent a w r w'"
  proof (cases "\<exists>st v. answer = Answered st (Some v) \<and> st = 200")
    case True
    then show ?thesis
      using assms False by (auto simp: remote_reply_def unsent_def split: json.splits dest: failed_unsent)
  next
    case other: False
    then show ?thesis
      using assms by (auto simp: remote_reply_def split: remote_answer.splits option.splits if_splits dest: failed_unsent)
  qed
  then show ?thesis by (auto simp: unsent_def)
qed

lemma send_cases:
  assumes "remote_send E a d app scope rw rid began w = (r, w')"
  shows "unsent a w r w' \<or> posted E a d app scope (if truthy rw then or_empty rw else act_run_id a) w r w'"
proof -
  define key where "key = (if truthy rw then or_empty rw else act_run_id a)"
  define token where "token = re_secret E (uuid_src w (uuid_count w))"
  define issued where "issued = re_time E (clock_src w (clock_count w))"
  define w1 where "w1 = w\<lparr>uuid_count := Suc (uuid_count w), clock_count := Suc (clock_count w)\<rparr>"
  have w1: "db w1 = db w" "w_disk w1 = w_disk w" by (simp_all add: w1_def)
  let ?prep = "prepare_dispatch (re_wire E) (re_parse E) issued token a d app (Some key) scope"
  have run: "(case ?prep of
      Inl e \<Rightarrow> if exc_class e = ''ValueError''
        then remote_failed a rid began ''EXECUTION_FAILED'' ''Malformed run_command arguments.'' else tx_raise e
    | Inr (payload, digest) \<Rightarrow>
        tx_bind (disk_op (\<lambda>d. map_prod Inr id
          (re_post E (or_empty (re_url E) @ ''/execute'') (signed_payload (re_wire E) payload (re_key E))
            (''Bearer '' @ or_empty (re_token E)) d))) (remote_reply a rid began)) w1 = (r, w')"
    using assms
    by (simp add: remote_send_def Let_def tx_bind_def uuid4_def utc_now_def token_def issued_def w1_def
        key_def split: sum.splits)
  show ?thesis
  proof (cases ?prep)
    case (Inl e)
    then have "unsent a w1 r w'"
      using run by (auto simp: unsent_def split: if_splits dest: failed_unsent)
    then show ?thesis using w1 by (simp add: unsent_def)
  next
    case (Inr pd)
    obtain payload digest where pd: "pd = (payload, digest)" by fastforce
    obtain answer d1 where post: "re_post E (or_empty (re_url E) @ ''/execute'')
        (signed_payload (re_wire E) payload (re_key E)) (''Bearer '' @ or_empty (re_token E)) (w_disk w)
        = (answer, d1)" by fastforce
    with run Inr pd w1 have "remote_reply a rid began answer (w1\<lparr>w_disk := d1\<rparr>) = (r, w')"
      by (simp add: tx_bind_def disk_op_run)
    from reply_receipt[OF this] have "posted E a d app scope key w r w'"
      unfolding posted_def using post Inr pd w1 by (intro conjI exI) auto
    then show ?thesis by (simp add: key_def)
  qed
qed

definition scope_checked :: "remote_env \<Rightarrow> action \<Rightarrow> path \<Rightarrow> task_scope \<Rightarrow> disk \<Rightarrow> bool" where
  "scope_checked E a ws sc d \<longleftrightarrow>
     (if operation a = ''run_command''
      then \<exists>root. os_resolve (dk_view d) ws = Some root
             \<and> revalidate_run_command_in_workspace (dk_view d) (re_sys E) a sc root = None
      else \<exists>t. write_target_ok (dk_view d) ws sc (resource a) t)"

lemma scoped_target_ok:
  assumes "target_is_scoped ws a (Some sc) w = (Inr True, w1)" and "operation a \<noteq> ''run_command''"
  shows "\<exists>t. write_target_ok (dk_view (w_disk w)) ws sc (resource a) t"
proof -
  from assms obtain t w2 where "verify_scoped_target ws (resource a) (Some sc) True w = (Inr t, w2)"
    by (auto simp: target_is_scoped_def tx_catch_def tx_bind_def tx_return_def
        split: prod.splits sum.splits if_splits)
  with verify_scoped_target_Inr show ?thesis by blast
qed

lemma revalidated_ok:
  assumes "remote_revalidated E a ws st (Some sc) w = (Inr None, w1)" and "operation a = ''run_command''"
  shows "\<exists>root. os_resolve (dk_view (w_disk w)) ws = Some root
      \<and> revalidate_run_command_in_workspace (dk_view (w_disk w)) (re_sys E) a sc root = None"
  using assms
  by (auto simp: remote_revalidated_def tx_catch_def tx_bind_def tx_return_def resolve_path_run read_disk_def
      disk_op_run split: option.splits sum.splits if_splits prod.splits)

lemma remote_attempt_cases:
  assumes "remote_attempt E a ws (Some d) app st scope rw rid began w = (r, w')"
  shows "unsent a w r w'
    \<or> remote_ready E \<and> (\<forall>sc. scope = Some sc \<longrightarrow> scope_checked E a ws sc (w_disk w))
      \<and> posted E a d app scope (if truthy rw then or_empty rw else act_run_id a) w r w'"
proof -
  have unsent_w: "unsent a w r w'" if "unsent a w2 r w'" "db w2 = db w" "w_disk w2 = w_disk w" for w2
    using that by (simp add: unsent_def)
  from reads_only_bind_cases[OF assms[unfolded remote_attempt_def] reads_only_scope]
  consider (raised) e where "r = Inl e" "db w' = db w" "w_disk w' = w_disk w"
    | (refused) w1 where "db w1 = db w" "w_disk w1 = w_disk w" "unsent a w1 r w'"
    | (go) w1 where "target_is_scoped ws a scope w = (Inr True, w1)" "db w1 = db w" "w_disk w1 = w_disk w"
      "tx_bind (remote_revalidated E a ws st scope) (\<lambda>refusal. case refusal of
         Some (code, msg) \<Rightarrow> remote_failed a rid began code msg
       | None \<Rightarrow> if \<not> remote_ready E
           then remote_failed a rid began ''EXECUTION_FAILED'' ''Remote executor unavailable; failing closed.''
           else remote_send E a d app scope rw rid began) w1 = (r, w')"
    by (auto split: if_splits dest: failed_unsent)
  then show ?thesis
  proof cases
    case raised
    then show ?thesis by (simp add: unsent_def)
  next
    case refused
    with unsent_w show ?thesis by simp
  next
    case go
    from reads_only_bind_cases[OF go(4) reads_only_remote_revalidated]
    consider (raised) e where "r = Inl e" "db w' = db w" "w_disk w' = w_disk w"
      | (passed) refusal w2 where "remote_revalidated E a ws st scope w1 = (Inr refusal, w2)"
        "db w2 = db w" "w_disk w2 = w_disk w" "(case refusal of
            Some (code, msg) \<Rightarrow> remote_failed a rid began code msg
          | None \<Rightarrow> if \<not> remote_ready E
              then remote_failed a rid began ''EXECUTION_FAILED'' ''Remote executor unavailable; failing closed.''
              else remote_send E a d app scope rw rid began) w2 = (r, w')"
      using go(2,3) by auto
    then consider (stop) "unsent a w r w'"
      | (sent) w2 where "remote_revalidated E a ws st scope w1 = (Inr None, w2)" "db w2 = db w"
        "w_disk w2 = w_disk w" "remote_ready E" "remote_send E a d app scope rw rid began w2 = (r, w')"
    proof cases
      case raised
      then show thesis using that(1) by (simp add: unsent_def)
    next
      case passed
      show thesis
      proof (cases refusal)
        case None
        show thesis
        proof (cases "remote_ready E")
          case True
          with passed None that(2) show thesis by simp
        next
          case False
          with passed None have "unsent a w2 r w'" by (simp add: failed_unsent)
          with unsent_w passed(2,3) that(1) show thesis by blast
        qed
      next
        case (Some cm)
        with passed have "unsent a w2 r w'" by (cases cm) (simp add: failed_unsent)
        with unsent_w passed(2,3) that(1) show thesis by blast
      qed
    qed
    then show ?thesis
    proof cases
      case stop
      then show ?thesis by simp
    next
      case sent
      have "scope_checked E a ws sc (w_disk w)" if "scope = Some sc" for sc
        unfolding scope_checked_def
        using scoped_target_ok[of ws a sc w w1] revalidated_ok[of E a ws st sc w1 w2] go(1,3) sent(1) that
        by auto
      then show ?thesis
        using send_cases[OF sent(5)] sent(4) unsent_world[OF sent(2,3)] posted_world[OF sent(2,3)] by blast
    qed
  qed
qed

lemma execute_remote_cases:
  assumes "execute_remote E a ws (Some d) app st scope rw w = (r, w')"
  shows "unsent a w r w' \<and> (\<forall>x. r = Inr x \<longrightarrow> rec_status x = XS_NOT_EXECUTED)
    \<or> outcome d \<noteq> PO_DENY \<and> (st \<longrightarrow> dispatch_authorised (db w) a d app)
      \<and> (unsent a w r w'
         \<or> remote_ready E \<and> (\<forall>sc. scope = Some sc \<longrightarrow> scope_checked E a ws sc (w_disk w))
           \<and> posted E a d app scope (if truthy rw then or_empty rw else act_run_id a) w r w')"
proof -
  have denied: "rec_status (remote_receipt a rid began finished XS_NOT_EXECUTED x c) = XS_NOT_EXECUTED \<and>
      rec_action_id (remote_receipt a rid began finished XS_NOT_EXECUTED x c) = act_id a" for rid began finished x c
    by (simp add: remote_receipt_def)
  from gated_cases[OF assms[unfolded execute_remote_def] denied] show ?thesis
  proof (elim disjE conjE exE)
    fix rid began w1
    assume auth: "outcome d \<noteq> PO_DENY" "st \<longrightarrow> dispatch_authorised (db w) a d app"
      and w1: "w_disk w1 = w_disk w" "db w1 = db w"
      and att: "remote_attempt E a ws (Some d) app st scope rw rid began w1 = (r, w')"
    from remote_attempt_cases[OF att] w1(1) auth unsent_world[OF w1(2,1)] posted_world[OF w1(2,1)]
    show ?thesis by auto
  qed (auto simp: unsent_def split: sum.splits)
qed

section \<open>The backend\<close>

lemma remote_failed_keeps: "keeps (=) (remote_failed a rid began code msg)"
  unfolding remote_failed_def by (intro same.keeps_rules)

lemma remote_send_keeps: "keeps (=) (remote_send E a d app scope rw rid began)"
  unfolding keeps_def
  using send_cases[of E a d app scope rw rid began] by (metis unsent_def posted_def prod.collapse)

lemma execute_remote_keeps: "keeps (=) (execute_remote E a ws dec app st scope rw)"
proof -
  have steps: "keeps (=) (target_is_scoped ws a scope)" "keeps (=) (remote_revalidated E a ws st scope)"
    using reads_only_scope reads_only_remote_revalidated by (auto simp: reads_only_def)
  have "keeps (=) (remote_attempt E a ws dec app st scope rw rid began)" for rid began
    unfolding remote_attempt_def
    by (intro same.keeps_rules steps)
      (auto intro!: same.keeps_rules steps remote_failed_keeps remote_send_keeps split: option.split)
  then show ?thesis
    unfolding execute_remote_def Let_def by (intro same.keeps_rules same_stored)
qed

interpretation remote_backend: executor_backend "execute_remote E"
  for E
proof
  fix a ws d app st scope key w r w'
  show "keeps (=) (execute_remote E a ws dec app st scope key)" for dec by (rule execute_remote_keeps)
  show "execute_remote E a ws dec app st scope key w = (Inr r, w') \<Longrightarrow> rec_action_id r = act_id a" for dec
  proof -
    have failed: "for_action a (remote_failed a rid began code msg)" for rid began code msg
      unfolding for_action_def using failed_unsent by (auto simp: unsent_def)
    have sent: "for_action a (remote_send E a d app scope key rid began)" for d rid began
      unfolding for_action_def using send_cases by (fastforce simp: unsent_def posted_def)
    have denied: "for_action a (tx_return (remote_receipt a rid began fin s x c))" for rid began fin s x c
      by (simp add: for_action_def tx_return_def remote_receipt_def)
    have "for_action a (remote_attempt E a ws dec app st scope key rid began)" for rid began
      unfolding remote_attempt_def
      by (intro for_action_rules) (auto intro!: for_action_rules failed sent split: option.split)
    then have "for_action a (execute_remote E a ws dec app st scope key)"
      unfolding execute_remote_def Let_def by (intro for_action_rules denied)
    then show "execute_remote E a ws dec app st scope key w = (Inr r, w') \<Longrightarrow> rec_action_id r = act_id a"
      unfolding for_action_def by blast
  qed
  show "execute_remote E a ws (Some d) app st scope key w = (Inr r, w') \<Longrightarrow> outcome d = PO_DENY \<Longrightarrow>
      rec_status r = XS_NOT_EXECUTED"
    using execute_remote_cases by fastforce
  show "execute_remote E a ws (Some d) app True scope key w = (Inr r, w') \<Longrightarrow>
      rec_status r \<noteq> XS_NOT_EXECUTED \<Longrightarrow> dispatch_authorised (db w) a d app"
    using execute_remote_cases by fastforce
qed

section \<open>Property\<close>

text \<open>
  C34: a remote dispatch is authorised before it leaves. Whatever the runner answers, the database is
  unchanged, and either nothing has happened (the disk is unchanged and no receipt says EXECUTED), or
  the stored decision, approval and run authorised the action, its scope was checked on this host, the
  runner's address and two different secrets are set, and exactly one signed dispatch for it was sent,
  whose answer decides the receipt: EXECUTED only for a 200 whose body says so.
\<close>

theorem remote_dispatch_is_authorised:
  assumes "execute_remote E a ws (Some d) app True (Some sc) rw w = (r, w')"
  shows "db w' = db w
    \<and> (unsent a w r w'
       \<or> dispatch_authorised (db w) a d app \<and> remote_ready E \<and> scope_checked E a ws sc (w_disk w)
         \<and> posted E a d app (Some sc) (if truthy rw then or_empty rw else act_run_id a) w r w')"
proof -
  have "db w' = db w" using keepsD[OF execute_remote_keeps assms] by simp
  with execute_remote_cases[OF assms] show ?thesis by blast
qed

definition demo_remote :: remote_env where
  "demo_remote =
     \<lparr>re_wire = \<lparr>wi_sha = (\<lambda>t. ''d1''), wi_hmac = (\<lambda>k t. ''f2''), wi_float = (\<lambda>m e. ''0.0'')\<rparr>,
      re_parse = (\<lambda>s. None), re_time = (\<lambda>t. (t, 0)), re_secret = (\<lambda>u. u), re_sys = ''python'',
      re_url = Some ''http://runner'', re_token = Some ''bearer'', re_key = ''key'',
      re_post = (\<lambda>url body bearer d.
        (Answered 200 (Some (JObj [(''status'', JStr ''EXECUTED''), (''result'', JObj [])])), d))\<rparr>"

theorem remote_dispatch_is_authorised_witness:
  "dispatch_authorised demo_store docker_read_action (demo_decision PO_ALLOW docker_read_action) None
   \<and> remote_ready demo_remote"
proof -
  let ?run = "execute_remote demo_remote docker_read_action [''ws'']
     (Some (demo_decision PO_ALLOW docker_read_action)) None True (Some demo_scope) None docker_world"
  have "case fst ?run of Inr r \<Rightarrow> rec_status r = XS_EXECUTED | _ \<Rightarrow> False"
    by code_simp
  then have busy: "\<not> unsent docker_read_action docker_world (fst ?run) (snd ?run)"
    by (auto simp: unsent_def split: sum.splits)
  have "db docker_world = demo_store" by (simp add: docker_world_def demo_world_def)
  with remote_dispatch_is_authorised[of demo_remote docker_read_action "[''ws'']" _ None demo_scope None
      docker_world "fst ?run" "snd ?run"] busy
  show ?thesis by auto
qed

end
