(* ===== verification/Runner.thy ===== *)
theory Runner
  imports Complex_Main ExecutorRemote Workspaces
begin

text \<open>
  \<open>deploy/executor-runner/runner.py\<close>: the sidecar that holds the Docker socket. A request is admitted by
  its bearer token, its signature, its age, its single-use token, its digest, the shared gate and the
  bindings between action, decision and approval; then the run's own directory is resolved, the scope
  is applied again, and the shared job construction runs the container. Clock readings are rational
  numbers of seconds; the environment is the one of the Docker backend.
\<close>

definition DISPATCH_TTL :: rat where "DISPATCH_TTL = 60"
definition MAX_BODY_BYTES :: nat where "MAX_BODY_BYTES = 256 * 1024"

definition ALLOWED_OPERATIONS :: "pystr list" where
  "ALLOWED_OPERATIONS = [''list_directory'', ''read_text'', ''write_text'', ''delete_path'', ''run_command'']"

type_synonym runner_answer = "nat \<times> jobj"

text \<open>One check: an exception, an answer, or the value to go on with.\<close>

datatype 'a checked = Crash exc | Answer runner_answer | Pass 'a

definition refuse :: "nat \<Rightarrow> pystr \<Rightarrow> runner_answer" where
  "refuse status msg = (status, [(''error'', JStr msg)])"

section \<open>The digest\<close>

definition json_or :: "json \<Rightarrow> json \<Rightarrow> json" where
  "json_or v other = (if json_truthy v then v else other)"

definition scope_list :: "json \<Rightarrow> pystr \<Rightarrow> json" where
  "scope_list scope key =
     (case scope of JObj sc \<Rightarrow> json_or (jget sc key) (JArr []) | _ \<Rightarrow> JArr [])"

definition canonical_action_digest :: "wire_env \<Rightarrow> jobj \<Rightarrow> jobj \<Rightarrow> json \<Rightarrow> json \<Rightarrow> pystr" where
  "canonical_action_digest W act dec run_workspace scope =
     wi_sha W (wire_text (wi_float W) (JObj
       [(''action_id'', jget act ''id''), (''run_id'', jget act ''run_id''),
        (''operation'', jget act ''operation''), (''resource'', jget act ''resource''),
        (''arguments'', json_or (jget act ''arguments'') (JObj [])),
        (''policy_decision_id'', jget dec ''id''), (''policy_outcome'', jget dec ''outcome''),
        (''run_workspace'', json_or run_workspace (JStr [])),
        (''task_scope'', JObj [(''allowed_paths'', scope_list scope ''allowed_paths''),
           (''blocked_paths'', scope_list scope ''blocked_paths''),
           (''allowed_commands'', scope_list scope ''allowed_commands'')])]))"

section \<open>Dispatch tokens\<close>

text \<open>The tokens seen, each with its digest and its expiry.\<close>

type_synonym seen = "(pystr \<times> pystr \<times> rat) list"

datatype token_answer = Token_ok | Token_reused | Token_invalid

definition prune_seen :: "rat \<Rightarrow> seen \<Rightarrow> seen" where
  "prune_seen now s = filter (\<lambda>(t, g, expiry). \<not> expiry \<le> now) s"

definition consume_token :: "rat \<Rightarrow> json \<Rightarrow> json \<Rightarrow> rat \<Rightarrow> seen \<Rightarrow> token_answer \<times> seen" where
  "consume_token ttl token digest now s =
     (case (token, digest) of
        (JStr t, JStr g) \<Rightarrow>
          if t = [] \<or> 256 < length t \<or> g = [] then (Token_invalid, s)
          else let live = prune_seen now s
               in if t \<in> fst ` set live then (Token_reused, live)
                  else (Token_ok, live @ [(t, g, now + ttl)])
      | _ \<Rightarrow> (Token_invalid, s))"

definition binding_for :: "pystr \<Rightarrow> rat \<Rightarrow> seen \<Rightarrow> pystr option" where
  "binding_for token now s =
     (case map_of s token of
        None \<Rightarrow> None
      | Some (g, expiry) \<Rightarrow> if expiry \<le> now then None else Some g)"

section \<open>Credentials and configuration\<close>

definition check_bearer :: "pystr option \<Rightarrow> pystr \<Rightarrow> pystr + bool" where
  "check_bearer authorization expected =
     (if \<not> truthy authorization \<or> expected = [] then Inr False
      else let text = or_empty authorization;
               scheme = takeWhile (\<lambda>c. c \<noteq> CHR '' '') text;
               credential = drop (Suc (length scheme)) text
           in if lower scheme \<noteq> ''bearer'' \<or> credential = [] then Inr False
              else compare_digest (strip credential) expected)"

record runner_config =
  rc_token :: pystr
  rc_key :: pystr
  rc_host :: pystr
  rc_port :: int
  rc_workspace :: path
  rc_image :: pystr

definition env_or :: "environ \<Rightarrow> pystr \<Rightarrow> pystr \<Rightarrow> pystr" where
  "env_or env key other = (case env key of None \<Rightarrow> other | Some v \<Rightarrow> v)"

definition runner_config_of :: "environ \<Rightarrow> pystr \<Rightarrow> exc + runner_config" where
  "runner_config_of env pinned_image =
     (case py_int (env_or env ''EXECUTOR_RUNNER_PORT'' ''8091'') of
        None \<Rightarrow> Inl (Py_error ''ValueError'' [])
      | Some port \<Rightarrow>
          Inr \<lparr>rc_token = env_or env ''EXECUTOR_RUNNER_TOKEN'' [],
               rc_key = env_or env ''EXECUTOR_RUNNER_SIGNING_KEY'' [],
               rc_host = env_or env ''EXECUTOR_RUNNER_HOST'' ''127.0.0.1'', rc_port = port,
               rc_workspace = pure_path_parts (env_or env ''EXECUTOR_RUNNER_WORKSPACE'' ''/runs''),
               rc_image = env_or env ''EXECUTOR_RUNNER_IMAGE'' pinned_image\<rparr>)"

text \<open>\<open>serve\<close> before it binds the socket: the message it exits with.\<close>

definition serve_refusal :: "runner_config \<Rightarrow> pystr option" where
  "serve_refusal cfg =
     (if rc_token cfg = [] then Some ''EXECUTOR_RUNNER_TOKEN is required (environment only).''
      else if rc_key cfg = [] then Some ''EXECUTOR_RUNNER_SIGNING_KEY is required (environment only).''
      else if rc_key cfg = rc_token cfg
      then Some ''EXECUTOR_RUNNER_SIGNING_KEY must differ from EXECUTOR_RUNNER_TOKEN.''
      else None)"

section \<open>Admission\<close>

fun gate_refusal :: "verdict_code \<Rightarrow> runner_answer option" where
  "gate_refusal VC_NO_DECISION = Some (refuse 403 ''policy decision required'')"
| "gate_refusal VC_POLICY_DENY = Some (refuse 403 ''policy outcome does not authorize execution'')"
| "gate_refusal VC_OUTCOME_REFUSED = Some (refuse 403 ''policy outcome does not authorize execution'')"
| "gate_refusal VC_APPROVAL_REQUIRED = Some (refuse 403 ''valid approval required'')"
| "gate_refusal VC_NETWORK_FORBIDDEN = Some (refuse 400 ''unsupported operation'')"
| "gate_refusal VC_OK = None"

definition signed_dispatch :: "wire_env \<Rightarrow> runner_config \<Rightarrow> jobj \<Rightarrow> (jobj \<times> jobj) checked" where
  "signed_dispatch W cfg body =
     (case (jget body ''action'', jget body ''policy_decision'') of
        (JObj act, JObj dec) \<Rightarrow>
          (case (if rc_key cfg = [] \<or> rc_key cfg = rc_token cfg then JNull
                 else jget body ''dispatch_signature'') of
             JStr signature \<Rightarrow>
               (case compare_digest signature
                       (wi_hmac W (rc_key cfg) (wire_text (wi_float W) (JObj (unsigned_part body)))) of
                  Inl e \<Rightarrow> Crash (Py_error e [])
                | Inr same \<Rightarrow>
                    if same then Pass (act, dec)
                    else Answer (refuse 403 ''invalid dispatch signature''))
           | _ \<Rightarrow> Answer (refuse 403 ''dispatch signature required''))
      | _ \<Rightarrow> Answer (refuse 400 ''malformed dispatch''))"

definition issue_time :: "json \<Rightarrow> rat option" where
  "issue_time v =
     (case v of
        JInt i \<Rightarrow> Some (of_int i)
      | JFloat m e \<Rightarrow> Some (of_int m * 2 powi e)
      | _ \<Rightarrow> None)"

definition dispatch_fresh :: "json \<Rightarrow> rat \<Rightarrow> bool" where
  "dispatch_fresh issued_at now =
     (case issue_time issued_at of
        None \<Rightarrow> False
      | Some t \<Rightarrow> 0 \<le> now - t \<and> now - t \<le> DISPATCH_TTL)"

definition string_array :: "json \<Rightarrow> bool" where
  "string_array v = (case v of JArr vs \<Rightarrow> json_strings vs \<noteq> None | _ \<Rightarrow> False)"

definition task_scope_shape_error :: "json \<Rightarrow> pystr option" where
  "task_scope_shape_error scope =
     (case scope of
        JNull \<Rightarrow> None
      | JObj sc \<Rightarrow>
          (case find (\<lambda>key. jget sc key \<noteq> JNull \<and> \<not> string_array (jget sc key))
                  [''allowed_paths'', ''blocked_paths''] of
             Some key \<Rightarrow> Some (''malformed task_scope.'' @ key)
           | None \<Rightarrow>
               (case jget sc ''allowed_commands'' of
                  JNull \<Rightarrow> None
                | JArr cmds \<Rightarrow>
                    if list_all string_array cmds then None
                    else Some ''malformed task_scope.allowed_commands''
                | _ \<Rightarrow> Some ''malformed task_scope.allowed_commands''))
      | _ \<Rightarrow> Some ''malformed task_scope'')"

definition json_as_obj :: "json \<Rightarrow> obj" where
  "json_as_obj v =
     (case v of JNull \<Rightarrow> None | JObj kvs \<Rightarrow> Some (map_of kvs) | _ \<Rightarrow> Some (\<lambda>name. None))"

text \<open>The bindings between decision, approval and action that only this side checks.\<close>

definition binding_refusal :: "jobj \<Rightarrow> jobj \<Rightarrow> json \<Rightarrow> pystr option \<Rightarrow> runner_answer option" where
  "binding_refusal act dec app outc =
     (if \<not> py_eq (jget dec ''action_request_id'') (jget act ''id'')
      then Some (refuse 403 ''policy decision does not match action'')
      else if outc = Some ''HOLD'' then
        (case app of
           JObj p \<Rightarrow>
             if \<not> json_truthy (jget p ''id'') \<or> \<not> py_eq (jget p ''run_id'') (jget act ''run_id'')
                \<or> \<not> py_eq (jget p ''policy_decision_id'') (jget dec ''id'')
             then Some (refuse 403 ''valid approval required'') else None
         | _ \<Rightarrow> Some (refuse 403 ''valid approval required''))
      else if app \<noteq> JNull then Some (refuse 403 ''unexpected approval'')
      else None)"

definition bound_dispatch :: "wire_env \<Rightarrow> jobj \<Rightarrow> jobj \<Rightarrow> jobj \<Rightarrow> jobj checked" where
  "bound_dispatch W body act dec =
     (case task_scope_shape_error (jget body ''task_scope'') of
        Some msg \<Rightarrow> Answer (refuse 400 msg)
      | None \<Rightarrow>
          (case compare_digest (json_text (wi_float W) (json_or (jget body ''action_digest'') (JStr [])))
                  (canonical_action_digest W act dec (json_or (jget body ''run_workspace'') (JStr []))
                     (jget body ''task_scope'')) of
             Inl e \<Rightarrow> Crash (Py_error e [])
           | Inr same \<Rightarrow>
               if \<not> same then Answer (refuse 409 ''action digest mismatch'')
               else let dv = authorize_dispatch (Some (map_of act)) (Some (map_of dec))
                               (json_as_obj (jget body ''approval''))
                    in case gate_refusal (dv_code dv) of
                         Some r \<Rightarrow> Answer r
                       | None \<Rightarrow>
                           (case binding_refusal act dec (jget body ''approval'') (dv_outcome dv) of
                              Some r \<Rightarrow> Answer r
                            | None \<Rightarrow> Pass act)))"

text \<open>The clock is read twice: \<open>now\<close> for the age of the dispatch, \<open>now'\<close> for its token.\<close>

definition admit_dispatch ::
  "wire_env \<Rightarrow> runner_config \<Rightarrow> jobj \<Rightarrow> rat \<Rightarrow> rat \<Rightarrow> seen \<Rightarrow> jobj checked \<times> seen" where
  "admit_dispatch W cfg body now now' s =
     (case signed_dispatch W cfg body of
        Crash e \<Rightarrow> (Crash e, s)
      | Answer r \<Rightarrow> (Answer r, s)
      | Pass (act, dec) \<Rightarrow>
          if \<not> dispatch_fresh (jget body ''issued_at'') now
          then (Answer (refuse 403 ''dispatch expired''), s)
          else (case consume_token DISPATCH_TTL (jget body ''dispatch_token'') (jget body ''action_digest'') now' s of
              (Token_reused, s') \<Rightarrow> (Answer (refuse 409 ''dispatch token already used''), s')
            | (Token_invalid, s') \<Rightarrow> (Answer (refuse 400 ''malformed dispatch''), s')
            | (Token_ok, s') \<Rightarrow> (bound_dispatch W body act dec, s')))"

end
