(* ===== verification/RunnerDispatch.thy ===== *)
theory RunnerDispatch
  imports Runner
begin

text \<open>
  The second half of \<open>handle_execute\<close> in \<open>deploy/executor-runner/runner.py\<close> and the HTTP handler: the
  run's own directory under the mounted root, the resource and the scope checked on it and again on
  the staged copy, the container and its reply. All disk steps are those of the Docker backend.
\<close>

section \<open>Workspace and resource\<close>

text \<open>The run's directory, or \<open>None\<close> where it is unavailable.\<close>

definition runner_workspace :: "path \<Rightarrow> json \<Rightarrow> path option tx" where
  "runner_workspace mounted key =
     (case key of
        JStr k \<Rightarrow>
          if \<not> safe_segment k then tx_return None
          else tx_bind (tx_catch
              (tx_bind (resolve_path mounted) (\<lambda>base.
               tx_bind (resolve_path (base @ [k])) (\<lambda>own.
                 tx_return (if relative_to own base = None then None else Some (base, own)))))
              (\<lambda>e. tx_return None))
            (\<lambda>found. case found of
                None \<Rightarrow> tx_return None
              | Some (base, own) \<Rightarrow>
                  if own = base then tx_return None
                  else tx_bind (read_disk (\<lambda>d. (os_islink (dk_view d) (base @ [k]), dk_node d own)))
                    (\<lambda>(link, entry). case link of
                        None \<Rightarrow> tx_raise (os_error ''OSError'')
                      | Some linked \<Rightarrow>
                          tx_return (if linked \<or> \<not> is_dir_node entry then None else Some own)))
      | _ \<Rightarrow> tx_return None)"

definition validate_resource_inside_workspace :: "pystr \<Rightarrow> path \<Rightarrow> (pystr + path) tx" where
  "validate_resource_inside_workspace res ws =
     (if res = [] \<or> CHR 0x00 \<in> set res then tx_return (Inl ''invalid resource'')
      else if starts_with res ''/'' \<or> starts_with res [CHR 0x5C] \<or> (2 < length res \<and> res ! 1 = CHR '':'')
      then tx_return (Inl ''absolute paths are prohibited'')
      else if ''..'' \<in> set (pure_path_parts res)
      then tx_return (Inl ''path escapes workspace boundary'')
      else tx_catch (tx_bind (resolve_workspace_target ws (ws @ pure_path_parts res)) (\<lambda>p. tx_return (Inr p)))
             (\<lambda>e. tx_return (Inl (if exc_class e = ''ValueError'' then ''path escapes workspace boundary''
                                  else ''path resolution failed''))))"

definition resource_refusal :: "pystr \<Rightarrow> runner_answer" where
  "resource_refusal reason =
     refuse (if substring_of ''boundary'' reason then 403 else 400) reason"

section \<open>The scope\<close>

definition or_nil :: "'a list option \<Rightarrow> 'a list" where
  "or_nil xs = (case xs of None \<Rightarrow> [] | Some ys \<Rightarrow> ys)"

definition scope_strings :: "jobj \<Rightarrow> pystr \<Rightarrow> pystr list" where
  "scope_strings sc key = (case jget sc key of JArr vs \<Rightarrow> or_nil (json_strings vs) | _ \<Rightarrow> [])"

definition scope_commands :: "jobj \<Rightarrow> pystr list list" where
  "scope_commands sc =
     (case jget sc ''allowed_commands'' of
        JArr cmds \<Rightarrow> map (\<lambda>c. case c of JArr vs \<Rightarrow> or_nil (json_strings vs) | _ \<Rightarrow> []) cmds
      | _ \<Rightarrow> [])"

text \<open>The check of the own resource under the workspace \<open>ws\<close>, against a view of the disk.\<close>

definition resource_scope_denial ::
  "fsview \<Rightarrow> path \<Rightarrow> json \<Rightarrow> pystr \<Rightarrow> pystr \<Rightarrow> path \<Rightarrow> runner_answer option" where
  "resource_scope_denial v ws scope op res target =
     (case scope of
        JObj sc \<Rightarrow>
          (case map_option (relative_to target) (os_resolve v ws) of
             Some (Some res_segments) \<Rightarrow>
               (let allowed = scope_strings sc ''allowed_paths'';
                    blocked = scope_strings sc ''blocked_paths'';
                    req_segments = normalize_relative_segments res
                in if allowed \<noteq> [] \<or> blocked \<noteq> [] then
                     (if scoped_path_denial v req_segments res_segments
                           (if op \<noteq> ''run_command'' then allowed else [''.'']) blocked
                           (case_probe v ws) (Some ws) \<noteq> None
                      then Some (refuse 403 ''resource violates task scope'') else None)
                   else if res_segments \<noteq> req_segments
                   then Some (refuse 403 ''symlink target requires task scope evidence'')
                   else None)
           | _ \<Rightarrow> Some (refuse 403 ''path escapes workspace boundary''))
      | _ \<Rightarrow> None)"

definition first_some :: "'a option list \<Rightarrow> 'a option" where
  "first_some xs = (case filter (\<lambda>x. x \<noteq> None) xs of [] \<Rightarrow> None | x # _ \<Rightarrow> x)"

definition argument_candidates :: "pystr \<Rightarrow> pystr list" where
  "argument_candidates item =
     item # (if CHR ''='' \<in> set item then [drop 1 (dropWhile (\<lambda>c. c \<noteq> CHR ''='') item)] else [])"

text \<open>Every candidate of every argument, compared with the blocked paths by its text.\<close>

definition blocked_argument :: "fsview \<Rightarrow> path \<Rightarrow> pystr list \<Rightarrow> pystr list \<Rightarrow> pystr option" where
  "blocked_argument v ws blocked argv =
     first_some (concat (map (\<lambda>item. concat (map (\<lambda>candidate.
       map (\<lambda>b. if filesystem_path_within v (normalize_relative_segments candidate) b ws False
                then Some (''command argument violates blocked path '' @ quoted b) else None) blocked)
       (argument_candidates item))) argv))"

definition prefix_length :: "pystr list \<Rightarrow> pystr list list \<Rightarrow> nat" where
  "prefix_length argv cmds =
     fold max (map length (filter (\<lambda>cmd. take (length cmd) argv = cmd) cmds)) 0"

definition candidate_denial ::
  "fsview \<Rightarrow> path \<Rightarrow> path \<Rightarrow> pystr list \<Rightarrow> bool \<Rightarrow> pystr \<Rightarrow> pystr option" where
  "candidate_denial v base real_base blocked is_path_argument candidate =
     (if is_path_argument \<and> (starts_with candidate ''/'' \<or> starts_with candidate [CHR 0x5C])
      then Some ''command argument uses an absolute path''
      else let joined = (if starts_with candidate ''/'' then pure_path_parts candidate
                         else base @ pure_path_parts candidate)
           in case map_option (\<lambda>p. relative_to p real_base) (os_resolve v joined) of
                Some (Some canonical) \<Rightarrow>
                  first_some (map (\<lambda>b. if filesystem_path_within v canonical b real_base False
                                       then Some (''command argument resolves into blocked path '' @ quoted b)
                                       else None) blocked)
              | _ \<Rightarrow> if is_path_argument
                     then Some ''command argument escapes the workspace boundary'' else None)"

definition argv_scope_denial :: "fsview \<Rightarrow> pystr list \<Rightarrow> path \<Rightarrow> jobj \<Rightarrow> pystr option" where
  "argv_scope_denial v argv base sc =
     (case os_resolve v base of
        None \<Rightarrow> Some ''workspace could not be own''
      | Some real_base \<Rightarrow>
          first_some (concat (map (\<lambda>(i, item).
            map (candidate_denial v base real_base (scope_strings sc ''blocked_paths'')
                   (prefix_length argv (scope_commands sc) \<le> i))
              (argument_candidates item)) (enumerate 0 argv))))"

definition dispatch_blocked_paths :: "jobj \<Rightarrow> pystr + json list" where
  "dispatch_blocked_paths body =
     (case jget body ''task_scope'' of
        JNull \<Rightarrow> Inr []
      | JObj sc \<Rightarrow>
          (case jget sc ''blocked_paths'' of
             JNull \<Rightarrow> Inr []
           | JArr raw \<Rightarrow>
               (case normalize_blocked_paths (JArr raw) of
                  Inl e \<Rightarrow> Inl ''malformed task_scope.blocked_paths''
                | Inr ps \<Rightarrow> Inr raw)
           | _ \<Rightarrow> Inl ''malformed task_scope.blocked_paths'')
      | _ \<Rightarrow> Inl ''malformed task_scope'')"

section \<open>The command\<close>

definition normalize_run_command ::
  "(pystr \<Rightarrow> pyfloat option) \<Rightarrow> jobj \<Rightarrow> exc + (pystr + pystr list \<times> (int \<times> int))" where
  "normalize_run_command parse args =
     (case (case jget args ''argv'' of JArr vs \<Rightarrow> if vs = [] then None else json_strings vs | _ \<Rightarrow> None) of
        None \<Rightarrow> Inr (Inl ''malformed argv for run_command'')
      | Some argv \<Rightarrow>
          if list_ex (\<lambda>a. CHR 0x00 \<in> set a) argv then Inr (Inl ''null byte in argv'')
          else map_sum id (\<lambda>t. Inr (argv, t))
                 (clamp_run_command_timeout parse
                    (case map_of args ''timeout_s'' of None \<Rightarrow> JFloat 60 0 | Some v \<Rightarrow> v)))"

text \<open>
  What the container is asked to do, once the command is normalised and compared with the scope:
  the arguments, the timeout and the argument vector of a command.
\<close>

type_synonym container_request = "jobj \<times> (int \<times> int) option \<times> pystr list"

definition command_request ::
  "docker_env \<Rightarrow> fsview \<Rightarrow> path \<Rightarrow> json \<Rightarrow> jobj \<Rightarrow> container_request checked" where
  "command_request E v ws scope args =
     (case normalize_run_command (de_parse E) args of
        Inl e \<Rightarrow> Crash e
      | Inr (Inl msg) \<Rightarrow> Answer (refuse 400 msg)
      | Inr (Inr (argv, t)) \<Rightarrow>
          (let request = ([(''argv'', JArr (map JStr argv)), (''timeout_s'', JFloat (fst t) (snd t))], Some t, argv)
           in case scope of
                JObj sc \<Rightarrow>
                  if scope_commands sc \<noteq> [] \<and> \<not> list_ex (\<lambda>cmd. take (length cmd) argv = cmd) (scope_commands sc)
                  then Answer (refuse 403 ''command not allowed by task scope'')
                  else (case blocked_argument v ws (scope_strings sc ''blocked_paths'') argv of
                      Some msg \<Rightarrow> Answer (refuse 403 msg)
                    | None \<Rightarrow> Pass request)
              | _ \<Rightarrow> Pass request))"

definition runner_request ::
  "docker_env \<Rightarrow> fsview \<Rightarrow> path \<Rightarrow> json \<Rightarrow> pystr \<Rightarrow> jobj \<Rightarrow> container_request checked" where
  "runner_request E v ws scope op act =
     (case json_or (jget act ''arguments'') (JObj []) of
        JObj args \<Rightarrow> if op = ''run_command'' then command_request E v ws scope args else Pass (args, None, [])
      | _ \<Rightarrow> Answer (refuse 400 ''malformed arguments''))"

text \<open>\<open>_argv_scope_denial\<close> as \<open>handle_execute\<close> calls it: for a command with a scope.\<close>

definition command_scope_refusal :: "fsview \<Rightarrow> path \<Rightarrow> json \<Rightarrow> pystr \<Rightarrow> pystr list \<Rightarrow> runner_answer option" where
  "command_scope_refusal v base scope op argv =
     (case scope of
        JObj sc \<Rightarrow> if op = ''run_command'' then map_option (refuse 403) (argv_scope_denial v argv base sc) else None
      | _ \<Rightarrow> None)"

section \<open>The container\<close>

definition failed_reply :: "pystr \<Rightarrow> pystr \<Rightarrow> runner_answer" where
  "failed_reply msg code =
     (200, [(''status'', JStr ''FAILED''), (''result'', JObj [(''error'', JStr msg)]), (''error_code'', JStr code)])"

definition executed_reply :: "json \<Rightarrow> jobj \<Rightarrow> json \<Rightarrow> runner_answer" where
  "executed_reply status result error_code =
     (200, [(''status'', status), (''result'', JObj result), (''error_code'', error_code)])"

definition runner_reply ::
  "docker_env \<Rightarrow> pystr \<Rightarrow> path \<Rightarrow> bool option \<Rightarrow> json \<Rightarrow> jobj \<Rightarrow> staged \<Rightarrow> runner_answer tx" where
  "runner_reply E op ws ci blocked payload t =
     (let status = jget payload ''status'';
          error_code = jget payload ''error_code''
      in case json_or (jget payload ''result'') (JObj []) of
           JObj result \<Rightarrow>
             if status \<noteq> JStr ''EXECUTED'' \<and> status \<noteq> JStr ''FAILED''
             then tx_return (refuse 502 ''Docker helper returned malformed output'')
             else if status = JStr ''EXECUTED'' \<and> op \<in> {''write_text'', ''run_command''} then
               tx_bind (sync_back E ws ci blocked t) (\<lambda>synced.
                 tx_return (case synced of
                     Inl e \<Rightarrow>
                       if exc_class e = ''OversizedCopyBackError''
                       then failed_reply (''Copy-back refused: '' @ str_exc e) ''OVERSIZED_WORKSPACE''
                       else failed_reply ''Docker execution failed.'' ''EXECUTION_FAILED''
                   | Inr refused \<Rightarrow>
                       executed_reply status
                         (if refused = [] then result
                          else dict_set result ''copy_back_refused'' (JArr (map JStr refused))) error_code))
             else tx_return (executed_reply status result error_code)
         | _ \<Rightarrow> tx_return (refuse 502 ''Docker helper returned malformed output''))"

definition runner_outcome ::
  "docker_env \<Rightarrow> pystr \<Rightarrow> path \<Rightarrow> bool option \<Rightarrow> json \<Rightarrow> docker_outcome \<times> staged \<Rightarrow> runner_answer tx" where
  "runner_outcome E op ws ci blocked ended =
     (case ended of
        (Process Output_overrun, t) \<Rightarrow>
          tx_return (failed_reply ''Docker container output exceeded size limit.'' ''EXECUTION_FAILED'')
      | (Process Timeout_expired, t) \<Rightarrow>
          tx_return (failed_reply ''Docker execution timed out.'' ''EXECUTION_FAILED'')
      | (No_docker, t) \<Rightarrow> tx_return (refuse 502 ''Docker daemon unavailable'')
      | (Docker_raised, t) \<Rightarrow> tx_return (refuse 502 ''Docker execution failed'')
      | (Process (Completed code out err), t) \<Rightarrow>
          if code \<noteq> 0 then tx_return (failed_reply ''Docker execution failed.'' ''EXECUTION_FAILED'')
          else (case de_loads E out of
              None \<Rightarrow> tx_return (refuse 502 ''Docker helper returned malformed output'')
            | Some (JObj payload) \<Rightarrow> runner_reply E op ws ci blocked payload t
            | Some _ \<Rightarrow> tx_raise (Py_error ''AttributeError'' [])))"

definition runner_command ::
  "docker_env \<Rightarrow> runner_config \<Rightarrow> pystr \<Rightarrow> pystr \<Rightarrow> docker_job \<Rightarrow> pystr list" where
  "runner_command E cfg container_name run_label j =
     build_docker_command (de_helper E) (rc_image cfg) (copy_path E) j container_name run_label ''runner''"

text \<open>Over the mounted copy: resource, scope and command are checked again, then the container runs.\<close>

definition runner_in_copy ::
  "docker_env \<Rightarrow> runner_config \<Rightarrow> pystr \<Rightarrow> pystr \<Rightarrow> json \<Rightarrow> container_request \<Rightarrow> path \<Rightarrow> bool option \<Rightarrow> json
     \<Rightarrow> pystr \<Rightarrow> pystr \<Rightarrow> staged \<Rightarrow> runner_answer tx" where
  "runner_in_copy E cfg op res scope request ws ci blocked container_name run_label copy =
     (case request of (args, limit, argv) \<Rightarrow>
       tx_bind (validate_resource_inside_workspace res (copy_path E)) (\<lambda>checked. case checked of
           Inl reason \<Rightarrow> tx_return (resource_refusal reason)
         | Inr target_copy \<Rightarrow>
             tx_bind (read_disk dk_view) (\<lambda>v.
               case resource_scope_denial v (copy_path E) scope op res target_copy of
                 Some r \<Rightarrow> tx_return r
               | None \<Rightarrow>
                   (case command_scope_refusal v (copy_path E) scope op argv of
                      Some r \<Rightarrow> tx_return r
                    | None \<Rightarrow>
                        tx_bind (tx_of_sum (prepare_docker_job (de_float E) op res args limit)) (\<lambda>j.
                          runner_outcome E op ws ci blocked
                            (de_run E (runner_command E cfg container_name run_label j)
                               (host_timeout_s j (de_timeout E)) copy))))))"

definition runner_stage ::
  "docker_env \<Rightarrow> runner_config \<Rightarrow> pystr \<Rightarrow> pystr \<Rightarrow> json \<Rightarrow> container_request \<Rightarrow> path \<Rightarrow> bool option \<Rightarrow> json
     \<Rightarrow> pystr \<Rightarrow> pystr \<Rightarrow> runner_answer tx" where
  "runner_stage E cfg op res scope request ws ci blocked container_name run_label =
     tx_bind (tx_catch (staging_of E ws ci blocked) (\<lambda>e. tx_return (Inl e))) (\<lambda>st. case st of
         Inl e \<Rightarrow>
           if exc_class e \<in> set OS_ERROR_CLASSES then tx_return (refuse 500 ''workspace staging failed'')
           else tx_raise e
       | Inr copy \<Rightarrow>
           tx_bind (disk_op (\<lambda>d. (Inr (), de_mount E (copy_path E) copy d))) (\<lambda>_. \<lambda>w.
             case runner_in_copy E cfg op res scope request ws ci blocked container_name run_label copy w of
               (r, w') \<Rightarrow> (r, w'\<lparr>w_disk := de_unmount E (de_staging_root E) (w_disk w')\<rparr>)))"

section \<open>The handler\<close>

text \<open>The run's workspace \<open>ws\<close> is own: the checks on it, then staging.\<close>

definition run_in_workspace ::
  "docker_env \<Rightarrow> runner_config \<Rightarrow> jobj \<Rightarrow> jobj \<Rightarrow> pystr \<Rightarrow> pystr \<Rightarrow> path \<Rightarrow> runner_answer tx" where
  "run_in_workspace E cfg body act op res ws =
     tx_bind (validate_resource_inside_workspace res ws) (\<lambda>checked. case checked of
         Inl reason \<Rightarrow> tx_return (resource_refusal reason)
       | Inr target \<Rightarrow>
           tx_bind (read_disk dk_view) (\<lambda>v.
             let scope = jget body ''task_scope'';
                 ci = case_probe v ws
             in case resource_scope_denial v ws scope op res target of
                  Some r \<Rightarrow> tx_return r
                | None \<Rightarrow>
                    (case runner_request E v ws scope op act of
                       Crash e \<Rightarrow> tx_raise e
                     | Answer r \<Rightarrow> tx_return r
                     | Pass request \<Rightarrow>
                         (case dispatch_blocked_paths body of
                            Inl msg \<Rightarrow> tx_return (refuse 400 msg)
                          | Inr blocked \<Rightarrow>
                              (case command_scope_refusal v ws scope op (snd (snd request)) of
                                 Some r \<Rightarrow> tx_return r
                               | None \<Rightarrow>
                                   tx_bind uuid4 (\<lambda>u.
                                     runner_stage E cfg op res scope request ws ci (JArr blocked)
                                       (''scopewatch-runner-'' @ take 12 (de_hex E u))
                                       (json_text (de_float E) (json_or (jget act ''run_id'') (JStr ''unknown-run'')))))))))"

definition run_dispatch :: "docker_env \<Rightarrow> runner_config \<Rightarrow> jobj \<Rightarrow> jobj \<Rightarrow> runner_answer tx" where
  "run_dispatch E cfg body act =
     (case jget act ''operation'' of
        JStr op \<Rightarrow>
          if op \<notin> set ALLOWED_OPERATIONS then tx_return (refuse 400 ''unsupported operation'')
          else (case jget act ''resource'' of
              JStr res \<Rightarrow>
                tx_bind (runner_workspace (rc_workspace cfg) (jget body ''run_workspace'')) (\<lambda>found.
                  case found of
                    None \<Rightarrow> tx_return (refuse 500 ''run workspace unavailable'')
                  | Some ws \<Rightarrow> run_in_workspace E cfg body act op res ws)
            | _ \<Rightarrow> tx_return (refuse 400 ''invalid resource''))
      | JArr vs \<Rightarrow> tx_raise (Py_error ''TypeError'' [])
      | JObj kvs \<Rightarrow> tx_raise (Py_error ''TypeError'' [])
      | _ \<Rightarrow> tx_return (refuse 400 ''unsupported operation''))"

definition handle_execute ::
  "wire_env \<Rightarrow> docker_env \<Rightarrow> runner_config \<Rightarrow> jobj \<Rightarrow> rat \<Rightarrow> rat \<Rightarrow> seen \<Rightarrow> runner_answer tx \<times> seen" where
  "handle_execute W E cfg body now now' s =
     (case admit_dispatch W cfg body now now' s of
        (Crash e, s') \<Rightarrow> (tx_raise e, s')
      | (Answer r, s') \<Rightarrow> (tx_return r, s')
      | (Pass act, s') \<Rightarrow> (run_dispatch E cfg body act, s'))"

record runner_http =
  rh_path :: pystr
  rh_authorization :: "pystr option"
  rh_length :: "pystr option"
  rh_body :: pystr

text \<open>\<open>do_GET\<close> and \<open>do_POST\<close>. An exception closes the connection without a response.\<close>

definition runner_get :: "pystr \<Rightarrow> runner_answer" where
  "runner_get url =
     (if without_slash url \<in> {[], ''/healthz'', ''/health''} then (200, [(''status'', JStr ''ok'')])
      else refuse 404 ''not found'')"

definition runner_post ::
  "wire_env \<Rightarrow> docker_env \<Rightarrow> runner_config \<Rightarrow> runner_http \<Rightarrow> rat \<Rightarrow> rat \<Rightarrow> seen \<Rightarrow> runner_answer tx \<times> seen" where
  "runner_post W E cfg q now now' s =
     (if without_slash (rh_path q) \<noteq> ''/execute'' then (tx_return (refuse 404 ''not found''), s)
      else case check_bearer (rh_authorization q) (rc_token cfg) of
        Inl e \<Rightarrow> (tx_raise (Py_error e []), s)
      | Inr ok \<Rightarrow>
          if \<not> ok then (tx_return (refuse 401 ''unauthorized''), s)
          else
            let declared = (case py_int (if truthy (rh_length q) then or_empty (rh_length q) else ''0'') of
                              None \<Rightarrow> 0 | Some n \<Rightarrow> n)
            in if declared \<le> 0 \<or> int MAX_BODY_BYTES < declared
               then (tx_return (refuse 400 ''malformed dispatch''), s)
               else (case de_loads E (take (nat declared) (rh_body q)) of
                   Some (JObj body) \<Rightarrow> handle_execute W E cfg body now now' s
                 | _ \<Rightarrow> (tx_return (refuse 400 ''malformed dispatch''), s)))"

end
