(* ===== verification/RunnerProps.thy ===== *)
theory RunnerProps
  imports RemoteProps RunnerDispatch
begin

text \<open>
  What the runner guarantees: the two sides of the wire agree, a dispatch token is used once, and the
  disk changes only through an authentic dispatch and only inside the run's own directory.
\<close>

section \<open>Admission\<close>

lemma consume_ok:
  assumes "consume_token ttl token digest now s = (Token_ok, s')"
  obtains t g where "token = JStr t" "digest = JStr g" "t \<noteq> []" "length t \<le> 256" "g \<noteq> []"
    "t \<notin> fst ` set (prune_seen now s)" "s' = prune_seen now s @ [(t, g, now + ttl)]"
  using assms that
  by (auto simp: consume_token_def Let_def not_less split: json.splits if_splits)

lemma consume_keeps:
  assumes "consume_token ttl token digest now s = (r, s')" and "x \<in> set s" and "\<not> snd (snd x) \<le> now"
  shows "x \<in> set s'"
  using assms
  by (auto simp: consume_token_def Let_def prune_seen_def split: json.splits if_splits)

text \<open>
  What an admitted dispatch is: signed with the key over everything but the signature, its digest that
  of its own action, decision, workspace and scope, and the shared gate satisfied for this decision.
\<close>

definition authentic_dispatch :: "wire_env \<Rightarrow> runner_config \<Rightarrow> jobj \<Rightarrow> jobj \<Rightarrow> jobj \<Rightarrow> bool" where
  "authentic_dispatch W cfg body act dec \<longleftrightarrow>
     rc_key cfg \<noteq> [] \<and> rc_key cfg \<noteq> rc_token cfg
     \<and> jget body ''action'' = JObj act \<and> jget body ''policy_decision'' = JObj dec
     \<and> jget body ''dispatch_signature'' = JStr (sign_dispatch_payload W body (rc_key cfg))
     \<and> jget body ''action_digest'' = JStr (canonical_action_digest W act dec
          (json_or (jget body ''run_workspace'') (JStr [])) (jget body ''task_scope''))
     \<and> proceed (authorize_dispatch (Some (map_of act)) (Some (map_of dec)) (json_as_obj (jget body ''approval'')))
     \<and> py_eq (jget dec ''action_request_id'') (jget act ''id'')"

lemma signed_Pass:
  assumes "signed_dispatch W cfg body = Pass (act, dec)"
  shows "rc_key cfg \<noteq> [] \<and> rc_key cfg \<noteq> rc_token cfg
    \<and> jget body ''action'' = JObj act \<and> jget body ''policy_decision'' = JObj dec
    \<and> jget body ''dispatch_signature'' = JStr (sign_dispatch_payload W body (rc_key cfg))"
  using assms
  by (auto simp: signed_dispatch_def sign_dispatch_payload_def compare_digest_Inr
      split: json.splits sum.splits if_splits)

lemma gate_refusal_None: "gate_refusal c = None \<longleftrightarrow> c = VC_OK"
  by (cases c) simp_all

lemma gate_ok_proceeds: "dv_code (authorize_dispatch x y z) = VC_OK \<longleftrightarrow> proceed (authorize_dispatch x y z)"
  by (auto simp: authorize_dispatch_def proceed_def Let_def)

lemma bound_Pass:
  assumes "bound_dispatch W body act dec = Pass x" and "jget body ''action_digest'' = JStr g" and "g \<noteq> []"
  shows "x = act
    \<and> g = canonical_action_digest W act dec (json_or (jget body ''run_workspace'') (JStr [])) (jget body ''task_scope'')
    \<and> proceed (authorize_dispatch (Some (map_of act)) (Some (map_of dec)) (json_as_obj (jget body ''approval'')))
    \<and> py_eq (jget dec ''action_request_id'') (jget act ''id'')"
  using assms
  by (auto simp: bound_dispatch_def Let_def compare_digest_Inr json_or_def json_text_def gate_refusal_None
      gate_ok_proceeds binding_refusal_def
      split: option.splits sum.splits if_splits)

lemma admitted:
  assumes "admit_dispatch W cfg body now now' s = (Pass x, s')"
  obtains dec t g where "authentic_dispatch W cfg body x dec" "dispatch_fresh (jget body ''issued_at'') now"
    "jget body ''dispatch_token'' = JStr t" "t \<notin> fst ` set (prune_seen now' s)"
    "s' = prune_seen now' s @ [(t, g, now' + DISPATCH_TTL)]"
proof -
  from assms obtain act dec where signed: "signed_dispatch W cfg body = Pass (act, dec)"
    and fresh: "dispatch_fresh (jget body ''issued_at'') now"
    and ok: "consume_token DISPATCH_TTL (jget body ''dispatch_token'') (jget body ''action_digest'') now' s
      = (Token_ok, s')"
    and bound: "bound_dispatch W body act dec = Pass x"
    by (auto simp: admit_dispatch_def split: checked.splits prod.splits if_splits token_answer.splits)
  from consume_ok[OF ok] obtain t g where tg: "jget body ''dispatch_token'' = JStr t"
    "jget body ''action_digest'' = JStr g" "g \<noteq> []" "t \<notin> fst ` set (prune_seen now' s)"
    "s' = prune_seen now' s @ [(t, g, now' + DISPATCH_TTL)]" by metis
  from bound_Pass[OF bound tg(2,3)] signed_Pass[OF signed] tg(2)
  have "authentic_dispatch W cfg body x dec" by (auto simp: authentic_dispatch_def)
  from that[OF this fresh tg(1,4,5)] show thesis .
qed

lemma admit_keeps:
  assumes "admit_dispatch W cfg body now now' s = (r, s')" and "x \<in> set s" and "\<not> snd (snd x) \<le> now'"
  shows "x \<in> set s'"
  using assms consume_keeps[OF _ assms(2,3)]
  by (auto simp: admit_dispatch_def split: checked.splits prod.splits if_splits token_answer.splits)

section \<open>Tokens over a sequence of requests\<close>

text \<open>The requests in the order the server takes them, each with its two readings of the clock.\<close>

fun admissions :: "wire_env \<Rightarrow> runner_config \<Rightarrow> (jobj \<times> rat \<times> rat) list \<Rightarrow> seen \<Rightarrow> jobj checked list" where
  "admissions W cfg [] s = []"
| "admissions W cfg ((body, now, now') # qs) s =
     (case admit_dispatch W cfg body now now' s of (r, s') \<Rightarrow> r # admissions W cfg qs s')"

definition clock_readings :: "(jobj \<times> rat \<times> rat) list \<Rightarrow> rat list" where
  "clock_readings qs = concat (map (\<lambda>(body, now, now'). [now, now']) qs)"

lemma admissions_length [simp]: "length (admissions W cfg qs s) = length qs"
  by (induction W cfg qs s rule: admissions.induct) (auto split: prod.splits)

lemma clock_readings_simps [simp]:
  "clock_readings [] = []"
  "clock_readings ((body, now, now') # qs) = now # now' # clock_readings qs"
  by (simp_all add: clock_readings_def)

lemma clock_reading_in: "(body, now, now') \<in> set qs \<Longrightarrow> now' \<in> set (clock_readings qs)"
  by (force simp: clock_readings_def)

text \<open>A token that is stored until \<open>expiry\<close> is not admitted before.\<close>

lemma stored_token_refused:
  assumes "(t, g, expiry) \<in> set s" and "sorted (clock_readings qs)" and "j < length qs"
    and "qs ! j = (body, now, now')" and "jget body ''dispatch_token'' = JStr t"
    and "admissions W cfg qs s ! j = Pass x"
  shows "expiry \<le> now'"
  using assms
proof (induction qs arbitrary: s j)
  case (Cons q qs)
  obtain b n n' where q: "q = (b, n, n')" by (cases q)
  obtain r s' where ad: "admit_dispatch W cfg b n n' s = (r, s')" by fastforce
  show ?case
  proof (cases j)
    case 0
    with Cons.prems q ad have r: "r = Pass x" "b = body" "n' = now'" by auto
    with ad have "admit_dispatch W cfg body n now' s = (Pass x, s')" by simp
    then obtain t' where "jget body ''dispatch_token'' = JStr t'" "t' \<notin> fst ` set (prune_seen now' s)"
      by (rule admitted)
    with Cons.prems(1,5) show ?thesis by (force simp: prune_seen_def)
  next
    case (Suc k)
    show ?thesis
    proof (rule ccontr)
      assume late: "\<not> expiry \<le> now'"
      have "(body, now, now') \<in> set qs" using Cons.prems(3,4) Suc by (metis nth_Cons_Suc nth_mem length_Cons Suc_less_eq)
      then have "n' \<le> now'" using Cons.prems(2) q clock_reading_in by fastforce
      with late have "(t, g, expiry) \<in> set s'" using admit_keeps[OF ad Cons.prems(1)] by auto
      from Cons.IH[OF this, of k] Cons.prems Suc q ad late show False by auto
    qed
  qed
qed simp

lemma token_single_use:
  assumes "sorted (clock_readings qs)" and "i < j" and "j < length qs"
    and "qs ! i = (b1, t1, t1')" and "qs ! j = (b2, t2, t2')"
    and "jget b1 ''dispatch_token'' = jget b2 ''dispatch_token''"
    and "admissions W cfg qs s ! i = Pass x" and "admissions W cfg qs s ! j = Pass y"
  shows "t1' + DISPATCH_TTL \<le> t2'"
  using assms
proof (induction qs arbitrary: s i j)
  case (Cons q qs)
  obtain b n n' where q: "q = (b, n, n')" by (cases q)
  obtain r s' where ad: "admit_dispatch W cfg b n n' s = (r, s')" by fastforce
  from Cons.prems(2) obtain k where k: "j = Suc k" by (cases j) auto
  show ?case
  proof (cases i)
    case 0
    with Cons.prems q ad have "admit_dispatch W cfg b1 t1 t1' s = (Pass x, s')" by auto
    then obtain t g where t: "jget b1 ''dispatch_token'' = JStr t" "(t, g, t1' + DISPATCH_TTL) \<in> set s'"
      by (rule admitted) auto
    show ?thesis
      using stored_token_refused[OF t(2), of qs k b2 t2 t2' W cfg y] Cons.prems t q ad k by auto
  next
    case (Suc i')
    with Cons.IH[of i' k s'] Cons.prems q ad k show ?thesis by auto
  qed
qed simp

lemma admitted_at:
  assumes "i < length qs" and "qs ! i = (body, now, now')" and "admissions W cfg qs s ! i = Pass x"
  shows "\<exists>s1 s2. admit_dispatch W cfg body now now' s1 = (Pass x, s2)"
  using assms
proof (induction qs arbitrary: s i)
  case (Cons q qs)
  obtain b n n' where q: "q = (b, n, n')" by (cases q)
  obtain r s' where ad: "admit_dispatch W cfg b n n' s = (r, s')" by fastforce
  show ?case
  proof (cases i)
    case 0
    with Cons.prems q ad show ?thesis by auto
  next
    case (Suc k)
    with Cons.IH[of k s'] Cons.prems q ad show ?thesis by auto
  qed
qed simp

section \<open>The two sides agree\<close>

lemma json_strings_map [simp]: "json_strings (map JStr xs) = Some xs"
  by (simp add: json_strings_def list_all_iff comp_def)

lemma json_or_simps [simp]:
  "json_or (JObj kvs) (JObj []) = JObj kvs" "json_or (JStr t) (JStr []) = JStr t" "json_or (JArr vs) (JArr []) = JArr vs"
  by (simp_all add: json_or_def)

lemma dispatch_scope_shape: "task_scope_shape_error (dispatch_scope scope) = None"
  by (cases scope) (auto simp: dispatch_scope_def task_scope_shape_error_def jget_def string_array_def
      list_all_iff json_strings_def comp_def)

lemma dispatch_scope_lists:
  "JObj [(''allowed_paths'', scope_list (dispatch_scope scope) ''allowed_paths''),
         (''blocked_paths'', scope_list (dispatch_scope scope) ''blocked_paths''),
         (''allowed_commands'', scope_list (dispatch_scope scope) ''allowed_commands'')] = dispatch_scope scope"
  by (cases scope) (simp_all add: dispatch_scope_def scope_list_def jget_def)

definition wire_action :: "action \<Rightarrow> jobj \<Rightarrow> jobj" where
  "wire_action a args =
     [(''id'', JStr (act_id a)), (''run_id'', JStr (act_run_id a)), (''operation'', JStr (operation a)),
      (''resource'', JStr (resource a)), (''arguments'', JObj args)]"

definition wire_decision :: "decision \<Rightarrow> jobj" where
  "wire_decision d =
     [(''id'', JStr (dec_id d)), (''action_request_id'', JStr (dec_action_id d)),
      (''outcome'', JStr (policy_outcome_value (outcome d)))]"

lemma same_digest:
  "canonical_action_digest W (wire_action a args) (wire_decision d) (JStr key) (dispatch_scope scope)
     = compute_action_digest W a d (Some args) (Some key) scope"
  unfolding canonical_action_digest_def compute_action_digest_def dispatch_scope_lists
  by (simp add: wire_action_def wire_decision_def jget_def)

lemma same_verdict:
  "authorize_dispatch (Some (map_of (wire_action a args))) (Some (map_of (wire_decision d)))
      (json_as_obj (wire_approval app))
     = authorize_dispatch (action_obj a) (decision_obj (Some d)) (approval_obj app)"
  by (cases app)
    (simp_all add: authorize_dispatch_def Let_def wire_action_def wire_decision_def wire_approval_def json_as_obj_def
      action_obj_def decision_obj_def approval_obj_def field_of_def)

text \<open>The approval the gateway may send: none with an ALLOW, the one of this very action with a HOLD.\<close>

definition approval_fits :: "action \<Rightarrow> decision \<Rightarrow> approval option \<Rightarrow> bool" where
  "approval_fits a d app \<longleftrightarrow>
     (case app of
        None \<Rightarrow> outcome d \<noteq> PO_HOLD
      | Some p \<Rightarrow> outcome d = PO_HOLD \<and> app_id p \<noteq> [] \<and> app_run_id p = act_run_id a
                  \<and> app_decision_id p = dec_id d)"

lemma scalar_eq_JStr [simp]: "scalar_eq (JStr x) (JStr y) \<longleftrightarrow> x = y"
  by (simp add: scalar_eq_def)

lemma fitting_approval:
  assumes "approval_fits a d app" and "dec_action_id d = act_id a"
  shows "binding_refusal (wire_action a args) (wire_decision d) (wire_approval app)
    (Some (policy_outcome_value (outcome d))) = None"
  using assms
  by (cases "outcome d"; cases app)
    (auto simp: approval_fits_def binding_refusal_def wire_action_def wire_decision_def wire_approval_def jget_def)

lemma proceed_outcome:
  assumes "proceed (authorize_dispatch x (decision_obj (Some d)) z)"
  shows "dv_outcome (authorize_dispatch x (decision_obj (Some d)) z) = Some (policy_outcome_value (outcome d))"
  using assms
  by (auto simp: authorize_dispatch_def Let_def proceed_def decision_obj_def field_of_def text_of_def)

lemma prepared_payload:
  assumes "prepare_dispatch W parse issued token a d app (Some key) scope = Inr (payload, digest)"
  shows "\<exists>args. normalize_dispatch_arguments parse a = Inr args
    \<and> digest = compute_action_digest W a d (Some args) (Some key) scope
    \<and> payload = [(''issued_at'', JFloat (fst issued) (snd issued)), (''dispatch_token'', JStr token),
        (''action_digest'', JStr digest), (''run_workspace'', JStr key), (''task_scope'', dispatch_scope scope),
        (''action'', JObj (wire_action a args)), (''policy_decision'', JObj (wire_decision d)),
        (''approval'', wire_approval app)]"
  using assms
  by (auto simp: prepare_dispatch_def Let_def opt_str_def wire_action_def wire_decision_def split: sum.splits)

lemma signed_payload_unsigned:
  assumes "\<forall>kv \<in> set payload. fst kv \<noteq> ''dispatch_signature''"
  shows "unsigned_part (signed_payload W payload k) = payload"
    and "signed_payload W payload k = payload @ [(''dispatch_signature'', JStr (sign_dispatch_payload W payload k))]"
proof -
  have new: "''dispatch_signature'' \<notin> fst ` set payload" using assms by auto
  then show eq: "signed_payload W payload k
      = payload @ [(''dispatch_signature'', JStr (sign_dispatch_payload W payload k))]"
    by (simp add: signed_payload_def dict_set_def)
  have "filter (\<lambda>kv. fst kv \<noteq> ''dispatch_signature'') payload = payload"
    using assms by (simp add: filter_id_conv)
  then show "unsigned_part (signed_payload W payload k) = payload"
    unfolding eq by (simp add: unsigned_part_def)
qed

lemma prepared_admitted:
  assumes prep: "prepare_dispatch W parse issued token a d app (Some key) scope = Inr (payload, digest)"
    and keys: "rc_key cfg \<noteq> []" "rc_key cfg \<noteq> rc_token cfg"
    and sha: "\<And>t. py_ascii (wi_sha W t) \<and> wi_sha W t \<noteq> []" and mac: "\<And>k t. py_ascii (wi_hmac W k t)"
    and fresh: "dispatch_fresh (JFloat (fst issued) (snd issued)) now"
    and token: "token \<noteq> []" "length token \<le> 256" "token \<notin> fst ` set (prune_seen now' s)"
    and gate: "proceed (authorize_dispatch (action_obj a) (decision_obj (Some d)) (approval_obj app))"
    and own: "dec_action_id d = act_id a" "approval_fits a d app"
  shows "\<exists>args. normalize_dispatch_arguments parse a = Inr args
    \<and> fst (admit_dispatch W cfg (signed_payload W payload (rc_key cfg)) now now' s) = Pass (wire_action a args)"
proof -
  from prepared_payload[OF prep] obtain args where args: "normalize_dispatch_arguments parse a = Inr args"
    and digest: "digest = compute_action_digest W a d (Some args) (Some key) scope"
    and payload: "payload = [(''issued_at'', JFloat (fst issued) (snd issued)), (''dispatch_token'', JStr token),
        (''action_digest'', JStr digest), (''run_workspace'', JStr key), (''task_scope'', dispatch_scope scope),
        (''action'', JObj (wire_action a args)), (''policy_decision'', JObj (wire_decision d)),
        (''approval'', wire_approval app)]" by blast
  let ?body = "signed_payload W payload (rc_key cfg)"
  have "\<forall>kv \<in> set payload. fst kv \<noteq> ''dispatch_signature''" by (simp add: payload)
  note un = signed_payload_unsigned[OF this, where W = W and k = "rc_key cfg"]
  have get: "jget ?body ''action'' = JObj (wire_action a args)" "jget ?body ''policy_decision'' = JObj (wire_decision d)"
    "jget ?body ''issued_at'' = JFloat (fst issued) (snd issued)" "jget ?body ''dispatch_token'' = JStr token"
    "jget ?body ''action_digest'' = JStr digest" "jget ?body ''run_workspace'' = JStr key"
    "jget ?body ''task_scope'' = dispatch_scope scope" "jget ?body ''approval'' = wire_approval app"
    "jget ?body ''dispatch_signature'' = JStr (sign_dispatch_payload W payload (rc_key cfg))"
    unfolding un(2) by (simp_all add: payload jget_def)
  have self: "unsigned_part payload = payload" by (simp add: unsigned_part_def payload)
  have signed: "signed_dispatch W cfg ?body = Pass (wire_action a args, wire_decision d)"
    unfolding signed_dispatch_def get un(1) sign_dispatch_payload_def self
    using keys mac by (simp add: compare_digest_def)
  have sha': "py_ascii digest" "digest \<noteq> []" using sha by (auto simp: digest compute_action_digest_def)
  have dv: "dv_code (authorize_dispatch (action_obj a) (decision_obj (Some d)) (approval_obj app)) = VC_OK"
    using gate by (simp add: gate_ok_proceeds)
  have bound: "bound_dispatch W ?body (wire_action a args) (wire_decision d) = Pass (wire_action a args)"
    unfolding bound_dispatch_def get json_or_simps same_verdict same_digest
    using sha' dv proceed_outcome[OF gate] fitting_approval[OF own(2,1)]
    by (simp add: dispatch_scope_shape json_text_def compare_digest_def digest[symmetric] Let_def)
  have "admit_dispatch W cfg ?body now now' s
      = (Pass (wire_action a args), prune_seen now' s @ [(token, digest, now' + DISPATCH_TTL)])"
    unfolding admit_dispatch_def signed get
    using fresh token sha' by (simp add: bound consume_token_def Let_def)
  with args show ?thesis by simp
qed

section \<open>The effects on the disk\<close>

lemma reads_only_target: "reads_only (resolve_workspace_target ws p)"
  unfolding resolve_workspace_target_def
  by (intro reads_only_bind reads_only_basic) (auto intro: reads_only_basic split: option.split)

lemma reads_only_resource: "reads_only (validate_resource_inside_workspace res ws)"
  unfolding validate_resource_inside_workspace_def
  by (intro reads_only_if reads_only_catch reads_only_bind reads_only_basic reads_only_target)

lemma reads_only_workspace: "reads_only (runner_workspace mounted key)"
  unfolding runner_workspace_def
  by (cases key)
    (auto intro!: reads_only_bind reads_only_catch reads_only_basic split: option.split)

context receipt_frame
begin

lemma runner_reply_ends: "ends R (\<lambda>_. True) d (runner_reply E op root ci blocked payload t)"
  unfolding runner_reply_def Let_def
  by (auto intro!: framed_sync ends_return split: json.split)

lemma runner_outcome_ends: "ends R (\<lambda>_. True) d (runner_outcome E op root ci blocked ended)"
  unfolding runner_outcome_def
  by (auto intro!: ends_return ends_raise runner_reply_ends
      split: prod.split docker_outcome.split proc_result.split option.split json.split)

lemma runner_in_copy_ends:
  "ends R (\<lambda>_. True) d (runner_in_copy E cfg op res scope request root ci blocked name label copy)"
  unfolding runner_in_copy_def
  by (auto intro!: ends_bind reads_only_resource reads_only_basic ends_return runner_outcome_ends
      split: prod.split sum.split option.split)

lemma runner_stage_ends:
  "ends R (\<lambda>_. True) d (runner_stage E cfg op res scope request root ci blocked name label)"
  unfolding runner_stage_def
  by (intro ends_bind reads_only_catch reads_only_staging reads_only_basic)
    (auto intro!: ends_return ends_raise framed_mount framed_unmount runner_in_copy_ends split: sum.split)

end

definition dispatch_blocked :: "jobj \<Rightarrow> pystr list" where
  "dispatch_blocked body =
     (case jget body ''task_scope'' of JObj sc \<Rightarrow> scope_strings sc ''blocked_paths'' | _ \<Rightarrow> [])"

lemma blocked_items_Inr: "blocked_items vs = Inr ps \<Longrightarrow> \<exists>bl. vs = map JStr bl"
proof (induction vs arbitrary: ps rule: blocked_items.induct)
  case (2 s vs)
  then obtain bl where "vs = map JStr bl" by (auto simp: Let_def split: sum.splits)
  then have "JStr s # vs = map JStr (s # bl)" by simp
  then show ?case by (rule exI)
qed simp_all

lemma dispatch_blocked_Inr:
  "dispatch_blocked_paths body = Inr raw \<Longrightarrow> raw = map JStr (dispatch_blocked body)"
  by (auto simp: dispatch_blocked_paths_def dispatch_blocked_def scope_strings_def or_nil_def
      normalize_blocked_paths_def split: json.splits sum.splits dest!: blocked_items_Inr)

lemma run_in_workspace_ends:
  "ends (host_kept E ws (dispatch_blocked body)) (\<lambda>_. True) d (run_in_workspace E cfg body act op res ws)"
  unfolding run_in_workspace_def Let_def
  by (auto intro!: host_frame.ends_bind reads_only_resource reads_only_basic host_frame.ends_return host_frame.ends_raise
      host_frame.runner_stage_ends dest!: dispatch_blocked_Inr
      split: sum.split option.split checked.split)

lemma workspace_found:
  assumes "runner_workspace mounted key w = (Inr (Some ws), w1)"
  shows "\<exists>k base rel. key = JStr k \<and> safe_segment k \<and> os_resolve (dk_view (w_disk w)) mounted = Some base
    \<and> os_resolve (dk_view (w_disk w)) (base @ [k]) = Some ws \<and> ws = base @ rel \<and> rel \<noteq> []
    \<and> is_dir_node (dk_node (w_disk w) ws)"
  using assms
  by (auto simp: runner_workspace_def tx_bind_def tx_catch_def tx_return_def resolve_path_run read_disk_def
      disk_op_run relative_to_Some split: json.splits option.splits if_splits sum.splits prod.splits)

lemma run_dispatch_cases:
  assumes "run_dispatch E cfg body act w = (r, w')"
  shows "(db w' = db w \<and> w_disk w' = w_disk w)
    \<or> (\<exists>op res ws w1. runner_workspace (rc_workspace cfg) (jget body ''run_workspace'') w = (Inr (Some ws), w1)
         \<and> db w1 = db w \<and> w_disk w1 = w_disk w \<and> run_in_workspace E cfg body act op res ws w1 = (r, w'))"
proof (cases "\<exists>op res. jget act ''operation'' = JStr op \<and> op \<in> set ALLOWED_OPERATIONS \<and> jget act ''resource'' = JStr res")
  case True
  then obtain op res where "tx_bind (runner_workspace (rc_workspace cfg) (jget body ''run_workspace'')) (\<lambda>found.
      case found of None \<Rightarrow> tx_return (refuse 500 ''run workspace unavailable'')
      | Some ws \<Rightarrow> run_in_workspace E cfg body act op res ws) w = (r, w')"
    using assms by (auto simp: run_dispatch_def)
  from reads_only_bind_cases[OF this reads_only_workspace] show ?thesis
  proof (elim disjE exE conjE)
    fix found w1
    assume res: "runner_workspace (rc_workspace cfg) (jget body ''run_workspace'') w = (Inr found, w1)"
      and same: "db w1 = db w" "w_disk w1 = w_disk w"
      and run: "(case found of None \<Rightarrow> tx_return (refuse 500 ''run workspace unavailable'')
        | Some ws \<Rightarrow> run_in_workspace E cfg body act op res ws) w1 = (r, w')"
    show ?thesis
    proof (cases found)
      case None
      with run same show ?thesis by (auto simp: tx_return_def)
    next
      case (Some ws)
      with res run same show ?thesis by auto
    qed
  qed auto
next
  case False
  with assms show ?thesis by (auto simp: run_dispatch_def tx_return_def split: json.splits if_splits)
qed

lemma runner_effects:
  assumes run: "handle_execute W E cfg body now now' s = (m, s')" "m w = (r, w')" and E: "docker_disk E"
    and base: "os_resolve (dk_view (w_disk w)) (rc_workspace cfg) = Some base"
      "jget body ''run_workspace'' = JStr k" "os_resolve (dk_view (w_disk w)) (base @ [k]) = Some ws"
    and ok: "host_ok (de_host E (w_disk w))" "real_path (de_host E (w_disk w)) ws"
  shows "db w' = db w
    \<and> (de_host E (w_disk w') = de_host E (w_disk w)
       \<or> safe_segment k \<and> (\<exists>rel. ws = base @ rel \<and> rel \<noteq> [])
         \<and> (\<exists>act dec. authentic_dispatch W cfg body act dec)
         \<and> dispatch_fresh (jget body ''issued_at'') now
         \<and> inside ws (below_blocked (dispatch_blocked body)) (de_host E (w_disk w)) (de_host E (w_disk w')))"
proof (cases "\<exists>act. admit_dispatch W cfg body now now' s = (Pass act, s')")
  case True
  then obtain act where act: "admit_dispatch W cfg body now now' s = (Pass act, s')" by blast
  with run have "run_dispatch E cfg body act w = (r, w')" by (simp add: handle_execute_def)
  from run_dispatch_cases[OF this] show ?thesis
  proof (elim disjE exE conjE)
    fix op res ws' w1
    assume found: "runner_workspace (rc_workspace cfg) (jget body ''run_workspace'') w = (Inr (Some ws'), w1)"
      and same: "db w1 = db w" "w_disk w1 = w_disk w" and inner: "run_in_workspace E cfg body act op res ws' w1 = (r, w')"
    from workspace_found[OF found] base have ws: "ws' = ws" "safe_segment k" "\<exists>rel. ws = base @ rel \<and> rel \<noteq> []" by auto
    note fin = endsD[OF run_in_workspace_ends same(2) inner[unfolded ws(1)]]
    from act obtain dec where "authentic_dispatch W cfg body act dec" "dispatch_fresh (jget body ''issued_at'') now"
      by (rule admitted)
    with fin same E ok ws(2,3) show ?thesis unfolding host_kept_def by (metis (no_types, lifting))
  qed auto
next
  case False
  with run have "db w' = db w \<and> w_disk w' = w_disk w"
    by (auto simp: handle_execute_def tx_return_def split: prod.splits checked.splits)
  then show ?thesis by simp
qed

section \<open>Properties\<close>

text \<open>
  C33: what the gateway prepares, the runner admits. For an action the gate lets through, with the
  approval its decision calls for, the payload of the gateway, signed with the shared key, passes the
  runner's signature, age, token, digest, gate and binding checks, and what the runner goes on with is
  the action with its normalised arguments. The digest and the MAC are any functions to ASCII text.
\<close>

theorem prepared_dispatch_is_admitted:
  assumes "prepare_dispatch W parse issued token a d app (Some key) scope = Inr (payload, digest)"
    and "rc_key cfg \<noteq> []" and "rc_key cfg \<noteq> rc_token cfg"
    and "\<And>t. py_ascii (wi_sha W t) \<and> wi_sha W t \<noteq> []" and "\<And>k t. py_ascii (wi_hmac W k t)"
    and "dispatch_fresh (JFloat (fst issued) (snd issued)) now"
    and "token \<noteq> []" and "length token \<le> 256" and "token \<notin> fst ` set (prune_seen now' s)"
    and "proceed (authorize_dispatch (action_obj a) (decision_obj (Some d)) (approval_obj app))"
    and "dec_action_id d = act_id a" and "approval_fits a d app"
  shows "\<exists>args. normalize_dispatch_arguments parse a = Inr args
    \<and> fst (admit_dispatch W cfg (signed_payload W payload (rc_key cfg)) now now' s)
        = Pass [(''id'', JStr (act_id a)), (''run_id'', JStr (act_run_id a)),
                (''operation'', JStr (operation a)), (''resource'', JStr (resource a)),
                (''arguments'', JObj args)]"
  using prepared_admitted[OF assms] by (simp add: wire_action_def)

definition demo_wire :: wire_env where
  "demo_wire = \<lparr>wi_sha = (\<lambda>t. ''d1''), wi_hmac = (\<lambda>k t. ''f2''), wi_float = (\<lambda>m e. ''0.0'')\<rparr>"

definition demo_runner :: runner_config where
  "demo_runner = \<lparr>rc_token = ''bearer'', rc_key = ''key'', rc_host = ''127.0.0.1'', rc_port = 8091,
     rc_workspace = [], rc_image = ''image''\<rparr>"

theorem prepared_dispatch_is_admitted_witness:
  "\<exists>payload digest args. prepare_dispatch demo_wire (\<lambda>s. None) (100, 0) ''t'' docker_read_action
      (demo_decision PO_ALLOW docker_read_action) None (Some ''run'') (Some demo_scope) = Inr (payload, digest)
    \<and> fst (admit_dispatch demo_wire demo_runner (signed_payload demo_wire payload ''key'') 130 130 [])
        = Pass [(''id'', JStr (act_id docker_read_action)), (''run_id'', JStr (act_run_id docker_read_action)),
            (''operation'', JStr ''read_text''), (''resource'', JStr ''outputs/a.txt''), (''arguments'', JObj args)]"
proof -
  let ?a = docker_read_action
  let ?prep = "prepare_dispatch demo_wire (\<lambda>s. None) (100, 0) ''t'' ?a (demo_decision PO_ALLOW ?a) None
      (Some ''run'') (Some demo_scope)"
  have op: "operation ?a = ''read_text''" "resource ?a = ''outputs/a.txt''"
    by (simp_all add: docker_read_action_def demo_action_def)
  obtain payload digest where prep: "?prep = Inr (payload, digest)"
    by (auto simp: prepare_dispatch_def normalize_dispatch_arguments_def op Let_def)
  have wire: "py_ascii (wi_sha demo_wire t) \<and> wi_sha demo_wire t \<noteq> []" "py_ascii (wi_hmac demo_wire k t)" for k t
    by (simp_all add: demo_wire_def py_ascii_def)
  have fresh: "dispatch_fresh (JFloat (fst (100, 0)) (snd (100, 0))) 130"
    by (simp add: dispatch_fresh_def issue_time_def DISPATCH_TTL_def)
  have gate: "proceed (authorize_dispatch (action_obj ?a) (decision_obj (Some (demo_decision PO_ALLOW ?a))) (approval_obj None))"
    by code_simp
  have key: "rc_key demo_runner = ''key''" "rc_token demo_runner = ''bearer''" by (simp_all add: demo_runner_def)
  have own: "dec_action_id (demo_decision PO_ALLOW ?a) = act_id ?a" "approval_fits ?a (demo_decision PO_ALLOW ?a) None"
    by (simp_all add: demo_decision_def approval_fits_def)
  from prepared_dispatch_is_admitted[where cfg = demo_runner and s = "[]" and now' = 130,
      OF prep _ _ wire fresh _ _ _ gate own] prep key op
  show ?thesis by (auto simp: prune_seen_def)
qed

text \<open>
  C32: a dispatch token is used once. Over any sequence of requests, with a clock that does not go back,
  two requests are admitted with the same token only if the second came after the first one's token
  had expired; and for one and the same request sent twice, its age was within the limit then, so
  this needs the clock to pass the limit between the two readings of that request.
\<close>

theorem dispatch_token_is_single_use:
  assumes "sorted (clock_readings qs)" and "i < j" and "j < length qs"
    and "qs ! i = (b1, t1, t1')" and "qs ! j = (b2, t2, t2')"
    and "jget b1 ''dispatch_token'' = jget b2 ''dispatch_token''"
    and "admissions W cfg qs s ! i = Pass x" and "admissions W cfg qs s ! j = Pass y"
  shows "t1' + DISPATCH_TTL \<le> t2' \<and> (b1 = b2 \<longrightarrow> t2 \<le> t1 + DISPATCH_TTL)"
proof
  show "t1' + DISPATCH_TTL \<le> t2'" by (rule token_single_use[OF assms])
  show "b1 = b2 \<longrightarrow> t2 \<le> t1 + DISPATCH_TTL"
  proof
    assume same: "b1 = b2"
    have i: "i < length qs" using assms(2,3) by simp
    obtain s1 s2 s3 s4 where "admit_dispatch W cfg b1 t1 t1' s1 = (Pass x, s2)"
      "admit_dispatch W cfg b2 t2 t2' s3 = (Pass y, s4)"
      using admitted_at[OF i assms(4,7)] admitted_at[OF assms(3,5,8)] by blast
    then have "dispatch_fresh (jget b1 ''issued_at'') t1" "dispatch_fresh (jget b2 ''issued_at'') t2"
      by (auto elim: admitted)
    with same show "t2 \<le> t1 + DISPATCH_TTL" by (auto simp: dispatch_fresh_def split: option.splits)
  qed
qed

definition demo_request :: "int \<Rightarrow> jobj" where
  "demo_request issued =
     [(''issued_at'', JInt issued), (''dispatch_token'', JStr ''t''), (''action_digest'', JStr ''d1''),
      (''run_workspace'', JStr ''ws''),
      (''task_scope'', JObj [(''blocked_paths'', JArr [JStr ''invoices/private''])]),
      (''action'', JObj [(''id'', JStr ''a''), (''run_id'', JStr ''r''), (''operation'', JStr ''write_text''),
         (''resource'', JStr ''outputs/a.txt''), (''arguments'', JObj [])]),
      (''policy_decision'', JObj [(''id'', JStr ''p''), (''action_request_id'', JStr ''a''), (''outcome'', JStr ''ALLOW'')]),
      (''approval'', JNull), (''dispatch_signature'', JStr ''f2'')]"

definition demo_dispatches :: "(jobj \<times> rat \<times> rat) list" where
  "demo_dispatches = [(demo_request 100, 101, 101), (demo_request 150, 170, 170)]"

lemmas admission_defs = demo_request_def demo_wire_def demo_runner_def admit_dispatch_def signed_dispatch_def
  jget_def compare_digest_def py_ascii_def dispatch_fresh_def issue_time_def DISPATCH_TTL_def consume_token_def
  prune_seen_def bound_dispatch_def task_scope_shape_error_def string_array_def json_strings_def json_or_def
  json_text_def canonical_action_digest_def authorize_dispatch_def field_of_def text_of_def json_as_obj_def
  truthy_def binding_refusal_def Let_def

lemma demo_admissions:
  "\<exists>x y. admissions demo_wire demo_runner demo_dispatches [] = [Pass x, Pass y]"
  by (auto simp: demo_dispatches_def admission_defs)

text \<open>The same request sent at its issue and again at its deadline is admitted twice.\<close>

lemma replay_at_deadline:
  "\<exists>x y. admissions demo_wire demo_runner [(demo_request 100, 100, 100), (demo_request 100, 160, 160)] []
     = [Pass x, Pass y]"
  by (auto simp: admission_defs)

theorem dispatch_token_is_single_use_witness:
  "(\<exists>x y. admissions demo_wire demo_runner demo_dispatches [] = [Pass x, Pass y])
   \<and> (101 :: rat) + DISPATCH_TTL \<le> 170"
proof -
  obtain x y where xy: "admissions demo_wire demo_runner demo_dispatches [] = [Pass x, Pass y]"
    using demo_admissions by blast
  have "101 + DISPATCH_TTL \<le> 170 \<and> (demo_request 100 = demo_request 150 \<longrightarrow> 170 \<le> 101 + DISPATCH_TTL)"
    by (rule dispatch_token_is_single_use[of demo_dispatches 0 1, where W = demo_wire and cfg = demo_runner and s = "[]"])
      (simp_all add: xy, simp_all add: demo_dispatches_def demo_request_def jget_def)
  with xy show ?thesis by simp
qed

text \<open>
  C31: the runner writes only inside the run's own directory, for an authentic dispatch. Whatever it
  answers or raises and whatever the container did to its copy, its database is unchanged; and the
  entries are unchanged, or the dispatch was signed, fresh, bound to its digest and let through by the
  gate, its key names a directory strictly below the mounted one, and every entry that changed lies
  strictly below that directory and is neither a blocked path of the signed scope nor below one, for the
  blocked paths whose components have no outer blanks (with one the code does not recognise an ancestor,
  see \<open>blank_ancestor_unprotected\<close>).
\<close>

theorem runner_effects_confined:
  assumes "handle_execute W E cfg body now now' s = (m, s')" and "m w = (r, w')" and "docker_disk E"
    and "os_resolve (dk_view (w_disk w)) (rc_workspace cfg) = Some base"
    and "jget body ''run_workspace'' = JStr k"
    and "os_resolve (dk_view (w_disk w)) (base @ [k]) = Some ws"
    and "host_ok (de_host E (w_disk w))" and "real_path (de_host E (w_disk w)) ws"
  shows "db w' = db w
    \<and> (de_host E (w_disk w') = de_host E (w_disk w)
       \<or> safe_segment k \<and> (\<exists>rel. ws = base @ rel \<and> rel \<noteq> [])
         \<and> (\<exists>act dec. authentic_dispatch W cfg body act dec)
         \<and> dispatch_fresh (jget body ''issued_at'') now
         \<and> (\<forall>q. de_host E (w_disk w') q \<noteq> de_host E (w_disk w) q \<longrightarrow>
              (\<exists>rel. q = ws @ rel \<and> rel \<noteq> [] \<and>
                    (\<forall>b \<in> set (dispatch_blocked body). trimmed (normalize_relative_segments b)
                       \<longrightarrow> \<not> prefix (normalize_relative_segments b) rel))))"
  using runner_effects[OF assms] by (auto simp: inside_def below_blocked_def)

theorem runner_effects_confined_witness:
  "db (snd (fst (handle_execute demo_wire demo_docker demo_runner (demo_request 100) 101 101 []) docker_world)) = demo_store
   \<and> de_host demo_docker (w_disk (snd (fst (handle_execute demo_wire demo_docker demo_runner (demo_request 100)
        101 101 []) docker_world))) [''ws'', ''invoices'', ''private'', ''x''] = None"
proof -
  let ?h = "handle_execute demo_wire demo_docker demo_runner (demo_request 100) 101 101 []"
  let ?q = "[''ws'', ''invoices'', ''private'', ''x'']"
  have h: "?h = (fst ?h, snd ?h)" "fst ?h docker_world = (fst (fst ?h docker_world), snd (fst ?h docker_world))"
    by simp_all
  have paths: "os_resolve (dk_view (w_disk docker_world)) (rc_workspace demo_runner) = Some []"
    "jget (demo_request 100) ''run_workspace'' = JStr ''ws''"
    "os_resolve (dk_view (w_disk docker_world)) ([] @ [''ws'']) = Some [''ws'']"
    by (simp_all add: docker_world_def demo_runner_def demo_request_def jget_def)
  note kept = runner_effects_confined[OF h demo_docker_disk paths docker_world_ok]
  have bl: "dispatch_blocked (demo_request 100) = [''invoices/private'']"
    by (simp add: dispatch_blocked_def demo_request_def jget_def scope_strings_def json_strings_def or_nil_def)
  have "below_blocked [''invoices/private''] [''invoices'', ''private'', ''x'']" by code_simp
  with kept bl have "de_host demo_docker (w_disk (snd (fst ?h docker_world))) ?q
      = de_host demo_docker (w_disk docker_world) ?q"
    unfolding below_blocked_def by force
  moreover have "db docker_world = demo_store" by (simp add: docker_world_def demo_world_def)
  ultimately show ?thesis using kept by (simp add: docker_world_host)
qed

end
