(* ===== verification/RemoteRunner.thy ===== *)
theory RemoteRunner
  imports RunnerProps
begin

text \<open>
  The gateway and the runner together: the remote backend whose dispatch reaches the runner's handler
  over the shared volume. The transport between them hands over the body as it was sent.
\<close>

definition runner_link ::
  "wire_env \<Rightarrow> docker_env \<Rightarrow> runner_config \<Rightarrow> rat \<Rightarrow> rat \<Rightarrow> seen \<Rightarrow> world \<Rightarrow> pystr \<Rightarrow> jobj \<Rightarrow> pystr \<Rightarrow> disk
     \<Rightarrow> remote_answer \<times> disk" where
  "runner_link W R cfg now now' s rw url body bearer d =
     (if check_bearer (Some bearer) (rc_token cfg) \<noteq> Inr True
      then (Answered 401 (Some (JObj (snd (refuse 401 ''unauthorized'')))), d)
      else case fst (handle_execute W R cfg body now now' s) (rw\<lparr>w_disk := d\<rparr>) of
        (Inl e, w1) \<Rightarrow> (Remote_raised, w_disk w1)
      | (Inr (status, reply), w1) \<Rightarrow> (Answered status (Some (JObj reply)), w_disk w1))"

lemma link_runs:
  assumes "runner_link W R cfg now now' s rw url body bearer d = (answer, d')" and "d' \<noteq> d"
  obtains r w1 where "fst (handle_execute W R cfg body now now' s) (rw\<lparr>w_disk := d\<rparr>) = (r, w1)" "d' = w_disk w1"
proof -
  obtain r w1 where run: "fst (handle_execute W R cfg body now now' s) (rw\<lparr>w_disk := d\<rparr>) = (r, w1)" by fastforce
  with assms that show thesis
    by (auto simp: runner_link_def split: if_splits sum.splits)
qed

lemma prepared_scope:
  assumes "prepare_dispatch W parse issued token a d app (Some key) (Some sc) = Inr (payload, digest)"
  shows "dispatch_blocked (signed_payload W payload k) = blocked_paths sc"
    and "jget (signed_payload W payload k) ''run_workspace'' = JStr key"
proof -
  from prepared_payload[OF assms] obtain args where payload: "payload =
      [(''issued_at'', JFloat (fst issued) (snd issued)), (''dispatch_token'', JStr token),
       (''action_digest'', JStr digest), (''run_workspace'', JStr key), (''task_scope'', dispatch_scope (Some sc)),
       (''action'', JObj (wire_action a args)), (''policy_decision'', JObj (wire_decision d)),
       (''approval'', wire_approval app)]" by blast
  have "\<forall>kv \<in> set payload. fst kv \<noteq> ''dispatch_signature''" by (simp add: payload)
  note un = signed_payload_unsigned(2)[OF this, where W = W and k = k]
  show "jget (signed_payload W payload k) ''run_workspace'' = JStr key"
    unfolding un by (simp add: payload jget_def)
  show "dispatch_blocked (signed_payload W payload k) = blocked_paths sc"
    unfolding un by (simp add: dispatch_blocked_def payload jget_def dispatch_scope_def scope_strings_def or_nil_def)
qed

lemma linked_effects:
  assumes link: "re_post E = runner_link W R cfg now now' s rw"
    and run: "execute_remote E a ws0 (Some d) app True (Some sc) run_workspace w = (r, w')" and R: "docker_disk R"
    and paths: "os_resolve (dk_view (w_disk w)) (rc_workspace cfg) = Some base"
      "os_resolve (dk_view (w_disk w)) (base @ [if truthy run_workspace then or_empty run_workspace else act_run_id a])
        = Some ws"
    and ok: "host_ok (de_host R (w_disk w))" "real_path (de_host R (w_disk w)) ws"
  shows "db w' = db w
    \<and> (de_host R (w_disk w') = de_host R (w_disk w)
       \<or> dispatch_authorised (db w) a d app \<and> scope_checked E a ws0 sc (w_disk w)
         \<and> inside ws (below_blocked (blocked_paths sc)) (de_host R (w_disk w)) (de_host R (w_disk w')))"
proof -
  let ?key = "if truthy run_workspace then or_empty run_workspace else act_run_id a"
  have db: "db w' = db w" using keepsD[OF execute_remote_keeps run] by simp
  show ?thesis
  proof (cases "w_disk w' = w_disk w")
    case True
    with db show ?thesis by simp
  next
    case moved: False
    with execute_remote_cases[OF run] have auth: "dispatch_authorised (db w) a d app"
      "scope_checked E a ws0 sc (w_disk w)" "posted E a d app (Some sc) ?key w r w'"
      by (auto simp: unsent_def)
    obtain issued token payload digest answer where
      prep: "prepare_dispatch (re_wire E) (re_parse E) issued token a d app (Some ?key) (Some sc) = Inr (payload, digest)"
      and post: "re_post E (or_empty (re_url E) @ ''/execute'') (signed_payload (re_wire E) payload (re_key E))
        (''Bearer '' @ or_empty (re_token E)) (w_disk w) = (answer, w_disk w')"
      using auth(3) unfolding posted_def by (elim conjE exE) (rule that)
    let ?body = "signed_payload (re_wire E) payload (re_key E)"
    let ?rw = "rw\<lparr>w_disk := w_disk w\<rparr>"
    from link_runs[OF post[unfolded link] moved] obtain x w1
      where h: "fst (handle_execute W R cfg ?body now now' s) ?rw = (x, w1)" "w_disk w' = w_disk w1" by metis
    have split: "handle_execute W R cfg ?body now now' s
        = (fst (handle_execute W R cfg ?body now now' s), snd (handle_execute W R cfg ?body now now' s))" by simp
    have "w_disk ?rw = w_disk w" by simp
    with runner_effects[OF split h(1) R _ prepared_scope(2)[OF prep]] paths ok prepared_scope(1)[OF prep]
    have "de_host R (w_disk w1) = de_host R (w_disk w)
      \<or> inside ws (below_blocked (blocked_paths sc)) (de_host R (w_disk w)) (de_host R (w_disk w1))" by auto
    with db auth(1,2) h(2) show ?thesis by auto
  qed
qed

text \<open>
  C30: the gateway and the runner together keep to the run's own directory. Whatever the remote backend
  returns when the runner answers it, the database is unchanged; and the entries of the shared volume
  are unchanged, or the stored decision, approval and run authorised the action, the gateway checked its
  scope, and every entry that changed lies strictly below the directory of this run on the runner's
  side and is neither a blocked path of the run's scope nor below one, for the blocked paths whose
  components have no outer blanks (with one the code does not recognise an ancestor, see
  \<open>blank_ancestor_unprotected\<close>).
\<close>

theorem remote_effects_confined:
  assumes "re_post E = runner_link W R cfg now now' s rw"
    and "execute_remote E a ws0 (Some d) app True (Some sc) run_workspace w = (r, w')" and "docker_disk R"
    and "os_resolve (dk_view (w_disk w)) (rc_workspace cfg) = Some base"
    and "os_resolve (dk_view (w_disk w)) (base @ [if truthy run_workspace then or_empty run_workspace else act_run_id a])
      = Some ws"
    and "host_ok (de_host R (w_disk w))" and "real_path (de_host R (w_disk w)) ws"
  shows "db w' = db w
    \<and> (de_host R (w_disk w') = de_host R (w_disk w)
       \<or> dispatch_authorised (db w) a d app \<and> scope_checked E a ws0 sc (w_disk w)
         \<and> (\<forall>q. de_host R (w_disk w') q \<noteq> de_host R (w_disk w) q \<longrightarrow>
              (\<exists>rel. q = ws @ rel \<and> rel \<noteq> [] \<and>
                    (\<forall>b \<in> set (blocked_paths sc). trimmed (normalize_relative_segments b)
                       \<longrightarrow> \<not> prefix (normalize_relative_segments b) rel))))"
  using linked_effects[OF assms] by (auto simp: inside_def below_blocked_def)

definition linked_remote :: remote_env where
  "linked_remote = demo_remote\<lparr>re_post := runner_link demo_wire demo_docker demo_runner 101 101 [] docker_world\<rparr>"

theorem remote_effects_confined_witness:
  "de_host demo_docker (w_disk (snd (execute_remote linked_remote demo_write_action [''ws'']
     (Some (demo_decision PO_ALLOW demo_write_action)) None True (Some demo_scope) (Some ''ws'') docker_world)))
     [''ws'', ''invoices'', ''private'', ''x''] = None"
proof -
  let ?run = "execute_remote linked_remote demo_write_action [''ws'']
     (Some (demo_decision PO_ALLOW demo_write_action)) None True (Some demo_scope) (Some ''ws'') docker_world"
  let ?q = "[''ws'', ''invoices'', ''private'', ''x'']"
  have link: "re_post linked_remote = runner_link demo_wire demo_docker demo_runner 101 101 [] docker_world"
    by (simp add: linked_remote_def)
  have run: "?run = (fst ?run, snd ?run)" by simp
  have paths: "os_resolve (dk_view (w_disk docker_world)) (rc_workspace demo_runner) = Some []"
    "os_resolve (dk_view (w_disk docker_world)) ([] @ [if truthy (Some ''ws'') then or_empty (Some ''ws'')
       else act_run_id demo_write_action]) = Some [''ws'']"
    by (simp_all add: docker_world_def demo_runner_def truthy_def)
  note kept = remote_effects_confined[OF link run demo_docker_disk paths docker_world_ok]
  have "below_blocked (blocked_paths demo_scope) [''invoices'', ''private'', ''x'']" by code_simp
  with kept have "de_host demo_docker (w_disk (snd ?run)) ?q = de_host demo_docker (w_disk docker_world) ?q"
    unfolding below_blocked_def by force
  then show ?thesis by (simp add: docker_world_host)
qed

end
