(* ===== verification/ClaudeHook.thy ===== *)
theory ClaudeHook
  imports Executor
begin

text \<open>
  \<open>backend/scopewatch/claude_hook.py\<close>: the preflight hook that asks the local gateway for a preview
  before a native tool of the editor runs. It prints one permission decision and never allows by
  itself. The gateway connection (\<open>hk_post\<close>, \<open>None\<close> where the client raises, on a state of its own),
  \<open>json.loads\<close> and the two resolutions of a path are an environment; \<open>urlsplit\<close> is the standard
  library's.
\<close>

definition MAX_INPUT_BYTES :: nat where "MAX_INPUT_BYTES = 64 * 1024"

definition hook_decision :: "pystr \<Rightarrow> pystr \<Rightarrow> json" where
  "hook_decision value reason =
     JObj [(''hookSpecificOutput'',
            JObj [(''hookEventName'', JStr ''PreToolUse''), (''permissionDecision'', JStr value),
                  (''permissionDecisionReason'', JStr reason)])]"

section \<open>Splitting the gateway's URL\<close>

record split_url =
  su_scheme :: pystr
  su_netloc :: pystr
  su_path :: pystr
  su_query :: pystr
  su_fragment :: pystr

definition until :: "pystr \<Rightarrow> pystr \<Rightarrow> pystr" where
  "until stops s = takeWhile (\<lambda>c. c \<notin> set stops) s"

definition from_first :: "pystr \<Rightarrow> pystr \<Rightarrow> pystr" where
  "from_first stops s = dropWhile (\<lambda>c. c \<notin> set stops) s"

definition url_scheme_char :: "char \<Rightarrow> bool" where
  "url_scheme_char c \<longleftrightarrow>
     (let n = (of_char c :: nat)
      in (65 \<le> n \<and> n \<le> 90) \<or> (97 \<le> n \<and> n \<le> 122) \<or> (48 \<le> n \<and> n \<le> 57) \<or> c \<in> set ''+-.'')"

definition letter :: "char \<Rightarrow> bool" where
  "letter c \<longleftrightarrow> (let n = (of_char c :: nat) in (65 \<le> n \<and> n \<le> 90) \<or> (97 \<le> n \<and> n \<le> 122))"

text \<open>
  \<open>urlsplit\<close>: \<open>None\<close> where it raises (brackets in the authority that do not match). The split of the
  authority into user information, host and port comes after it.
\<close>

definition urlsplit :: "pystr \<Rightarrow> split_url option" where
  "urlsplit s =
     (let url = filter (\<lambda>c. c \<notin> {CHR 0x09, CHR 0x0A, CHR 0x0D}) (dropWhile (\<lambda>c. (of_char c :: nat) \<le> 32) s);
          before = until '':'' url;
          schemed = (before \<noteq> url \<and> before \<noteq> [] \<and> letter (hd before) \<and> list_all url_scheme_char before);
          scheme = (if schemed then lower before else []);
          rest = (if schemed then tl (from_first '':'' url) else url);
          has_netloc = starts_with rest ''//'';
          netloc = (if has_netloc then until ''/?#'' (drop 2 rest) else []);
          rest2 = (if has_netloc then from_first ''/?#'' (drop 2 rest) else rest);
          rest3 = until ''#'' rest2
      in if (CHR ''['' \<in> set netloc) \<noteq> (CHR '']'' \<in> set netloc) then None
         else Some \<lparr>su_scheme = scheme, su_netloc = netloc, su_path = until ''?'' rest3,
                    su_query = drop 1 (from_first ''?'' rest3),
                    su_fragment = drop 1 (from_first ''#'' rest2)\<rparr>)"

definition rpartition_at :: "pystr \<Rightarrow> pystr option \<times> pystr" where
  "rpartition_at s =
     (if CHR ''@'' \<in> set s
      then (Some (rev (drop 1 (from_first ''@'' (rev s)))), rev (until ''@'' (rev s)))
      else (None, s))"

definition url_username :: "split_url \<Rightarrow> pystr" where
  "url_username u = (case fst (rpartition_at (su_netloc u)) of None \<Rightarrow> [] | Some i \<Rightarrow> until '':'' i)"

definition url_password :: "split_url \<Rightarrow> pystr" where
  "url_password u =
     (case fst (rpartition_at (su_netloc u)) of None \<Rightarrow> [] | Some i \<Rightarrow> drop 1 (from_first '':'' i))"

definition url_hostname :: "split_url \<Rightarrow> pystr" where
  "url_hostname u =
     (let info = snd (rpartition_at (su_netloc u))
      in lower (if CHR ''['' \<in> set info then until '']'' (drop 1 (from_first ''['' info))
                else until '':'' info))"

definition local_gateway :: "pystr \<Rightarrow> bool" where
  "local_gateway url =
     (case urlsplit url of
        None \<Rightarrow> False
      | Some u \<Rightarrow>
          su_scheme u = ''http'' \<and> url_hostname u \<in> {''127.0.0.1'', ''localhost'', ''::1''}
          \<and> url_username u = [] \<and> url_password u = [] \<and> (su_path u = [] \<or> su_path u = ''/'')
          \<and> su_query u = [] \<and> su_fragment u = [])"

section \<open>Mapping a native tool\<close>

record 'w hook_env =
  hk_resolve_strict :: "path \<Rightarrow> path option"
  hk_resolve :: "path \<Rightarrow> path option"
  hk_loads :: "pystr \<Rightarrow> json option"
  hk_post :: "pystr \<Rightarrow> pystr \<Rightarrow> jobj \<Rightarrow> pystr option \<Rightarrow> 'w \<Rightarrow> (nat \<times> json option) option \<times> 'w"

definition hook_error :: "pystr \<Rightarrow> exc" where "hook_error msg = Py_error ''ValueError'' msg"

definition map_tool :: "'w hook_env \<Rightarrow> jobj \<Rightarrow> path \<Rightarrow> exc + jobj" where
  "map_tool K payload workspace =
     (if jget payload ''hook_event_name'' \<noteq> JStr ''PreToolUse'' then Inl (hook_error ''Unsupported event'')
      else
        let name = jget payload ''tool_name'' in
        case (if name = JStr ''Read'' \<or> name = JStr ''Write'' then jget payload ''tool_input'' else JNull) of
          JObj args \<Rightarrow>
            (case jget args ''file_path'' of
               JStr p \<Rightarrow>
                 if p = [] \<or> CHR 0x00 \<in> set p then Inl (hook_error ''Invalid path'')
                 else (case hk_resolve_strict K workspace of
                     None \<Rightarrow> Inl (Py_error ''OSError'' [])
                   | Some root \<Rightarrow>
                       (let native = (if starts_with p ''/'' then pure_path_parts p
                                      else root @ pure_path_parts p)
                        in case hk_resolve K native of
                             None \<Rightarrow> Inl (Py_error ''OSError'' [])
                           | Some q \<Rightarrow>
                               (case relative_to q root of
                                  None \<Rightarrow> Inl (hook_error [])
                                | Some rel \<Rightarrow>
                                    (let res = (if rel = [] then ''.'' else join ''/'' rel);
                                         request = (\<lambda>args. [(''tool'', JStr ''workspace''),
                                           (''operation'', JStr (if name = JStr ''Read'' then ''read_text'' else ''write_text'')),
                                           (''resource'', JStr res), (''arguments'', JObj args),
                                           (''requested_by'', JStr ''claude-code-preflight''),
                                           (''reasoning_provenance'', JStr ''UNAVAILABLE'')])
                                     in if name = JStr ''Read'' then Inr (request [(''path'', JStr res)])
                                        else case jget args ''content'' of
                                          JStr c \<Rightarrow> Inr (request [(''path'', JStr res), (''content'', JStr c)])
                                        | _ \<Rightarrow> Inl (hook_error ''Invalid write content'')))))
             | _ \<Rightarrow> Inl (hook_error ''Invalid path''))
        | _ \<Rightarrow> Inl (hook_error ''Unsupported native tool''))"

section \<open>The preflight and the program\<close>

definition preview_path :: "pystr \<Rightarrow> pystr" where
  "preview_path run_id = ''/api/v1/runs/'' @ run_id @ ''/actions/preview''"

definition failed_preflight :: json where
  "failed_preflight = hook_decision ''deny''
     ''Scopewatch preflight failed or tool/path unsupported; native action blocked.''"

definition preflight ::
  "'w hook_env \<Rightarrow> pystr \<Rightarrow> jobj \<Rightarrow> pystr \<Rightarrow> path \<Rightarrow> pystr option \<Rightarrow> 'w \<Rightarrow> json \<times> 'w" where
  "preflight K base_url payload run_id workspace token w =
     (case map_tool K payload workspace of
        Inl e \<Rightarrow> (failed_preflight, w)
      | Inr request \<Rightarrow>
          (case hk_post K base_url (preview_path run_id) request (if truthy token then token else None) w of
             (answer, w') \<Rightarrow>
               (case answer of
                  None \<Rightarrow> failed_preflight
                | Some (status, body) \<Rightarrow>
                    if status \<noteq> 200
                    then hook_decision ''deny'' ''Scopewatch preflight unavailable; native action blocked.''
                    else (case body of
                        Some (JObj reply) \<Rightarrow>
                          (case jget reply ''outcome'' of
                             JStr oc \<Rightarrow>
                               if oc = ''DENY''
                               then hook_decision ''deny'' ''Scopewatch deterministic scope denies this native action.''
                               else if oc = ''ALLOW'' \<or> oc = ''HOLD''
                               then hook_decision ''ask'' (''Scopewatch preview '' @ oc
                                      @ '': preflight only, not execution authorization. ''
                                      @ ''Native execution is outside gateway evidence; no reasoning audit ran.'')
                               else failed_preflight
                           | _ \<Rightarrow> failed_preflight)
                      | _ \<Rightarrow> failed_preflight), w')))"

definition run_id_char :: "char \<Rightarrow> bool" where
  "run_id_char c \<longleftrightarrow> letter c \<or> (48 \<le> (of_char c :: nat) \<and> (of_char c :: nat) \<le> 57) \<or> c = CHR ''-'' \<or> c = CHR ''_''"

definition hook_invalid :: json where
  "hook_invalid = hook_decision ''deny''
     ''Scopewatch hook configuration or input invalid; native action blocked.''"

text \<open>\<open>main\<close> prints one decision and returns 0. \<open>stdin\<close> is what there is to read (\<open>None\<close>: it raises).\<close>

definition hook_gateway :: "environ \<Rightarrow> pystr" where
  "hook_gateway env = (case env ''SCOPEWATCH_HOOK_GATEWAY'' of None \<Rightarrow> ''http://127.0.0.1:8000'' | Some u \<Rightarrow> u)"

definition hook_main :: "'w hook_env \<Rightarrow> environ \<Rightarrow> pystr option \<Rightarrow> 'w \<Rightarrow> json \<times> 'w" where
  "hook_main K env stdin w =
     (case map_option (take (MAX_INPUT_BYTES + 1)) stdin of
        None \<Rightarrow> (hook_invalid, w)
      | Some raw \<Rightarrow>
          if MAX_INPUT_BYTES < length raw then (hook_invalid, w)
          else (case hk_loads K raw of
              Some (JObj payload) \<Rightarrow>
                if \<not> local_gateway (hook_gateway env) then (hook_invalid, w)
                else (case env ''SCOPEWATCH_HOOK_RUN_ID'' of
                    None \<Rightarrow> (hook_invalid, w)
                  | Some run_id \<Rightarrow>
                      if run_id = [] \<or> \<not> list_all run_id_char run_id then (hook_invalid, w)
                      else (case env ''SCOPEWATCH_HOOK_WORKSPACE'' of
                          None \<Rightarrow> (hook_invalid, w)
                        | Some ws \<Rightarrow>
                            preflight K (hook_gateway env) payload run_id (pure_path_parts ws) (env ''DEMO_TOKEN'') w))
            | _ \<Rightarrow> (hook_invalid, w)))"

section \<open>Lemmas\<close>

definition asks :: "json \<Rightarrow> bool" where
  "asks out \<longleftrightarrow> (\<exists>reason. out = hook_decision ''ask'' reason)"

definition denies :: "json \<Rightarrow> bool" where
  "denies out \<longleftrightarrow> (\<exists>reason. out = hook_decision ''deny'' reason)"

lemma decision_kinds [simp]:
  "denies (hook_decision ''deny'' r)" "asks (hook_decision ''ask'' r)"
  "\<not> asks (hook_decision ''deny'' r)" "denies failed_preflight" "\<not> asks failed_preflight"
  "denies hook_invalid" "\<not> asks hook_invalid"
  by (auto simp: asks_def denies_def hook_decision_def failed_preflight_def hook_invalid_def)

text \<open>
  The request a native tool stands for: a Read or Write of a path that resolves inside the resolved
  workspace, as the same operation on the path below the workspace.
\<close>

definition previews_tool :: "'w hook_env \<Rightarrow> jobj \<Rightarrow> path \<Rightarrow> jobj \<Rightarrow> bool" where
  "previews_tool K payload workspace request \<longleftrightarrow>
     jget payload ''hook_event_name'' = JStr ''PreToolUse''
     \<and> (\<exists>args p root rel res.
          jget payload ''tool_input'' = JObj args \<and> jget args ''file_path'' = JStr p \<and> p \<noteq> [] \<and> CHR 0x00 \<notin> set p
          \<and> hk_resolve_strict K workspace = Some root
          \<and> hk_resolve K (if starts_with p ''/'' then pure_path_parts p else root @ pure_path_parts p) = Some (root @ rel)
          \<and> res = (if rel = [] then ''.'' else join ''/'' rel)
          \<and> jget request ''tool'' = JStr ''workspace'' \<and> jget request ''resource'' = JStr res
          \<and> jget request ''reasoning_provenance'' = JStr ''UNAVAILABLE''
          \<and> (jget payload ''tool_name'' = JStr ''Read'' \<and> jget request ''operation'' = JStr ''read_text''
               \<and> jget request ''arguments'' = JObj [(''path'', JStr res)]
             \<or> jget payload ''tool_name'' = JStr ''Write'' \<and> jget request ''operation'' = JStr ''write_text''
               \<and> (\<exists>c. jget args ''content'' = JStr c
                    \<and> jget request ''arguments'' = JObj [(''path'', JStr res), (''content'', JStr c)])))"

lemma map_tool_previews:
  assumes "map_tool K payload ws = Inr request"
  shows "previews_tool K payload ws request"
proof -
  let ?name = "jget payload ''tool_name''"
  from assms have event: "jget payload ''hook_event_name'' = JStr ''PreToolUse''"
    and name: "?name = JStr ''Read'' \<or> ?name = JStr ''Write''"
    by (auto simp: map_tool_def Let_def split: if_splits)
  from assms event name obtain args where args: "jget payload ''tool_input'' = JObj args"
    by (auto simp: map_tool_def Let_def split: if_splits json.splits)
  from assms event name args obtain p where p: "jget args ''file_path'' = JStr p" "p \<noteq> []" "CHR 0x00 \<notin> set p"
    by (auto simp: map_tool_def Let_def split: if_splits json.splits)
  from assms event name args p obtain root where root: "hk_resolve_strict K ws = Some root"
    by (auto simp: map_tool_def Let_def split: if_splits option.splits)
  let ?native = "if starts_with p ''/'' then pure_path_parts p else root @ pure_path_parts p"
  from assms event name args p root obtain q rel where q: "hk_resolve K ?native = Some q" "relative_to q root = Some rel"
    by (auto simp: map_tool_def Let_def split: if_splits option.splits)
  then have q': "hk_resolve K ?native = Some (root @ rel)" by (simp add: relative_to_Some)
  let ?res = "if rel = [] then ''.'' else join ''/'' rel"
  from assms event name args p root q
  have sent: "jget request ''tool'' = JStr ''workspace'' \<and> jget request ''resource'' = JStr ?res
      \<and> jget request ''reasoning_provenance'' = JStr ''UNAVAILABLE''
      \<and> (?name = JStr ''Read'' \<and> jget request ''operation'' = JStr ''read_text''
           \<and> jget request ''arguments'' = JObj [(''path'', JStr ?res)]
         \<or> ?name = JStr ''Write'' \<and> jget request ''operation'' = JStr ''write_text''
           \<and> (\<exists>c. jget args ''content'' = JStr c
                \<and> jget request ''arguments'' = JObj [(''path'', JStr ?res), (''content'', JStr c)]))"
    by (cases "?name = JStr ''Read''"; cases "jget args ''content''")
      (auto simp: map_tool_def Let_def jget_def[of "(_, _) # _"] split: if_splits)
  show ?thesis
    unfolding previews_tool_def using event args p root q' sent by blast
qed

text \<open>What a preflight does: nothing but to deny, or one request for the preview and a decision on its answer.\<close>

definition one_preview ::
  "'w hook_env \<Rightarrow> pystr \<Rightarrow> jobj \<Rightarrow> pystr \<Rightarrow> path \<Rightarrow> pystr option \<Rightarrow> 'w \<Rightarrow> json \<times> 'w \<Rightarrow> bool" where
  "one_preview K url payload run_id ws token w r \<longleftrightarrow>
     (\<exists>request answer. previews_tool K payload ws request
        \<and> hk_post K url (preview_path run_id) request (if truthy token then token else None) w = (answer, snd r)
        \<and> (if \<exists>reply oc. answer = Some (200, Some (JObj reply)) \<and> jget reply ''outcome'' = JStr oc \<and> (oc = ''ALLOW'' \<or> oc = ''HOLD'')
           then asks (fst r) else denies (fst r)))"

lemma preflight_decides:
  "preflight K url payload run_id ws token w = (failed_preflight, w)
   \<or> one_preview K url payload run_id ws token w (preflight K url payload run_id ws token w)"
proof (cases "map_tool K payload ws")
  case (Inr request)
  obtain answer w' where post: "hk_post K url (preview_path run_id) request (if truthy token then token else None) w = (answer, w')"
    by fastforce
  have "one_preview K url payload run_id ws token w (preflight K url payload run_id ws token w)"
    unfolding one_preview_def
    by (intro exI[where x = request] exI[where x = answer] conjI, rule map_tool_previews[OF Inr])
      (auto simp: preflight_def Inr post split: option.splits json.splits)
  then show ?thesis ..
qed (simp add: preflight_def)

lemma hook_main_cases:
  "hook_main K env stdin w = (hook_invalid, w)
   \<or> (\<exists>raw payload run_id ws. stdin = Some raw \<and> length raw \<le> MAX_INPUT_BYTES
        \<and> hk_loads K raw = Some (JObj payload) \<and> local_gateway (hook_gateway env)
        \<and> env ''SCOPEWATCH_HOOK_RUN_ID'' = Some run_id \<and> run_id \<noteq> [] \<and> list_all run_id_char run_id
        \<and> env ''SCOPEWATCH_HOOK_WORKSPACE'' = Some ws
        \<and> hook_main K env stdin w
            = preflight K (hook_gateway env) payload run_id (pure_path_parts ws) (env ''DEMO_TOKEN'') w)"
  by (auto simp: hook_main_def split: option.split json.split)

section \<open>Properties\<close>

text \<open>
  C16: the hook never allows by itself. Whatever it is given, it either denies and asks nobody, or the input
  was within the limit and well formed, the configured gateway is local, and the hook sent it exactly one
  request, the preview of the configured run for what the native Read or Write stands for in the
  configured workspace, and then asks the user if the answer was 200 with ALLOW or HOLD and denies
  otherwise.
\<close>

theorem hook_denies_or_asks:
  "denies (fst (hook_main K env stdin w)) \<and> snd (hook_main K env stdin w) = w
   \<or> (\<exists>raw payload run_id ws.
        stdin = Some raw \<and> length raw \<le> MAX_INPUT_BYTES \<and> hk_loads K raw = Some (JObj payload)
        \<and> local_gateway (hook_gateway env)
        \<and> env ''SCOPEWATCH_HOOK_RUN_ID'' = Some run_id \<and> run_id \<noteq> [] \<and> list_all run_id_char run_id
        \<and> env ''SCOPEWATCH_HOOK_WORKSPACE'' = Some ws
        \<and> one_preview K (hook_gateway env) payload run_id (pure_path_parts ws) (env ''DEMO_TOKEN'') w
            (hook_main K env stdin w))"
proof (cases "hook_main K env stdin w = (hook_invalid, w)")
  case False
  with hook_main_cases[of K env stdin w] obtain raw payload run_id ws
    where main: "stdin = Some raw" "length raw \<le> MAX_INPUT_BYTES" "hk_loads K raw = Some (JObj payload)"
        "local_gateway (hook_gateway env)" "env ''SCOPEWATCH_HOOK_RUN_ID'' = Some run_id" "run_id \<noteq> []"
        "list_all run_id_char run_id" "env ''SCOPEWATCH_HOOK_WORKSPACE'' = Some ws"
      and out: "hook_main K env stdin w
        = preflight K (hook_gateway env) payload run_id (pure_path_parts ws) (env ''DEMO_TOKEN'') w"
    by blast
  from preflight_decides[of K "hook_gateway env" payload run_id "pure_path_parts ws" "env ''DEMO_TOKEN''" w] main
  show ?thesis unfolding out by auto
qed simp

end
