(* ===== verification/Spec2Isabelle.thy ===== *)
theory Spec2Isabelle
  imports PolicyProps DispatchGate Provenance Schemas BudgetStore DemoGuards TieredAudit
    Concurrency EvidenceProps Retention HttpApp EventStream AgentProps AuditGate RemoteRunner
    ClaudeHook
begin

text \<open>
  Scopewatch is a gateway between AI agents and a workspace. An agent submits an action against a
  run; the gateway decides it by a deterministic policy over the run's task scope, lets a reasoning
  auditor make the decision stricter (never weaker), holds what needs a human, executes what is
  authorised, and records everything as evidence. The gateway is \<open>backend/scopewatch/\<close>; all paths
  below are relative to it.

  Parts and theories, bottom up.

  \<^item> \<open>Prelude\<close>: Python strings, \<open>int\<close>/\<open>str\<close>/\<open>repr\<close>, the JSON values of \<open>dict[str, Any]\<close>. Strings are
    lists of 8-bit characters; case folding and UTF-8 lengths are exact on that range.
  \<^item> \<open>Models\<close>, \<open>Schemas\<close>: \<open>models.py\<close> and \<open>schemas.py\<close>, one datatype per enumeration and one record per
    domain object; the policy identity; the bound on argument strings.
  \<^item> \<open>ScopePaths\<close>: \<open>scope_paths.py\<close> and \<open>path_access.py\<close> over a view of the file system (\<open>fsview\<close>: what
    \<open>stat\<close>, \<open>resolve\<close> and \<open>is_symlink\<close> answer); the volume probe with its cache as explicit state.
  \<^item> \<open>Shlex\<close>, \<open>Policy\<close>, \<open>PolicyProps\<close>: \<open>policy.py\<close> and the standard library's \<open>shlex.split\<close>, and a
    declarative specification the rule chain refines.
  \<^item> \<open>DispatchGate\<close>, \<open>Provenance\<close>, \<open>BudgetStore\<close>, \<open>DemoGuards\<close>, \<open>TieredAudit\<close>: the modules of those names.
  \<^item> \<open>Store\<close>, \<open>Repository\<close>, \<open>RepositoryProps\<close>: \<open>db.py\<close> and \<open>repository.py\<close>. A table is a list of rows in
    rowid order, an operation is a state monad \<open>'a tx\<close> over the \<open>world\<close> (database, identifier and clock
    sources, published events, token ledger, demo guards, disk) that returns a value or a Python
    exception; \<open>db_transaction\<close> commits or rolls back the database and nothing else.
  \<^item> \<open>Executor\<close>: \<open>executor.py\<close>, the local backend and the choice of a backend. What the operating system
    may refuse (a probe, an \<open>open\<close>, a directory listing, a write) is an answer of the record \<open>os_env\<close>.
  \<^item> \<open>DockerFiles\<close>, \<open>CopyBack\<close>, \<open>CopyBackProps\<close>, \<open>DockerJob\<close>: \<open>docker_job.py\<close>: the staged copy of a workspace
    without its blocked paths, the copy of the container's changes back to the host (a map from
    locations to directories, files and links), the job, its command line, the bounded reading of a
    container's output, and the program that runs inside. \<open>ExecutorDocker\<close>, \<open>DockerProps\<close>:
    \<open>executor_docker.py\<close>, the backend built from them; the daemon and the container are an environment.
  \<^item> \<open>ExecutorRemote\<close>, \<open>RemoteProps\<close>: \<open>executor_remote.py\<close>, the backend that signs a dispatch and sends it to
    the runner. \<open>Runner\<close>, \<open>RunnerDispatch\<close>, \<open>RunnerProps\<close>: \<open>deploy/executor-runner/runner.py\<close>, the sidecar
    with its token store, its checks of a dispatch and the container it runs. \<open>RemoteRunner\<close> links both.
  \<^item> \<open>Service\<close>, \<open>SubmitAction\<close>, \<open>ResolveApproval\<close>, \<open>RunLifecycle\<close>: the handlers of \<open>service.py\<close>, each with
    its transactions in the order of the code. The \<open>gateway\<close> record holds what the service object
    holds, plus what it calls outside the model (the auditor, the execution backend, the workspace
    manager, SHA-256, \<open>json.dumps\<close> of the scope, \<open>isoformat\<close>).
  \<^item> \<open>ServiceContract\<close>, \<open>Escalation\<close>, \<open>Journal\<close>: what every handler keeps of the database, what the
    reasoning layer may do to a decision, what the evidence says about dispatches.
  \<^item> \<open>Interleaving\<close>, \<open>Concurrency\<close>: the interleaving semantics of concurrent requests over one database
    (\<open>step\<close>, \<open>reachable\<close>), its invariant, and the proof that the handlers are paths of it.
  \<^item> \<open>Workspaces\<close>, \<open>Retention\<close>: \<open>workspaces.py\<close>, the directory of each run, and \<open>retention.py\<close>, the operator
    sweep that removes them; what the standard library does to whole trees is an operation of the
    environment.
  \<^item> \<open>EvidenceChain\<close>, \<open>EvidenceProps\<close>: \<open>evidence_chain.py\<close>, the hash chain over exported events and its
    verifier.

  \<^item> \<open>Ingress\<close>, \<open>HttpAuth\<close>, \<open>HttpApp\<close>: \<open>ingress.py\<close>, the bound on request bodies over the messages of the
    ASGI channel; \<open>app.py\<close>, \<open>errors.py\<close>, \<open>config.py\<close>: the credentials and their comparison, the
    middleware stack in its order, every route, the error handlers and the demo administration.
    The path and method a request has, and which of its body validate, are the framework's.
  \<^item> \<open>EventStream\<close>: \<open>events.py\<close> and the streaming route of \<open>app.py\<close>: the broadcaster with its bounded
    queues, the generator of one stream, and the interleaving of both with commits.
  \<^item> \<open>AgentTools\<close>, \<open>AgentPrompt\<close>, \<open>AgentLoop\<close>, \<open>AgentProps\<close>: \<open>agent/\<close>, the agent that drives the gateway
    over HTTP: the tool table and the conversion of tool calls, the prompt, the turn loop with its
    limits, the wait for a reviewer, the completion of the run. The gateway connection, the clock
    and the model are an environment that answers from its own state.
  \<^item> \<open>AuditPrompt\<close>, \<open>AuditOutput\<close>, \<open>MockAuditor\<close>, \<open>AuditTurn\<close>: \<open>reasoning_audit.py\<close>: the prompt and the
    neutralising of untrusted text, the parsing and grounding of the answer, the offline mock, the
    engine with its time limit. \<open>ProviderClient\<close> is \<open>providers/client.py\<close>: retries, metering, the
    response and the reasoning it exposes. \<open>AuditGate\<close> composes the auditor with the gateway.
  \<^item> \<open>ClaudeHook\<close>: \<open>claude_hook.py\<close>, the preflight hook of an editor; the gateway it asks has a state of its
    own, so that the number of requests is observable.

  Interfaces. \<open>store_relation\<close> is a reflexive and transitive relation on databases; it composes along the
  monad. \<open>repository_contract\<close> extends it by the laws of the single-table operations, given which event
  types, run statuses and submissions are allowed; every handler keeps every relation with these
  laws, which is proved once. It is interpreted by well-formedness (\<open>wf\<close>), append-only evidence
  (\<open>append\<close>), forward-only approvals (\<open>forward\<close>), the dispatch invariant (\<open>sound\<close>) and the flights of an
  execution (\<open>flight\<close>). \<open>executor_backend\<close> states what an execution backend does to the database
  (nothing) and is interpreted by the local, the Docker and the remote backend, \<open>dispatch_gate\<close> states what a gate
  promises, \<open>scope_matcher\<close> what a prefix matcher promises, \<open>protected_paths\<close> when a blocked-path test
  protects a location through the whole copy-back (interpreted by the folded comparison and by the
  gateway's matcher), \<open>disk_frame\<close> and its extension \<open>receipt_frame\<close> what steps over the disk may change;
  each is interpreted by the model's own definitions.

  Properties. The policy refines its specification, and what it permits stays in scope; no approval
  is resolved without the reviewer credential, nothing that changes state is reached without
  admission, and an allowed action whose run asks for reasoning was cleared by the auditor, which
  fails closed (a late call and an auditor that cannot be built included) and whose provider sees the
  complete reasoning in an intact region or nothing at all; the local executor only
  writes inside the scope and only runs what is authorised by the stored decision and a single-use
  approval; the container of the Docker backend never sees a blocked path, changes nothing outside the
  workspace and nothing blocked in it, and its program agrees with the local backend, errors of the
  operating system included; the runner
  admits what the gateway prepares, uses a dispatch token once, and changes only the directory of the
  run; the reasoning layer only escalates; every sequence of service requests keeps the database well
  formed, and HTTP requests only append evidence but for an admitted demo reset; under every interleaving an action is handed to the executor at
  most once, with the permitting evidence committed before, and no run is closed under an execution
  in flight; a pinned head fixes the whole evidence chain and the verifier accepts exactly the intact
  chains in legal order; a resumed event stream misses nothing and sends nothing twice; the agent run
  returns, within its bounds. The remaining ones are about the guards, the tiered auditor, the
  providers, path matching, provenance, workspaces and retention. Where the code does not do what it
  means to, a lemma states what it does (\<open>settle_across_midnight_loses_spend\<close>,
  \<open>zero_rate_limit_raises\<close>, \<open>padded_demo_token_locks_out\<close>, \<open>quoting_smuggles_dollar_paren\<close>,
  \<open>blank_detail_keeps_provenance\<close>, \<open>untyped_text_is_a_trace\<close>,
  \<open>copy_back_opens_files\<close>, \<open>blank_ancestor_unprotected\<close>, \<open>replay_at_deadline\<close>).

  Recursion. The recursions are structural or have a decreasing measure, so no fuel is used, except
  for three loops of the agent that the data does not bound (\<open>post_terminal\<close>, \<open>await_review\<close>,
  \<open>agent_loop\<close>) and the loop that reads a container (\<open>read_loop\<close>): these are partial functions with
  result \<open>None\<close> for a loop that does not end. \<open>agent_run_returns\<close> proves that a run returns when the
  clock advances and the gateway stops, at some time, to answer that an approved action is still in
  flight; \<open>container_output_bounded\<close> that the reading ends at its deadline. Machine integers do not occur:
  Python integers are \<open>int\<close> (or \<open>nat\<close> where the code only counts), instants are microseconds since
  the epoch, the runner's clock readings rational numbers of seconds.

  Not modelled. The agent client protocol, the command lines, the reading of provider profiles, the
  column migrations of \<open>db.py\<close>; the scripts, proofs of concept and front end, which are outside the
  gateway. \<open>json.loads\<close> and the conversions of pydantic
  are arguments, every read of a file or socket is I/O of an environment. Of concurrency, what the
  database lock makes atomic is atomic here; SQLite's own locking is taken as given.
\<close>

end
